(* ===== verification/Prelude.thy ===== *)
theory Prelude
  imports Main "HOL-Library.Sublist" "HOL-Library.Char_ord" "HOL-Library.List_Lexorder"
begin

text \<open>
  The prelude of the development: the Python values and the storage primitives that every
  component shares.

  \<^item> Python text is a \<open>string\<close> of ASCII characters; \<open>casefold\<close>, \<open>strip\<close>, \<open>split\<close> and
    the membership test of substrings are written out for such text (on ASCII text
    \<open>str.lower\<close> and \<open>str.casefold\<close> agree and the NFKC normal form is the identity).
  \<^item> A point in time is an \<open>int\<close>, the number of microseconds since the epoch, which is the
    resolution of a Python \<open>datetime\<close>.
  \<^item> An exception is a value of \<open>exn\<close>; an operation that can raise returns a sum with
    the exception on the left, paired with the database as the raise leaves it.
  \<^item> A table of the database is the list of its rows in insertion order; \<open>find_row\<close>,
    \<open>upd_row\<close> and \<open>insert_row\<close> are the primary-key access, the attribute update and the
    insertion of the object mapper. The locale \<open>table_rows\<close> gives their laws once for
    every row type.
\<close>

section \<open>Collections of rewrite rules\<close>

named_theorems store_simps \<open>what the storage primitives leave unchanged\<close>
named_theorems pytext \<open>evaluation of Python text operations\<close>


section \<open>Python text\<close>

definition py_isspace :: "char \<Rightarrow> bool" where
  "py_isspace c = (let n = (of_char c :: nat) in (9 \<le> n \<and> n \<le> 13) \<or> (28 \<le> n \<and> n \<le> 32))"

definition is_upper :: "char \<Rightarrow> bool" where
  "is_upper c = (let n = (of_char c :: nat) in 65 \<le> n \<and> n \<le> 90)"

definition is_lower :: "char \<Rightarrow> bool" where
  "is_lower c = (let n = (of_char c :: nat) in 97 \<le> n \<and> n \<le> 122)"

definition is_digit :: "char \<Rightarrow> bool" where
  "is_digit c = (let n = (of_char c :: nat) in 48 \<le> n \<and> n \<le> 57)"

definition is_alnum :: "char \<Rightarrow> bool" where
  "is_alnum c = (is_upper c \<or> is_lower c \<or> is_digit c)"

definition lower_char :: "char \<Rightarrow> char" where
  "lower_char c = (if is_upper c then char_of ((of_char c :: nat) + 32) else c)"

definition upper_char :: "char \<Rightarrow> char" where
  "upper_char c = (if is_lower c then char_of ((of_char c :: nat) - 32) else c)"

definition casefold :: "string \<Rightarrow> string" where
  "casefold s = map lower_char s"

definition upper :: "string \<Rightarrow> string" where
  "upper s = map upper_char s"

definition strip_with :: "(char \<Rightarrow> bool) \<Rightarrow> string \<Rightarrow> string" where
  "strip_with P s = rev (dropWhile P (rev (dropWhile P s)))"

definition strip :: "string \<Rightarrow> string" where
  "strip s = strip_with py_isspace s"

fun split_ws_from :: "string \<Rightarrow> string \<Rightarrow> string list" where
  "split_ws_from acc [] = (if acc = [] then [] else [rev acc])"
| "split_ws_from acc (c # cs) =
     (if py_isspace c
      then (if acc = [] then split_ws_from [] cs else rev acc # split_ws_from [] cs)
      else split_ws_from (c # acc) cs)"

definition split_ws :: "string \<Rightarrow> string list" where
  "split_ws s = split_ws_from [] s"

fun join :: "string \<Rightarrow> string list \<Rightarrow> string" where
  "join sep [] = []"
| "join sep [x] = x"
| "join sep (x # y # ys) = x @ sep @ join sep (y # ys)"

text \<open>\<open>s.split(d)\<close> for a one-character separator: always at least one part.\<close>

fun split_on :: "char \<Rightarrow> string \<Rightarrow> string list" where
  "split_on d [] = [[]]"
| "split_on d (c # cs) =
     (if c = d then [] # split_on d cs
      else (c # hd (split_on d cs)) # tl (split_on d cs))"

text \<open>\<open>needle in haystack\<close> on text.\<close>

fun py_in :: "string \<Rightarrow> string \<Rightarrow> bool" where
  "py_in p [] = (p = [])"
| "py_in p (c # cs) = (prefix p (c # cs) \<or> py_in p cs)"

definition startswith :: "string \<Rightarrow> string \<Rightarrow> bool" where
  "startswith s p = prefix p s"

definition endswith :: "string \<Rightarrow> string \<Rightarrow> bool" where
  "endswith s p = suffix p s"

definition replace_char :: "char \<Rightarrow> string \<Rightarrow> string \<Rightarrow> string" where
  "replace_char c r s = concat (map (\<lambda>x. if x = c then r else [x]) s)"

definition digit_char :: "nat \<Rightarrow> char" where
  "digit_char n = char_of (48 + n)"

fun str_nat :: "nat \<Rightarrow> string" where
  "str_nat n = (if n < 10 then [digit_char n] else str_nat (n div 10) @ [digit_char (n mod 10)])"

declare str_nat.simps [simp del]

definition str_int :: "int \<Rightarrow> string" where
  "str_int i = (if i < 0 then CHR ''-'' # str_nat (nat (- i)) else str_nat (nat i))"

text \<open>The truth value of an optional text: \<open>None\<close> and the empty text are false.\<close>

definition truthy :: "string option \<Rightarrow> bool" where
  "truthy x = (case x of None \<Rightarrow> False | Some s \<Rightarrow> s \<noteq> [])"

lemma py_in_sublist: "py_in p s = sublist p s"
  by (induction s) (auto simp: sublist_Cons_right)

lemma py_in_Nil [simp]: "py_in [] s"
  by (cases s) auto

lemma py_in_trans: "py_in p q \<Longrightarrow> py_in q s \<Longrightarrow> py_in p s"
  by (simp add: py_in_sublist)

lemma length_casefold [simp]: "length (casefold s) = length s"
  by (simp add: casefold_def)

lemma lower_not_upper [simp]: "\<not> is_upper (lower_char c)"
  by (auto simp: lower_char_def is_upper_def Let_def of_char_mod_256)

lemma lower_char_idem [simp]: "lower_char (lower_char c) = lower_char c"
  using lower_not_upper [of c] by (simp add: lower_char_def)

lemma casefold_idem [simp]: "casefold (casefold s) = casefold s"
  by (simp add: casefold_def)

lemma casefold_Nil_iff [simp]: "casefold s = [] \<longleftrightarrow> s = []"
  by (simp add: casefold_def)

lemma length_dropWhile_rev: "length (strip_with P s) \<le> length s"
  unfolding strip_with_def
  by (metis length_dropWhile_le length_rev order_trans)

lemma length_strip_le: "length (strip s) \<le> length s"
  by (simp add: strip_def length_dropWhile_rev)

lemma strip_sublist: "sublist (strip s) s"
proof -
  have "suffix (dropWhile py_isspace s) s" by (rule suffix_dropWhile)
  moreover have "prefix (strip s) (dropWhile py_isspace s)"
    unfolding strip_def strip_with_def
    using suffix_dropWhile [of py_isspace "rev (dropWhile py_isspace s)"]
    by (simp add: suffix_to_prefix)
  ultimately show ?thesis
    using prefix_imp_sublist suffix_imp_sublist sublist_order.order_trans by blast
qed

lemma split_on_not_Nil [simp]: "split_on d s \<noteq> []"
  by (cases s) auto

lemma split_on_no_sep: "p \<in> set (split_on d s) \<Longrightarrow> d \<notin> set p"
proof (induction s arbitrary: p)
  case Nil
  then show ?case by simp
next
  case (Cons c cs)
  show ?case
  proof (cases "c = d")
    case True
    with Cons show ?thesis by auto
  next
    case False
    have "hd (split_on d cs) \<in> set (split_on d cs)" by simp
    with Cons False show ?thesis
      by (cases "split_on d cs") auto
  qed
qed

lemma split_ws_from_parts:
  "\<forall>c \<in> set acc. \<not> py_isspace c \<Longrightarrow> p \<in> set (split_ws_from acc s) \<Longrightarrow>
     p \<noteq> [] \<and> (\<forall>c \<in> set p. \<not> py_isspace c)"
proof (induction s arbitrary: acc p)
  case Nil
  then show ?case by (auto split: if_splits)
next
  case (Cons c cs)
  show ?case
  proof (cases "py_isspace c")
    case True
    with Cons.prems have "(acc \<noteq> [] \<and> p = rev acc) \<or> p \<in> set (split_ws_from [] cs)"
      by (auto split: if_splits)
    with Cons.prems(1) Cons.IH [of "[]" p] show ?thesis by auto
  next
    case False
    with Cons.prems Cons.IH [of "c # acc" p] show ?thesis by simp
  qed
qed

lemma split_ws_parts:
  "p \<in> set (split_ws s) \<Longrightarrow> p \<noteq> [] \<and> (\<forall>c \<in> set p. \<not> py_isspace c)"
  using split_ws_from_parts [of "[]"] by (simp add: split_ws_def)


text \<open>Decimal text computed on integers, for evaluation.\<close>

function int_digits :: "int \<Rightarrow> string" where
  "int_digits i = (if i < 10 then [digit_char (nat i)]
                   else int_digits (i div 10) @ [digit_char (nat (i mod 10))])"
  by auto
termination by (relation "measure nat") auto

declare int_digits.simps [simp del]

lemma int_digits_nat: "int_digits (int n) = str_nat n"
proof (induction n rule: less_induct)
  case (less n)
  show ?case
  proof (cases "n < 10")
    case True
    then show ?thesis by (simp add: int_digits.simps [of "int n"] str_nat.simps [of n])
  next
    case False
    with less [of "n div 10"] have "int_digits (int n div 10) = str_nat (n div 10)"
      by (simp add: zdiv_int)
    moreover have "nat (int n mod 10) = n mod 10" by (simp add: nat_mod_as_int)
    ultimately show ?thesis
      using False by (simp add: int_digits.simps [of "int n"] str_nat.simps [of n])
  qed
qed

lemma str_int_code [code]:
  "str_int i = (if i < 0 then CHR ''-'' # int_digits (- i) else int_digits i)"
  using int_digits_nat [of "nat i"] int_digits_nat [of "nat (- i)"]
  by (auto simp: str_int_def split: if_splits)

lemma split_on_code [code]:
  "split_on d [] = [[]]"
  "split_on d (c # cs) =
     (case split_on d cs of
        [] \<Rightarrow> []
      | p # ps \<Rightarrow> if c = d then [] # p # ps else (c # p) # ps)"
  by (simp_all split: list.split)


section \<open>Time\<close>

type_synonym time = int

definition seconds :: "int \<Rightarrow> time" where "seconds n = n * 1000000"
definition minutes :: "int \<Rightarrow> time" where "minutes n = seconds (60 * n)"
definition hours :: "int \<Rightarrow> time" where "hours n = minutes (60 * n)"
definition days :: "int \<Rightarrow> time" where "days n = hours (24 * n)"

lemmas time_defs = seconds_def minutes_def hours_def days_def


section \<open>Exceptions\<close>

datatype exn =
    HTTPException nat string
  | ValueError string
  | PasswordPolicyError string
  | ManagementRateLimitError string
  | EnrollmentExpiredError string
  | EnrollmentRateLimitError string
  | InvalidEnrollmentCodeError string
  | SecretLoadError string
  | ConfigurationError string
  | KeyError string
  | TypeError string
  | AttributeError string
  | OverflowError string
  | RuleValidationError string
  | ImportError string
  | IntegrityError
  | ObjectDeletedError

text \<open>The classes of the source that derive from \<open>ValueError\<close> are caught by \<open>except ValueError\<close>.\<close>

fun is_ValueError :: "exn \<Rightarrow> bool" where
  "is_ValueError (ValueError _) = True"
| "is_ValueError (PasswordPolicyError _) = True"
| "is_ValueError (ManagementRateLimitError _) = True"
| "is_ValueError (EnrollmentExpiredError _) = True"
| "is_ValueError (EnrollmentRateLimitError _) = True"
| "is_ValueError (InvalidEnrollmentCodeError _) = True"
| "is_ValueError (SecretLoadError _) = True"
| "is_ValueError (RuleValidationError _) = True"
| "is_ValueError (ImportError _) = True"
| "is_ValueError _ = False"

text \<open>\<open>str(exc)\<close> of the message-carrying exceptions.\<close>

fun exn_message :: "exn \<Rightarrow> string" where
  "exn_message (HTTPException _ m) = m"
| "exn_message (ValueError m) = m"
| "exn_message (PasswordPolicyError m) = m"
| "exn_message (ManagementRateLimitError m) = m"
| "exn_message (EnrollmentExpiredError m) = m"
| "exn_message (EnrollmentRateLimitError m) = m"
| "exn_message (InvalidEnrollmentCodeError m) = m"
| "exn_message (SecretLoadError m) = m"
| "exn_message (ConfigurationError m) = m"
| "exn_message (KeyError m) = m"
| "exn_message (TypeError m) = m"
| "exn_message (AttributeError m) = m"
| "exn_message (OverflowError m) = m"
| "exn_message (RuleValidationError m) = m"
| "exn_message (ImportError m) = m"
| "exn_message _ = []"

type_synonym 'a result = "exn + 'a"

definition bind_result :: "'a result \<Rightarrow> ('a \<Rightarrow> 'b result) \<Rightarrow> 'b result" where
  "bind_result r f = (case r of Inl e \<Rightarrow> Inl e | Inr x \<Rightarrow> f x)"

lemma bind_result_simps [simp]:
  "bind_result (Inl e) f = Inl e"
  "bind_result (Inr x) f = f x"
  by (simp_all add: bind_result_def)

lemma bind_result_Inr_iff:
  "bind_result r f = Inr y \<longleftrightarrow> (\<exists>x. r = Inr x \<and> f x = Inr y)"
  by (cases r) auto

text \<open>An effectful operation on a state \<open>'s\<close>: the outcome and the state it leaves.\<close>

type_synonym ('s, 'a) action = "'s \<Rightarrow> 'a result \<times> 's"

text \<open>Sequencing: the second operation runs only when the first did not raise.\<close>

definition bind_action :: "('s, 'a) action \<Rightarrow> ('a \<Rightarrow> ('s, 'b) action) \<Rightarrow> ('s, 'b) action" where
  "bind_action m f s = (case m s of (Inl e, s') \<Rightarrow> (Inl e, s') | (Inr x, s') \<Rightarrow> f x s')"

definition return :: "'a \<Rightarrow> ('s, 'a) action" where
  "return x s = (Inr x, s)"

definition raise :: "exn \<Rightarrow> ('s, 'a) action" where
  "raise e s = (Inl e, s)"

lemma bind_action_simps [simp]:
  "m s = (Inl e, s') \<Longrightarrow> bind_action m f s = (Inl e, s')"
  "m s = (Inr x, s') \<Longrightarrow> bind_action m f s = f x s'"
  by (simp_all add: bind_action_def)

lemma bind_action_InrD:
  "bind_action m f s = (Inr y, t) \<Longrightarrow> \<exists>x s'. m s = (Inr x, s') \<and> f x s' = (Inr y, t)"
  by (auto simp: bind_action_def split: prod.splits sum.splits)

lemma bind_action_cases:
  "bind_action m f s = (out, t) \<Longrightarrow>
     (\<exists>e. m s = (Inl e, t) \<and> out = Inl e) \<or> (\<exists>x s'. m s = (Inr x, s') \<and> f x s' = (out, t))"
  by (auto simp: bind_action_def split: prod.splits sum.splits)

lemma return_eq [simp]: "return x s = (out, s') \<longleftrightarrow> out = Inr x \<and> s' = s"
  by (auto simp: return_def)

lemma raise_eq [simp]: "raise e s = (out, s') \<longleftrightarrow> out = Inl e \<and> s' = s"
  by (auto simp: raise_def)


section \<open>Tables\<close>

definition find_row :: "('r \<Rightarrow> nat) \<Rightarrow> nat \<Rightarrow> 'r list \<Rightarrow> 'r option" where
  "find_row rid i rows = find (\<lambda>r. rid r = i) rows"

definition upd_row :: "('r \<Rightarrow> nat) \<Rightarrow> nat \<Rightarrow> ('r \<Rightarrow> 'r) \<Rightarrow> 'r list \<Rightarrow> 'r list" where
  "upd_row rid i f rows = map (\<lambda>r. if rid r = i then f r else r) rows"

text \<open>A new row of an \<open>INTEGER PRIMARY KEY\<close> table gets the largest key plus one.\<close>

definition next_id :: "('r \<Rightarrow> nat) \<Rightarrow> 'r list \<Rightarrow> nat" where
  "next_id rid rows = Suc (foldr (\<lambda>r m. max (rid r) m) rows 0)"

definition insert_row :: "('r \<Rightarrow> nat) \<Rightarrow> (nat \<Rightarrow> 'r \<Rightarrow> 'r) \<Rightarrow> 'r \<Rightarrow> 'r list \<Rightarrow> 'r list" where
  "insert_row rid set_rid r rows = rows @ [set_rid (next_id rid rows) r]"

text \<open>\<open>query.update\<close>: every row that satisfies the filter.\<close>

definition upd_where :: "('r \<Rightarrow> bool) \<Rightarrow> ('r \<Rightarrow> 'r) \<Rightarrow> 'r list \<Rightarrow> 'r list" where
  "upd_where P f rows = map (\<lambda>r. if P r then f r else r) rows"

text \<open>\<open>query.count\<close>.\<close>

definition count_where :: "('r \<Rightarrow> bool) \<Rightarrow> 'r list \<Rightarrow> nat" where
  "count_where P rows = length (filter P rows)"

text \<open>\<open>query.order_by(key.desc()).first()\<close>: among equal keys the first row.\<close>

fun latest_from :: "('r \<Rightarrow> 'k::linorder) \<Rightarrow> 'r \<Rightarrow> 'r list \<Rightarrow> 'r" where
  "latest_from key best [] = best"
| "latest_from key best (r # rs) = latest_from key (if key best < key r then r else best) rs"

definition latest :: "('r \<Rightarrow> 'k::linorder) \<Rightarrow> 'r list \<Rightarrow> 'r option" where
  "latest key rows = (case rows of [] \<Rightarrow> None | r # rs \<Rightarrow> Some (latest_from key r rs))"

lemma latest_from_mem: "latest_from key b rs \<in> insert b (set rs)"
  by (induction rs arbitrary: b) (auto split: if_splits)

lemma latest_mem: "latest key rows = Some r \<Longrightarrow> r \<in> set rows"
  using latest_from_mem [of key] by (cases rows) (auto simp: latest_def)

lemma latest_None_iff [simp]: "latest key rows = None \<longleftrightarrow> rows = []"
  by (cases rows) (auto simp: latest_def)

lemma latest_from_max: "\<forall>x \<in> insert b (set rs). key x \<le> key (latest_from key b rs)"
proof (induction rs arbitrary: b)
  case (Cons r rs)
  let ?b = "if key b < key r then r else b"
  have "key b \<le> key ?b" "key r \<le> key ?b" by auto
  moreover have "key ?b \<le> key (latest_from key ?b rs)" using Cons.IH [of ?b] by blast
  ultimately show ?case using Cons.IH [of ?b] by (auto simp del: latest_from.simps simp: latest_from.simps(2))
qed simp

lemma latest_max: "latest key rows = Some r \<Longrightarrow> x \<in> set rows \<Longrightarrow> key x \<le> key r"
  using latest_from_max [of _ _ key] by (cases rows) (auto simp: latest_def)

lemma find_append: "find P (xs @ ys) = (case find P xs of None \<Rightarrow> find P ys | Some x \<Rightarrow> Some x)"
  by (induction xs) auto

lemma find_SomeD: "find P xs = Some x \<Longrightarrow> P x \<and> x \<in> set xs"
  by (induction xs) (auto split: if_splits)

lemma find_key_None: "k \<notin> g ` set xs \<Longrightarrow> find (\<lambda>x. g x = k) xs = None"
  by (induction xs) auto

lemma find_row_SomeD: "find_row rid i rows = Some r \<Longrightarrow> rid r = i \<and> r \<in> set rows"
  by (auto simp: find_row_def dest: find_SomeD)

lemma find_row_None_iff: "find_row rid i rows = None \<longleftrightarrow> i \<notin> rid ` set rows"
  by (auto simp: find_row_def find_None_iff)

lemma find_row_unique:
  "distinct (map rid rows) \<Longrightarrow> r \<in> set rows \<Longrightarrow> find_row rid (rid r) rows = Some r"
  by (induction rows) (auto simp: find_row_def)

lemma le_foldr_max: "r \<in> set rows \<Longrightarrow> rid r \<le> foldr (\<lambda>r m. max (rid r) m) rows (0::nat)"
  by (induction rows) auto

lemma rid_less_next_id: "r \<in> set rows \<Longrightarrow> rid r < next_id rid rows"
  by (simp add: next_id_def le_foldr_max less_Suc_eq_le)

lemma next_id_pos [simp]: "0 < next_id rid rows"
  by (simp add: next_id_def)

lemma next_id_fresh: "next_id rid rows \<notin> rid ` set rows"
  using rid_less_next_id [of _ rows rid] by (metis imageE less_irrefl)

lemma count_where_Nil [simp]: "count_where P [] = 0"
  by (simp add: count_where_def)

lemma count_where_Cons [simp]:
  "count_where P (r # rs) = (if P r then Suc (count_where P rs) else count_where P rs)"
  by (simp add: count_where_def)

lemma count_where_append [simp]: "count_where P (xs @ ys) = count_where P xs + count_where P ys"
  by (simp add: count_where_def)

lemma count_where_filter [simp]:
  "count_where P (filter Q rows) = count_where (\<lambda>r. Q r \<and> P r) rows"
  by (induction rows) auto

lemma count_where_zero_iff: "count_where P rows = 0 \<longleftrightarrow> (\<forall>r \<in> set rows. \<not> P r)"
  by (induction rows) auto

lemma count_where_mono:
  "(\<And>r. r \<in> set rows \<Longrightarrow> P r \<Longrightarrow> Q r) \<Longrightarrow> count_where P rows \<le> count_where Q rows"
  by (induction rows) auto

lemma upd_where_Nil [simp]: "upd_where P f [] = []"
  by (simp add: upd_where_def)

lemma upd_where_Cons [simp]: "upd_where P f (r # rs) = (if P r then f r else r) # upd_where P f rs"
  by (simp add: upd_where_def)

lemma set_upd_where: "set (upd_where P f rows) = (\<lambda>r. if P r then f r else r) ` set rows"
  by (simp add: upd_where_def)

lemma upd_row_upd_where: "upd_row rid i f rows = upd_where (\<lambda>r. rid r = i) f rows"
  by (simp add: upd_row_def upd_where_def)

lemma set_upd_row: "set (upd_row rid i f rows) = (\<lambda>r. if rid r = i then f r else r) ` set rows"
  by (simp add: upd_row_def)

lemma length_upd_row [simp]: "length (upd_row rid i f rows) = length rows"
  by (simp add: upd_row_def)

lemma map_upd_where: "(\<And>r. g (f r) = g r) \<Longrightarrow> map g (upd_where P f rows) = map g rows"
  by (induction rows) auto

lemma map_upd_row [store_simps]: "(\<And>r. g (f r) = g r) \<Longrightarrow> map g (upd_row rid i f rows) = map g rows"
  by (simp add: upd_row_upd_where map_upd_where)

lemma find_row_upd_row:
  "(\<And>r. rid (f r) = rid r) \<Longrightarrow>
     find_row rid j (upd_row rid i f rows) =
       (if j = i then map_option f (find_row rid i rows) else find_row rid j rows)"
  by (induction rows) (auto simp: find_row_def upd_row_def)

lemma find_row_upd_where:
  "(\<And>r. rid (f r) = rid r) \<Longrightarrow>
     find_row rid j (upd_where P f rows) =
       map_option (\<lambda>r. if P r then f r else r) (find_row rid j rows)"
  by (induction rows) (auto simp: find_row_def)

text \<open>Membership in a join written as a comprehension.\<close>

lemma in_comprehension:
  "x \<in> set (concat (map f ys)) \<longleftrightarrow> (\<exists>y \<in> set ys. x \<in> set (f y))"
  "x \<in> set (if b then zs else []) \<longleftrightarrow> b \<and> x \<in> set zs"
  "x \<in> set [z] \<longleftrightarrow> x = z"
  by auto

text \<open>
  What every table promises the operations that use it: an inserted row is found under its
  fresh key, no other row is disturbed, keys stay distinct.
\<close>

locale table_rows =
  fixes rid :: "'r \<Rightarrow> nat" and set_rid :: "nat \<Rightarrow> 'r \<Rightarrow> 'r"
  assumes rid_set_rid: "rid (set_rid i r) = i"
begin

lemma find_inserted:
  "find_row rid (next_id rid rows) (insert_row rid set_rid r rows) =
     Some (set_rid (next_id rid rows) r)"
proof -
  have "find (\<lambda>r. rid r = next_id rid rows) rows = None"
    by (rule find_key_None) (rule next_id_fresh)
  then show ?thesis
    by (simp add: find_row_def insert_row_def find_append rid_set_rid)
qed

lemma find_other:
  "j \<noteq> next_id rid rows \<Longrightarrow> find_row rid j (insert_row rid set_rid r rows) = find_row rid j rows"
  by (simp add: find_row_def insert_row_def find_append rid_set_rid split: option.split)

lemma find_old:
  "find_row rid j rows = Some r' \<Longrightarrow> find_row rid j (insert_row rid set_rid r rows) = Some r'"
  using rid_less_next_id [of r' rows rid] find_row_SomeD [of rid j rows r'] find_other [of j rows r]
  by auto

lemma distinct_insert:
  "distinct (map rid rows) \<Longrightarrow> distinct (map rid (insert_row rid set_rid r rows))"
  using next_id_fresh [of rid rows] by (simp add: insert_row_def rid_set_rid)

lemma map_insert: "map g (insert_row rid set_rid r rows) = map g rows @ [g (set_rid (next_id rid rows) r)]"
  by (simp add: insert_row_def)

end



section \<open>Sequences of requests\<close>

text \<open>What keeps an invariant step by step keeps it over any sequence of requests.\<close>

locale served_invariant =
  fixes inv :: "'s \<Rightarrow> bool" and serve :: "'c \<Rightarrow> 's \<Rightarrow> 's" and valid :: "'c \<Rightarrow> bool"
  assumes serve_keeps: "inv s \<Longrightarrow> valid c \<Longrightarrow> inv (serve c s)"
begin

lemma sequence_keeps: "inv s \<Longrightarrow> list_all valid cs \<Longrightarrow> inv (fold serve cs s)"
  by (induction cs arbitrary: s) (simp_all add: serve_keeps)

end

text \<open>A served system that refines an abstract one: every request is a path of abstract steps.\<close>

locale served_refinement = served_invariant inv serve valid
  for inv :: "'s \<Rightarrow> bool" and serve :: "'c \<Rightarrow> 's \<Rightarrow> 's" and valid :: "'c \<Rightarrow> bool" +
  fixes abs_state :: "'s \<Rightarrow> 'a" and abs_step :: "'a \<Rightarrow> 'a \<Rightarrow> bool"
  assumes serve_refines: "inv s \<Longrightarrow> valid c \<Longrightarrow> abs_step\<^sup>*\<^sup>* (abs_state s) (abs_state (serve c s))"
begin

lemma sequence_refines:
  "inv s \<Longrightarrow> list_all valid cs \<Longrightarrow> abs_step\<^sup>*\<^sup>* (abs_state s) (abs_state (fold serve cs s))"
proof (induction cs arbitrary: s)
  case (Cons c cs)
  then show ?case using serve_refines [of s c] serve_keeps [of s c] by (auto intro: rtranclp_trans)
qed simp

end

end
