(* ===== verification/Access_Store.thy ===== *)
theory Access_Store
  imports Prelude
begin

text \<open>
  The data of the access-control module (\<open>access_control/models.py\<close>), its settings
  (\<open>access_control/config.py\<close>) and what it takes from outside.

  \<^item> One \<open>record\<close> per ORM class, one field per column. The \<open>updated_at\<close> columns, which the
    mapper rewrites on every flush and no code of the module reads, are left out.
  \<^item> The account status is the datatype of the six values the code assigns.
  \<^item> \<open>db\<close> is the database: one list of rows per table. A committed transaction is the
    \<open>db\<close> an operation returns; a rolled back one is the \<open>db\<close> it started from.
  \<^item> \<open>crypto\<close> gathers the functions the code imports and this repository does not define
    (SHA-256, Argon2, Fernet, the HOTP value of \<open>pyotp\<close>). Every definition that uses them takes a
    \<open>crypto\<close> as an argument, so all results hold for every implementation of them.
  \<^item> The clock and the random tokens are arguments as well: one request reads one clock
    value \<open>now\<close>, and every \<open>secrets.token_*\<close> call is a token the caller supplies.
\<close>

section \<open>Accounts, roles and permissions\<close>

datatype user_status =
  Active | PendingPasswordChange | PendingApproval | Rejected | Disabled | Locked

record user_account =
  ua_id :: nat
  ua_username :: string
  ua_username_normalized :: string
  ua_display_name :: string
  ua_email :: "string option"
  ua_email_normalized :: "string option"
  ua_password_hash :: string
  ua_status :: user_status
  ua_is_system_admin :: bool
  ua_failed_login_count :: nat
  ua_locked_until :: "time option"
  ua_password_changed_at :: time
  ua_must_change_password :: bool
  ua_mfa_enabled :: bool
  ua_last_login_at :: "time option"
  ua_last_login_ip_hash :: "string option"
  ua_created_at :: time
  ua_disabled_at :: "time option"
  ua_registration_source :: string
  ua_approved_at :: "time option"
  ua_approved_by_user_id :: "nat option"
  ua_rejected_at :: "time option"
  ua_rejected_by_user_id :: "nat option"
  ua_rejection_reason :: "string option"
  ua_terms_accepted_at :: "time option"
  ua_privacy_notice_version :: "string option"
  ua_email_verified :: bool
  ua_onboarding_completed_at :: "time option"
  ua_is_demo_account :: bool

record access_role =
  ar_id :: nat
  ar_role_key :: string
  ar_name :: string
  ar_description :: string
  ar_system_role :: bool
  ar_enabled :: bool
  ar_created_at :: time

record access_permission =
  ap_id :: nat
  ap_permission_key :: string
  ap_name :: string
  ap_description :: string
  ap_category :: string
  ap_created_at :: time

record user_role_assignment =
  ura_id :: nat
  ura_user_id :: nat
  ura_role_id :: nat
  ura_assigned_by_user_id :: "nat option"
  ura_assigned_at :: time

record role_permission_assignment =
  rpa_id :: nat
  rpa_role_id :: nat
  rpa_permission_id :: nat
  rpa_assigned_at :: time


section \<open>Sessions, attempts and second factors\<close>

record auth_session =
  as_id :: nat
  as_user_id :: nat
  as_token_hash :: string
  as_csrf_token_hash :: string
  as_created_at :: time
  as_last_seen_at :: time
  as_expires_at :: time
  as_idle_expires_at :: time
  as_revoked_at :: "time option"
  as_revoke_reason :: "string option"
  as_user_agent_summary :: "string option"
  as_client_ip_hash :: "string option"
  as_mfa_verified :: bool
  as_created_from_login :: bool
  as_session_version :: nat

record login_attempt =
  la_id :: nat
  la_username_hash :: string
  la_client_ip_hash :: "string option"
  la_success :: bool
  la_failure_reason_code :: "string option"
  la_attempted_at :: time

record mfa_device =
  md_id :: nat
  md_user_id :: nat
  md_device_type :: string
  md_label :: string
  md_secret_protected :: string
  md_enabled :: bool
  md_confirmed_at :: "time option"
  md_last_used_counter :: "int option"
  md_last_used_at :: "time option"
  md_enrollment_expires_at :: "time option"
  md_failed_attempts :: nat
  md_created_at :: time
  md_disabled_at :: "time option"

record mfa_recovery_code =
  rc_id :: nat
  rc_user_id :: nat
  rc_code_hash :: string
  rc_used_at :: "time option"
  rc_created_at :: time

record mfa_login_challenge =
  mc_id :: nat
  mc_user_id :: nat
  mc_challenge_token_hash :: string
  mc_expires_at :: time
  mc_used_at :: "time option"
  mc_failed_attempts :: nat
  mc_created_at :: time


section \<open>The audit log, notifications and activities\<close>

record security_audit_event =
  ae_id :: nat
  ae_sequence_number :: nat
  ae_event_type :: string
  ae_actor_user_id :: "nat option"
  ae_actor_username_snapshot :: "string option"
  ae_actor_role_keys_json :: string
  ae_action :: string
  ae_resource_type :: "string option"
  ae_resource_id :: "string option"
  ae_route_template :: "string option"
  ae_request_method :: "string option"
  ae_request_id :: string
  ae_outcome :: string
  ae_status_code :: "nat option"
  ae_reason_code :: "string option"
  ae_metadata_json :: string
  ae_client_ip_hash :: "string option"
  ae_user_agent_summary :: "string option"
  ae_occurred_at :: time
  ae_previous_event_hash :: "string option"
  ae_event_hash :: string

record notification =
  nt_id :: nat
  nt_title :: string
  nt_message :: string
  nt_type :: string
  nt_entity_type :: string
  nt_entity_id :: "nat option"
  nt_recipient_user_id :: "nat option"
  nt_is_read :: bool
  nt_created_at :: time

record soc_activity =
  sa_id :: nat
  sa_action :: string
  sa_message :: string
  sa_entity_type :: string
  sa_entity_id :: "nat option"
  sa_created_at :: time


section \<open>The database\<close>

record db =
  users :: "user_account list"
  roles :: "access_role list"
  permissions :: "access_permission list"
  user_roles :: "user_role_assignment list"
  role_permissions :: "role_permission_assignment list"
  sessions :: "auth_session list"
  attempts :: "login_attempt list"
  mfa_devices :: "mfa_device list"
  recovery_codes :: "mfa_recovery_code list"
  challenges :: "mfa_login_challenge list"
  audit_events :: "security_audit_event list"
  notifications :: "notification list"
  activities :: "soc_activity list"

definition empty_db :: db where
  "empty_db = \<lparr>users = [], roles = [], permissions = [], user_roles = [], role_permissions = [],
     sessions = [], attempts = [], mfa_devices = [], recovery_codes = [], challenges = [],
     audit_events = [], notifications = [], activities = []\<rparr>"

definition get_user :: "db \<Rightarrow> nat \<Rightarrow> user_account option" where
  "get_user s uid = find_row ua_id uid (users s)"

definition upd_user :: "nat \<Rightarrow> (user_account \<Rightarrow> user_account) \<Rightarrow> db \<Rightarrow> db" where
  "upd_user uid f s = s\<lparr>users := upd_row ua_id uid f (users s)\<rparr>"

definition get_session :: "db \<Rightarrow> nat \<Rightarrow> auth_session option" where
  "get_session s sid = find_row as_id sid (sessions s)"

definition upd_session :: "nat \<Rightarrow> (auth_session \<Rightarrow> auth_session) \<Rightarrow> db \<Rightarrow> db" where
  "upd_session sid f s = s\<lparr>sessions := upd_row as_id sid f (sessions s)\<rparr>"

definition get_role :: "db \<Rightarrow> nat \<Rightarrow> access_role option" where
  "get_role s rid = find_row ar_id rid (roles s)"

definition upd_device :: "nat \<Rightarrow> (mfa_device \<Rightarrow> mfa_device) \<Rightarrow> db \<Rightarrow> db" where
  "upd_device did f s = s\<lparr>mfa_devices := upd_row md_id did f (mfa_devices s)\<rparr>"

definition get_device :: "db \<Rightarrow> nat \<Rightarrow> mfa_device option" where
  "get_device s did = find_row md_id did (mfa_devices s)"

definition upd_challenge :: "nat \<Rightarrow> (mfa_login_challenge \<Rightarrow> mfa_login_challenge) \<Rightarrow> db \<Rightarrow> db" where
  "upd_challenge cid f s = s\<lparr>challenges := upd_row mc_id cid f (challenges s)\<rparr>"

text \<open>Keys set by the database on insertion, one interpretation of the table laws per table.\<close>

definition set_ua_id :: "nat \<Rightarrow> user_account \<Rightarrow> user_account" where
  "set_ua_id i u = u\<lparr>ua_id := i\<rparr>"

definition set_as_id :: "nat \<Rightarrow> auth_session \<Rightarrow> auth_session" where
  "set_as_id i r = r\<lparr>as_id := i\<rparr>"

definition set_la_id :: "nat \<Rightarrow> login_attempt \<Rightarrow> login_attempt" where
  "set_la_id i r = r\<lparr>la_id := i\<rparr>"

definition set_ura_id :: "nat \<Rightarrow> user_role_assignment \<Rightarrow> user_role_assignment" where
  "set_ura_id i r = r\<lparr>ura_id := i\<rparr>"

definition set_rpa_id :: "nat \<Rightarrow> role_permission_assignment \<Rightarrow> role_permission_assignment" where
  "set_rpa_id i r = r\<lparr>rpa_id := i\<rparr>"

definition set_ar_id :: "nat \<Rightarrow> access_role \<Rightarrow> access_role" where
  "set_ar_id i r = r\<lparr>ar_id := i\<rparr>"

definition set_ap_id :: "nat \<Rightarrow> access_permission \<Rightarrow> access_permission" where
  "set_ap_id i r = r\<lparr>ap_id := i\<rparr>"

definition set_md_id :: "nat \<Rightarrow> mfa_device \<Rightarrow> mfa_device" where
  "set_md_id i r = r\<lparr>md_id := i\<rparr>"

definition set_rc_id :: "nat \<Rightarrow> mfa_recovery_code \<Rightarrow> mfa_recovery_code" where
  "set_rc_id i r = r\<lparr>rc_id := i\<rparr>"

definition set_mc_id :: "nat \<Rightarrow> mfa_login_challenge \<Rightarrow> mfa_login_challenge" where
  "set_mc_id i r = r\<lparr>mc_id := i\<rparr>"

definition set_ae_id :: "nat \<Rightarrow> security_audit_event \<Rightarrow> security_audit_event" where
  "set_ae_id i r = r\<lparr>ae_id := i\<rparr>"

definition set_nt_id :: "nat \<Rightarrow> notification \<Rightarrow> notification" where
  "set_nt_id i r = r\<lparr>nt_id := i\<rparr>"

definition set_sa_id :: "nat \<Rightarrow> soc_activity \<Rightarrow> soc_activity" where
  "set_sa_id i r = r\<lparr>sa_id := i\<rparr>"

lemmas set_key_defs =
  set_ua_id_def set_as_id_def set_la_id_def set_ura_id_def set_rpa_id_def set_ar_id_def
  set_ap_id_def set_md_id_def set_rc_id_def set_mc_id_def set_ae_id_def set_nt_id_def set_sa_id_def

interpretation user_table: table_rows ua_id set_ua_id
  by unfold_locales (simp add: set_ua_id_def)

interpretation session_table: table_rows as_id set_as_id
  by unfold_locales (simp add: set_as_id_def)

interpretation device_table: table_rows md_id set_md_id
  by unfold_locales (simp add: set_md_id_def)

interpretation challenge_table: table_rows mc_id set_mc_id
  by unfold_locales (simp add: set_mc_id_def)

interpretation recovery_table: table_rows rc_id set_rc_id
  by unfold_locales (simp add: set_rc_id_def)

interpretation role_table: table_rows ar_id set_ar_id
  by unfold_locales (simp add: set_ar_id_def)

interpretation permission_table: table_rows ap_id set_ap_id
  by unfold_locales (simp add: set_ap_id_def)

interpretation audit_table: table_rows ae_id set_ae_id
  by unfold_locales (simp add: set_ae_id_def)


section \<open>Settings\<close>

record access_config =
  enabled :: bool
  environment :: string
  session_secret :: string
  mfa_encryption_key :: string
  allowed_origins :: "string list"
  cookie_secure :: bool
  cookie_samesite :: string
  session_hours :: int
  idle_minutes :: int
  login_max_attempts :: int
  lockout_minutes :: int
  local_login_enabled :: bool
  self_registration_enabled :: bool
  registration_mode :: string
  privacy_notice_version :: string

text \<open>The fields of \<open>production.config.RuntimeConfig\<close> that \<open>get_config\<close> reads.\<close>

record runtime_config =
  rt_profile :: string
  rt_session_secret :: string
  rt_mfa_encryption_key :: string
  rt_allowed_origins :: "string list"
  rt_cookie_secure :: bool
  rt_cookie_samesite :: string
  rt_session_hours :: int
  rt_idle_minutes :: int
  rt_public_registration :: bool

type_synonym environ = "string \<Rightarrow> string option"

text \<open>
  \<open>int(text)\<close> on ASCII text: surrounding white space, an optional sign, digits with single
  underscores between them.
\<close>

fun digits_value :: "int \<Rightarrow> bool \<Rightarrow> string \<Rightarrow> int option" where
  "digits_value acc ok [] = (if ok then Some acc else None)"
| "digits_value acc ok (c # cs) =
     (if is_digit c then digits_value (acc * 10 + int (of_char c - 48)) True cs
      else if c = CHR ''_'' \<and> ok then digits_value acc False cs
      else None)"

definition py_int :: "string \<Rightarrow> int option" where
  "py_int s = (case strip s of
      [] \<Rightarrow> None
    | c # cs \<Rightarrow>
        if c = CHR ''-'' then map_option uminus (digits_value 0 False cs)
        else if c = CHR ''+'' then digits_value 0 False cs
        else digits_value 0 False (c # cs))"

definition env_bool :: "environ \<Rightarrow> string \<Rightarrow> bool \<Rightarrow> bool" where
  "env_bool env name dflt =
     (case env name of
        None \<Rightarrow> dflt
      | Some raw \<Rightarrow>
          if strip raw = [] then dflt
          else casefold (strip raw) \<in> {''1'', ''true'', ''yes'', ''on''})"

definition env_int :: "environ \<Rightarrow> string \<Rightarrow> int \<Rightarrow> int \<Rightarrow> int \<Rightarrow> int" where
  "env_int env name dflt minimum maximum =
     (let value = (case env name of
                     None \<Rightarrow> dflt
                   | Some raw \<Rightarrow> (case py_int raw of None \<Rightarrow> dflt | Some v \<Rightarrow> v))
      in max minimum (min maximum value))"

definition env_text :: "environ \<Rightarrow> string \<Rightarrow> string" where
  "env_text env name = (case env name of None \<Rightarrow> [] | Some raw \<Rightarrow> strip raw)"

definition get_config :: "environ \<Rightarrow> runtime_config \<Rightarrow> access_config" where
  "get_config env runtime =
     (let environment = rt_profile runtime;
          default_mode = (if environment = ''production'' then ''approval_required''
                          else ''auto_activate_limited'');
          mode0 = casefold (env_text env ''THREATSCOPE_REGISTRATION_MODE'');
          mode1 = (if mode0 = [] then default_mode else mode0);
          mode = (if mode1 \<in> {''disabled'', ''approval_required'', ''auto_activate_limited''}
                  then mode1 else default_mode);
          notice = take 64 (env_text env ''THREATSCOPE_PRIVACY_NOTICE_VERSION'')
      in \<lparr>enabled = env_bool env ''THREATSCOPE_AUTH_ENABLED'' True,
          environment = environment,
          session_secret = rt_session_secret runtime,
          mfa_encryption_key = rt_mfa_encryption_key runtime,
          allowed_origins = rt_allowed_origins runtime,
          cookie_secure = rt_cookie_secure runtime,
          cookie_samesite = rt_cookie_samesite runtime,
          session_hours = rt_session_hours runtime,
          idle_minutes = rt_idle_minutes runtime,
          login_max_attempts = env_int env ''THREATSCOPE_LOGIN_MAX_ATTEMPTS'' 5 2 20,
          lockout_minutes = env_int env ''THREATSCOPE_LOCKOUT_MINUTES'' 15 1 1440,
          local_login_enabled = env_bool env ''THREATSCOPE_LOCAL_LOGIN_ENABLED'' True,
          self_registration_enabled = rt_public_registration runtime,
          registration_mode = mode,
          privacy_notice_version = (if notice = [] then ''local-privacy-v1'' else notice)\<rparr>)"

text \<open>
  The settings every deployment runs with: what \<open>get_config\<close> guarantees whatever the
  environment holds, and what \<open>get_runtime_config\<close> has validated.
\<close>

definition config_ok :: "access_config \<Rightarrow> bool" where
  "config_ok cfg \<longleftrightarrow>
     2 \<le> login_max_attempts cfg \<and> login_max_attempts cfg \<le> 20 \<and>
     1 \<le> lockout_minutes cfg \<and> lockout_minutes cfg \<le> 1440 \<and>
     1 \<le> session_hours cfg \<and> 5 \<le> idle_minutes cfg \<and>
     registration_mode cfg \<in> {''disabled'', ''approval_required'', ''auto_activate_limited''} \<and>
     privacy_notice_version cfg \<noteq> [] \<and> length (privacy_notice_version cfg) \<le> 64"

lemma env_int_bounds:
  "minimum \<le> maximum \<Longrightarrow>
     minimum \<le> env_int env name dflt minimum maximum \<and>
     env_int env name dflt minimum maximum \<le> maximum"
  by (simp add: env_int_def Let_def)

lemma get_config_ok:
  assumes "1 \<le> rt_session_hours runtime" "5 \<le> rt_idle_minutes runtime"
  shows "config_ok (get_config env runtime)"
  using assms env_int_bounds [of 2 20 env "''THREATSCOPE_LOGIN_MAX_ATTEMPTS''" 5]
    env_int_bounds [of 1 1440 env "''THREATSCOPE_LOCKOUT_MINUTES''" 15]
  by (simp add: config_ok_def get_config_def Let_def)


section \<open>Outside functions\<close>

datatype argon2_outcome = Argon2Verified | Argon2Mismatch | Argon2InvalidHash

record crypto =
  sha256_hex :: "string \<Rightarrow> string"
  argon2_hash :: "string \<Rightarrow> string \<Rightarrow> string"
  argon2_verify :: "string \<Rightarrow> string \<Rightarrow> argon2_outcome"
  argon2_check_needs_rehash :: "string \<Rightarrow> bool option"
  fernet_key_valid :: "string \<Rightarrow> bool"
  fernet_encrypt :: "string \<Rightarrow> string \<Rightarrow> string \<Rightarrow> string"
  fernet_decrypt :: "string \<Rightarrow> string \<Rightarrow> string option"
  hotp :: "string \<Rightarrow> int \<Rightarrow> string"

text \<open>
  The context a request runs in: the outside functions, the settings and the clock.
\<close>

record ctx =
  cx_crypto :: crypto
  cx_config :: access_config
  cx_now :: time

text \<open>The parts of an HTTP request the module reads.\<close>

record request =
  rq_path :: string
  rq_method :: string
  rq_user_agent :: "string option"
  rq_csrf_header :: "string option"
  rq_session_cookie :: "string option"
  rq_client_host :: "string option"
  rq_request_id :: "string option"

section \<open>Frame rules of the storage primitives\<close>

lemma upd_user_frame [simp]:
  "roles (upd_user uid f s) = roles s"
  "permissions (upd_user uid f s) = permissions s"
  "user_roles (upd_user uid f s) = user_roles s"
  "role_permissions (upd_user uid f s) = role_permissions s"
  "sessions (upd_user uid f s) = sessions s"
  "attempts (upd_user uid f s) = attempts s"
  "mfa_devices (upd_user uid f s) = mfa_devices s"
  "recovery_codes (upd_user uid f s) = recovery_codes s"
  "challenges (upd_user uid f s) = challenges s"
  "audit_events (upd_user uid f s) = audit_events s"
  "notifications (upd_user uid f s) = notifications s"
  "activities (upd_user uid f s) = activities s"
  by (simp_all add: upd_user_def)

lemma upd_session_frame [simp]:
  "users (upd_session sid f s) = users s"
  "roles (upd_session sid f s) = roles s"
  "permissions (upd_session sid f s) = permissions s"
  "user_roles (upd_session sid f s) = user_roles s"
  "role_permissions (upd_session sid f s) = role_permissions s"
  "attempts (upd_session sid f s) = attempts s"
  "mfa_devices (upd_session sid f s) = mfa_devices s"
  "recovery_codes (upd_session sid f s) = recovery_codes s"
  "challenges (upd_session sid f s) = challenges s"
  "audit_events (upd_session sid f s) = audit_events s"
  by (simp_all add: upd_session_def)

lemma upd_device_frame [simp]:
  "users (upd_device did f s) = users s"
  "roles (upd_device did f s) = roles s"
  "sessions (upd_device did f s) = sessions s"
  "attempts (upd_device did f s) = attempts s"
  "recovery_codes (upd_device did f s) = recovery_codes s"
  "challenges (upd_device did f s) = challenges s"
  "audit_events (upd_device did f s) = audit_events s"
  by (simp_all add: upd_device_def)

lemma upd_challenge_frame [simp]:
  "users (upd_challenge cid f s) = users s"
  "roles (upd_challenge cid f s) = roles s"
  "sessions (upd_challenge cid f s) = sessions s"
  "attempts (upd_challenge cid f s) = attempts s"
  "mfa_devices (upd_challenge cid f s) = mfa_devices s"
  "recovery_codes (upd_challenge cid f s) = recovery_codes s"
  "audit_events (upd_challenge cid f s) = audit_events s"
  by (simp_all add: upd_challenge_def)

lemma get_user_upd_user:
  "(\<And>u. ua_id (f u) = ua_id u) \<Longrightarrow>
     get_user (upd_user uid f s) j = (if j = uid then map_option f (get_user s uid) else get_user s j)"
  by (simp add: get_user_def upd_user_def find_row_upd_row)

lemma get_session_upd_session:
  "(\<And>r. as_id (f r) = as_id r) \<Longrightarrow>
     get_session (upd_session sid f s) j =
       (if j = sid then map_option f (get_session s sid) else get_session s j)"
  by (simp add: get_session_def upd_session_def find_row_upd_row)

lemma get_user_cong: "users s = users t \<Longrightarrow> get_user s = get_user t"
  by (auto simp: get_user_def)

end
