(* ===== verification/Passwords.thy ===== *)
theory Passwords
  imports Access_Store
begin

text \<open>
  Password policy, hashing and verification (\<open>access_control/password_service.py\<close>) and the
  generator of temporary passwords (\<open>user_service.generate_temporary_password\<close>). The
  policy numbers and the denylist are the contents of \<open>rules/password_policy.json\<close> and
  \<open>rules/common_passwords.txt\<close>. The lemmas characterise the accepted passwords and show
  that a generated temporary password always passes the policy.
\<close>

section \<open>Policy\<close>

definition minimum_length :: nat where "minimum_length = 12"
definition maximum_length :: nat where "maximum_length = 128"

definition common_passwords :: "string list" where
  "common_passwords =
     [''password'', ''password123'', ''password1234'', ''qwerty123456'', ''letmein123456'',
      ''adminadmin123'', ''welcome123456'', ''changeme12345'', ''threatscope123'', ''vulnscope1234'']"

text \<open>The loop over \<open>prohibited_terms\<close>: does a term of three or more characters occur?\<close>

fun prohibited_hit :: "string list \<Rightarrow> string \<Rightarrow> bool" where
  "prohibited_hit [] normalized_password = False"
| "prohibited_hit (term # terms) normalized_password =
     (let normalized_term = casefold (strip term)
      in (3 \<le> length normalized_term \<and> py_in normalized_term normalized_password) \<or>
         prohibited_hit terms normalized_password)"

definition validate_password :: "string \<Rightarrow> string \<Rightarrow> string list \<Rightarrow> unit result" where
  "validate_password password username prohibited_terms =
     (if length password < minimum_length
      then Inl (PasswordPolicyError (''Password must contain at least '' @ str_nat minimum_length @ '' characters''))
      else if maximum_length < length password
      then Inl (PasswordPolicyError (''Password must contain no more than '' @ str_nat maximum_length @ '' characters''))
      else if strip password = []
      then Inl (PasswordPolicyError ''Password cannot contain only whitespace'')
      else
        (let normalized_username = casefold (strip username);
             normalized_password = casefold password
         in if normalized_username \<noteq> [] \<and> py_in normalized_username normalized_password
            then Inl (PasswordPolicyError ''Password must not contain the username'')
            else if prohibited_hit prohibited_terms normalized_password
            then Inl (PasswordPolicyError ''Password must not contain the email identifier'')
            else if normalized_password \<in> set common_passwords
            then Inl (PasswordPolicyError ''Password is too commonly used'')
            else Inr ()))"

definition hash_password :: "crypto \<Rightarrow> string \<Rightarrow> string \<Rightarrow> string \<Rightarrow> string list \<Rightarrow> string result" where
  "hash_password C salt password username prohibited_terms =
     bind_result (validate_password password username prohibited_terms)
       (\<lambda>_. Inr (argon2_hash C salt password))"

text \<open>
  \<open>_HASHER.verify(candidate, password)\<close> runs only under the guard \<open>if password_hash\<close>, so the
  dummy hash that \<open>candidate\<close> falls back to is never passed to the hasher.
\<close>

definition verify_password :: "crypto \<Rightarrow> string option \<Rightarrow> string \<Rightarrow> bool" where
  "verify_password C password_hash password =
     (if truthy password_hash
      then (case argon2_verify C (the password_hash) password of
              Argon2Verified \<Rightarrow> True
            | Argon2Mismatch \<Rightarrow> False
            | Argon2InvalidHash \<Rightarrow> False)
      else False)"

definition needs_rehash :: "crypto \<Rightarrow> string \<Rightarrow> bool" where
  "needs_rehash C password_hash =
     (case argon2_check_needs_rehash C password_hash of None \<Rightarrow> True | Some b \<Rightarrow> b)"

definition password_acceptable :: "string \<Rightarrow> string \<Rightarrow> string list \<Rightarrow> bool" where
  "password_acceptable password username prohibited_terms \<longleftrightarrow>
     12 \<le> length password \<and> length password \<le> 128 \<and> (\<exists>c \<in> set password. \<not> py_isspace c) \<and>
     (strip username \<noteq> [] \<longrightarrow> \<not> sublist (casefold (strip username)) (casefold password)) \<and>
     (\<forall>t \<in> set prohibited_terms.
        3 \<le> length (strip t) \<longrightarrow> \<not> sublist (casefold (strip t)) (casefold password)) \<and>
     casefold password \<notin> set common_passwords"

lemma strip_eq_Nil_iff: "strip s = [] \<longleftrightarrow> (\<forall>c \<in> set s. py_isspace c)"
proof -
  have "dropWhile py_isspace (rev (dropWhile py_isspace s)) = [] \<longleftrightarrow>
        (\<forall>c \<in> set (dropWhile py_isspace s). py_isspace c)"
    by (simp add: dropWhile_eq_Nil_conv)
  also have "\<dots> \<longleftrightarrow> (\<forall>c \<in> set s. py_isspace c)"
    by (induction s) auto
  finally show ?thesis by (simp add: strip_def strip_with_def)
qed

lemma prohibited_hit_iff:
  "prohibited_hit terms pw \<longleftrightarrow>
     (\<exists>t \<in> set terms. 3 \<le> length (strip t) \<and> sublist (casefold (strip t)) pw)"
  by (induction terms) (auto simp: py_in_sublist Let_def)

lemma validate_password_cases:
  "validate_password pw un ts = Inr () \<or> (\<exists>m. validate_password pw un ts = Inl (PasswordPolicyError m))"
  by (simp add: validate_password_def Let_def)

lemma validate_password_ok_iff:
  "validate_password pw un ts = Inr () \<longleftrightarrow> password_acceptable pw un ts"
  unfolding validate_password_def password_acceptable_def
  by (simp add: Let_def minimum_length_def maximum_length_def prohibited_hit_iff py_in_sublist
      strip_eq_Nil_iff not_less)

lemma hash_password_Inr_iff:
  "hash_password C salt pw un ts = Inr h \<longleftrightarrow>
     password_acceptable pw un ts \<and> h = argon2_hash C salt pw"
  by (auto simp: hash_password_def bind_result_Inr_iff validate_password_ok_iff)

lemma hash_password_error:
  "hash_password C salt pw un ts = Inl e \<Longrightarrow> \<exists>m. e = PasswordPolicyError m"
  using validate_password_cases [of pw un ts] by (auto simp: hash_password_def)

lemma verify_password_None [simp]: "\<not> verify_password C None pw"
  by (simp add: verify_password_def truthy_def)

lemma verify_password_iff:
  "verify_password C (Some h) pw \<longleftrightarrow> h \<noteq> [] \<and> argon2_verify C h pw = Argon2Verified"
  by (auto simp: verify_password_def truthy_def split: argon2_outcome.splits)


section \<open>Temporary passwords\<close>

definition ascii_letters :: string where
  "ascii_letters = ''abcdefghijklmnopqrstuvwxyzABCDEFGHIJKLMNOPQRSTUVWXYZ''"

definition temporary_alphabet :: string where
  "temporary_alphabet = ascii_letters @ ''0123456789'' @ ''-_.!@#$%''"

text \<open>
  The loop draws 20 characters of the alphabet until the draw does not contain the
  username. The draws are the argument \<open>draws\<close>: None when all of them were refused.
\<close>

fun generate_temporary_password :: "string \<Rightarrow> string list \<Rightarrow> string option" where
  "generate_temporary_password username [] = None"
| "generate_temporary_password username (password # draws) =
     (if \<not> py_in (casefold username) (casefold password) then Some password
      else generate_temporary_password username draws)"

text \<open>What \<open>secrets.choice(alphabet)\<close>, twenty times, can produce.\<close>

definition temporary_draw :: "string \<Rightarrow> bool" where
  "temporary_draw p \<longleftrightarrow> length p = 20 \<and> set p \<subseteq> set temporary_alphabet"

lemma generate_temporary_password_SomeD:
  "generate_temporary_password un draws = Some p \<Longrightarrow>
     p \<in> set draws \<and> \<not> py_in (casefold un) (casefold p)"
  by (induction draws) (auto split: if_splits)

lemma generate_temporary_password_returns:
  "\<exists>p \<in> set draws. \<not> py_in (casefold un) (casefold p) \<Longrightarrow>
     \<exists>p. generate_temporary_password un draws = Some p"
  by (induction draws) auto

lemma alphabet_no_space: "c \<in> set temporary_alphabet \<Longrightarrow> \<not> py_isspace c"
  by (auto simp: temporary_alphabet_def ascii_letters_def py_isspace_def)

lemma common_passwords_short: "p \<in> set common_passwords \<Longrightarrow> length p \<le> 14"
  by (auto simp: common_passwords_def)

lemma temporary_draw_acceptable:
  assumes draw: "temporary_draw p" and un: "strip un = un"
    and avoid: "\<not> py_in (casefold un) (casefold p)"
  shows "password_acceptable p un []"
proof -
  from draw have len: "length p = 20" and chars: "set p \<subseteq> set temporary_alphabet"
    by (auto simp: temporary_draw_def)
  from len obtain c where "c \<in> set p" by (cases p) auto
  with chars have "\<exists>c \<in> set p. \<not> py_isspace c" using alphabet_no_space by blast
  moreover have "casefold p \<notin> set common_passwords"
    using common_passwords_short [of "casefold p"] len by auto
  ultimately show ?thesis
    using len un avoid by (simp add: password_acceptable_def py_in_sublist)
qed


section \<open>Properties\<close>

text \<open>The password policy: hashing succeeds exactly for the passwords of 12 to 128 characters
  with a visible character that contain neither the username nor a prohibited term of three or more
  characters in any capitalisation and are not on the denylist; every refusal is a
  \<open>PasswordPolicyError\<close>.\<close>

theorem password_policy_exact:
  "hash_password C salt pw un ts =
     (if password_acceptable pw un ts then Inr (argon2_hash C salt pw)
      else Inl (PasswordPolicyError (exn_message (projl (validate_password pw un ts)))))"
proof (cases "password_acceptable pw un ts")
  case True
  then show ?thesis by (simp add: hash_password_Inr_iff)
next
  case False
  then obtain m where "validate_password pw un ts = Inl (PasswordPolicyError m)"
    using validate_password_cases validate_password_ok_iff by blast
  with False show ?thesis by (simp add: hash_password_def)
qed

text \<open>A temporary password is always usable: whatever twenty-character draws of the alphabet
  the generator is given, when one of them avoids the (stripped) username it returns one, and the
  password it returns passes the policy for that username.\<close>

theorem temporary_password_usable:
  assumes "\<And>p. p \<in> set draws \<Longrightarrow> temporary_draw p" "strip un = un"
    "\<exists>p \<in> set draws. \<not> py_in (casefold un) (casefold p)"
  shows "\<exists>p. generate_temporary_password un draws = Some p \<and>
     hash_password C salt p un [] = Inr (argon2_hash C salt p)"
proof -
  from generate_temporary_password_returns [OF assms(3)] obtain p
    where p: "generate_temporary_password un draws = Some p" by blast
  with generate_temporary_password_SomeD have "p \<in> set draws" "\<not> py_in (casefold un) (casefold p)" by auto
  with assms(1,2) have "password_acceptable p un []" by (intro temporary_draw_acceptable)
  with p show ?thesis by (simp add: hash_password_Inr_iff)
qed

theorem temporary_password_usable_witness:
  "\<exists>p. generate_temporary_password ''ana'' [''banana-banana-banana'', ''Xy7-Xy7-Xy7-Xy7-Xy7.''] = Some p \<and>
     hash_password \<lparr>sha256_hex = (\<lambda>x. x), argon2_hash = (\<lambda>n x. n @ x), argon2_verify = (\<lambda>h p. Argon2Mismatch),
       argon2_check_needs_rehash = (\<lambda>h. None), fernet_key_valid = (\<lambda>k. True),
       fernet_encrypt = (\<lambda>k n x. x), fernet_decrypt = (\<lambda>k c. Some c), hotp = (\<lambda>k n. [])\<rparr> ''salt'' p ''ana'' [] = Inr (''salt'' @ p)"
proof -
  let ?draws = "[''banana-banana-banana'', ''Xy7-Xy7-Xy7-Xy7-Xy7.'']"
  have "list_all temporary_draw ?draws \<and> strip ''ana'' = ''ana'' \<and>
      list_ex (\<lambda>p. \<not> py_in (casefold ''ana'') (casefold p)) ?draws" by code_simp
  then have "\<And>p. p \<in> set ?draws \<Longrightarrow> temporary_draw p" "strip ''ana'' = ''ana''"
      "\<exists>p \<in> set ?draws. \<not> py_in (casefold ''ana'') (casefold p)"
    unfolding list_all_iff list_ex_iff by blast+
  from temporary_password_usable [OF this, where salt = "''salt''" and C = "\<lparr>sha256_hex = (\<lambda>x. x), argon2_hash = (\<lambda>n x. n @ x),
       argon2_verify = (\<lambda>h p. Argon2Mismatch),
       argon2_check_needs_rehash = (\<lambda>h. None), fernet_key_valid = (\<lambda>k. True),
       fernet_encrypt = (\<lambda>k n x. x), fernet_decrypt = (\<lambda>k c. Some c), hotp = (\<lambda>k n. [])\<rparr>"]
  show ?thesis by simp
qed

end
