(* ===== verification/Access_Fixtures.thy ===== *)
theory Access_Fixtures
  imports Access_Store
begin

text \<open>
  A concrete installation on which the theorems of the access-control components are
  evaluated: outside functions that compute, the default settings, a clock, two accounts
  (an administrator and an analyst), a role with one permission and two open sessions.
\<close>

definition demo_crypto :: crypto where
  "demo_crypto =
     \<lparr>sha256_hex = (\<lambda>x. x),
      argon2_hash = (\<lambda>salt pw. salt @ ''$'' @ pw),
      argon2_verify = (\<lambda>h pw. if suffix (CHR ''$'' # pw) h then Argon2Verified else Argon2Mismatch),
      argon2_check_needs_rehash = (\<lambda>h. Some False),
      fernet_key_valid = (\<lambda>k. k \<noteq> []),
      fernet_encrypt = (\<lambda>k nonce x. k @ x),
      fernet_decrypt = (\<lambda>k c. if prefix k c then Some (drop (length k) c) else None),
      hotp = (\<lambda>secret n. if n mod 2 = 0 then ''000000'' else ''111111'')\<rparr>"

definition demo_config :: access_config where
  "demo_config =
     \<lparr>enabled = True, environment = ''test'', session_secret = ''s'', mfa_encryption_key = ''k'',
      allowed_origins = [], cookie_secure = True, cookie_samesite = ''lax'', session_hours = 8,
      idle_minutes = 30, login_max_attempts = 5, lockout_minutes = 15, local_login_enabled = True,
      self_registration_enabled = True, registration_mode = ''approval_required'',
      privacy_notice_version = ''local-privacy-v1''\<rparr>"

definition demo_ctx :: "time \<Rightarrow> ctx" where
  "demo_ctx t = \<lparr>cx_crypto = demo_crypto, cx_config = demo_config, cx_now = t\<rparr>"

definition demo_user :: "nat \<Rightarrow> string \<Rightarrow> user_status \<Rightarrow> bool \<Rightarrow> user_account" where
  "demo_user i name st admin =
     \<lparr>ua_id = i, ua_username = name, ua_username_normalized = name, ua_display_name = name,
      ua_email = None, ua_email_normalized = None, ua_password_hash = ''salt$pw'', ua_status = st,
      ua_is_system_admin = admin, ua_failed_login_count = 0, ua_locked_until = None,
      ua_password_changed_at = 0, ua_must_change_password = False, ua_mfa_enabled = False,
      ua_last_login_at = None, ua_last_login_ip_hash = None, ua_created_at = 0, ua_disabled_at = None,
      ua_registration_source = ''administrator'', ua_approved_at = None, ua_approved_by_user_id = None,
      ua_rejected_at = None, ua_rejected_by_user_id = None, ua_rejection_reason = None,
      ua_terms_accepted_at = None, ua_privacy_notice_version = None, ua_email_verified = False,
      ua_onboarding_completed_at = None, ua_is_demo_account = False\<rparr>"

definition demo_session :: "nat \<Rightarrow> nat \<Rightarrow> string \<Rightarrow> time option \<Rightarrow> auth_session" where
  "demo_session i uid token revoked =
     \<lparr>as_id = i, as_user_id = uid, as_token_hash = ''s'' @ token, as_csrf_token_hash = ''scsrf'',
      as_created_at = 0, as_last_seen_at = 0, as_expires_at = hours 8, as_idle_expires_at = minutes 30,
      as_revoked_at = revoked, as_revoke_reason = None, as_user_agent_summary = None,
      as_client_ip_hash = None, as_mfa_verified = False, as_created_from_login = True,
      as_session_version = 1\<rparr>"

definition demo_role :: access_role where
  "demo_role = \<lparr>ar_id = 1, ar_role_key = ''analyst'', ar_name = ''Analyst'', ar_description = [],
     ar_system_role = False, ar_enabled = True, ar_created_at = 0\<rparr>"

definition demo_permission :: "nat \<Rightarrow> string \<Rightarrow> access_permission" where
  "demo_permission i key = \<lparr>ap_id = i, ap_permission_key = key, ap_name = key, ap_description = key,
     ap_category = ''web'', ap_created_at = 0\<rparr>"

definition demo_db :: db where
  "demo_db = empty_db
     \<lparr>users := [demo_user 1 ''root'' Active True, demo_user 2 ''ana'' Active False],
      roles := [demo_role],
      permissions := [demo_permission 1 ''web:read'', demo_permission 2 ''web:delete''],
      user_roles := [\<lparr>ura_id = 1, ura_user_id = 2, ura_role_id = 1, ura_assigned_by_user_id = Some 1, ura_assigned_at = 0\<rparr>],
      role_permissions := [\<lparr>rpa_id = 1, rpa_role_id = 1, rpa_permission_id = 1, rpa_assigned_at = 0\<rparr>],
      sessions := [demo_session 1 1 ''t1'' (Some 5), demo_session 2 2 ''t2'' None]\<rparr>"

definition demo_request :: "string \<Rightarrow> string \<Rightarrow> string \<Rightarrow> request" where
  "demo_request method path token =
     \<lparr>rq_path = path, rq_method = method, rq_user_agent = None, rq_csrf_header = Some ''csrf'',
      rq_session_cookie = Some token, rq_client_host = Some ''10.0.0.1'', rq_request_id = Some ''r''\<rparr>"

lemma demo_ctx_simps [simp]:
  "cx_crypto (demo_ctx t) = demo_crypto" "cx_config (demo_ctx t) = demo_config" "cx_now (demo_ctx t) = t"
  by (simp_all add: demo_ctx_def)

lemma demo_request_simps [simp]:
  "rq_path (demo_request method path token) = path"
  "rq_method (demo_request method path token) = method"
  "rq_session_cookie (demo_request method path token) = Some token"
  "rq_csrf_header (demo_request method path token) = Some ''csrf''"
  by (simp_all add: demo_request_def)

lemmas demo_defs = demo_crypto_def demo_config_def demo_ctx_def demo_user_def demo_session_def
  demo_role_def demo_permission_def demo_db_def demo_request_def empty_db_def

end
