(* ===== verification/Sessions.thy ===== *)
theory Sessions
  imports Access_Fixtures
begin

text \<open>
  Sessions (\<open>access_control/session_service.py\<close>) and CSRF validation
  (\<open>access_control/csrf_service.py\<close>): creation, lookup with expiry and idle refresh,
  CSRF rotation and the three revocations, each on the whole database. The step relation
  \<open>session_step\<close> is one call of any of these operations, in any order and at any time; the
  lemmas show that revocation is permanent, that the absolute expiry never moves and that a
  lookup only ever returns a live session of a usable account.
\<close>

section \<open>Hashing and request metadata\<close>

definition hash_value :: "ctx \<Rightarrow> string \<Rightarrow> string" where
  "hash_value cx value = sha256_hex (cx_crypto cx) (session_secret (cx_config cx) @ value)"

definition summarize_user_agent :: "string option \<Rightarrow> string option" where
  "summarize_user_agent value =
     (case value of
        None \<Rightarrow> None
      | Some v \<Rightarrow> if v = [] then None else Some (take 200 (join '' '' (split_ws v))))"

definition client_ip :: "request \<Rightarrow> string option" where
  "client_ip request = rq_client_host request"

definition client_ip_hash :: "ctx \<Rightarrow> request \<Rightarrow> string option" where
  "client_ip_hash cx request =
     (case client_ip request of
        None \<Rightarrow> None
      | Some v \<Rightarrow> if v = [] then None else Some (hash_value cx (''ip:'' @ v)))"


section \<open>Cookies\<close>

definition COOKIE_NAME :: string where "COOKIE_NAME = ''threatscope_session''"

record cookie =
  ck_name :: string
  ck_value :: string
  ck_max_age :: int
  ck_httponly :: bool
  ck_secure :: bool
  ck_samesite :: string
  ck_path :: string

definition set_session_cookie :: "ctx \<Rightarrow> string \<Rightarrow> cookie" where
  "set_session_cookie cx token =
     \<lparr>ck_name = COOKIE_NAME, ck_value = token,
      ck_max_age = session_hours (cx_config cx) * 3600, ck_httponly = True,
      ck_secure = cookie_secure (cx_config cx), ck_samesite = cookie_samesite (cx_config cx),
      ck_path = ''/''\<rparr>"

text \<open>\<open>delete_cookie\<close> sends the same cookie with an empty value that is already over.\<close>

definition clear_session_cookie :: "ctx \<Rightarrow> cookie" where
  "clear_session_cookie cx =
     \<lparr>ck_name = COOKIE_NAME, ck_value = [], ck_max_age = 0, ck_httponly = True,
      ck_secure = cookie_secure (cx_config cx), ck_samesite = cookie_samesite (cx_config cx),
      ck_path = ''/''\<rparr>"


section \<open>Operations\<close>

definition create_session ::
  "ctx \<Rightarrow> string \<Rightarrow> string \<Rightarrow> nat \<Rightarrow> request \<Rightarrow> bool \<Rightarrow> (db, auth_session \<times> string \<times> string) action" where
  "create_session cx token csrf uid request mfa_verified s =
     (let now = cx_now cx;
          row = \<lparr>as_id = 0, as_user_id = uid,
                 as_token_hash = hash_value cx token,
                 as_csrf_token_hash = hash_value cx csrf,
                 as_created_at = now, as_last_seen_at = now,
                 as_expires_at = now + hours (session_hours (cx_config cx)),
                 as_idle_expires_at = now + minutes (idle_minutes (cx_config cx)),
                 as_revoked_at = None, as_revoke_reason = None,
                 as_user_agent_summary = summarize_user_agent (rq_user_agent request),
                 as_client_ip_hash = client_ip_hash cx request,
                 as_mfa_verified = mfa_verified, as_created_from_login = True,
                 as_session_version = 1\<rparr>;
          sid = next_id as_id (sessions s)
      in if hash_value cx token \<in> as_token_hash ` set (sessions s)
         then (Inl IntegrityError, s)
         else (Inr (set_as_id sid row, token, csrf),
               s\<lparr>sessions := insert_row as_id set_as_id row (sessions s)\<rparr>))"

definition find_session :: "ctx \<Rightarrow> string \<Rightarrow> db \<Rightarrow> auth_session option" where
  "find_session cx token s = find (\<lambda>r. as_token_hash r = hash_value cx token) (sessions s)"

definition session_expired :: "ctx \<Rightarrow> auth_session \<Rightarrow> bool" where
  "session_expired cx r \<longleftrightarrow> as_expires_at r \<le> cx_now cx \<or> as_idle_expires_at r \<le> cx_now cx"

definition session_user_usable :: "db \<Rightarrow> auth_session \<Rightarrow> bool" where
  "session_user_usable s r =
     (case get_user s (as_user_id r) of
        None \<Rightarrow> False
      | Some u \<Rightarrow> ua_status u \<noteq> Disabled \<and> ua_status u \<noteq> Locked)"

definition refresh_row :: "ctx \<Rightarrow> auth_session \<Rightarrow> auth_session" where
  "refresh_row cx r =
     r\<lparr>as_last_seen_at := cx_now cx,
       as_idle_expires_at := min (as_expires_at r) (cx_now cx + minutes (idle_minutes (cx_config cx)))\<rparr>"

definition lookup_session :: "ctx \<Rightarrow> request \<Rightarrow> bool \<Rightarrow> db \<Rightarrow> auth_session option \<times> db" where
  "lookup_session cx request refresh s =
     (let now = cx_now cx in
      case rq_session_cookie request of
        None \<Rightarrow> (None, s)
      | Some token \<Rightarrow>
          if token = [] then (None, s)
          else (case find_session cx token s of
              None \<Rightarrow> (None, s)
            | Some r \<Rightarrow>
                if as_revoked_at r \<noteq> None then (None, s)
                else if session_expired cx r
                then (None, upd_session (as_id r)
                        (\<lambda>r. r\<lparr>as_revoked_at := Some now, as_revoke_reason := Some ''expired''\<rparr>) s)
                else if \<not> session_user_usable s r then (None, s)
                else if refresh \<and> seconds 60 \<le> now - as_last_seen_at r
                then (Some (refresh_row cx r), upd_session (as_id r) (refresh_row cx) s)
                else (Some r, s)))"

definition rotate_csrf :: "ctx \<Rightarrow> string \<Rightarrow> nat \<Rightarrow> db \<Rightarrow> string \<times> db" where
  "rotate_csrf cx token sid s =
     (token, upd_session sid
        (\<lambda>r. r\<lparr>as_csrf_token_hash := hash_value cx token,
               as_session_version := as_session_version r + 1\<rparr>) s)"

definition mark_revoked :: "time \<Rightarrow> string \<Rightarrow> auth_session \<Rightarrow> auth_session" where
  "mark_revoked now reason r =
     r\<lparr>as_revoked_at := Some now, as_revoke_reason := Some (take 120 reason)\<rparr>"

definition revoke_session :: "ctx \<Rightarrow> nat \<Rightarrow> string \<Rightarrow> db \<Rightarrow> db" where
  "revoke_session cx sid reason s =
     upd_session sid
       (\<lambda>r. if as_revoked_at r = None then mark_revoked (cx_now cx) reason r else r) s"

definition user_session_selected :: "nat \<Rightarrow> nat option \<Rightarrow> auth_session \<Rightarrow> bool" where
  "user_session_selected uid except_session_id r \<longleftrightarrow>
     as_user_id r = uid \<and> as_revoked_at r = None \<and>
     (case except_session_id of None \<Rightarrow> True | Some keep \<Rightarrow> as_id r \<noteq> keep)"

definition revoke_user_sessions :: "ctx \<Rightarrow> nat \<Rightarrow> string \<Rightarrow> nat option \<Rightarrow> db \<Rightarrow> nat \<times> db" where
  "revoke_user_sessions cx uid reason except_session_id s =
     (count_where (user_session_selected uid except_session_id) (sessions s),
      s\<lparr>sessions := upd_where (user_session_selected uid except_session_id)
                      (mark_revoked (cx_now cx) reason) (sessions s)\<rparr>)"


section \<open>CSRF\<close>

definition validate_csrf :: "ctx \<Rightarrow> request \<Rightarrow> auth_session \<Rightarrow> unit result" where
  "validate_csrf cx request r =
     (let supplied = (case rq_csrf_header request of None \<Rightarrow> [] | Some v \<Rightarrow> v)
      in if supplied = [] \<or> hash_value cx supplied \<noteq> as_csrf_token_hash r
         then Inl (HTTPException 403 ''CSRF validation failed'')
         else Inr ())"

definition require_csrf :: "ctx \<Rightarrow> request \<Rightarrow> db \<Rightarrow> auth_session \<Rightarrow> unit result" where
  "require_csrf cx request s r = validate_csrf cx request r"


section \<open>Invariants\<close>

definition sessions_wf :: "db \<Rightarrow> bool" where
  "sessions_wf s \<longleftrightarrow>
     distinct (map as_id (sessions s)) \<and> distinct (map as_token_hash (sessions s))"

definition session_live :: "ctx \<Rightarrow> db \<Rightarrow> auth_session \<Rightarrow> bool" where
  "session_live cx s r \<longleftrightarrow>
     r \<in> set (sessions s) \<and> as_revoked_at r = None \<and>
     cx_now cx < as_expires_at r \<and> cx_now cx < as_idle_expires_at r \<and> session_user_usable s r"

text \<open>How a stored session may change: its identity, owner, token and absolute expiry are
  fixed, and a revocation stays as it was first recorded.\<close>

definition session_evolves :: "auth_session \<Rightarrow> auth_session \<Rightarrow> bool" where
  "session_evolves r r' \<longleftrightarrow>
     as_id r' = as_id r \<and> as_user_id r' = as_user_id r \<and> as_token_hash r' = as_token_hash r \<and>
     as_created_at r' = as_created_at r \<and> as_expires_at r' = as_expires_at r \<and>
     as_mfa_verified r' = as_mfa_verified r \<and> as_session_version r \<le> as_session_version r' \<and>
     (as_revoked_at r \<noteq> None \<longrightarrow>
        as_revoked_at r' = as_revoked_at r \<and> as_revoke_reason r' = as_revoke_reason r)"

lemma session_evolves_refl [simp, intro!]: "session_evolves r r"
  by (simp add: session_evolves_def)

lemma session_evolves_trans: "session_evolves r r' \<Longrightarrow> session_evolves r' r'' \<Longrightarrow> session_evolves r r''"
  by (simp add: session_evolves_def)

lemma refresh_row_simps [simp]:
  "as_id (refresh_row cx r) = as_id r"
  "as_user_id (refresh_row cx r) = as_user_id r"
  "as_token_hash (refresh_row cx r) = as_token_hash r"
  "as_csrf_token_hash (refresh_row cx r) = as_csrf_token_hash r"
  "as_created_at (refresh_row cx r) = as_created_at r"
  "as_expires_at (refresh_row cx r) = as_expires_at r"
  "as_revoked_at (refresh_row cx r) = as_revoked_at r"
  "as_revoke_reason (refresh_row cx r) = as_revoke_reason r"
  "as_mfa_verified (refresh_row cx r) = as_mfa_verified r"
  "as_session_version (refresh_row cx r) = as_session_version r"
  "as_idle_expires_at (refresh_row cx r) =
     min (as_expires_at r) (cx_now cx + minutes (idle_minutes (cx_config cx)))"
  by (simp_all add: refresh_row_def)

lemma mark_revoked_simps [simp]:
  "as_id (mark_revoked now reason r) = as_id r"
  "as_user_id (mark_revoked now reason r) = as_user_id r"
  "as_token_hash (mark_revoked now reason r) = as_token_hash r"
  "as_revoked_at (mark_revoked now reason r) = Some now"
  "as_expires_at (mark_revoked now reason r) = as_expires_at r"
  by (simp_all add: mark_revoked_def)

lemma session_evolves_updates [intro]:
  "session_evolves r (refresh_row cx r)"
  "as_revoked_at r = None \<Longrightarrow> session_evolves r (mark_revoked now reason r)"
  "as_revoked_at r = None \<Longrightarrow>
     session_evolves r (r\<lparr>as_revoked_at := Some now, as_revoke_reason := Some reason\<rparr>)"
  "session_evolves r (r\<lparr>as_csrf_token_hash := h, as_session_version := as_session_version r + 1\<rparr>)"
  by (auto simp: session_evolves_def refresh_row_def mark_revoked_def)

text \<open>Every stored session of \<open>s\<close> is still stored in \<open>t\<close>, evolved.\<close>

definition sessions_extend :: "db \<Rightarrow> db \<Rightarrow> bool" where
  "sessions_extend s t \<longleftrightarrow>
     (\<forall>sid r. get_session s sid = Some r \<longrightarrow> (\<exists>r'. get_session t sid = Some r' \<and> session_evolves r r'))"

lemma sessions_extend_refl [simp, intro!]: "sessions_extend s s"
  by (auto simp: sessions_extend_def)

lemma sessions_extend_trans: "sessions_extend s t \<Longrightarrow> sessions_extend t u \<Longrightarrow> sessions_extend s u"
  unfolding sessions_extend_def by (meson session_evolves_trans)

lemma sessions_extend_cong:
  "sessions s' = sessions s \<Longrightarrow> sessions t' = sessions t \<Longrightarrow> sessions_extend s' t' = sessions_extend s t"
  by (simp add: sessions_extend_def get_session_def)

lemma upd_session_extends:
  assumes "\<And>r. session_evolves r (f r)"
  shows "sessions_extend s (upd_session sid f s)"
proof -
  have "as_id (f r) = as_id r" for r using assms [of r] by (simp add: session_evolves_def)
  with assms show ?thesis by (auto simp: sessions_extend_def get_session_upd_session)
qed

lemma upd_session_extends_at:
  assumes "get_session s sid = Some r" "session_evolves r (f r)" "\<And>r. as_id (f r) = as_id r"
  shows "sessions_extend s (upd_session sid f s)"
  using assms by (auto simp: sessions_extend_def get_session_upd_session)

lemma upd_where_sessions_extend:
  assumes "\<And>r. P r \<Longrightarrow> session_evolves r (f r)" "\<And>r. as_id (f r) = as_id r"
  shows "sessions_extend s (s\<lparr>sessions := upd_where P f (sessions s)\<rparr>)"
  using assms by (auto simp: sessions_extend_def get_session_def find_row_upd_where)


section \<open>Laws of the operations\<close>

lemma create_session_InrD:
  assumes "create_session cx token csrf uid request m s = (Inr (r, tk, cs), s')"
  shows "tk = token \<and> cs = csrf \<and> as_user_id r = uid \<and> as_token_hash r = hash_value cx token \<and>
     as_csrf_token_hash r = hash_value cx csrf \<and> as_created_at r = cx_now cx \<and>
     as_expires_at r = cx_now cx + hours (session_hours (cx_config cx)) \<and>
     as_idle_expires_at r = cx_now cx + minutes (idle_minutes (cx_config cx)) \<and>
     as_revoked_at r = None \<and> as_mfa_verified r = m \<and> as_id r = next_id as_id (sessions s) \<and>
     as_last_seen_at r = cx_now cx \<and>
     hash_value cx token \<notin> as_token_hash ` set (sessions s) \<and>
     s' = s\<lparr>sessions := sessions s @ [r]\<rparr>"
  using assms unfolding create_session_def Let_def
  by (simp split: if_splits) (auto simp: insert_row_def set_as_id_def)

lemma create_session_InlD:
  "create_session cx token csrf uid request m s = (Inl e, s') \<Longrightarrow> e = IntegrityError \<and> s' = s"
  by (auto simp: create_session_def Let_def split: if_splits)

lemma create_session_extends:
  "create_session cx token csrf uid request m s = (out, s') \<Longrightarrow> sessions_extend s s'"
  unfolding create_session_def Let_def
  by (auto simp: sessions_extend_def get_session_def session_table.find_old split: if_splits)

lemma find_session_SomeD:
  "find_session cx token s = Some r \<Longrightarrow> r \<in> set (sessions s) \<and> as_token_hash r = hash_value cx token"
  by (auto simp: find_session_def dest: find_SomeD)

lemma get_session_of_mem:
  "sessions_wf s \<Longrightarrow> r \<in> set (sessions s) \<Longrightarrow> get_session s (as_id r) = Some r"
  by (auto simp: sessions_wf_def get_session_def intro: find_row_unique)

lemma lookup_session_SomeD:
  assumes "lookup_session cx request refresh s = (Some r, s')"
  obtains token r0 where
    "rq_session_cookie request = Some token" "token \<noteq> []" "find_session cx token s = Some r0"
    "session_live cx s r0"
    "r = (if refresh \<and> seconds 60 \<le> cx_now cx - as_last_seen_at r0 then refresh_row cx r0 else r0)"
    "s' = (if refresh \<and> seconds 60 \<le> cx_now cx - as_last_seen_at r0
           then upd_session (as_id r0) (refresh_row cx) s else s)"
proof -
  from assms obtain token where 1: "rq_session_cookie request = Some token" "token \<noteq> []"
    by (auto simp: lookup_session_def Let_def split: option.splits if_splits)
  with assms obtain r0 where 2: "find_session cx token s = Some r0"
    by (auto simp: lookup_session_def Let_def split: option.splits)
  from assms 1 2 have 3: "as_revoked_at r0 = None" "\<not> session_expired cx r0" "session_user_usable s r0"
    by (simp_all add: lookup_session_def Let_def split: if_splits)
  with 2 have 4: "session_live cx s r0"
    by (auto simp: session_live_def session_expired_def dest: find_session_SomeD)
  show thesis
    by (rule that [OF 1 2 4]) (use assms 1 2 3 in \<open>auto simp: lookup_session_def Let_def split: if_splits\<close>)
qed

lemma lookup_session_frame:
  "lookup_session cx request refresh s = (out, s') \<Longrightarrow>
     users s' = users s \<and> roles s' = roles s \<and> permissions s' = permissions s \<and>
     user_roles s' = user_roles s \<and> role_permissions s' = role_permissions s \<and>
     audit_events s' = audit_events s \<and> mfa_devices s' = mfa_devices s \<and>
     recovery_codes s' = recovery_codes s \<and> challenges s' = challenges s \<and> attempts s' = attempts s"
  unfolding lookup_session_def Let_def by (auto split: option.splits if_splits)

lemma lookup_session_extends:
  assumes wf: "sessions_wf s" and l: "lookup_session cx request refresh s = (out, s')"
  shows "sessions_extend s s'"
proof -
  have *: "sessions_extend s (upd_session (as_id r) f s)"
    if "find_session cx token s = Some r" "session_evolves r (f r)" "\<And>r. as_id (f r) = as_id r"
    for token r f
    using that wf upd_session_extends_at [OF get_session_of_mem] find_session_SomeD by blast
  show ?thesis
    using l unfolding lookup_session_def Let_def
    by (auto split: option.splits if_splits intro!: *)
qed

lemma rotate_csrf_extends: "rotate_csrf cx token sid s = (out, s') \<Longrightarrow> sessions_extend s s'"
  by (auto simp: rotate_csrf_def session_evolves_def intro!: upd_session_extends)

lemma revoke_session_extends: "sessions_extend s (revoke_session cx sid reason s)"
  by (auto simp: revoke_session_def intro!: upd_session_extends)

lemma revoke_user_sessions_extends:
  "revoke_user_sessions cx uid reason keep s = (n, s') \<Longrightarrow> sessions_extend s s'"
  by (auto simp: revoke_user_sessions_def user_session_selected_def intro!: upd_where_sessions_extend)

lemma revoke_user_sessions_frame [simp]:
  "users (snd (revoke_user_sessions cx uid reason keep s)) = users s"
  "roles (snd (revoke_user_sessions cx uid reason keep s)) = roles s"
  "permissions (snd (revoke_user_sessions cx uid reason keep s)) = permissions s"
  "user_roles (snd (revoke_user_sessions cx uid reason keep s)) = user_roles s"
  "role_permissions (snd (revoke_user_sessions cx uid reason keep s)) = role_permissions s"
  "attempts (snd (revoke_user_sessions cx uid reason keep s)) = attempts s"
  "mfa_devices (snd (revoke_user_sessions cx uid reason keep s)) = mfa_devices s"
  "recovery_codes (snd (revoke_user_sessions cx uid reason keep s)) = recovery_codes s"
  "challenges (snd (revoke_user_sessions cx uid reason keep s)) = challenges s"
  "audit_events (snd (revoke_user_sessions cx uid reason keep s)) = audit_events s"
  "notifications (snd (revoke_user_sessions cx uid reason keep s)) = notifications s"
  "activities (snd (revoke_user_sessions cx uid reason keep s)) = activities s"
  by (simp_all add: revoke_user_sessions_def)

lemma upd_session_wf:
  assumes "sessions_wf s" "\<And>r. as_id (f r) = as_id r" "\<And>r. as_token_hash (f r) = as_token_hash r"
  shows "sessions_wf (upd_session sid f s)"
  using assms by (simp add: sessions_wf_def upd_session_def map_upd_row)

lemma create_session_wf:
  assumes "sessions_wf s" "create_session cx token csrf uid request m s = (out, s')"
  shows "sessions_wf s'"
proof (cases out)
  case (Inl e)
  with assms create_session_InlD [of cx token csrf uid request m s e s'] show ?thesis by simp
next
  case (Inr b)
  obtain r tk cs where b: "b = (r, tk, cs)" by (cases b) auto
  have "as_id r \<notin> as_id ` set (sessions s)"
    using create_session_InrD assms(2) Inr b next_id_fresh by metis
  with assms Inr b create_session_InrD show ?thesis
    by (fastforce simp: sessions_wf_def)
qed

lemma lookup_session_wf:
  "sessions_wf s \<Longrightarrow> lookup_session cx request refresh s = (out, s') \<Longrightarrow> sessions_wf s'"
  unfolding lookup_session_def Let_def
  by (auto split: option.splits if_splits intro!: upd_session_wf)

lemma revoke_user_sessions_wf:
  "sessions_wf s \<Longrightarrow> sessions_wf (snd (revoke_user_sessions cx uid reason keep s))"
  by (simp add: sessions_wf_def revoke_user_sessions_def map_upd_where)


section \<open>Runs\<close>

text \<open>
  One call of an operation of the session service, under settings \<open>c\<close>, with any clock value,
  any request and any outcome. Other operations of the application leave the table of
  sessions alone (\<open>other\<close>).
\<close>

inductive session_step :: "access_config \<Rightarrow> db \<Rightarrow> db \<Rightarrow> bool" for c where
  create: "cx_config cx = c \<Longrightarrow> create_session cx token csrf uid request m s = (out, s') \<Longrightarrow> session_step c s s'"
| lookup: "cx_config cx = c \<Longrightarrow> lookup_session cx request refresh s = (found, s') \<Longrightarrow> session_step c s s'"
| rotate: "cx_config cx = c \<Longrightarrow> rotate_csrf cx token sid s = (tok, s') \<Longrightarrow> session_step c s s'"
| revoke: "cx_config cx = c \<Longrightarrow> revoke_session cx sid reason s = s' \<Longrightarrow> session_step c s s'"
| revoke_user: "cx_config cx = c \<Longrightarrow> revoke_user_sessions cx uid reason keep s = (n, s') \<Longrightarrow> session_step c s s'"
| other: "sessions s' = sessions s \<Longrightarrow> session_step c s s'"

inductive session_run :: "access_config \<Rightarrow> db \<Rightarrow> db \<Rightarrow> bool" for c where
  start: "session_run c s s"
| step: "session_run c s t \<Longrightarrow> session_step c t u \<Longrightarrow> session_run c s u"

text \<open>Every session was given the lifetime of the settings when it was created.\<close>

definition lifetime_inv :: "access_config \<Rightarrow> db \<Rightarrow> bool" where
  "lifetime_inv c s \<longleftrightarrow>
     (\<forall>r \<in> set (sessions s). as_expires_at r = as_created_at r + hours (session_hours c))"

lemma session_step_wf: "session_step c s t \<Longrightarrow> sessions_wf s \<Longrightarrow> sessions_wf t"
proof (induction rule: session_step.induct)
  case (create cx token csrf uid request m s out s')
  then show ?case using create_session_wf by blast
next
  case (lookup cx request refresh s found s')
  then show ?case using lookup_session_wf by blast
next
  case (rotate cx token sid s tok s')
  then show ?case by (auto simp: rotate_csrf_def intro!: upd_session_wf)
next
  case (revoke cx sid reason s s')
  then show ?case by (auto simp: revoke_session_def intro!: upd_session_wf)
next
  case (revoke_user cx uid reason keep s n s')
  then show ?case using revoke_user_sessions_wf by (metis snd_conv)
next
  case (other s' s)
  then show ?case by (simp add: sessions_wf_def)
qed

lemma session_step_extends: "session_step c s t \<Longrightarrow> sessions_wf s \<Longrightarrow> sessions_extend s t"
proof (induction rule: session_step.induct)
  case (other s' s)
  then show ?case using sessions_extend_cong [of s s s' s] by simp
qed (auto intro: create_session_extends lookup_session_extends rotate_csrf_extends
      revoke_session_extends revoke_user_sessions_extends)

lemma lifetime_inv_mapI:
  assumes "lifetime_inv c s" "sessions t = map f (sessions s)"
    "\<And>r. as_expires_at (f r) = as_expires_at r" "\<And>r. as_created_at (f r) = as_created_at r"
  shows "lifetime_inv c t"
  using assms by (auto simp: lifetime_inv_def)

lemma session_step_lifetime: "session_step c s t \<Longrightarrow> lifetime_inv c s \<Longrightarrow> lifetime_inv c t"
proof (induction rule: session_step.induct)
  case (create cx token csrf uid request m s out s')
  show ?case
  proof (cases out)
    case (Inl e)
    with create create_session_InlD show ?thesis by metis
  next
    case (Inr b)
    obtain r tk cs where b: "b = (r, tk, cs)" by (cases b) auto
    from create_session_InrD create Inr b show ?thesis
      by (fastforce simp: lifetime_inv_def)
  qed
next
  case (lookup cx request refresh s found s')
  then show ?case unfolding lookup_session_def Let_def upd_session_def
    by (auto simp: lifetime_inv_def set_upd_row split: option.splits if_splits)
next
  case (rotate cx token sid s tok s')
  then show ?case by (auto simp: rotate_csrf_def upd_session_def lifetime_inv_def set_upd_row)
next
  case (revoke cx sid reason s s')
  then show ?case
    by (auto simp: revoke_session_def upd_session_def lifetime_inv_def set_upd_row mark_revoked_def)
next
  case (revoke_user cx uid reason keep s n s')
  then show ?case
    by (auto simp: revoke_user_sessions_def lifetime_inv_def set_upd_where mark_revoked_def)
next
  case (other s' s)
  then show ?case by (simp add: lifetime_inv_def)
qed

lemma session_run_props:
  "session_run c s t \<Longrightarrow> sessions_wf s \<Longrightarrow>
     sessions_wf t \<and> sessions_extend s t \<and> (lifetime_inv c s \<longrightarrow> lifetime_inv c t)"
  by (induction rule: session_run.induct)
     (auto intro: session_step_wf session_step_extends sessions_extend_trans session_step_lifetime)


section \<open>Properties\<close>

lemma lookup_session_evolves:
  assumes "lookup_session cx request refresh s = (Some r, s')" "sessions_wf s"
  shows "\<exists>r0. get_session s (as_id r) = Some r0 \<and> session_evolves r0 r \<and> as_revoked_at r0 = None"
  using assms(1)
proof (rule lookup_session_SomeD)
  fix token r0
  assume "session_live cx s r0"
    and "r = (if refresh \<and> seconds 60 \<le> cx_now cx - as_last_seen_at r0 then refresh_row cx r0 else r0)"
  with assms(2) get_session_of_mem [of s r0] show ?thesis
    by (auto simp: session_live_def)
qed

lemma lookup_session_refresh:
  assumes "lookup_session cx request refresh s = (Some r, s')" "sessions_wf s" "get_session s (as_id r) = Some r0"
  shows "r = r0 \<or> as_idle_expires_at r \<le> as_expires_at r"
  using assms(1)
proof (rule lookup_session_SomeD)
  fix token r1
  assume "session_live cx s r1"
    and r: "r = (if refresh \<and> seconds 60 \<le> cx_now cx - as_last_seen_at r1 then refresh_row cx r1 else r1)"
  then have "get_session s (as_id r) = Some r1"
    using assms(2) get_session_of_mem [of s r1] by (auto simp: session_live_def)
  with assms(3) r show ?thesis by auto
qed

lemma lookup_session_facts:
  assumes "lookup_session cx request refresh s = (Some r, s')"
  shows "(\<exists>token. rq_session_cookie request = Some token \<and> token \<noteq> [] \<and>
            as_token_hash r = hash_value cx token) \<and>
     as_revoked_at r = None \<and> cx_now cx < as_expires_at r \<and>
     (\<exists>r0 \<in> set (sessions s). as_id r0 = as_id r \<and> cx_now cx < as_idle_expires_at r0) \<and>
     (\<exists>u. get_user s (as_user_id r) = Some u \<and> ua_status u \<notin> {Disabled, Locked})"
  using assms
proof (rule lookup_session_SomeD)
  fix token r0
  assume c: "rq_session_cookie request = Some token" "token \<noteq> []"
    and f: "find_session cx token s = Some r0" and live: "session_live cx s r0"
    and r: "r = (if refresh \<and> seconds 60 \<le> cx_now cx - as_last_seen_at r0 then refresh_row cx r0 else r0)"
  from r have same: "as_id r = as_id r0" "as_token_hash r = as_token_hash r0" "as_user_id r = as_user_id r0"
    "as_revoked_at r = as_revoked_at r0" "as_expires_at r = as_expires_at r0"
    by auto
  have "as_token_hash r0 = hash_value cx token" using f find_session_SomeD by blast
  with c live same show ?thesis
    by (auto simp: session_live_def session_user_usable_def split: option.splits)
qed

text \<open>C5. A lookup returns a session only for a cookie whose token hashes to the stored hash,
  and only a session that is not revoked, has passed neither its absolute nor its idle
  expiry, and belongs to an existing account that is neither disabled nor locked.\<close>

theorem lookup_session_only_live:
  assumes "lookup_session cx request refresh s = (Some r, s')"
  shows "(\<exists>token. rq_session_cookie request = Some token \<and> token \<noteq> [] \<and>
            as_token_hash r = hash_value cx token) \<and>
     as_revoked_at r = None \<and> cx_now cx < as_expires_at r \<and>
     (\<exists>r0 \<in> set (sessions s). as_id r0 = as_id r \<and> cx_now cx < as_idle_expires_at r0) \<and>
     (\<exists>u. get_user s (as_user_id r) = Some u \<and> ua_status u \<notin> {Disabled, Locked})"
  by (rule lookup_session_facts [OF assms])

theorem lookup_session_only_live_witness:
  "lookup_session (demo_ctx 7) (demo_request ''GET'' ''/'' ''t2'') True demo_db =
     (Some (demo_session 2 2 ''t2'' None), demo_db) \<and>
   as_revoked_at (demo_session 2 2 ''t2'' None) = None"
proof -
  have l: "lookup_session (demo_ctx 7) (demo_request ''GET'' ''/'' ''t2'') True demo_db =
     (Some (demo_session 2 2 ''t2'' None), demo_db)"
    by code_simp
  show ?thesis using l lookup_session_only_live [OF l] by simp
qed

text \<open>C18. Revocation is permanent: once a session is revoked, no later lookup returns it,
  whatever operations of the session service run in between.\<close>

theorem revoked_session_never_returned:
  assumes "sessions_wf s" "session_run c s t" "get_session s sid = Some r" "as_revoked_at r \<noteq> None"
    and "lookup_session cx request refresh t = (Some r', t')"
  shows "as_id r' \<noteq> sid"
proof
  assume sid: "as_id r' = sid"
  from session_run_props [OF assms(2) assms(1)]
  have wf: "sessions_wf t" and ext: "sessions_extend s t" by auto
  from lookup_session_evolves [OF assms(5) wf] sid
  obtain r0 where "get_session t sid = Some r0" "as_revoked_at r0 = None" by auto
  with ext assms(3,4) show False
    by (fastforce simp: sessions_extend_def session_evolves_def)
qed

theorem revoked_session_never_returned_witness:
  "session_run demo_config demo_db demo_db \<and> as_revoked_at (demo_session 1 1 ''t1'' (Some 5)) \<noteq> None \<and>
   as_id (demo_session 2 2 ''t2'' None) \<noteq> 1"
proof -
  have wf: "sessions_wf demo_db" by code_simp
  have g: "get_session demo_db 1 = Some (demo_session 1 1 ''t1'' (Some 5))" by code_simp
  have r: "as_revoked_at (demo_session 1 1 ''t1'' (Some 5)) \<noteq> None" by code_simp
  have l: "lookup_session (demo_ctx 7) (demo_request ''GET'' ''/'' ''t2'') True demo_db =
     (Some (demo_session 2 2 ''t2'' None), demo_db)"
    by code_simp
  show ?thesis
    using revoked_session_never_returned [OF wf session_run.start g r l] session_run.start r by blast
qed

text \<open>C21. The absolute lifetime cannot be extended. A session that a lookup returns expires exactly
  \<open>session_hours\<close> after its creation and was created less than \<open>session_hours\<close> ago, however often it was
  refreshed; since any earlier state of the run its absolute expiry has not moved; and a lookup that
  changes the row, by refreshing it, leaves its idle expiry at or before the absolute one. (The idle
  expiry a session is created with is not clamped.)\<close>

theorem session_lifetime_bounded:
  assumes "sessions_wf s" "lifetime_inv c s" "session_run c s t"
    and "lookup_session cx request refresh t = (Some r, t')"
  shows "cx_now cx < as_created_at r + hours (session_hours c) \<and>
    as_expires_at r = as_created_at r + hours (session_hours c) \<and>
    (\<forall>r1. get_session s (as_id r) = Some r1 \<longrightarrow>
       as_created_at r1 = as_created_at r \<and> as_expires_at r1 = as_expires_at r) \<and>
    (\<forall>r1. get_session t (as_id r) = Some r1 \<longrightarrow> r1 \<noteq> r \<longrightarrow> as_idle_expires_at r \<le> as_expires_at r)"
proof -
  from session_run_props [OF assms(3) assms(1)] assms(2)
  have wf: "sessions_wf t" and life: "lifetime_inv c t" and ext: "sessions_extend s t" by auto
  from lookup_session_evolves [OF assms(4) wf] obtain r0 where
    r0: "get_session t (as_id r) = Some r0" "session_evolves r0 r" by auto
  from r0(1) life have "as_expires_at r0 = as_created_at r0 + hours (session_hours c)"
    by (auto simp: lifetime_inv_def get_session_def dest: find_row_SomeD)
  with r0(2) have e: "as_expires_at r = as_created_at r + hours (session_hours c)"
    by (simp add: session_evolves_def)
  have "as_created_at r1 = as_created_at r \<and> as_expires_at r1 = as_expires_at r"
    if "get_session s (as_id r) = Some r1" for r1
    using ext that r0 by (fastforce simp: sessions_extend_def session_evolves_def)
  moreover have "as_idle_expires_at r \<le> as_expires_at r" if "r0 \<noteq> r"
    using lookup_session_refresh [OF assms(4) wf r0(1)] that by auto
  moreover have "cx_now cx < as_expires_at r" using lookup_session_facts [OF assms(4)] by blast
  ultimately show ?thesis using e r0(1) by simp
qed

theorem session_lifetime_bounded_witness:
  "\<exists>r. fst (lookup_session (demo_ctx (minutes 2)) (demo_request ''GET'' ''/'' ''t2'') True demo_db) = Some r \<and>
     as_idle_expires_at r = minutes 32 \<and> as_idle_expires_at r \<le> as_expires_at r \<and>
     minutes 2 < as_created_at r + hours (session_hours demo_config)"
proof -
  have wf: "sessions_wf demo_db" by code_simp
  have li: "lifetime_inv demo_config demo_db" by code_simp
  let ?r = "refresh_row (demo_ctx (minutes 2)) (demo_session 2 2 ''t2'' None)"
  have x: "fst (lookup_session (demo_ctx (minutes 2)) (demo_request ''GET'' ''/'' ''t2'') True demo_db) = Some ?r"
    by code_simp
  from x obtain t where l: "lookup_session (demo_ctx (minutes 2)) (demo_request ''GET'' ''/'' ''t2'') True demo_db = (Some ?r, t)"
    by (metis prod.collapse)
  have g: "get_session demo_db (as_id ?r) = Some (demo_session 2 2 ''t2'' None)" by code_simp
  have d: "demo_session 2 2 ''t2'' None \<noteq> ?r" by code_simp
  have i: "as_idle_expires_at ?r = minutes 32" by code_simp
  have n: "cx_now (demo_ctx (minutes 2)) = minutes 2" by (simp add: demo_ctx_def)
  note f = session_lifetime_bounded [OF wf li session_run.start l]
  have a: "minutes 2 < as_created_at ?r + hours (session_hours demo_config)"
    using conjunct1 [OF f] by (simp only: n)
  have m: "as_idle_expires_at ?r \<le> as_expires_at ?r" using f g d by blast
  show ?thesis by (intro exI [of _ ?r] conjI x i m a)
qed

text \<open>A session that was just created is found again: with the issued token as the
  cookie, the lookup returns that session as long as neither expiry has passed and the
  account is usable.\<close>

theorem create_then_lookup:
  assumes c: "create_session cx token csrf uid request m s = (Inr (r, token', csrf'), s')"
    and same: "cx_crypto cx' = cx_crypto cx" "cx_config cx' = cx_config cx"
    and cookie: "rq_session_cookie request' = Some token'" "token' \<noteq> []"
    and fresh: "cx_now cx' < cx_now cx + hours (session_hours (cx_config cx))"
      "cx_now cx' < cx_now cx + minutes (idle_minutes (cx_config cx))"
    and usable: "get_user s uid = Some u" "ua_status u \<noteq> Disabled" "ua_status u \<noteq> Locked"
  shows "\<exists>r' s''. lookup_session cx' request' refresh s' = (Some r', s'') \<and> as_id r' = as_id r \<and>
     as_user_id r' = uid \<and> as_mfa_verified r' = m"
proof -
  note f = create_session_InrD [OF c]
  have h: "hash_value cx' token = hash_value cx token" using same by (simp add: hash_value_def)
  from f have "find (\<lambda>r. as_token_hash r = hash_value cx token) (sessions s) = None"
    by (simp add: find_key_None)
  with f h have found: "find_session cx' token s' = Some r"
    by (simp add: find_session_def find_append)
  from f have s': "s' = s\<lparr>sessions := sessions s @ [r]\<rparr>" by simp
  from usable f have "session_user_usable s' r"
    by (simp add: session_user_usable_def get_user_def)
  with f found cookie fresh show ?thesis
    by (auto simp: lookup_session_def session_expired_def not_le)
qed

theorem create_then_lookup_witness:
  "\<exists>r' s''. lookup_session (demo_ctx 9) (demo_request ''GET'' ''/'' ''t9'') True
       (snd (create_session (demo_ctx 8) ''t9'' ''c9'' 2 (demo_request ''POST'' ''/'' ''t2'') False demo_db)) =
     (Some r', s'') \<and> as_id r' = 3 \<and> as_user_id r' = 2"
proof -
  let ?c = "create_session (demo_ctx 8) ''t9'' ''c9'' 2 (demo_request ''POST'' ''/'' ''t2'') False demo_db"
  let ?r = "fst (projr (fst ?c))"
  have c: "?c = (Inr (?r, ''t9'', ''c9''), snd ?c)" by code_simp
  have i: "as_id ?r = 3" by code_simp
  have "\<exists>r' s''. lookup_session (demo_ctx 9) (demo_request ''GET'' ''/'' ''t9'') True (snd ?c) = (Some r', s'') \<and>
     as_id r' = as_id ?r \<and> as_user_id r' = 2 \<and> as_mfa_verified r' = False"
    by (rule create_then_lookup [OF c, where u = "demo_user 2 ''ana'' Active False"], simp, simp, simp, simp)
       (code_simp+)
  then show ?thesis unfolding i by blast
qed

text \<open>Revoking the sessions of an account leaves it no open session but the one that was
  to be kept, changes no other row, and reports the number of sessions it closed.\<close>

theorem revoke_user_sessions_complete:
  assumes rv: "revoke_user_sessions cx uid reason keep s = (n, s')"
  shows "(\<forall>r \<in> set (sessions s'). as_user_id r = uid \<and> as_revoked_at r = None \<longrightarrow> keep = Some (as_id r)) \<and>
     (\<forall>r \<in> set (sessions s). as_user_id r \<noteq> uid \<or> keep = Some (as_id r) \<longrightarrow> r \<in> set (sessions s')) \<and>
     count_where (\<lambda>r. as_user_id r = uid \<and> as_revoked_at r = None) (sessions s) =
       n + count_where (\<lambda>r. as_user_id r = uid \<and> as_revoked_at r = None) (sessions s')"
proof -
  let ?sel = "user_session_selected uid keep"
  let ?open = "\<lambda>r. as_user_id r = uid \<and> as_revoked_at r = None"
  have s': "sessions s' = upd_where ?sel (mark_revoked (cx_now cx) reason) (sessions s)"
    and n: "n = count_where ?sel (sessions s)"
    using rv by (auto simp: revoke_user_sessions_def)
  have sel_open: "?open r" if "?sel r" for r using that by (simp add: user_session_selected_def)
  have count: "count_where ?open rows =
      count_where ?sel rows + count_where ?open (upd_where ?sel (mark_revoked (cx_now cx) reason) rows)" for rows
  proof (induction rows)
    case (Cons r rows)
    then show ?case using sel_open [of r] by (cases "?sel r") simp_all
  qed simp
  have "count_where ?open (sessions s) = n + count_where ?open (sessions s')"
    unfolding s' n by (rule count)
  moreover have "keep = Some (as_id r)" if "r \<in> set (sessions s')" "?open r" for r
  proof -
    from that(1) obtain r0 where "r = (if ?sel r0 then mark_revoked (cx_now cx) reason r0 else r0)"
      unfolding s' set_upd_where by blast
    with that(2) have "\<not> ?sel r" by (cases "?sel r0") simp_all
    with that(2) show ?thesis by (simp add: user_session_selected_def split: option.splits)
  qed
  moreover have "r \<in> set (sessions s')"
    if "r \<in> set (sessions s)" "as_user_id r \<noteq> uid \<or> keep = Some (as_id r)" for r
  proof -
    from that(2) have "\<not> ?sel r" by (auto simp: user_session_selected_def)
    with that(1) show ?thesis by (force simp: s' set_upd_where)
  qed
  ultimately show ?thesis by blast
qed

theorem revoke_user_sessions_complete_witness:
  "fst (revoke_user_sessions (demo_ctx 9) 2 ''logout_all'' None demo_db) = 1 \<and>
   filter (\<lambda>r. as_user_id r = 2 \<and> as_revoked_at r = None)
     (sessions (snd (revoke_user_sessions (demo_ctx 9) 2 ''logout_all'' None demo_db))) = []"
proof -
  let ?r = "revoke_user_sessions (demo_ctx 9) 2 ''logout_all'' None demo_db"
  have n: "fst ?r = 1" by code_simp
  have "?r = (fst ?r, snd ?r)" by simp
  from n revoke_user_sessions_complete [OF this] show ?thesis by (auto simp: filter_empty_conv)
qed

text \<open>After a CSRF rotation exactly the header values that hash like the new token are
  accepted for the session, so the previous token stops working unless the two collide.\<close>

theorem rotate_then_validate_csrf:
  "get_session s sid = Some r \<Longrightarrow>
   \<exists>r'. get_session (snd (rotate_csrf cx token sid s)) sid = Some r' \<and>
     (validate_csrf cx request r' = Inr () \<longleftrightarrow>
        (\<exists>h. rq_csrf_header request = Some h \<and> h \<noteq> [] \<and> hash_value cx h = hash_value cx token))"
  by (auto simp: rotate_csrf_def get_session_upd_session validate_csrf_def split: option.splits)

theorem rotate_then_validate_csrf_witness:
  "\<exists>r'. get_session (snd (rotate_csrf (demo_ctx 9) ''csrf'' 2 demo_db)) 2 = Some r' \<and>
     validate_csrf (demo_ctx 9) (demo_request ''POST'' ''/'' ''t2'') r' = Inr ()"
proof -
  have g: "get_session demo_db 2 = Some (demo_session 2 2 ''t2'' None)" by code_simp
  have "rq_csrf_header (demo_request ''POST'' ''/'' ''t2'') = Some ''csrf''" by code_simp
  then show ?thesis
    using rotate_then_validate_csrf [OF g, of "demo_ctx 9" "''csrf''" "demo_request ''POST'' ''/'' ''t2''"]
    by auto
qed

end
