(* ===== verification/Roles.thy ===== *)
theory Roles
  imports Access_Fixtures
begin

text \<open>
  Roles and permissions (\<open>access_control/role_service.py\<close>): seeding the catalog, the
  permissions an account holds, its role keys and the replacement of its roles. The two rule
  files (\<open>rules/permissions.json\<close> and \<open>rules/default_roles.json\<close>) are the arguments
  \<open>catalog\<close> and \<open>definitions\<close> of the seeding. Joins are list comprehensions over the
  tables; iteration over a Python set is iteration over the sorted list of its elements.
\<close>

section \<open>Queries\<close>

definition effective_permissions :: "db \<Rightarrow> user_account \<Rightarrow> string set" where
  "effective_permissions s u =
     (if ua_is_system_admin u then set (map ap_permission_key (permissions s))
      else set [ap_permission_key p. p \<leftarrow> permissions s,
                  a \<leftarrow> role_permissions s, rpa_permission_id a = ap_id p,
                  r \<leftarrow> roles s, ar_id r = rpa_role_id a \<and> ar_enabled r,
                  w \<leftarrow> user_roles s, ura_role_id w = ar_id r \<and> ura_user_id w = ua_id u])"

definition role_keys :: "db \<Rightarrow> nat \<Rightarrow> string list" where
  "role_keys s uid =
     sort [ar_role_key r. r \<leftarrow> roles s, ar_enabled r,
             w \<leftarrow> user_roles s, ura_role_id w = ar_id r \<and> ura_user_id w = uid]"


section \<open>Assignment\<close>

definition new_assignment :: "ctx \<Rightarrow> nat \<Rightarrow> nat option \<Rightarrow> access_role \<Rightarrow> user_role_assignment" where
  "new_assignment cx uid actor_id r =
     \<lparr>ura_id = 0, ura_user_id = uid, ura_role_id = ar_id r,
      ura_assigned_by_user_id = actor_id, ura_assigned_at = cx_now cx\<rparr>"

definition assign_roles :: "ctx \<Rightarrow> nat \<Rightarrow> string list \<Rightarrow> nat option \<Rightarrow> (db, unit) action" where
  "assign_roles cx uid keys actor_id s =
     (let chosen = (if keys = [] then []
                    else filter (\<lambda>r. ar_role_key r \<in> set keys \<and> ar_enabled r) (roles s))
      in if length chosen \<noteq> card (set keys)
         then (Inl (ValueError ''One or more roles are invalid or disabled''), s)
         else (Inr (),
               s\<lparr>user_roles := fold (\<lambda>r. insert_row ura_id set_ura_id (new_assignment cx uid actor_id r))
                   chosen (filter (\<lambda>w. ura_user_id w \<noteq> uid) (user_roles s))\<rparr>))"


section \<open>Seeding\<close>

record role_definition =
  rd_name :: string
  rd_description :: string
  rd_permissions :: "string list"

definition seed_permission :: "ctx \<Rightarrow> string \<times> string \<times> string \<Rightarrow> db \<Rightarrow> db" where
  "seed_permission cx = (\<lambda>(key, name, category) s.
     if key \<in> ap_permission_key ` set (permissions s) then s
     else s\<lparr>permissions := insert_row ap_id set_ap_id
              \<lparr>ap_id = 0, ap_permission_key = key, ap_name = name, ap_description = name,
               ap_category = category, ap_created_at = cx_now cx\<rparr> (permissions s)\<rparr>)"

text \<open>The permission keys of a role, and the key of a permission.\<close>

definition permission_key_of :: "db \<Rightarrow> nat \<Rightarrow> string option" where
  "permission_key_of s pid = map_option ap_permission_key (find_row ap_id pid (permissions s))"

definition role_permission_keys :: "db \<Rightarrow> nat \<Rightarrow> string set" where
  "role_permission_keys s rid =
     set [ap_permission_key p. a \<leftarrow> role_permissions s, rpa_role_id a = rid,
            p \<leftarrow> permissions s, ap_id p = rpa_permission_id a]"

definition seed_role_row :: "ctx \<Rightarrow> string \<Rightarrow> role_definition \<Rightarrow> db \<Rightarrow> nat \<times> db" where
  "seed_role_row cx key d s =
     (case find (\<lambda>r. ar_role_key r = key) (roles s) of
        None \<Rightarrow>
          (next_id ar_id (roles s),
           s\<lparr>roles := insert_row ar_id set_ar_id
               \<lparr>ar_id = 0, ar_role_key = key, ar_name = rd_name d, ar_description = rd_description d,
                ar_system_role = True, ar_enabled = True, ar_created_at = cx_now cx\<rparr> (roles s)\<rparr>)
      | Some r \<Rightarrow>
          (ar_id r,
           s\<lparr>roles := upd_row ar_id (ar_id r)
               (\<lambda>r. r\<lparr>ar_name := rd_name d, ar_description := rd_description d,
                      ar_system_role := True, ar_enabled := True\<rparr>) (roles s)\<rparr>))"

definition desired_permissions :: "db \<Rightarrow> role_definition \<Rightarrow> string set" where
  "desired_permissions s d =
     (if rd_permissions d = [''*''] then ap_permission_key ` set (permissions s)
      else set (rd_permissions d))"

definition grant :: "ctx \<Rightarrow> nat \<Rightarrow> access_permission \<Rightarrow> role_permission_assignment" where
  "grant cx rid p =
     \<lparr>rpa_id = 0, rpa_role_id = rid, rpa_permission_id = ap_id p, rpa_assigned_at = cx_now cx\<rparr>"

definition seed_role :: "ctx \<Rightarrow> string \<times> role_definition \<Rightarrow> db \<Rightarrow> db result" where
  "seed_role cx = (\<lambda>(key, d) s.
     let (rid, s1) = seed_role_row cx key d s;
         desired = desired_permissions s1 d;
         current = role_permission_keys s1 rid;
         missing = sorted_list_of_set (desired - current)
     in case find (\<lambda>k. k \<notin> ap_permission_key ` set (permissions s1)) missing of
          Some k \<Rightarrow> Inl (KeyError k)
        | None \<Rightarrow>
            Inr (s1\<lparr>role_permissions :=
              filter (\<lambda>a. \<not> (rpa_role_id a = rid \<and>
                             (case permission_key_of s1 (rpa_permission_id a) of
                                None \<Rightarrow> False | Some k \<Rightarrow> k \<notin> desired)))
                (fold (\<lambda>p. insert_row rpa_id set_rpa_id (grant cx rid p))
                   (concat (map (\<lambda>k. filter (\<lambda>p. ap_permission_key p = k) (permissions s1)) missing))
                   (role_permissions s1))\<rparr>))"

fun seed_roles :: "ctx \<Rightarrow> (string \<times> role_definition) list \<Rightarrow> db \<Rightarrow> db result" where
  "seed_roles cx [] s = Inr s"
| "seed_roles cx (d # ds) s = bind_result (seed_role cx d s) (seed_roles cx ds)"

definition seed_roles_and_permissions ::
  "ctx \<Rightarrow> (string \<times> string \<times> string) list \<Rightarrow> (string \<times> role_definition) list \<Rightarrow> (db, unit) action" where
  "seed_roles_and_permissions cx catalog definitions s =
     (case seed_roles cx definitions (fold (seed_permission cx) catalog s) of
        Inl e \<Rightarrow> (Inl e, s)
      | Inr s' \<Rightarrow> (Inr (), s'))"


section \<open>Laws\<close>

definition roles_wf :: "db \<Rightarrow> bool" where
  "roles_wf s \<longleftrightarrow>
     distinct (map ar_id (roles s)) \<and> distinct (map ar_role_key (roles s)) \<and>
     distinct (map ap_id (permissions s)) \<and> distinct (map ap_permission_key (permissions s))"

definition user_has_role :: "db \<Rightarrow> nat \<Rightarrow> nat \<Rightarrow> bool" where
  "user_has_role s uid rid \<longleftrightarrow> (\<exists>w \<in> set (user_roles s). ura_user_id w = uid \<and> ura_role_id w = rid)"

definition role_grants :: "db \<Rightarrow> nat \<Rightarrow> nat \<Rightarrow> bool" where
  "role_grants s rid pid \<longleftrightarrow>
     (\<exists>a \<in> set (role_permissions s). rpa_role_id a = rid \<and> rpa_permission_id a = pid)"

lemma effective_permissions_iff:
  "k \<in> effective_permissions s u \<longleftrightarrow>
     (\<exists>p \<in> set (permissions s). ap_permission_key p = k \<and>
        (ua_is_system_admin u \<or>
         (\<exists>r \<in> set (roles s). ar_enabled r \<and> user_has_role s (ua_id u) (ar_id r) \<and>
            role_grants s (ar_id r) (ap_id p))))"
proof (cases "ua_is_system_admin u")
  case True
  then show ?thesis by (auto simp: effective_permissions_def)
next
  case False
  then have eq: "effective_permissions s u = set (concat (map (\<lambda>p. concat (map (\<lambda>a.
      if rpa_permission_id a = ap_id p
      then concat (map (\<lambda>r. if ar_id r = rpa_role_id a \<and> ar_enabled r
             then concat (map (\<lambda>w. if ura_role_id w = ar_id r \<and> ura_user_id w = ua_id u
                    then [ap_permission_key p] else []) (user_roles s))
             else []) (roles s))
      else []) (role_permissions s))) (permissions s)))"
    by (simp only: effective_permissions_def if_False)
  show ?thesis
  proof
    assume "k \<in> effective_permissions s u"
    then obtain p a r w where "p \<in> set (permissions s)" "a \<in> set (role_permissions s)" "r \<in> set (roles s)"
      "w \<in> set (user_roles s)" "rpa_permission_id a = ap_id p" "ar_id r = rpa_role_id a" "ar_enabled r"
      "ura_role_id w = ar_id r" "ura_user_id w = ua_id u" "k = ap_permission_key p"
      unfolding eq in_comprehension by blast
    then show "\<exists>p \<in> set (permissions s). ap_permission_key p = k \<and> (ua_is_system_admin u \<or>
         (\<exists>r \<in> set (roles s). ar_enabled r \<and> user_has_role s (ua_id u) (ar_id r) \<and>
            role_grants s (ar_id r) (ap_id p)))"
      unfolding user_has_role_def role_grants_def by metis
  next
    assume "\<exists>p \<in> set (permissions s). ap_permission_key p = k \<and> (ua_is_system_admin u \<or>
         (\<exists>r \<in> set (roles s). ar_enabled r \<and> user_has_role s (ua_id u) (ar_id r) \<and>
            role_grants s (ar_id r) (ap_id p)))"
    with False obtain p a r w where "p \<in> set (permissions s)" "a \<in> set (role_permissions s)" "r \<in> set (roles s)"
      "w \<in> set (user_roles s)" "rpa_permission_id a = ap_id p" "ar_id r = rpa_role_id a" "ar_enabled r"
      "ura_role_id w = ar_id r" "ura_user_id w = ua_id u" "k = ap_permission_key p"
      unfolding user_has_role_def role_grants_def by metis
    then show "k \<in> effective_permissions s u"
      unfolding eq in_comprehension by metis
  qed
qed

lemma effective_permissions_cong:
  assumes "permissions s = permissions t" "role_permissions s = role_permissions t"
    "roles s = roles t" "user_roles s = user_roles t"
  shows "effective_permissions s = effective_permissions t"
  using assms by (simp add: fun_eq_iff effective_permissions_def)

lemma set_role_keys:
  "set (role_keys s uid) =
     {ar_role_key r | r w. r \<in> set (roles s) \<and> ar_enabled r \<and> w \<in> set (user_roles s) \<and>
        ura_role_id w = ar_id r \<and> ura_user_id w = uid}"
  by (auto simp: role_keys_def)

lemma map_fold_insert_row:
  "(\<And>i r. g (set_rid i r) = g r) \<Longrightarrow>
     map g (fold (\<lambda>x. insert_row rid set_rid (f x)) xs rows) = map g rows @ map (\<lambda>x. g (f x)) xs"
  by (induction xs arbitrary: rows) (auto simp: insert_row_def)

lemma image_fold_insert_row:
  assumes "\<And>i r. g (set_rid i r) = g r"
  shows "g ` set (fold (\<lambda>x. insert_row rid set_rid (f x)) xs rows) = g ` set rows \<union> (\<lambda>x. g (f x)) ` set xs"
  using map_fold_insert_row [of g set_rid rid f xs rows, OF assms]
  by (metis set_append set_map)

lemma user_has_role_image:
  "user_has_role s uid rid \<longleftrightarrow> (uid, rid) \<in> (\<lambda>w. (ura_user_id w, ura_role_id w)) ` set (user_roles s)"
  by (auto simp: user_has_role_def)

lemma role_grants_image:
  "role_grants s rid pid \<longleftrightarrow> (rid, pid) \<in> (\<lambda>a. (rpa_role_id a, rpa_permission_id a)) ` set (role_permissions s)"
  by (auto simp: role_grants_def)

lemma set_role_keys_iff:
  "k \<in> set (role_keys s uid) \<longleftrightarrow>
     (\<exists>r \<in> set (roles s). ar_role_key r = k \<and> ar_enabled r \<and> user_has_role s uid (ar_id r))"
  by (auto simp: set_role_keys user_has_role_def)

lemma role_permission_keys_iff:
  "k \<in> role_permission_keys s rid \<longleftrightarrow>
     (\<exists>p \<in> set (permissions s). ap_permission_key p = k \<and> role_grants s rid (ap_id p))"
  unfolding role_permission_keys_def in_comprehension role_grants_def by metis

subsection \<open>Replacing the roles of an account\<close>

definition enabled_role_keys :: "db \<Rightarrow> string set" where
  "enabled_role_keys s = ar_role_key ` {r \<in> set (roles s). ar_enabled r}"

definition chosen_roles :: "db \<Rightarrow> string list \<Rightarrow> access_role list" where
  "chosen_roles s keys = filter (\<lambda>r. ar_role_key r \<in> set keys \<and> ar_enabled r) (roles s)"

lemma length_chosen_roles:
  assumes "distinct (map ar_role_key (roles s))"
  shows "length (chosen_roles s keys) = card (set keys \<inter> enabled_role_keys s)"
proof -
  have "distinct (map ar_role_key (chosen_roles s keys))"
    using assms by (simp add: chosen_roles_def distinct_map_filter)
  then have "length (chosen_roles s keys) = card (ar_role_key ` set (chosen_roles s keys))"
    by (metis distinct_card length_map set_map)
  also have "ar_role_key ` set (chosen_roles s keys) = set keys \<inter> enabled_role_keys s"
    by (auto simp: chosen_roles_def enabled_role_keys_def)
  finally show ?thesis .
qed

lemma length_chosen_iff:
  assumes "distinct (map ar_role_key (roles s))"
  shows "length (chosen_roles s keys) = card (set keys) \<longleftrightarrow> set keys \<subseteq> enabled_role_keys s"
proof -
  have "card (set keys \<inter> E) = card (set keys) \<longleftrightarrow> set keys \<subseteq> E" for E
    using card_subset_eq [of "set keys" "set keys \<inter> E"] by (auto simp: inf_absorb1)
  with length_chosen_roles [OF assms] show ?thesis by simp
qed

lemma assign_roles_unfold:
  "assign_roles cx uid keys actor s =
     (if length (chosen_roles s keys) \<noteq> card (set keys)
      then (Inl (ValueError ''One or more roles are invalid or disabled''), s)
      else (Inr (),
            s\<lparr>user_roles := fold (\<lambda>r. insert_row ura_id set_ura_id (new_assignment cx uid actor r))
                (chosen_roles s keys) (filter (\<lambda>w. ura_user_id w \<noteq> uid) (user_roles s))\<rparr>))"
  by (auto simp: assign_roles_def chosen_roles_def Let_def)

lemma assign_roles_InlD:
  "assign_roles cx uid keys actor s = (Inl e, s') \<Longrightarrow> is_ValueError e \<and> s' = s"
  by (auto simp: assign_roles_unfold split: if_splits)

lemma assign_roles_frame:
  assumes "assign_roles cx uid keys actor s = (out, s')"
  shows "users s' = users s" "roles s' = roles s" "permissions s' = permissions s"
    "role_permissions s' = role_permissions s" "sessions s' = sessions s" "attempts s' = attempts s"
    "mfa_devices s' = mfa_devices s" "recovery_codes s' = recovery_codes s" "challenges s' = challenges s"
    "audit_events s' = audit_events s"
  using assms by (auto simp: assign_roles_unfold split: if_splits)

lemma assign_roles_has_role:
  assumes "assign_roles cx uid keys actor s = (Inr u, s')"
  shows "user_has_role s' j rid \<longleftrightarrow>
     (if j = uid then \<exists>r \<in> set (chosen_roles s keys). ar_id r = rid else user_has_role s j rid)"
proof -
  let ?g = "\<lambda>w. (ura_user_id w, ura_role_id w)"
  have "user_roles s' = fold (\<lambda>r. insert_row ura_id set_ura_id (new_assignment cx uid actor r))
      (chosen_roles s keys) (filter (\<lambda>w. ura_user_id w \<noteq> uid) (user_roles s))"
    using assms by (auto simp: assign_roles_unfold split: if_splits)
  then have "?g ` set (user_roles s') = ?g ` set (filter (\<lambda>w. ura_user_id w \<noteq> uid) (user_roles s)) \<union>
      (\<lambda>r. ?g (new_assignment cx uid actor r)) ` set (chosen_roles s keys)"
    by (simp only:) (rule image_fold_insert_row, simp add: set_ura_id_def)
  then show ?thesis by (auto simp: user_has_role_image new_assignment_def)
qed

lemma assign_roles_keys:
  assumes wf: "roles_wf s" and a: "assign_roles cx uid keys actor s = (Inr u, s')"
  shows "set (role_keys s' j) = (if j = uid then set keys else set (role_keys s j))"
proof -
  have id: "r = r'" if "r \<in> set (roles s)" "r' \<in> set (roles s)" "ar_id r = ar_id r'" for r r'
    using wf that by (auto simp: roles_wf_def distinct_map inj_on_def)
  have "length (chosen_roles s keys) = card (set keys)"
    using a by (auto simp: assign_roles_unfold split: if_splits)
  with wf have sub: "set keys \<subseteq> enabled_role_keys s"
    by (simp add: roles_wf_def length_chosen_iff)
  have "k \<in> set (role_keys s' j) \<longleftrightarrow> k \<in> (if j = uid then set keys else set (role_keys s j))" for k
  proof (cases "j = uid")
    case True
    have "k \<in> set (role_keys s' uid) \<longleftrightarrow>
        (\<exists>r \<in> set (roles s). ar_role_key r = k \<and> ar_enabled r \<and> (\<exists>r' \<in> set (chosen_roles s keys). ar_id r' = ar_id r))"
      by (simp add: set_role_keys_iff assign_roles_has_role [OF a] assign_roles_frame [OF a])
    also have "\<dots> \<longleftrightarrow> k \<in> set keys"
    proof
      assume "k \<in> set keys"
      with sub obtain r where "r \<in> set (roles s)" "ar_enabled r" "k = ar_role_key r"
        by (auto simp: enabled_role_keys_def)
      with \<open>k \<in> set keys\<close> show "\<exists>r \<in> set (roles s). ar_role_key r = k \<and> ar_enabled r \<and>
          (\<exists>r' \<in> set (chosen_roles s keys). ar_id r' = ar_id r)"
        by (auto simp: chosen_roles_def)
    qed (use id in \<open>auto simp: chosen_roles_def\<close>)
    finally show ?thesis using True by simp
  next
    case False
    then show ?thesis
      by (simp add: set_role_keys_iff assign_roles_has_role [OF a] assign_roles_frame [OF a])
  qed
  then show ?thesis by blast
qed

subsection \<open>Seeding one role\<close>

lemma seed_role_row_spec:
  assumes wf: "roles_wf s" and r: "seed_role_row cx key d s = (rid, s1)"
  shows "roles_wf s1 \<and> permissions s1 = permissions s \<and> role_permissions s1 = role_permissions s \<and>
     users s1 = users s \<and> user_roles s1 = user_roles s \<and>
     (\<exists>r \<in> set (roles s1). ar_id r = rid \<and> ar_role_key r = key \<and> ar_enabled r \<and> ar_system_role r) \<and>
     (\<forall>r \<in> set (roles s). ar_role_key r \<noteq> key \<longrightarrow> r \<in> set (roles s1) \<and> ar_id r \<noteq> rid)"
proof (cases "find (\<lambda>r. ar_role_key r = key) (roles s)")
  case None
  let ?row = "\<lparr>ar_id = 0, ar_role_key = key, ar_name = rd_name d, ar_description = rd_description d,
                ar_system_role = True, ar_enabled = True, ar_created_at = cx_now cx\<rparr>"
  from None r have s1: "rid = next_id ar_id (roles s)"
      "s1 = s\<lparr>roles := insert_row ar_id set_ar_id ?row (roles s)\<rparr>"
    by (auto simp: seed_role_row_def)
  from None have "key \<notin> ar_role_key ` set (roles s)" by (auto simp: find_None_iff)
  with wf s1 have "roles_wf s1"
    using role_table.distinct_insert [of "roles s" ?row]
    by (simp add: roles_wf_def role_table.map_insert [where g = ar_role_key] set_ar_id_def)
  moreover have "ar_id r \<noteq> rid" if "r \<in> set (roles s)" for r
    using that rid_less_next_id [of r "roles s" ar_id] s1 by simp
  ultimately show ?thesis using s1 by (auto simp: insert_row_def set_ar_id_def)
next
  case (Some r0)
  let ?f = "\<lambda>r. r\<lparr>ar_name := rd_name d, ar_description := rd_description d,
                      ar_system_role := True, ar_enabled := True\<rparr>"
  from Some r have s1: "rid = ar_id r0" "s1 = s\<lparr>roles := upd_row ar_id (ar_id r0) ?f (roles s)\<rparr>"
    by (auto simp: seed_role_row_def)
  from Some have r0: "r0 \<in> set (roles s)" "ar_role_key r0 = key" by (auto dest: find_SomeD)
  have "roles_wf s1" using wf s1 by (simp add: roles_wf_def map_upd_row)
  moreover have ne: "ar_id r \<noteq> rid" if "r \<in> set (roles s)" "ar_role_key r \<noteq> key" for r
    using that r0 wf s1 by (auto simp: roles_wf_def distinct_map dest: inj_onD)
  moreover have "?f r0 \<in> set (roles s1)" using r0 s1 by (force simp: set_upd_row)
  moreover have "r \<in> set (roles s1)" if "r \<in> set (roles s)" "ar_role_key r \<noteq> key" for r
    using ne [OF that] that(1) s1 by (force simp: set_upd_row)
  moreover have "permissions s1 = permissions s" "role_permissions s1 = role_permissions s"
    "users s1 = users s" "user_roles s1 = user_roles s" using s1 by simp_all
  moreover have "ar_id (?f r0) = rid" "ar_role_key (?f r0) = key" "ar_enabled (?f r0)" "ar_system_role (?f r0)"
    using r0 s1 by simp_all
  ultimately show ?thesis by blast
qed

lemma seed_role_spec:
  assumes wf: "roles_wf s" and sr: "seed_role cx (key, d) s = Inr s'"
  shows "roles_wf s' \<and> permissions s' = permissions s \<and>
     (\<exists>r \<in> set (roles s'). ar_role_key r = key \<and> ar_enabled r \<and> ar_system_role r \<and>
        role_permission_keys s' (ar_id r) = desired_permissions s d) \<and>
     (\<forall>r \<in> set (roles s). ar_role_key r \<noteq> key \<longrightarrow>
        r \<in> set (roles s') \<and> role_permission_keys s' (ar_id r) = role_permission_keys s (ar_id r))"
proof -
  obtain rid s1 where row: "seed_role_row cx key d s = (rid, s1)" by fastforce
  note spec = seed_role_row_spec [OF wf row]
  then have d1: "distinct (map ap_id (permissions s1))" "distinct (map ap_permission_key (permissions s1))"
    unfolding roles_wf_def by blast+
  let ?desired = "desired_permissions s1 d"
  let ?missing = "sorted_list_of_set (?desired - role_permission_keys s1 rid)"
  let ?new = "concat (map (\<lambda>k. filter (\<lambda>p. ap_permission_key p = k) (permissions s1)) ?missing)"
  let ?g = "\<lambda>a. (rpa_role_id a, rpa_permission_id a)"
  let ?drop = "\<lambda>(i, pid). i = rid \<and> (case permission_key_of s1 pid of None \<Rightarrow> False | Some k \<Rightarrow> k \<notin> ?desired)"
  from sr row have known: "find (\<lambda>k. k \<notin> ap_permission_key ` set (permissions s1)) ?missing = None"
    by (simp add: seed_role_def Let_def split: option.splits)
  with sr row have s': "s' = s1\<lparr>role_permissions := filter (\<lambda>a. \<not> ?drop (?g a))
       (fold (\<lambda>p. insert_row rpa_id set_rpa_id (grant cx rid p)) ?new (role_permissions s1))\<rparr>"
    by (simp add: seed_role_def Let_def)
  have fin: "finite ?desired" by (simp add: desired_permissions_def)
  have img: "?g ` set (role_permissions s') =
      {x \<in> ?g ` set (role_permissions s1) \<union> (\<lambda>p. (rid, ap_id p)) ` set ?new. \<not> ?drop x}"
  proof -
    let ?rows = "fold (\<lambda>p. insert_row rpa_id set_rpa_id (grant cx rid p)) ?new (role_permissions s1)"
    have "?g ` set ?rows = ?g ` set (role_permissions s1) \<union> (\<lambda>p. ?g (grant cx rid p)) ` set ?new"
      by (rule image_fold_insert_row) (simp add: set_rpa_id_def)
    also have "(\<lambda>p. ?g (grant cx rid p)) = (\<lambda>p. (rid, ap_id p))" by (simp add: grant_def)
    finally have rows: "?g ` set ?rows = ?g ` set (role_permissions s1) \<union> (\<lambda>p. (rid, ap_id p)) ` set ?new" .
    have "?g ` set (filter (\<lambda>a. Q (?g a)) xs) = {x \<in> ?g ` set xs. Q x}" for Q xs by auto
    then have "?g ` set (filter (\<lambda>a. \<not> ?drop (?g a)) ?rows) = {x \<in> ?g ` set ?rows. \<not> ?drop x}" .
    moreover have "role_permissions s' = filter (\<lambda>a. \<not> ?drop (?g a)) ?rows" unfolding s' by simp
    ultimately show ?thesis unfolding rows by presburger
  qed
  have pk: "permission_key_of s1 (ap_id p) = Some (ap_permission_key p)" if "p \<in> set (permissions s1)" for p
    using find_row_unique [OF d1(1) that] by (simp add: permission_key_of_def)
  have new: "set ?new = {p \<in> set (permissions s1). ap_permission_key p \<in> ?desired \<and>
      ap_permission_key p \<notin> role_permission_keys s1 rid}"
    using fin by auto
  have grants: "role_grants s' rid (ap_id p) \<longleftrightarrow> ap_permission_key p \<in> ?desired"
    if p: "p \<in> set (permissions s1)" for p
  proof -
    have "role_grants s1 rid (ap_id p) \<Longrightarrow> ap_permission_key p \<in> role_permission_keys s1 rid"
      using p by (auto simp: role_permission_keys_iff)
    moreover have "ap_permission_key p \<in> role_permission_keys s1 rid \<Longrightarrow> role_grants s1 rid (ap_id p)"
    proof -
      assume "ap_permission_key p \<in> role_permission_keys s1 rid"
      then obtain q where "q \<in> set (permissions s1)" "ap_permission_key q = ap_permission_key p"
        "role_grants s1 rid (ap_id q)" by (auto simp: role_permission_keys_iff)
      moreover from this p d1(2) have "q = p" by (auto simp: distinct_map dest: inj_onD)
      ultimately show ?thesis by simp
    qed
    ultimately show ?thesis
      unfolding role_grants_image img using pk [OF p] p new
      by (auto simp: role_grants_image [symmetric])
  qed
  have others: "role_grants s' i pid \<longleftrightarrow> role_grants s1 i pid" if "i \<noteq> rid" for i pid
    using that unfolding role_grants_image img by auto
  have ps: "permissions s' = permissions s1" "roles s' = roles s1" by (simp_all add: s')
  have "?desired \<subseteq> ap_permission_key ` set (permissions s1)"
  proof
    fix k assume "k \<in> ?desired"
    then show "k \<in> ap_permission_key ` set (permissions s1)"
      using known fin by (cases "k \<in> role_permission_keys s1 rid")
        (auto simp: find_None_iff role_permission_keys_iff)
  qed
  then have exact: "role_permission_keys s' rid = ?desired"
    using grants ps by (fastforce simp: role_permission_keys_iff)
  have same: "role_permission_keys s' i = role_permission_keys s i" if "i \<noteq> rid" for i
    using others [OF that] spec ps by (auto simp: role_permission_keys_iff role_grants_def)
  have "roles_wf s'" using spec unfolding roles_wf_def ps by blast
  moreover have "?desired = desired_permissions s d" using spec by (simp add: desired_permissions_def)
  ultimately show ?thesis using spec ps exact same by metis
qed

subsection \<open>Seeding the whole catalog\<close>

lemma seed_permission_spec:
  assumes "roles_wf s"
  shows "roles_wf (seed_permission cx (key, name, category) s) \<and>
     ap_permission_key ` set (permissions (seed_permission cx (key, name, category) s)) =
       insert key (ap_permission_key ` set (permissions s))"
proof (cases "key \<in> ap_permission_key ` set (permissions s)")
  case True
  with assms show ?thesis by (auto simp: seed_permission_def)
next
  case False
  with assms show ?thesis
    using permission_table.distinct_insert [of "permissions s"]
    by (simp add: seed_permission_def roles_wf_def permission_table.map_insert [where g = ap_permission_key]
        set_ap_id_def insert_row_def)
qed

lemma seed_permissions_spec:
  assumes "roles_wf s"
  shows "roles_wf (fold (seed_permission cx) catalog s) \<and>
     ap_permission_key ` set (permissions (fold (seed_permission cx) catalog s)) =
       fst ` set catalog \<union> ap_permission_key ` set (permissions s)"
  using assms
proof (induction catalog arbitrary: s)
  case Nil
  then show ?case by simp
next
  case (Cons c catalog)
  obtain key name category where c: "c = (key, name, category)" by (cases c)
  show ?case
    using Cons.IH [of "seed_permission cx c s"] seed_permission_spec [OF Cons.prems, of cx key name category]
    by (simp add: c)
qed

lemma seed_role_succeeds:
  assumes "roles_wf s" "rd_permissions d = [''*''] \<or> set (rd_permissions d) \<subseteq> ap_permission_key ` set (permissions s)"
  shows "\<exists>s'. seed_role cx (key, d) s = Inr s'"
proof -
  obtain rid s1 where row: "seed_role_row cx key d s = (rid, s1)" by fastforce
  have ps: "permissions s1 = permissions s" using seed_role_row_spec [OF assms(1) row] by blast
  then have sub: "desired_permissions s1 d \<subseteq> ap_permission_key ` set (permissions s1)"
    using assms(2) by (auto simp: desired_permissions_def)
  moreover have "finite (desired_permissions s1 d)" by (simp add: desired_permissions_def)
  ultimately have "find (\<lambda>k. k \<notin> ap_permission_key ` set (permissions s1))
      (sorted_list_of_set (desired_permissions s1 d - role_permission_keys s1 rid)) = None"
    by (auto simp: find_None_iff)
  with row show ?thesis by (simp add: seed_role_def Let_def)
qed

definition seeded :: "db \<Rightarrow> string \<Rightarrow> string set \<Rightarrow> bool" where
  "seeded s key ks \<longleftrightarrow>
     (\<exists>r \<in> set (roles s). ar_role_key r = key \<and> ar_enabled r \<and> ar_system_role r \<and>
        role_permission_keys s (ar_id r) = ks)"

lemma seed_roles_spec:
  assumes "roles_wf s" "distinct (map fst ds)"
    "\<And>key d. (key, d) \<in> set ds \<Longrightarrow>
       rd_permissions d = [''*''] \<or> set (rd_permissions d) \<subseteq> ap_permission_key ` set (permissions s)"
  shows "\<exists>s'. seed_roles cx ds s = Inr s' \<and> roles_wf s' \<and> permissions s' = permissions s \<and>
     (\<forall>(key, d) \<in> set ds. seeded s' key (desired_permissions s d)) \<and>
     (\<forall>key ks. key \<notin> fst ` set ds \<longrightarrow> seeded s key ks \<longrightarrow> seeded s' key ks)"
  using assms
proof (induction ds arbitrary: s)
  case Nil
  then show ?case by simp
next
  case (Cons kd ds)
  obtain key d where kd: "kd = (key, d)" by (cases kd)
  obtain s1 where s1: "seed_role cx (key, d) s = Inr s1"
    using seed_role_succeeds [OF Cons.prems(1), of d cx key] Cons.prems(3) [of key d] kd by auto
  note sp = seed_role_spec [OF Cons.prems(1) s1]
  then have ps: "permissions s1 = permissions s" and "roles_wf s1" by blast+
  then obtain s' where s': "seed_roles cx ds s1 = Inr s'" "roles_wf s'" "permissions s' = permissions s1"
      "\<And>k d. (k, d) \<in> set ds \<Longrightarrow> seeded s' k (desired_permissions s1 d)"
      "\<And>k ks. k \<notin> fst ` set ds \<Longrightarrow> seeded s1 k ks \<Longrightarrow> seeded s' k ks"
  proof -
    have "distinct (map fst ds)" using Cons.prems(2) by (simp add: kd)
    moreover have "rd_permissions d = [''*''] \<or> set (rd_permissions d) \<subseteq> ap_permission_key ` set (permissions s1)"
      if "(k, d) \<in> set ds" for k d using Cons.prems(3) [of k d] that ps by (simp add: kd)
    ultimately show thesis using Cons.IH [of s1] \<open>roles_wf s1\<close> that by blast
  qed
  have des: "desired_permissions s1 d' = desired_permissions s d'" for d'
    using ps by (simp add: desired_permissions_def)
  have "seeded s1 key (desired_permissions s d)" using sp by (auto simp: seeded_def)
  then have "seeded s' key (desired_permissions s d)" using s'(5) Cons.prems(2) by (simp add: kd)
  moreover have "seeded s1 k ks" if "k \<noteq> key" "seeded s k ks" for k ks
    using that sp unfolding seeded_def by metis
  ultimately show ?case
    using s' s1 ps des by (auto simp: kd)
qed


section \<open>Properties\<close>

text \<open>An account holds a permission exactly when the permission exists and either the account
  is a system administrator or one of its enabled roles grants it; in particular a disabled role
  grants nothing.\<close>

theorem effective_permissions_exact:
  "k \<in> effective_permissions s u \<longleftrightarrow>
     (\<exists>p \<in> set (permissions s). ap_permission_key p = k \<and>
        (ua_is_system_admin u \<or>
         (\<exists>r \<in> set (roles s). ar_enabled r \<and> user_has_role s (ua_id u) (ar_id r) \<and>
            role_grants s (ar_id r) (ap_id p))))"
  by (rule effective_permissions_iff)

text \<open>Replacing the roles of an account: when every requested key is the key of an enabled
  role the account ends with exactly the requested roles and no other account changes; otherwise
  the call raises and the database is unchanged.\<close>

theorem assign_roles_correct:
  assumes "roles_wf s"
  shows "if set keys \<subseteq> enabled_role_keys s
     then \<exists>s'. assign_roles cx uid keys actor s = (Inr (), s') \<and>
            sorted (role_keys s' uid) \<and> set (role_keys s' uid) = set keys \<and>
            (\<forall>j. j \<noteq> uid \<longrightarrow> set (role_keys s' j) = set (role_keys s j))
     else assign_roles cx uid keys actor s =
            (Inl (ValueError ''One or more roles are invalid or disabled''), s)"
proof (cases "set keys \<subseteq> enabled_role_keys s")
  case True
  with assms have "length (chosen_roles s keys) = card (set keys)"
    by (simp add: roles_wf_def length_chosen_iff)
  then obtain s' where a: "assign_roles cx uid keys actor s = (Inr (), s')"
    by (simp add: assign_roles_unfold)
  with True show ?thesis
    using assign_roles_keys [OF assms a] by (simp add: role_keys_def)
next
  case False
  with assms show ?thesis by (simp add: roles_wf_def length_chosen_iff assign_roles_unfold)
qed

theorem assign_roles_correct_witness:
  "\<exists>s'. assign_roles (demo_ctx 0) 1 [''analyst''] None demo_db = (Inr (), s') \<and>
     set (role_keys s' 1) = {''analyst''} \<and> set (role_keys s' 2) = set (role_keys demo_db 2)"
proof -
  have wf: "roles_wf demo_db" by (simp add: roles_wf_def demo_defs)
  have "demo_role \<in> {r \<in> set (roles demo_db). ar_enabled r}" "ar_role_key demo_role = ''analyst''"
    by (simp_all add: demo_defs)
  then have "''analyst'' \<in> enabled_role_keys demo_db" unfolding enabled_role_keys_def by (metis imageI)
  then have "set [''analyst''] \<subseteq> enabled_role_keys demo_db" by simp
  then obtain s' where "assign_roles (demo_ctx 0) 1 [''analyst''] None demo_db = (Inr (), s')"
      "set (role_keys s' 1) = set [''analyst'']" "\<forall>j. j \<noteq> 1 \<longrightarrow> set (role_keys s' j) = set (role_keys demo_db j)"
    using assign_roles_correct [OF wf, of "[''analyst'']" "demo_ctx 0" 1 None] by (auto simp only: if_True)
  then show ?thesis by simp
qed

text \<open>Seeding the built-in catalog: when every permission a role definition names is in the
  catalog the seeding succeeds, and every defined role is then an enabled system role that grants
  exactly the permissions its definition lists (all of them for the wildcard), whatever the
  database held before.\<close>

theorem seeding_exact:
  assumes "roles_wf s" "distinct (map fst definitions)"
    "\<And>key d. (key, d) \<in> set definitions \<Longrightarrow>
       rd_permissions d = [''*''] \<or> set (rd_permissions d) \<subseteq> fst ` set catalog"
  shows "\<exists>s'. seed_roles_and_permissions cx catalog definitions s = (Inr (), s') \<and> roles_wf s' \<and>
     (\<forall>(key, d) \<in> set definitions.
        \<exists>r \<in> set (roles s'). ar_role_key r = key \<and> ar_enabled r \<and> ar_system_role r \<and>
          role_permission_keys s' (ar_id r) =
            (if rd_permissions d = [''*''] then ap_permission_key ` set (permissions s')
             else set (rd_permissions d)))"
proof -
  let ?s1 = "fold (seed_permission cx) catalog s"
  note sp = seed_permissions_spec [OF assms(1), of cx catalog]
  have "rd_permissions d = [''*''] \<or> set (rd_permissions d) \<subseteq> ap_permission_key ` set (permissions ?s1)"
    if "(key, d) \<in> set definitions" for key d
    using assms(3) [OF that] sp by blast
  then obtain s' where s': "seed_roles cx definitions ?s1 = Inr s'" "roles_wf s'"
      "permissions ?s1 = permissions s'"
      "\<forall>(key, d) \<in> set definitions. seeded s' key (desired_permissions ?s1 d)"
    using seed_roles_spec [of ?s1 definitions cx] sp assms(2) by metis
  have "seed_roles_and_permissions cx catalog definitions s = (Inr (), s')"
    by (simp add: seed_roles_and_permissions_def s'(1))
  with s'(2,4) show ?thesis unfolding seeded_def desired_permissions_def s'(3) by blast
qed

theorem seeding_exact_witness:
  "\<exists>s'. seed_roles_and_permissions (demo_ctx 0)
          [(''web:read'', ''Read'', ''web''), (''web:write'', ''Write'', ''web'')]
          [(''analyst'', \<lparr>rd_name = ''A'', rd_description = [], rd_permissions = [''web:write'']\<rparr>)] demo_db
        = (Inr (), s') \<and>
     (\<exists>r \<in> set (roles s'). ar_role_key r = ''analyst'' \<and> role_permission_keys s' (ar_id r) = {''web:write''})"
proof -
  let ?d = "\<lparr>rd_name = ''A'', rd_description = [], rd_permissions = [''web:write'']\<rparr>"
  let ?catalog = "[(''web:read'', ''Read'', ''web''), (''web:write'', ''Write'', ''web'')]"
  have "roles_wf demo_db" by (simp add: roles_wf_def demo_defs)
  moreover have "distinct (map fst [(''analyst'', ?d)])" by simp
  moreover have "\<And>key d. (key, d) \<in> set [(''analyst'', ?d)] \<Longrightarrow>
       rd_permissions d = [''*''] \<or> set (rd_permissions d) \<subseteq> fst ` set ?catalog" by simp
  ultimately have "\<exists>s'. seed_roles_and_permissions (demo_ctx 0) ?catalog [(''analyst'', ?d)] demo_db = (Inr (), s') \<and>
      roles_wf s' \<and>
     (\<forall>(key, d) \<in> set [(''analyst'', ?d)].
        \<exists>r \<in> set (roles s'). ar_role_key r = key \<and> ar_enabled r \<and> ar_system_role r \<and>
          role_permission_keys s' (ar_id r) =
            (if rd_permissions d = [''*''] then ap_permission_key ` set (permissions s')
             else set (rd_permissions d)))"
    by (rule seeding_exact)
  then show ?thesis by auto
qed

end
