(* ===== verification/Users.thy ===== *)
theory Users
  imports Passwords Sessions Roles
begin

text \<open>
  Accounts (\<open>access_control/user_service.py\<close>): normalisation of usernames, e-mail addresses
  and display names, creation of an account, the guard of the last administrator and the
  change of a password. An operation that raises leaves the database it started from: no
  caller commits after the exception. The invariant \<open>accounts_wf\<close> is the uniqueness of
  primary keys, normalised usernames and normalised e-mail addresses.
\<close>

section \<open>Normalisation\<close>

text \<open>\<open>USERNAME_RE.fullmatch\<close> and \<open>EMAIL_RE.fullmatch\<close>.\<close>

definition username_char :: "char \<Rightarrow> bool" where
  "username_char c \<longleftrightarrow> is_alnum c \<or> c \<in> {CHR ''.'', CHR ''_'', CHR ''-''}"

definition USERNAME_RE :: "string \<Rightarrow> bool" where
  "USERNAME_RE s \<longleftrightarrow> 3 \<le> length s \<and> length s \<le> 64 \<and> is_alnum (hd s) \<and> list_all username_char s"

definition email_char :: "char \<Rightarrow> bool" where
  "email_char c \<longleftrightarrow> \<not> py_isspace c \<and> c \<noteq> CHR ''@''"

definition EMAIL_RE :: "string \<Rightarrow> bool" where
  "EMAIL_RE s \<longleftrightarrow>
     (case split_on CHR ''@'' s of
        [local, domain] \<Rightarrow>
          local \<noteq> [] \<and> list_all email_char local \<and> list_all email_char domain \<and>
          CHR ''.'' \<in> set (tl (butlast domain))
      | _ \<Rightarrow> False)"

definition normalize_username :: "string \<Rightarrow> string result" where
  "normalize_username value =
     (let normalized = casefold (strip value)
      in if \<not> USERNAME_RE (strip value) \<or> 64 < length normalized
         then Inl (ValueError ''Username must be 3-64 characters using letters, numbers, dot, underscore, or hyphen'')
         else Inr normalized)"

definition normalize_email :: "string option \<Rightarrow> string option result" where
  "normalize_email value =
     (case value of
        None \<Rightarrow> Inr None
      | Some v \<Rightarrow>
          if strip v = [] then Inr None
          else (let email = casefold (strip v)
                in if 254 < length email \<or> \<not> EMAIL_RE email
                   then Inl (ValueError ''Email address is invalid'')
                   else Inr (Some email)))"

definition validate_display_name :: "string \<Rightarrow> string result" where
  "validate_display_name value =
     (let r = join '' '' (split_ws (strip value))
      in if \<not> (2 \<le> length r \<and> length r \<le> 120)
         then Inl (ValueError ''Display name must be 2-120 characters'')
         else Inr r)"


section \<open>Operations\<close>

text \<open>The keyword arguments of \<open>create_user\<close>.\<close>

record new_account =
  na_username :: string
  na_display_name :: string
  na_password :: string
  na_email :: "string option"
  na_role_keys :: "string list"
  na_must_change_password :: bool
  na_is_system_admin :: bool
  na_actor_id :: "nat option"
  na_registration_source :: string
  na_status :: "user_status option"
  na_terms_accepted_at :: "time option"
  na_privacy_notice_version :: "string option"
  na_is_demo_account :: bool

definition username_taken :: "db \<Rightarrow> string \<Rightarrow> bool" where
  "username_taken s n \<longleftrightarrow> n \<in> ua_username_normalized ` set (users s)"

definition email_taken :: "db \<Rightarrow> string option \<Rightarrow> bool" where
  "email_taken s e \<longleftrightarrow> e \<in> ua_email_normalized ` set (users s)"

definition new_user_row ::
  "ctx \<Rightarrow> new_account \<Rightarrow> string \<Rightarrow> string option \<Rightarrow> string \<Rightarrow> string \<Rightarrow> user_account" where
  "new_user_row cx a username_normalized email_normalized display_name digest =
     \<lparr>ua_id = 0, ua_username = strip (na_username a), ua_username_normalized = username_normalized,
      ua_display_name = display_name,
      ua_email = (case na_email a of None \<Rightarrow> None | Some e \<Rightarrow> if strip e = [] then None else Some (strip e)),
      ua_email_normalized = email_normalized, ua_password_hash = digest,
      ua_status = (case na_status a of
                     Some st \<Rightarrow> st
                   | None \<Rightarrow> if na_must_change_password a then PendingPasswordChange else Active),
      ua_is_system_admin = na_is_system_admin a, ua_failed_login_count = 0, ua_locked_until = None,
      ua_password_changed_at = cx_now cx, ua_must_change_password = na_must_change_password a,
      ua_mfa_enabled = False, ua_last_login_at = None, ua_last_login_ip_hash = None,
      ua_created_at = cx_now cx, ua_disabled_at = None,
      ua_registration_source = na_registration_source a, ua_approved_at = None,
      ua_approved_by_user_id = None, ua_rejected_at = None, ua_rejected_by_user_id = None,
      ua_rejection_reason = None, ua_terms_accepted_at = na_terms_accepted_at a,
      ua_privacy_notice_version = na_privacy_notice_version a, ua_email_verified = False,
      ua_onboarding_completed_at = None, ua_is_demo_account = na_is_demo_account a\<rparr>"

definition insert_user :: "user_account \<Rightarrow> db \<Rightarrow> db" where
  "insert_user row s = s\<lparr>users := insert_row ua_id set_ua_id row (users s)\<rparr>"

definition create_user :: "ctx \<Rightarrow> string \<Rightarrow> new_account \<Rightarrow> (db, nat) action" where
  "create_user cx salt a s =
     (case normalize_username (na_username a) of
        Inl e \<Rightarrow> (Inl e, s)
      | Inr username_normalized \<Rightarrow>
     (case normalize_email (na_email a) of
        Inl e \<Rightarrow> (Inl e, s)
      | Inr email_normalized \<Rightarrow>
          if username_taken s username_normalized
          then (Inl (ValueError ''Username is already in use''), s)
          else if truthy email_normalized \<and> email_taken s email_normalized
          then (Inl (ValueError ''Email is already in use''), s)
          else
     (case validate_display_name (na_display_name a) of
        Inl e \<Rightarrow> (Inl e, s)
      | Inr display_name \<Rightarrow>
     (case hash_password (cx_crypto cx) salt (na_password a) username_normalized [] of
        Inl e \<Rightarrow> (Inl e, s)
      | Inr digest \<Rightarrow>
          let uid = next_id ua_id (users s);
              s1 = insert_user (new_user_row cx a username_normalized email_normalized display_name digest) s;
              keys = (if na_role_keys a \<noteq> [] then na_role_keys a
                      else if na_is_system_admin a then [''administrator''] else [])
          in (case assign_roles cx uid keys (na_actor_id a) s1 of
                (Inl e, _) \<Rightarrow> (Inl e, s)
              | (Inr _, s2) \<Rightarrow> (Inr uid, s2))))))"

definition active_admin :: "user_account \<Rightarrow> bool" where
  "active_admin u \<longleftrightarrow> ua_is_system_admin u \<and> ua_status u \<in> {Active, PendingPasswordChange}"

definition active_administrator_count :: "db \<Rightarrow> nat option \<Rightarrow> nat" where
  "active_administrator_count s exclude_user_id =
     count_where (\<lambda>u. active_admin u \<and>
                      (case exclude_user_id of None \<Rightarrow> True | Some i \<Rightarrow> ua_id u \<noteq> i)) (users s)"

definition ensure_not_last_admin :: "db \<Rightarrow> user_account \<Rightarrow> unit result" where
  "ensure_not_last_admin s u =
     (if ua_is_system_admin u \<and> active_administrator_count s (Some (ua_id u)) = 0
      then Inl (ValueError ''The last active system administrator cannot be disabled or demoted'')
      else Inr ())"

definition new_password_row :: "ctx \<Rightarrow> string \<Rightarrow> bool \<Rightarrow> user_account \<Rightarrow> user_account" where
  "new_password_row cx digest must_change u =
     u\<lparr>ua_password_hash := digest, ua_password_changed_at := cx_now cx,
       ua_must_change_password := must_change,
       ua_status := (if ua_status u \<in> {Disabled, PendingApproval, Rejected} then ua_status u
                     else if must_change then PendingPasswordChange else Active)\<rparr>"

definition set_password ::
  "ctx \<Rightarrow> string \<Rightarrow> user_account \<Rightarrow> string \<Rightarrow> bool \<Rightarrow> string \<Rightarrow> nat option \<Rightarrow> (db, unit) action" where
  "set_password cx salt u password must_change reason current_session_id s =
     (case hash_password (cx_crypto cx) salt password (ua_username_normalized u) [] of
        Inl e \<Rightarrow> (Inl e, s)
      | Inr digest \<Rightarrow>
          (Inr (), snd (revoke_user_sessions cx (ua_id u) reason current_session_id
                          (upd_user (ua_id u) (new_password_row cx digest must_change) s))))"


section \<open>The dictionary shown of an account\<close>

record user_view =
  uv_id :: nat
  uv_username :: string
  uv_display_name :: string
  uv_email :: "string option"
  uv_status :: user_status
  uv_is_system_admin :: bool
  uv_must_change_password :: bool
  uv_mfa_enabled :: bool
  uv_last_login_at :: "time option"
  uv_password_changed_at :: time
  uv_created_at :: time
  uv_registration_source :: string
  uv_approved_at :: "time option"
  uv_rejected_at :: "time option"
  uv_rejection_reason :: "string option"
  uv_privacy_notice_version :: "string option"
  uv_email_verified :: bool
  uv_onboarding_completed_at :: "time option"
  uv_is_demo_account :: bool
  uv_roles :: "string list"
  uv_permissions :: "string list option"

definition user_dict :: "db \<Rightarrow> user_account \<Rightarrow> bool \<Rightarrow> user_view" where
  "user_dict s u include_permissions =
     \<lparr>uv_id = ua_id u, uv_username = ua_username u, uv_display_name = ua_display_name u,
      uv_email = ua_email u, uv_status = ua_status u, uv_is_system_admin = ua_is_system_admin u,
      uv_must_change_password = ua_must_change_password u, uv_mfa_enabled = ua_mfa_enabled u,
      uv_last_login_at = ua_last_login_at u, uv_password_changed_at = ua_password_changed_at u,
      uv_created_at = ua_created_at u, uv_registration_source = ua_registration_source u,
      uv_approved_at = ua_approved_at u, uv_rejected_at = ua_rejected_at u,
      uv_rejection_reason = ua_rejection_reason u,
      uv_privacy_notice_version = ua_privacy_notice_version u,
      uv_email_verified = ua_email_verified u,
      uv_onboarding_completed_at = ua_onboarding_completed_at u,
      uv_is_demo_account = ua_is_demo_account u, uv_roles = role_keys s (ua_id u),
      uv_permissions = (if include_permissions
                        then Some (sorted_list_of_set (effective_permissions s u)) else None)\<rparr>"


section \<open>Laws\<close>

subsection \<open>Normal forms\<close>

lemma dropWhile_hd: "xs = [] \<or> \<not> P (hd xs) \<Longrightarrow> dropWhile P xs = xs"
  by (cases xs) auto

lemma strip_idem [simp]: "strip (strip s) = strip s"
proof -
  let ?d = "dropWhile py_isspace"
  let ?t = "strip s"
  have t: "?t = rev (?d (rev (?d s)))" by (simp add: strip_def strip_with_def)
  have "prefix ?t (?d s)"
    using suffix_dropWhile [of py_isspace "rev (?d s)"] by (simp add: t suffix_to_prefix)
  then have "?t = [] \<or> hd ?t = hd (?d s) \<and> ?d s \<noteq> []" by (cases ?t) (fastforce simp: prefix_def)+
  then have 1: "?d ?t = ?t" using hd_dropWhile [of py_isspace s] by (intro dropWhile_hd) metis
  have "rev ?t = ?d (rev (?d s))" by (simp add: t)
  then have "?d (rev ?t) = rev ?t" by (metis dropWhile_idem)
  with 1 show ?thesis by (simp add: strip_def [of "strip s"] strip_with_def)
qed

lemma normalize_username_strip: "normalize_username (strip v) = normalize_username v"
  by (simp add: normalize_username_def)

lemma normalize_email_strip:
  "normalize_email (case e of None \<Rightarrow> None | Some v \<Rightarrow> if strip v = [] then None else Some (strip v)) =
     normalize_email e"
  by (auto simp: normalize_email_def split: option.split)

lemma normalize_username_InrD:
  "normalize_username v = Inr n \<Longrightarrow> n = casefold (strip v) \<and> USERNAME_RE (strip v)"
  by (simp add: normalize_username_def Let_def split: if_splits)

lemma normalize_username_error: "normalize_username v = Inl e \<Longrightarrow> is_ValueError e"
  by (auto simp: normalize_username_def Let_def split: if_splits)

lemma normalize_email_error: "normalize_email v = Inl e \<Longrightarrow> is_ValueError e"
  by (auto simp: normalize_email_def Let_def split: if_splits option.splits)

lemma normalize_email_SomeD: "normalize_email v = Inr (Some e) \<Longrightarrow> e \<noteq> [] \<and> EMAIL_RE e"
  by (auto simp: normalize_email_def Let_def split: if_splits option.splits)

lemma validate_display_name_error: "validate_display_name v = Inl e \<Longrightarrow> is_ValueError e"
  by (auto simp: validate_display_name_def Let_def split: if_splits)


subsection \<open>Uniqueness of accounts\<close>

definition account_row_ok :: "user_account \<Rightarrow> bool" where
  "account_row_ok u \<longleftrightarrow>
     normalize_username (ua_username u) = Inr (ua_username_normalized u) \<and>
     normalize_email (ua_email u) = Inr (ua_email_normalized u)"

definition accounts_wf :: "db \<Rightarrow> bool" where
  "accounts_wf s \<longleftrightarrow>
     distinct (map ua_id (users s)) \<and>
     distinct (map ua_username_normalized (users s)) \<and>
     distinct (List.map_filter ua_email_normalized (users s)) \<and>
     (\<forall>u \<in> set (users s). account_row_ok u)"

lemma map_filter_append [simp]: "List.map_filter f (xs @ ys) = List.map_filter f xs @ List.map_filter f ys"
  by (simp add: List.map_filter_def)

lemma set_map_filter: "x \<in> set (List.map_filter f xs) \<longleftrightarrow> (\<exists>y \<in> set xs. f y = Some x)"
  by (force simp: List.map_filter_def)

lemma accounts_wf_cong: "users s = users t \<Longrightarrow> accounts_wf s = accounts_wf t"
  by (simp add: accounts_wf_def)

lemma accounts_wf_insert:
  assumes wf: "accounts_wf s" and ok: "account_row_ok row"
    and n: "\<not> username_taken s (ua_username_normalized row)"
    and e: "ua_email_normalized row = None \<or> \<not> email_taken s (ua_email_normalized row)"
  shows "accounts_wf (insert_user row s)"
proof -
  let ?row = "set_ua_id (next_id ua_id (users s)) row"
  have row: "ua_username_normalized ?row = ua_username_normalized row"
      "ua_email_normalized ?row = ua_email_normalized row" "account_row_ok ?row"
    using ok by (simp_all add: set_ua_id_def account_row_ok_def)
  have "distinct (map ua_id (insert_row ua_id set_ua_id row (users s)))"
    using wf by (intro user_table.distinct_insert) (simp add: accounts_wf_def)
  moreover have "distinct (List.map_filter ua_email_normalized (users s @ [?row]))"
  proof (cases "ua_email_normalized row")
    case None
    with wf row show ?thesis by (simp add: accounts_wf_def List.map_filter_def)
  next
    case (Some x)
    with e have "x \<notin> set (List.map_filter ua_email_normalized (users s))"
      by (force simp: set_map_filter email_taken_def)
    with wf row Some show ?thesis by (simp add: accounts_wf_def List.map_filter_def)
  qed
  ultimately show ?thesis
    using wf row n unfolding accounts_wf_def insert_user_def username_taken_def
    by (simp add: insert_row_def)
qed

text \<open>An update of one account that keeps what \<open>accounts_wf\<close> reads keeps the invariant.\<close>

lemma accounts_wf_upd_user:
  assumes "accounts_wf s"
    "\<And>u. ua_id (f u) = ua_id u" "\<And>u. ua_username_normalized (f u) = ua_username_normalized u"
    "\<And>u. ua_email_normalized (f u) = ua_email_normalized u" "\<And>u. account_row_ok (f u) = account_row_ok u"
  shows "accounts_wf (upd_user uid f s)"
proof -
  have "map g (upd_row ua_id uid f (users s)) = map g (users s)" if "\<And>u. g (f u) = g u" for g :: "user_account \<Rightarrow> 'c"
    using that by (simp add: map_upd_row)
  then have "List.map_filter ua_email_normalized (upd_row ua_id uid f (users s)) =
      List.map_filter ua_email_normalized (users s)"
    by (simp add: List.map_filter_def comp_def upd_row_def assms(4) filter_map if_distrib cong: if_cong)
  with assms show ?thesis
    by (auto simp: accounts_wf_def upd_user_def map_upd_row set_upd_row)
qed

lemma create_user_InrD:
  assumes "create_user cx salt a s = (Inr uid, s')"
  obtains n e d h s2 where
    "normalize_username (na_username a) = Inr n" "normalize_email (na_email a) = Inr e"
    "\<not> username_taken s n" "e = None \<or> \<not> email_taken s e"
    "password_acceptable (na_password a) n []" "h = argon2_hash (cx_crypto cx) salt (na_password a)"
    "uid = next_id ua_id (users s)"
    "assign_roles cx uid
       (if na_role_keys a \<noteq> [] then na_role_keys a
        else if na_is_system_admin a then [''administrator''] else []) (na_actor_id a)
       (insert_user (new_user_row cx a n e d h) s) = (Inr (), s')"
proof -
  from assms obtain n where n: "normalize_username (na_username a) = Inr n"
    by (auto simp: create_user_def split: sum.splits)
  from assms n obtain e where e: "normalize_email (na_email a) = Inr e"
    by (auto simp: create_user_def split: sum.splits)
  from assms n e have nt: "\<not> username_taken s n" "\<not> (truthy e \<and> email_taken s e)"
    by (auto simp: create_user_def split: if_splits)
  from assms n e nt obtain d where d: "validate_display_name (na_display_name a) = Inr d"
    by (auto simp: create_user_def split: sum.splits)
  from assms n e nt d obtain h where h: "hash_password (cx_crypto cx) salt (na_password a) n [] = Inr h"
    by (auto simp: create_user_def split: sum.splits)
  have "e = None \<or> \<not> email_taken s e"
    using nt(2) normalize_email_SomeD e by (cases e) (auto simp: truthy_def)
  then show thesis
    using that [of n e h d] n e nt d h assms
    by (auto simp: create_user_def Let_def hash_password_Inr_iff split: prod.splits sum.splits)
qed

lemma create_user_InlD: "create_user cx salt a s = (Inl e, s') \<Longrightarrow> s' = s \<and> is_ValueError e"
  by (auto simp: create_user_def Let_def split: sum.splits if_splits prod.splits
      dest: normalize_username_error normalize_email_error validate_display_name_error
        hash_password_error assign_roles_InlD)

lemma new_user_row_simps [simp]:
  "ua_username_normalized (new_user_row cx a n e d h) = n"
  "ua_email_normalized (new_user_row cx a n e d h) = e"
  "ua_is_system_admin (new_user_row cx a n e d h) = na_is_system_admin a"
  "ua_password_hash (new_user_row cx a n e d h) = h"
  by (simp_all add: new_user_row_def)

lemma create_user_wf:
  assumes wf: "accounts_wf s" and c: "create_user cx salt a s = (Inr uid, s')"
  shows "accounts_wf s' \<and>
     (\<exists>u. users s' = users s @ [u] \<and> ua_id u = uid \<and>
        normalize_username (na_username a) = Inr (ua_username_normalized u) \<and>
        ua_is_system_admin u = na_is_system_admin a \<and>
        ua_password_hash u = argon2_hash (cx_crypto cx) salt (na_password a))"
proof -
  from c obtain n e d h where
    n: "normalize_username (na_username a) = Inr n" and e: "normalize_email (na_email a) = Inr e"
    and nt: "\<not> username_taken s n" "e = None \<or> \<not> email_taken s e"
    and h: "h = argon2_hash (cx_crypto cx) salt (na_password a)"
    and uid: "uid = next_id ua_id (users s)"
    and ar: "assign_roles cx uid
       (if na_role_keys a \<noteq> [] then na_role_keys a
        else if na_is_system_admin a then [''administrator''] else []) (na_actor_id a)
       (insert_user (new_user_row cx a n e d h) s) = (Inr (), s')"
    by (rule create_user_InrD)
  let ?row = "new_user_row cx a n e d h"
  have "account_row_ok ?row"
    using n e by (simp add: account_row_ok_def new_user_row_def normalize_username_strip normalize_email_strip)
  then have "accounts_wf (insert_user ?row s)"
    using accounts_wf_insert [OF wf, of ?row] nt by simp
  moreover have us: "users s' = users (insert_user ?row s)" using assign_roles_frame [OF ar] by simp
  ultimately have "accounts_wf s'" using accounts_wf_cong by blast
  moreover have "users s' = users s @ [set_ua_id uid ?row]"
    using us uid by (simp add: insert_user_def insert_row_def)
  ultimately show ?thesis using n h by (simp add: set_ua_id_def)
qed


subsection \<open>The last administrator\<close>

definition has_active_admin :: "db \<Rightarrow> bool" where
  "has_active_admin s \<longleftrightarrow> (\<exists>u \<in> set (users s). active_admin u)"

text \<open>
  The contract of a guard for the last administrator: when it lets an operation on an
  administrator account pass, another active administrator exists. Every operation that
  changes only the guarded account then keeps an active administrator, if the account is
  an administrator or the operation leaves the others alone.
\<close>

locale admin_guard =
  fixes allows :: "db \<Rightarrow> user_account \<Rightarrow> bool"
  assumes another_admin:
    "allows s u \<Longrightarrow> ua_is_system_admin u \<Longrightarrow> \<exists>v \<in> set (users s). ua_id v \<noteq> ua_id u \<and> active_admin v"
begin

lemma keeps_admin:
  assumes "has_active_admin s" "distinct (map ua_id (users s))" "u \<in> set (users s)" "allows s u"
    and others: "\<And>v. v \<in> set (users s) \<Longrightarrow> ua_id v \<noteq> ua_id u \<Longrightarrow> v \<in> set (users s')"
  shows "has_active_admin s'"
proof (cases "ua_is_system_admin u")
  case True
  with assms show ?thesis using another_admin [of s u] by (auto simp: has_active_admin_def)
next
  case False
  from assms(1) obtain v where v: "v \<in> set (users s)" "active_admin v" by (auto simp: has_active_admin_def)
  with False have "v \<noteq> u" by (auto simp: active_admin_def)
  with v assms(2,3) have "ua_id v \<noteq> ua_id u" by (auto simp: distinct_map dest: inj_onD)
  with v others show ?thesis by (auto simp: has_active_admin_def)
qed

end

lemma active_administrator_count_zero:
  "active_administrator_count s (Some i) = 0 \<longleftrightarrow> (\<forall>v \<in> set (users s). active_admin v \<longrightarrow> ua_id v = i)"
  by (auto simp: active_administrator_count_def count_where_zero_iff)

interpretation last_admin: admin_guard "\<lambda>s u. ensure_not_last_admin s u = Inr ()"
  by unfold_locales (auto simp: ensure_not_last_admin_def active_administrator_count_zero split: if_splits)

lemma ensure_not_last_admin_error:
  "ensure_not_last_admin s u = Inl e \<Longrightarrow> is_ValueError e"
  by (auto simp: ensure_not_last_admin_def split: if_splits)

lemma upd_user_keeps_others:
  "v \<in> set (users s) \<Longrightarrow> ua_id v \<noteq> uid \<Longrightarrow> v \<in> set (users (upd_user uid f s))"
  by (force simp: upd_user_def set_upd_row)


subsection \<open>Passwords\<close>

lemma new_password_row_simps [simp]:
  "ua_id (new_password_row cx h m u) = ua_id u"
  "ua_username_normalized (new_password_row cx h m u) = ua_username_normalized u"
  "ua_username (new_password_row cx h m u) = ua_username u"
  "ua_email (new_password_row cx h m u) = ua_email u"
  "ua_email_normalized (new_password_row cx h m u) = ua_email_normalized u"
  "ua_password_hash (new_password_row cx h m u) = h"
  "ua_must_change_password (new_password_row cx h m u) = m"
  "ua_is_system_admin (new_password_row cx h m u) = ua_is_system_admin u"
  "ua_mfa_enabled (new_password_row cx h m u) = ua_mfa_enabled u"
  by (simp_all add: new_password_row_def)

lemma revoke_user_sessions_users [simp]:
  "users (snd (revoke_user_sessions cx uid reason keep s)) = users s"
  "user_roles (snd (revoke_user_sessions cx uid reason keep s)) = user_roles s"
  "roles (snd (revoke_user_sessions cx uid reason keep s)) = roles s"
  "permissions (snd (revoke_user_sessions cx uid reason keep s)) = permissions s"
  "role_permissions (snd (revoke_user_sessions cx uid reason keep s)) = role_permissions s"
  "attempts (snd (revoke_user_sessions cx uid reason keep s)) = attempts s"
  "mfa_devices (snd (revoke_user_sessions cx uid reason keep s)) = mfa_devices s"
  "recovery_codes (snd (revoke_user_sessions cx uid reason keep s)) = recovery_codes s"
  "challenges (snd (revoke_user_sessions cx uid reason keep s)) = challenges s"
  "audit_events (snd (revoke_user_sessions cx uid reason keep s)) = audit_events s"
  by (simp_all add: revoke_user_sessions_def)

lemma get_user_revoke [simp]: "get_user (snd (revoke_user_sessions cx uid reason keep s)) = get_user s"
  by (rule get_user_cong) simp

lemma sessions_revoke_mem:
  assumes "r \<in> set (sessions (snd (revoke_user_sessions cx uid reason keep s)))"
    "as_user_id r = uid" "as_revoked_at r = None"
  shows "keep = Some (as_id r)"
proof -
  from assms(1) obtain x where "x \<in> set (sessions s)"
      "r = (if user_session_selected uid keep x then mark_revoked (cx_now cx) reason x else x)"
    by (auto simp: revoke_user_sessions_def set_upd_where)
  with assms(2,3) have "\<not> user_session_selected uid keep r" by (auto split: if_splits)
  with assms(2,3) show ?thesis by (simp add: user_session_selected_def split: option.splits)
qed

lemma set_password_InrD:
  assumes "set_password cx salt u pw m reason keep s = (Inr x, s')"
  shows "password_acceptable pw (ua_username_normalized u) [] \<and>
     s' = snd (revoke_user_sessions cx (ua_id u) reason keep
            (upd_user (ua_id u) (new_password_row cx (argon2_hash (cx_crypto cx) salt pw) m) s))"
  using assms by (auto simp: set_password_def hash_password_Inr_iff split: sum.splits)

lemma set_password_InlD:
  "set_password cx salt u pw m reason keep s = (Inl e, s') \<Longrightarrow> s' = s \<and> is_ValueError e"
  by (auto simp: set_password_def split: sum.splits dest: hash_password_error)


section \<open>Properties\<close>

text \<open>Creating an account keeps usernames and e-mail addresses unique: a successful call appends
  exactly one account, stored under the normal form of the requested username and the hash of the
  requested password; a refused call raises a \<open>ValueError\<close> and leaves the database unchanged.\<close>

theorem create_user_correct:
  assumes "accounts_wf s"
  shows "case create_user cx salt a s of
       (Inl e, s') \<Rightarrow> s' = s \<and> is_ValueError e
     | (Inr uid, s') \<Rightarrow> accounts_wf s' \<and>
         (\<exists>u. users s' = users s @ [u] \<and> ua_id u = uid \<and> uid \<notin> ua_id ` set (users s) \<and>
            normalize_username (na_username a) = Inr (ua_username_normalized u) \<and>
            ua_is_system_admin u = na_is_system_admin a \<and>
            ua_password_hash u = argon2_hash (cx_crypto cx) salt (na_password a))"
proof (cases "create_user cx salt a s")
  case (Pair out s')
  show ?thesis
  proof (cases out)
    case (Inl e)
    with Pair have c: "create_user cx salt a s = (Inl e, s')" by simp
    show ?thesis unfolding c using create_user_InlD [OF c] by simp
  next
    case (Inr uid)
    with Pair have c: "create_user cx salt a s = (Inr uid, s')" by simp
    from create_user_wf [OF assms c] obtain u where u: "accounts_wf s'" "users s' = users s @ [u]" "ua_id u = uid"
        "normalize_username (na_username a) = Inr (ua_username_normalized u)"
        "ua_is_system_admin u = na_is_system_admin a"
        "ua_password_hash u = argon2_hash (cx_crypto cx) salt (na_password a)"
      by (elim conjE exE)
    from u(1) have "distinct (map ua_id (users s'))" by (simp add: accounts_wf_def)
    then have "uid \<notin> ua_id ` set (users s)" unfolding u(2) using u(3) by simp
    with u show ?thesis unfolding c prod.case sum.case by (intro conjI exI [of _ u])
  qed
qed

theorem create_user_correct_witness:
  "accounts_wf (demo_db\<lparr>users := []\<rparr>) \<and>
   (\<exists>uid s'. create_user (demo_ctx 0) ''salt''
      \<lparr>na_username = '' Dana.Lee '', na_display_name = ''Dana  Lee'', na_password = ''correct horse battery'',
       na_email = None, na_role_keys = [''analyst''], na_must_change_password = True,
       na_is_system_admin = False, na_actor_id = Some 1, na_registration_source = ''administrator'',
       na_status = None, na_terms_accepted_at = None, na_privacy_notice_version = None,
       na_is_demo_account = False\<rparr> (demo_db\<lparr>users := []\<rparr>) = (Inr uid, s') \<and> accounts_wf s' \<and>
      map ua_username_normalized (users s') = [''dana.lee''])"
proof -
  let ?a = "\<lparr>na_username = '' Dana.Lee '', na_display_name = ''Dana  Lee'', na_password = ''correct horse battery'',
       na_email = None, na_role_keys = [''analyst''], na_must_change_password = True,
       na_is_system_admin = False, na_actor_id = Some 1, na_registration_source = ''administrator'',
       na_status = None, na_terms_accepted_at = None, na_privacy_notice_version = None,
       na_is_demo_account = False\<rparr>"
  let ?s = "demo_db\<lparr>users := []\<rparr>"
  let ?r = "create_user (demo_ctx 0) ''salt'' ?a ?s"
  have wf: "accounts_wf ?s" by (simp add: accounts_wf_def List.map_filter_def)
  have ok: "(case fst ?r of Inl e \<Rightarrow> False | Inr x \<Rightarrow> True) \<and> normalize_username '' Dana.Lee '' = Inr ''dana.lee''"
    by code_simp
  then obtain uid s' where r: "?r = (Inr uid, s')"
    by (cases ?r) (auto split: sum.splits)
  with create_user_correct [OF wf, where cx = "demo_ctx 0" and salt = "''salt''" and a = ?a] ok
  have "accounts_wf s'" "map ua_username_normalized (users s') = [''dana.lee'']" by auto
  with wf r show ?thesis by (intro conjI exI [of _ uid] exI [of _ s'])
qed

text \<open>Changing a password: on success the account authenticates with the new hash, every other
  live session of the account is revoked (the current one excepted, when given), and an account
  that is disabled, pending approval or rejected keeps its status; a password that violates the
  policy is refused and changes nothing.\<close>

theorem set_password_correct:
  assumes "get_user s (ua_id u) = Some u"
  shows "if password_acceptable pw (ua_username_normalized u) []
     then \<exists>s' u'. set_password cx salt u pw must_change reason keep s = (Inr (), s') \<and>
            get_user s' (ua_id u) = Some u' \<and>
            ua_password_hash u' = argon2_hash (cx_crypto cx) salt pw \<and>
            ua_must_change_password u' = must_change \<and>
            ua_status u' = (if ua_status u \<in> {Disabled, PendingApproval, Rejected} then ua_status u
                            else if must_change then PendingPasswordChange else Active) \<and>
            (\<forall>j. j \<noteq> ua_id u \<longrightarrow> get_user s' j = get_user s j) \<and>
            (\<forall>r \<in> set (sessions s'). as_user_id r = ua_id u \<longrightarrow> as_revoked_at r = None \<longrightarrow> keep = Some (as_id r))
     else \<exists>m. set_password cx salt u pw must_change reason keep s = (Inl (PasswordPolicyError m), s)"
proof (cases "password_acceptable pw (ua_username_normalized u) []")
  case True
  let ?h = "argon2_hash (cx_crypto cx) salt pw"
  let ?s1 = "upd_user (ua_id u) (new_password_row cx ?h must_change) s"
  let ?s' = "snd (revoke_user_sessions cx (ua_id u) reason keep ?s1)"
  have "set_password cx salt u pw must_change reason keep s = (Inr (), ?s')"
    using True by (simp add: set_password_def hash_password_def validate_password_ok_iff [THEN iffD2])
  moreover have "get_user ?s' (ua_id u) = Some (new_password_row cx ?h must_change u)"
    using assms by (simp add: get_user_upd_user)
  moreover have "\<forall>j. j \<noteq> ua_id u \<longrightarrow> get_user ?s' j = get_user s j" by (simp add: get_user_upd_user)
  moreover have "\<forall>r \<in> set (sessions ?s'). as_user_id r = ua_id u \<longrightarrow> as_revoked_at r = None \<longrightarrow> keep = Some (as_id r)"
    using sessions_revoke_mem by blast
  moreover have "ua_status (new_password_row cx ?h must_change u) =
      (if ua_status u \<in> {Disabled, PendingApproval, Rejected} then ua_status u
       else if must_change then PendingPasswordChange else Active)" by (simp add: new_password_row_def)
  ultimately show ?thesis using True by auto
next
  case False
  then obtain m where "validate_password pw (ua_username_normalized u) [] = Inl (PasswordPolicyError m)"
    using validate_password_cases validate_password_ok_iff by blast
  with False show ?thesis by (simp add: set_password_def hash_password_def)
qed

theorem set_password_correct_witness:
  "\<exists>s' u'. set_password (demo_ctx 0) ''n'' (demo_user 2 ''ana'' Active False) ''correct horse battery'' False
       ''changed'' None demo_db = (Inr (), s') \<and>
     get_user s' 2 = Some u' \<and> ua_password_hash u' = ''n$correct horse battery'' \<and>
     (\<forall>r \<in> set (sessions s'). as_user_id r = 2 \<longrightarrow> as_revoked_at r \<noteq> None)"
proof -
  let ?u = "demo_user 2 ''ana'' Active False"
  have id: "ua_id ?u = 2" "ua_username_normalized ?u = ''ana''" by (simp_all add: demo_user_def)
  have u: "get_user demo_db (ua_id ?u) = Some ?u" by (simp add: demo_defs get_user_def find_row_def)
  have "validate_password ''correct horse battery'' ''ana'' [] = Inr ()" by code_simp
  then have "password_acceptable ''correct horse battery'' ''ana'' []" by (simp add: validate_password_ok_iff)
  with set_password_correct [OF u, where pw = "''correct horse battery''" and cx = "demo_ctx 0" and salt = "''n''"
      and must_change = False and reason = "''changed''" and keep = None]
  obtain s' u' where
    "set_password (demo_ctx 0) ''n'' ?u ''correct horse battery'' False ''changed'' None demo_db = (Inr (), s')"
    "get_user s' 2 = Some u'" "ua_password_hash u' = argon2_hash demo_crypto ''n'' ''correct horse battery''"
    "\<forall>r \<in> set (sessions s'). as_user_id r = 2 \<longrightarrow> as_revoked_at r = None \<longrightarrow> None = Some (as_id r)"
    by (auto simp: id)
  then show ?thesis by (auto simp: demo_crypto_def)
qed

end
