(* ===== verification/Rate_Limit.thy ===== *)
theory Rate_Limit
  imports Sessions
begin

text \<open>
  Login throttling and account lockout (\<open>access_control/rate_limit_service.py\<close>): the
  sliding windows over the table of attempts for logins, registrations and registration
  management, and the failure counter that locks an account. The locale \<open>attempt_limiter\<close>
  is the contract of a window limiter; it is interpreted on the login window and on the
  registration window.
\<close>

section \<open>Identity hashes\<close>

definition username_hash :: "ctx \<Rightarrow> string \<Rightarrow> string" where
  "username_hash cx username_normalized = hash_value cx (''username:'' @ username_normalized)"

definition registration_hash :: "ctx \<Rightarrow> string \<Rightarrow> string" where
  "registration_hash cx email_normalized = hash_value cx (''registration:'' @ email_normalized)"

definition management_hash :: "ctx \<Rightarrow> nat \<Rightarrow> string \<Rightarrow> string" where
  "management_hash cx actor_user_id action =
     hash_value cx (''registration-management:'' @ str_nat actor_user_id @ '':'' @ action)"


section \<open>Windows over the attempts\<close>

text \<open>A failed attempt of the identity since \<open>since\<close>, from the given address when one is known.\<close>

definition failed_since :: "string \<Rightarrow> time \<Rightarrow> string option \<Rightarrow> login_attempt \<Rightarrow> bool" where
  "failed_since identity since ip_hash a \<longleftrightarrow>
     la_username_hash a = identity \<and> \<not> la_success a \<and> since \<le> la_attempted_at a \<and>
     (truthy ip_hash \<longrightarrow> la_client_ip_hash a = ip_hash)"

definition is_registration_rate_limited :: "ctx \<Rightarrow> string \<Rightarrow> string option \<Rightarrow> db \<Rightarrow> bool" where
  "is_registration_rate_limited cx normalized ip_hash s =
     (let since = cx_now cx - minutes 15
      in 5 \<le> count_where (failed_since (registration_hash cx normalized) since ip_hash) (attempts s))"

definition add_attempt :: "string \<Rightarrow> string option \<Rightarrow> bool \<Rightarrow> string option \<Rightarrow> time \<Rightarrow> db \<Rightarrow> db" where
  "add_attempt identity ip_hash success reason now s =
     s\<lparr>attempts := insert_row la_id set_la_id
         \<lparr>la_id = 0, la_username_hash = identity, la_client_ip_hash = ip_hash, la_success = success,
          la_failure_reason_code = reason, la_attempted_at = now\<rparr> (attempts s)\<rparr>"

definition record_registration_attempt ::
  "ctx \<Rightarrow> string \<Rightarrow> string option \<Rightarrow> bool \<Rightarrow> string option \<Rightarrow> db \<Rightarrow> db" where
  "record_registration_attempt cx normalized ip_hash success reason s =
     add_attempt (registration_hash cx normalized) ip_hash success
       (if success then None
        else Some (take 64 (''registration_'' @ (if truthy reason then the reason else ''rejected''))))
       (cx_now cx) s"

definition management_since :: "string \<Rightarrow> time \<Rightarrow> string option \<Rightarrow> login_attempt \<Rightarrow> bool" where
  "management_since identity since ip_hash a \<longleftrightarrow>
     la_username_hash a = identity \<and> la_client_ip_hash a = ip_hash \<and> since \<le> la_attempted_at a"

definition record_management_attempt ::
  "ctx \<Rightarrow> nat \<Rightarrow> string \<Rightarrow> string option \<Rightarrow> (db, unit) action" where
  "record_management_attempt cx actor_user_id action ip_hash s =
     (let since = cx_now cx - minutes 5;
          identity_hash = management_hash cx actor_user_id action;
          n = count_where (management_since identity_hash since ip_hash) (attempts s)
      in if 20 \<le> n
         then (Inl (ManagementRateLimitError ''Registration management is temporarily rate limited''), s)
         else (Inr (), add_attempt identity_hash ip_hash True None (cx_now cx) s))"

definition is_rate_limited :: "ctx \<Rightarrow> string \<Rightarrow> string option \<Rightarrow> db \<Rightarrow> bool" where
  "is_rate_limited cx normalized ip_hash s =
     (let since = cx_now cx - minutes 15
      in login_max_attempts (cx_config cx)
           \<le> int (count_where (failed_since (username_hash cx normalized) since ip_hash) (attempts s)))"

definition delete_failures :: "string set \<Rightarrow> db \<Rightarrow> db" where
  "delete_failures identities s =
     s\<lparr>attempts := filter (\<lambda>a. \<not> (la_username_hash a \<in> identities \<and> \<not> la_success a)) (attempts s)\<rparr>"

definition record_attempt :: "ctx \<Rightarrow> string \<Rightarrow> string option \<Rightarrow> bool \<Rightarrow> string option \<Rightarrow> db \<Rightarrow> db" where
  "record_attempt cx normalized ip_hash success reason s =
     (let s1 = (if success then delete_failures {username_hash cx normalized} s else s);
          s2 = add_attempt (username_hash cx normalized) ip_hash success
                 (if success then None
                  else Some (take 64 (if truthy reason then the reason else ''invalid_credentials'')))
                 (cx_now cx) s1;
          cutoff = cx_now cx - days 30
      in s2\<lparr>attempts := filter (\<lambda>a. \<not> la_attempted_at a < cutoff) (attempts s2)\<rparr>)"


section \<open>Lockout\<close>

definition count_failure :: "ctx \<Rightarrow> user_account \<Rightarrow> user_account" where
  "count_failure cx u =
     (let u' = u\<lparr>ua_failed_login_count := ua_failed_login_count u + 1\<rparr>
      in if login_max_attempts (cx_config cx) \<le> int (ua_failed_login_count u')
         then u'\<lparr>ua_status := Locked,
                 ua_locked_until := Some (cx_now cx + minutes (lockout_minutes (cx_config cx)))\<rparr>
         else u')"

definition register_user_failure :: "ctx \<Rightarrow> nat \<Rightarrow> db \<Rightarrow> db" where
  "register_user_failure cx uid s = upd_user uid (count_failure cx) s"

definition login_identities :: "user_account \<Rightarrow> string set" where
  "login_identities u =
     insert (ua_username_normalized u)
       (if truthy (ua_email_normalized u) then {the (ua_email_normalized u)} else {})"

definition clear_user_login_attempts :: "ctx \<Rightarrow> user_account \<Rightarrow> db \<Rightarrow> nat \<times> db" where
  "clear_user_login_attempts cx u s =
     (let hashes = username_hash cx ` login_identities u
      in (count_where (\<lambda>a. la_username_hash a \<in> hashes \<and> \<not> la_success a) (attempts s),
          delete_failures hashes s))"

definition reset_failures :: "user_account \<Rightarrow> user_account" where
  "reset_failures u =
     (let u' = u\<lparr>ua_failed_login_count := 0, ua_locked_until := None\<rparr>
      in if ua_status u = Locked then u'\<lparr>ua_status := Active\<rparr> else u')"

definition clear_failures :: "ctx \<Rightarrow> nat \<Rightarrow> db \<Rightarrow> db" where
  "clear_failures cx uid s =
     (case get_user s uid of
        None \<Rightarrow> s
      | Some u \<Rightarrow> upd_user uid reset_failures (snd (clear_user_login_attempts cx u s)))"

definition unlock_if_expired :: "ctx \<Rightarrow> nat \<Rightarrow> db \<Rightarrow> bool \<times> db" where
  "unlock_if_expired cx uid s =
     (case get_user s uid of
        None \<Rightarrow> (False, s)
      | Some u \<Rightarrow>
          (case ua_locked_until u of
             None \<Rightarrow> (False, s)
           | Some t \<Rightarrow>
               if ua_status u = Locked \<and> t \<le> cx_now cx
               then (True, clear_failures cx uid s) else (False, s)))"


section \<open>Laws\<close>

lemma add_attempt_simps [simp]:
  "attempts (add_attempt i h ok r t s) = insert_row la_id set_la_id
     \<lparr>la_id = 0, la_username_hash = i, la_client_ip_hash = h, la_success = ok,
      la_failure_reason_code = r, la_attempted_at = t\<rparr> (attempts s)"
  "users (add_attempt i h ok r t s) = users s"
  "sessions (add_attempt i h ok r t s) = sessions s"
  "roles (add_attempt i h ok r t s) = roles s"
  "permissions (add_attempt i h ok r t s) = permissions s"
  "user_roles (add_attempt i h ok r t s) = user_roles s"
  "role_permissions (add_attempt i h ok r t s) = role_permissions s"
  "mfa_devices (add_attempt i h ok r t s) = mfa_devices s"
  "recovery_codes (add_attempt i h ok r t s) = recovery_codes s"
  "challenges (add_attempt i h ok r t s) = challenges s"
  "audit_events (add_attempt i h ok r t s) = audit_events s"
  by (simp_all add: add_attempt_def)

lemma delete_failures_simps [simp]:
  "attempts (delete_failures ids s) =
     filter (\<lambda>a. \<not> (la_username_hash a \<in> ids \<and> \<not> la_success a)) (attempts s)"
  "users (delete_failures ids s) = users s"
  "sessions (delete_failures ids s) = sessions s"
  "roles (delete_failures ids s) = roles s"
  "permissions (delete_failures ids s) = permissions s"
  "user_roles (delete_failures ids s) = user_roles s"
  "role_permissions (delete_failures ids s) = role_permissions s"
  "mfa_devices (delete_failures ids s) = mfa_devices s"
  "recovery_codes (delete_failures ids s) = recovery_codes s"
  "challenges (delete_failures ids s) = challenges s"
  "audit_events (delete_failures ids s) = audit_events s"
  by (simp_all add: delete_failures_def)

lemma record_attempt_frame [simp]:
  "users (record_attempt cx n ip ok r s) = users s"
  "sessions (record_attempt cx n ip ok r s) = sessions s"
  "roles (record_attempt cx n ip ok r s) = roles s"
  "permissions (record_attempt cx n ip ok r s) = permissions s"
  "user_roles (record_attempt cx n ip ok r s) = user_roles s"
  "role_permissions (record_attempt cx n ip ok r s) = role_permissions s"
  "mfa_devices (record_attempt cx n ip ok r s) = mfa_devices s"
  "recovery_codes (record_attempt cx n ip ok r s) = recovery_codes s"
  "challenges (record_attempt cx n ip ok r s) = challenges s"
  "audit_events (record_attempt cx n ip ok r s) = audit_events s"
  by (simp_all add: record_attempt_def Let_def)

lemma clear_user_login_attempts_frame [simp]:
  "users (snd (clear_user_login_attempts cx u s)) = users s"
  "sessions (snd (clear_user_login_attempts cx u s)) = sessions s"
  "audit_events (snd (clear_user_login_attempts cx u s)) = audit_events s"
  by (simp_all add: clear_user_login_attempts_def)

lemma get_user_clear_attempts [simp]:
  "get_user (snd (clear_user_login_attempts cx u s)) = get_user s"
  by (rule get_user_cong) simp

lemma reset_failures_simps [simp]:
  "ua_id (reset_failures u) = ua_id u"
  "ua_username_normalized (reset_failures u) = ua_username_normalized u"
  "ua_email_normalized (reset_failures u) = ua_email_normalized u"
  "ua_password_hash (reset_failures u) = ua_password_hash u"
  "ua_is_system_admin (reset_failures u) = ua_is_system_admin u"
  "ua_mfa_enabled (reset_failures u) = ua_mfa_enabled u"
  "ua_must_change_password (reset_failures u) = ua_must_change_password u"
  "ua_failed_login_count (reset_failures u) = 0"
  "ua_locked_until (reset_failures u) = None"
  "ua_status (reset_failures u) = (if ua_status u = Locked then Active else ua_status u)"
  by (simp_all add: reset_failures_def Let_def)

lemma count_failure_simps [simp]:
  "ua_id (count_failure cx u) = ua_id u"
  "ua_username_normalized (count_failure cx u) = ua_username_normalized u"
  "ua_email_normalized (count_failure cx u) = ua_email_normalized u"
  "ua_password_hash (count_failure cx u) = ua_password_hash u"
  "ua_is_system_admin (count_failure cx u) = ua_is_system_admin u"
  "ua_failed_login_count (count_failure cx u) = Suc (ua_failed_login_count u)"
  by (simp_all add: count_failure_def Let_def)

lemma clear_failures_frame [simp]:
  "sessions (clear_failures cx uid s) = sessions s"
  "audit_events (clear_failures cx uid s) = audit_events s"
  by (simp_all add: clear_failures_def split: option.splits)

lemma get_user_clear_failures:
  "get_user (clear_failures cx uid s) j =
     (if j = uid then map_option reset_failures (get_user s uid) else get_user s j)"
proof (cases "get_user s uid")
  case None
  then show ?thesis by (simp add: clear_failures_def)
next
  case (Some u)
  then show ?thesis by (simp add: clear_failures_def get_user_upd_user)
qed

lemma get_user_register_user_failure:
  "get_user (register_user_failure cx uid s) j =
     (if j = uid then map_option (count_failure cx) (get_user s uid) else get_user s j)"
  by (simp add: register_user_failure_def get_user_upd_user)


section \<open>The contract of a window limiter\<close>

text \<open>
  \<open>in_window cx c\<close>: an event recorded in context \<open>c\<close> still counts for a check in \<open>cx\<close>.
  A limiter has a weight, the number of counted failures; recording a failure in the window
  adds one, and the check compares the weight with the bound.
\<close>

definition in_window :: "ctx \<Rightarrow> ctx \<Rightarrow> bool" where
  "in_window cx c \<longleftrightarrow> cx_crypto c = cx_crypto cx \<and> cx_config c = cx_config cx \<and>
     cx_now cx - minutes 15 \<le> cx_now c \<and> cx_now c \<le> cx_now cx"

locale attempt_limiter =
  fixes limited :: "ctx \<Rightarrow> 'k \<Rightarrow> db \<Rightarrow> bool"
    and fail :: "ctx \<Rightarrow> 'k \<Rightarrow> db \<Rightarrow> db"
    and bound :: "ctx \<Rightarrow> int"
    and weight :: "ctx \<Rightarrow> 'k \<Rightarrow> db \<Rightarrow> nat"
  assumes limited_iff: "limited cx k s \<longleftrightarrow> bound cx \<le> int (weight cx k s)"
    and weight_fail: "in_window cx c \<Longrightarrow> weight cx k (fail c k s) = Suc (weight cx k s)"
begin

lemma weight_failures:
  "\<forall>c \<in> set cs. in_window cx c \<Longrightarrow>
     weight cx k (fold (\<lambda>c. fail c k) cs s) = weight cx k s + length cs"
  by (induction cs arbitrary: s) (auto simp: weight_fail)

lemma limited_after_failures:
  "\<forall>c \<in> set cs. in_window cx c \<Longrightarrow> bound cx \<le> int (length cs) \<Longrightarrow>
     limited cx k (fold (\<lambda>c. fail c k) cs s)"
  by (simp add: limited_iff weight_failures)

lemma limited_stays:
  "limited cx k s \<Longrightarrow> \<forall>c \<in> set cs. in_window cx c \<Longrightarrow> limited cx k (fold (\<lambda>c. fail c k) cs s)"
  by (simp add: limited_iff weight_failures)

end

definition login_weight :: "ctx \<Rightarrow> string \<times> string option \<Rightarrow> db \<Rightarrow> nat" where
  "login_weight cx = (\<lambda>(n, ip) s.
     count_where (failed_since (username_hash cx n) (cx_now cx - minutes 15) ip) (attempts s))"

definition registration_weight :: "ctx \<Rightarrow> string \<times> string option \<Rightarrow> db \<Rightarrow> nat" where
  "registration_weight cx = (\<lambda>(n, ip) s.
     count_where (failed_since (registration_hash cx n) (cx_now cx - minutes 15) ip) (attempts s))"

definition login_fail :: "ctx \<Rightarrow> string \<times> string option \<Rightarrow> db \<Rightarrow> db" where
  "login_fail cx = (\<lambda>(n, ip) s. record_attempt cx n ip False (Some ''invalid_credentials'') s)"

definition registration_fail :: "ctx \<Rightarrow> string \<times> string option \<Rightarrow> db \<Rightarrow> db" where
  "registration_fail cx = (\<lambda>(n, ip) s. record_registration_attempt cx n ip False (Some ''validation'') s)"

lemma pruned_not_in_window:
  assumes "in_window cx c"
  shows "(\<lambda>a. \<not> la_attempted_at a < cx_now c - days 30 \<and> failed_since h (cx_now cx - minutes 15) ip a) =
         failed_since h (cx_now cx - minutes 15) ip"
  using assms by (auto simp: fun_eq_iff in_window_def failed_since_def time_defs)

lemma failed_since_row [simp]:
  "failed_since h t ip \<lparr>la_id = i, la_username_hash = h', la_client_ip_hash = ip', la_success = ok,
      la_failure_reason_code = r, la_attempted_at = t'\<rparr> \<longleftrightarrow>
     h' = h \<and> \<not> ok \<and> t \<le> t' \<and> (truthy ip \<longrightarrow> ip' = ip)"
  by (simp add: failed_since_def)

lemma attempts_record_failure:
  "attempts (record_attempt cx n ip False reason s) =
     filter (\<lambda>a. \<not> la_attempted_at a < cx_now cx - days 30) (attempts s) @
     [\<lparr>la_id = next_id la_id (attempts s), la_username_hash = username_hash cx n,
       la_client_ip_hash = ip, la_success = False,
       la_failure_reason_code = Some (take 64 (if truthy reason then the reason else ''invalid_credentials'')),
       la_attempted_at = cx_now cx\<rparr>]"
  by (simp add: record_attempt_def Let_def insert_row_def set_la_id_def time_defs)

interpretation login_limiter: attempt_limiter
  "\<lambda>cx (n, ip). is_rate_limited cx n ip" login_fail
  "\<lambda>cx. login_max_attempts (cx_config cx)" login_weight
proof
  fix cx s and k :: "string \<times> string option"
  show "(case k of (n, ip) \<Rightarrow> is_rate_limited cx n ip) s \<longleftrightarrow>
     login_max_attempts (cx_config cx) \<le> int (login_weight cx k s)"
    by (cases k) (simp add: is_rate_limited_def login_weight_def Let_def)
next
  fix cx c s and k :: "string \<times> string option"
  assume w: "in_window cx c"
  then have "username_hash c n = username_hash cx n" for n
    by (simp add: in_window_def username_hash_def hash_value_def)
  with w show "login_weight cx k (login_fail c k s) = Suc (login_weight cx k s)"
    by (cases k) (simp add: login_weight_def login_fail_def attempts_record_failure
        pruned_not_in_window, simp add: in_window_def)
qed

interpretation registration_limiter: attempt_limiter
  "\<lambda>cx (n, ip). is_registration_rate_limited cx n ip" registration_fail "\<lambda>_. 5" registration_weight
proof
  fix cx s and k :: "string \<times> string option"
  show "(case k of (n, ip) \<Rightarrow> is_registration_rate_limited cx n ip) s \<longleftrightarrow>
     5 \<le> int (registration_weight cx k s)"
    by (cases k) (simp add: is_registration_rate_limited_def registration_weight_def Let_def)
next
  fix cx c s and k :: "string \<times> string option"
  assume w: "in_window cx c"
  then have "registration_hash c n = registration_hash cx n" for n
    by (simp add: in_window_def registration_hash_def hash_value_def)
  with w show "registration_weight cx k (registration_fail c k s) = Suc (registration_weight cx k s)"
    by (cases k) (simp add: registration_weight_def registration_fail_def record_registration_attempt_def
        insert_row_def set_la_id_def in_window_def)
qed


section \<open>Properties\<close>

text \<open>C22. Failed logins throttle: when \<open>login_max_attempts\<close> failures of an identity were
  recorded from an address within the last fifteen minutes, in any state and whatever the
  table held before, the login window for them is closed.\<close>

theorem failures_close_login_window:
  assumes "\<forall>c \<in> set cs. in_window cx c" "login_max_attempts (cx_config cx) \<le> int (length cs)"
  shows "is_rate_limited cx n ip
     (fold (\<lambda>c. record_attempt c n ip False (Some ''invalid_credentials'')) cs s)"
  using login_limiter.limited_after_failures [OF assms, of "(n, ip)" s]
  by (simp add: login_fail_def)

theorem failures_close_login_window_witness:
  "is_rate_limited (demo_ctx 100) ''ana'' None
     (fold (\<lambda>c. record_attempt c ''ana'' None False (Some ''invalid_credentials''))
        (replicate 5 (demo_ctx 90)) demo_db)"
  by (rule failures_close_login_window)
     (simp_all add: in_window_def demo_config_def time_defs)

text \<open>A successful login clears the failures of its identity, and the identity is not
  throttled right after it.\<close>

theorem success_opens_login_window:
  assumes "1 \<le> login_max_attempts (cx_config cx)"
  shows "\<not> is_rate_limited cx n ip' (record_attempt cx n ip True reason s)"
proof -
  let ?P = "failed_since (username_hash cx n) (cx_now cx - minutes 15) ip'"
  have "\<forall>a \<in> set (attempts (record_attempt cx n ip True reason s)). \<not> ?P a"
    by (auto simp: record_attempt_def Let_def insert_row_def set_la_id_def failed_since_def)
  then have "count_where ?P (attempts (record_attempt cx n ip True reason s)) = 0"
    by (simp add: count_where_zero_iff)
  with assms show ?thesis by (simp add: is_rate_limited_def Let_def)
qed

theorem success_opens_login_window_witness:
  "\<not> is_rate_limited (demo_ctx 100) ''ana'' None (record_attempt (demo_ctx 100) ''ana'' None True None demo_db)"
  by (rule success_opens_login_window) (simp add: demo_config_def)

text \<open>Registration management is bounded: a management call is refused exactly when twenty
  calls of the same actor, action and address are recorded in the last five minutes; the
  refusal changes nothing and an accepted call is recorded, so the number of recorded calls
  in the window never passes twenty.\<close>

theorem management_attempts_bounded:
  fixes cx :: ctx and a :: nat and action :: string and ip :: "string option" and s :: db
  defines "w \<equiv> \<lambda>t. count_where (management_since (management_hash cx a action) (cx_now cx - minutes 5) ip) (attempts t)"
  shows "(case record_management_attempt cx a action ip s of
       (Inl e, s') \<Rightarrow> s' = s \<and> 20 \<le> w s \<and> is_ValueError e
     | (Inr _, s') \<Rightarrow> w s' = Suc (w s) \<and> w s' \<le> 20 \<and> users s' = users s)"
  by (auto simp: record_management_attempt_def w_def Let_def insert_row_def set_la_id_def
      management_since_def time_defs)

text \<open>Locking: a failure raises the counter by one, and the account is locked, until
  \<open>lockout_minutes\<close> later, exactly when the counter reaches \<open>login_max_attempts\<close>; no other
  account changes.\<close>

theorem register_user_failure_locks:
  assumes "get_user s uid = Some u"
  shows "\<exists>u'. get_user (register_user_failure cx uid s) uid = Some u' \<and>
     ua_failed_login_count u' = Suc (ua_failed_login_count u) \<and>
     (if login_max_attempts (cx_config cx) \<le> int (Suc (ua_failed_login_count u))
      then ua_status u' = Locked \<and>
           ua_locked_until u' = Some (cx_now cx + minutes (lockout_minutes (cx_config cx)))
      else ua_status u' = ua_status u \<and> ua_locked_until u' = ua_locked_until u) \<and>
     (\<forall>j. j \<noteq> uid \<longrightarrow> get_user (register_user_failure cx uid s) j = get_user s j)"
  using assms by (simp add: get_user_register_user_failure count_failure_def Let_def)

theorem register_user_failure_locks_witness:
  "\<exists>u'. get_user (register_user_failure (demo_ctx 100) 2 demo_db) 2 = Some u' \<and>
     ua_failed_login_count u' = 1 \<and> ua_status u' = Active"
proof -
  have g: "get_user demo_db 2 = Some (demo_user 2 ''ana'' Active False)" by code_simp
  have "ua_failed_login_count (demo_user 2 ''ana'' Active False) = 0"
    "ua_status (demo_user 2 ''ana'' Active False) = Active" "login_max_attempts demo_config = 5"
    by (simp_all add: demo_defs)
  then show ?thesis using register_user_failure_locks [OF g, of "demo_ctx 100"] by auto
qed

end
