(* ===== verification/Accounts.thy ===== *)
theory Accounts
  imports Users Rate_Limit
begin

text \<open>
  Local registration and its review (\<open>access_control/account_service.py\<close>): the account a
  visitor registers, the approval, the rejection and the reopening of a registration, with the
  activities and notifications they record. The eight random hexadecimal digits a generated
  username ends with are the argument \<open>tokens\<close>, one per attempt of the loop.
\<close>

section \<open>Text helpers\<close>

definition status_text :: "user_status \<Rightarrow> string" where
  "status_text st =
     (case st of Active \<Rightarrow> ''active'' | PendingPasswordChange \<Rightarrow> ''pending_password_change''
        | PendingApproval \<Rightarrow> ''pending_approval'' | Rejected \<Rightarrow> ''rejected''
        | Disabled \<Rightarrow> ''disabled'' | Locked \<Rightarrow> ''locked'')"

text \<open>The two parts of \<open>email.split("@", 1)\<close>.\<close>

definition local_part :: "string \<Rightarrow> string" where
  "local_part e = takeWhile (\<lambda>c. c \<noteq> CHR ''@'') e"

definition domain_part :: "string \<Rightarrow> string" where
  "domain_part e = tl (dropWhile (\<lambda>c. c \<noteq> CHR ''@'') e)"

definition mask_email :: "string \<Rightarrow> string result" where
  "mask_email email =
     (if CHR ''@'' \<notin> set email then Inl (ValueError ''not enough values to unpack (expected 2, got 1)'')
      else Inr (take 1 (local_part email) @
                replicate (min (max (length (local_part email) - 1) 2) 8) CHR ''*'' @
                ''@'' @ domain_part email))"

definition username_base_char :: "char \<Rightarrow> bool" where
  "username_base_char c \<longleftrightarrow> is_lower c \<or> is_digit c \<or> c \<in> {CHR ''.'', CHR ''_'', CHR ''-''}"

text \<open>\<open>re.sub(r"[^a-z0-9._-]+", ".", s)\<close>: each maximal run of other characters becomes one dot.\<close>

fun dot_runs :: "bool \<Rightarrow> string \<Rightarrow> string" where
  "dot_runs in_run [] = []"
| "dot_runs in_run (c # cs) =
     (if username_base_char c then c # dot_runs False cs
      else if in_run then dot_runs True cs
      else CHR ''.'' # dot_runs True cs)"

definition username_base :: "string \<Rightarrow> string" where
  "username_base email_normalized =
     (let base = take 44 (strip_with (\<lambda>c. c \<in> {CHR ''.'', CHR ''_'', CHR ''-''})
                   (dot_runs False (casefold (local_part email_normalized))))
      in if length base < 3 then ''user'' else base)"

fun try_usernames :: "db \<Rightarrow> string \<Rightarrow> string list \<Rightarrow> string result" where
  "try_usernames s base [] = Inl (ValueError ''A safe username could not be generated'')"
| "try_usernames s base (token # tokens) =
     (let candidate = take 64 (base @ ''.'' @ token)
      in if \<not> username_taken s candidate then Inr candidate else try_usernames s base tokens)"

definition generated_username :: "string list \<Rightarrow> db \<Rightarrow> string \<Rightarrow> string result" where
  "generated_username tokens s email_normalized =
     try_usernames s (username_base email_normalized) (take 20 tokens)"


section \<open>Activities and notifications\<close>

definition add_activity :: "ctx \<Rightarrow> string \<Rightarrow> string \<Rightarrow> nat \<Rightarrow> db \<Rightarrow> db" where
  "add_activity cx action message uid s =
     s\<lparr>activities := insert_row sa_id set_sa_id
         \<lparr>sa_id = 0, sa_action = action, sa_message = take 500 message,
          sa_entity_type = ''account_registration'', sa_entity_id = Some uid, sa_created_at = cx_now cx\<rparr>
         (activities s)\<rparr>"

definition notification_matches :: "string \<Rightarrow> string \<Rightarrow> nat \<Rightarrow> nat option \<Rightarrow> notification \<Rightarrow> bool" where
  "notification_matches title entity_type uid recipient n \<longleftrightarrow>
     nt_title n = title \<and> nt_entity_type n = entity_type \<and> nt_entity_id n = Some uid \<and>
     nt_recipient_user_id n = recipient"

definition notify :: "ctx \<Rightarrow> string \<Rightarrow> string \<Rightarrow> nat \<Rightarrow> nat option \<Rightarrow> bool \<Rightarrow> db \<Rightarrow> db" where
  "notify cx title message uid recipient admin_only s =
     (let entity_type = (if admin_only then ''user'' else ''account_status'')
      in if \<exists>n \<in> set (notifications s). notification_matches title entity_type uid recipient n then s
         else s\<lparr>notifications := insert_row nt_id set_nt_id
                  \<lparr>nt_id = 0, nt_title = title, nt_message = take 500 message, nt_type = ''info'',
                   nt_entity_type = entity_type, nt_entity_id = Some uid,
                   nt_recipient_user_id = recipient, nt_is_read = False, nt_created_at = cx_now cx\<rparr>
                  (notifications s)\<rparr>)"


section \<open>Registration\<close>

record registration_request =
  rg_email :: string
  rg_username :: "string option"
  rg_display_name :: string
  rg_password :: string
  rg_password_confirmation :: string
  rg_terms_accepted :: bool
  rg_privacy_notice_version :: string

record registration_receipt =
  rr_registration_status :: string
  rr_username :: string
  rr_display_name :: string
  rr_email :: string
  rr_email_verified :: bool
  rr_approval_required :: bool
  rr_next_route :: string

definition registration_row ::
  "ctx \<Rightarrow> registration_request \<Rightarrow> string \<Rightarrow> string \<Rightarrow> string \<Rightarrow> string \<Rightarrow> string \<Rightarrow> user_account" where
  "registration_row cx payload username username_normalized display_name email_normalized digest =
     (let status = (if registration_mode (cx_config cx) = ''approval_required'' then PendingApproval else Active)
      in \<lparr>ua_id = 0, ua_username = username, ua_username_normalized = username_normalized,
          ua_display_name = display_name, ua_email = Some (strip (rg_email payload)),
          ua_email_normalized = Some email_normalized, ua_password_hash = digest, ua_status = status,
          ua_is_system_admin = False, ua_failed_login_count = 0, ua_locked_until = None,
          ua_password_changed_at = cx_now cx, ua_must_change_password = False, ua_mfa_enabled = False,
          ua_last_login_at = None, ua_last_login_ip_hash = None, ua_created_at = cx_now cx,
          ua_disabled_at = None, ua_registration_source = ''local'',
          ua_approved_at = (if status = Active then Some (cx_now cx) else None),
          ua_approved_by_user_id = None, ua_rejected_at = None, ua_rejected_by_user_id = None,
          ua_rejection_reason = None, ua_terms_accepted_at = Some (cx_now cx),
          ua_privacy_notice_version = Some (privacy_notice_version (cx_config cx)),
          ua_email_verified = False, ua_onboarding_completed_at = None, ua_is_demo_account = False\<rparr>)"

text \<open>The body of the \<open>try\<close> block: the account it creates, or the exception it is left with.\<close>

definition register_attempt ::
  "ctx \<Rightarrow> string \<Rightarrow> string list \<Rightarrow> registration_request \<Rightarrow> string \<Rightarrow> db \<Rightarrow> (user_account \<times> db) result" where
  "register_attempt cx salt tokens payload email_normalized s =
     (if \<not> rg_terms_accepted payload then Inl (ValueError ''Terms and privacy acknowledgement is required'')
      else if rg_privacy_notice_version payload \<noteq> privacy_notice_version (cx_config cx)
      then Inl (ValueError ''The current privacy notice must be accepted'')
      else if rg_password payload \<noteq> rg_password_confirmation payload
      then Inl (ValueError ''Password confirmation does not match'')
      else bind_result (if truthy (rg_username payload) then Inr (strip (the (rg_username payload)))
                        else generated_username tokens s email_normalized) (\<lambda>username.
           bind_result (normalize_username username) (\<lambda>username_normalized.
           bind_result (validate_display_name (rg_display_name payload)) (\<lambda>display_name.
           if email_taken s (Some email_normalized) \<or> username_taken s username_normalized
           then Inl (ValueError ''Account registration could not be completed'')
           else bind_result (hash_password (cx_crypto cx) salt (rg_password payload) username_normalized
                               [local_part email_normalized]) (\<lambda>digest.
             let row = registration_row cx payload username username_normalized display_name email_normalized digest;
                 uid = next_id ua_id (users s);
                 u = set_ua_id uid row
             in (case assign_roles cx uid [''registered_user''] None (insert_user row s) of
                   (Inl e, _) \<Rightarrow> Inl e
                 | (Inr _, s1) \<Rightarrow> Inr (u, snd (clear_user_login_attempts cx u s1))))))))"

definition registration_error_text :: "string \<Rightarrow> string" where
  "registration_error_text message =
     (if py_in ''already'' (casefold message) \<or> py_in ''could not be completed'' (casefold message)
      then ''Account registration could not be completed'' else message)"

definition registration_receipt_of :: "user_account \<Rightarrow> registration_receipt result" where
  "registration_receipt_of u =
     bind_result (mask_email (case ua_email u of None \<Rightarrow> [] | Some e \<Rightarrow> e)) (\<lambda>masked. Inr
       \<lparr>rr_registration_status = status_text (ua_status u), rr_username = ua_username u,
        rr_display_name = ua_display_name u, rr_email = masked, rr_email_verified = False,
        rr_approval_required = (ua_status u = PendingApproval), rr_next_route = ''/account-pending''\<rparr>)"

definition announce_registration :: "ctx \<Rightarrow> user_account \<Rightarrow> db \<Rightarrow> db" where
  "announce_registration cx u s =
     (let s1 = add_activity cx ''account_registered''
                 (''Local account '' @ ua_username u @ '' registered with status '' @
                  status_text (ua_status u) @ ''.'') (ua_id u) s
      in if ua_status u = PendingApproval
         then notify cx ''Registration Submitted''
                (''Registration for '' @ ua_username u @ '' requires administrator review.'')
                (ua_id u) None True s1
         else notify cx ''Registration Activated'' ''Your limited local ThreatScope account is ready.''
                (ua_id u) (Some (ua_id u)) False s1)"

definition register_local_account ::
  "ctx \<Rightarrow> string \<Rightarrow> string list \<Rightarrow> request \<Rightarrow> registration_request \<Rightarrow>
     (db, user_account \<times> registration_receipt) action" where
  "register_local_account cx salt tokens request payload s =
     (let config = cx_config cx; ip_hash = client_ip_hash cx request in
      if \<not> local_login_enabled config \<or> \<not> self_registration_enabled config \<or>
         registration_mode config = ''disabled''
      then (Inl (HTTPException 403 ''Local account registration is unavailable''), s)
      else (case normalize_email (Some (rg_email payload)) of
          Inl e \<Rightarrow> (Inl (HTTPException 422 (exn_message e)), s)
        | Inr None \<Rightarrow> (Inl (HTTPException 422 ''Email address is required''), s)
        | Inr (Some email_normalized) \<Rightarrow>
            if is_registration_rate_limited cx email_normalized ip_hash s
            then (Inl (HTTPException 429 ''Registration temporarily unavailable. Try again later.''), s)
            else (case register_attempt cx salt tokens payload email_normalized s of
                Inl e \<Rightarrow>
                  (Inl (HTTPException 422 (registration_error_text (exn_message e))),
                   record_registration_attempt cx email_normalized ip_hash False (Some ''validation'') s)
              | Inr (u, s1) \<Rightarrow>
                  (bind_result (registration_receipt_of u) (\<lambda>receipt. Inr (u, receipt)),
                   announce_registration cx u
                     (record_registration_attempt cx email_normalized ip_hash True None s1)))))"


section \<open>Review\<close>

text \<open>\<open>list(dict.fromkeys(keys))\<close> keeps the first occurrence of every key.\<close>

definition dict_fromkeys :: "'a list \<Rightarrow> 'a list" where
  "dict_fromkeys xs = rev (remdups (rev xs))"

definition approved_row :: "ctx \<Rightarrow> nat \<Rightarrow> string list \<Rightarrow> user_account \<Rightarrow> user_account" where
  "approved_row cx actor_id keys u =
     u\<lparr>ua_status := Active, ua_is_system_admin := (''administrator'' \<in> set keys),
       ua_approved_at := Some (cx_now cx), ua_approved_by_user_id := Some actor_id\<rparr>"

definition approve_registration ::
  "ctx \<Rightarrow> user_account \<Rightarrow> user_account \<Rightarrow> string list \<Rightarrow> bool \<Rightarrow> (db, unit) action" where
  "approve_registration cx u actor keys confirm_administrator s =
     (let unique = dict_fromkeys (if keys \<noteq> [] then keys else [''registered_user'']);
          found = filter (\<lambda>r. ar_role_key r \<in> set unique) (roles s) in
      if ua_status u \<notin> {PendingApproval, Rejected}
      then (Inl (ValueError ''Only pending or reopened registrations can be approved''), s)
      else if ''administrator'' \<in> set unique \<and> \<not> confirm_administrator
      then (Inl (ValueError ''Administrator assignment requires explicit confirmation''), s)
      else if length found \<noteq> length unique \<or> (\<exists>r \<in> set found. \<not> ar_enabled r)
      then (Inl (ValueError ''One or more roles are invalid or disabled''), s)
      else (case assign_roles cx (ua_id u) unique (Some (ua_id actor)) s of
          (Inl e, _) \<Rightarrow> (Inl e, s)
        | (Inr _, s1) \<Rightarrow>
            (Inr (),
             notify cx ''Registration Approved'' ''Your local ThreatScope account was approved.''
               (ua_id u) (Some (ua_id u)) False
               (add_activity cx ''account_approved'' (''Registration '' @ ua_username u @ '' approved.'')
                 (ua_id u) (upd_user (ua_id u) (approved_row cx (ua_id actor) unique) s1)))))"

definition rejected_row :: "ctx \<Rightarrow> nat \<Rightarrow> string \<Rightarrow> user_account \<Rightarrow> user_account" where
  "rejected_row cx actor_id reason u =
     u\<lparr>ua_status := Rejected, ua_rejected_at := Some (cx_now cx),
       ua_rejected_by_user_id := Some actor_id, ua_rejection_reason := Some reason\<rparr>"

definition reject_registration ::
  "ctx \<Rightarrow> user_account \<Rightarrow> user_account \<Rightarrow> string \<Rightarrow> (db, unit) action" where
  "reject_registration cx u actor reason s =
     (let bounded = join '' '' (split_ws (strip reason)) in
      if \<not> (3 \<le> length bounded \<and> length bounded \<le> 500)
      then (Inl (ValueError ''A bounded rejection reason is required''), s)
      else if ua_status u \<notin> {PendingApproval, Active}
      then (Inl (ValueError ''Registration cannot be rejected from its current status''), s)
      else (case ensure_not_last_admin s u of
          Inl e \<Rightarrow> (Inl e, s)
        | Inr _ \<Rightarrow>
            (Inr (),
             notify cx ''Registration Rejected''
               ''Your local account registration was not approved. Contact an administrator.''
               (ua_id u) (Some (ua_id u)) False
               (add_activity cx ''account_rejected'' (''Registration '' @ ua_username u @ '' rejected.'')
                 (ua_id u)
                 (snd (revoke_user_sessions cx (ua_id u) ''registration_rejected'' None
                   (upd_user (ua_id u) (rejected_row cx (ua_id actor) bounded) s)))))))"

definition reopen_registration :: "ctx \<Rightarrow> user_account \<Rightarrow> user_account \<Rightarrow> (db, unit) action" where
  "reopen_registration cx u actor s =
     (if ua_status u \<noteq> Rejected
      then (Inl (ValueError ''Only rejected registrations can be reopened''), s)
      else (Inr (),
            notify cx ''Registration Reopened''
              (''Registration '' @ ua_username u @ '' returned to the approval queue.'')
              (ua_id u) None True
              (add_activity cx ''account_reopened'' (''Registration '' @ ua_username u @ '' reopened for review.'')
                (ua_id u) (upd_user (ua_id u) (\<lambda>u. u\<lparr>ua_status := PendingApproval\<rparr>) s))))"


section \<open>Laws\<close>

lemma add_activity_frame [simp]:
  "users (add_activity cx a m uid s) = users s"
  "roles (add_activity cx a m uid s) = roles s"
  "permissions (add_activity cx a m uid s) = permissions s"
  "user_roles (add_activity cx a m uid s) = user_roles s"
  "role_permissions (add_activity cx a m uid s) = role_permissions s"
  "sessions (add_activity cx a m uid s) = sessions s"
  "attempts (add_activity cx a m uid s) = attempts s"
  "mfa_devices (add_activity cx a m uid s) = mfa_devices s"
  "recovery_codes (add_activity cx a m uid s) = recovery_codes s"
  "challenges (add_activity cx a m uid s) = challenges s"
  "audit_events (add_activity cx a m uid s) = audit_events s"
  by (simp_all add: add_activity_def)

lemma notify_frame [simp]:
  "users (notify cx t m uid r b s) = users s"
  "roles (notify cx t m uid r b s) = roles s"
  "permissions (notify cx t m uid r b s) = permissions s"
  "user_roles (notify cx t m uid r b s) = user_roles s"
  "role_permissions (notify cx t m uid r b s) = role_permissions s"
  "sessions (notify cx t m uid r b s) = sessions s"
  "attempts (notify cx t m uid r b s) = attempts s"
  "mfa_devices (notify cx t m uid r b s) = mfa_devices s"
  "recovery_codes (notify cx t m uid r b s) = recovery_codes s"
  "challenges (notify cx t m uid r b s) = challenges s"
  "audit_events (notify cx t m uid r b s) = audit_events s"
  by (simp_all add: notify_def Let_def)

lemma announce_registration_frame [simp]:
  "users (announce_registration cx u s) = users s"
  "roles (announce_registration cx u s) = roles s"
  "user_roles (announce_registration cx u s) = user_roles s"
  "sessions (announce_registration cx u s) = sessions s"
  "attempts (announce_registration cx u s) = attempts s"
  by (simp_all add: announce_registration_def Let_def)

lemma record_registration_attempt_frame [simp]:
  "users (record_registration_attempt cx n ip ok r s) = users s"
  "roles (record_registration_attempt cx n ip ok r s) = roles s"
  "user_roles (record_registration_attempt cx n ip ok r s) = user_roles s"
  "sessions (record_registration_attempt cx n ip ok r s) = sessions s"
  by (simp_all add: record_registration_attempt_def)

lemma role_keys_cong: "roles s = roles t \<Longrightarrow> user_roles s = user_roles t \<Longrightarrow> role_keys s = role_keys t"
  by (rule ext) (simp only: role_keys_def)

lemma clear_attempts_roles [simp]:
  "roles (snd (clear_user_login_attempts cx u s)) = roles s"
  "user_roles (snd (clear_user_login_attempts cx u s)) = user_roles s"
  by (simp_all add: clear_user_login_attempts_def)

lemma notify_idem:
  "\<exists>n \<in> set (notifications (notify cx t m uid r b s)).
     notification_matches t (if b then ''user'' else ''account_status'') uid r n"
  by (auto simp: notify_def Let_def insert_row_def notification_matches_def set_nt_id_def)

lemma set_dict_fromkeys [simp]: "set (dict_fromkeys xs) = set xs"
  by (simp add: dict_fromkeys_def)

lemma distinct_dict_fromkeys [simp]: "distinct (dict_fromkeys xs)"
  by (simp add: dict_fromkeys_def)

subsection \<open>Registration\<close>

lemma register_attempt_InrD:
  assumes "register_attempt cx salt tokens payload email s = Inr (u, s')"
  obtains username n d h s1 where
    "normalize_username username = Inr n"
    "\<not> username_taken s n" "\<not> email_taken s (Some email)"
    "rg_terms_accepted payload" "rg_password payload = rg_password_confirmation payload"
    "password_acceptable (rg_password payload) n [local_part email]"
    "h = argon2_hash (cx_crypto cx) salt (rg_password payload)"
    "u = set_ua_id (next_id ua_id (users s)) (registration_row cx payload username n d email h)"
    "assign_roles cx (next_id ua_id (users s)) [''registered_user''] None
       (insert_user (registration_row cx payload username n d email h) s) = (Inr (), s1)"
    "s' = snd (clear_user_login_attempts cx u s1)"
proof -
  have guards: "rg_terms_accepted payload" "rg_password payload = rg_password_confirmation payload"
    using assms by (auto simp: register_attempt_def split: if_splits)
  from assms obtain username where 1:
      "(if truthy (rg_username payload) then Inr (strip (the (rg_username payload)))
        else generated_username tokens s email) = Inr username"
    unfolding register_attempt_def by (auto simp: bind_result_Inr_iff split: if_splits)
  with assms obtain n where 2: "normalize_username username = Inr n"
    unfolding register_attempt_def by (auto simp: bind_result_Inr_iff split: if_splits)
  with assms 1 obtain d where 3: "validate_display_name (rg_display_name payload) = Inr d"
    unfolding register_attempt_def by (auto simp: bind_result_Inr_iff split: if_splits)
  from assms 1 2 3 have 4: "\<not> username_taken s n" "\<not> email_taken s (Some email)"
    unfolding register_attempt_def by (auto split: if_splits)
  with assms 1 2 3 obtain h where 5: "hash_password (cx_crypto cx) salt (rg_password payload) n [local_part email] = Inr h"
    unfolding register_attempt_def by (auto simp: bind_result_Inr_iff split: if_splits)
  let ?row = "registration_row cx payload username n d email h"
  from assms 1 2 3 4 5 obtain s1 where
    "assign_roles cx (next_id ua_id (users s)) [''registered_user''] None (insert_user ?row s) = (Inr (), s1)"
    "u = set_ua_id (next_id ua_id (users s)) ?row" "s' = snd (clear_user_login_attempts cx u s1)"
    unfolding register_attempt_def by (auto simp: Let_def split: if_splits prod.splits sum.splits)
  then show thesis
    using that [of username n h d s1] guards 1 2 4 5 by (auto simp: hash_password_Inr_iff)
qed

lemma registration_row_simps [simp]:
  "ua_username (registration_row cx p un n d e h) = un"
  "ua_username_normalized (registration_row cx p un n d e h) = n"
  "ua_email_normalized (registration_row cx p un n d e h) = Some e"
  "ua_email (registration_row cx p un n d e h) = Some (strip (rg_email p))"
  "ua_is_system_admin (registration_row cx p un n d e h) = False"
  "ua_mfa_enabled (registration_row cx p un n d e h) = False"
  "ua_password_hash (registration_row cx p un n d e h) = h"
  "ua_status (registration_row cx p un n d e h) =
     (if registration_mode (cx_config cx) = ''approval_required'' then PendingApproval else Active)"
  by (simp_all add: registration_row_def Let_def)

lemma set_ua_id_simps [simp]:
  "ua_id (set_ua_id i u) = i"
  "ua_username_normalized (set_ua_id i u) = ua_username_normalized u"
  "ua_username (set_ua_id i u) = ua_username u"
  "ua_email (set_ua_id i u) = ua_email u"
  "ua_email_normalized (set_ua_id i u) = ua_email_normalized u"
  "ua_is_system_admin (set_ua_id i u) = ua_is_system_admin u"
  "ua_status (set_ua_id i u) = ua_status u"
  "ua_password_hash (set_ua_id i u) = ua_password_hash u"
  "ua_mfa_enabled (set_ua_id i u) = ua_mfa_enabled u"
  by (simp_all add: set_ua_id_def)

lemma normalize_email_stored:
  "normalize_email (Some v) = Inr (Some e) \<Longrightarrow> normalize_email (Some (strip v)) = Inr (Some e)"
  by (auto simp: normalize_email_def Let_def split: if_splits)

lemma email_has_at: "normalize_email (Some v) = Inr (Some e) \<Longrightarrow> CHR ''@'' \<in> set (strip v)"
proof -
  assume "normalize_email (Some v) = Inr (Some e)"
  then have e: "e = casefold (strip v)" "EMAIL_RE e"
    by (auto simp: normalize_email_def Let_def split: if_splits)
  have sp: "split_on CHR ''@'' x = [x]" if "CHR ''@'' \<notin> set x" for x
    using that by (induction x) auto
  have "CHR ''@'' \<in> set e"
    using e(2) sp [of e] unfolding EMAIL_RE_def by (cases "CHR ''@'' \<in> set e") auto
  then obtain c where "c \<in> set (strip v)" "lower_char c = CHR ''@''" using e by (auto simp: casefold_def)
  moreover have "c = CHR ''@''" if "lower_char c = CHR ''@''" for c
  proof (cases "is_upper c")
    case True
    then have n: "65 \<le> (of_char c :: nat)" "(of_char c :: nat) \<le> 90" by (simp_all add: is_upper_def Let_def)
    from True that have "char_of ((of_char c :: nat) + 32) = CHR ''@''" by (simp add: lower_char_def)
    then have "of_char (char_of ((of_char c :: nat) + 32) :: char) = (of_char (CHR ''@'') :: nat)" by (rule arg_cong)
    then have "((of_char c :: nat) + 32) mod 256 = 64" unfolding of_char_of by simp
    with n show ?thesis by simp
  next
    case False
    with that show ?thesis by (simp add: lower_char_def)
  qed
  ultimately show ?thesis by auto
qed

lemma register_attempt_spec:
  assumes wf: "accounts_wf s" "roles_wf s" and email: "normalize_email (Some (rg_email payload)) = Inr (Some email)"
    and r: "register_attempt cx salt tokens payload email s = Inr (u, s')"
  shows "accounts_wf s' \<and> users s' = users s @ [u] \<and> \<not> ua_is_system_admin u \<and>
     ua_email_normalized u = Some email \<and>
     ua_password_hash u = argon2_hash (cx_crypto cx) salt (rg_password payload) \<and>
     ua_status u = (if registration_mode (cx_config cx) = ''approval_required'' then PendingApproval else Active) \<and>
     set (role_keys s' (ua_id u)) = {''registered_user''} \<and>
     (\<forall>j. j \<noteq> ua_id u \<longrightarrow> set (role_keys s' j) = set (role_keys s j)) \<and> sessions s' = sessions s \<and>
     ua_email u = Some (strip (rg_email payload))"
proof -
  from r obtain username n d h s1 where
    n: "normalize_username username = Inr n" and nt: "\<not> username_taken s n" "\<not> email_taken s (Some email)"
    and h: "h = argon2_hash (cx_crypto cx) salt (rg_password payload)"
    and u: "u = set_ua_id (next_id ua_id (users s)) (registration_row cx payload username n d email h)"
    and ar: "assign_roles cx (next_id ua_id (users s)) [''registered_user''] None
       (insert_user (registration_row cx payload username n d email h) s) = (Inr (), s1)"
    and s': "s' = snd (clear_user_login_attempts cx u s1)"
    by (rule register_attempt_InrD)
  let ?row = "registration_row cx payload username n d email h"
  let ?s0 = "insert_user ?row s"
  have "account_row_ok ?row"
    using n normalize_email_stored [OF email] by (simp add: account_row_ok_def)
  then have wf0: "accounts_wf ?s0" using accounts_wf_insert [OF wf(1), of ?row] nt by simp
  have us: "users s' = users ?s0" "sessions s' = sessions ?s0"
    using assign_roles_frame [OF ar] by (simp_all add: s')
  have "users s' = users s @ [u]" using us by (simp add: insert_user_def insert_row_def u)
  moreover have "accounts_wf s'" using wf0 us accounts_wf_cong by blast
  moreover have keys: "set (role_keys s' j) = (if j = ua_id u then {''registered_user''} else set (role_keys s j))" for j
  proof -
    have "roles_wf ?s0" using wf(2) by (simp add: roles_wf_def insert_user_def)
    from assign_roles_keys [OF this ar, of j]
    have "set (role_keys s1 j) = (if j = ua_id u then {''registered_user''} else set (role_keys ?s0 j))"
      by (simp add: u)
    moreover have "role_keys s' = role_keys s1" by (rule role_keys_cong) (simp_all add: s')
    moreover have "role_keys ?s0 = role_keys s" by (rule role_keys_cong) (simp_all add: insert_user_def)
    ultimately show ?thesis by simp
  qed
  ultimately show ?thesis using us h by (simp add: u insert_user_def)
qed

subsection \<open>Review\<close>

lemma approved_row_simps [simp]:
  "ua_id (approved_row cx a ks u) = ua_id u"
  "ua_status (approved_row cx a ks u) = Active"
  "ua_is_system_admin (approved_row cx a ks u) = (''administrator'' \<in> set ks)"
  by (simp_all add: approved_row_def)

lemma approve_registration_InrD:
  assumes "approve_registration cx u actor keys confirm s = (Inr x, s')"
  obtains unique s1 where "set unique = set (if keys \<noteq> [] then keys else [''registered_user''])"
    "ua_status u \<in> {PendingApproval, Rejected}" "''administrator'' \<in> set unique \<longrightarrow> confirm"
    "assign_roles cx (ua_id u) unique (Some (ua_id actor)) s = (Inr (), s1)"
    "users s' = users (upd_user (ua_id u) (approved_row cx (ua_id actor) unique) s1)"
    "roles s' = roles s1" "user_roles s' = user_roles s1" "sessions s' = sessions s1"
proof -
  define unique where "unique = dict_fromkeys (if keys \<noteq> [] then keys else [''registered_user''])"
  from assms have st: "ua_status u \<in> {PendingApproval, Rejected}"
      and cf: "''administrator'' \<in> set unique \<longrightarrow> confirm"
    unfolding approve_registration_def Let_def unique_def [symmetric] by (auto split: if_splits)
  from assms obtain s1 where ar: "assign_roles cx (ua_id u) unique (Some (ua_id actor)) s = (Inr (), s1)"
    unfolding approve_registration_def Let_def unique_def [symmetric]
    by (cases "assign_roles cx (ua_id u) unique (Some (ua_id actor)) s")
      (auto split: if_splits sum.splits)
  from assms ar have s': "s' = notify cx ''Registration Approved'' ''Your local ThreatScope account was approved.''
               (ua_id u) (Some (ua_id u)) False
               (add_activity cx ''account_approved'' (''Registration '' @ ua_username u @ '' approved.'')
                 (ua_id u) (upd_user (ua_id u) (approved_row cx (ua_id actor) unique) s1))"
    unfolding approve_registration_def Let_def unique_def [symmetric] by (auto split: if_splits)
  show thesis by (rule that [OF _ st cf ar]) (simp_all add: unique_def s')
qed

lemma approve_registration_InlD:
  "approve_registration cx u actor keys confirm s = (Inl e, s') \<Longrightarrow> s' = s \<and> is_ValueError e"
  unfolding approve_registration_def Let_def
  by (auto split: if_splits sum.splits prod.splits dest: assign_roles_InlD)

lemma reject_registration_InrD:
  assumes "reject_registration cx u actor reason s = (Inr x, s')"
  shows "ua_status u \<in> {PendingApproval, Active} \<and> ensure_not_last_admin s u = Inr () \<and>
     users s' = users (upd_user (ua_id u) (rejected_row cx (ua_id actor) (join '' '' (split_ws (strip reason)))) s) \<and>
     sessions s' = sessions (snd (revoke_user_sessions cx (ua_id u) ''registration_rejected'' None s))"
  using assms unfolding reject_registration_def Let_def
  by (auto simp: revoke_user_sessions_def split: if_splits sum.splits)

lemma reject_registration_InlD:
  "reject_registration cx u actor reason s = (Inl e, s') \<Longrightarrow> s' = s \<and> is_ValueError e"
  unfolding reject_registration_def Let_def
  by (auto split: if_splits sum.splits dest: ensure_not_last_admin_error)


section \<open>Properties\<close>

text \<open>C19. Self-registration: a successful call adds exactly one account, never an administrator,
  with exactly the role \<open>registered_user\<close>, awaiting approval when the mode asks for it, and keeps
  usernames and e-mail addresses unique. A refused call is an HTTP error 403, 422 or 429 and leaves
  accounts, role assignments and sessions as they were.\<close>

theorem register_local_account_safe:
  assumes "accounts_wf s" "roles_wf s"
  shows "case register_local_account cx salt tokens request payload s of
       (Inl e, s') \<Rightarrow> users s' = users s \<and> user_roles s' = user_roles s \<and> sessions s' = sessions s \<and>
         (\<exists>code message. e = HTTPException code message \<and> code \<in> {403, 422, 429})
     | (Inr (u, receipt), s') \<Rightarrow>
         accounts_wf s' \<and> users s' = users s @ [u] \<and> sessions s' = sessions s \<and>
         \<not> ua_is_system_admin u \<and> set (role_keys s' (ua_id u)) = {''registered_user''} \<and>
         (\<forall>j. j \<noteq> ua_id u \<longrightarrow> set (role_keys s' j) = set (role_keys s j)) \<and>
         ua_status u = (if registration_mode (cx_config cx) = ''approval_required'' then PendingApproval else Active) \<and>
         rr_approval_required receipt = (registration_mode (cx_config cx) = ''approval_required'')"
proof -
  let ?go = "local_login_enabled (cx_config cx) \<and> self_registration_enabled (cx_config cx) \<and>
      registration_mode (cx_config cx) \<noteq> ''disabled''"
  show ?thesis
  proof (cases "?go \<and> (\<exists>email. normalize_email (Some (rg_email payload)) = Inr (Some email) \<and>
      \<not> is_registration_rate_limited cx email (client_ip_hash cx request) s \<and>
      (\<exists>u s1. register_attempt cx salt tokens payload email s = Inr (u, s1)))")
    case False
    then show ?thesis
      unfolding register_local_account_def Let_def
      by (auto split: sum.splits option.splits)
  next
    case True
    then obtain email u s1 where go: ?go
        and email: "normalize_email (Some (rg_email payload)) = Inr (Some email)"
        and rl: "\<not> is_registration_rate_limited cx email (client_ip_hash cx request) s"
        and r: "register_attempt cx salt tokens payload email s = Inr (u, s1)" by blast
    note sp = register_attempt_spec [OF assms email r]
    then obtain receipt where rc: "registration_receipt_of u = Inr receipt"
        "rr_approval_required receipt = (ua_status u = PendingApproval)"
      using email_has_at [OF email] by (simp add: registration_receipt_of_def mask_email_def)
    let ?s' = "announce_registration cx u
        (record_registration_attempt cx email (client_ip_hash cx request) True None s1)"
    have res: "register_local_account cx salt tokens request payload s = (Inr (u, receipt), ?s')"
      using go email rl r rc(1) by (simp add: register_local_account_def)
    have "role_keys ?s' = role_keys s1" by (rule role_keys_cong) simp_all
    moreover have "accounts_wf ?s' = accounts_wf s1" by (rule accounts_wf_cong) simp
    ultimately show ?thesis using sp rc(2) unfolding res by simp
  qed
qed

theorem register_local_account_safe_witness:
  "\<exists>u receipt s'. register_local_account (demo_ctx 0) ''n'' [] (demo_request ''POST'' ''/register'' [])
     \<lparr>rg_email = ''Kim@example.org'', rg_username = Some ''kim.f'', rg_display_name = ''Kim F'',
      rg_password = ''correct horse battery'', rg_password_confirmation = ''correct horse battery'',
      rg_terms_accepted = True, rg_privacy_notice_version = ''local-privacy-v1''\<rparr>
     (demo_db\<lparr>users := [], roles := [demo_role\<lparr>ar_role_key := ''registered_user''\<rparr>]\<rparr>) = (Inr (u, receipt), s') \<and>
     ua_status u = PendingApproval \<and> \<not> ua_is_system_admin u \<and>
     set (role_keys s' (ua_id u)) = {''registered_user''}"
proof -
  let ?p = "\<lparr>rg_email = ''Kim@example.org'', rg_username = Some ''kim.f'', rg_display_name = ''Kim F'',
      rg_password = ''correct horse battery'', rg_password_confirmation = ''correct horse battery'',
      rg_terms_accepted = True, rg_privacy_notice_version = ''local-privacy-v1''\<rparr>"
  let ?s = "demo_db\<lparr>users := [], roles := [demo_role\<lparr>ar_role_key := ''registered_user''\<rparr>]\<rparr>"
  let ?r = "register_local_account (demo_ctx 0) ''n'' [] (demo_request ''POST'' ''/register'' []) ?p ?s"
  have wf: "accounts_wf ?s" "roles_wf ?s" by (simp_all add: accounts_wf_def roles_wf_def List.map_filter_def demo_defs)
  have "case fst ?r of Inl e \<Rightarrow> False | Inr x \<Rightarrow> True" by code_simp
  then obtain u receipt s' where r: "?r = (Inr (u, receipt), s')"
    by (cases ?r) (auto split: sum.splits)
  with register_local_account_safe [OF wf, where cx = "demo_ctx 0" and salt = "''n''" and tokens = "[]" and
      request = "demo_request ''POST'' ''/register'' []" and payload = ?p]
  have "ua_status u = PendingApproval" "\<not> ua_is_system_admin u" "set (role_keys s' (ua_id u)) = {''registered_user''}"
    by (simp_all add: demo_config_def)
  with r show ?thesis by (intro exI conjI)
qed

text \<open>C20. Approving a registration: it succeeds only for a pending or rejected account, makes
  an administrator only when the reviewer confirmed it explicitly, and the account is then active
  with exactly the requested roles; a refused approval changes nothing.\<close>

theorem approve_registration_correct:
  assumes "roles_wf s" "get_user s (ua_id u) = Some u"
  shows "case approve_registration cx u actor keys confirm s of
       (Inl e, s') \<Rightarrow> s' = s \<and> is_ValueError e
     | (Inr _, s') \<Rightarrow>
         let granted = set (if keys \<noteq> [] then keys else [''registered_user'']) in
         ua_status u \<in> {PendingApproval, Rejected} \<and> (''administrator'' \<in> granted \<longrightarrow> confirm) \<and>
         granted \<subseteq> enabled_role_keys s \<and> set (role_keys s' (ua_id u)) = granted \<and>
         (\<exists>u'. get_user s' (ua_id u) = Some u' \<and> ua_status u' = Active \<and>
            ua_is_system_admin u' = (''administrator'' \<in> granted)) \<and>
         (\<forall>j. j \<noteq> ua_id u \<longrightarrow> get_user s' j = get_user s j \<and> set (role_keys s' j) = set (role_keys s j))"
proof (cases "approve_registration cx u actor keys confirm s")
  case (Pair out s')
  show ?thesis
  proof (cases out)
    case (Inl e)
    with Pair have c: "approve_registration cx u actor keys confirm s = (Inl e, s')" by simp
    show ?thesis unfolding c using approve_registration_InlD [OF c] by simp
  next
    case (Inr x)
    with Pair have c: "approve_registration cx u actor keys confirm s = (Inr x, s')" by simp
    then obtain unique s1 where
      k: "set unique = set (if keys \<noteq> [] then keys else [''registered_user''])"
      and st: "ua_status u \<in> {PendingApproval, Rejected}" and cf: "''administrator'' \<in> set unique \<longrightarrow> confirm"
      and ar: "assign_roles cx (ua_id u) unique (Some (ua_id actor)) s = (Inr (), s1)"
      and us: "users s' = users (upd_user (ua_id u) (approved_row cx (ua_id actor) unique) s1)"
      and rs: "roles s' = roles s1" "user_roles s' = user_roles s1" and "sessions s' = sessions s1"
      by (rule approve_registration_InrD)
    have gu: "get_user s' j = (if j = ua_id u then map_option (approved_row cx (ua_id actor) unique) (get_user s j)
        else get_user s j)" for j
    proof -
      have "get_user s1 = get_user s" using assign_roles_frame(1) [OF ar] by (rule get_user_cong)
      with get_user_cong [OF us] show ?thesis by (simp add: get_user_upd_user)
    qed
    have rk: "set (role_keys s' j) = (if j = ua_id u then set unique else set (role_keys s j))" for j
      using assign_roles_keys [OF assms(1) ar, of j] role_keys_cong [OF rs] by simp
    have "set unique \<subseteq> enabled_role_keys s"
      using ar assms(1) by (auto simp: assign_roles_unfold roles_wf_def length_chosen_iff split: if_splits)
    then show ?thesis
      unfolding c prod.case sum.case Let_def k [symmetric] using st cf gu rk assms(2) by simp
  qed
qed

theorem approve_registration_correct_witness:
  "\<exists>s'. approve_registration (demo_ctx 0) (demo_user 2 ''ana'' PendingApproval False) (demo_user 1 ''root'' Active True)
       [''analyst''] False (demo_db\<lparr>users := [demo_user 1 ''root'' Active True, demo_user 2 ''ana'' PendingApproval False]\<rparr>)
     = (Inr (), s') \<and> set (role_keys s' 2) = {''analyst''} \<and>
     (\<exists>u'. get_user s' 2 = Some u' \<and> ua_status u' = Active \<and> \<not> ua_is_system_admin u')"
proof -
  let ?u = "demo_user 2 ''ana'' PendingApproval False"
  let ?a = "demo_user 1 ''root'' Active True"
  let ?s = "demo_db\<lparr>users := [?a, ?u]\<rparr>"
  let ?r = "approve_registration (demo_ctx 0) ?u ?a [''analyst''] False ?s"
  have wf: "roles_wf ?s" "get_user ?s (ua_id ?u) = Some ?u"
    by (simp_all add: roles_wf_def demo_defs get_user_def find_row_def)
  have "case fst ?r of Inl e \<Rightarrow> False | Inr x \<Rightarrow> True" by code_simp
  then obtain s' where r: "?r = (Inr (), s')" by (cases ?r) (auto split: sum.splits)
  have id: "ua_id ?u = 2" by (simp add: demo_user_def)
  with approve_registration_correct [OF wf, where cx = "demo_ctx 0" and actor = ?a and keys = "[''analyst'']" and confirm = False]
  have "set (role_keys s' 2) = {''analyst''}" "\<exists>u'. get_user s' 2 = Some u' \<and> ua_status u' = Active \<and> \<not> ua_is_system_admin u'"
    unfolding r by (simp_all add: Let_def)
  with r show ?thesis by (intro exI [of _ s'] conjI)
qed

text \<open>Rejecting a registration never removes the last active administrator, and it revokes
  every open session of the rejected account.\<close>

theorem reject_registration_safe:
  assumes "accounts_wf s" "has_active_admin s" "u \<in> set (users s)"
  shows "case reject_registration cx u actor reason s of
       (Inl e, s') \<Rightarrow> s' = s \<and> is_ValueError e
     | (Inr _, s') \<Rightarrow> has_active_admin s' \<and>
         (\<exists>u'. get_user s' (ua_id u) = Some u' \<and> ua_status u' = Rejected) \<and>
         (\<forall>r \<in> set (sessions s'). as_user_id r = ua_id u \<longrightarrow> as_revoked_at r \<noteq> None)"
proof (cases "reject_registration cx u actor reason s")
  case (Pair out s')
  show ?thesis
  proof (cases out)
    case (Inl e)
    with Pair have c: "reject_registration cx u actor reason s = (Inl e, s')" by simp
    show ?thesis unfolding c using reject_registration_InlD [OF c] by simp
  next
    case (Inr x)
    with Pair have c: "reject_registration cx u actor reason s = (Inr x, s')" by simp
    let ?f = "rejected_row cx (ua_id actor) (join '' '' (split_ws (strip reason)))"
    note d = reject_registration_InrD [OF c]
    then have ok: "ensure_not_last_admin s u = Inr ()" and us: "users s' = users (upd_user (ua_id u) ?f s)" by blast+
    have ids: "distinct (map ua_id (users s))" using assms(1) by (simp add: accounts_wf_def)
    have "has_active_admin s'"
      by (rule last_admin.keeps_admin [OF assms(2) ids assms(3) ok]) (simp add: us upd_user_keeps_others)
    moreover have "get_user s' (ua_id u) = Some (?f u)"
      using get_user_cong [OF us] find_row_unique [OF ids assms(3)]
      by (simp add: get_user_upd_user rejected_row_def) (simp add: get_user_def)
    moreover have "as_revoked_at r \<noteq> None" if "r \<in> set (sessions s')" "as_user_id r = ua_id u" for r
      using that d sessions_revoke_mem [of r cx "ua_id u" "''registration_rejected''" None s] by auto
    ultimately show ?thesis unfolding c prod.case sum.case by (simp add: rejected_row_def)
  qed
qed

theorem reject_registration_safe_witness:
  "\<exists>s'. reject_registration (demo_ctx 0) (demo_user 2 ''ana'' Active False) (demo_user 1 ''root'' Active True)
       ''not known here'' demo_db = (Inr (), s') \<and> has_active_admin s' \<and>
     (\<forall>r \<in> set (sessions s'). as_user_id r = 2 \<longrightarrow> as_revoked_at r \<noteq> None)"
proof -
  let ?u = "demo_user 2 ''ana'' Active False"
  let ?a = "demo_user 1 ''root'' Active True"
  let ?r = "reject_registration (demo_ctx 0) ?u ?a ''not known here'' demo_db"
  have "normalize_username ''root'' = Inr ''root'' \<and> normalize_username ''ana'' = Inr ''ana''" by code_simp
  then have wf: "accounts_wf demo_db" "has_active_admin demo_db" "?u \<in> set (users demo_db)"
    by (simp_all add: accounts_wf_def List.map_filter_def has_active_admin_def active_admin_def
        account_row_ok_def normalize_email_def demo_defs)
  have "case fst ?r of Inl e \<Rightarrow> False | Inr x \<Rightarrow> True" by code_simp
  then obtain s' where r: "?r = (Inr (), s')" by (cases ?r) (auto split: sum.splits)
  have id: "ua_id ?u = 2" by (simp add: demo_user_def)
  with reject_registration_safe [OF wf, where cx = "demo_ctx 0" and actor = ?a and reason = "''not known here''"]
  have "has_active_admin s'" "\<forall>r \<in> set (sessions s'). as_user_id r = 2 \<longrightarrow> as_revoked_at r \<noteq> None"
    unfolding r by simp_all
  with r show ?thesis by (intro exI conjI)
qed

end
