(* ===== verification/Mfa.thy ===== *)
theory Mfa
  imports Sessions
begin

text \<open>
  Multi-factor authentication (\<open>access_control/mfa_service.py\<close>): enrollment of an
  authenticator device, verification of time-based codes with replay protection, recovery codes
  and login challenges. Fernet encryption and the HOTP value come from the \<open>crypto\<close> argument; the
  random secret, nonce, recovery digits and challenge token are arguments. A device is passed by
  value and the operation that owns it writes it back, as the object mapper does on commit. Rows
  with equal creation times are ordered by insertion.
\<close>

section \<open>Constants\<close>

definition TOTP_ISSUER :: string where "TOTP_ISSUER = ''ThreatScope XDR''"
definition TOTP_PERIOD_SECONDS :: int where "TOTP_PERIOD_SECONDS = 30"
definition TOTP_VALID_WINDOW :: int where "TOTP_VALID_WINDOW = 1"
definition ENROLLMENT_TTL_MINUTES :: int where "ENROLLMENT_TTL_MINUTES = 10"
definition MAX_ENROLLMENT_ATTEMPTS :: nat where "MAX_ENROLLMENT_ATTEMPTS = 5"
definition RECOVERY_CODE_COUNT :: nat where "RECOVERY_CODE_COUNT = 10"


section \<open>Secrets\<close>

definition fernet_key :: "ctx \<Rightarrow> string result" where
  "fernet_key cx =
     (let key = mfa_encryption_key (cx_config cx)
      in if key = []
         then Inl (ValueError ''MFA enrollment is unavailable until THREATSCOPE_MFA_ENCRYPTION_KEY is configured'')
         else if \<not> fernet_key_valid (cx_crypto cx) key then Inl (ValueError ''MFA encryption key is invalid'')
         else Inr key)"

definition encrypt_secret :: "ctx \<Rightarrow> string \<Rightarrow> string \<Rightarrow> string result" where
  "encrypt_secret cx nonce secret =
     bind_result (fernet_key cx) (\<lambda>key. Inr (fernet_encrypt (cx_crypto cx) key nonce secret))"

definition decrypt_secret :: "ctx \<Rightarrow> string \<Rightarrow> string result" where
  "decrypt_secret cx protected =
     bind_result (fernet_key cx) (\<lambda>key.
       case fernet_decrypt (cx_crypto cx) key protected of
         None \<Rightarrow> Inl (ValueError ''MFA secret cannot be decrypted'')
       | Some secret \<Rightarrow> Inr secret)"

definition account_label :: "user_account \<Rightarrow> string" where
  "account_label u =
     take 254 (if truthy (ua_email_normalized u) then the (ua_email_normalized u) else ua_username u)"


section \<open>Time-based codes\<close>

definition totp_counter :: "ctx \<Rightarrow> int" where
  "totp_counter cx = (cx_now cx div 1000000) div TOTP_PERIOD_SECONDS"

definition six_digits :: "string \<Rightarrow> bool" where
  "six_digits s \<longleftrightarrow> length s = 6 \<and> list_all is_digit s"

text \<open>The loop over the counters of the window: the first whose value equals the code.\<close>

fun match_counter :: "(int \<Rightarrow> string) \<Rightarrow> string \<Rightarrow> int list \<Rightarrow> int option" where
  "match_counter otp code [] = None"
| "match_counter otp code (counter # counters) =
     (if otp counter = code then Some counter else match_counter otp code counters)"

definition totp_window :: "int \<Rightarrow> int list" where
  "totp_window current = map (\<lambda>offset. current + offset) [- TOTP_VALID_WINDOW..TOTP_VALID_WINDOW]"

definition verify_totp :: "ctx \<Rightarrow> mfa_device \<Rightarrow> string \<Rightarrow> (bool \<times> mfa_device) result" where
  "verify_totp cx device code =
     (let normalized = strip code in
      if \<not> six_digits normalized then Inr (False, device)
      else bind_result (decrypt_secret cx (md_secret_protected device)) (\<lambda>secret.
        case match_counter (hotp (cx_crypto cx) secret) normalized (totp_window (totp_counter cx)) of
          None \<Rightarrow> Inr (False, device)
        | Some matched \<Rightarrow>
            if (case md_last_used_counter device of None \<Rightarrow> False | Some used \<Rightarrow> matched \<le> used)
            then Inr (False, device)
            else Inr (True, device\<lparr>md_last_used_counter := Some matched, md_last_used_at := Some (cx_now cx)\<rparr>)))"


section \<open>Recovery codes\<close>

definition format_code :: "string \<Rightarrow> string" where
  "format_code token =
     (let raw = upper token
      in take 4 raw @ ''-'' @ take 4 (drop 4 raw) @ ''-'' @ drop 8 raw)"

definition recovery_hash :: "ctx \<Rightarrow> string \<Rightarrow> string" where
  "recovery_hash cx code =
     hash_value cx (''recovery:'' @ upper (strip (replace_char CHR ''-'' [] code)))"

definition recovery_row :: "ctx \<Rightarrow> nat \<Rightarrow> string \<Rightarrow> mfa_recovery_code" where
  "recovery_row cx uid code =
     \<lparr>rc_id = 0, rc_user_id = uid, rc_code_hash = recovery_hash cx code, rc_used_at = None,
      rc_created_at = cx_now cx\<rparr>"

text \<open>The column \<open>code_hash\<close> is unique: equal digests make the flush raise.\<close>

definition generate_recovery_codes :: "ctx \<Rightarrow> string list \<Rightarrow> nat \<Rightarrow> (db, string list) action" where
  "generate_recovery_codes cx tokens uid s =
     (let kept = filter (\<lambda>r. rc_user_id r \<noteq> uid) (recovery_codes s);
          codes = map format_code tokens
      in if \<not> distinct (map (recovery_hash cx) codes) \<or>
            (\<exists>c \<in> set codes. recovery_hash cx c \<in> rc_code_hash ` set kept)
         then (Inl IntegrityError, s)
         else (Inr codes,
               s\<lparr>recovery_codes := fold (\<lambda>c. insert_row rc_id set_rc_id (recovery_row cx uid c)) codes kept\<rparr>))"

definition unused_code :: "nat \<Rightarrow> string \<Rightarrow> mfa_recovery_code \<Rightarrow> bool" where
  "unused_code uid digest r \<longleftrightarrow> rc_user_id r = uid \<and> rc_code_hash r = digest \<and> rc_used_at r = None"

definition consume_recovery_code :: "ctx \<Rightarrow> nat \<Rightarrow> string \<Rightarrow> db \<Rightarrow> bool \<times> db" where
  "consume_recovery_code cx uid code s =
     (case find (unused_code uid (recovery_hash cx code)) (recovery_codes s) of
        None \<Rightarrow> (False, s)
      | Some item \<Rightarrow>
          (True, s\<lparr>recovery_codes := upd_row rc_id (rc_id item) (\<lambda>r. r\<lparr>rc_used_at := Some (cx_now cx)\<rparr>)
                                       (recovery_codes s)\<rparr>))"


section \<open>Enrollment\<close>

definition pending_devices :: "db \<Rightarrow> nat \<Rightarrow> mfa_device list" where
  "pending_devices s uid = filter (\<lambda>d. md_user_id d = uid \<and> \<not> md_enabled d) (mfa_devices s)"

definition delete_pending :: "nat \<Rightarrow> db \<Rightarrow> db" where
  "delete_pending uid s =
     s\<lparr>mfa_devices := filter (\<lambda>d. \<not> (md_user_id d = uid \<and> \<not> md_enabled d)) (mfa_devices s)\<rparr>"

datatype enrollment_operation = Started | Restarted | Resumed

definition new_device :: "ctx \<Rightarrow> nat \<Rightarrow> string \<Rightarrow> string \<Rightarrow> mfa_device" where
  "new_device cx uid label protected =
     \<lparr>md_id = 0, md_user_id = uid, md_device_type = ''totp'',
      md_label = (let l = take 100 (strip label) in if l = [] then ''Authenticator'' else l),
      md_secret_protected = protected, md_enabled = False, md_confirmed_at = None,
      md_last_used_counter = None, md_last_used_at = None,
      md_enrollment_expires_at = Some (cx_now cx + minutes ENROLLMENT_TTL_MINUTES),
      md_failed_attempts = 0, md_created_at = cx_now cx, md_disabled_at = None\<rparr>"

text \<open>
  The result carries the device, the secret, the account label of the provisioning address and
  the operation. When the encryption fails the pending devices are already deleted in the open
  transaction, and the caller's audit record commits that.
\<close>

definition begin_enrollment ::
  "ctx \<Rightarrow> string \<Rightarrow> string \<Rightarrow> user_account \<Rightarrow> string \<Rightarrow> bool \<Rightarrow>
     (db, mfa_device \<times> string \<times> string \<times> enrollment_operation) action" where
  "begin_enrollment cx fresh_secret nonce u label restart s =
     (let pending = latest md_created_at (pending_devices s (ua_id u));
          resumable = (case pending of
                         None \<Rightarrow> False
                       | Some d \<Rightarrow> (case md_enrollment_expires_at d of
                                      None \<Rightarrow> False | Some t \<Rightarrow> cx_now cx < t) \<and> \<not> restart)
      in if resumable
         then (bind_result (decrypt_secret cx (md_secret_protected (the pending))) (\<lambda>secret.
                 Inr (the pending, secret, account_label u, Resumed)), s)
         else
           (let operation = (if pending = None then Started else Restarted);
                s1 = delete_pending (ua_id u) s
            in case encrypt_secret cx nonce fresh_secret of
                 Inl e \<Rightarrow> (Inl e, s1)
               | Inr protected \<Rightarrow>
                   (let row = new_device cx (ua_id u) label protected;
                        did = next_id md_id (mfa_devices s1)
                    in (Inr (set_md_id did row, fresh_secret, account_label u, operation),
                        s1\<lparr>mfa_devices := insert_row md_id set_md_id row (mfa_devices s1)\<rparr>))))"

definition enabled_row :: "ctx \<Rightarrow> mfa_device \<Rightarrow> mfa_device" where
  "enabled_row cx d =
     d\<lparr>md_enabled := True, md_confirmed_at := Some (cx_now cx), md_enrollment_expires_at := None,
       md_failed_attempts := 0\<rparr>"

definition delete_device :: "nat \<Rightarrow> db \<Rightarrow> db" where
  "delete_device did s = s\<lparr>mfa_devices := filter (\<lambda>d. md_id d \<noteq> did) (mfa_devices s)\<rparr>"

definition confirm_enrollment ::
  "ctx \<Rightarrow> string list \<Rightarrow> user_account \<Rightarrow> string \<Rightarrow> nat option \<Rightarrow> (db, mfa_device \<times> string list) action" where
  "confirm_enrollment cx tokens u code device_id s =
     (case latest md_created_at
             (filter (\<lambda>d. case device_id of None \<Rightarrow> True | Some i \<Rightarrow> md_id d = i) (pending_devices s (ua_id u))) of
        None \<Rightarrow> (Inl (ValueError ''No pending MFA setup was found''), s)
      | Some device \<Rightarrow>
          if (case md_enrollment_expires_at device of None \<Rightarrow> True | Some t \<Rightarrow> t \<le> cx_now cx)
          then (Inl (EnrollmentExpiredError ''MFA setup has expired''), delete_device (md_id device) s)
          else if MAX_ENROLLMENT_ATTEMPTS \<le> md_failed_attempts device
          then (Inl (EnrollmentRateLimitError ''Too many verification attempts. Restart setup to continue''), s)
          else (case verify_totp cx device code of
              Inl e \<Rightarrow> (Inl e, s)
            | Inr (False, _) \<Rightarrow>
                (let n = md_failed_attempts device + 1
                 in (Inl (if MAX_ENROLLMENT_ATTEMPTS \<le> n
                          then EnrollmentRateLimitError ''Too many verification attempts. Restart setup to continue''
                          else InvalidEnrollmentCodeError ''The verification code is invalid''),
                     upd_device (md_id device) (\<lambda>d. d\<lparr>md_failed_attempts := n\<rparr>) s))
            | Inr (True, verified) \<Rightarrow>
                (let device' = enabled_row cx verified;
                     s1 = upd_device (md_id device) (\<lambda>_. device') s;
                     s2 = upd_user (ua_id u) (\<lambda>u. u\<lparr>ua_mfa_enabled := True\<rparr>) s1
                 in (case generate_recovery_codes cx tokens (ua_id u) s2 of
                       (Inl e, _) \<Rightarrow> (Inl e, s)
                     | (Inr codes, s3) \<Rightarrow> (Inr (device', codes), s3)))))"

definition cancel_enrollment :: "nat \<Rightarrow> db \<Rightarrow> nat \<times> db" where
  "cancel_enrollment uid s = (length (pending_devices s uid), delete_pending uid s)"

record mfa_status_view =
  ms_enabled :: bool
  ms_setup_incomplete :: bool
  ms_method :: "string option"
  ms_label :: "string option"
  ms_enrolled_at :: "time option"
  ms_last_used_at :: "time option"
  ms_recovery_codes_remaining :: nat
  ms_pending_expires_at :: "time option"
  ms_issuer :: string
  ms_account_label :: string

definition mfa_status :: "ctx \<Rightarrow> user_account \<Rightarrow> db \<Rightarrow> mfa_status_view \<times> db" where
  "mfa_status cx u s =
     (let enabled = latest (\<lambda>d. case md_confirmed_at d of None \<Rightarrow> - 1 | Some t \<Rightarrow> t)
                      (filter (\<lambda>d. md_user_id d = ua_id u \<and> md_enabled d) (mfa_devices s));
          pending0 = latest md_created_at (pending_devices s (ua_id u));
          stale = (case pending0 of
                     None \<Rightarrow> False
                   | Some d \<Rightarrow> (case md_enrollment_expires_at d of None \<Rightarrow> True | Some t \<Rightarrow> t \<le> cx_now cx));
          s' = (if stale then delete_device (md_id (the pending0)) s else s);
          pending = (if stale then None else pending0);
          remaining = (if enabled = None then 0
                       else count_where (\<lambda>r. rc_user_id r = ua_id u \<and> rc_used_at r = None) (recovery_codes s'))
      in (\<lparr>ms_enabled = (enabled \<noteq> None \<and> ua_mfa_enabled u),
           ms_setup_incomplete = (pending \<noteq> None \<and> enabled = None),
           ms_method = (if enabled = None then None else Some ''Authenticator app (TOTP)''),
           ms_label = (case enabled of Some d \<Rightarrow> Some (md_label d) | None \<Rightarrow> map_option md_label pending),
           ms_enrolled_at = (case enabled of Some d \<Rightarrow> md_confirmed_at d | None \<Rightarrow> None),
           ms_last_used_at = (case enabled of Some d \<Rightarrow> md_last_used_at d | None \<Rightarrow> None),
           ms_recovery_codes_remaining = remaining,
           ms_pending_expires_at =
             (if enabled = None then (case pending of Some d \<Rightarrow> md_enrollment_expires_at d | None \<Rightarrow> None) else None),
           ms_issuer = TOTP_ISSUER, ms_account_label = account_label u\<rparr>, s'))"


section \<open>Login challenges\<close>

definition create_challenge :: "ctx \<Rightarrow> string \<Rightarrow> nat \<Rightarrow> (db, string) action" where
  "create_challenge cx token uid s =
     (if hash_value cx token \<in> mc_challenge_token_hash ` set (challenges s)
      then (Inl IntegrityError, s)
      else (Inr token,
            s\<lparr>challenges := insert_row mc_id set_mc_id
                \<lparr>mc_id = 0, mc_user_id = uid, mc_challenge_token_hash = hash_value cx token,
                 mc_expires_at = cx_now cx + minutes 5, mc_used_at = None, mc_failed_attempts = 0,
                 mc_created_at = cx_now cx\<rparr> (challenges s)\<rparr>))"

definition get_challenge :: "ctx \<Rightarrow> string \<Rightarrow> db \<Rightarrow> mfa_login_challenge option" where
  "get_challenge cx token s =
     (case find (\<lambda>c. mc_challenge_token_hash c = hash_value cx token) (challenges s) of
        None \<Rightarrow> None
      | Some c \<Rightarrow>
          if mc_used_at c \<noteq> None \<or> mc_expires_at c \<le> cx_now cx \<or> 5 \<le> mc_failed_attempts c
          then None else Some c)"

definition verify_user_factor :: "ctx \<Rightarrow> user_account \<Rightarrow> string \<Rightarrow> bool \<Rightarrow> (db, bool) action" where
  "verify_user_factor cx u value recovery s =
     (if recovery
      then (case consume_recovery_code cx (ua_id u) value s of (ok, s') \<Rightarrow> (Inr ok, s'))
      else (case find (\<lambda>d. md_user_id d = ua_id u \<and> md_enabled d) (mfa_devices s) of
          None \<Rightarrow> (Inr False, s)
        | Some device \<Rightarrow>
            (case verify_totp cx device value of
               Inl e \<Rightarrow> (Inl e, s)
             | Inr (False, _) \<Rightarrow> (Inr False, s)
             | Inr (True, device') \<Rightarrow> (Inr True, upd_device (md_id device) (\<lambda>_. device') s))))"


section \<open>Factors that work once\<close>

text \<open>
  The contract of a factor that must not be accepted twice: an accepted attempt spends its key,
  a spent key stays spent and is refused. In every sequence of attempts the accepted keys are
  then distinct.
\<close>

fun accepted :: "('e \<Rightarrow> 's \<Rightarrow> bool \<times> 's) \<Rightarrow> ('e \<Rightarrow> 'k) \<Rightarrow> 'e list \<Rightarrow> 's \<Rightarrow> 'k list" where
  "accepted attempt key [] s = []"
| "accepted attempt key (e # es) s =
     (case attempt e s of
        (ok, s') \<Rightarrow> if ok then key e # accepted attempt key es s' else accepted attempt key es s')"

locale one_time_factor =
  fixes inv :: "'s \<Rightarrow> bool" and attempt :: "'e \<Rightarrow> 's \<Rightarrow> bool \<times> 's" and key :: "'e \<Rightarrow> 'k"
    and spent :: "'k \<Rightarrow> 's \<Rightarrow> bool"
  assumes inv_attempt: "inv s \<Longrightarrow> attempt e s = (ok, s') \<Longrightarrow> inv s'"
    and spends: "inv s \<Longrightarrow> attempt e s = (True, s') \<Longrightarrow> spent (key e) s'"
    and stays_spent: "inv s \<Longrightarrow> spent k s \<Longrightarrow> attempt e s = (ok, s') \<Longrightarrow> spent k s'"
    and refused: "inv s \<Longrightarrow> spent (key e) s \<Longrightarrow> attempt e s = (ok, s') \<Longrightarrow> \<not> ok"
begin

lemma spent_not_accepted: "inv s \<Longrightarrow> spent k s \<Longrightarrow> k \<notin> set (accepted attempt key es s)"
proof (induction es arbitrary: s)
  case Nil
  then show ?case by simp
next
  case (Cons e es)
  obtain ok s' where e: "attempt e s = (ok, s')" by fastforce
  have "k \<notin> set (accepted attempt key es s')"
    using Cons inv_attempt [OF Cons.prems(1) e] stays_spent [OF Cons.prems(1,2) e] by blast
  moreover have "key e \<noteq> k \<or> \<not> ok" using refused [OF Cons.prems(1) _ e] Cons.prems(2) by blast
  ultimately show ?case by (auto simp: e)
qed

lemma accepted_once: "inv s \<Longrightarrow> distinct (accepted attempt key es s)"
proof (induction es arbitrary: s)
  case Nil
  then show ?case by simp
next
  case (Cons e es)
  obtain ok s' where e: "attempt e s = (ok, s')" by fastforce
  have inv: "inv s'" by (rule inv_attempt [OF Cons.prems e])
  show ?case
  proof (cases ok)
    case True
    then have "spent (key e) s'" using spends [OF Cons.prems, of e s'] e by simp
    with True show ?thesis using Cons.IH [OF inv] spent_not_accepted [OF inv] by (simp add: e)
  next
    case False
    then show ?thesis using Cons.IH [OF inv] by (simp add: e)
  qed
qed

end


section \<open>Laws of recovery codes\<close>

definition recovery_wf :: "db \<Rightarrow> bool" where
  "recovery_wf s \<longleftrightarrow>
     distinct (map rc_id (recovery_codes s)) \<and> distinct (map rc_code_hash (recovery_codes s))"

lemma hash_value_now [simp]: "hash_value (cx\<lparr>cx_now := t\<rparr>) = hash_value cx"
  by (simp add: fun_eq_iff hash_value_def)

lemma recovery_hash_now [simp]: "recovery_hash (cx\<lparr>cx_now := t\<rparr>) = recovery_hash cx"
  by (simp add: fun_eq_iff recovery_hash_def)

definition code_spent :: "nat \<Rightarrow> string \<Rightarrow> db \<Rightarrow> bool" where
  "code_spent uid digest s \<longleftrightarrow> (\<forall>r \<in> set (recovery_codes s). \<not> unused_code uid digest r)"

definition use_code :: "time \<Rightarrow> nat \<Rightarrow> db \<Rightarrow> db" where
  "use_code t rid s = s\<lparr>recovery_codes := upd_row rc_id rid (\<lambda>r. r\<lparr>rc_used_at := Some t\<rparr>) (recovery_codes s)\<rparr>"

lemma consume_cases:
  obtains (refused) "consume_recovery_code cx uid code s = (False, s)" "code_spent uid (recovery_hash cx code) s"
  | (used) r where "consume_recovery_code cx uid code s = (True, use_code (cx_now cx) (rc_id r) s)"
      "r \<in> set (recovery_codes s)" "unused_code uid (recovery_hash cx code) r"
proof (cases "find (unused_code uid (recovery_hash cx code)) (recovery_codes s)")
  case None
  have "code_spent uid (recovery_hash cx code) s" using None by (auto simp: code_spent_def find_None_iff)
  with None show thesis by (intro refused) (simp_all add: consume_recovery_code_def)
next
  case (Some r)
  then show thesis
    by (intro used [of r]) (auto simp: consume_recovery_code_def use_code_def dest: find_SomeD)
qed

lemma use_code_wf: "recovery_wf s \<Longrightarrow> recovery_wf (use_code t rid s)"
  by (simp add: recovery_wf_def use_code_def map_upd_row)

lemma use_code_unused:
  "r \<in> set (recovery_codes (use_code t rid s)) \<Longrightarrow> unused_code uid d r \<Longrightarrow> r \<in> set (recovery_codes s) \<and> rc_id r \<noteq> rid"
  by (auto simp: use_code_def set_upd_row unused_code_def split: if_splits)

lemma use_code_spends:
  assumes wf: "recovery_wf s" and r: "r \<in> set (recovery_codes s)" "unused_code uid d r"
  shows "code_spent uid d (use_code t (rc_id r) s)"
  unfolding code_spent_def
proof (intro ballI notI)
  fix x assume x: "x \<in> set (recovery_codes (use_code t (rc_id r) s))" "unused_code uid d x"
  then have "x \<in> set (recovery_codes s)" "rc_id x \<noteq> rc_id r" using use_code_unused by blast+
  moreover have "rc_code_hash x = rc_code_hash r" using x(2) r(2) by (simp add: unused_code_def)
  ultimately show False using wf r(1) by (auto simp: recovery_wf_def distinct_map dest: inj_onD)
qed

text \<open>Attempts to use recovery codes of one account at any times.\<close>

definition recovery_attempt :: "ctx \<Rightarrow> nat \<Rightarrow> time \<times> string \<Rightarrow> db \<Rightarrow> bool \<times> db" where
  "recovery_attempt cx uid = (\<lambda>(t, code). consume_recovery_code (cx\<lparr>cx_now := t\<rparr>) uid code)"

definition recovery_key :: "ctx \<Rightarrow> time \<times> string \<Rightarrow> string" where
  "recovery_key cx = (\<lambda>(t, code). recovery_hash cx code)"

interpretation recovery_factor: one_time_factor recovery_wf "recovery_attempt cx uid" "recovery_key cx" "code_spent uid"
  for cx uid
proof unfold_locales
  fix s e ok s'
  assume wf: "recovery_wf s" and a: "recovery_attempt cx uid e s = (ok, s')"
  obtain t code where e: "e = (t, code)" by fastforce
  show "recovery_wf s'"
    using a wf by (cases rule: consume_cases [of "cx\<lparr>cx_now := t\<rparr>" uid code s])
      (auto simp: e recovery_attempt_def use_code_wf)
next
  fix s e s'
  assume wf: "recovery_wf s" and a: "recovery_attempt cx uid e s = (True, s')"
  obtain t code where e: "e = (t, code)" by fastforce
  show "code_spent uid (recovery_key cx e) s'"
    using a wf by (cases rule: consume_cases [of "cx\<lparr>cx_now := t\<rparr>" uid code s])
      (auto simp: e recovery_attempt_def recovery_key_def use_code_spends)
next
  fix s k e ok s'
  assume "recovery_wf s" and sp: "code_spent uid k s" and a: "recovery_attempt cx uid e s = (ok, s')"
  obtain t code where e: "e = (t, code)" by fastforce
  show "code_spent uid k s'"
    using a sp by (cases rule: consume_cases [of "cx\<lparr>cx_now := t\<rparr>" uid code s])
      (auto simp: e recovery_attempt_def code_spent_def dest: use_code_unused)
next
  fix s e ok s'
  assume "recovery_wf s" and sp: "code_spent uid (recovery_key cx e) s" and a: "recovery_attempt cx uid e s = (ok, s')"
  obtain t code where e: "e = (t, code)" by fastforce
  show "\<not> ok"
    using a sp by (cases rule: consume_cases [of "cx\<lparr>cx_now := t\<rparr>" uid code s])
      (auto simp: e recovery_attempt_def recovery_key_def code_spent_def)
qed

lemma insert_rows_recovery:
  assumes "distinct (map rc_id rows)"
  shows "distinct (map rc_id (fold (\<lambda>c. insert_row rc_id set_rc_id (recovery_row cx uid c)) codes rows)) \<and>
     map (\<lambda>r. (rc_user_id r, rc_code_hash r, rc_used_at r))
        (fold (\<lambda>c. insert_row rc_id set_rc_id (recovery_row cx uid c)) codes rows) =
       map (\<lambda>r. (rc_user_id r, rc_code_hash r, rc_used_at r)) rows @
       map (\<lambda>c. (uid, recovery_hash cx c, None)) codes"
  using assms
proof (induction codes arbitrary: rows)
  case Nil
  then show ?case by simp
next
  case (Cons c codes)
  from Cons.IH [OF recovery_table.distinct_insert [OF Cons.prems, of "recovery_row cx uid c"]] show ?case
    by (simp add: insert_row_def set_rc_id_def recovery_row_def)
qed

lemma image_disjointI: "\<forall>c \<in> C. g c \<notin> A \<Longrightarrow> A \<inter> g ` C = {}"
  by auto

lemma generate_recovery_codes_InrD:
  assumes wf: "recovery_wf s" and g: "generate_recovery_codes cx tokens uid s = (Inr codes, s')"
  shows "codes = map format_code tokens \<and> recovery_wf s' \<and>
     map (\<lambda>r. (rc_user_id r, rc_code_hash r, rc_used_at r)) (recovery_codes s') =
       map (\<lambda>r. (rc_user_id r, rc_code_hash r, rc_used_at r)) (filter (\<lambda>r. rc_user_id r \<noteq> uid) (recovery_codes s)) @
       map (\<lambda>c. (uid, recovery_hash cx c, None)) codes"
proof -
  let ?kept = "filter (\<lambda>r. rc_user_id r \<noteq> uid) (recovery_codes s)"
  let ?g = "\<lambda>r. (rc_user_id r, rc_code_hash r, rc_used_at r)"
  let ?rows = "fold (\<lambda>c. insert_row rc_id set_rc_id (recovery_row cx uid c)) codes ?kept"
  from g have codes: "codes = map format_code tokens"
    by (auto simp: generate_recovery_codes_def Let_def split: if_splits)
  from g have d: "distinct (map (recovery_hash cx) codes)"
      and k: "\<forall>c \<in> set codes. recovery_hash cx c \<notin> rc_code_hash ` set ?kept"
      and s': "recovery_codes s' = ?rows"
    unfolding generate_recovery_codes_def Let_def codes [symmetric] by (auto split: if_splits)
  have "distinct (map rc_id ?kept)" "distinct (map rc_code_hash ?kept)"
    using wf by (simp_all add: recovery_wf_def distinct_map_filter)
  note ins = insert_rows_recovery [OF this(1), of cx uid codes]
  have "map rc_code_hash ?rows = map (fst \<circ> snd) (map ?g ?rows)" by simp
  also have "\<dots> = map rc_code_hash ?kept @ map (recovery_hash cx) codes" using ins by simp
  finally have rows: "map rc_code_hash ?rows = map rc_code_hash ?kept @ map (recovery_hash cx) codes" .
  have "set (map rc_code_hash ?kept) \<inter> set (map (recovery_hash cx) codes) = {}"
    unfolding set_map by (rule image_disjointI [OF k])
  then have "distinct (map rc_code_hash ?rows)"
    unfolding rows using d \<open>distinct (map rc_code_hash ?kept)\<close> by simp
  with ins s' codes show ?thesis by (simp add: recovery_wf_def)
qed

lemma consume_accepts_iff:
  "fst (consume_recovery_code cx uid code s) \<longleftrightarrow>
     (uid, recovery_hash cx code, None) \<in> (\<lambda>r. (rc_user_id r, rc_code_hash r, rc_used_at r)) ` set (recovery_codes s)"
  by (cases rule: consume_cases [of cx uid code s])
    (force simp: code_spent_def unused_code_def)+


text \<open>What a submission is compared by.\<close>

definition code_text :: "string \<Rightarrow> string" where
  "code_text code = upper (strip (replace_char CHR ''-'' [] code))"

lemma recovery_hash_inj:
  "inj (sha256_hex (cx_crypto cx)) \<Longrightarrow> recovery_hash cx c = recovery_hash cx d \<longleftrightarrow> code_text c = code_text d"
  by (simp add: recovery_hash_def hash_value_def code_text_def inj_eq)

lemma used_row_refused:
  assumes "recovery_wf s" "r \<in> set (recovery_codes s)"
  shows "\<not> fst (consume_recovery_code cx uid code (use_code t (rc_id r) s)) \<or> recovery_hash cx code \<noteq> rc_code_hash r"
proof -
  have ids: "distinct (map rc_id (recovery_codes s))" "distinct (map rc_code_hash (recovery_codes s))"
    using assms(1) by (simp_all add: recovery_wf_def)
  have "rc_used_at x \<noteq> None" if x: "x \<in> set (recovery_codes (use_code t (rc_id r) s))" "rc_code_hash x = rc_code_hash r" for x
  proof -
    obtain y where y: "y \<in> set (recovery_codes s)"
        "x = (if rc_id y = rc_id r then y\<lparr>rc_used_at := Some t\<rparr> else y)"
      using x(1) by (auto simp: use_code_def upd_row_def)
    then have "rc_code_hash y = rc_code_hash r" using x(2) by (simp split: if_splits)
    then have "y = r" using ids(2) y(1) assms(2) by (metis distinct_map inj_onD)
    with y(2) show ?thesis by simp
  qed
  then show ?thesis unfolding consume_accepts_iff by fastforce
qed

lemma consume_once:
  assumes "recovery_wf s"
  shows "\<not> fst (consume_recovery_code (cx\<lparr>cx_now := t\<rparr>) uid code (snd (consume_recovery_code cx uid code s)))"
proof (cases rule: consume_cases [of cx uid code s])
  case refused
  then have "\<not> fst (consume_recovery_code cx uid code s)" by simp
  with refused(1) show ?thesis unfolding consume_accepts_iff by simp
next
  case (used r)
  then have "recovery_hash (cx\<lparr>cx_now := t\<rparr>) code = rc_code_hash r" by (simp add: unused_code_def)
  with used_row_refused [OF assms used(2)] used(1) show ?thesis by (metis snd_conv)
qed

lemma consume_other:
  assumes "recovery_wf s" "recovery_hash cx other \<noteq> recovery_hash cx code"
  shows "fst (consume_recovery_code cx uid other (snd (consume_recovery_code cx uid code s))) =
    fst (consume_recovery_code cx uid other s)"
proof (cases rule: consume_cases [of cx uid code s])
  case (used r)
  have ids: "distinct (map rc_id (recovery_codes s))" using assms(1) by (simp add: recovery_wf_def)
  have h: "rc_code_hash r = recovery_hash cx code" using used(3) by (simp add: unused_code_def)
  have "y = r" if "y \<in> set (recovery_codes s)" "rc_id y = rc_id r" for y
    using ids that used(2) by (metis distinct_map inj_onD)
  with assms(2) h have "(\<exists>x \<in> set (recovery_codes (use_code (cx_now cx) (rc_id r) s)).
        (rc_user_id x, rc_code_hash x, rc_used_at x) = (uid, recovery_hash cx other, None)) \<longleftrightarrow>
      (\<exists>x \<in> set (recovery_codes s). (rc_user_id x, rc_code_hash x, rc_used_at x) = (uid, recovery_hash cx other, None))"
    unfolding use_code_def by (fastforce simp: set_upd_row)
  then show ?thesis unfolding used(1) snd_conv consume_accepts_iff image_iff by (metis (no_types, lifting))
qed simp


section \<open>Laws of time-based codes\<close>

lemma match_counter_SomeD: "match_counter otp code cs = Some n \<Longrightarrow> n \<in> set cs \<and> otp n = code"
  by (induction cs) (auto split: if_splits)

lemma match_counter_None: "match_counter otp code cs = None \<longleftrightarrow> (\<forall>n \<in> set cs. otp n \<noteq> code)"
  by (induction cs) auto

lemma set_totp_window: "set (totp_window n) = {n - 1, n, n + 1}"
proof -
  have "[- 1 .. 1 :: int] = [-1, 0, 1]" by code_simp
  then show ?thesis by (auto simp: totp_window_def TOTP_VALID_WINDOW_def)
qed

lemma verify_totp_TrueD:
  assumes "verify_totp cx d code = Inr (True, d')"
  obtains n secret where "six_digits (strip code)" "decrypt_secret cx (md_secret_protected d) = Inr secret"
    "hotp (cx_crypto cx) secret n = strip code" "n \<in> {totp_counter cx - 1, totp_counter cx, totp_counter cx + 1}"
    "\<forall>m. md_last_used_counter d = Some m \<longrightarrow> m < n"
    "d' = d\<lparr>md_last_used_counter := Some n, md_last_used_at := Some (cx_now cx)\<rparr>"
proof -
  from assms obtain secret where 1: "six_digits (strip code)" "decrypt_secret cx (md_secret_protected d) = Inr secret"
    by (auto simp: verify_totp_def Let_def bind_result_Inr_iff split: if_splits)
  with assms obtain n where 2: "match_counter (hotp (cx_crypto cx) secret) (strip code) (totp_window (totp_counter cx)) = Some n"
    by (auto simp: verify_totp_def Let_def split: option.splits)
  from match_counter_SomeD [OF 2] have 3: "hotp (cx_crypto cx) secret n = strip code"
      "n \<in> {totp_counter cx - 1, totp_counter cx, totp_counter cx + 1}"
    by (simp_all add: set_totp_window)
  from assms 1 2 have 4: "\<not> (case md_last_used_counter d of None \<Rightarrow> False | Some used \<Rightarrow> n \<le> used)"
      "d' = d\<lparr>md_last_used_counter := Some n, md_last_used_at := Some (cx_now cx)\<rparr>"
    by (auto simp: verify_totp_def Let_def split: if_splits)
  from 4(1) have "\<forall>m. md_last_used_counter d = Some m \<longrightarrow> m < n" by auto
  then show thesis using that [OF 1 3] 4(2) by blast
qed

definition devices_wf :: "db \<Rightarrow> bool" where
  "devices_wf s \<longleftrightarrow> distinct (map md_id (mfa_devices s))"

text \<open>
  Any sequence of code verifications for one account: the counters that were accepted, in
  order. Each element is the context of one request and the submitted code.
\<close>

fun accepted_counters :: "user_account \<Rightarrow> (ctx \<times> string) list \<Rightarrow> db \<Rightarrow> int list" where
  "accepted_counters u [] s = []"
| "accepted_counters u ((cx, code) # rest) s =
     (case verify_user_factor cx u code False s of
        (Inr True, s') \<Rightarrow>
          (case find (\<lambda>d. md_user_id d = ua_id u \<and> md_enabled d) (mfa_devices s') of
             None \<Rightarrow> accepted_counters u rest s'
           | Some d \<Rightarrow> the (md_last_used_counter d) # accepted_counters u rest s')
      | (_, s') \<Rightarrow> accepted_counters u rest s')"

definition user_device :: "user_account \<Rightarrow> db \<Rightarrow> mfa_device option" where
  "user_device u s = find (\<lambda>d. md_user_id d = ua_id u \<and> md_enabled d) (mfa_devices s)"

lemma verify_factor_TrueD:
  assumes "verify_user_factor cx u code False s = (Inr True, s')"
  obtains d d' where "user_device u s = Some d" "verify_totp cx d code = Inr (True, d')"
    "s' = upd_device (md_id d) (\<lambda>_. d') s"
  using assms by (auto simp: verify_user_factor_def user_device_def split: option.splits sum.splits bool.splits)

lemma verify_factor_otherD:
  "verify_user_factor cx u code False s = (out, s') \<Longrightarrow> out \<noteq> Inr True \<Longrightarrow> s' = s"
  by (auto simp: verify_user_factor_def split: option.splits sum.splits bool.splits)

lemma find_upd_row_same:
  assumes "distinct (map md_id rows)" "find P rows = Some d" "P d'" "md_id d' = md_id d"
  shows "find P (upd_row md_id (md_id d) (\<lambda>_. d') rows) = Some d'"
  using assms
proof (induction rows)
  case (Cons r rows)
  show ?case
  proof (cases "r = d")
    case True
    with Cons.prems show ?thesis by (simp add: upd_row_def)
  next
    case False
    with Cons.prems(2) have f: "\<not> P r" "find P rows = Some d" by (auto split: if_splits)
    then have "md_id r \<noteq> md_id d" using Cons.prems(1) find_SomeD [of P rows d] by auto
    with Cons.IH Cons.prems f show ?thesis by (simp add: upd_row_def)
  qed
qed simp

lemma verify_factor_device:
  assumes wf: "devices_wf s" and v: "verify_user_factor cx u code False s = (Inr True, s')"
  shows "devices_wf s' \<and> (\<exists>d d' n. user_device u s = Some d \<and> user_device u s' = Some d' \<and>
     md_last_used_counter d' = Some n \<and> (\<forall>m. md_last_used_counter d = Some m \<longrightarrow> m < n))"
proof -
  from v obtain d d' where d: "user_device u s = Some d" and t: "verify_totp cx d code = Inr (True, d')"
      and s': "s' = upd_device (md_id d) (\<lambda>_. d') s" by (rule verify_factor_TrueD)
  from t obtain n where n: "\<forall>m. md_last_used_counter d = Some m \<longrightarrow> m < n"
      "d' = d\<lparr>md_last_used_counter := Some n, md_last_used_at := Some (cx_now cx)\<rparr>"
    by (rule verify_totp_TrueD) blast
  have id: "md_id d' = md_id d" "md_user_id d' = md_user_id d" "md_enabled d' = md_enabled d"
    by (simp_all add: n)
  have P: "md_user_id d = ua_id u \<and> md_enabled d" using d find_SomeD unfolding user_device_def by fastforce
  have "user_device u s' = Some d'"
    unfolding user_device_def s' upd_device_def
    using find_upd_row_same [of "mfa_devices s" "\<lambda>d. md_user_id d = ua_id u \<and> md_enabled d" d d'] wf d P id
    by (simp add: devices_wf_def user_device_def)
  moreover have "map md_id (mfa_devices s') = map md_id (mfa_devices s)"
    unfolding s' upd_device_def by (simp add: upd_row_def id)
  ultimately show ?thesis using wf d n by (auto simp: devices_wf_def)
qed

lemma accepted_counters_above:
  "devices_wf s \<Longrightarrow> user_device u s = Some d \<Longrightarrow> md_last_used_counter d = Some m \<Longrightarrow>
     sorted_wrt (<) (m # accepted_counters u tries s)"
proof (induction tries arbitrary: s d m)
  case Nil
  then show ?case by simp
next
  case (Cons a tries)
  obtain cx code where a: "a = (cx, code)" by fastforce
  obtain out s' where v: "verify_user_factor cx u code False s = (out, s')" by fastforce
  show ?case
  proof (cases "out = Inr True")
    case True
    with v verify_factor_device [OF Cons.prems(1)] Cons.prems(2,3) obtain d' n where
      "devices_wf s'" "user_device u s' = Some d'" "md_last_used_counter d' = Some n" "m < n" by fastforce
    with Cons.IH [of s' d' n] show ?thesis
      using v True by (auto simp: a user_device_def intro: less_trans)
  next
    case False
    with v have "s' = s" by (rule verify_factor_otherD)
    moreover have "accepted_counters u (a # tries) s = accepted_counters u tries s'"
      using v False by (auto simp: a split: sum.splits bool.splits)
    ultimately show ?thesis using Cons by simp
  qed
qed

lemma accepted_counters_sorted:
  "devices_wf s \<Longrightarrow> sorted_wrt (<) (accepted_counters u tries s)"
proof (induction tries arbitrary: s)
  case Nil
  then show ?case by simp
next
  case (Cons a tries)
  obtain cx code where a: "a = (cx, code)" by fastforce
  obtain out s' where v: "verify_user_factor cx u code False s = (out, s')" by fastforce
  show ?case
  proof (cases "out = Inr True")
    case True
    with v verify_factor_device [OF Cons.prems] obtain d' n where
      "devices_wf s'" "user_device u s' = Some d'" "md_last_used_counter d' = Some n" by blast
    with accepted_counters_above [of s' u d' n tries] show ?thesis
      using v True by (auto simp: a user_device_def)
  next
    case False
    with v have "s' = s" by (rule verify_factor_otherD)
    moreover have "accepted_counters u (a # tries) s = accepted_counters u tries s'"
      using v False by (auto simp: a split: sum.splits bool.splits)
    ultimately show ?thesis using Cons by simp
  qed
qed


section \<open>Laws of enrollment\<close>

definition pending_device :: "ctx \<Rightarrow> user_account \<Rightarrow> mfa_device \<Rightarrow> bool" where
  "pending_device cx u d \<longleftrightarrow>
     md_user_id d = ua_id u \<and> \<not> md_enabled d \<and> md_failed_attempts d < MAX_ENROLLMENT_ATTEMPTS \<and>
     (\<exists>t. md_enrollment_expires_at d = Some t \<and> cx_now cx < t)"

lemma confirm_enrollment_InrD:
  assumes "confirm_enrollment cx tokens u code device_id s = (Inr (d, codes), s')"
  obtains d0 d1 where "d0 \<in> set (mfa_devices s)" "pending_device cx u d0" "verify_totp cx d0 code = Inr (True, d1)"
    "d = enabled_row cx d1"
    "generate_recovery_codes cx tokens (ua_id u)
       (upd_user (ua_id u) (\<lambda>u. u\<lparr>ua_mfa_enabled := True\<rparr>) (upd_device (md_id d0) (\<lambda>_. d) s)) = (Inr codes, s')"
proof -
  let ?q = "filter (\<lambda>d. case device_id of None \<Rightarrow> True | Some i \<Rightarrow> md_id d = i) (pending_devices s (ua_id u))"
  from assms obtain d0 where l: "latest md_created_at ?q = Some d0"
    by (auto simp: confirm_enrollment_def split: option.splits)
  from latest_mem [OF l] have m: "d0 \<in> set (mfa_devices s)" "md_user_id d0 = ua_id u" "\<not> md_enabled d0"
    by (auto simp: pending_devices_def)
  from assms l have g: "\<not> (case md_enrollment_expires_at d0 of None \<Rightarrow> True | Some t \<Rightarrow> t \<le> cx_now cx)"
      "\<not> MAX_ENROLLMENT_ATTEMPTS \<le> md_failed_attempts d0"
    by (auto simp: confirm_enrollment_def split: if_splits)
  from assms l g obtain d1 where v: "verify_totp cx d0 code = Inr (True, d1)"
    by (auto simp: confirm_enrollment_def Let_def split: sum.splits bool.splits)
  have "pending_device cx u d0" using m g by (auto simp: pending_device_def not_le split: option.splits)
  moreover have "d = enabled_row cx d1" "generate_recovery_codes cx tokens (ua_id u)
       (upd_user (ua_id u) (\<lambda>u. u\<lparr>ua_mfa_enabled := True\<rparr>) (upd_device (md_id d0) (\<lambda>_. d) s)) = (Inr codes, s')"
    using assms l g v by (auto simp: confirm_enrollment_def Let_def split: prod.splits sum.splits)
  ultimately show thesis using that m v by blast
qed

definition attempts_bounded :: "db \<Rightarrow> bool" where
  "attempts_bounded s \<longleftrightarrow> (\<forall>d \<in> set (mfa_devices s). md_failed_attempts d \<le> MAX_ENROLLMENT_ATTEMPTS)"

lemma attempts_bounded_upd:
  "attempts_bounded s \<Longrightarrow> (\<And>d. md_failed_attempts (f d) \<le> MAX_ENROLLMENT_ATTEMPTS) \<Longrightarrow>
     attempts_bounded (upd_device did f s)"
  by (auto simp: attempts_bounded_def upd_device_def set_upd_row)

lemma generate_recovery_devices:
  "generate_recovery_codes cx tokens uid s = (out, s') \<Longrightarrow>
     mfa_devices s' = mfa_devices s \<and> users s' = users s \<and> sessions s' = sessions s"
  by (auto simp: generate_recovery_codes_def Let_def split: if_splits)

lemma confirm_enrollment_attempts:
  assumes b: "attempts_bounded s" and c: "confirm_enrollment cx tokens u code device_id s = (out, s')"
  shows "attempts_bounded s'"
proof (cases out)
  case (Inr p)
  obtain d codes where p: "p = (d, codes)" by fastforce
  from c Inr p have "confirm_enrollment cx tokens u code device_id s = (Inr (d, codes), s')" by simp
  then obtain d0 d1 where "d0 \<in> set (mfa_devices s)" "pending_device cx u d0" "verify_totp cx d0 code = Inr (True, d1)"
      and d: "d = enabled_row cx d1"
      and g: "generate_recovery_codes cx tokens (ua_id u)
       (upd_user (ua_id u) (\<lambda>u. u\<lparr>ua_mfa_enabled := True\<rparr>) (upd_device (md_id d0) (\<lambda>_. d) s)) = (Inr codes, s')"
    by (rule confirm_enrollment_InrD)
  have "attempts_bounded (upd_device (md_id d0) (\<lambda>_. d) s)"
    by (rule attempts_bounded_upd [OF b]) (simp add: d enabled_row_def)
  then show ?thesis using generate_recovery_devices [OF g] by (simp add: attempts_bounded_def)
next
  case (Inl e)
  have del: "attempts_bounded (delete_device i s)" for i
    using b by (auto simp: attempts_bounded_def delete_device_def)
  have upd: "n < MAX_ENROLLMENT_ATTEMPTS \<Longrightarrow>
      attempts_bounded (upd_device i (\<lambda>d. d\<lparr>md_failed_attempts := Suc n\<rparr>) s)" for i n
    by (rule attempts_bounded_upd [OF b]) simp
  show ?thesis
    using c b Inl unfolding confirm_enrollment_def Let_def
    by (auto split: option.splits if_splits sum.splits bool.splits prod.splits intro: del upd)
qed

section \<open>Properties\<close>

text \<open>C9. Replay protection of authenticator codes: whatever sequence of codes is submitted for an
  account, at whatever times, the counters of the accepted ones strictly increase, so no time
  step is ever accepted twice.\<close>

theorem totp_never_replayed:
  assumes "devices_wf s"
  shows "sorted_wrt (<) (accepted_counters u tries s)"
  by (rule accepted_counters_sorted [OF assms])

definition demo_device :: mfa_device where
  "demo_device = \<lparr>md_id = 1, md_user_id = 2, md_device_type = ''totp'', md_label = ''Authenticator'',
     md_secret_protected = ''ksecret'', md_enabled = True, md_confirmed_at = Some 0,
     md_last_used_counter = None, md_last_used_at = None, md_enrollment_expires_at = None,
     md_failed_attempts = 0, md_created_at = 0, md_disabled_at = None\<rparr>"

theorem totp_never_replayed_witness:
  "accepted_counters (demo_user 2 ''ana'' Active False)
     [(demo_ctx (seconds 60), ''000000''), (demo_ctx (seconds 61), ''000000''), (demo_ctx (seconds 92), ''111111''),
      (demo_ctx (seconds 93), ''111111'')]
     (demo_db\<lparr>mfa_devices := [demo_device]\<rparr>) = [2, 3] \<and>
   sorted_wrt (<) (accepted_counters (demo_user 2 ''ana'' Active False)
     [(demo_ctx (seconds 60), ''000000''), (demo_ctx (seconds 61), ''000000''), (demo_ctx (seconds 92), ''111111''),
      (demo_ctx (seconds 93), ''111111'')]
     (demo_db\<lparr>mfa_devices := [demo_device]\<rparr>))"
proof -
  have "devices_wf (demo_db\<lparr>mfa_devices := [demo_device]\<rparr>)" by (simp add: devices_wf_def)
  note all = totp_never_replayed [OF this]
  show ?thesis by (rule conjI [OF _ all]) code_simp
qed

text \<open>C23. Recovery codes work once: in any sequence of attempts to use recovery codes of an account,
  at any times, no code is accepted twice.\<close>

theorem recovery_codes_single_use:
  assumes "recovery_wf s"
  shows "distinct (accepted (recovery_attempt cx uid) (recovery_key cx) tries s)"
  by (rule recovery_factor.accepted_once [OF assms])

theorem recovery_codes_single_use_witness:
  "accepted (recovery_attempt (demo_ctx 0) 2) (recovery_key (demo_ctx 0))
      [(1, ''AAAA-BBBB-CCCC''), (2, ''aaaabbbbcccc''), (3, ''DDDD-EEEE-FFFF'')]
      (snd (generate_recovery_codes (demo_ctx 0) [''aaaabbbbcccc'', ''ddddeeeeffff''] 2 demo_db)) =
    [''srecovery:AAAABBBBCCCC'', ''srecovery:DDDDEEEEFFFF''] \<and>
   distinct (accepted (recovery_attempt (demo_ctx 0) 2) (recovery_key (demo_ctx 0))
      [(1, ''AAAA-BBBB-CCCC''), (2, ''aaaabbbbcccc''), (3, ''DDDD-EEEE-FFFF'')]
      (snd (generate_recovery_codes (demo_ctx 0) [''aaaabbbbcccc'', ''ddddeeeeffff''] 2 demo_db)))"
proof -
  have "recovery_wf (snd (generate_recovery_codes (demo_ctx 0) [''aaaabbbbcccc'', ''ddddeeeeffff''] 2 demo_db))"
    by code_simp
  note all = recovery_codes_single_use [OF this]
  show ?thesis by (rule conjI [OF _ all]) code_simp
qed

text \<open>C24. Regenerating recovery codes: afterwards exactly the codes just shown are accepted for the
  account, whatever codes it had before: a submission is accepted exactly when it has the hash of a
  code just shown and, as SHA-256 is taken to be injective, exactly when it is such a code up to case,
  dashes and surrounding blanks. Each is accepted once: after an accepted submission the same code is
  refused, at any later time, and every other code is accepted as before. The codes of other accounts
  are untouched.\<close>

theorem recovery_codes_roundtrip:
  assumes "recovery_wf s" "generate_recovery_codes cx tokens uid s = (Inr codes, s')"
  shows "length codes = length tokens \<and> recovery_wf s' \<and>
     (\<forall>code. fst (consume_recovery_code cx uid code s') = (recovery_hash cx code \<in> recovery_hash cx ` set codes)) \<and>
     (inj (sha256_hex (cx_crypto cx)) \<longrightarrow>
        (\<forall>code. fst (consume_recovery_code cx uid code s') = (code_text code \<in> code_text ` set codes))) \<and>
     (\<forall>code t. \<not> fst (consume_recovery_code (cx\<lparr>cx_now := t\<rparr>) uid code (snd (consume_recovery_code cx uid code s')))) \<and>
     (\<forall>code other. recovery_hash cx other \<noteq> recovery_hash cx code \<longrightarrow>
        fst (consume_recovery_code cx uid other (snd (consume_recovery_code cx uid code s'))) =
        fst (consume_recovery_code cx uid other s')) \<and>
     (\<forall>j code. j \<noteq> uid \<longrightarrow> fst (consume_recovery_code cx j code s') = fst (consume_recovery_code cx j code s))"
proof -
  let ?g = "\<lambda>r. (rc_user_id r, rc_code_hash r, rc_used_at r)"
  note g = generate_recovery_codes_InrD [OF assms]
  then have "set (map ?g (recovery_codes s')) =
      set (map ?g (filter (\<lambda>r. rc_user_id r \<noteq> uid) (recovery_codes s)) @ map (\<lambda>c. (uid, recovery_hash cx c, None)) codes)"
    by simp
  then have img: "?g ` set (recovery_codes s') =
      {x \<in> ?g ` set (recovery_codes s). fst x \<noteq> uid} \<union> (\<lambda>c. (uid, recovery_hash cx c, None)) ` set codes"
    unfolding set_map set_append by (auto simp: image_iff)
  have accepts: "fst (consume_recovery_code cx uid code s') = (recovery_hash cx code \<in> recovery_hash cx ` set codes)" for code
    unfolding consume_accepts_iff img by auto
  moreover have "fst (consume_recovery_code cx uid code s') = (code_text code \<in> code_text ` set codes)"
    if "inj (sha256_hex (cx_crypto cx))" for code
    unfolding accepts using recovery_hash_inj [OF that] by auto
  moreover have "\<not> fst (consume_recovery_code (cx\<lparr>cx_now := t\<rparr>) uid code (snd (consume_recovery_code cx uid code s')))" for code t
    using g by (intro consume_once) simp
  moreover have "fst (consume_recovery_code cx uid other (snd (consume_recovery_code cx uid code s'))) =
      fst (consume_recovery_code cx uid other s')" if "recovery_hash cx other \<noteq> recovery_hash cx code" for code other
    using g that by (intro consume_other) simp_all
  moreover have "fst (consume_recovery_code cx j code s') = fst (consume_recovery_code cx j code s)" if "j \<noteq> uid" for j code
    unfolding consume_accepts_iff img using that by auto
  ultimately show ?thesis using g by simp
qed

theorem recovery_codes_roundtrip_witness:
  "\<exists>s'. generate_recovery_codes (demo_ctx 0) [''aaaabbbbcccc'', ''ddddeeeeffff''] 2 demo_db =
       (Inr [''AAAA-BBBB-CCCC'', ''DDDD-EEEE-FFFF''], s') \<and>
     fst (consume_recovery_code (demo_ctx 0) 2 ''DDDD-EEEE-FFFF'' s') \<and>
     \<not> fst (consume_recovery_code (demo_ctx 0) 2 ''DDDD-EEEE-FFFF''
             (snd (consume_recovery_code (demo_ctx 0) 2 ''DDDD-EEEE-FFFF'' s')))"
proof -
  let ?r = "generate_recovery_codes (demo_ctx 0) [''aaaabbbbcccc'', ''ddddeeeeffff''] 2 demo_db"
  have "fst ?r = Inr [''AAAA-BBBB-CCCC'', ''DDDD-EEEE-FFFF'']" by code_simp
  then have r: "?r = (Inr [''AAAA-BBBB-CCCC'', ''DDDD-EEEE-FFFF''], snd ?r)" by (metis prod.collapse)
  have wf: "recovery_wf demo_db" by code_simp
  have now: "(demo_ctx 0)\<lparr>cx_now := 0\<rparr> = demo_ctx 0" by (simp add: demo_ctx_def)
  note all = recovery_codes_roundtrip [OF wf r]
  have "fst (consume_recovery_code (demo_ctx 0) 2 ''DDDD-EEEE-FFFF'' (snd ?r))" using all by auto
  moreover have "\<not> fst (consume_recovery_code ((demo_ctx 0)\<lparr>cx_now := 0\<rparr>) 2 ''DDDD-EEEE-FFFF''
      (snd (consume_recovery_code (demo_ctx 0) 2 ''DDDD-EEEE-FFFF'' (snd ?r))))" using all by blast
  ultimately show ?thesis using r unfolding now by blast
qed

text \<open>Enrollment is guarded: it is confirmed only for a pending, unexpired setup of the account
  with fewer than five failures and a code that is the one-time password of the stored secret for a
  time step of the window; the device is then enabled, the account requires the second factor and
  its recovery codes are the ones returned. Whatever the outcome, no device ever counts more than
  five failures.\<close>

theorem confirm_enrollment_guarded:
  assumes "recovery_wf s" "attempts_bounded s" "get_user s (ua_id u) = Some u"
    "confirm_enrollment cx tokens u code device_id s = (out, s')"
  shows "attempts_bounded s' \<and>
     (\<forall>d codes. out = Inr (d, codes) \<longrightarrow>
        (\<exists>d0 secret n. d0 \<in> set (mfa_devices s) \<and> pending_device cx u d0 \<and>
           decrypt_secret cx (md_secret_protected d0) = Inr secret \<and>
           n \<in> {totp_counter cx - 1, totp_counter cx, totp_counter cx + 1} \<and>
           hotp (cx_crypto cx) secret n = strip code) \<and>
        md_enabled d \<and> d \<in> set (mfa_devices s') \<and>
        (\<exists>u'. get_user s' (ua_id u) = Some u' \<and> ua_mfa_enabled u') \<and>
        (\<forall>c. fst (consume_recovery_code cx (ua_id u) c s') = (recovery_hash cx c \<in> recovery_hash cx ` set codes)))"
proof (intro conjI allI impI)
  show "attempts_bounded s'" by (rule confirm_enrollment_attempts [OF assms(2,4)])
next
  fix d codes assume "out = Inr (d, codes)"
  with assms(4) have c: "confirm_enrollment cx tokens u code device_id s = (Inr (d, codes), s')" by simp
  then obtain d0 d1 where d0: "d0 \<in> set (mfa_devices s)" "pending_device cx u d0"
      and v: "verify_totp cx d0 code = Inr (True, d1)" and d: "d = enabled_row cx d1"
      and g: "generate_recovery_codes cx tokens (ua_id u)
       (upd_user (ua_id u) (\<lambda>u. u\<lparr>ua_mfa_enabled := True\<rparr>) (upd_device (md_id d0) (\<lambda>_. d) s)) = (Inr codes, s')"
    by (rule confirm_enrollment_InrD)
  let ?s2 = "upd_user (ua_id u) (\<lambda>u. u\<lparr>ua_mfa_enabled := True\<rparr>) (upd_device (md_id d0) (\<lambda>_. d) s)"
  from v show "\<exists>d0 secret n. d0 \<in> set (mfa_devices s) \<and> pending_device cx u d0 \<and>
           decrypt_secret cx (md_secret_protected d0) = Inr secret \<and>
           n \<in> {totp_counter cx - 1, totp_counter cx, totp_counter cx + 1} \<and>
           hotp (cx_crypto cx) secret n = strip code"
    by (rule verify_totp_TrueD) (use d0 in blast)
  show "md_enabled d" by (simp add: d enabled_row_def)
  note fr = generate_recovery_devices [OF g]
  show "d \<in> set (mfa_devices s')"
    using fr d0 by (auto simp: upd_device_def set_upd_row)
  have "get_user s' = get_user ?s2" using fr by (intro get_user_cong) blast
  moreover have "get_user (upd_device (md_id d0) (\<lambda>_. d) s) = get_user s" by (rule get_user_cong) simp
  ultimately show "\<exists>u'. get_user s' (ua_id u) = Some u' \<and> ua_mfa_enabled u'"
    using assms(3) by (simp add: get_user_upd_user)
  have "recovery_wf ?s2" using assms(1) by (simp add: recovery_wf_def)
  note gd = generate_recovery_codes_InrD [OF this g]
  fix c
  show "fst (consume_recovery_code cx (ua_id u) c s') = (recovery_hash cx c \<in> recovery_hash cx ` set codes)"
    unfolding consume_accepts_iff set_map [symmetric] using gd by auto
qed

theorem confirm_enrollment_guarded_witness:
  "\<exists>d codes s'. confirm_enrollment (demo_ctx (seconds 60)) [''aaaabbbbcccc''] (demo_user 2 ''ana'' Active False) ''000000'' None
       (demo_db\<lparr>mfa_devices := [demo_device\<lparr>md_enabled := False, md_enrollment_expires_at := Some (seconds 90)\<rparr>]\<rparr>)
       = (Inr (d, codes), s') \<and> md_enabled d \<and> attempts_bounded s'"
proof -
  let ?s = "demo_db\<lparr>mfa_devices := [demo_device\<lparr>md_enabled := False, md_enrollment_expires_at := Some (seconds 90)\<rparr>]\<rparr>"
  let ?u = "demo_user 2 ''ana'' Active False"
  let ?r = "confirm_enrollment (demo_ctx (seconds 60)) [''aaaabbbbcccc''] ?u ''000000'' None ?s"
  have "case fst ?r of Inl e \<Rightarrow> False | Inr x \<Rightarrow> True" by code_simp
  then obtain d codes s' where r: "?r = (Inr (d, codes), s')" by (cases ?r) (auto split: sum.splits)
  have pre: "recovery_wf ?s" "attempts_bounded ?s" "get_user ?s (ua_id ?u) = Some ?u" by code_simp+
  from confirm_enrollment_guarded [OF pre r] r show ?thesis by auto
qed

end
