(* ===== verification/Authentication.thy ===== *)
theory Authentication
  imports Users Rate_Limit
begin

text \<open>
  Password authentication (\<open>access_control/authentication.py\<close>). The account object is read
  again after every commit, as the object mapper refreshes it. The lemmas give the conditions
  under which an identifier and a password authenticate and show that every refusal looks alike.
\<close>

definition GENERIC_LOGIN_ERROR :: string where
  "GENERIC_LOGIN_ERROR = ''Invalid email, username, or password''"

definition is_email_identifier :: "string \<Rightarrow> bool" where
  "is_email_identifier identifier \<longleftrightarrow> CHR ''@'' \<in> set (strip identifier)"

definition normalize_identifier :: "string \<Rightarrow> string" where
  "normalize_identifier identifier =
     (let raw = strip identifier;
          fallback = take 254 (casefold raw)
      in if is_email_identifier identifier
         then (case normalize_email (Some raw) of Inr (Some e) \<Rightarrow> e | _ \<Rightarrow> fallback)
         else (case normalize_username raw of Inr n \<Rightarrow> n | Inl _ \<Rightarrow> fallback))"

definition find_account :: "string \<Rightarrow> db \<Rightarrow> user_account option" where
  "find_account identifier s =
     (let normalized = normalize_identifier identifier
      in if is_email_identifier identifier
         then find (\<lambda>u. ua_email_normalized u = Some normalized) (users s)
         else find (\<lambda>u. ua_username_normalized u = normalized) (users s))"

definition refused_status :: "user_status \<Rightarrow> bool" where
  "refused_status st \<longleftrightarrow> st \<in> {Disabled, Locked}"

text \<open>The state after the expired lock of the account, if any, is lifted.\<close>

definition lift_expired_lock :: "ctx \<Rightarrow> string \<Rightarrow> user_account option \<Rightarrow> db \<Rightarrow> db" where
  "lift_expired_lock cx normalized user s =
     (case user of
        None \<Rightarrow> s
      | Some u \<Rightarrow>
          (case unlock_if_expired cx (ua_id u) s of
             (expired_lock, s1) \<Rightarrow>
               if expired_lock then delete_failures {username_hash cx normalized} s1 else s1))"

definition authenticate_password ::
  "ctx \<Rightarrow> request \<Rightarrow> string \<Rightarrow> string \<Rightarrow> (db, user_account) action" where
  "authenticate_password cx request identifier password s =
     (let normalized = normalize_identifier identifier;
          found = find_account identifier s;
          s1 = lift_expired_lock cx normalized found s;
          user = (case found of None \<Rightarrow> None | Some u \<Rightarrow> get_user s1 (ua_id u));
          ip_hash = client_ip_hash cx request in
      if is_rate_limited cx normalized ip_hash s1
      then (Inl (HTTPException 429 ''Login temporarily unavailable. Try again later.''), s1)
      else (case user of
          None \<Rightarrow>
            (Inl (HTTPException 401 GENERIC_LOGIN_ERROR),
             record_attempt cx normalized ip_hash False (Some ''invalid_credentials'') s1)
        | Some u \<Rightarrow>
            if \<not> verify_password (cx_crypto cx) (Some (ua_password_hash u)) password \<or> refused_status (ua_status u)
            then (Inl (HTTPException 401 GENERIC_LOGIN_ERROR),
                  record_attempt cx normalized ip_hash False (Some ''invalid_credentials'')
                    (if \<not> refused_status (ua_status u) then register_user_failure cx (ua_id u) s1 else s1))
            else
              (let s2 = upd_user (ua_id u)
                          (\<lambda>u. u\<lparr>ua_last_login_at := Some (cx_now cx), ua_last_login_ip_hash := ip_hash\<rparr>)
                          (record_attempt cx normalized ip_hash True None (clear_failures cx (ua_id u) s1))
               in (Inr (the (get_user s2 (ua_id u))), s2))))"


section \<open>Laws\<close>

lemma find_account_mem: "find_account identifier s = Some u \<Longrightarrow> u \<in> set (users s)"
  by (auto simp: find_account_def Let_def split: if_splits dest: find_SomeD)

lemma unlock_if_expired_users:
  "get_user (snd (unlock_if_expired cx uid s)) j =
     (if j = uid \<and> fst (unlock_if_expired cx uid s) then map_option reset_failures (get_user s uid) else get_user s j)"
  by (auto simp: unlock_if_expired_def get_user_clear_failures split: option.splits)

lemma unlock_if_expired_iff:
  "get_user s uid = Some u \<Longrightarrow>
     fst (unlock_if_expired cx uid s) \<longleftrightarrow>
       ua_status u = Locked \<and> (\<exists>t. ua_locked_until u = Some t \<and> t \<le> cx_now cx)"
  by (auto simp: unlock_if_expired_def split: option.splits)

lemma get_user_delete_failures [simp]: "get_user (delete_failures hs s) = get_user s"
  by (rule get_user_cong) simp

lemma get_user_record_attempt [simp]: "get_user (record_attempt cx n ip ok r s) = get_user s"
  by (rule get_user_cong) simp

text \<open>The account as it is once an expired lock is lifted.\<close>

definition lock_lifted :: "ctx \<Rightarrow> user_account \<Rightarrow> user_account" where
  "lock_lifted cx u =
     (if ua_status u = Locked \<and> (\<exists>t. ua_locked_until u = Some t \<and> t \<le> cx_now cx) then reset_failures u else u)"

lemma lift_expired_lock_user:
  assumes "get_user s (ua_id u) = Some u"
  shows "get_user (lift_expired_lock cx n (Some u) s) j =
     (if j = ua_id u then Some (lock_lifted cx u) else get_user s j)"
proof -
  obtain b s1 where un: "unlock_if_expired cx (ua_id u) s = (b, s1)" by fastforce
  have "get_user (lift_expired_lock cx n (Some u) s) j = get_user s1 j"
    using un by (simp add: lift_expired_lock_def)
  also have "\<dots> = (if j = ua_id u \<and> b then Some (reset_failures u) else get_user s j)"
    using unlock_if_expired_users [of cx "ua_id u" s j] un assms by simp
  finally show ?thesis
    using unlock_if_expired_iff [OF assms, of cx] un assms by (auto simp: lock_lifted_def)
qed

lemma lock_lifted_id [simp]:
  "ua_id (lock_lifted cx u) = ua_id u" "ua_password_hash (lock_lifted cx u) = ua_password_hash u"
  "ua_mfa_enabled (lock_lifted cx u) = ua_mfa_enabled u"
  "ua_is_system_admin (lock_lifted cx u) = ua_is_system_admin u"
  by (simp_all add: lock_lifted_def)

lemma lift_expired_lock_sessions [simp]:
  "sessions (lift_expired_lock cx n user s) = sessions s"
  by (auto simp: lift_expired_lock_def unlock_if_expired_def split: option.splits prod.splits if_splits)

lemma authenticate_InlD:
  "authenticate_password cx request identifier password s = (Inl e, s') \<Longrightarrow>
     e = HTTPException 429 ''Login temporarily unavailable. Try again later.'' \<or>
     e = HTTPException 401 GENERIC_LOGIN_ERROR"
  by (auto simp: authenticate_password_def Let_def split: if_splits option.splits)

lemma authenticate_InrD:
  assumes ids: "distinct (map ua_id (users s))"
    and a: "authenticate_password cx request identifier password s = (Inr v, s')"
  obtains u where "find_account identifier s = Some u" "u \<in> set (users s)"
    "verify_password (cx_crypto cx) (Some (ua_password_hash u)) password"
    "\<not> refused_status (ua_status (lock_lifted cx u))"
    "\<not> is_rate_limited cx (normalize_identifier identifier) (client_ip_hash cx request)
        (lift_expired_lock cx (normalize_identifier identifier) (Some u) s)"
    "v = (reset_failures (lock_lifted cx u))
           \<lparr>ua_last_login_at := Some (cx_now cx), ua_last_login_ip_hash := client_ip_hash cx request\<rparr>"
    "\<forall>j. get_user s' j = (if j = ua_id u then Some v else get_user s j)"
    "sessions s' = sessions s"
proof -
  let ?n = "normalize_identifier identifier" and ?ip = "client_ip_hash cx request"
  from a obtain u where f: "find_account identifier s = Some u"
    by (cases "find_account identifier s") (auto simp: authenticate_password_def Let_def split: if_splits)
  then have m: "u \<in> set (users s)" by (rule find_account_mem)
  have g: "get_user s (ua_id u) = Some u" using find_row_unique [OF ids m] by (simp add: get_user_def)
  let ?s1 = "lift_expired_lock cx ?n (Some u) s"
  have g1: "get_user ?s1 (ua_id u) = Some (lock_lifted cx u)" using lift_expired_lock_user [OF g] by simp
  have nl: "\<not> is_rate_limited cx ?n ?ip ?s1"
    using a f by (auto simp: authenticate_password_def Let_def split: if_splits)
  have ok: "verify_password (cx_crypto cx) (Some (ua_password_hash u)) password"
      "\<not> refused_status (ua_status (lock_lifted cx u))"
    using a f g1 nl by (auto simp: authenticate_password_def Let_def split: if_splits)
  let ?touch = "\<lambda>u. u\<lparr>ua_last_login_at := Some (cx_now cx), ua_last_login_ip_hash := ?ip\<rparr>"
  let ?s2 = "upd_user (ua_id u) ?touch (record_attempt cx ?n ?ip True None (clear_failures cx (ua_id u) ?s1))"
  have "authenticate_password cx request identifier password s = (Inr (the (get_user ?s2 (ua_id u))), ?s2)"
    using f g1 nl ok by (simp add: authenticate_password_def Let_def)
  then have "v = the (get_user ?s2 (ua_id u)) \<and> s' = ?s2" using a by simp
  moreover have "get_user ?s2 j = (if j = ua_id u then Some (?touch (reset_failures (lock_lifted cx u))) else get_user s j)" for j
    using lift_expired_lock_user [OF g] by (simp add: get_user_upd_user get_user_clear_failures)
  ultimately show thesis
    using that [OF f m ok nl] by simp
qed


section \<open>Properties\<close>

text \<open>C27. Who can log in with a password: when authentication succeeds, the identifier names an
  account whose stored hash verifies the password, the login window is open (for this identity and
  address fewer failures are recorded in the last fifteen minutes than the limit, once an expired lock
  has been lifted, which forgets the failures of the identity), and the account is
  neither disabled nor under a lock that has not expired; its failure counter is then zero and no
  other account and no session changed.\<close>

theorem authenticate_password_sound:
  assumes "accounts_wf s" "authenticate_password cx request identifier password s = (Inr v, s')"
  shows "\<exists>u \<in> set (users s). find_account identifier s = Some u \<and>
     verify_password (cx_crypto cx) (Some (ua_password_hash u)) password \<and>
     \<not> is_rate_limited cx (normalize_identifier identifier) (client_ip_hash cx request)
        (lift_expired_lock cx (normalize_identifier identifier) (Some u) s) \<and>
     (ua_status u \<noteq> Locked \<longrightarrow>
        \<not> is_rate_limited cx (normalize_identifier identifier) (client_ip_hash cx request) s) \<and>
     ua_status u \<noteq> Disabled \<and>
     (ua_status u = Locked \<longrightarrow> (\<exists>t. ua_locked_until u = Some t \<and> t \<le> cx_now cx)) \<and>
     ua_id v = ua_id u \<and> ua_failed_login_count v = 0 \<and> ua_status v \<notin> {Disabled, Locked} \<and>
     ua_is_system_admin v = ua_is_system_admin u \<and> ua_mfa_enabled v = ua_mfa_enabled u \<and>
     get_user s' (ua_id u) = Some v \<and>
     (\<forall>j. j \<noteq> ua_id u \<longrightarrow> get_user s' j = get_user s j) \<and> sessions s' = sessions s"
proof -
  have ids: "distinct (map ua_id (users s))" using assms(1) by (simp add: accounts_wf_def)
  from assms(2) obtain u where f: "find_account identifier s = Some u" "u \<in> set (users s)"
    and pw: "verify_password (cx_crypto cx) (Some (ua_password_hash u)) password"
    and st: "\<not> refused_status (ua_status (lock_lifted cx u))"
    and nl: "\<not> is_rate_limited cx (normalize_identifier identifier) (client_ip_hash cx request)
        (lift_expired_lock cx (normalize_identifier identifier) (Some u) s)"
    and v: "v = (reset_failures (lock_lifted cx u))
           \<lparr>ua_last_login_at := Some (cx_now cx), ua_last_login_ip_hash := client_ip_hash cx request\<rparr>"
    and g: "\<forall>j. get_user s' j = (if j = ua_id u then Some v else get_user s j)"
    and se: "sessions s' = sessions s"
    by (rule authenticate_InrD [OF ids])
  have "ua_status u \<noteq> Disabled \<and> (ua_status u = Locked \<longrightarrow> (\<exists>t. ua_locked_until u = Some t \<and> t \<le> cx_now cx))"
    using st by (auto simp: refused_status_def lock_lifted_def split: if_splits)
  moreover have "ua_status v \<notin> {Disabled, Locked}" using st by (auto simp: v refused_status_def)
  moreover have "\<not> is_rate_limited cx (normalize_identifier identifier) (client_ip_hash cx request) s"
    if "ua_status u \<noteq> Locked"
  proof -
    have "get_user s (ua_id u) = Some u" using find_row_unique [OF ids f(2)] by (simp add: get_user_def)
    with that have "lift_expired_lock cx (normalize_identifier identifier) (Some u) s = s"
      by (simp add: lift_expired_lock_def unlock_if_expired_def split: option.split)
    with nl show ?thesis by simp
  qed
  ultimately show ?thesis using f pw g se nl by (intro bexI [of _ u]) (simp_all add: v)
qed

theorem authenticate_password_sound_witness:
  "\<exists>v s'. authenticate_password (demo_ctx 5) (demo_request ''POST'' ''/api/auth/login'' []) '' Ana '' ''pw'' demo_db = (Inr v, s') \<and>
     ua_id v = 2 \<and> ua_status v = Active \<and> sessions s' = sessions demo_db"
proof -
  let ?r = "authenticate_password (demo_ctx 5) (demo_request ''POST'' ''/api/auth/login'' []) '' Ana '' ''pw'' demo_db"
  have "case fst ?r of Inl e \<Rightarrow> False | Inr v \<Rightarrow> ua_id v = 2 \<and> ua_status v = Active" by code_simp
  then obtain v s' where r: "?r = (Inr v, s')" "ua_id v = 2" "ua_status v = Active" by (cases ?r) (auto split: sum.splits)
  have "normalize_username ''root'' = Inr ''root'' \<and> normalize_username ''ana'' = Inr ''ana''" by code_simp
  then have "accounts_wf demo_db"
    by (simp add: accounts_wf_def List.map_filter_def account_row_ok_def normalize_email_def demo_defs)
  from authenticate_password_sound [OF this r(1)] r show ?thesis by blast
qed

text \<open>Every refusal looks alike: whatever the identifier and the password, the response is
  either the throttling error or one and the same 401 error, so it does not tell an unknown
  account from a wrong password, a disabled or a locked account.\<close>

theorem authentication_errors_uniform:
  "fst (authenticate_password cx request identifier password s) \<in>
     range Inr \<union> {Inl (HTTPException 429 ''Login temporarily unavailable. Try again later.''),
                   Inl (HTTPException 401 GENERIC_LOGIN_ERROR)}"
proof (cases "authenticate_password cx request identifier password s")
  case (Pair out s')
  then show ?thesis by (cases out) (auto dest: authenticate_InlD)
qed

text \<open>The lock of an account whose registration was never approved, or was rejected, expires
  into the active status: once failed logins have locked an account, whatever its status was before,
  the first use after the lockout period makes it active.\<close>

theorem lockout_expiry_activates_any_account:
  assumes "get_user s uid = Some u" "login_max_attempts (cx_config cx) \<le> int (Suc (ua_failed_login_count u))"
    "cx_now cx + minutes (lockout_minutes (cx_config cx)) \<le> cx_now later"
  shows "\<exists>u'. get_user (snd (unlock_if_expired later uid (register_user_failure cx uid s))) uid = Some u' \<and>
     ua_status u' = Active"
proof -
  let ?s1 = "register_user_failure cx uid s" and ?l = "count_failure cx u"
  have g: "get_user ?s1 uid = Some ?l" using assms(1) by (simp add: get_user_register_user_failure)
  have l: "ua_status ?l = Locked" "ua_locked_until ?l = Some (cx_now cx + minutes (lockout_minutes (cx_config cx)))"
    using assms(2) by (simp_all add: count_failure_def Let_def)
  then have "fst (unlock_if_expired later uid ?s1)" using unlock_if_expired_iff [OF g] assms(3) by simp
  then show ?thesis using unlock_if_expired_users [of later uid ?s1 uid] g l by simp
qed

theorem lockout_expiry_activates_any_account_witness:
  "\<exists>u'. get_user (snd (unlock_if_expired (demo_ctx (hours 1)) 2
       (register_user_failure (demo_ctx 0) 2
         (demo_db\<lparr>users := [(demo_user 2 ''ana'' PendingApproval False)\<lparr>ua_failed_login_count := 4\<rparr>]\<rparr>)))) 2 = Some u' \<and>
     ua_status u' = Active"
proof (rule lockout_expiry_activates_any_account)
  show "get_user (demo_db\<lparr>users := [(demo_user 2 ''ana'' PendingApproval False)\<lparr>ua_failed_login_count := 4\<rparr>]\<rparr>) 2 =
     Some ((demo_user 2 ''ana'' PendingApproval False)\<lparr>ua_failed_login_count := 4\<rparr>)"
    by (simp add: get_user_def find_row_def demo_user_def)
qed (simp_all add: demo_config_def time_defs)

end
