(* ===== verification/Py_Values.thy ===== *)
theory Py_Values
  imports Prelude
begin

text \<open>
  Python values as they occur in request metadata and stored documents, and the canonical JSON
  text of a value: \<open>json.dumps(payload, sort_keys=True, separators=(",", ":"), ensure_ascii=False)\<close>
  as \<open>audit_service._canonical\<close> calls it. A float is carried by its \<open>repr\<close> text and a value of
  any other class by its \<open>str\<close> text. A dictionary is the association list of its items in
  insertion order with distinct keys. The lemmas show that the text of a record of scalars
  determines the scalars.
\<close>

datatype pyvalue =
    PNone
  | PBool bool
  | PInt int
  | PFloat string
  | PStr string
  | PList "pyvalue list"
  | PDict "(string \<times> pyvalue) list"
  | POther string

text \<open>\<open>d[k] = v\<close>.\<close>

fun dict_put :: "(string \<times> 'v) list \<Rightarrow> string \<Rightarrow> 'v \<Rightarrow> (string \<times> 'v) list" where
  "dict_put [] k v = [(k, v)]"
| "dict_put ((k', v') # rest) k v = (if k' = k then (k, v) # rest else (k', v') # dict_put rest k v)"

lemma dict_put_keys: "set (map fst (dict_put d k v)) = insert k (set (map fst d))"
  by (induction d k v rule: dict_put.induct) (simp_all add: insert_commute split: if_splits)

lemma dict_put_distinct: "distinct (map fst d) \<Longrightarrow> distinct (map fst (dict_put d k v))"
proof (induction d)
  case (Cons kv d)
  then show ?case using dict_put_keys [of d k v] by (cases kv) auto
qed simp

lemma dict_put_mem: "(k', v') \<in> set (dict_put d k v) \<Longrightarrow> (k', v') = (k, v) \<or> (k', v') \<in> set d"
  by (induction d) (auto split: if_splits)

lemma length_dict_put: "length (dict_put d k v) \<le> Suc (length d)"
  by (induction d) auto

lemma dict_put_fresh: "k \<notin> set (map fst d) \<Longrightarrow> dict_put d k v = d @ [(k, v)]"
  by (induction d) auto


section \<open>JSON text\<close>

definition hex_digit :: "nat \<Rightarrow> char" where
  "hex_digit n = ''0123456789abcdef'' ! n"

text \<open>The two-character escapes of \<open>json.encoder\<close>: the letter after the backslash.\<close>

definition short_escape :: "char \<Rightarrow> char option" where
  "short_escape c =
     (if c = CHR 0x22 then Some CHR 0x22 else if c = CHR 0x5C then Some CHR 0x5C
      else if c = CHR 0x0A then Some CHR ''n'' else if c = CHR 0x0D then Some CHR ''r''
      else if c = CHR 0x09 then Some CHR ''t'' else if c = CHR 0x0C then Some CHR ''f''
      else if c = CHR 0x08 then Some CHR ''b'' else None)"

definition json_escape :: "char \<Rightarrow> string" where
  "json_escape c =
     (case short_escape c of
        Some x \<Rightarrow> [CHR 0x5C, x]
      | None \<Rightarrow>
          (let n = (of_char c :: nat)
           in if n < 32
              then [CHR 0x5C, CHR ''u'', CHR ''0'', CHR ''0'', hex_digit (n div 16), hex_digit (n mod 16)]
              else [c]))"

definition json_string :: "string \<Rightarrow> string" where
  "json_string s = CHR 0x22 # concat (map json_escape s) @ [CHR 0x22]"

function canonical :: "pyvalue \<Rightarrow> string" where
  "canonical PNone = ''null''"
| "canonical (PBool b) = (if b then ''true'' else ''false'')"
| "canonical (PInt i) = str_int i"
| "canonical (PFloat t) = t"
| "canonical (PStr s) = json_string s"
| "canonical (PList xs) = ''['' @ join '','' (map canonical xs) @ '']''"
| "canonical (PDict d) =
     ''{'' @ join '','' (map (\<lambda>(k, v). json_string k @ '':'' @ canonical v) (sort_key fst d)) @ ''}''"
| "canonical (POther t) = json_string t"
  by pat_completeness auto
termination
proof (relation "measure size")
  fix xs :: "pyvalue list" and x assume "x \<in> set xs"
  then show "(x, PList xs) \<in> measure size"
    using size_list_estimation' [of x xs "size x" size] by simp
next
  fix d :: "(string \<times> pyvalue) list" and z k v assume "z \<in> set (sort_key fst d)" "(k, v) = z"
  then have "(k, v) \<in> set d" by simp
  then show "(v, PDict d) \<in> measure size"
    using size_list_estimation' [of "(k, v)" d "size v" "size_prod (\<lambda>_. 0) size"] by simp
qed simp


section \<open>The text determines the value\<close>

subsection \<open>Numbers\<close>

definition digit_value :: "char \<Rightarrow> nat" where
  "digit_value c = of_char c - 48"

definition digits_nat :: "string \<Rightarrow> nat" where
  "digits_nat s = foldl (\<lambda>a c. a * 10 + digit_value c) 0 s"

lemma digit_char_simps:
  "n < 10 \<Longrightarrow> is_digit (digit_char n) \<and> digit_value (digit_char n) = n"
  by (simp add: digit_char_def is_digit_def digit_value_def)

lemma digits_nat_str_nat: "digits_nat (str_nat n) = n"
proof (induction n rule: str_nat.induct)
  case (1 n)
  then show ?case
    by (subst str_nat.simps) (auto simp: digits_nat_def digit_char_simps)
qed

lemma str_nat_digits: "list_all is_digit (str_nat n) \<and> str_nat n \<noteq> []"
proof (induction n rule: str_nat.induct)
  case (1 n)
  then show ?case by (subst str_nat.simps, subst str_nat.simps) (auto simp: digit_char_simps)
qed

lemma str_nat_inj: "str_nat m = str_nat n \<Longrightarrow> m = n"
  by (metis digits_nat_str_nat)

text \<open>Text up to a separator is determined when no character of it satisfies the end test.\<close>

lemma takeWhile_tail:
  "list_all P s \<Longrightarrow> \<not> P c \<Longrightarrow> takeWhile P (s @ c # r) = s \<and> dropWhile P (s @ c # r) = c # r"
  by (induction s) auto

lemma run_inj:
  assumes "list_all P s" "list_all P s'" "\<not> P c" "\<not> P c'" "s @ c # r = s' @ c' # r'"
  shows "s = s' \<and> c # r = c' # r'"
  using takeWhile_tail [OF assms(1,3), of r] takeWhile_tail [OF assms(2,4), of r'] assms(5) by metis


subsection \<open>Strings\<close>

definition hex_value :: "char \<Rightarrow> nat" where
  "hex_value c = (if is_digit c then of_char c - 48 else of_char c - 87)"

lemma hex_value_digit: "n < 16 \<Longrightarrow> hex_value (hex_digit n) = n"
proof -
  have "\<forall>n \<in> set [0..<16]. hex_value (hex_digit n) = n" by code_simp
  then show "n < 16 \<Longrightarrow> hex_value (hex_digit n) = n" by simp
qed

text \<open>Reading back one escaped character.\<close>

fun unescape :: "string \<Rightarrow> char \<times> string" where
  "unescape [] = (CHR 0x00, [])"
| "unescape (x # xs) =
     (if x \<noteq> CHR 0x5C then (x, xs)
      else (case xs of
              CHR ''u'' # _ # _ # a # b # r \<Rightarrow> (char_of (16 * hex_value a + hex_value b), r)
            | CHR ''n'' # r \<Rightarrow> (CHR 0x0A, r) | CHR ''r'' # r \<Rightarrow> (CHR 0x0D, r)
            | CHR ''t'' # r \<Rightarrow> (CHR 0x09, r) | CHR ''f'' # r \<Rightarrow> (CHR 0x0C, r)
            | CHR ''b'' # r \<Rightarrow> (CHR 0x08, r)
            | y # r \<Rightarrow> (y, r) | [] \<Rightarrow> (x, [])))"

lemma unescape_escape: "unescape (json_escape c @ r) = (c, r)"
proof (cases "short_escape c")
  case None
  show ?thesis
  proof (cases "(of_char c :: nat) < 32")
    case True
    have "hex_value (hex_digit (of_char c div 16)) = of_char c div 16"
      "hex_value (hex_digit (of_char c mod 16)) = of_char c mod 16"
      using True by (auto intro!: hex_value_digit)
    moreover have "16 * (of_char c div 16) + of_char c mod 16 = (of_char c :: nat)" by simp
    ultimately show ?thesis using None True by (simp add: json_escape_def Let_def)
  next
    case False
    then have "c \<noteq> CHR 0x5C" using None by (auto simp: short_escape_def split: if_splits)
    with None False show ?thesis by (simp add: json_escape_def Let_def)
  qed
next
  case (Some x)
  then show ?thesis by (auto simp: json_escape_def short_escape_def split: if_splits)
qed

lemma json_escape_hd: "json_escape c \<noteq> [] \<and> hd (json_escape c) \<noteq> CHR 0x22"
  by (auto simp: json_escape_def short_escape_def Let_def split: if_splits)

lemma escaped_inj:
  "concat (map json_escape s) @ CHR 0x22 # r = concat (map json_escape s') @ CHR 0x22 # r' \<Longrightarrow>
     s = s' \<and> r = r'"
proof (induction s arbitrary: s')
  case Nil
  show ?case
  proof (cases s')
    case Nil
    with \<open>concat (map json_escape []) @ CHR 0x22 # r = _\<close> show ?thesis by simp
  next
    case (Cons a t)
    with \<open>concat (map json_escape []) @ CHR 0x22 # r = _\<close> json_escape_hd [of a] show ?thesis
      by (cases "json_escape a") auto
  qed
next
  case (Cons c s)
  show ?case
  proof (cases s')
    case Nil
    with Cons.prems json_escape_hd [of c] show ?thesis by (cases "json_escape c") auto
  next
    case (Cons c' t)
    let ?X = "concat (map json_escape s) @ CHR 0x22 # r"
    let ?Y = "concat (map json_escape t) @ CHR 0x22 # r'"
    have "unescape (json_escape c @ ?X) = unescape (json_escape c' @ ?Y)"
      using Cons.prems Cons by simp
    then have "c = c'" "?X = ?Y" unfolding unescape_escape by simp_all
    with Cons.IH Cons show ?thesis by simp
  qed
qed


subsection \<open>Records of scalars\<close>

fun scalar :: "pyvalue \<Rightarrow> bool" where
  "scalar PNone = True"
| "scalar (PStr s) = True"
| "scalar (PInt i) = (0 \<le> i)"
| "scalar _ = False"

definition separator :: "char \<Rightarrow> bool" where
  "separator c \<longleftrightarrow> c = CHR '','' \<or> c = CHR 0x7D"

lemma scalar_cases:
  assumes "scalar v"
  obtains "v = PNone" | s where "v = PStr s" | n where "v = PInt (int n)"
  using assms by (cases v) (auto dest: zero_le_imp_eq_int)

lemma separator_not_digit: "separator c \<Longrightarrow> \<not> is_digit c"
  by (auto simp: separator_def is_digit_def)

lemma str_nat_hd: "\<exists>c cs. str_nat n = c # cs \<and> is_digit c"
  using str_nat_digits [of n] by (cases "str_nat n") auto

lemma not_digits: "\<not> is_digit CHR ''n''" "\<not> is_digit CHR 0x22"
  by code_simp+

text \<open>The first character of a scalar tells its kind.\<close>

fun kind_of_head :: "char \<Rightarrow> nat" where
  "kind_of_head h = (if h = CHR ''n'' then 0 else if h = CHR 0x22 then 1 else 2)"

fun kind_of :: "pyvalue \<Rightarrow> nat" where
  "kind_of PNone = 0"
| "kind_of (PStr s) = 1"
| "kind_of _ = 2"

lemma scalar_head: "scalar v \<Longrightarrow> canonical v \<noteq> [] \<and> kind_of_head (hd (canonical v)) = kind_of v"
proof (erule scalar_cases)
  fix n assume v: "v = PInt (int n)"
  obtain c cs where c: "str_nat n = c # cs" "is_digit c" using str_nat_hd by blast
  have "c \<noteq> CHR ''n''" "c \<noteq> CHR 0x22" using c(2) not_digits by auto
  then show ?thesis by (simp add: v str_int_def c(1))
qed (simp_all add: json_string_def)

lemma scalar_text_inj:
  assumes v: "scalar v" "scalar v'" and c: "separator c" "separator c'"
    and eq: "canonical v @ c # r = canonical v' @ c' # r'"
  shows "v = v' \<and> c # r = c' # r'"
proof -
  have "hd (canonical v) = hd (canonical v')"
    using eq scalar_head [OF v(1)] scalar_head [OF v(2)] by (metis hd_append2)
  then have k: "kind_of v = kind_of v'" using scalar_head v by metis
  from v(1) show ?thesis
  proof (cases rule: scalar_cases)
    case 1
    with v(2) k have "v' = PNone" by (cases v') auto
    with 1 eq show ?thesis by simp
  next
    case (2 s)
    with v(2) k obtain s' where "v' = PStr s'" by (cases v') auto
    with 2 eq escaped_inj [of s "c # r" s' "c' # r'"] show ?thesis by (simp add: json_string_def)
  next
    case (3 n)
    with v(2) k obtain n' where v': "v' = PInt (int n')" by (cases v') (auto dest: zero_le_imp_eq_int)
    have "str_nat n @ c # r = str_nat n' @ c' # r'" using eq 3 v' by (simp add: str_int_def)
    with run_inj [of is_digit "str_nat n" "str_nat n'" c c' r r'] str_nat_digits c separator_not_digit
    have "str_nat n = str_nat n' \<and> c # r = c' # r'" by blast
    with 3 v' str_nat_inj show ?thesis by blast
  qed
qed

definition json_item :: "string \<times> pyvalue \<Rightarrow> string" where
  "json_item = (\<lambda>(k, v). json_string k @ '':'' @ canonical v)"

lemma items_inj:
  assumes "list_all scalar vs" "list_all scalar vs'" "length vs = length ks" "length vs' = length ks"
    "join '','' (map json_item (zip ks vs)) @ ''}'' = join '','' (map json_item (zip ks vs')) @ ''}''"
  shows "vs = vs'"
  using assms
proof (induction ks arbitrary: vs vs')
  case Nil
  then show ?case by simp
next
  case (Cons k ks)
  obtain v ws where vs: "vs = v # ws" using Cons.prems(3) by (cases vs) auto
  obtain v' ws' where vs': "vs' = v' # ws'" using Cons.prems(4) by (cases vs') auto
  have tail: "join '','' (map json_item (zip (k # ks) (x # xs))) @ ''}'' =
      json_string k @ '':'' @ canonical x @
        (if ks = [] then ''}'' else '','' @ join '','' (map json_item (zip ks xs)) @ ''}'')"
    if "length xs = length ks" for x xs
    using that by (cases ks; cases xs) (auto simp: json_item_def)
  let ?t = "\<lambda>xs. if ks = [] then ''}'' else '','' @ join '','' (map json_item (zip ks xs)) @ ''}''"
  have lens: "length ws = length ks" "length ws' = length ks" using Cons.prems vs vs' by simp_all
  have "canonical v @ ?t ws = canonical v' @ ?t ws'"
    using Cons.prems(5) unfolding vs vs' tail [OF lens(1)] tail [OF lens(2)] by simp
  moreover obtain c r where c: "?t ws = c # r" "separator c" by (cases "ks = []") (auto simp: separator_def)
  moreover obtain c' r' where c': "?t ws' = c' # r'" "separator c'" by (cases "ks = []") (auto simp: separator_def)
  moreover have "scalar v" "scalar v'" using Cons.prems vs vs' by simp_all
  ultimately have eq: "v = v'" "?t ws = ?t ws'" using scalar_text_inj [of v v' c c' r r'] by auto
  have "ws = ws'"
  proof (cases "ks = []")
    case True
    with lens show ?thesis by simp
  next
    case False
    with eq(2) have "join '','' (map json_item (zip ks ws)) @ ''}'' = join '','' (map json_item (zip ks ws')) @ ''}''"
      by simp
    with Cons.IH [of ws ws'] Cons.prems lens vs vs' show ?thesis by simp
  qed
  with eq vs vs' show ?case by simp
qed

lemma record_text_inj:
  assumes "sorted ks" "list_all scalar vs" "list_all scalar vs'" "length vs = length ks" "length vs' = length ks"
    "canonical (PDict (zip ks vs)) = canonical (PDict (zip ks vs'))"
  shows "vs = vs'"
proof -
  have "sort_key fst (zip ks xs) = zip ks xs" if "length xs = length ks" for xs :: "pyvalue list"
    using assms(1) that by (intro sort_key_id_if_sorted) simp
  then show ?thesis
    using assms(6) items_inj [OF assms(2-5)] assms(4,5) by (simp add: json_item_def)
qed

end
