(* ===== verification/Redaction.thy ===== *)
theory Redaction
  imports Py_Values
begin

text \<open>
  Redaction of audit metadata (\<open>access_control/redaction.py\<close>): the value of every key whose
  name contains a sensitive word is replaced, containers are cut to 50 entries, keys to 100 and
  texts to 500 characters, and nesting to seven levels. The words are the contents of
  \<open>rules/sensitive_keys.json\<close>. A dictionary key is given as its \<open>str\<close> text.
\<close>

definition sensitive_words :: "string list" where
  "sensitive_words =
     [''password'', ''password_hash'', ''temporary_password'', ''secret'', ''token'', ''token_hash'',
      ''csrf'', ''cookie'', ''authorization'', ''otp'', ''totp'', ''recovery_code'', ''session'']"

definition sensitive :: "string \<Rightarrow> bool" where
  "sensitive key =
     (let normalized = replace_char CHR ''-'' ''_'' (casefold key)
      in list_ex (\<lambda>part. py_in part normalized) (map casefold sensitive_words))"

definition put_item :: "(string \<times> pyvalue) list \<Rightarrow> string \<times> pyvalue \<Rightarrow> (string \<times> pyvalue) list" where
  "put_item result = (\<lambda>(k, v). dict_put result k v)"

function redact :: "nat \<Rightarrow> pyvalue \<Rightarrow> pyvalue" where
  "redact depth value =
     (if 6 < depth then PStr ''[TRUNCATED]''
      else (case value of
          PDict d \<Rightarrow>
            PDict (foldl put_item []
              (map (\<lambda>(key, item).
                 let key_text = take 100 key
                 in (key_text, if sensitive key_text then PStr ''[REDACTED]'' else redact (depth + 1) item))
               (take 50 d)))
        | PList xs \<Rightarrow> PList (map (redact (depth + 1)) (take 50 xs))
        | PStr s \<Rightarrow> PStr (take 500 s)
        | PNone \<Rightarrow> PNone
        | PBool b \<Rightarrow> PBool b
        | PInt i \<Rightarrow> PInt i
        | PFloat t \<Rightarrow> PFloat t
        | POther t \<Rightarrow> PStr (take 500 t)))"
  by pat_completeness auto
termination
  by (relation "measure (\<lambda>(depth, value). 7 - depth)") auto

declare redact.simps [simp del]


section \<open>Laws\<close>

text \<open>What a redacted value may contain.\<close>

fun redacted :: "nat \<Rightarrow> pyvalue \<Rightarrow> bool" where
  "redacted 0 value = (value = PStr ''[TRUNCATED]'')"
| "redacted (Suc levels) value =
     (case value of
        PDict d \<Rightarrow> length d \<le> 50 \<and> distinct (map fst d) \<and>
          list_all (\<lambda>(k, v). length k \<le> 100 \<and>
            (if sensitive k then v = PStr ''[REDACTED]'' else redacted levels v)) d
      | PList xs \<Rightarrow> length xs \<le> 50 \<and> list_all (redacted levels) xs
      | PStr s \<Rightarrow> length s \<le> 500
      | POther t \<Rightarrow> False
      | _ \<Rightarrow> True)"

lemma foldl_put_item:
  assumes "distinct (map fst r)" "\<forall>kv \<in> set r. P kv" "\<forall>kv \<in> set items. P kv"
  shows "distinct (map fst (foldl put_item r items)) \<and> (\<forall>kv \<in> set (foldl put_item r items). P kv) \<and>
     length (foldl put_item r items) \<le> length r + length items"
  using assms
proof (induction items arbitrary: r)
  case Nil
  then show ?case by simp
next
  case (Cons kv items)
  obtain k v where kv: "kv = (k, v)" by fastforce
  have "distinct (map fst (dict_put r k v))" using Cons.prems(1) by (rule dict_put_distinct)
  moreover have "\<forall>kv \<in> set (dict_put r k v). P kv"
    using Cons.prems kv dict_put_mem [of _ _ r k v] by fastforce
  ultimately show ?case
    using Cons.IH [of "dict_put r k v"] Cons.prems length_dict_put [of r k v]
    by (auto simp: kv put_item_def)
qed

lemma redact_redacted: "depth \<le> 7 \<Longrightarrow> redacted (7 - depth) (redact depth val)"
proof (induction "7 - depth" arbitrary: depth val)
  case 0
  then show ?case by (subst redact.simps) simp
next
  case (Suc levels)
  then have d: "7 - depth = Suc levels" "7 - (depth + 1) = levels" "\<not> 6 < depth" "depth + 1 \<le> 7" by auto
  have IH: "redacted levels (redact (depth + 1) v)" for v
    using Suc.hyps(1) [of "depth + 1" v] d by simp
  show ?case
  proof (cases val)
    case (PDict items)
    let ?P = "\<lambda>(k, v). length k \<le> 100 \<and> (if sensitive k then v = PStr ''[REDACTED]'' else redacted levels v)"
    let ?items = "map (\<lambda>(key, item). let key_text = take 100 key
        in (key_text, if sensitive key_text then PStr ''[REDACTED]'' else redact (depth + 1) item)) (take 50 items)"
    have "\<forall>kv \<in> set ?items. ?P kv" using IH by (auto simp: Let_def)
    from foldl_put_item [of "[]" ?P ?items, OF _ _ this]
    have "distinct (map fst (foldl put_item [] ?items))" "\<forall>kv \<in> set (foldl put_item [] ?items). ?P kv"
        "length (foldl put_item [] ?items) \<le> length ?items" by simp_all
    moreover have "length ?items \<le> 50" by simp
    moreover have "redact depth val = PDict (foldl put_item [] ?items)"
      using d by (subst redact.simps) (simp add: PDict)
    ultimately show ?thesis unfolding d(1) by (simp add: list_all_iff)
  next
    case (PList xs)
    then show ?thesis using d IH by (subst redact.simps) (simp add: list_all_iff)
  qed (use d in \<open>subst redact.simps, simp\<close>)+
qed

lemma foldl_put_item_distinct:
  "distinct (map fst (r @ items)) \<Longrightarrow> foldl put_item r items = r @ items"
proof (induction items arbitrary: r)
  case (Cons kv items)
  obtain k v where kv: "kv = (k, v)" by fastforce
  with Cons.prems have "dict_put r k v = r @ [(k, v)]" by (intro dict_put_fresh) auto
  with Cons.IH [of "r @ [(k, v)]"] Cons.prems show ?case by (simp add: kv put_item_def)
qed simp

text \<open>A redacted value is a fixed point.\<close>

lemma redacted_fixed: "depth \<le> 7 \<Longrightarrow> redacted (7 - depth) val \<Longrightarrow> redact depth val = val"
proof (induction "7 - depth" arbitrary: depth val)
  case 0
  then show ?case by (subst redact.simps) simp
next
  case (Suc levels)
  then have d: "7 - depth = Suc levels" "7 - (depth + 1) = levels" "\<not> 6 < depth" "depth + 1 \<le> 7" by auto
  have IH: "redacted levels v \<Longrightarrow> redact (depth + 1) v = v" for v
    using Suc.hyps(1) [of "depth + 1" v] d by simp
  show ?case
  proof (cases val)
    case (PDict items)
    with Suc.prems(2) d have i: "length items \<le> 50" "distinct (map fst items)"
        "\<And>k v. (k, v) \<in> set items \<Longrightarrow> length k \<le> 100 \<and> (if sensitive k then v = PStr ''[REDACTED]'' else redacted levels v)"
      by (auto simp: list_all_iff)
    let ?f = "\<lambda>(key, item). let key_text = take 100 key
        in (key_text, if sensitive key_text then PStr ''[REDACTED]'' else redact (depth + 1) item)"
    have f: "?f x = x" if "x \<in> set items" for x
    proof -
      obtain k v where x: "x = (k, v)" by fastforce
      with i(3) [of k v] that IH [of v] show ?thesis by (auto simp: Let_def)
    qed
    have "map ?f (take 50 items) = items"
      using i(1) f by (simp add: map_idI)
    moreover have "foldl put_item [] items = items" using foldl_put_item_distinct [of "[]" items] i(2) by simp
    ultimately show ?thesis using d by (subst redact.simps) (simp add: PDict)
  next
    case (PList xs)
    with Suc.prems(2) d have "length xs \<le> 50" "\<And>x. x \<in> set xs \<Longrightarrow> redacted levels x" by (auto simp: list_all_iff)
    then have "map (redact (depth + 1)) (take 50 xs) = xs" using IH by (simp add: map_idI)
    then show ?thesis using d by (subst redact.simps) (simp add: PList)
  qed (use d Suc.prems(2) in \<open>subst redact.simps, simp\<close>)+
qed


section \<open>Properties\<close>

text \<open>Redaction is complete and bounded: in the redacted metadata, at every depth, the value
  of a key whose name contains a sensitive word is the placeholder, containers have at most 50
  entries, keys at most 100 and texts at most 500 characters, and nothing is nested deeper than
  seven levels; redacting twice changes nothing.\<close>

theorem redact_complete_and_idempotent:
  "redacted 7 (redact 0 val) \<and> redact 0 (redact 0 val) = redact 0 val"
proof -
  have r: "redacted (7 - 0) (redact 0 val)" by (rule redact_redacted) simp
  with redacted_fixed [of 0 "redact 0 val"] show ?thesis by simp
qed

end
