(* ===== verification/Iso_Time.thy ===== *)
theory Iso_Time
  imports Py_Values
begin

text \<open>
  \<open>datetime.isoformat()\<close> of a naive UTC time: the civil date and the time of day of a number
  of microseconds since the epoch, in the text form that the audit log hashes. The lemmas show
  that the text determines the time for every time up to the year 9999, the range of a Python
  \<open>datetime\<close>.
\<close>

fun pad :: "nat \<Rightarrow> nat \<Rightarrow> string" where
  "pad 0 n = []"
| "pad (Suc w) n = pad w (n div 10) @ [digit_char (n mod 10)]"

definition leap_year :: "nat \<Rightarrow> bool" where
  "leap_year y \<longleftrightarrow> y mod 4 = 0 \<and> (y mod 100 \<noteq> 0 \<or> y mod 400 = 0)"

definition year_length :: "nat \<Rightarrow> nat" where
  "year_length y = (if leap_year y then 366 else 365)"

definition month_lengths :: "nat \<Rightarrow> nat list" where
  "month_lengths y = [31, if leap_year y then 29 else 28, 31, 30, 31, 30, 31, 31, 30, 31, 30, 31]"

function year_from :: "nat \<Rightarrow> nat \<Rightarrow> nat \<times> nat" where
  "year_from y d = (if d < year_length y then (y, d) else year_from (Suc y) (d - year_length y))"
  by pat_completeness auto
termination
  by (relation "measure snd") (auto simp: year_length_def split: if_splits)

declare year_from.simps [simp del]

fun month_from :: "nat \<Rightarrow> nat list \<Rightarrow> nat \<Rightarrow> nat \<times> nat" where
  "month_from m [] d = (m, d)"
| "month_from m (l # ls) d = (if d < l then (m, d) else month_from (Suc m) ls (d - l))"

definition date_text :: "nat \<Rightarrow> string" where
  "date_text day =
     (let (y, d) = year_from 1970 day; (m, md) = month_from 1 (month_lengths y) d
      in pad 4 y @ ''-'' @ pad 2 m @ ''-'' @ pad 2 (Suc md))"

definition clock_text :: "nat \<Rightarrow> string" where
  "clock_text s = pad 2 (s div 3600) @ '':'' @ pad 2 (s mod 3600 div 60) @ '':'' @ pad 2 (s mod 60)"

definition fraction_text :: "nat \<Rightarrow> string" where
  "fraction_text micro = (if micro = 0 then [] else ''.'' @ pad 6 micro)"

definition isoformat :: "time \<Rightarrow> string" where
  "isoformat t =
     (let secs = nat (t div 1000000); micro = nat (t mod 1000000)
      in date_text (secs div 86400) @ ''T'' @ clock_text (secs mod 86400) @
         fraction_text micro)"

definition time_ok :: "time \<Rightarrow> bool" where
  "time_ok t \<longleftrightarrow> 0 \<le> t \<and> fst (year_from 1970 (nat (t div 1000000) div 86400)) \<le> 9999"


section \<open>Fixed-width numbers\<close>

lemma length_pad [simp]: "length (pad w n) = w"
  by (induction w arbitrary: n) auto

lemma digits_nat_snoc: "digits_nat (s @ [c]) = digits_nat s * 10 + digit_value c"
  by (simp add: digits_nat_def)

lemma digits_nat_pad: "n < 10 ^ w \<Longrightarrow> digits_nat (pad w n) = n"
proof (induction w arbitrary: n)
  case 0
  then show ?case by (simp add: digits_nat_def)
next
  case (Suc w)
  then have "n div 10 < 10 ^ w" by (simp add: less_mult_imp_div_less mult.commute)
  with Suc.IH show ?case by (simp add: digits_nat_snoc digit_char_simps)
qed

lemma pad_inj: "m < 10 ^ w \<Longrightarrow> n < 10 ^ w \<Longrightarrow> pad w m = pad w n \<Longrightarrow> m = n"
  by (metis digits_nat_pad)


section \<open>Dates\<close>

lemma year_from_sum:
  "year_from y d = (y', d') \<Longrightarrow> y \<le> y' \<and> d = d' + sum_list (map year_length [y..<y']) \<and> d' < year_length y'"
proof (induction y d rule: year_from.induct)
  case (1 y d)
  show ?case
  proof (cases "d < year_length y")
    case True
    with 1(2) show ?thesis by (subst (asm) year_from.simps) simp
  next
    case False
    then have "year_from (Suc y) (d - year_length y) = (y', d')"
      using 1(2) by (subst (asm) year_from.simps) simp
    from 1(1) [OF False this] have r: "Suc y \<le> y'" "d - year_length y = d' + sum_list (map year_length [Suc y..<y'])"
      "d' < year_length y'" by simp_all
    moreover have "[y..<y'] = y # [Suc y..<y']" using r(1) by (simp add: upt_conv_Cons)
    ultimately show ?thesis using False by simp
  qed
qed

lemma month_from_sum:
  "month_from m ls d = (m', d') \<Longrightarrow> d < sum_list ls \<Longrightarrow>
     m \<le> m' \<and> m' < m + length ls \<and> d = d' + sum_list (take (m' - m) ls) \<and> (\<exists>l \<in> set ls. d' < l)"
proof (induction m ls d rule: month_from.induct)
  case (2 m l ls d)
  show ?case
  proof (cases "d < l")
    case True
    with 2 show ?thesis by auto
  next
    case False
    with 2 have r: "Suc m \<le> m'" "m' < Suc m + length ls" "d - l = d' + sum_list (take (m' - Suc m) ls)"
        "\<exists>l \<in> set ls. d' < l" by auto
    have "m' - m = Suc (m' - Suc m)" using r(1) by simp
    then have "take (m' - m) (l # ls) = l # take (m' - Suc m) ls" by simp
    with r False show ?thesis by auto
  qed
qed simp

lemma sum_month_lengths: "sum_list (month_lengths y) = year_length y"
  by (simp add: month_lengths_def year_length_def)

lemma month_length_bound: "l \<in> set (month_lengths y) \<Longrightarrow> l \<le> 31"
  by (auto simp: month_lengths_def split: if_splits)

lemma date_text_inj:
  assumes "date_text a = date_text b" "fst (year_from 1970 a) \<le> 9999" "fst (year_from 1970 b) \<le> 9999"
  shows "a = b"
proof -
  obtain ya da where ya: "year_from 1970 a = (ya, da)" by fastforce
  obtain yb db where yb: "year_from 1970 b = (yb, db)" by fastforce
  obtain ma pa where ma: "month_from (Suc 0) (month_lengths ya) da = (ma, pa)" by fastforce
  obtain mb pb where mb: "month_from (Suc 0) (month_lengths yb) db = (mb, pb)" by fastforce
  note sa = year_from_sum [OF ya] and sb = year_from_sum [OF yb]
  have la: "da < sum_list (month_lengths ya)" and lb: "db < sum_list (month_lengths yb)"
    using sa sb by (simp_all add: sum_month_lengths)
  note ta = month_from_sum [OF ma la] and tb = month_from_sum [OF mb lb]
  have ba: "ma < 13" "pa < 31" using ta month_length_bound [of _ ya] by (fastforce simp: month_lengths_def)+
  have bb: "mb < 13" "pb < 31" using tb month_length_bound [of _ yb] by (fastforce simp: month_lengths_def)+
  have "pad 4 ya = pad 4 yb" "pad 2 ma = pad 2 mb" "pad 2 (Suc pa) = pad 2 (Suc pb)"
    using assms(1) by (simp_all add: date_text_def ya yb ma mb)
  then have eq: "ya = yb" "ma = mb" "pa = pb"
    using pad_inj [of ya 4 yb] pad_inj [of ma 2 mb] pad_inj [of "Suc pa" 2 "Suc pb"] assms(2,3) ya yb ba bb
    by simp_all
  with ta tb have "da = db" by simp
  with eq sa sb show ?thesis by simp
qed

lemma clock_text_inj:
  assumes "clock_text a = clock_text b" "a < 86400" "b < 86400"
  shows "a = b"
proof -
  have "pad 2 (a div 3600) = pad 2 (b div 3600)" "pad 2 (a mod 3600 div 60) = pad 2 (b mod 3600 div 60)"
      "pad 2 (a mod 60) = pad 2 (b mod 60)"
    using assms(1) by (simp_all add: clock_text_def)
  moreover have "x div 3600 < 10 ^ 2" if "x < 86400" for x :: nat
    using that by (simp add: div_less_iff_less_mult)
  moreover have "x mod 3600 div 60 < 10 ^ 2" "x mod 60 < 10 ^ 2" for x :: nat
    by (simp_all add: div_less_iff_less_mult order_less_trans [OF mod_less_divisor])
  ultimately have "a div 3600 = b div 3600" "a mod 3600 div 60 = b mod 3600 div 60" "a mod 60 = b mod 60"
    using pad_inj [of "a div 3600" 2 "b div 3600"] pad_inj [of "a mod 3600 div 60" 2 "b mod 3600 div 60"]
      pad_inj [of "a mod 60" 2 "b mod 60"] assms(2,3) by blast+
  moreover have split: "x = (x div 3600) * 3600 + ((x mod 3600 div 60) * 60 + x mod 60)" for x :: nat
  proof -
    have "x mod 3600 mod 60 = x mod 60" by (simp add: mod_mod_cancel)
    then have "(x mod 3600 div 60) * 60 + x mod 60 = x mod 3600" by (metis div_mult_mod_eq)
    then show ?thesis by simp
  qed
  ultimately have "(a div 3600) * 3600 + ((a mod 3600 div 60) * 60 + a mod 60) =
      (b div 3600) * 3600 + ((b mod 3600 div 60) * 60 + b mod 60)" by simp
  then show ?thesis unfolding split [symmetric] .
qed

lemma length_clock_text [simp]: "length (clock_text s) = 8"
  by (simp add: clock_text_def)

lemma length_date_text [simp]: "length (date_text d) = 10"
  by (simp add: date_text_def split: prod.split)

lemma equal_length_append: "length a = length b \<Longrightarrow> a @ x = b @ y \<Longrightarrow> a = b \<and> x = y"
  by simp

lemma fraction_text_inj:
  "fraction_text a = fraction_text b \<Longrightarrow> a < 10 ^ 6 \<Longrightarrow> b < 10 ^ 6 \<Longrightarrow> a = b"
  using pad_inj [of a 6 b] by (auto simp: fraction_text_def split: if_splits)

lemma isoformat_inj:
  assumes "isoformat s = isoformat t" "time_ok s" "time_ok t"
  shows "s = t"
proof -
  define a b where "a = nat (s div 1000000)" and "b = nat (t div 1000000)"
  define p q where "p = nat (s mod 1000000)" and "q = nat (t mod 1000000)"
  have pos: "0 \<le> s" "0 \<le> t" using assms(2,3) by (simp_all add: time_ok_def)
  have "date_text (a div 86400) @ ''T'' @ clock_text (a mod 86400) @ fraction_text p =
      date_text (b div 86400) @ ''T'' @ clock_text (b mod 86400) @ fraction_text q"
    using assms(1) unfolding isoformat_def Let_def a_def b_def p_def q_def .
  from equal_length_append [OF _ this] have e1: "date_text (a div 86400) = date_text (b div 86400)"
      and "''T'' @ clock_text (a mod 86400) @ fraction_text p = ''T'' @ clock_text (b mod 86400) @ fraction_text q"
    by simp_all
  then have "clock_text (a mod 86400) @ fraction_text p = clock_text (b mod 86400) @ fraction_text q" by simp
  from equal_length_append [OF _ this] have e2: "clock_text (a mod 86400) = clock_text (b mod 86400)"
      and e3: "fraction_text p = fraction_text q" by simp_all
  have "a div 86400 = b div 86400"
    using date_text_inj [OF e1] assms(2,3) by (simp add: time_ok_def a_def b_def)
  moreover have "a mod 86400 = b mod 86400" using clock_text_inj [OF e2] by simp
  ultimately have "a = b" by (metis div_mult_mod_eq)
  then have d: "s div 1000000 = t div 1000000"
    using pos by (simp add: a_def b_def eq_nat_nat_iff pos_imp_zdiv_nonneg_iff)
  have "p < 10 ^ 6" "q < 10 ^ 6" by (simp_all add: p_def q_def nat_less_iff)
  with e3 have "p = q" by (intro fraction_text_inj)
  then have m: "s mod 1000000 = t mod 1000000" by (simp add: p_def q_def eq_nat_nat_iff)
  have "s = s div 1000000 * 1000000 + s mod 1000000" by simp
  also have "\<dots> = t" unfolding d m by simp
  finally show ?thesis .
qed

end
