(* ===== verification/Audit_Log.thy ===== *)
theory Audit_Log
  imports Roles Redaction Iso_Time
begin

text \<open>
  The hash-chained audit log (\<open>access_control/audit_service.py\<close>): appending an event and
  verifying the chain. The locale \<open>hash_chain\<close> states what a chain of hashed records needs; it is
  interpreted on the events with the canonical JSON text that the code hashes, whose injectivity
  is proved. A keyword argument \<open>resource_id\<close> is given as its \<open>str\<close> text.
\<close>

section \<open>Events\<close>

record audit_args =
  aa_event_type :: string
  aa_action :: string
  aa_request_id :: string
  aa_outcome :: string
  aa_actor :: "user_account option"
  aa_resource_type :: "string option"
  aa_resource_id :: "string option"
  aa_route_template :: "string option"
  aa_request_method :: "string option"
  aa_status_code :: "nat option"
  aa_reason_code :: "string option"
  aa_metadata :: "(string \<times> pyvalue) list"
  aa_client_ip_hash :: "string option"
  aa_user_agent_summary :: "string option"

definition opt_text :: "string option \<Rightarrow> pyvalue" where
  "opt_text x = (case x of None \<Rightarrow> PNone | Some s \<Rightarrow> PStr s)"

definition opt_number :: "nat option \<Rightarrow> pyvalue" where
  "opt_number x = (case x of None \<Rightarrow> PNone | Some n \<Rightarrow> PInt (int n))"

definition hash_fields :: "security_audit_event \<Rightarrow> (string \<times> pyvalue) list" where
  "hash_fields e =
     [(''sequence_number'', PInt (int (ae_sequence_number e))),
      (''event_type'', PStr (ae_event_type e)),
      (''actor_user_id'', opt_number (ae_actor_user_id e)),
      (''actor_username_snapshot'', opt_text (ae_actor_username_snapshot e)),
      (''actor_role_keys_json'', PStr (ae_actor_role_keys_json e)),
      (''action'', PStr (ae_action e)),
      (''resource_type'', opt_text (ae_resource_type e)),
      (''resource_id'', opt_text (ae_resource_id e)),
      (''route_template'', opt_text (ae_route_template e)),
      (''request_method'', opt_text (ae_request_method e)),
      (''request_id'', PStr (ae_request_id e)),
      (''outcome'', PStr (ae_outcome e)),
      (''status_code'', opt_number (ae_status_code e)),
      (''reason_code'', opt_text (ae_reason_code e)),
      (''metadata_json'', PStr (ae_metadata_json e)),
      (''client_ip_hash'', opt_text (ae_client_ip_hash e)),
      (''user_agent_summary'', opt_text (ae_user_agent_summary e)),
      (''occurred_at'', PStr (isoformat (ae_occurred_at e))),
      (''previous_event_hash'', opt_text (ae_previous_event_hash e))]"

definition event_text :: "security_audit_event \<Rightarrow> string" where
  "event_text e = canonical (PDict (hash_fields e))"

definition hash_payload :: "crypto \<Rightarrow> security_audit_event \<Rightarrow> string" where
  "hash_payload C e = sha256_hex C (event_text e)"

definition cut :: "nat \<Rightarrow> string option \<Rightarrow> string option" where
  "cut n x = (if truthy x then Some (take n (the x)) else None)"

definition new_event :: "ctx \<Rightarrow> db \<Rightarrow> audit_args \<Rightarrow> security_audit_event" where
  "new_event cx s a =
     (let previous = latest ae_sequence_number (audit_events s)
      in \<lparr>ae_id = 0,
          ae_sequence_number = (case previous of None \<Rightarrow> 1 | Some p \<Rightarrow> ae_sequence_number p + 1),
          ae_event_type = take 80 (aa_event_type a),
          ae_actor_user_id = map_option ua_id (aa_actor a),
          ae_actor_username_snapshot = map_option (\<lambda>u. take 64 (ua_username u)) (aa_actor a),
          ae_actor_role_keys_json =
            canonical (PList (map PStr (case aa_actor a of None \<Rightarrow> [] | Some u \<Rightarrow> role_keys s (ua_id u)))),
          ae_action = take 120 (aa_action a),
          ae_resource_type = cut 80 (aa_resource_type a),
          ae_resource_id = map_option (take 100) (aa_resource_id a),
          ae_route_template = cut 250 (aa_route_template a),
          ae_request_method = cut 10 (aa_request_method a),
          ae_request_id = take 64 (aa_request_id a),
          ae_outcome = aa_outcome a,
          ae_status_code = aa_status_code a,
          ae_reason_code = cut 80 (aa_reason_code a),
          ae_metadata_json = canonical (redact 0 (PDict (aa_metadata a))),
          ae_client_ip_hash = aa_client_ip_hash a,
          ae_user_agent_summary = cut 200 (aa_user_agent_summary a),
          ae_occurred_at = cx_now cx,
          ae_previous_event_hash = map_option ae_event_hash previous,
          ae_event_hash = ''pending''\<rparr>)"

text \<open>The columns \<open>sequence_number\<close> and \<open>event_hash\<close> are unique.\<close>

definition append_event :: "ctx \<Rightarrow> audit_args \<Rightarrow> (db, security_audit_event) action" where
  "append_event cx a s =
     (let draft = new_event cx s a;
          event = draft\<lparr>ae_event_hash := hash_payload (cx_crypto cx) draft\<rparr>
      in if ae_event_hash event \<in> ae_event_hash ` set (audit_events s) \<or>
            ae_sequence_number event \<in> ae_sequence_number ` set (audit_events s)
         then (Inl IntegrityError, s)
         else (Inr (set_ae_id (next_id ae_id (audit_events s)) event),
               s\<lparr>audit_events := insert_row ae_id set_ae_id event (audit_events s)\<rparr>))"

record integrity_report =
  ir_events_examined :: nat
  ir_valid_chain :: bool
  ir_first_invalid_sequence :: "nat option"
  ir_first_invalid_event_id :: "nat option"
  ir_expected_hash :: "string option"
  ir_observed_hash :: "string option"

fun check_events :: "crypto \<Rightarrow> nat \<Rightarrow> string option \<Rightarrow> security_audit_event list \<Rightarrow> integrity_report" where
  "check_events C expected previous [] =
     \<lparr>ir_events_examined = expected - 1, ir_valid_chain = True, ir_first_invalid_sequence = None,
      ir_first_invalid_event_id = None, ir_expected_hash = None, ir_observed_hash = None\<rparr>"
| "check_events C expected previous (e # es) =
     (if ae_sequence_number e \<noteq> expected \<or> ae_previous_event_hash e \<noteq> previous \<or>
         ae_event_hash e \<noteq> hash_payload C e
      then \<lparr>ir_events_examined = expected, ir_valid_chain = False,
            ir_first_invalid_sequence = Some (ae_sequence_number e),
            ir_first_invalid_event_id = Some (ae_id e),
            ir_expected_hash = Some (hash_payload C e), ir_observed_hash = Some (ae_event_hash e)\<rparr>
      else check_events C (expected + 1) (Some (ae_event_hash e)) es)"

definition ordered_events :: "db \<Rightarrow> security_audit_event list" where
  "ordered_events s = sort_key ae_sequence_number (audit_events s)"

definition verify_integrity :: "ctx \<Rightarrow> db \<Rightarrow> integrity_report" where
  "verify_integrity cx s = check_events (cx_crypto cx) 1 None (ordered_events s)"


section \<open>Hash chains\<close>

fun linked ::
  "(string \<Rightarrow> string) \<Rightarrow> ('e \<Rightarrow> string) \<Rightarrow> ('e \<Rightarrow> nat) \<Rightarrow> ('e \<Rightarrow> string option) \<Rightarrow> ('e \<Rightarrow> string) \<Rightarrow>
     nat \<Rightarrow> string option \<Rightarrow> 'e list \<Rightarrow> bool" where
  "linked h text_of seq link stored n prev [] = True"
| "linked h text_of seq link stored n prev (e # es) =
     (seq e = n \<and> link e = prev \<and> stored e = h (text_of e) \<and>
      linked h text_of seq link stored (Suc n) (Some (stored e)) es)"

lemma linked_snoc:
  "linked h tx seq link stored n prev (es @ [e]) \<longleftrightarrow>
     linked h tx seq link stored n prev es \<and> seq e = n + length es \<and> stored e = h (tx e) \<and>
     link e = (if es = [] then prev else Some (stored (last es)))"
  by (induction es arbitrary: n prev) auto

text \<open>
  What a chained record promises: its text determines its body, its position and its link.
\<close>

locale hash_chain =
  fixes text_of :: "'e \<Rightarrow> string" and seq :: "'e \<Rightarrow> nat" and link :: "'e \<Rightarrow> string option"
    and stored :: "'e \<Rightarrow> string" and body :: "'e \<Rightarrow> 'b" and valid :: "'e \<Rightarrow> bool"
  assumes text_determines:
    "valid e \<Longrightarrow> valid e' \<Longrightarrow> text_of e = text_of e' \<Longrightarrow> body e = body e' \<and> seq e = seq e' \<and> link e = link e'"
begin

lemma determined:
  assumes "inj h" "linked h text_of seq link stored n prev es" "linked h text_of seq link stored n prev es'"
    "length es = length es'" "es \<noteq> [] \<Longrightarrow> stored (last es) = stored (last es')"
    "\<forall>e \<in> set es \<union> set es'. valid e"
  shows "map body es = map body es'"
  using assms(2-)
proof (induction es arbitrary: es' rule: rev_induct)
  case Nil
  then show ?case by simp
next
  case (snoc e es)
  obtain fs f where es': "es' = fs @ [f]" using snoc.prems(3) by (cases es' rule: rev_cases) auto
  have "stored e = stored f" using snoc.prems(4) by (simp add: es')
  moreover have l: "linked h text_of seq link stored n prev (es @ [e])" "linked h text_of seq link stored n prev (fs @ [f])"
    using snoc.prems es' by simp_all
  ultimately have "text_of e = text_of f" using \<open>inj h\<close> by (auto simp: linked_snoc dest: injD)
  then have eq: "body e = body f" "link e = link f" using snoc.prems(5) es' text_determines [of e f] by auto
  have "map body es = map body fs"
  proof (rule snoc.IH)
    show "linked h text_of seq link stored n prev es" "linked h text_of seq link stored n prev fs"
      using l by (simp_all add: linked_snoc)
    show len: "length es = length fs" using snoc.prems(3) es' by simp
    show "stored (last es) = stored (last fs)" if "es \<noteq> []"
    proof -
      have "fs \<noteq> []" using that len by auto
      with that eq(2) l show ?thesis by (simp add: linked_snoc)
    qed
  qed (use snoc.prems(5) es' in auto)
  with eq es' show ?case by simp
qed

text \<open>The last stored hash alone determines the chain.\<close>

lemma last_hash_determines:
  assumes "inj h" "linked h text_of seq link stored n prev es" "linked h text_of seq link stored n prev es'"
    "es \<noteq> []" "es' \<noteq> []" "stored (last es) = stored (last es')" "\<forall>e \<in> set es \<union> set es'. valid e"
  shows "map body es = map body es'"
proof -
  have n: "linked h text_of seq link stored n prev xs \<Longrightarrow> xs \<noteq> [] \<Longrightarrow>
      seq (last xs) + 1 = n + length xs \<and> stored (last xs) = h (text_of (last xs))" for xs
    by (cases xs rule: rev_cases) (auto simp: linked_snoc)
  have "h (text_of (last es)) = h (text_of (last es'))"
    using n [OF assms(2,4)] n [OF assms(3,5)] assms(6) by simp
  then have "text_of (last es) = text_of (last es')" by (rule injD [OF assms(1)])
  moreover have "valid (last es)" "valid (last es')" using assms(4,5,7) by simp_all
  ultimately have "seq (last es) = seq (last es')" using text_determines by blast
  with n [OF assms(2,4)] n [OF assms(3,5)] have "length es = length es'" by simp
  then show ?thesis using determined [OF assms(1-3)] assms(6,7) by blast
qed

end


section \<open>Audit events as a hash chain\<close>

definition field_keys :: "string list" where
  "field_keys =
     [''action'', ''actor_role_keys_json'', ''actor_user_id'', ''actor_username_snapshot'', ''client_ip_hash'',
      ''event_type'', ''metadata_json'', ''occurred_at'', ''outcome'', ''previous_event_hash'', ''reason_code'',
      ''request_id'', ''request_method'', ''resource_id'', ''resource_type'', ''route_template'',
      ''sequence_number'', ''status_code'', ''user_agent_summary'']"

definition field_values :: "security_audit_event \<Rightarrow> pyvalue list" where
  "field_values e =
     [PStr (ae_action e), PStr (ae_actor_role_keys_json e), opt_number (ae_actor_user_id e),
      opt_text (ae_actor_username_snapshot e), opt_text (ae_client_ip_hash e), PStr (ae_event_type e),
      PStr (ae_metadata_json e), PStr (isoformat (ae_occurred_at e)), PStr (ae_outcome e),
      opt_text (ae_previous_event_hash e), opt_text (ae_reason_code e), PStr (ae_request_id e),
      opt_text (ae_request_method e), opt_text (ae_resource_id e), opt_text (ae_resource_type e),
      opt_text (ae_route_template e), PInt (int (ae_sequence_number e)), opt_number (ae_status_code e),
      opt_text (ae_user_agent_summary e)]"

lemma sorted_field_keys: "sorted field_keys \<and> distinct field_keys"
  by code_simp

lemma sort_hash_fields: "sort_key fst (hash_fields e) = zip field_keys (field_values e)"
  unfolding hash_fields_def field_keys_def field_values_def
  by (simp add: sort_key_def)

lemma opt_text_inj: "opt_text x = opt_text y \<Longrightarrow> x = y"
  by (auto simp: opt_text_def split: option.splits)

lemma opt_number_inj: "opt_number x = opt_number y \<Longrightarrow> x = y"
  by (auto simp: opt_number_def split: option.splits)

lemma scalar_opt [simp]: "scalar (opt_text x)" "scalar (opt_number n)"
  by (simp_all add: opt_text_def opt_number_def split: option.split)

lemma event_text_inj:
  assumes "event_text e = event_text e'"
  shows "field_values e = field_values e'"
proof -
  have eq: "canonical (PDict (hash_fields x)) = canonical (PDict (zip field_keys (field_values x)))" for x
  proof -
    have "map fst (zip field_keys (field_values x)) = field_keys" by (simp add: field_keys_def field_values_def)
    then have "sort_key fst (zip field_keys (field_values x)) = zip field_keys (field_values x)"
      using sorted_field_keys by (intro sort_key_id_if_sorted) simp
    then show ?thesis by (simp add: sort_hash_fields)
  qed
  show ?thesis
  proof (rule record_text_inj)
    show "sorted field_keys" using sorted_field_keys by blast
    show "list_all scalar (field_values e)" "list_all scalar (field_values e')" by (simp_all add: field_values_def)
    show "length (field_values e) = length field_keys" "length (field_values e') = length field_keys"
      by (simp_all add: field_values_def field_keys_def)
    show "canonical (PDict (zip field_keys (field_values e))) = canonical (PDict (zip field_keys (field_values e')))"
      using assms unfolding event_text_def eq .
  qed
qed

text \<open>The content of an event: everything but its primary key and its stored hash.\<close>

definition event_body :: "security_audit_event \<Rightarrow> security_audit_event" where
  "event_body e = e\<lparr>ae_id := 0, ae_event_hash := []\<rparr>"

lemma event_body_eq:
  assumes "field_values e = field_values e'" "isoformat (ae_occurred_at e) = isoformat (ae_occurred_at e') \<Longrightarrow> ae_occurred_at e = ae_occurred_at e'"
  shows "event_body e = event_body e'"
  using assms by (auto simp: field_values_def event_body_def dest!: opt_text_inj opt_number_inj)

interpretation audit_chain: hash_chain event_text ae_sequence_number ae_previous_event_hash ae_event_hash
  event_body "\<lambda>e. time_ok (ae_occurred_at e)"
proof unfold_locales
  fix e e' :: security_audit_event
  assume t: "time_ok (ae_occurred_at e)" "time_ok (ae_occurred_at e')" and eq: "event_text e = event_text e'"
  have f: "field_values e = field_values e'" by (rule event_text_inj [OF eq])
  then have "event_body e = event_body e'" using event_body_eq isoformat_inj [OF _ t] by blast
  moreover have "ae_sequence_number e = ae_sequence_number e'" using f by (simp add: field_values_def)
  moreover have "ae_previous_event_hash e = ae_previous_event_hash e'"
    using f by (auto simp: field_values_def dest: opt_text_inj)
  ultimately show "event_body e = event_body e' \<and> ae_sequence_number e = ae_sequence_number e' \<and>
      ae_previous_event_hash e = ae_previous_event_hash e'" by blast
qed

abbreviation audit_linked :: "crypto \<Rightarrow> nat \<Rightarrow> string option \<Rightarrow> security_audit_event list \<Rightarrow> bool" where
  "audit_linked C \<equiv> linked (sha256_hex C) event_text ae_sequence_number ae_previous_event_hash ae_event_hash"

lemma check_events_linked:
  "ir_valid_chain (check_events C n prev es) \<longleftrightarrow> audit_linked C n prev es"
  by (induction es arbitrary: n prev) (auto simp: hash_payload_def)

lemma verify_integrity_linked:
  "ir_valid_chain (verify_integrity cx s) \<longleftrightarrow> audit_linked (cx_crypto cx) 1 None (ordered_events s)"
  by (simp add: verify_integrity_def check_events_linked)


subsection \<open>Appending\<close>

lemma linked_bound:
  "linked h tx seq link stored n prev es \<Longrightarrow> e \<in> set es \<Longrightarrow> n \<le> seq e \<and> seq e < n + length es"
  by (induction es arbitrary: n prev) fastforce+

lemma linked_inj: "linked h tx seq link stored n prev es \<Longrightarrow> inj_on seq (set es)"
proof (induction es arbitrary: n prev)
  case (Cons e es)
  from Cons.prems have "linked h tx seq link stored (Suc n) (Some (stored e)) es" "seq e = n" by auto
  with Cons.IH linked_bound show ?case by fastforce
qed simp

lemma linked_last: "linked h tx seq link stored n prev es \<Longrightarrow> es \<noteq> [] \<Longrightarrow> seq (last es) + 1 = n + length es"
  by (cases es rule: rev_cases) (auto simp: linked_snoc)

lemma set_ordered_events [simp]: "set (ordered_events s) = set (audit_events s)"
  by (simp add: ordered_events_def)

lemma latest_event:
  assumes l: "audit_linked C 1 None (ordered_events s)"
  shows "latest ae_sequence_number (audit_events s) =
     (if ordered_events s = [] then None else Some (last (ordered_events s)))"
proof (cases "audit_events s = []")
  case True
  then show ?thesis by (simp add: ordered_events_def latest_def)
next
  case False
  let ?es = "ordered_events s"
  have ne: "?es \<noteq> []" using False set_ordered_events [of s] by (metis set_empty)
  obtain p where p: "latest ae_sequence_number (audit_events s) = Some p"
    using False by (cases "latest ae_sequence_number (audit_events s)") auto
  have inj: "inj_on ae_sequence_number (set ?es)" by (rule linked_inj [OF l])
  have pm: "p \<in> set ?es" using latest_mem [OF p] by simp
  have "ae_sequence_number (last ?es) \<le> ae_sequence_number p"
    using latest_max [OF p, of "last ?es"] last_in_set [OF ne] by simp
  then have "ae_sequence_number p = ae_sequence_number (last ?es)"
    using linked_last [OF l ne] linked_bound [OF l pm] by simp
  then have "p = last ?es" using inj_onD [OF inj _ pm last_in_set [OF ne]] by blast
  with p ne show ?thesis by simp
qed

lemma insort_snoc: "f x \<le> f e \<Longrightarrow> insort_key f x (ys @ [e]) = insort_key f x ys @ [e]"
  by (induction ys) auto

lemma sort_key_snoc:
  "(\<And>x. x \<in> set xs \<Longrightarrow> f x \<le> f e) \<Longrightarrow> sort_key f (xs @ [e]) = sort_key f xs @ [e]"
  by (induction xs) (simp_all add: insort_snoc)

lemma hash_payload_cong:
  "hash_payload C (e\<lparr>ae_event_hash := x\<rparr>) = hash_payload C e"
  "hash_payload C (set_ae_id i e) = hash_payload C e"
  by (simp_all add: hash_payload_def event_text_def hash_fields_def set_ae_id_def)

lemma set_ae_id_simps [simp]:
  "ae_sequence_number (set_ae_id i e) = ae_sequence_number e"
  "ae_previous_event_hash (set_ae_id i e) = ae_previous_event_hash e"
  "ae_event_hash (set_ae_id i e) = ae_event_hash e"
  "ae_metadata_json (set_ae_id i e) = ae_metadata_json e"
  by (simp_all add: set_ae_id_def)

lemma append_event_InrD:
  assumes "append_event cx a s = (Inr e, s')"
  shows "e = set_ae_id (next_id ae_id (audit_events s))
           ((new_event cx s a)\<lparr>ae_event_hash := hash_payload (cx_crypto cx) (new_event cx s a)\<rparr>) \<and>
     s' = s\<lparr>audit_events := audit_events s @ [e]\<rparr>"
  using assms by (auto simp: append_event_def Let_def insert_row_def split: if_splits)

lemma append_event_frame:
  assumes "append_event cx a s = (out, s')"
  shows "users s' = users s" "roles s' = roles s" "permissions s' = permissions s"
    "user_roles s' = user_roles s" "role_permissions s' = role_permissions s" "sessions s' = sessions s"
    "attempts s' = attempts s" "mfa_devices s' = mfa_devices s" "recovery_codes s' = recovery_codes s"
    "challenges s' = challenges s" "notifications s' = notifications s" "activities s' = activities s"
  using assms by (auto simp: append_event_def Let_def split: if_splits)

lemma new_event_seq:
  assumes "audit_linked C 1 None (ordered_events s)"
  shows "ae_sequence_number (new_event cx s a) = Suc (length (ordered_events s))"
    "ae_previous_event_hash (new_event cx s a) =
       (if ordered_events s = [] then None else Some (ae_event_hash (last (ordered_events s))))"
proof -
  let ?es = "ordered_events s"
  show "ae_sequence_number (new_event cx s a) = Suc (length ?es)"
    using linked_last [OF assms] by (simp add: new_event_def latest_event [OF assms])
  show "ae_previous_event_hash (new_event cx s a) =
       (if ?es = [] then None else Some (ae_event_hash (last ?es)))"
    by (simp add: new_event_def latest_event [OF assms])
qed

lemma event_seq_bound:
  assumes "audit_linked C 1 None (ordered_events s)" "x \<in> set (audit_events s)"
  shows "ae_sequence_number x \<le> length (ordered_events s)"
  using linked_bound [OF assms(1), of x] assms(2) by simp

lemma append_event_linked:
  assumes l: "audit_linked (cx_crypto cx) 1 None (ordered_events s)"
    and a: "append_event cx a s = (Inr e, s')"
  shows "ordered_events s' = ordered_events s @ [e] \<and> audit_linked (cx_crypto cx) 1 None (ordered_events s')"
proof -
  note d = append_event_InrD [OF a]
  then have seq: "ae_sequence_number e = Suc (length (ordered_events s))"
      and link: "ae_previous_event_hash e = (if ordered_events s = [] then None else Some (ae_event_hash (last (ordered_events s))))"
      and hash: "ae_event_hash e = hash_payload (cx_crypto cx) e"
    using new_event_seq [OF l, of cx a] by (simp_all add: hash_payload_cong)
  have o: "ordered_events s' = ordered_events s @ [e]"
    unfolding ordered_events_def using d event_seq_bound [OF l] seq
    by (simp add: ordered_events_def) (intro sort_key_snoc, simp add: le_SucI)
  with l seq link hash show ?thesis by (simp add: linked_snoc hash_payload_def)
qed

lemma append_event_succeeds:
  assumes l: "audit_linked (cx_crypto cx) 1 None (ordered_events s)" and inj: "inj (sha256_hex (cx_crypto cx))"
  shows "\<exists>e s'. append_event cx a s = (Inr e, s')"
proof -
  let ?e = "new_event cx s a" and ?C = "cx_crypto cx"
  have stored: "ae_event_hash x = hash_payload ?C x" if "x \<in> set (audit_events s)" for x
  proof -
    have "linked h tx sq lk st n p es \<Longrightarrow> y \<in> set es \<Longrightarrow> st y = h (tx y)" for h tx sq lk st n p es and y :: security_audit_event
      by (induction es arbitrary: n p) auto
    from this [OF l] that show ?thesis by (simp add: hash_payload_def)
  qed
  have fresh: "ae_sequence_number ?e \<noteq> ae_sequence_number x" if "x \<in> set (audit_events s)" for x
    using event_seq_bound [OF l that] new_event_seq(1) [OF l, of cx a] by simp
  have "hash_payload ?C ?e \<noteq> ae_event_hash x" if x: "x \<in> set (audit_events s)" for x
  proof
    assume "hash_payload ?C ?e = ae_event_hash x"
    then have "event_text ?e = event_text x" using inj stored [OF x] by (auto simp: hash_payload_def dest: injD)
    then have "ae_sequence_number ?e = ae_sequence_number x"
      using event_text_inj [of ?e x] by (simp add: field_values_def)
    with fresh [OF x] show False ..
  qed
  with fresh show ?thesis by (auto simp: append_event_def Let_def)
qed


section \<open>Properties\<close>

definition demo_args :: "string \<Rightarrow> audit_args" where
  "demo_args kind =
     \<lparr>aa_event_type = kind, aa_action = ''login'', aa_request_id = ''r'', aa_outcome = ''success'',
      aa_actor = None, aa_resource_type = None, aa_resource_id = None, aa_route_template = None,
      aa_request_method = None, aa_status_code = Some 200, aa_reason_code = None,
      aa_metadata = [(''api_token'', PStr ''x''), (''count'', PInt 2)], aa_client_ip_hash = None,
      aa_user_agent_summary = None\<rparr>"

lemma demo_crypto_inj: "inj (sha256_hex demo_crypto)"
  by (simp add: demo_crypto_def inj_def)

text \<open>C25. Recording an event extends the chain: on a log that verifies, the call succeeds whatever
  its arguments (digests of different texts being different), puts exactly one event at the end
  whose metadata is redacted, and the log still verifies.\<close>

theorem append_event_extends_chain:
  assumes "ir_valid_chain (verify_integrity cx s)" "inj (sha256_hex (cx_crypto cx))"
  shows "\<exists>e s'. append_event cx a s = (Inr e, s') \<and> ordered_events s' = ordered_events s @ [e] \<and>
     ir_valid_chain (verify_integrity cx s') \<and>
     ae_metadata_json e = canonical (redact 0 (PDict (aa_metadata a)))"
proof -
  have l: "audit_linked (cx_crypto cx) 1 None (ordered_events s)"
    using assms(1) by (simp add: verify_integrity_linked)
  from append_event_succeeds [OF l assms(2), of a] obtain e s' where a: "append_event cx a s = (Inr e, s')" by blast
  have "ae_metadata_json e = canonical (redact 0 (PDict (aa_metadata a)))"
    using append_event_InrD [OF a] by (simp add: new_event_def Let_def del: canonical.simps)
  with a append_event_linked [OF l a] show ?thesis by (auto simp: verify_integrity_linked)
qed

theorem append_event_extends_chain_witness:
  "\<exists>e s'. append_event (demo_ctx 8) (demo_args ''login'') demo_db = (Inr e, s') \<and>
     ordered_events s' = [e] \<and> ir_valid_chain (verify_integrity (demo_ctx 8) s')"
proof -
  have "ordered_events demo_db = []" by (simp add: ordered_events_def demo_db_def empty_db_def)
  moreover from this have "ir_valid_chain (verify_integrity (demo_ctx 8) demo_db)"
    by (simp add: verify_integrity_def)
  ultimately show ?thesis
    using append_event_extends_chain [of "demo_ctx 8" demo_db "demo_args ''login''"] demo_crypto_inj by auto
qed

text \<open>C7. The log is tamper-evident: if any field of any event of a verified log is changed, or
  events are removed, inserted or reordered, while the hash of the last event stays the one that
  was noted, the integrity check fails on the changed log.\<close>

theorem audit_log_tamper_evident:
  assumes "inj (sha256_hex (cx_crypto cx))" "ir_valid_chain (verify_integrity cx s)"
    "ordered_events s \<noteq> []" "ordered_events t \<noteq> []"
    "ae_event_hash (last (ordered_events t)) = ae_event_hash (last (ordered_events s))"
    "\<forall>e \<in> set (ordered_events s) \<union> set (ordered_events t). time_ok (ae_occurred_at e)"
    "map event_body (ordered_events t) \<noteq> map event_body (ordered_events s)"
  shows "\<not> ir_valid_chain (verify_integrity cx t)"
proof
  assume "ir_valid_chain (verify_integrity cx t)"
  then have "audit_linked (cx_crypto cx) 1 None (ordered_events t)"
      "audit_linked (cx_crypto cx) 1 None (ordered_events s)"
    using assms(2) by (simp_all add: verify_integrity_linked)
  from audit_chain.last_hash_determines [OF assms(1) this assms(4,3,5)] assms(6)
  have "map event_body (ordered_events t) = map event_body (ordered_events s)" by (simp add: Un_commute)
  with assms(7) show False ..
qed

theorem audit_log_tamper_evident_witness:
  "\<exists>s. length (audit_events s) = 1 \<and> ir_valid_chain (verify_integrity (demo_ctx 8) s) \<and>
     \<not> ir_valid_chain (verify_integrity (demo_ctx 8)
         (s\<lparr>audit_events := map (\<lambda>e. e\<lparr>ae_outcome := ''failure''\<rparr>) (audit_events s)\<rparr>))"
proof -
  let ?cx = "demo_ctx 8" and ?change = "\<lambda>e. e\<lparr>ae_outcome := ''failure''\<rparr>"
  have none: "audit_events demo_db = []" by (simp add: demo_db_def empty_db_def)
  then have l0: "audit_linked (cx_crypto ?cx) 1 None (ordered_events demo_db)" by (simp add: ordered_events_def)
  from append_event_succeeds [OF l0, of "demo_args ''login''"] demo_crypto_inj obtain e s
    where a: "append_event ?cx (demo_args ''login'') demo_db = (Inr e, s)" by auto
  have s: "audit_events s = [e]" using append_event_InrD [OF a] none by simp
  have e: "ae_outcome e = ''success''" "ae_occurred_at e = 8"
    using append_event_InrD [OF a] by (simp_all add: new_event_def demo_args_def Let_def set_ae_id_def)
  let ?t = "s\<lparr>audit_events := map ?change (audit_events s)\<rparr>"
  have os: "ordered_events s = [e]" "ordered_events ?t = [?change e]" by (simp_all add: ordered_events_def s)
  have "year_from 1970 0 = (1970, 0)" by (subst year_from.simps) (simp add: year_length_def)
  then have ok: "time_ok 8" by (simp add: time_ok_def)
  have valid: "ir_valid_chain (verify_integrity ?cx s)"
    using append_event_linked [OF l0 a] unfolding verify_integrity_linked by blast
  have "event_body (?change e) \<noteq> event_body e"
  proof
    assume "event_body (?change e) = event_body e"
    then have "ae_outcome (event_body (?change e)) = ae_outcome (event_body e)" by simp
    then show False using e by (simp add: event_body_def)
  qed
  then have "\<not> ir_valid_chain (verify_integrity ?cx ?t)"
    using audit_log_tamper_evident [of ?cx s ?t] demo_crypto_inj valid os e ok by simp
  with valid s show ?thesis by (intro exI [of _ s]) simp
qed

end
