(* ===== verification/Authorization.thy ===== *)
theory Authorization
  imports Access_Fixtures
begin

text \<open>
  The permissions a request needs (\<open>access_control/authorization.py\<close>): one definition per
  block of \<open>required_permissions\<close>, each a cascade of tests on the method and the path in the
  order of the source, and the dispatch on the path prefix. The result is the set of permissions
  and whether all of them are needed. \<open>permission_catalog\<close> is the list of keys of
  \<open>rules/permissions.json\<close>.
\<close>

type_synonym requirement = "string set \<times> bool"

definition rstrip_slash :: "string \<Rightarrow> string" where
  "rstrip_slash p = rev (dropWhile (\<lambda>c. c = CHR ''/'') (rev p))"

definition is_read :: "string \<Rightarrow> bool" where
  "is_read method \<longleftrightarrow> method \<in> {''GET'', ''HEAD''}"

definition read_or_reports :: "string \<Rightarrow> string \<Rightarrow> requirement" where
  "read_or_reports permission path =
     (if py_in ''/reports'' path then ({permission, ''reports:read_all''}, False) else ({permission}, False))"

definition targets_permissions :: "string \<Rightarrow> string \<Rightarrow> requirement" where
  "targets_permissions method path =
     (if method = ''DELETE'' then ({''web:delete''}, True)
      else ((if is_read method then {''web:read''} else {''web:manage_targets''}), True))"

definition scans_permissions :: "string \<Rightarrow> string \<Rightarrow> requirement" where
  "scans_permissions method path =
     (if method = ''DELETE'' then ({''web:delete''}, True)
      else ((if is_read method then {''web:read''} else {''web:run_scans''}), True))"

definition reports_permissions :: "string \<Rightarrow> string \<Rightarrow> requirement" where
  "reports_permissions method path =
     (if is_read method then ({''web:read'', ''reports:read_all''}, False)
      else ({''web:generate_reports''}, True))"

definition api_security_permissions :: "string \<Rightarrow> string \<Rightarrow> requirement" where
  "api_security_permissions method path =
     (if is_read method then read_or_reports ''api:read'' path
      else if method = ''DELETE'' then ({''api:delete''}, True)
      else if py_in ''/reports'' path then ({''api:generate_reports''}, True)
      else if py_in ''/authorization'' path \<or> py_in ''/identities'' path \<or> py_in ''/roles'' path
      then ({''api:manage_authorization''}, True)
      else if py_in ''/business-flows'' path then ({''api:manage_business_flows''}, True)
      else if py_in ''/import'' path then ({''api:import''}, True)
      else if py_in ''/jwt'' path \<or> py_in ''/analy'' path then ({''api:analyze''}, True)
      else ({''api:manage_assessments''}, True))"

definition soc_permissions :: "string \<Rightarrow> string \<Rightarrow> requirement" where
  "soc_permissions method path =
     (if is_read method then read_or_reports ''soc:read'' path
      else if method = ''DELETE'' then ({''soc:delete''}, True)
      else if py_in ''/reports'' path then ({''soc:generate_reports''}, True)
      else if py_in ''/imports'' path \<or> py_in ''/sources'' path then ({''soc:import''}, True)
      else if py_in ''/simulator'' path then ({''soc:simulate''}, True)
      else if py_in ''/detections'' path then ({''soc:run_detection''}, True)
      else if py_in ''/alerts'' path then ({''soc:manage_alerts''}, True)
      else if py_in ''/rules'' path then ({''soc:manage_rules''}, True)
      else if py_in ''/blocklist'' path \<or> py_in ''/watchlist'' path then ({''soc:manage_watchlist''}, True)
      else ({''soc:run_detection''}, True))"

definition document_permissions :: "string \<Rightarrow> string \<Rightarrow> requirement" where
  "document_permissions method path =
     (if is_read method then read_or_reports ''document:read'' path
      else if method = ''DELETE'' then ({''document:delete''}, True)
      else if py_in ''/reports'' path then ({''document:generate_reports''}, True)
      else ({''document:analyze''}, True))"

definition phishing_permissions :: "string \<Rightarrow> string \<Rightarrow> requirement" where
  "phishing_permissions method path =
     (if is_read method then read_or_reports ''phishing:read'' path
      else if method = ''DELETE'' \<and> \<not> py_in ''/watchlist'' path then ({''phishing:delete''}, True)
      else if py_in ''/reports'' path then ({''phishing:generate_reports''}, True)
      else if py_in ''/watchlist'' path then ({''phishing:manage_watchlist''}, True)
      else if method = ''PATCH'' then ({''phishing:manage_disposition''}, True)
      else ({''phishing:analyze''}, True))"

definition threat_intel_permissions :: "string \<Rightarrow> string \<Rightarrow> requirement" where
  "threat_intel_permissions method path =
     (if is_read method
      then ((if endswith path ''/download'' then {''threat_intel:export''} else {''threat_intel:view''}), True)
      else if py_in ''/imports'' path then ({''threat_intel:import''}, True)
      else if py_in ''/correlation'' path then ({''threat_intel:correlate''}, True)
      else if py_in ''/matches/'' path \<and> (endswith path ''/review'' \<or> endswith path ''/escalate'')
      then ({''threat_intel:manage'', ''threat_intel:correlate''}, False)
      else if py_in ''/reports'' path then ({''threat_intel:export''}, True)
      else ({''threat_intel:manage''}, True))"

definition detections_permissions :: "string \<Rightarrow> string \<Rightarrow> requirement" where
  "detections_permissions method path =
     (if is_read method
      then ((if endswith path ''/download'' then {''detections:export''} else {''detections:view''}), True)
      else if py_in ''/imports'' path then ({''detections:import''}, True)
      else if py_in ''/executions'' path \<or> endswith path ''/tests/run'' then ({''detections:execute''}, True)
      else if py_in ''/matches/'' path then ({''detections:review''}, True)
      else if py_in ''/reports'' path then ({''detections:export''}, True)
      else ({''detections:manage''}, True))"

definition vulnerability_permissions :: "string \<Rightarrow> string \<Rightarrow> requirement" where
  "vulnerability_permissions method path =
     (if endswith (rstrip_slash path) ''/overview'' \<and> is_read method
      then ({''vulnerabilities:view'', ''vulnerabilities:aggregate''}, False)
      else if is_read method
      then (if py_in ''/assets'' path then ({''assets:view''}, True)
            else if py_in ''/reports'' path then ({''vulnerabilities:export''}, True)
            else ({''vulnerabilities:view''}, True))
      else if py_in ''/assets'' path then ({''assets:manage''}, True)
      else if py_in ''/reports'' path then ({''vulnerabilities:export''}, True)
      else if py_in ''/sla-policies'' path then ({''sla:manage''}, True)
      else if py_in ''/verifications'' path then ({''vulnerabilities:verify''}, True)
      else if py_in ''/risk-acceptances/'' path \<and>
              list_ex (endswith path) [''/approve'', ''/reject'', ''/revoke'']
      then ({''vulnerabilities:approve_risk''}, True)
      else if py_in ''/risk-acceptances'' path then ({''vulnerabilities:accept_risk''}, True)
      else if py_in ''/plans'' path \<or> py_in ''/tasks'' path \<or> py_in ''/remediation-templates'' path
      then ({''vulnerabilities:remediate''}, True)
      else ({''vulnerabilities:triage''}, True))"

definition soar_permissions :: "string \<Rightarrow> string \<Rightarrow> requirement" where
  "soar_permissions method path =
     (if endswith (rstrip_slash path) ''/overview'' \<and> is_read method then ({''soar:view''}, True)
      else if is_read method
      then (if py_in ''/reports'' path \<and> endswith path ''/download'' then ({''soar:export''}, True)
            else ({''soar:view''}, True))
      else if py_in ''/action-policies'' path then ({''soar:action_policy_manage''}, True)
      else if py_in ''/approvals'' path then ({''soar:approve''}, True)
      else if py_in ''/analyst-inputs'' path then ({''soar:review''}, True)
      else if py_in ''/rollbacks'' path \<or> endswith path ''/request-rollback'' then ({''soar:rollback''}, True)
      else if py_in ''/reports'' path then ({''soar:export''}, True)
      else if py_in ''/executions'' path \<or> endswith path ''/evaluate'' then ({''soar:execute''}, True)
      else ({''soar:manage''}, True))"

definition integrations_permissions :: "string \<Rightarrow> string \<Rightarrow> requirement" where
  "integrations_permissions method path =
     (if py_in ''/inbound/'' path then ({}, True)
      else if is_read method \<and> endswith (rstrip_slash path) ''/overview''
      then ({''integrations:view'', ''integrations:aggregate''}, False)
      else if is_read method
      then ((if endswith path ''/download'' then {''integrations:export''} else {''integrations:view''}), True)
      else if py_in ''/credentials'' path \<or> py_in ''/rotate-secret'' path
      then ({''integrations:credentials_manage''}, True)
      else if py_in ''/network-policy'' path then ({''integrations:network_policy_manage''}, True)
      else if py_in ''/promote'' path then ({''integrations:inbound_promote''}, True)
      else if py_in ''/dead-letters/'' path \<and> endswith path ''/replay'' then ({''integrations:replay''}, True)
      else if py_in ''/reports'' path then ({''integrations:export''}, True)
      else if list_ex (\<lambda>part. py_in part path) [''/test'', ''/send-test'', ''/health-checks'']
      then ({''integrations:test''}, True)
      else if list_ex (\<lambda>part. py_in part path) [''/deliveries'', ''/process-due'', ''/taxii/pull'']
      then ({''integrations:execute''}, True)
      else ({''integrations:manage''}, True))"

definition analytics_permissions :: "string \<Rightarrow> string \<Rightarrow> requirement" where
  "analytics_permissions method path =
     (if is_read method
      then (if rstrip_slash path \<in> {''/api/analytics/overview'', ''/api/analytics/metrics''}
            then ({''analytics:view'', ''analytics:aggregate''}, False)
            else if py_in ''/reports'' path
            then (if endswith path ''/export'' then ({''analytics:export''}, True)
                  else ({''analytics:view'', ''analytics:aggregate'', ''analytics:export''}, False))
            else ({''analytics:view''}, True))
      else if py_in ''/feedback'' path \<or> py_in ''/anomalies/'' path then ({''analytics:review''}, True)
      else if py_in ''/suppressions'' path then ({''analytics:policy_manage''}, True)
      else if py_in ''/reports'' path then ({''analytics:export''}, True)
      else if py_in ''/baselines'' path \<or> py_in ''/backtests'' path \<or> py_in ''/validate'' path \<or> py_in ''/drift'' path
      then ({''analytics:train''}, True)
      else if py_in ''/jobs'' path \<or> endswith path ''/process-due'' then ({''analytics:execute''}, True)
      else if list_ex (endswith path) [''/activate'', ''/disable'', ''/retire'', ''/rollback'']
      then ({''analytics:policy_manage''}, True)
      else ({''analytics:manage''}, True))"

definition correlation_permissions :: "string \<Rightarrow> string \<Rightarrow> requirement" where
  "correlation_permissions method path =
     (let cases = py_in ''/cases'' path \<or> py_in ''/case'' path \<or> py_in ''/incident'' path in
      if is_read method then read_or_reports (if cases then ''cases:read'' else ''correlation:read'') path
      else if method = ''DELETE''
      then ({if cases then ''cases:delete'' else ''correlation:manage_matches''}, True)
      else if py_in ''/reports'' path then ({''cases:generate_reports''}, True)
      else if cases
      then ({if method = ''POST'' \<and> endswith (rstrip_slash path) ''cases'' then ''cases:create'' else ''cases:manage''}, True)
      else if py_in ''/synchron'' path then ({''correlation:synchronize''}, True)
      else if py_in ''/run'' path \<or> py_in ''/matches'' path then ({''correlation:run''}, True)
      else ({''correlation:manage_matches''}, True))"

definition governance_permissions :: "string \<Rightarrow> string \<Rightarrow> requirement" where
  "governance_permissions method path =
     (if is_read method then read_or_reports ''governance:read'' path
      else if py_in ''/reports'' path then ({''governance:generate_reports''}, True)
      else if py_in ''/synchron'' path then ({''governance:synchronize''}, True)
      else if py_in ''/mappings'' path then ({''governance:manage_mappings''}, True)
      else if py_in ''/treatments'' path then ({''governance:manage_treatments''}, True)
      else if py_in ''/exceptions'' path then ({''governance:manage_exceptions''}, True)
      else if py_in ''/evidence'' path then ({''governance:manage_evidence''}, True)
      else if py_in ''/reviews'' path then ({''governance:manage_reviews''}, True)
      else ({''governance:manage_risks''}, True))"

definition settings_permissions :: "string \<Rightarrow> string \<Rightarrow> requirement" where
  "settings_permissions method path =
     ((if \<not> is_read method then {''system:manage''} else {''profile:manage''}), True)"

definition policies_permissions :: "string \<Rightarrow> string \<Rightarrow> requirement" where
  "policies_permissions method path =
     ((if is_read method then {''web:read''} else {''system:manage''}), True)"

text \<open>The blocks in the order in which the source tests the prefixes.\<close>

definition permission_blocks :: "(string \<times> (string \<Rightarrow> string \<Rightarrow> requirement)) list" where
  "permission_blocks =
     [(''/api/dashboard'', \<lambda>method path. ({''dashboard:view''}, True)),
      (''/api/search'', \<lambda>method path. ({''search:use''}, True)),
      (''/api/notifications'', \<lambda>method path. ({''notifications:read''}, True)),
      (''/api/profile'', \<lambda>method path. ({''profile:manage''}, True)),
      (''/api/settings'', settings_permissions),
      (''/api/policies'', policies_permissions),
      (''/api/targets'', targets_permissions),
      (''/api/scans'', scans_permissions),
      (''/api/reports'', reports_permissions),
      (''/api/api-security'', api_security_permissions),
      (''/api/soc'', soc_permissions),
      (''/api/document-threats'', document_permissions),
      (''/api/phishing-defense'', phishing_permissions),
      (''/api/threat-intel'', threat_intel_permissions),
      (''/api/detections'', detections_permissions),
      (''/api/vulnerability-management'', vulnerability_permissions),
      (''/api/soar'', soar_permissions),
      (''/api/integrations'', integrations_permissions),
      (''/api/analytics'', analytics_permissions),
      (''/api/correlation'', correlation_permissions),
      (''/api/governance'', governance_permissions)]"

definition required_permissions :: "request \<Rightarrow> requirement" where
  "required_permissions request =
     (let path = rq_path request; method = upper (rq_method request)
      in case find (\<lambda>(pre, _). startswith path pre) permission_blocks of
           None \<Rightarrow> ({}, True)
         | Some (_, block) \<Rightarrow> block method path)"

definition permission_catalog :: "string list" where
  "permission_catalog =
     [''dashboard:view'', ''search:use'', ''notifications:read'', ''activity:read'', ''profile:manage'',
      ''web:read'', ''web:manage_targets'', ''web:run_scans'', ''web:delete'', ''web:generate_reports'',
      ''api:read'', ''api:manage_assessments'', ''api:import'', ''api:analyze'', ''api:manage_authorization'',
      ''api:manage_business_flows'', ''api:delete'', ''api:generate_reports'', ''soc:read'', ''soc:import'',
      ''soc:simulate'', ''soc:run_detection'', ''soc:manage_alerts'', ''soc:manage_rules'',
      ''soc:manage_watchlist'', ''soc:delete'', ''soc:generate_reports'', ''document:read'', ''document:analyze'',
      ''document:delete'', ''document:generate_reports'', ''phishing:read'', ''phishing:analyze'',
      ''phishing:manage_disposition'', ''phishing:manage_watchlist'', ''phishing:delete'',
      ''phishing:generate_reports'', ''correlation:read'', ''correlation:synchronize'', ''correlation:run'',
      ''correlation:manage_matches'', ''cases:read'', ''cases:create'', ''cases:manage'', ''cases:delete'',
      ''cases:generate_reports'', ''governance:read'', ''governance:synchronize'', ''governance:manage_risks'',
      ''governance:manage_mappings'', ''governance:manage_treatments'', ''governance:manage_exceptions'',
      ''governance:manage_evidence'', ''governance:manage_reviews'', ''governance:generate_reports'',
      ''users:read'', ''users:manage'', ''roles:read'', ''roles:manage'', ''sessions:manage_all'', ''audit:read'',
      ''audit:verify'', ''system:manage'', ''reports:read_all'', ''operations:view'', ''operations:diagnostics'',
      ''operations:backup'', ''operations:restore'', ''operations:export'', ''operations:import'',
      ''operations:retention'', ''operations:maintenance'', ''operations:demo_manage'', ''operations:release'',
      ''operations:inventory'', ''threat_intel:view'', ''threat_intel:import'', ''threat_intel:manage'',
      ''threat_intel:correlate'', ''threat_intel:export'', ''detections:view'', ''detections:manage'',
      ''detections:import'', ''detections:execute'', ''detections:review'', ''detections:export'', ''assets:view'',
      ''assets:manage'', ''vulnerabilities:view'', ''vulnerabilities:aggregate'', ''vulnerabilities:triage'',
      ''vulnerabilities:remediate'', ''vulnerabilities:verify'', ''vulnerabilities:accept_risk'',
      ''vulnerabilities:approve_risk'', ''vulnerabilities:export'', ''sla:manage'', ''soar:view'', ''soar:manage'',
      ''soar:execute'', ''soar:approve'', ''soar:review'', ''soar:rollback'', ''soar:export'',
      ''soar:sensitive_actions'', ''soar:action_policy_manage'', ''integrations:view'', ''integrations:aggregate'',
      ''integrations:manage'', ''integrations:test'', ''integrations:execute'', ''integrations:replay'',
      ''integrations:export'', ''integrations:credentials_manage'', ''integrations:network_policy_manage'',
      ''integrations:inbound_promote'', ''analytics:view'', ''analytics:aggregate'', ''analytics:manage'',
      ''analytics:train'', ''analytics:execute'', ''analytics:review'', ''analytics:export'',
      ''analytics:policy_manage'']"


section \<open>Laws\<close>

text \<open>A requirement that protects: at least one permission, all of the catalog.\<close>

definition protects :: "requirement \<Rightarrow> bool" where
  "protects r \<longleftrightarrow> fst r \<noteq> {} \<and> fst r \<subseteq> set permission_catalog"

lemma cataloged:
  "''analytics:aggregate'' \<in> set permission_catalog"
  "''analytics:execute'' \<in> set permission_catalog"
  "''analytics:export'' \<in> set permission_catalog"
  "''analytics:manage'' \<in> set permission_catalog"
  "''analytics:policy_manage'' \<in> set permission_catalog"
  "''analytics:review'' \<in> set permission_catalog"
  "''analytics:train'' \<in> set permission_catalog"
  "''analytics:view'' \<in> set permission_catalog"
  "''api:analyze'' \<in> set permission_catalog"
  "''api:delete'' \<in> set permission_catalog"
  "''api:generate_reports'' \<in> set permission_catalog"
  "''api:import'' \<in> set permission_catalog"
  "''api:manage_assessments'' \<in> set permission_catalog"
  "''api:manage_authorization'' \<in> set permission_catalog"
  "''api:manage_business_flows'' \<in> set permission_catalog"
  "''api:read'' \<in> set permission_catalog"
  "''assets:manage'' \<in> set permission_catalog"
  "''assets:view'' \<in> set permission_catalog"
  "''cases:create'' \<in> set permission_catalog"
  "''cases:delete'' \<in> set permission_catalog"
  "''cases:generate_reports'' \<in> set permission_catalog"
  "''cases:manage'' \<in> set permission_catalog"
  "''cases:read'' \<in> set permission_catalog"
  "''correlation:manage_matches'' \<in> set permission_catalog"
  "''correlation:read'' \<in> set permission_catalog"
  "''correlation:run'' \<in> set permission_catalog"
  "''correlation:synchronize'' \<in> set permission_catalog"
  "''dashboard:view'' \<in> set permission_catalog"
  "''detections:execute'' \<in> set permission_catalog"
  "''detections:export'' \<in> set permission_catalog"
  "''detections:import'' \<in> set permission_catalog"
  "''detections:manage'' \<in> set permission_catalog"
  "''detections:review'' \<in> set permission_catalog"
  "''detections:view'' \<in> set permission_catalog"
  "''document:analyze'' \<in> set permission_catalog"
  "''document:delete'' \<in> set permission_catalog"
  "''document:generate_reports'' \<in> set permission_catalog"
  "''document:read'' \<in> set permission_catalog"
  "''governance:generate_reports'' \<in> set permission_catalog"
  "''governance:manage_evidence'' \<in> set permission_catalog"
  "''governance:manage_exceptions'' \<in> set permission_catalog"
  "''governance:manage_mappings'' \<in> set permission_catalog"
  "''governance:manage_reviews'' \<in> set permission_catalog"
  "''governance:manage_risks'' \<in> set permission_catalog"
  "''governance:manage_treatments'' \<in> set permission_catalog"
  "''governance:read'' \<in> set permission_catalog"
  "''governance:synchronize'' \<in> set permission_catalog"
  "''integrations:aggregate'' \<in> set permission_catalog"
  "''integrations:credentials_manage'' \<in> set permission_catalog"
  "''integrations:execute'' \<in> set permission_catalog"
  "''integrations:export'' \<in> set permission_catalog"
  "''integrations:inbound_promote'' \<in> set permission_catalog"
  "''integrations:manage'' \<in> set permission_catalog"
  "''integrations:network_policy_manage'' \<in> set permission_catalog"
  "''integrations:replay'' \<in> set permission_catalog"
  "''integrations:test'' \<in> set permission_catalog"
  "''integrations:view'' \<in> set permission_catalog"
  "''notifications:read'' \<in> set permission_catalog"
  "''phishing:analyze'' \<in> set permission_catalog"
  "''phishing:delete'' \<in> set permission_catalog"
  "''phishing:generate_reports'' \<in> set permission_catalog"
  "''phishing:manage_disposition'' \<in> set permission_catalog"
  "''phishing:manage_watchlist'' \<in> set permission_catalog"
  "''phishing:read'' \<in> set permission_catalog"
  "''profile:manage'' \<in> set permission_catalog"
  "''reports:read_all'' \<in> set permission_catalog"
  "''search:use'' \<in> set permission_catalog"
  "''sla:manage'' \<in> set permission_catalog"
  "''soar:action_policy_manage'' \<in> set permission_catalog"
  "''soar:approve'' \<in> set permission_catalog"
  "''soar:execute'' \<in> set permission_catalog"
  "''soar:export'' \<in> set permission_catalog"
  "''soar:manage'' \<in> set permission_catalog"
  "''soar:review'' \<in> set permission_catalog"
  "''soar:rollback'' \<in> set permission_catalog"
  "''soar:view'' \<in> set permission_catalog"
  "''soc:delete'' \<in> set permission_catalog"
  "''soc:generate_reports'' \<in> set permission_catalog"
  "''soc:import'' \<in> set permission_catalog"
  "''soc:manage_alerts'' \<in> set permission_catalog"
  "''soc:manage_rules'' \<in> set permission_catalog"
  "''soc:manage_watchlist'' \<in> set permission_catalog"
  "''soc:read'' \<in> set permission_catalog"
  "''soc:run_detection'' \<in> set permission_catalog"
  "''soc:simulate'' \<in> set permission_catalog"
  "''system:manage'' \<in> set permission_catalog"
  "''threat_intel:correlate'' \<in> set permission_catalog"
  "''threat_intel:export'' \<in> set permission_catalog"
  "''threat_intel:import'' \<in> set permission_catalog"
  "''threat_intel:manage'' \<in> set permission_catalog"
  "''threat_intel:view'' \<in> set permission_catalog"
  "''vulnerabilities:accept_risk'' \<in> set permission_catalog"
  "''vulnerabilities:aggregate'' \<in> set permission_catalog"
  "''vulnerabilities:approve_risk'' \<in> set permission_catalog"
  "''vulnerabilities:export'' \<in> set permission_catalog"
  "''vulnerabilities:remediate'' \<in> set permission_catalog"
  "''vulnerabilities:triage'' \<in> set permission_catalog"
  "''vulnerabilities:verify'' \<in> set permission_catalog"
  "''vulnerabilities:view'' \<in> set permission_catalog"
  "''web:delete'' \<in> set permission_catalog"
  "''web:generate_reports'' \<in> set permission_catalog"
  "''web:manage_targets'' \<in> set permission_catalog"
  "''web:read'' \<in> set permission_catalog"
  "''web:run_scans'' \<in> set permission_catalog"
  unfolding permission_catalog_def by (rule list.set_intros(1) | rule list.set_intros(2))+

lemma protects_single: "p \<in> set permission_catalog \<Longrightarrow> protects ({p}, b)"
  by (simp add: protects_def)

lemma protects_insert: "p \<in> set permission_catalog \<Longrightarrow> protects (ps, b) \<Longrightarrow> protects (insert p ps, b)"
  by (simp add: protects_def)

lemma protects_if: "protects r \<Longrightarrow> protects r' \<Longrightarrow> protects (if c then r else r')"
  by simp

lemma protects_if_set: "protects (ps, b) \<Longrightarrow> protects (qs, b) \<Longrightarrow> protects ((if c then ps else qs), b)"
  by simp

lemma if_mem: "p \<in> S \<Longrightarrow> q \<in> S \<Longrightarrow> (if c then p else q) \<in> S"
  by simp

lemmas protects_intros = protects_if protects_if_set protects_single protects_insert if_mem cataloged

lemma protects_read: "p \<in> set permission_catalog \<Longrightarrow> protects (read_or_reports p path)"
  unfolding read_or_reports_def by (intro protects_intros)

lemma protects_targets: "protects (targets_permissions method path)"
  unfolding targets_permissions_def by (intro protects_read protects_intros)

lemma protects_scans: "protects (scans_permissions method path)"
  unfolding scans_permissions_def by (intro protects_read protects_intros)

lemma protects_reports: "protects (reports_permissions method path)"
  unfolding reports_permissions_def by (intro protects_read protects_intros)

lemma protects_api_security: "protects (api_security_permissions method path)"
  unfolding api_security_permissions_def by (intro protects_read protects_intros)

lemma protects_soc: "protects (soc_permissions method path)"
  unfolding soc_permissions_def by (intro protects_read protects_intros)

lemma protects_document: "protects (document_permissions method path)"
  unfolding document_permissions_def by (intro protects_read protects_intros)

lemma protects_phishing: "protects (phishing_permissions method path)"
  unfolding phishing_permissions_def by (intro protects_read protects_intros)

lemma protects_threat_intel: "protects (threat_intel_permissions method path)"
  unfolding threat_intel_permissions_def by (intro protects_read protects_intros)

lemma protects_detections: "protects (detections_permissions method path)"
  unfolding detections_permissions_def by (intro protects_read protects_intros)

lemma protects_vulnerability: "protects (vulnerability_permissions method path)"
  unfolding vulnerability_permissions_def by (intro protects_read protects_intros)

lemma protects_soar: "protects (soar_permissions method path)"
  unfolding soar_permissions_def by (intro protects_read protects_intros)

lemma protects_analytics: "protects (analytics_permissions method path)"
  unfolding analytics_permissions_def by (intro protects_read protects_intros)

lemma protects_correlation: "protects (correlation_permissions method path)"
  unfolding correlation_permissions_def Let_def by (intro protects_read protects_intros)

lemma protects_governance: "protects (governance_permissions method path)"
  unfolding governance_permissions_def by (intro protects_read protects_intros)

lemma protects_settings: "protects (settings_permissions method path)"
  unfolding settings_permissions_def by (intro protects_read protects_intros)

lemma protects_policies: "protects (policies_permissions method path)"
  unfolding policies_permissions_def by (intro protects_read protects_intros)

lemma protects_integrations: "\<not> py_in ''/inbound/'' path \<Longrightarrow> protects (integrations_permissions method path)"
  unfolding integrations_permissions_def if_not_P by (intro protects_intros)

lemma block_protects:
  assumes "(pre, block) \<in> set permission_blocks" "pre = ''/api/integrations'' \<Longrightarrow> \<not> py_in ''/inbound/'' path"
  shows "protects (block method path)"
proof -
  have "pre \<noteq> ''/api/integrations'' \<Longrightarrow> protects (block method path)"
    using assms(1)
    by (auto simp: permission_blocks_def intro: protects_settings protects_policies protects_targets protects_scans
        protects_reports protects_api_security protects_soc protects_document protects_phishing
        protects_threat_intel protects_detections protects_vulnerability protects_soar protects_analytics
        protects_correlation protects_governance protects_single cataloged)
  moreover have "protects (block method path)" if "pre = ''/api/integrations''"
    using assms that by (auto simp: permission_blocks_def intro: protects_integrations)
  ultimately show ?thesis by blast
qed


section \<open>Properties\<close>

text \<open>The prefixes under which \<open>main.py\<close> mounts the routers that carry the access dependency.\<close>

definition protected_routers :: "string list" where
  "protected_routers =
     [''/api/targets'', ''/api/scans'', ''/api/policies'', ''/api/reports'', ''/api/dashboard'', ''/api/notifications'',
      ''/api/profile'', ''/api/settings'', ''/api/search'', ''/api/api-security'', ''/api/soc'', ''/api/document-threats'',
      ''/api/phishing-defense'', ''/api/correlation'', ''/api/governance'', ''/api/threat-intel'', ''/api/detections'',
      ''/api/vulnerability-management'', ''/api/soar'', ''/api/integrations'', ''/api/analytics'']"

lemma routers_have_blocks: "pre \<in> set protected_routers \<Longrightarrow> pre \<in> fst ` set permission_blocks"
  by (auto simp: protected_routers_def permission_blocks_def)

text \<open>C26. No module request slips through without a permission: for every path under the prefix of a
  router that the application mounts as protected, whatever the method, the request needs at least one permission and every
  permission it can need exists in the catalog; the only exception is the signed inbound path of
  the integrations, which is authenticated by its signature instead.\<close>

theorem module_requests_protected:
  assumes "pre \<in> set protected_routers" "startswith (rq_path request) pre"
    "\<not> (startswith (rq_path request) ''/api/integrations'' \<and> py_in ''/inbound/'' (rq_path request))"
  shows "fst (required_permissions request) \<noteq> {} \<and>
     fst (required_permissions request) \<subseteq> set permission_catalog"
proof -
  let ?hit = "\<lambda>(pre, _ :: string \<Rightarrow> string \<Rightarrow> requirement). startswith (rq_path request) pre"
  from routers_have_blocks [OF assms(1)] assms(2) obtain blk where "(pre, blk) \<in> set permission_blocks" "?hit (pre, blk)" by auto
  then have "find ?hit permission_blocks \<noteq> None" by (auto simp: find_None_iff)
  then obtain p b where f: "find ?hit permission_blocks = Some (p, b)" by auto
  from find_SomeD [OF f] have pb: "(p, b) \<in> set permission_blocks" "startswith (rq_path request) p" by auto
  have "protects (b (upper (rq_method request)) (rq_path request))"
    using block_protects [OF pb(1)] pb(2) assms(3) by blast
  with f show ?thesis by (simp add: required_permissions_def protects_def)
qed

theorem module_requests_protected_witness:
  "fst (required_permissions (demo_request ''POST'' ''/api/analytics/jobs'' [])) \<noteq> {}"
proof -
  have "''/api/analytics'' \<in> set protected_routers" by (simp add: protected_routers_def)
  moreover have "startswith (rq_path (demo_request ''POST'' ''/api/analytics/jobs'' [])) ''/api/analytics'' \<and>
     \<not> (startswith (rq_path (demo_request ''POST'' ''/api/analytics/jobs'' [])) ''/api/integrations'' \<and>
        py_in ''/inbound/'' (rq_path (demo_request ''POST'' ''/api/analytics/jobs'' [])))"
    by code_simp
  ultimately show ?thesis using module_requests_protected by blast
qed

end
