(* ===== verification/Request_Gate.thy ===== *)
theory Request_Gate
  imports Sessions Audit_Log Authorization Users Access_Fixtures
begin

text \<open>
  The dependencies that guard the endpoints (\<open>access_control/dependencies.py\<close>): the current
  session and account, the permission and CSRF checks and the platform-wide gate
  \<open>authorize_platform_request\<close>, which runs the endpoint between its checks and its audit record.
  The endpoint is the argument \<open>handler\<close>. The lemmas show that the endpoint runs only for a live
  session of an account that holds the required permissions, with a valid CSRF token when the
  method changes state.
\<close>

section \<open>Naming of integration operations\<close>

definition removeprefix :: "string \<Rightarrow> string \<Rightarrow> string" where
  "removeprefix s p = (if startswith s p then drop (length p) s else s)"

definition py_isdigit :: "string \<Rightarrow> bool" where
  "py_isdigit s \<longleftrightarrow> s \<noteq> [] \<and> list_all is_digit s"

definition connector_actions :: "(string \<times> string) list" where
  "connector_actions =
     [(''move-to-testing'', ''connector_move_to_testing''), (''activate'', ''connector_activate''),
      (''disable'', ''connector_disable''), (''archive'', ''connector_archive''),
      (''validate'', ''configuration_validate''), (''test'', ''connector_test''),
      (''send-test'', ''connector_test_send''), (''reset-circuit'', ''circuit_reset'')]"

definition operation_verb :: "string \<Rightarrow> string" where
  "operation_verb method =
     (if method = ''POST'' then ''create'' else if method = ''PATCH'' then ''update''
      else if method = ''DELETE'' then ''delete'' else casefold method)"

definition connector_operation :: "string \<Rightarrow> string list \<Rightarrow> string" where
  "connector_operation method parts =
     (if ''credentials'' \<in> set parts
      then (if ''rotate'' \<in> set parts then ''credential_rotate''
            else if method = ''DELETE'' then ''credential_remove'' else ''credential_replace'')
      else if ''network-policy'' \<in> set parts then ''network_policy_update''
      else if ''taxii'' \<in> set parts \<and> ''pull'' \<in> set parts then ''taxii_pull''
      else (case find (\<lambda>(token, action). token \<in> set parts) connector_actions of
              Some (_, action) \<Rightarrow> action
            | None \<Rightarrow> if method = ''POST'' then ''connector_create''
                      else if method = ''PATCH'' then ''connector_update''
                      else ''connector_'' @ casefold method))"

definition integration_operation :: "string \<Rightarrow> string \<Rightarrow> string \<times> string option" where
  "integration_operation method0 path =
     (let suffix = removeprefix path ''/api/integrations'';
          parts = filter (\<lambda>p. p \<noteq> []) (split_on CHR ''/'' suffix);
          resource_id = find py_isdigit parts;
          root = (case parts of [] \<Rightarrow> ''overview'' | p # _ \<Rightarrow> p);
          method = upper method0;
          verb = operation_verb method
      in ((if root = ''connectors'' then connector_operation method parts
           else if root = ''subscriptions'' then ''subscription_'' @ verb
           else if root = ''mappings''
           then (if ''validate'' \<in> set parts then ''mapping_validate''
                 else if ''preview'' \<in> set parts then ''mapping_preview'' else ''mapping_'' @ verb)
           else if root = ''deliveries''
           then (if ''retry'' \<in> set parts then ''delivery_manual_retry''
                 else if ''cancel'' \<in> set parts then ''delivery_cancel'' else ''delivery_queue'')
           else if root = ''dead-letters''
           then (if ''replay'' \<in> set parts then ''dead_letter_replay'' else ''dead_letter_cancel'')
           else if root = ''inbound-endpoints''
           then (if ''rotate-secret'' \<in> set parts then ''inbound_secret_rotate''
                 else if ''disable'' \<in> set parts then ''inbound_endpoint_disable''
                 else ''inbound_endpoint_'' @ verb)
           else if root = ''inbound-events''
           then (if ''promote'' \<in> set parts then ''inbound_promote'' else ''inbound_reject'')
           else if root = ''stix''
           then (if ''preview'' \<in> set parts then ''stix_preview'' else ''stix_promote'')
           else if root = ''reports''
           then (if ''download'' \<in> set parts then ''report_export'' else ''report_generation'')
           else if root = ''process-due'' then ''delivery_process_due''
           else replace_char CHR ''-'' ''_'' root @ ''_'' @ casefold method),
          resource_id))"


section \<open>Dependencies\<close>

definition get_current_session :: "ctx \<Rightarrow> request \<Rightarrow> (db, auth_session) action" where
  "get_current_session cx request s =
     (case lookup_session cx request True s of
        (None, s') \<Rightarrow> (Inl (HTTPException 401 ''Authentication required''), s')
      | (Some r, s') \<Rightarrow> (Inr r, s'))"

text \<open>\<open>auth_session.user\<close>: the account of a session that a lookup returned.\<close>

definition session_user :: "db \<Rightarrow> auth_session \<Rightarrow> user_account" where
  "session_user s r = the (get_user s (as_user_id r))"

definition get_current_user :: "ctx \<Rightarrow> request \<Rightarrow> (db, user_account) action" where
  "get_current_user cx request s =
     (case get_current_session cx request s of
        (Inl e, s') \<Rightarrow> (Inl e, s')
      | (Inr r, s') \<Rightarrow> (Inr (session_user s' r), s'))"

definition request_event ::
  "ctx \<Rightarrow> request \<Rightarrow> string \<Rightarrow> string \<Rightarrow> string \<Rightarrow> user_account option \<Rightarrow> nat \<Rightarrow> audit_args" where
  "request_event cx request event_type action outcome actor status_code =
     \<lparr>aa_event_type = event_type, aa_action = action,
      aa_request_id = (case rq_request_id request of None \<Rightarrow> ''unknown'' | Some i \<Rightarrow> i),
      aa_outcome = outcome, aa_actor = actor, aa_resource_type = None, aa_resource_id = None,
      aa_route_template = Some (rq_path request), aa_request_method = Some (rq_method request),
      aa_status_code = Some status_code, aa_reason_code = None, aa_metadata = [],
      aa_client_ip_hash = client_ip_hash cx request,
      aa_user_agent_summary = summarize_user_agent (rq_user_agent request)\<rparr>"

text \<open>Record an event, then end with the given outcome; a failing record ends the request instead.\<close>

definition audited :: "ctx \<Rightarrow> audit_args \<Rightarrow> 'a result \<Rightarrow> (db, 'a) action" where
  "audited cx a out s =
     (case append_event cx a s of (Inl e, s') \<Rightarrow> (Inl e, s') | (Inr _, s') \<Rightarrow> (out, s'))"

definition check_permission :: "ctx \<Rightarrow> string \<Rightarrow> request \<Rightarrow> user_account \<Rightarrow> (db, user_account) action" where
  "check_permission cx permission request u s =
     (if ua_must_change_password u then (Inl (HTTPException 403 ''Password change required''), s)
      else if permission \<notin> effective_permissions s u
      then audited cx ((request_event cx request ''authorization_denied'' ''permission_check'' ''denied'' (Some u) 403)
             \<lparr>aa_reason_code := Some ''permission_denied'',
              aa_metadata := [(''required_permission'', PStr permission)]\<rparr>)
             (Inl (HTTPException 403 ''Permission denied'')) s
      else (Inr u, s))"

definition require_permission :: "ctx \<Rightarrow> string \<Rightarrow> request \<Rightarrow> (db, user_account) action" where
  "require_permission cx permission request =
     bind_action (get_current_user cx request) (check_permission cx permission request)"

definition require_any_permission :: "ctx \<Rightarrow> string list \<Rightarrow> request \<Rightarrow> (db, user_account) action" where
  "require_any_permission cx wanted request s =
     (case get_current_user cx request s of
        (Inl e, s') \<Rightarrow> (Inl e, s')
      | (Inr u, s') \<Rightarrow>
          if ua_must_change_password u then (Inl (HTTPException 403 ''Password change required''), s')
          else if effective_permissions s' u \<inter> set wanted = {}
          then (Inl (HTTPException 403 ''Permission denied''), s')
          else (Inr u, s'))"

definition require_all_permissions :: "ctx \<Rightarrow> string list \<Rightarrow> request \<Rightarrow> (db, user_account) action" where
  "require_all_permissions cx wanted request s =
     (case get_current_user cx request s of
        (Inl e, s') \<Rightarrow> (Inl e, s')
      | (Inr u, s') \<Rightarrow>
          if ua_must_change_password u \<or> \<not> set wanted \<subseteq> effective_permissions s' u
          then (Inl (HTTPException 403 ''Permission denied''), s')
          else (Inr u, s'))"

definition require_system_admin :: "ctx \<Rightarrow> request \<Rightarrow> (db, user_account) action" where
  "require_system_admin cx request s =
     (case get_current_user cx request s of
        (Inl e, s') \<Rightarrow> (Inl e, s')
      | (Inr u, s') \<Rightarrow>
          if \<not> ua_is_system_admin u \<or> ua_must_change_password u
          then (Inl (HTTPException 403 ''System administrator access required''), s')
          else (Inr u, s'))"

definition require_authenticated_csrf :: "ctx \<Rightarrow> request \<Rightarrow> (db, auth_session) action" where
  "require_authenticated_csrf cx request s =
     (case get_current_session cx request s of
        (Inl e, s') \<Rightarrow> (Inl e, s')
      | (Inr r, s') \<Rightarrow> (case validate_csrf cx request r of Inl e \<Rightarrow> (Inl e, s') | Inr _ \<Rightarrow> (Inr r, s')))"


section \<open>The platform gate\<close>

definition mutating :: "request \<Rightarrow> bool" where
  "mutating request \<longleftrightarrow> upper (rq_method request) \<in> {''POST'', ''PUT'', ''PATCH'', ''DELETE''}"

definition requirement_met :: "requirement \<Rightarrow> string set \<Rightarrow> bool" where
  "requirement_met r current = (if snd r then fst r \<subseteq> current else fst r \<inter> current \<noteq> {})"

text \<open>The part before \<open>yield\<close>.\<close>

definition authorize_before :: "ctx \<Rightarrow> request \<Rightarrow> (db, user_account) action" where
  "authorize_before cx request s =
     (case lookup_session cx request True s of
        (None, s') \<Rightarrow> (Inl (HTTPException 401 ''Authentication required''), s')
      | (Some r, s') \<Rightarrow>
          (let user = session_user s' r;
               required = required_permissions request;
               current = effective_permissions s' user in
           if ua_must_change_password user then (Inl (HTTPException 403 ''Password change required''), s')
           else if fst required \<noteq> {} \<and> \<not> requirement_met required current
           then audited cx ((request_event cx request ''authorization_denied'' ''platform_request'' ''denied'' (Some user) 403)
                  \<lparr>aa_reason_code := Some ''permission_denied'',
                   aa_metadata := [(''required_permissions'', PList (map PStr (sorted_list_of_set (fst required))))]\<rparr>)
                  (Inl (HTTPException 403 ''Permission denied'')) s'
           else if mutating request
           then (case validate_csrf cx request r of
               Inl e \<Rightarrow>
                 audited cx ((request_event cx request ''csrf_failure'' ''csrf_validation'' ''denied'' (Some user) 403)
                    \<lparr>aa_reason_code := Some ''csrf_invalid'', aa_user_agent_summary := None\<rparr>) (Inl e) s'
             | Inr _ \<Rightarrow> (Inr user, s'))
           else (Inr user, s')))"

text \<open>The part after \<open>yield\<close>, when the endpoint did not raise.\<close>

definition path_part :: "string \<Rightarrow> string" where
  "path_part path =
     (let parts = split_on CHR ''/'' path in if 2 < length parts then parts ! 2 else ''platform'')"

definition authorize_after :: "ctx \<Rightarrow> request \<Rightarrow> user_account \<Rightarrow> (db, unit) action" where
  "authorize_after cx request user s =
     (if mutating request
      then (let integration = startswith (rq_path request) ''/api/integrations'';
                named = (if integration then integration_operation (rq_method request) (rq_path request)
                         else (casefold (rq_method request) @ '' '' @ rq_path request, None))
            in audited cx ((request_event cx request
                   (if integration then ''integration_operation'' else ''module_mutation'') (fst named) ''success'' (Some user) 200)
                 \<lparr>aa_resource_type := Some (if integration then ''integration'' else path_part (rq_path request)),
                  aa_resource_id := snd named\<rparr>) (Inr ()) s)
      else (Inr (), s))"

definition authorize_platform_request ::
  "ctx \<Rightarrow> request \<Rightarrow> (user_account \<Rightarrow> (db, 'a) action) \<Rightarrow> (db, 'a) action" where
  "authorize_platform_request cx request handler s =
     (case authorize_before cx request s of
        (Inl e, s1) \<Rightarrow> (Inl e, s1)
      | (Inr user, s1) \<Rightarrow>
          (case handler user s1 of
             (Inl e, s2) \<Rightarrow> (Inl e, s2)
           | (Inr x, s2) \<Rightarrow>
               (case authorize_after cx request user s2 of
                  (Inl e, s3) \<Rightarrow> (Inl e, s3)
                | (Inr _, s3) \<Rightarrow> (Inr x, s3))))"


section \<open>Laws\<close>

lemma audited_cases:
  "audited cx a out s = (out', s') \<Longrightarrow>
     (\<exists>e. append_event cx a s = (Inl e, s') \<and> out' = Inl e) \<or> (\<exists>v. append_event cx a s = (Inr v, s') \<and> out' = out)"
  by (auto simp: audited_def split: prod.splits sum.splits)

lemma audited_frame:
  assumes "audited cx a out s = (out', s')"
  shows "users s' = users s" "roles s' = roles s" "permissions s' = permissions s"
    "user_roles s' = user_roles s" "role_permissions s' = role_permissions s" "sessions s' = sessions s"
    "attempts s' = attempts s" "mfa_devices s' = mfa_devices s" "recovery_codes s' = recovery_codes s"
    "challenges s' = challenges s" "notifications s' = notifications s" "activities s' = activities s"
proof -
  obtain v where "append_event cx a s = (v, s')" using audited_cases [OF assms] by blast
  note f = append_event_frame [OF this]
  show "users s' = users s" "roles s' = roles s" "permissions s' = permissions s"
    "user_roles s' = user_roles s" "role_permissions s' = role_permissions s" "sessions s' = sessions s"
    "attempts s' = attempts s" "mfa_devices s' = mfa_devices s" "recovery_codes s' = recovery_codes s"
    "challenges s' = challenges s" "notifications s' = notifications s" "activities s' = activities s"
    by (rule f)+
qed

lemma audited_Inl: "audited cx a (Inl e) s = (out, s') \<Longrightarrow> \<exists>e'. out = Inl e'"
  by (auto dest!: audited_cases)

text \<open>The tables that no refusal changes.\<close>

definition same_accounts :: "db \<Rightarrow> db \<Rightarrow> bool" where
  "same_accounts s t \<longleftrightarrow>
     users t = users s \<and> roles t = roles s \<and> permissions t = permissions s \<and>
     user_roles t = user_roles s \<and> role_permissions t = role_permissions s \<and>
     mfa_devices t = mfa_devices s \<and> recovery_codes t = recovery_codes s \<and> challenges t = challenges s"

lemma same_accounts_trans: "same_accounts s t \<Longrightarrow> same_accounts t u \<Longrightarrow> same_accounts s u"
  by (simp add: same_accounts_def)

lemma lookup_same_accounts: "lookup_session cx request refresh s = (out, s') \<Longrightarrow> same_accounts s s'"
  using lookup_session_frame by (simp add: same_accounts_def)

lemma audited_same_accounts: "audited cx a out s = (out', s') \<Longrightarrow> same_accounts s s'"
  unfolding same_accounts_def by (intro conjI) (erule audited_frame)+

text \<open>A check before an endpoint: what it admits, and what it leaves alone when it refuses.\<close>

locale request_guard =
  fixes check :: "db \<Rightarrow> 'u result \<times> db" and admits :: "db \<Rightarrow> 'u \<Rightarrow> db \<Rightarrow> bool"
  assumes check_admits: "check s = (Inr u, s') \<Longrightarrow> admits s u s'"
    and check_keeps: "check s = (out, s') \<Longrightarrow> same_accounts s s'"
begin

definition guarded :: "('u \<Rightarrow> (db, 'a) action) \<Rightarrow> (db, 'a) action" where
  "guarded handler s =
     (case check s of (Inl e, s1) \<Rightarrow> (Inl e, s1) | (Inr u, s1) \<Rightarrow> handler u s1)"

lemma guarded_cases:
  "(\<exists>e s1. (\<forall>handler :: 'u \<Rightarrow> (db, 'a) action. guarded handler s = (Inl e, s1)) \<and> same_accounts s s1) \<or>
   (\<exists>u s1. admits s u s1 \<and> same_accounts s s1 \<and>
      (\<forall>handler :: 'u \<Rightarrow> (db, 'a) action. guarded handler s = handler u s1))"
proof (cases "check s")
  case (Pair out s1)
  note keeps = check_keeps [OF Pair]
  show ?thesis
  proof (cases out)
    case (Inl e)
    then have "\<forall>handler :: 'u \<Rightarrow> (db, 'a) action. guarded handler s = (Inl e, s1)" using Pair by (simp add: guarded_def)
    with keeps show ?thesis by blast
  next
    case (Inr u)
    then have "\<forall>handler :: 'u \<Rightarrow> (db, 'a) action. guarded handler s = handler u s1" using Pair by (simp add: guarded_def)
    with keeps check_admits [OF Pair [unfolded Inr]] show ?thesis by blast
  qed
qed

end

definition session_admitted :: "ctx \<Rightarrow> request \<Rightarrow> db \<Rightarrow> auth_session \<Rightarrow> db \<Rightarrow> bool" where
  "session_admitted cx request s r s' \<longleftrightarrow>
     lookup_session cx request True s = (Some r, s') \<and>
     get_user s (as_user_id r) = Some (session_user s' r) \<and> get_user s' (as_user_id r) = Some (session_user s' r)"

lemma session_admittedI:
  assumes "lookup_session cx request True s = (Some r, s')"
  shows "session_admitted cx request s r s'"
proof -
  obtain u where "get_user s (as_user_id r) = Some u" using lookup_session_facts [OF assms] by blast
  moreover have "get_user s' = get_user s"
    using lookup_session_frame [OF assms] by (intro get_user_cong) simp
  ultimately show ?thesis using assms by (simp add: session_admitted_def session_user_def)
qed

definition platform_admitted :: "ctx \<Rightarrow> request \<Rightarrow> db \<Rightarrow> user_account \<Rightarrow> db \<Rightarrow> bool" where
  "platform_admitted cx request s u s' \<longleftrightarrow>
     (\<exists>r. session_admitted cx request s r s' \<and> u = session_user s' r \<and> \<not> ua_must_change_password u \<and>
        (let required = required_permissions request
         in fst required = {} \<or> requirement_met required (effective_permissions s u)) \<and>
        (mutating request \<longrightarrow> validate_csrf cx request r = Inr ()))"

lemma effective_permissions_same:
  "same_accounts s s' \<Longrightarrow> effective_permissions s' u = effective_permissions s u"
  by (simp add: effective_permissions_def same_accounts_def)

lemma authorize_before_admits:
  assumes "authorize_before cx request s = (Inr u, s')"
  shows "platform_admitted cx request s u s'"
proof -
  obtain out s1 where l: "lookup_session cx request True s = (out, s1)" by fastforce
  then obtain r where r: "out = Some r" using assms by (cases out) (auto simp: authorize_before_def)
  note l = l [unfolded r]
  have p: "effective_permissions s1 v = effective_permissions s v" for v
    by (rule effective_permissions_same [OF lookup_same_accounts [OF l]])
  have "s' = s1 \<and> u = session_user s1 r \<and> \<not> ua_must_change_password u \<and>
      (fst (required_permissions request) = {} \<or>
       requirement_met (required_permissions request) (effective_permissions s1 u)) \<and>
      (mutating request \<longrightarrow> validate_csrf cx request r = Inr ())"
    using assms l
    by (auto simp: authorize_before_def Let_def split: if_splits sum.splits dest!: audited_Inl)
  then show ?thesis
    using session_admittedI [OF l] p unfolding platform_admitted_def Let_def by metis
qed

lemma authorize_before_keeps:
  assumes "authorize_before cx request s = (out, s')"
  shows "same_accounts s s'"
proof -
  obtain r s1 where l: "lookup_session cx request True s = (r, s1)" by fastforce
  then have 1: "same_accounts s s1" by (rule lookup_same_accounts)
  have "s' = s1 \<or> (\<exists>a out1. audited cx a (Inl out1) s1 = (out, s'))"
    using assms l by (auto simp: authorize_before_def Let_def split: option.splits if_splits sum.splits)
  then show ?thesis using 1 audited_same_accounts same_accounts_trans by blast
qed

interpretation platform_guard: request_guard "authorize_before cx request" "platform_admitted cx request" for cx request
  by unfold_locales (rule authorize_before_admits, assumption, erule authorize_before_keeps)

text \<open>The endpoint together with the record that follows it.\<close>

definition recorded ::
  "ctx \<Rightarrow> request \<Rightarrow> (user_account \<Rightarrow> (db, 'a) action) \<Rightarrow> user_account \<Rightarrow> (db, 'a) action" where
  "recorded cx request handler user s =
     (case handler user s of
        (Inl e, s2) \<Rightarrow> (Inl e, s2)
      | (Inr x, s2) \<Rightarrow>
          (case authorize_after cx request user s2 of
             (Inl e, s3) \<Rightarrow> (Inl e, s3) | (Inr _, s3) \<Rightarrow> (Inr x, s3)))"

lemma authorize_platform_request_guarded:
  "authorize_platform_request cx request handler = platform_guard.guarded cx request (recorded cx request handler)"
  by (rule ext)
    (simp add: authorize_platform_request_def platform_guard.guarded_def recorded_def split: prod.split sum.split)


section \<open>Properties\<close>

text \<open>C1. The platform gate: either every endpoint is refused alike, with an error raised before it
  runs and no account, role, permission or authentication factor changed; or the request carries
  the cookie of a live session whose account need not change its password, holds the permissions
  the request requires and, for a method that changes state, sent the session's CSRF token, and
  then the endpoint runs for that account and its outcome is the outcome of the request, up to the
  audit record that follows a successful change.\<close>

theorem authorize_platform_request_sound:
  "(\<exists>e s1. (\<forall>handler :: user_account \<Rightarrow> (db, 'a) action. authorize_platform_request cx request handler s = (Inl e, s1)) \<and>
      same_accounts s s1) \<or>
   (\<exists>r u s1. lookup_session cx request True s = (Some r, s1) \<and> get_user s (as_user_id r) = Some u \<and>
      \<not> ua_must_change_password u \<and>
      (fst (required_permissions request) = {} \<or>
       requirement_met (required_permissions request) (effective_permissions s u)) \<and>
      (mutating request \<longrightarrow> validate_csrf cx request r = Inr ()) \<and> same_accounts s s1 \<and>
      (\<forall>handler :: user_account \<Rightarrow> (db, 'a) action.
         authorize_platform_request cx request handler s = recorded cx request handler u s1))"
proof -
  have run: "authorize_platform_request cx request handler s =
      platform_guard.guarded cx request (recorded cx request handler) s"
    for handler :: "user_account \<Rightarrow> (db, 'a) action"
    by (simp add: authorize_platform_request_guarded)
  from platform_guard.guarded_cases [of cx request s, where 'a = 'a] show ?thesis
  proof (elim disjE exE conjE)
    fix e s1
    assume "\<forall>handler :: user_account \<Rightarrow> (db, 'a) action. platform_guard.guarded cx request handler s = (Inl e, s1)"
      and "same_accounts s s1"
    then show ?thesis by (intro disjI1) (auto simp: run)
  next
    fix u s1
    assume "platform_admitted cx request s u s1" "same_accounts s s1"
      and "\<forall>handler :: user_account \<Rightarrow> (db, 'a) action. platform_guard.guarded cx request handler s = handler u s1"
    then show ?thesis
      unfolding platform_admitted_def session_admitted_def Let_def
      by (intro disjI2) (auto simp: run)
  qed
qed

theorem authorize_platform_request_sound_witness:
  "(\<forall>handler. authorize_platform_request (demo_ctx 7) (demo_request ''GET'' ''/api/scans'' ''t2'') handler demo_db =
       recorded (demo_ctx 7) (demo_request ''GET'' ''/api/scans'' ''t2'') handler (demo_user 2 ''ana'' Active False) demo_db) \<and>
   fst (authorize_platform_request (demo_ctx 7) (demo_request ''GET'' ''/api/scans'' ''t1'')
     (\<lambda>u s. (Inr (), s)) demo_db) = Inl (HTTPException 401 ''Authentication required'')"
proof
  let ?cx = "demo_ctx 7" and ?rq = "demo_request ''GET'' ''/api/scans'' ''t2''"
  have ok: "fst (authorize_platform_request ?cx ?rq (\<lambda>u s. (Inr (), s)) demo_db) = Inr ()" by code_simp
  have l: "lookup_session ?cx ?rq True demo_db = (Some (demo_session 2 2 ''t2'' None), demo_db)" by code_simp
  have u: "get_user demo_db 2 = Some (demo_user 2 ''ana'' Active False)" by code_simp
  have "authorize_before ?cx ?rq demo_db = (Inr (demo_user 2 ''ana'' Active False), demo_db)" by code_simp
  then show "\<forall>handler. authorize_platform_request ?cx ?rq handler demo_db =
      recorded ?cx ?rq handler (demo_user 2 ''ana'' Active False) demo_db"
    using authorize_platform_request_sound [of ?cx ?rq demo_db]
    by (simp add: authorize_platform_request_def recorded_def)
  show "fst (authorize_platform_request ?cx (demo_request ''GET'' ''/api/scans'' ''t1'')
     (\<lambda>u s. (Inr (), s)) demo_db) = Inl (HTTPException 401 ''Authentication required'')"
    by code_simp
qed

end
