(* ===== verification/Auth_Router.thy ===== *)
theory Auth_Router
  imports Accounts Mfa Authentication Request_Gate
begin

text \<open>
  The authentication endpoints (\<open>access_control/router.py\<close>, \<open>router\<close>): login, registration, the
  second factor, logout, password change, own sessions and MFA enrollment. Every endpoint is an
  operation on the database whose outcome is the response body, together with the cookie it sets
  where it sets one; random values are arguments. The lemmas show who gets a session.
\<close>

section \<open>Payloads and responses\<close>

record login_request =
  lr_identifier :: string
  lr_password :: string

record account_summary =
  ac_username :: string
  ac_display_name :: string
  ac_email :: "string option"
  ac_rejection_reason :: "string option"

record login_reply =
  lo_requires_mfa :: bool
  lo_account_status :: "string option"
  lo_next_route :: "string option"
  lo_account :: "account_summary option"
  lo_challenge_token :: "string option"
  lo_expires_in_seconds :: "nat option"
  lo_user :: "user_view option"

definition empty_reply :: login_reply where
  "empty_reply =
     \<lparr>lo_requires_mfa = False, lo_account_status = None, lo_next_route = None, lo_account = None,
      lo_challenge_token = None, lo_expires_in_seconds = None, lo_user = None\<rparr>"

text \<open>The random values of a login: the session token, its CSRF token and the challenge token.\<close>

record login_tokens =
  lt_session :: string
  lt_csrf :: string
  lt_challenge :: string

text \<open>The object mapper reads an account again after a commit.\<close>

definition reload :: "db \<Rightarrow> user_account \<Rightarrow> user_account" where
  "reload s u = (case get_user s (ua_id u) of None \<Rightarrow> u | Some v \<Rightarrow> v)"


section \<open>Login\<close>

definition masked_email :: "user_account \<Rightarrow> string option result" where
  "masked_email u =
     (if truthy (ua_email u) then bind_result (mask_email (the (ua_email u))) (\<lambda>m. Inr (Some m)) else Inr None)"

definition login_waiting :: "user_account \<Rightarrow> login_reply result" where
  "login_waiting u =
     bind_result (masked_email u) (\<lambda>email. Inr (empty_reply
       \<lparr>lo_account_status := Some ''pending_approval'', lo_next_route := Some ''/account-pending'',
        lo_account := Some \<lparr>ac_username = ua_username u, ac_display_name = ua_display_name u,
                            ac_email = email, ac_rejection_reason = None\<rparr>\<rparr>))"

definition login_rejected :: "user_account \<Rightarrow> login_reply result" where
  "login_rejected u =
     bind_result (masked_email u) (\<lambda>email. Inr (empty_reply
       \<lparr>lo_account_status := Some ''rejected'', lo_next_route := Some ''/account-rejected'',
        lo_account := Some \<lparr>ac_username = ua_username u, ac_display_name = ua_display_name u,
                            ac_email = email, ac_rejection_reason = ua_rejection_reason u\<rparr>\<rparr>))"

text \<open>\<open>create_session\<close> and the commit that follows; a failing insert rolls back.\<close>

definition open_session ::
  "ctx \<Rightarrow> login_tokens \<Rightarrow> user_account \<Rightarrow> request \<Rightarrow> bool \<Rightarrow> (db, auth_session) action" where
  "open_session cx fresh u request mfa_verified s =
     (case create_session cx (lt_session fresh) (lt_csrf fresh) (ua_id u) request mfa_verified s of
        (Inl e, _) \<Rightarrow> (Inl e, s)
      | (Inr (r, _, _), s') \<Rightarrow> (Inr r, s'))"

definition login_success ::
  "ctx \<Rightarrow> login_tokens \<Rightarrow> login_request \<Rightarrow> request \<Rightarrow> user_account \<Rightarrow> (db, login_reply \<times> cookie option) action" where
  "login_success cx fresh payload request u =
     bind_action (open_session cx fresh u request False) (\<lambda>r s.
       let identifier_type = (if CHR ''@'' \<in> set (lr_identifier payload) then ''email'' else ''username'')
       in audited cx
            ((request_event cx request (identifier_type @ ''_login_success'') ''login'' ''success'' (Some u) 200)
               \<lparr>aa_resource_type := Some ''auth_session'', aa_resource_id := Some (str_nat (as_id r)),
                aa_metadata := [(''identifier_type'', PStr identifier_type)]\<rparr>)
            (Inr (empty_reply\<lparr>lo_user := Some (user_dict s (reload s u) True)\<rparr>,
                  Some (set_session_cookie cx (lt_session fresh)))) s)"

definition login_challenge ::
  "ctx \<Rightarrow> login_tokens \<Rightarrow> request \<Rightarrow> user_account \<Rightarrow> (db, login_reply \<times> cookie option) action" where
  "login_challenge cx fresh request u =
     bind_action (create_challenge cx (lt_challenge fresh) (ua_id u)) (\<lambda>challenge.
       audited cx (request_event cx request ''login_mfa_required'' ''login'' ''success'' (Some u) 200)
         (Inr (empty_reply\<lparr>lo_requires_mfa := True, lo_challenge_token := Some challenge,
                           lo_expires_in_seconds := Some 300\<rparr>, None)))"

definition login_denied ::
  "ctx \<Rightarrow> request \<Rightarrow> string \<Rightarrow> string \<Rightarrow> user_account \<Rightarrow> login_reply result \<Rightarrow> (db, login_reply \<times> cookie option) action" where
  "login_denied cx request event_type reason u reply =
     audited cx ((request_event cx request event_type ''login'' ''denied'' (Some u) 200)\<lparr>aa_reason_code := Some reason\<rparr>)
       (bind_result reply (\<lambda>r. Inr (r, None)))"

definition login ::
  "ctx \<Rightarrow> login_tokens \<Rightarrow> login_request \<Rightarrow> request \<Rightarrow> (db, login_reply \<times> cookie option) action" where
  "login cx fresh payload request s =
     (if \<not> local_login_enabled (cx_config cx)
      then (Inl (HTTPException 403 ''Local login is unavailable''), s)
      else (case authenticate_password cx request (lr_identifier payload) (lr_password payload) s of
          (Inl (HTTPException status_code detail), s1) \<Rightarrow>
            audited cx ((request_event cx request ''login_failure'' ''login'' ''failure'' None status_code)
               \<lparr>aa_reason_code := Some ''invalid_credentials''\<rparr>) (Inl (HTTPException status_code detail)) s1
        | (Inl e, s1) \<Rightarrow> (Inl e, s1)
        | (Inr u, s1) \<Rightarrow>
            if ua_status u = PendingApproval
            then login_denied cx request ''login_pending'' ''pending_approval'' u (login_waiting u) s1
            else if ua_status u = Rejected
            then login_denied cx request ''login_rejected'' ''rejected'' u (login_rejected u) s1
            else if ua_mfa_enabled u then login_challenge cx fresh request u s1
            else login_success cx fresh payload request u s1))"


section \<open>Providers and registration\<close>

record provider_view =
  pv_local_login_enabled :: bool
  pv_self_registration_enabled :: bool
  pv_registration_mode :: string
  pv_approval_required :: bool
  pv_minimum_length :: nat
  pv_maximum_length :: nat
  pv_common_passwords_rejected :: bool
  pv_identifier_inclusion_rejected :: bool
  pv_privacy_notice_version :: string

definition providers :: "ctx \<Rightarrow> provider_view" where
  "providers cx =
     (let config = cx_config cx;
          registration_enabled = (local_login_enabled config \<and> self_registration_enabled config \<and>
                                  registration_mode config \<noteq> ''disabled'')
      in \<lparr>pv_local_login_enabled = local_login_enabled config,
          pv_self_registration_enabled = registration_enabled,
          pv_registration_mode = (if registration_enabled then registration_mode config else ''disabled''),
          pv_approval_required = (registration_enabled \<and> registration_mode config = ''approval_required''),
          pv_minimum_length = 12, pv_maximum_length = 128, pv_common_passwords_rejected = True,
          pv_identifier_inclusion_rejected = True,
          pv_privacy_notice_version = privacy_notice_version config\<rparr>)"

definition register ::
  "ctx \<Rightarrow> string \<Rightarrow> string list \<Rightarrow> registration_request \<Rightarrow> request \<Rightarrow> (db, registration_receipt) action" where
  "register cx salt tokens payload request s =
     (case register_local_account cx salt tokens request payload s of
        (Inl (HTTPException status_code detail), s1) \<Rightarrow>
          audited cx ((request_event cx request ''registration_failure'' ''register'' ''failure'' None status_code)
             \<lparr>aa_reason_code := Some ''registration_rejected''\<rparr>) (Inl (HTTPException status_code detail)) s1
      | (Inl e, s1) \<Rightarrow> (Inl e, s1)
      | (Inr (u, receipt), s1) \<Rightarrow>
          audited cx ((request_event cx request ''registration_success'' ''register'' ''success'' (Some u) 201)
             \<lparr>aa_resource_type := Some ''user'', aa_resource_id := Some (str_nat (ua_id u)),
              aa_metadata := [(''status'', PStr (status_text (ua_status u))), (''source'', PStr ''local'')]\<rparr>)
            (Inr receipt) s1)"


section \<open>The second factor of a login\<close>

record mfa_login_request =
  ml_challenge_token :: string
  ml_code :: string
  ml_recovery_code :: bool

definition challenge_failed :: "mfa_login_challenge \<Rightarrow> mfa_login_challenge" where
  "challenge_failed c = c\<lparr>mc_failed_attempts := mc_failed_attempts c + 1\<rparr>"

definition challenge_used :: "ctx \<Rightarrow> mfa_login_challenge \<Rightarrow> mfa_login_challenge" where
  "challenge_used cx c = c\<lparr>mc_used_at := Some (cx_now cx)\<rparr>"

definition mfa_invalid :: exn where
  "mfa_invalid = HTTPException 401 ''MFA challenge is invalid or expired''"

definition verify_mfa_login ::
  "ctx \<Rightarrow> login_tokens \<Rightarrow> mfa_login_request \<Rightarrow> request \<Rightarrow> (db, login_reply \<times> cookie option) action" where
  "verify_mfa_login cx fresh payload request s =
     (case get_challenge cx (ml_challenge_token payload) s of
        None \<Rightarrow> (Inl mfa_invalid, s)
      | Some challenge \<Rightarrow>
     (case get_user s (mc_user_id challenge) of
        None \<Rightarrow> (Inl mfa_invalid, s)
      | Some u \<Rightarrow>
          if refused_status (ua_status u) then (Inl mfa_invalid, s)
          else (case verify_user_factor cx u (ml_code payload) (ml_recovery_code payload) s of
              (Inl e, s1) \<Rightarrow> (Inl e, s1)
            | (Inr False, s1) \<Rightarrow>
                audited cx ((request_event cx request ''mfa_login_failure'' ''mfa_login'' ''failure'' (Some u) 401)
                     \<lparr>aa_reason_code := Some ''invalid_factor''\<rparr>)
                  (Inl (HTTPException 401 ''MFA verification failed''))
                  (upd_challenge (mc_id challenge) challenge_failed s1)
            | (Inr True, s1) \<Rightarrow>
                (case open_session cx fresh u request True (upd_challenge (mc_id challenge) (challenge_used cx) s1) of
                   (Inl e, _) \<Rightarrow> (Inl e, s1)
                 | (Inr r, s2) \<Rightarrow>
                     audited cx ((request_event cx request ''login_success'' ''mfa_login'' ''success'' (Some u) 200)
                          \<lparr>aa_resource_type := Some ''auth_session'', aa_resource_id := Some (str_nat (as_id r)),
                           aa_metadata := [(''recovery_code_used'', PBool (ml_recovery_code payload))]\<rparr>)
                       (Inr (empty_reply\<lparr>lo_user := Some (user_dict s2 (reload s2 u) True)\<rparr>,
                             Some (set_session_cookie cx (lt_session fresh)))) s2))))"


section \<open>The current account and its sessions\<close>

definition me :: "ctx \<Rightarrow> request \<Rightarrow> (db, user_view) action" where
  "me cx request = bind_action (get_current_user cx request) (\<lambda>u s. (Inr (user_dict s u True), s))"

definition csrf :: "ctx \<Rightarrow> string \<Rightarrow> request \<Rightarrow> (db, string) action" where
  "csrf cx token request =
     bind_action (get_current_session cx request) (\<lambda>r s.
       case rotate_csrf cx token (as_id r) s of (t, s') \<Rightarrow> (Inr t, s'))"

definition logout :: "ctx \<Rightarrow> request \<Rightarrow> (db, bool \<times> cookie option) action" where
  "logout cx request =
     bind_action (require_authenticated_csrf cx request) (\<lambda>r s.
       audited cx ((request_event cx request ''logout'' ''logout'' ''success'' (Some (session_user s r)) 200)
            \<lparr>aa_resource_type := Some ''auth_session'', aa_resource_id := Some (str_nat (as_id r))\<rparr>)
         (Inr (True, Some (clear_session_cookie cx))) (revoke_session cx (as_id r) ''logout'' s))"

definition logout_all :: "ctx \<Rightarrow> bool \<Rightarrow> request \<Rightarrow> (db, nat \<times> cookie option) action" where
  "logout_all cx preserve_current request =
     bind_action (require_authenticated_csrf cx request) (\<lambda>r s.
       case revoke_user_sessions cx (as_user_id r) ''logout_all''
              (if preserve_current then Some (as_id r) else None) s of
         (n, s1) \<Rightarrow>
           audited cx ((request_event cx request ''logout_all'' ''logout_all'' ''success'' (Some (session_user s r)) 200)
                \<lparr>aa_metadata := [(''sessions_revoked'', PInt (int n)), (''preserved_current'', PBool preserve_current)]\<rparr>)
             (Inr (n, if preserve_current then None else Some (clear_session_cookie cx))) s1)"

definition change_password ::
  "ctx \<Rightarrow> string \<Rightarrow> string \<Rightarrow> string \<Rightarrow> string \<Rightarrow> request \<Rightarrow> (db, bool) action" where
  "change_password cx salt csrf_token current_password new_password request =
     bind_action (require_authenticated_csrf cx request) (\<lambda>r s.
       let u = session_user s r in
       if \<not> verify_password (cx_crypto cx) (Some (ua_password_hash u)) current_password
       then (Inl (HTTPException 400 ''Current password is incorrect''), s)
       else (case set_password cx salt u new_password False ''password_changed'' (Some (as_id r)) s of
           (Inl (PasswordPolicyError m), s1) \<Rightarrow> (Inl (HTTPException 422 m), s1)
         | (Inl e, s1) \<Rightarrow> (Inl e, s1)
         | (Inr _, s1) \<Rightarrow>
             audited cx (request_event cx request ''password_changed'' ''password_change'' ''success'' (Some u) 200)
               (Inr True) (snd (rotate_csrf cx csrf_token (as_id r) s1))))"

record session_view =
  sv_id :: nat
  sv_current :: bool
  sv_created_at :: time
  sv_last_seen_at :: time
  sv_expires_at :: time
  sv_idle_expires_at :: time
  sv_revoked_at :: "time option"
  sv_user_agent_summary :: "string option"
  sv_client_ip_hash :: "string option"
  sv_mfa_verified :: bool

definition session_dict :: "nat \<Rightarrow> auth_session \<Rightarrow> session_view" where
  "session_dict current r =
     \<lparr>sv_id = as_id r, sv_current = (as_id r = current), sv_created_at = as_created_at r,
      sv_last_seen_at = as_last_seen_at r, sv_expires_at = as_expires_at r,
      sv_idle_expires_at = as_idle_expires_at r, sv_revoked_at = as_revoked_at r,
      sv_user_agent_summary = as_user_agent_summary r, sv_client_ip_hash = cut 12 (as_client_ip_hash r),
      sv_mfa_verified = as_mfa_verified r\<rparr>"

definition list_sessions :: "ctx \<Rightarrow> request \<Rightarrow> (db, session_view list) action" where
  "list_sessions cx request =
     bind_action (get_current_session cx request) (\<lambda>r s.
       (Inr (map (session_dict (as_id r))
               (sort_key (\<lambda>x. - as_created_at x)
                  (filter (\<lambda>x. as_user_id x = as_user_id r) (sessions s)))), s))"

definition delete_session :: "ctx \<Rightarrow> nat \<Rightarrow> request \<Rightarrow> (db, bool \<times> cookie option) action" where
  "delete_session cx session_id request =
     bind_action (require_authenticated_csrf cx request) (\<lambda>current s.
       case find (\<lambda>r. as_id r = session_id \<and> as_user_id r = as_user_id current) (sessions s) of
         None \<Rightarrow> (Inl (HTTPException 404 ''Session not found''), s)
       | Some item \<Rightarrow>
           audited cx ((request_event cx request ''session_revoked'' ''revoke_session'' ''success''
                          (Some (session_user s current)) 200)
                \<lparr>aa_resource_type := Some ''auth_session'', aa_resource_id := Some (str_nat (as_id item))\<rparr>)
             (Inr (True, if as_id item = as_id current then Some (clear_session_cookie cx) else None))
             (revoke_session cx (as_id item) ''user_revoked'' s))"


section \<open>MFA of the current account\<close>

definition record_mfa_activity :: "ctx \<Rightarrow> string \<Rightarrow> string \<Rightarrow> nat \<Rightarrow> db \<Rightarrow> db" where
  "record_mfa_activity cx action message uid s =
     s\<lparr>activities := insert_row sa_id set_sa_id
         \<lparr>sa_id = 0, sa_action = action, sa_message = message, sa_entity_type = ''mfa'',
          sa_entity_id = Some uid, sa_created_at = cx_now cx\<rparr> (activities s)\<rparr>"

definition require_mfa_eligible :: "ctx \<Rightarrow> user_account \<Rightarrow> unit result" where
  "require_mfa_eligible cx u =
     (if ua_status u \<noteq> Active \<or> ua_must_change_password u \<or>
         (case ua_locked_until u of None \<Rightarrow> False | Some t \<Rightarrow> cx_now cx < t)
      then Inl (HTTPException 403 ''This account is not eligible for MFA setup'') else Inr ())"

record enroll_view =
  ev_device_id :: nat
  ev_manual_setup_key :: string
  ev_provisioning_label :: string
  ev_issuer :: string
  ev_account_label :: string
  ev_expires_at :: "time option"
  ev_operation :: enrollment_operation

definition enroll_event_type :: "enrollment_operation \<Rightarrow> string" where
  "enroll_event_type operation =
     (case operation of Started \<Rightarrow> ''totp_enrollment_started'' | Restarted \<Rightarrow> ''totp_enrollment_restarted''
      | Resumed \<Rightarrow> ''totp_enrollment_resumed'')"

definition enroll_mfa ::
  "ctx \<Rightarrow> string \<Rightarrow> string \<Rightarrow> string \<Rightarrow> string \<Rightarrow> bool \<Rightarrow> request \<Rightarrow> (db, enroll_view) action" where
  "enroll_mfa cx fresh_secret nonce current_password label restart request =
     bind_action (require_authenticated_csrf cx request) (\<lambda>r s.
       let u = session_user s r in
       case require_mfa_eligible cx u of
         Inl e \<Rightarrow> (Inl e, s)
       | Inr _ \<Rightarrow>
           if \<not> verify_password (cx_crypto cx) (Some (ua_password_hash u)) current_password
           then audited cx ((request_event cx request ''totp_enrollment_failed'' ''mfa_enroll'' ''denied'' (Some u) 400)
                  \<lparr>aa_reason_code := Some ''current_password''\<rparr>)
                  (Inl (HTTPException 400 ''Current password is incorrect'')) s
           else if ua_mfa_enabled u then (Inl (HTTPException 409 ''MFA is already enabled''), s)
           else (case begin_enrollment cx fresh_secret nonce u label restart s of
               (Inl e, s1) \<Rightarrow>
                 if is_ValueError e
                 then audited cx ((request_event cx request ''totp_enrollment_failed'' ''mfa_enroll'' ''failure'' (Some u) 503)
                        \<lparr>aa_reason_code := Some ''configuration''\<rparr>)
                        (Inl (HTTPException 503 ''MFA setup is temporarily unavailable'')) s1
                 else (Inl e, s1)
             | (Inr (device, secret, uri_label, operation), s1) \<Rightarrow>
                 audited cx ((request_event cx request (enroll_event_type operation) ''mfa_enroll'' ''success'' (Some u) 200)
                      \<lparr>aa_resource_type := Some ''mfa_device'', aa_resource_id := Some (str_nat (md_id device))\<rparr>)
                   (Inr \<lparr>ev_device_id = md_id device, ev_manual_setup_key = secret,
                         ev_provisioning_label = uri_label, ev_issuer = TOTP_ISSUER,
                         ev_account_label = account_label u, ev_expires_at = md_enrollment_expires_at device,
                         ev_operation = operation\<rparr>) s1))"

definition get_mfa_status :: "ctx \<Rightarrow> request \<Rightarrow> (db, mfa_status_view) action" where
  "get_mfa_status cx request =
     bind_action (get_current_session cx request) (\<lambda>r s.
       case mfa_status cx (session_user s r) s of (v, s') \<Rightarrow> (Inr v, s'))"

definition confirm_failure :: "ctx \<Rightarrow> request \<Rightarrow> user_account \<Rightarrow> exn \<Rightarrow> (db, string list) action" where
  "confirm_failure cx request u e s =
     (let denied = (\<lambda>status_code reason detail.
            audited cx ((request_event cx request ''totp_enrollment_failed'' ''mfa_confirm'' ''denied'' (Some u) status_code)
                 \<lparr>aa_reason_code := Some reason\<rparr>) (Inl (HTTPException status_code detail)) s)
      in case e of
           EnrollmentExpiredError _ \<Rightarrow> denied 409 ''expired'' ''MFA setup has expired. Start setup again''
         | EnrollmentRateLimitError _ \<Rightarrow> denied 429 ''attempt_limit'' ''Too many attempts. Restart MFA setup''
         | InvalidEnrollmentCodeError _ \<Rightarrow> denied 422 ''invalid_code'' ''The six-digit verification code is invalid''
         | _ \<Rightarrow> if is_ValueError e then (Inl (HTTPException 409 ''No pending MFA setup was found''), s) else (Inl e, s))"

definition confirm_mfa ::
  "ctx \<Rightarrow> string list \<Rightarrow> string \<Rightarrow> string \<Rightarrow> nat option \<Rightarrow> request \<Rightarrow> (db, string list) action" where
  "confirm_mfa cx tokens csrf_token code device_id request =
     bind_action (require_authenticated_csrf cx request) (\<lambda>r s.
       let u = session_user s r in
       case require_mfa_eligible cx u of
         Inl e \<Rightarrow> (Inl e, s)
       | Inr _ \<Rightarrow>
           if ua_mfa_enabled u then (Inl (HTTPException 409 ''MFA setup is already complete''), s)
           else (case confirm_enrollment cx tokens u code device_id s of
               (Inl e, s1) \<Rightarrow> confirm_failure cx request u e s1
             | (Inr (device, codes), s1) \<Rightarrow>
                 bind_action
                   (audited cx ((request_event cx request ''totp_enrollment_confirmed'' ''mfa_confirm'' ''success'' (Some u) 200)
                      \<lparr>aa_resource_type := Some ''mfa_device'', aa_resource_id := Some (str_nat (md_id device))\<rparr>) (Inr ()))
                   (\<lambda>_. audited cx ((request_event cx request ''recovery_codes_generated'' ''mfa_recovery_generate'' ''success'' (Some u) 200)
                      \<lparr>aa_metadata := [(''count'', PInt (int (length codes)))]\<rparr>) (Inr codes))
                   (snd (rotate_csrf cx csrf_token (as_id r)
                      (record_mfa_activity cx ''mfa_enabled'' ''Authenticator-app MFA was enabled'' (ua_id u) s1)))))"

definition cancel_mfa_enrollment :: "ctx \<Rightarrow> request \<Rightarrow> (db, bool) action" where
  "cancel_mfa_enrollment cx request =
     bind_action (require_authenticated_csrf cx request) (\<lambda>r s.
       case cancel_enrollment (as_user_id r) s of
         (deleted, s1) \<Rightarrow>
           audited cx ((request_event cx request ''totp_enrollment_cancelled'' ''mfa_cancel'' ''success'' (Some (session_user s r)) 200)
                \<lparr>aa_metadata := [(''pending_setup_removed'', PBool (deleted \<noteq> 0))]\<rparr>) (Inr (deleted \<noteq> 0)) s1)"

record mfa_change_request =
  mr_current_password :: string
  mr_code :: string
  mr_recovery_code :: bool
  mr_confirm_disable :: bool

text \<open>\<open>verify_password(...) and verify_user_factor(...)\<close>: the factor is tried only after the password.\<close>

definition password_and_factor :: "ctx \<Rightarrow> mfa_change_request \<Rightarrow> user_account \<Rightarrow> (db, bool) action" where
  "password_and_factor cx payload u s =
     (if \<not> verify_password (cx_crypto cx) (Some (ua_password_hash u)) (mr_current_password payload)
      then (Inr False, s)
      else verify_user_factor cx u (mr_code payload) (mr_recovery_code payload) s)"

definition disabled_device :: "ctx \<Rightarrow> mfa_device \<Rightarrow> mfa_device" where
  "disabled_device cx d = d\<lparr>md_enabled := False, md_disabled_at := Some (cx_now cx)\<rparr>"

definition remove_factors :: "ctx \<Rightarrow> nat \<Rightarrow> db \<Rightarrow> db" where
  "remove_factors cx uid s =
     s\<lparr>mfa_devices := upd_where (\<lambda>d. md_user_id d = uid \<and> md_enabled d) (disabled_device cx) (mfa_devices s),
       recovery_codes := filter (\<lambda>c. rc_user_id c \<noteq> uid) (recovery_codes s),
       challenges := filter (\<lambda>c. \<not> (mc_user_id c = uid \<and> mc_used_at c = None)) (challenges s)\<rparr>"

definition disable_mfa ::
  "ctx \<Rightarrow> string \<Rightarrow> mfa_change_request \<Rightarrow> request \<Rightarrow> (db, nat) action" where
  "disable_mfa cx csrf_token payload request =
     bind_action (require_authenticated_csrf cx request) (\<lambda>r s.
       let u = session_user s r in
       if \<not> mr_confirm_disable payload then (Inl (HTTPException 422 ''Explicit confirmation is required''), s)
       else if \<not> ua_mfa_enabled u then (Inl (HTTPException 409 ''MFA is not enabled''), s)
       else bind_action (password_and_factor cx payload u) (\<lambda>ok s1.
         if \<not> ok then (Inl (HTTPException 400 ''MFA could not be disabled''), s1)
         else
           (let s2 = upd_user (ua_id u) (\<lambda>u. u\<lparr>ua_mfa_enabled := False\<rparr>) (remove_factors cx (ua_id u) s1)
            in case revoke_user_sessions cx (ua_id u) ''mfa_disabled'' (Some (as_id r)) s2 of
                 (n, s3) \<Rightarrow>
                   audited cx ((request_event cx request ''mfa_disabled'' ''mfa_disable'' ''success'' (Some u) 200)
                        \<lparr>aa_metadata := [(''other_sessions_revoked'', PInt (int n))]\<rparr>) (Inr n)
                     (snd (rotate_csrf cx csrf_token (as_id r)
                        (record_mfa_activity cx ''mfa_disabled'' ''Authenticator-app MFA was disabled'' (ua_id u) s3))))) s)"

definition regenerate_recovery ::
  "ctx \<Rightarrow> string list \<Rightarrow> mfa_change_request \<Rightarrow> request \<Rightarrow> (db, string list) action" where
  "regenerate_recovery cx tokens payload request =
     bind_action (require_authenticated_csrf cx request) (\<lambda>r s.
       let u = session_user s r in
       if mr_recovery_code payload then (Inl (HTTPException 422 ''A current authenticator code is required''), s)
       else bind_action (password_and_factor cx payload u) (\<lambda>ok s1.
         if \<not> ok then (Inl (HTTPException 400 ''Recovery codes could not be regenerated''), s1)
         else bind_action (generate_recovery_codes cx tokens (ua_id u)) (\<lambda>codes s2.
           audited cx (request_event cx request ''recovery_codes_regenerated'' ''mfa_recovery_regenerate'' ''success'' (Some u) 200)
             (Inr codes)
             (record_mfa_activity cx ''recovery_codes_regenerated'' ''MFA recovery codes were regenerated'' (ua_id u) s2)) s1) s)"


section \<open>Laws\<close>

lemma open_session_cases:
  assumes "open_session cx fresh u request m s = (out, s')"
  obtains (opened) r where "out = Inr r" "s' = s\<lparr>sessions := sessions s @ [r]\<rparr>" "as_user_id r = ua_id u"
      "as_mfa_verified r = m" "as_token_hash r = hash_value cx (lt_session fresh)" "as_revoked_at r = None"
  | (failed) "out = Inl IntegrityError" "s' = s"
proof -
  let ?c = "create_session cx (lt_session fresh) (lt_csrf fresh) (ua_id u) request m s"
  obtain o1 s1 where c: "?c = (o1, s1)" by fastforce
  show thesis
  proof (cases o1)
    case (Inl e)
    then show thesis using assms c create_session_InlD [of cx _ _ _ _ _ s] by (intro failed) (auto simp: open_session_def)
  next
    case (Inr p)
    then obtain r tk cs where p: "o1 = Inr (r, tk, cs)" by (cases p) auto
    with assms c create_session_InrD [OF c [unfolded p]] show thesis
      by (intro opened [of r]) (auto simp: open_session_def)
  qed
qed

lemma audited_sessions: "audited cx a out s = (out', s') \<Longrightarrow> sessions s' = sessions s"
  by (rule audited_frame)

lemma login_denied_sessions: "login_denied cx request ty reason u reply s = (out, s') \<Longrightarrow> sessions s' = sessions s"
  unfolding login_denied_def by (rule audited_sessions)

lemma login_challenge_sessions:
  assumes "login_challenge cx fresh request u s = (out, s')"
  shows "sessions s' = sessions s"
proof -
  have *: "sessions s1 = sessions s" if "create_challenge cx (lt_challenge fresh) (ua_id u) s = (o1, s1)" for o1 s1
    using that by (auto simp: create_challenge_def split: if_splits)
  show ?thesis
    using bind_action_cases [OF assms [unfolded login_challenge_def]]
    by (elim disjE exE conjE) (metis * audited_sessions)+
qed

lemma login_success_sessions:
  assumes "login_success cx fresh payload request u s = (out, s')"
  shows "sessions s' = sessions s \<or>
    (\<exists>r. sessions s' = sessions s @ [r] \<and> as_user_id r = ua_id u \<and> \<not> as_mfa_verified r \<and>
       as_token_hash r = hash_value cx (lt_session fresh) \<and> as_revoked_at r = None)"
proof -
  from bind_action_cases [OF assms [unfolded login_success_def]] show ?thesis
  proof (elim disjE exE conjE)
    fix e assume "open_session cx fresh u request False s = (Inl e, s')"
    then show ?thesis by (cases rule: open_session_cases) simp_all
  next
    fix r s1
    assume o1: "open_session cx fresh u request False s = (Inr r, s1)"
      and a: "(let identifier_type = (if CHR ''@'' \<in> set (lr_identifier payload) then ''email'' else ''username'')
       in audited cx
            ((request_event cx request (identifier_type @ ''_login_success'') ''login'' ''success'' (Some u) 200)
               \<lparr>aa_resource_type := Some ''auth_session'', aa_resource_id := Some (str_nat (as_id r)),
                aa_metadata := [(''identifier_type'', PStr identifier_type)]\<rparr>)
            (Inr (empty_reply\<lparr>lo_user := Some (user_dict s1 (reload s1 u) True)\<rparr>,
                  Some (set_session_cookie cx (lt_session fresh)))) s1) = (out, s')"
    have "sessions s' = sessions s1" using a unfolding Let_def by (rule audited_sessions)
    with o1 show ?thesis by (cases rule: open_session_cases) auto
  qed
qed

lemma login_success_opens:
  assumes "hash_value cx (lt_session fresh) \<notin> as_token_hash ` set (sessions s)"
  shows "sessions (snd (login_success cx fresh payload request u s)) \<noteq> sessions s"
proof -
  obtain r s1 where o1: "open_session cx fresh u request False s = (Inr r, s1)" and n: "sessions s1 = sessions s @ [r]"
    using assms by (simp add: open_session_def create_session_def Let_def insert_row_def)
  obtain a x where l: "login_success cx fresh payload request u s = audited cx a (Inr x) s1"
    by (simp add: login_success_def o1 Let_def)
  have "sessions (snd (audited cx a (Inr x) s1)) = sessions s1"
    by (rule audited_sessions [OF prod.collapse [symmetric]])
  then show ?thesis by (simp add: l n)
qed

lemma login_new_session:
  assumes l: "login cx fresh payload request s = (out, s')" and new: "sessions s' \<noteq> sessions s"
    and wf: "accounts_wf s"
  shows "\<exists>v s1 r. authenticate_password cx request (lr_identifier payload) (lr_password payload) s = (Inr v, s1) \<and>
     ua_status v \<notin> {PendingApproval, Rejected} \<and> \<not> ua_mfa_enabled v \<and>
     sessions s' = sessions s @ [r] \<and> as_user_id r = ua_id v \<and> \<not> as_mfa_verified r \<and>
     as_token_hash r = hash_value cx (lt_session fresh) \<and> as_revoked_at r = None"
proof -
  let ?a = "authenticate_password cx request (lr_identifier payload) (lr_password payload) s"
  obtain o1 s1 where a: "?a = (o1, s1)" by fastforce
  have en: "local_login_enabled (cx_config cx)" using l new by (auto simp: login_def split: if_splits)
  have ids: "distinct (map ua_id (users s))" using wf by (simp add: accounts_wf_def)
  show ?thesis
  proof (cases o1)
    case (Inl e)
    then obtain c d where e: "o1 = Inl (HTTPException c d)" using authenticate_InlD a by blast
    have "sessions s1 = sessions s"
      using a e by (auto simp: authenticate_password_def Let_def register_user_failure_def record_attempt_def
          split: if_splits option.splits)
    moreover have "sessions s' = sessions s1"
      using l en a e by (auto simp: login_def dest: audited_sessions)
    ultimately show ?thesis using new by simp
  next
    case (Inr v)
    have s1: "sessions s1 = sessions s" using authenticate_InrD [OF ids a [unfolded Inr]] by blast
    have "ua_status v \<notin> {PendingApproval, Rejected} \<and> \<not> ua_mfa_enabled v \<and>
        login_success cx fresh payload request v s1 = (out, s')"
      using l en a Inr new s1
      by (auto simp: login_def split: if_splits dest: login_denied_sessions login_challenge_sessions)
    with login_success_sessions [of cx fresh payload request v s1 out s'] new s1 a Inr show ?thesis by auto
  qed
qed


lemma verify_totp_error: "verify_totp cx device code = Inl e \<Longrightarrow> is_ValueError e"
  by (auto simp: verify_totp_def decrypt_secret_def fernet_key_def Let_def bind_result_def
      split: if_splits sum.splits option.splits)

lemma verify_user_factor_frame:
  assumes "verify_user_factor cx u v recovery s = (out, s')"
  shows "challenges s' = challenges s" "users s' = users s" "sessions s' = sessions s"
    "\<And>e. out = Inl e \<Longrightarrow> is_ValueError e"
  using assms
  by (auto simp: verify_user_factor_def consume_recovery_code_def
      split: if_splits option.splits sum.splits bool.splits dest: verify_totp_error)

text \<open>The error of a wrong second factor.\<close>

definition mfa_failed :: exn where
  "mfa_failed = HTTPException 401 ''MFA verification failed''"

lemma audited_challenges: "audited cx a out s = (out', s') \<Longrightarrow> challenges s' = challenges s"
  by (rule audited_frame)

lemma audited_outcome:
  "audited cx a out s = (out', s') \<Longrightarrow> out' = out \<or> out' = Inl IntegrityError"
  by (auto simp: append_event_def Let_def dest!: audited_cases split: if_splits)

lemma verify_mfa_login_cases:
  assumes "verify_mfa_login cx fresh payload request s = (out, s')"
  obtains (refused) "challenges s' = challenges s" "sessions s' = sessions s" "isl out" "out \<noteq> Inl mfa_failed"
  | (failed) c where "get_challenge cx (ml_challenge_token payload) s = Some c" "isl out" "sessions s' = sessions s"
      "challenges s' = upd_row mc_id (mc_id c) challenge_failed (challenges s)"
  | (passed) c u r s1 where "get_challenge cx (ml_challenge_token payload) s = Some c"
      "get_user s (mc_user_id c) = Some u" "\<not> refused_status (ua_status u)"
      "verify_user_factor cx u (ml_code payload) (ml_recovery_code payload) s = (Inr True, s1)"
      "sessions s' = sessions s @ [r]" "as_user_id r = ua_id u" "as_mfa_verified r"
      "challenges s' = upd_row mc_id (mc_id c) (challenge_used cx) (challenges s)" "out \<noteq> Inl mfa_failed"
proof -
  let ?none = "get_challenge cx (ml_challenge_token payload) s = None \<or>
     (\<exists>c. get_challenge cx (ml_challenge_token payload) s = Some c \<and>
        (\<forall>u. get_user s (mc_user_id c) = Some u \<longrightarrow> refused_status (ua_status u)))"
  show thesis
  proof (cases ?none)
    case True
    then have "out = Inl mfa_invalid \<and> s' = s"
      using assms by (auto simp: verify_mfa_login_def split: option.splits)
    then show thesis by (intro refused) (simp_all add: mfa_invalid_def mfa_failed_def)
  next
    case False
    then obtain c u where c: "get_challenge cx (ml_challenge_token payload) s = Some c"
      and u: "get_user s (mc_user_id c) = Some u" "\<not> refused_status (ua_status u)" by auto
    obtain ok s1 where v: "verify_user_factor cx u (ml_code payload) (ml_recovery_code payload) s = (ok, s1)"
      by fastforce
    note f = verify_user_factor_frame [OF v]
    consider (error) e where "ok = Inl e" | (wrong) "ok = Inr False" | (right) "ok = Inr True"
      by (cases ok) auto
    then show thesis
    proof cases
      case error
      then have "out = Inl e \<and> s' = s1" using assms c u v by (simp add: verify_mfa_login_def)
      with f error show thesis by (intro refused) (auto simp: mfa_failed_def)
    next
      case wrong
      obtain a where a: "audited cx a (Inl mfa_failed) (upd_challenge (mc_id c) challenge_failed s1) = (out, s')"
        using assms c u v wrong by (auto simp: verify_mfa_login_def mfa_failed_def)
      with f show thesis using audited_challenges [OF a] audited_sessions [OF a] audited_outcome [OF a]
        by (intro failed [OF c]) (auto simp: upd_challenge_def)
    next
      case right
      let ?s = "upd_challenge (mc_id c) (challenge_used cx) s1"
      obtain o2 s2 where o: "open_session cx fresh u request True ?s = (o2, s2)" by fastforce
      then show thesis
      proof (cases rule: open_session_cases)
        case (opened r)
        obtain a x where a: "audited cx a (Inr x) s2 = (out, s')"
          using assms c u v right o opened(1) by (auto simp: verify_mfa_login_def)
        show thesis
          using f opened audited_challenges [OF a] audited_sessions [OF a] audited_outcome [OF a]
          by (intro passed [OF c u(1) u(2) v [unfolded right], where r = r])
            (auto simp: upd_challenge_def mfa_failed_def)
      next
        case failed
        then have "out = Inl IntegrityError \<and> s' = s1"
          using assms c u v right o by (simp add: verify_mfa_login_def)
        with f show thesis by (intro refused) (simp_all add: mfa_failed_def)
      qed
    qed
  qed
qed



section \<open>Attempts that are counted\<close>

text \<open>
  The contract of attempts that are counted per key: an attempt that succeeds finds the count
  below the limit and raises it, and no attempt lowers a count. In every sequence of attempts at
  most \<open>limit\<close> then succeed per key. A factor that works once is the case of the limit one.
\<close>

locale limited_factor =
  fixes inv :: "'s \<Rightarrow> bool" and attempt :: "'e \<Rightarrow> 's \<Rightarrow> bool \<times> 's" and key :: "'e \<Rightarrow> 'k"
    and used :: "'k \<Rightarrow> 's \<Rightarrow> nat" and limit :: nat
  assumes inv_kept: "inv s \<Longrightarrow> attempt e s = (ok, s') \<Longrightarrow> inv s'"
    and counts: "inv s \<Longrightarrow> attempt e s = (True, s') \<Longrightarrow>
       used (key e) s < limit \<and> used (key e) s < used (key e) s'"
    and never_lowers: "inv s \<Longrightarrow> attempt e s = (ok, s') \<Longrightarrow> used k s \<le> used k s'"
begin

lemma accepted_limit: "inv s \<Longrightarrow> count_list (accepted attempt key es s) k \<le> limit - used k s"
proof (induction es arbitrary: s)
  case Nil
  then show ?case by simp
next
  case (Cons e es)
  obtain ok s' where e: "attempt e s = (ok, s')" by fastforce
  have IH: "count_list (accepted attempt key es s') k \<le> limit - used k s'"
    by (rule Cons.IH [OF inv_kept [OF Cons.prems e]])
  show ?case
  proof (cases "ok \<and> key e = k")
    case True
    then have "used k s < limit" "used k s < used k s'" using counts [OF Cons.prems, of e s'] e by auto
    with IH True show ?thesis by (simp add: e)
  next
    case False
    with IH never_lowers [OF Cons.prems e, of k] show ?thesis by (auto simp: e)
  qed
qed

end

sublocale one_time_factor \<subseteq> once: limited_factor inv attempt key "\<lambda>k s. if spent k s then 1 else 0" 1
proof unfold_locales
  fix s e s' assume "inv s" "attempt e s = (True, s')"
  then show "(if spent (key e) s then 1 else 0 :: nat) < 1 \<and>
      (if spent (key e) s then 1 else 0 :: nat) < (if spent (key e) s' then 1 else 0)"
    using refused spends by fastforce
next
  fix s e ok s' k assume "inv s" "attempt e s = (ok, s')"
  then show "(if spent k s then 1 else 0 :: nat) \<le> (if spent k s' then 1 else 0)"
    using stays_spent by fastforce
qed (rule inv_attempt)

definition challenges_wf :: "db \<Rightarrow> bool" where
  "challenges_wf s \<longleftrightarrow>
     distinct (map mc_id (challenges s)) \<and> distinct (map mc_challenge_token_hash (challenges s))"

text \<open>Attempts to finish a login at any times: whether a session was issued, or the factor was wrong.\<close>

type_synonym mfa_attempt = "time \<times> login_tokens \<times> mfa_login_request \<times> request"

definition mfa_login_step :: "ctx \<Rightarrow> mfa_attempt \<Rightarrow> db \<Rightarrow> (login_reply \<times> cookie option) result \<times> db" where
  "mfa_login_step cx = (\<lambda>(t, fresh, payload, request). verify_mfa_login (cx\<lparr>cx_now := t\<rparr>) fresh payload request)"

definition mfa_login_ok :: "ctx \<Rightarrow> mfa_attempt \<Rightarrow> db \<Rightarrow> bool \<times> db" where
  "mfa_login_ok cx e s = (case mfa_login_step cx e s of (out, s') \<Rightarrow> (\<not> isl out, s'))"

definition mfa_login_wrong :: "ctx \<Rightarrow> mfa_attempt \<Rightarrow> db \<Rightarrow> bool \<times> db" where
  "mfa_login_wrong cx e s =
     (case mfa_login_step cx e s of (out, s') \<Rightarrow>
        (case out of Inl x \<Rightarrow> x = mfa_failed | Inr _ \<Rightarrow> False, s'))"

definition challenge_key :: "ctx \<Rightarrow> mfa_attempt \<Rightarrow> string" where
  "challenge_key cx = (\<lambda>(t, fresh, payload, request). hash_value cx (ml_challenge_token payload))"

definition challenge_of :: "string \<Rightarrow> db \<Rightarrow> mfa_login_challenge option" where
  "challenge_of k s = find (\<lambda>c. mc_challenge_token_hash c = k) (challenges s)"

definition failures_of :: "string \<Rightarrow> db \<Rightarrow> nat" where
  "failures_of k s = (case challenge_of k s of None \<Rightarrow> 0 | Some c \<Rightarrow> mc_failed_attempts c)"

definition challenge_spent :: "string \<Rightarrow> db \<Rightarrow> bool" where
  "challenge_spent k s \<longleftrightarrow> (\<exists>c. challenge_of k s = Some c \<and> mc_used_at c \<noteq> None)"

lemma challenge_simps [simp]:
  "mc_id (challenge_failed c) = mc_id c" "mc_id (challenge_used cx c) = mc_id c"
  "mc_challenge_token_hash (challenge_failed c) = mc_challenge_token_hash c"
  "mc_challenge_token_hash (challenge_used cx c) = mc_challenge_token_hash c"
  "mc_failed_attempts (challenge_failed c) = Suc (mc_failed_attempts c)"
  "mc_failed_attempts (challenge_used cx c) = mc_failed_attempts c"
  "mc_used_at (challenge_failed c) = mc_used_at c" "mc_used_at (challenge_used cx c) = Some (cx_now cx)"
  by (simp_all add: challenge_failed_def challenge_used_def)

lemma get_challenge_SomeD:
  "get_challenge (cx\<lparr>cx_now := t\<rparr>) token s = Some c \<Longrightarrow>
     challenge_of (hash_value cx token) s = Some c \<and> mc_used_at c = None \<and> t < mc_expires_at c \<and> mc_failed_attempts c < 5"
  by (auto simp: get_challenge_def challenge_of_def split: option.splits if_splits)

lemma challenge_of_upd:
  assumes wf: "challenges_wf s" and c: "challenge_of k s = Some c"
    and f: "\<And>x. mc_id (f x) = mc_id x" "\<And>x. mc_challenge_token_hash (f x) = mc_challenge_token_hash x"
    and s': "challenges s' = upd_row mc_id (mc_id c) f (challenges s)"
  shows "challenge_of j s' = (if j = k then Some (f c) else challenge_of j s)" "challenges_wf s'"
proof -
  have mem: "c \<in> set (challenges s)" "mc_challenge_token_hash c = k"
    using find_SomeD [OF c [unfolded challenge_of_def]] by simp_all
  have same: "mc_id x = mc_id c \<longleftrightarrow> mc_challenge_token_hash x = k" if "x \<in> set (challenges s)" for x
  proof
    assume "mc_id x = mc_id c"
    then have "x = c" using wf that mem(1) by (auto simp: challenges_wf_def distinct_map dest: inj_onD)
    then show "mc_challenge_token_hash x = k" using mem(2) by simp
  next
    assume "mc_challenge_token_hash x = k"
    then have "x = c" using wf that mem by (auto simp: challenges_wf_def distinct_map dest: inj_onD)
    then show "mc_id x = mc_id c" by simp
  qed
  have "find (\<lambda>x. mc_challenge_token_hash x = j) (upd_row mc_id (mc_id c) f xs) =
      (if j = k then map_option f else id) (find (\<lambda>x. mc_challenge_token_hash x = j) xs)"
    if "set xs \<subseteq> set (challenges s)" for xs
    using that by (induction xs) (simp_all add: upd_row_def f same, auto)
  from this [of "challenges s"] c show "challenge_of j s' = (if j = k then Some (f c) else challenge_of j s)"
    by (simp add: challenge_of_def s')
  show "challenges_wf s'" using wf by (simp add: challenges_wf_def s' map_upd_row f)
qed

lemma mfa_login_step_cases:
  assumes wf: "challenges_wf s" and step: "mfa_login_step cx e s = (out, s')"
  obtains (refused) "challenges s' = challenges s" "isl out" "out \<noteq> Inl mfa_failed" "challenges_wf s'"
  | (failed) c where "challenge_of (challenge_key cx e) s = Some c" "mc_used_at c = None" "mc_failed_attempts c < 5"
      "isl out" "challenges_wf s'"
      "\<forall>j. challenge_of j s' = (if j = challenge_key cx e then Some (challenge_failed c) else challenge_of j s)"
  | (passed) c cx' where "challenge_of (challenge_key cx e) s = Some c" "mc_used_at c = None" "out \<noteq> Inl mfa_failed"
      "challenges_wf s'"
      "\<forall>j. challenge_of j s' = (if j = challenge_key cx e then Some (challenge_used cx' c) else challenge_of j s)"
proof -
  obtain t fresh payload request where e: "e = (t, fresh, payload, request)" by (cases e)
  from step have "verify_mfa_login (cx\<lparr>cx_now := t\<rparr>) fresh payload request s = (out, s')"
    by (simp add: mfa_login_step_def e)
  then show thesis
  proof (cases rule: verify_mfa_login_cases)
    case refused
    with wf show thesis by (intro that(1)) (simp_all add: challenges_wf_def)
  next
    case (failed c)
    note g = get_challenge_SomeD [OF failed(1)]
    from g challenge_of_upd [OF wf _ _ _ failed(4)] failed(2) show thesis
      by (intro that(2) [of c]) (auto simp: challenge_key_def e)
  next
    case (passed c u r s1)
    note g = get_challenge_SomeD [OF passed(1)]
    from g challenge_of_upd [OF wf _ _ _ passed(8)] passed(9) show thesis
      by (intro that(3) [of c "cx\<lparr>cx_now := t\<rparr>"]) (auto simp: challenge_key_def e)
  qed
qed


lemma mfa_login_ok_iff:
  "mfa_login_ok cx e s = (ok, s') \<longleftrightarrow> (\<exists>out. mfa_login_step cx e s = (out, s') \<and> ok = (\<not> isl out))"
  by (auto simp: mfa_login_ok_def split: prod.splits)

lemma mfa_login_wrong_iff:
  "mfa_login_wrong cx e s = (ok, s') \<longleftrightarrow> (\<exists>out. mfa_login_step cx e s = (out, s') \<and> ok = (out = Inl mfa_failed))"
  by (auto simp: mfa_login_wrong_def split: prod.splits sum.splits)

interpretation challenge_once: one_time_factor challenges_wf "mfa_login_ok cx" "challenge_key cx" challenge_spent for cx
proof unfold_locales
  fix s e ok s' assume wf: "challenges_wf s" and a: "mfa_login_ok cx e s = (ok, s')"
  then obtain out where "mfa_login_step cx e s = (out, s')" by (auto simp: mfa_login_ok_iff)
  with wf show "challenges_wf s'" by (cases rule: mfa_login_step_cases) simp_all
next
  fix s e s' assume wf: "challenges_wf s" and a: "mfa_login_ok cx e s = (True, s')"
  then obtain out where "mfa_login_step cx e s = (out, s')" "\<not> isl out" by (auto simp: mfa_login_ok_iff)
  with wf show "challenge_spent (challenge_key cx e) s'"
    by (cases rule: mfa_login_step_cases) (simp_all add: challenge_spent_def)
next
  fix s k e ok s' assume wf: "challenges_wf s" and sp: "challenge_spent k s" and a: "mfa_login_ok cx e s = (ok, s')"
  then obtain out where "mfa_login_step cx e s = (out, s')" by (auto simp: mfa_login_ok_iff)
  with wf show "challenge_spent k s'"
    by (cases rule: mfa_login_step_cases) (use sp in \<open>auto simp: challenge_spent_def challenge_of_def\<close>)
next
  fix s e ok s'
  assume wf: "challenges_wf s" and sp: "challenge_spent (challenge_key cx e) s" and a: "mfa_login_ok cx e s = (ok, s')"
  then obtain out where "mfa_login_step cx e s = (out, s')" "ok = (\<not> isl out)" by (auto simp: mfa_login_ok_iff)
  with wf show "\<not> ok"
    by (cases rule: mfa_login_step_cases) (use sp in \<open>auto simp: challenge_spent_def\<close>)
qed

interpretation challenge_failures: limited_factor challenges_wf "mfa_login_wrong cx" "challenge_key cx" failures_of 5 for cx
proof unfold_locales
  fix s e ok s' assume wf: "challenges_wf s" and a: "mfa_login_wrong cx e s = (ok, s')"
  then obtain out where "mfa_login_step cx e s = (out, s')" by (auto simp: mfa_login_wrong_iff)
  with wf show "challenges_wf s'" by (cases rule: mfa_login_step_cases) simp_all
next
  fix s e s' assume wf: "challenges_wf s" and a: "mfa_login_wrong cx e s = (True, s')"
  then have "mfa_login_step cx e s = (Inl mfa_failed, s')" by (auto simp: mfa_login_wrong_iff)
  with wf show "failures_of (challenge_key cx e) s < 5 \<and> failures_of (challenge_key cx e) s < failures_of (challenge_key cx e) s'"
    by (cases rule: mfa_login_step_cases) (simp_all add: failures_of_def)
next
  fix s e ok s' k assume wf: "challenges_wf s" and a: "mfa_login_wrong cx e s = (ok, s')"
  then obtain out where "mfa_login_step cx e s = (out, s')" by (auto simp: mfa_login_wrong_iff)
  with wf show "failures_of k s \<le> failures_of k s'"
    by (cases rule: mfa_login_step_cases) (auto simp: failures_of_def challenge_of_def)
qed


section \<open>Properties\<close>

text \<open>C28. Who gets a session by password: a login adds a session only when the password
  authenticated an account that is neither waiting for approval nor rejected, disabled or locked
  and that has no second factor; it is then one session, of that account, under the token sent in
  the cookie, and not marked as verified by a second factor.\<close>

theorem login_session_sound:
  assumes "accounts_wf s" "login cx fresh payload request s = (out, s')" "sessions s' \<noteq> sessions s"
  shows "\<exists>u \<in> set (users s). \<exists>r. find_account (lr_identifier payload) s = Some u \<and>
     verify_password (cx_crypto cx) (Some (ua_password_hash u)) (lr_password payload) \<and>
     (ua_status u \<in> {Active, PendingPasswordChange} \<or>
      ua_status u = Locked \<and> (\<exists>t. ua_locked_until u = Some t \<and> t \<le> cx_now cx)) \<and> \<not> ua_mfa_enabled u \<and>
     sessions s' = sessions s @ [r] \<and> as_user_id r = ua_id u \<and> \<not> as_mfa_verified r \<and>
     as_token_hash r = hash_value cx (lt_session fresh)"
proof -
  from login_new_session [OF assms(2,3,1)] obtain v s1 r where
    a: "authenticate_password cx request (lr_identifier payload) (lr_password payload) s = (Inr v, s1)"
    and v: "ua_status v \<notin> {PendingApproval, Rejected}" "\<not> ua_mfa_enabled v"
    and r: "sessions s' = sessions s @ [r]" "as_user_id r = ua_id v" "\<not> as_mfa_verified r"
      "as_token_hash r = hash_value cx (lt_session fresh)" by (elim exE conjE)
  have ids: "distinct (map ua_id (users s))" using assms(1) by (simp add: accounts_wf_def)
  obtain u where u: "find_account (lr_identifier payload) s = Some u" "u \<in> set (users s)"
    "verify_password (cx_crypto cx) (Some (ua_password_hash u)) (lr_password payload)"
    "\<not> refused_status (ua_status (lock_lifted cx u))"
    and veq: "v = (reset_failures (lock_lifted cx u))
           \<lparr>ua_last_login_at := Some (cx_now cx), ua_last_login_ip_hash := client_ip_hash cx request\<rparr>"
    by (rule authenticate_InrD [OF ids a])
  have same: "ua_id v = ua_id u" "ua_mfa_enabled v = ua_mfa_enabled u" by (simp_all add: veq)
  have "ua_status u \<in> {Active, PendingPasswordChange} \<or>
      ua_status u = Locked \<and> (\<exists>t. ua_locked_until u = Some t \<and> t \<le> cx_now cx)"
    using u(4) v(1) by (cases "ua_status u") (auto simp: veq refused_status_def lock_lifted_def reset_failures_def split: if_splits)
  then have "find_account (lr_identifier payload) s = Some u \<and>
     verify_password (cx_crypto cx) (Some (ua_password_hash u)) (lr_password payload) \<and>
     (ua_status u \<in> {Active, PendingPasswordChange} \<or>
      ua_status u = Locked \<and> (\<exists>t. ua_locked_until u = Some t \<and> t \<le> cx_now cx)) \<and> \<not> ua_mfa_enabled u \<and>
     sessions s' = sessions s @ [r] \<and> as_user_id r = ua_id u \<and> \<not> as_mfa_verified r \<and>
     as_token_hash r = hash_value cx (lt_session fresh)"
    using u(1,3) v(2) r same by simp
  then show ?thesis using u(2) by (rule_tac bexI [of _ u], rule_tac exI [of _ r])
qed

definition demo_tokens :: login_tokens where
  "demo_tokens = \<lparr>lt_session = ''t9'', lt_csrf = ''c9'', lt_challenge = ''ch9''\<rparr>"

theorem login_session_sound_witness:
  "\<exists>r. sessions (snd (login (demo_ctx 5) demo_tokens \<lparr>lr_identifier = ''ana'', lr_password = ''pw''\<rparr>
       (demo_request ''POST'' ''/api/auth/login'' []) demo_db)) = sessions demo_db @ [r] \<and> as_user_id r = 2"
proof -
  let ?rq = "demo_request ''POST'' ''/api/auth/login'' []"
  let ?l = "login (demo_ctx 5) demo_tokens \<lparr>lr_identifier = ''ana'', lr_password = ''pw''\<rparr> ?rq demo_db"
  let ?a = "authenticate_password (demo_ctx 5) ?rq ''ana'' ''pw'' demo_db"
  have "case ?a of (Inl e, s1) \<Rightarrow> False
     | (Inr v, s1) \<Rightarrow> ua_status v = Active \<and> \<not> ua_mfa_enabled v \<and> sessions s1 = sessions demo_db" by code_simp
  then obtain v s1 where a: "?a = (Inr v, s1)" "ua_status v = Active" "\<not> ua_mfa_enabled v" "sessions s1 = sessions demo_db"
    by (cases ?a) (auto split: sum.splits)
  have fresh: "hash_value (demo_ctx 5) (lt_session demo_tokens) \<notin> as_token_hash ` set (sessions s1)"
    by (simp add: a(4) hash_value_def demo_tokens_def demo_defs)
  have "local_login_enabled (cx_config (demo_ctx 5))" by (simp add: demo_config_def)
  with a have "?l = login_success (demo_ctx 5) demo_tokens \<lparr>lr_identifier = ''ana'', lr_password = ''pw''\<rparr> ?rq v s1"
    by (simp add: login_def)
  then have new: "sessions (snd ?l) \<noteq> sessions demo_db" using login_success_opens [OF fresh] a(4) by simp
  have "normalize_username ''root'' = Inr ''root'' \<and> normalize_username ''ana'' = Inr ''ana''" by code_simp
  then have wf: "accounts_wf demo_db"
    by (simp add: accounts_wf_def List.map_filter_def account_row_ok_def normalize_email_def demo_defs)
  have f: "map_option ua_id (find_account ''ana'' demo_db) = Some 2" by code_simp
  from login_session_sound [OF wf prod.collapse [symmetric] new] f show ?thesis by auto
qed

text \<open>C29. The second step of a login: in any sequence of attempts to finish logins, at any times and
  with any codes, each challenge issues at most one session, and at most five wrong factors are
  tried against it.\<close>

theorem mfa_challenge_limits:
  assumes "challenges_wf s"
  shows "distinct (accepted (mfa_login_ok cx) (challenge_key cx) es s) \<and>
     count_list (accepted (mfa_login_wrong cx) (challenge_key cx) es s) k \<le> 5"
  using challenge_once.accepted_once [OF assms, of cx es] challenge_failures.accepted_limit [OF assms, of cx es k]
  by simp

definition demo_challenge_db :: db where
  "demo_challenge_db = snd (create_challenge (demo_ctx 0) ''ch9'' 2 demo_db)"

theorem mfa_challenge_limits_witness:
  "count_list (accepted (mfa_login_wrong (demo_ctx 0)) (challenge_key (demo_ctx 0))
      (replicate 7 (1, demo_tokens, \<lparr>ml_challenge_token = ''ch9'', ml_code = ''123456'', ml_recovery_code = False\<rparr>,
         demo_request ''POST'' ''/api/auth/mfa/verify-login'' [])) demo_challenge_db) ''sch9'' \<le> 5"
proof -
  have "length (challenges demo_challenge_db) = 1" by code_simp
  then have "challenges_wf demo_challenge_db" by (auto simp: challenges_wf_def length_Suc_conv)
  then show ?thesis using mfa_challenge_limits by blast
qed

end
