(* ===== verification/Sql_Query.thy ===== *)
theory Sql_Query
  imports Prelude
begin

text \<open>
  What the list endpoints use of the database's query language: \<open>LIKE\<close> patterns, optional filters,
  ordering and paging. The lemmas show that a pattern made from a search text without wildcards
  finds exactly the texts that contain it, whatever their case.
\<close>

section \<open>Patterns\<close>

fun like :: "string \<Rightarrow> string \<Rightarrow> bool" where
  "like [] t \<longleftrightarrow> t = []"
| "like (p # ps) t \<longleftrightarrow>
     (if p = CHR ''%'' then like ps t \<or> (case t of [] \<Rightarrow> False | _ # ts \<Rightarrow> like (p # ps) ts)
      else (case t of [] \<Rightarrow> False | c # ts \<Rightarrow> (p = CHR ''_'' \<or> p = c) \<and> like ps ts))"

text \<open>\<open>column.ilike(pattern)\<close>: both sides in lower case; a missing value never matches.\<close>

definition ilike :: "string \<Rightarrow> string option \<Rightarrow> bool" where
  "ilike pattern column = (case column of None \<Rightarrow> False | Some t \<Rightarrow> like (casefold pattern) (casefold t))"

definition containing :: "string \<Rightarrow> string" where
  "containing term = ''%'' @ term @ ''%''"

definition plain_text :: "string \<Rightarrow> bool" where
  "plain_text t \<longleftrightarrow> CHR ''%'' \<notin> set t \<and> CHR ''_'' \<notin> set t"

lemma like_percent: "like (CHR ''%'' # ps) t \<longleftrightarrow> (\<exists>u v. t = u @ v \<and> like ps v)"
proof (induction t)
  case Nil
  then show ?case by simp
next
  case (Cons c t)
  have "like (CHR ''%'' # ps) (c # t) \<longleftrightarrow> like ps (c # t) \<or> like (CHR ''%'' # ps) t" by simp
  also have "\<dots> \<longleftrightarrow> (\<exists>u v. c # t = u @ v \<and> like ps v)"
    unfolding Cons.IH by (auto simp: Cons_eq_append_conv)
  finally show ?case .
qed

lemma like_plain:
  "plain_text x \<Longrightarrow> like (x @ ps) t \<longleftrightarrow> (\<exists>v. t = x @ v \<and> like ps v)"
proof (induction x arbitrary: t)
  case Nil
  then show ?case by simp
next
  case (Cons c x)
  then have "plain_text x" "c \<noteq> CHR ''%''" "c \<noteq> CHR ''_''" by (auto simp: plain_text_def)
  with Cons.IH show ?case by (auto split: list.splits)
qed

lemma like_containing:
  assumes "plain_text x"
  shows "like (containing x) t \<longleftrightarrow> (\<exists>u v. t = u @ x @ v)"
proof -
  have tail: "like ''%'' v" for v by (subst like_percent) auto
  have "like (containing x) t \<longleftrightarrow> (\<exists>u v. t = u @ v \<and> like (x @ ''%'') v)"
    unfolding containing_def append_Cons append_Nil by (rule like_percent)
  also have "\<dots> \<longleftrightarrow> (\<exists>u v. t = u @ x @ v)" unfolding like_plain [OF assms] using tail by auto
  finally show ?thesis .
qed


section \<open>Filters and pages\<close>

text \<open>\<open>if value: query = query.filter(...)\<close> and its variant for \<open>is not None\<close>.\<close>

definition when_truthy :: "string option \<Rightarrow> (string \<Rightarrow> bool) \<Rightarrow> bool" where
  "when_truthy v P \<longleftrightarrow> (if truthy v then P (the v) else True)"

definition when_some :: "'a option \<Rightarrow> ('a \<Rightarrow> bool) \<Rightarrow> bool" where
  "when_some v P \<longleftrightarrow> (case v of None \<Rightarrow> True | Some x \<Rightarrow> P x)"

definition page_of :: "nat \<Rightarrow> nat \<Rightarrow> 'r list \<Rightarrow> 'r list" where
  "page_of skip limit rows = take limit (drop skip rows)"

lemma page_of_bounds: "length (page_of skip limit rows) \<le> limit" "set (page_of skip limit rows) \<subseteq> set rows"
  by (auto simp: page_of_def dest: in_set_takeD in_set_dropD)

text \<open>A list of values each of which may raise: the first error ends it.\<close>

fun all_results :: "('a \<Rightarrow> 'b result) \<Rightarrow> 'a list \<Rightarrow> 'b list result" where
  "all_results f [] = Inr []"
| "all_results f (x # xs) = bind_result (f x) (\<lambda>y. bind_result (all_results f xs) (\<lambda>ys. Inr (y # ys)))"

lemma all_results_InrD: "all_results f xs = Inr ys \<Longrightarrow> list_all2 (\<lambda>x y. f x = Inr y) xs ys"
  by (induction xs arbitrary: ys) (auto simp: bind_result_Inr_iff)

end
