(* ===== verification/Admin_Safety.thy ===== *)
theory Admin_Safety
  imports Admin_Router
begin

text \<open>
  What every administration endpoint keeps, whatever its arguments and its outcome: unique
  accounts and an active administrator. An invariant that reads only the accounts is kept by the
  gate and the audit records of every endpoint; the locale carries that, and each endpoint adds
  only what it does to the accounts itself.
\<close>

section \<open>Invariants of the accounts\<close>

locale account_invariant =
  fixes I :: "db \<Rightarrow> bool"
  assumes reads_users: "users s = users t \<Longrightarrow> I s \<longleftrightarrow> I t"
begin

definition safe :: "(db, 'a) action \<Rightarrow> bool" where
  "safe m \<longleftrightarrow> (\<forall>s out s'. I s \<longrightarrow> m s = (out, s') \<longrightarrow> I s')"

lemma safeI: "(\<And>s out s'. I s \<Longrightarrow> m s = (out, s') \<Longrightarrow> I s') \<Longrightarrow> safe m"
  by (auto simp: safe_def)

lemma safeD: "safe m \<Longrightarrow> I s \<Longrightarrow> m s = (out, s') \<Longrightarrow> I s'"
  by (auto simp: safe_def)

lemma safe_users: "(\<And>s out s'. m s = (out, s') \<Longrightarrow> users s' = users s) \<Longrightarrow> safe m"
  using reads_users by (blast intro: safeI)

lemma safe_bind:
  assumes "safe m" "\<And>x. safe (f x)"
  shows "safe (bind_action m f)"
  by (rule safeI, drule bind_action_cases) (use assms in \<open>blast dest: safeD\<close>)

lemma safe_bind_facts:
  assumes "safe m" "\<And>x s s' out t. I s \<Longrightarrow> m s = (Inr x, s') \<Longrightarrow> I s' \<Longrightarrow> f x s' = (out, t) \<Longrightarrow> I t"
  shows "safe (bind_action m f)"
  by (rule safeI, drule bind_action_cases) (use assms in \<open>blast dest: safeD\<close>)

lemma safe_audited: "safe (audited cx a out)"
  by (rule safe_users) (rule audited_frame)

lemma safe_pure: "safe (\<lambda>s. (g s, s))"
  by (rule safeI) simp

lemma safe_lookup: "safe (get_current_session cx request)"
  by (rule safe_users) (auto simp: get_current_session_def split: prod.splits option.splits dest: lookup_session_frame)

lemma safe_csrf: "safe (require_authenticated_csrf cx request)"
proof (rule safe_users)
  fix s out s' assume "require_authenticated_csrf cx request s = (out, s')"
  then obtain r where "get_current_session cx request s = (r, s')"
    by (auto simp: require_authenticated_csrf_def split: prod.splits sum.splits)
  then show "users s' = users s"
    by (auto simp: get_current_session_def split: prod.splits option.splits dest: lookup_session_frame)
qed

lemma safe_check_permission: "safe (check_permission cx p request u)"
  by (rule safe_users) (auto simp: check_permission_def split: if_splits dest: audited_frame(1))

lemma safe_gate: "safe (require_csrf_permission cx p request)"
  unfolding require_csrf_permission_def
  by (rule safe_bind [OF safe_csrf]) (rule safe_users, auto simp: check_permission_def split: if_splits dest: audited_frame(1))

lemma safe_user_or_404:
  assumes "\<And>u s out t. I s \<Longrightarrow> get_user s uid = Some u \<Longrightarrow> f u s = (out, t) \<Longrightarrow> I t"
  shows "safe (bind_action (user_or_404 uid) f)"
proof (rule safe_bind_facts)
  show "safe (user_or_404 uid)" by (rule safe_users) (auto simp: user_or_404_def split: option.splits)
qed (use assms in \<open>auto simp: user_or_404_def split: option.splits\<close>)

lemma after_audit:
  assumes "bind_action (audited cx a (Inr ())) (\<lambda>_ s2. (g s2, s2)) s = (out, t)"
  shows "I t \<longleftrightarrow> I s"
proof -
  have "users t = users s"
    using bind_action_cases [OF assms] by (auto dest: audited_frame(1))
  then show ?thesis by (rule reads_users)
qed

lemma after_audited: "audited cx a r s = (out, t) \<Longrightarrow> I t \<longleftrightarrow> I s"
  by (rule reads_users) (rule audited_frame)

end


section \<open>Unique accounts and an active administrator\<close>

definition accounts_ok :: "db \<Rightarrow> bool" where
  "accounts_ok s \<longleftrightarrow> accounts_wf s \<and> has_active_admin s"

interpretation ok: account_invariant accounts_ok
  by unfold_locales (auto simp: accounts_ok_def has_active_admin_def accounts_wf_def)

lemma get_user_mem: "get_user s uid = Some u \<Longrightarrow> u \<in> set (users s) \<and> ua_id u = uid"
  by (auto simp: get_user_def find_row_def dest: find_SomeD)

text \<open>A row that an update leaves alone in what the uniqueness reads.\<close>

definition same_identity :: "(user_account \<Rightarrow> user_account) \<Rightarrow> bool" where
  "same_identity f \<longleftrightarrow>
     (\<forall>u. ua_id (f u) = ua_id u \<and> ua_username (f u) = ua_username u \<and> ua_email (f u) = ua_email u \<and>
        ua_username_normalized (f u) = ua_username_normalized u \<and> ua_email_normalized (f u) = ua_email_normalized u)"

lemma has_admin_upd:
  assumes "has_active_admin s" "get_user s uid = Some u" "distinct (map ua_id (users s))"
    "active_admin u \<longrightarrow> active_admin (f u)"
  shows "has_active_admin (upd_user uid f s)"
proof -
  obtain v where v: "v \<in> set (users s)" "active_admin v" using assms(1) by (auto simp: has_active_admin_def)
  note u = get_user_mem [OF assms(2)]
  show ?thesis
  proof (cases "ua_id v = uid")
    case True
    then have "v = u" using v(1) u assms(3) by (auto simp: distinct_map dest: inj_onD)
    with v assms(4) u show ?thesis by (force simp: has_active_admin_def upd_user_def set_upd_row)
  next
    case False
    with v show ?thesis using upd_user_keeps_others [OF v(1) False] by (auto simp: has_active_admin_def)
  qed
qed

lemma accounts_ok_upd:
  assumes ok: "accounts_ok s" and u: "get_user s uid = Some u" and f: "same_identity f"
    and adm: "(active_admin u \<longrightarrow> active_admin (f u)) \<or> ensure_not_last_admin s u = Inr ()"
    and s': "users s' = users (upd_user uid f s)"
  shows "accounts_ok s'"
proof -
  have wf: "accounts_wf s" "has_active_admin s" and ids: "distinct (map ua_id (users s))"
    using ok by (auto simp: accounts_ok_def accounts_wf_def)
  have "accounts_wf (upd_user uid f s)"
    using f by (intro accounts_wf_upd_user [OF wf(1)]) (simp_all add: same_identity_def account_row_ok_def)
  moreover have "has_active_admin (upd_user uid f s)"
  proof (cases "active_admin u \<longrightarrow> active_admin (f u)")
    case True
    then show ?thesis by (rule has_admin_upd [OF wf(2) u ids])
  next
    case False
    with adm have "ensure_not_last_admin s u = Inr ()" by blast
    then show ?thesis
      using get_user_mem [OF u]
      by (intro last_admin.keeps_admin [OF wf(2) ids]) (auto intro: upd_user_keeps_others)
  qed
  ultimately show ?thesis using ok.reads_users [OF s'] by (simp add: accounts_ok_def)
qed

lemma accounts_ok_replace:
  assumes ok: "accounts_ok s" and u: "get_user s uid = Some u" and row: "account_row_ok u'"
    and same: "ua_id u' = ua_id u" "ua_username_normalized u' = ua_username_normalized u"
    and email: "\<forall>v \<in> set (users s). ua_id v \<noteq> ua_id u \<longrightarrow>
        ua_email_normalized u' = None \<or> ua_email_normalized v \<noteq> ua_email_normalized u'"
    and adm: "active_admin u \<longrightarrow> active_admin u'"
  shows "accounts_ok (upd_user uid (\<lambda>_. u') s)"
proof -
  let ?f = "\<lambda>_ :: user_account. u'"
  have wf: "accounts_wf s" "has_active_admin s" and ids: "distinct (map ua_id (users s))"
    using ok by (auto simp: accounts_ok_def accounts_wf_def)
  note mem = get_user_mem [OF u]
  obtain as bs where split: "users s = as @ u # bs" using mem by (meson split_list)
  have others: "uid \<notin> ua_id ` set as" "uid \<notin> ua_id ` set bs" using ids mem by (auto simp: split)
  then have upd: "upd_row ua_id uid ?f (users s) = as @ u' # bs"
    using mem by (auto simp: split upd_row_def intro!: map_idI) (metis imageI)+
  have "distinct (List.map_filter ua_email_normalized (as @ bs))"
    using wf(1) by (auto simp: accounts_wf_def split List.map_filter_def split: if_splits)
  moreover have "e \<notin> set (List.map_filter ua_email_normalized (as @ bs))" if "ua_email_normalized u' = Some e" for e
  proof
    assume "e \<in> set (List.map_filter ua_email_normalized (as @ bs))"
    then obtain v where v: "v \<in> set as \<union> set bs" "ua_email_normalized v = Some e"
      unfolding set_map_filter by auto
    then have "ua_id v \<noteq> uid" using others by auto
    with v that email mem show False by (auto simp: split)
  qed
  ultimately have "distinct (List.map_filter ua_email_normalized (as @ u' # bs))"
    by (auto simp: List.map_filter_def split: option.splits)
  moreover have us: "users (upd_user uid ?f s) = as @ u' # bs" by (simp add: upd_user_def upd)
  moreover have "map ua_id (as @ u' # bs) = map ua_id (users s)"
      "map ua_username_normalized (as @ u' # bs) = map ua_username_normalized (users s)"
    by (simp_all add: split same)
  moreover have "\<forall>v \<in> set (as @ u' # bs). account_row_ok v" using wf(1) row by (simp add: accounts_wf_def split)
  ultimately have "accounts_wf (upd_user uid ?f s)"
    using wf(1) unfolding accounts_wf_def us by metis
  then show ?thesis using has_admin_upd [OF wf(2) u ids, of ?f] adm by (simp add: accounts_ok_def)
qed



lemma email_unique:
  assumes "accounts_wf s" "u \<in> set (users s)" "v \<in> set (users s)" "ua_id v \<noteq> ua_id u" "ua_email_normalized u \<noteq> None"
  shows "ua_email_normalized v \<noteq> ua_email_normalized u"
proof
  assume eq: "ua_email_normalized v = ua_email_normalized u"
  have "distinct (map (the \<circ> ua_email_normalized) (filter (\<lambda>x. ua_email_normalized x \<noteq> None) (users s)))"
    using assms(1) by (simp add: accounts_wf_def List.map_filter_def)
  then have "inj_on (the \<circ> ua_email_normalized) (set (filter (\<lambda>x. ua_email_normalized x \<noteq> None) (users s)))"
    unfolding distinct_map by blast
  then have "u = v" by (rule inj_onD) (use assms eq in auto)
  with assms(4) show False by simp
qed


section \<open>The endpoints\<close>

lemma same_identity_simps [simp]:
  "same_identity (\<lambda>u. u\<lparr>ua_status := st, ua_disabled_at := d\<rparr>)"
  "same_identity (\<lambda>u. u\<lparr>ua_status := (if ua_must_change_password u then PendingPasswordChange else Active), ua_disabled_at := d\<rparr>)"
  "same_identity (\<lambda>u. u\<lparr>ua_is_system_admin := a\<rparr>)"
  "same_identity (\<lambda>u. u\<lparr>ua_mfa_enabled := a, ua_must_change_password := b, ua_status := st\<rparr>)"
  "same_identity (\<lambda>u. u\<lparr>ua_status := st\<rparr>)"
  "same_identity reset_failures" "same_identity (new_password_row cx h m)"
  "same_identity (approved_row cx i keys)" "same_identity (rejected_row cx i reason)"
  by (simp_all add: same_identity_def reset_failures_def new_password_row_def approved_row_def rejected_row_def Let_def)

lemma active_admin_updates:
  "active_admin u \<Longrightarrow> active_admin (new_password_row cx h m u)"
  "active_admin u \<Longrightarrow> active_admin (reset_failures u)"
  "active_admin u \<Longrightarrow> ua_status u \<notin> {PendingApproval, Rejected, Disabled, Locked}"
  by (auto simp: active_admin_def new_password_row_def reset_failures_def Let_def)

lemma record_management_users: "record_management_attempt cx a action ip s = (out, s') \<Longrightarrow> users s' = users s"
  by (auto simp: record_management_attempt_def Let_def split: if_splits)

lemma review_safe:
  assumes review: "\<And>u actor s out t. accounts_ok s \<Longrightarrow> get_user s uid = Some u \<Longrightarrow> review u actor s = (out, t) \<Longrightarrow> accounts_ok t"
  shows "ok.safe (review_registration cx request uid action review event)"
  unfolding review_registration_def
proof (rule ok.safe_bind [OF ok.safe_gate ok.safe_user_or_404])
  fix actor u s out t
  assume I: "accounts_ok s" and u: "get_user s uid = Some u"
    and r: "(case bind_action (record_management_attempt cx (ua_id actor) action (client_ip_hash cx request))
              (\<lambda>_. review u actor) s of
         (Inl e, s1) \<Rightarrow> (Inl (review_error e), s1)
       | (Inr _, s1) \<Rightarrow>
           bind_action (audited cx (event actor) (Inr ())) (\<lambda>_ s2. (registration_dict s2 (reload s2 u), s2)) s1) = (out, t)"
  obtain o1 s1 where b: "bind_action (record_management_attempt cx (ua_id actor) action (client_ip_hash cx request))
              (\<lambda>_. review u actor) s = (o1, s1)" by fastforce
  have "accounts_ok s1"
    using bind_action_cases [OF b]
  proof (elim disjE exE conjE)
    fix e assume "record_management_attempt cx (ua_id actor) action (client_ip_hash cx request) s = (Inl e, s1)"
    then show ?thesis using I ok.reads_users [OF record_management_users] by blast
  next
    fix x s0
    assume m: "record_management_attempt cx (ua_id actor) action (client_ip_hash cx request) s = (Inr x, s0)"
      and v: "review u actor s0 = (o1, s1)"
    have us: "users s0 = users s" by (rule record_management_users [OF m])
    then have "accounts_ok s0" "get_user s0 uid = Some u" using I u ok.reads_users get_user_cong by metis+
    with v show ?thesis by (blast intro: review)
  qed
  moreover have "accounts_ok t \<longleftrightarrow> accounts_ok s1"
  proof (cases o1)
    case (Inr x)
    then have "bind_action (audited cx (event actor) (Inr ())) (\<lambda>_ s2. (registration_dict s2 (reload s2 u), s2)) s1 = (out, t)"
      using r b by simp
    then show ?thesis by (rule ok.after_audit)
  qed (use r b in simp)
  ultimately show "accounts_ok t" by simp
qed

lemma approve_safe: "ok.safe (approve cx uid keys confirm request)"
  unfolding approve_def
proof (rule review_safe)
  fix u actor s out t
  assume I: "accounts_ok s" and u: "get_user s uid = Some u"
    and a: "approve_registration cx u actor keys confirm s = (out, t)"
  show "accounts_ok t"
  proof (cases out)
    case (Inl e)
    then show ?thesis using approve_registration_InlD a I by blast
  next
    case (Inr x)
    from approve_registration_InrD [OF a [unfolded Inr]] obtain unique s1 where
      st: "ua_status u \<in> {PendingApproval, Rejected}"
      and ar: "assign_roles cx (ua_id u) unique (Some (ua_id actor)) s = (Inr (), s1)"
      and us: "users t = users (upd_user (ua_id u) (approved_row cx (ua_id actor) unique) s1)" by metis
    have s1: "users s1 = users s" by (rule assign_roles_frame [OF ar])
    have "users t = users (upd_user uid (approved_row cx (ua_id actor) unique) s)"
      using us s1 get_user_mem [OF u] by (simp add: upd_user_def)
    then show ?thesis
      using st active_admin_updates(3) by (intro accounts_ok_upd [OF I u]) auto
  qed
qed

lemma reject_safe: "ok.safe (reject cx uid reason request)"
  unfolding reject_def
proof (rule review_safe)
  fix u actor s out t
  assume I: "accounts_ok s" and u: "get_user s uid = Some u"
    and a: "reject_registration cx u actor reason s = (out, t)"
  show "accounts_ok t"
  proof (cases out)
    case (Inl e)
    then show ?thesis using reject_registration_InlD a I by blast
  next
    case (Inr x)
    note d = reject_registration_InrD [OF a [unfolded Inr]]
    with get_user_mem [OF u] show ?thesis by (intro accounts_ok_upd [OF I u]) auto
  qed
qed

lemma reopen_safe: "ok.safe (reopen cx uid request)"
  unfolding reopen_def
proof (rule review_safe)
  fix u actor s out t
  assume I: "accounts_ok s" and u: "get_user s uid = Some u" and a: "reopen_registration cx u actor s = (out, t)"
  then show "accounts_ok t"
    using get_user_mem [OF u] active_admin_updates(3) [of u]
    by (cases "ua_status u = Rejected")
      (auto simp: reopen_registration_def intro!: accounts_ok_upd [OF I u, of "\<lambda>u. u\<lparr>ua_status := PendingApproval\<rparr>"])
qed


lemma admin_create_user_safe: "ok.safe (admin_create_user cx salt generated payload request)"
  unfolding admin_create_user_def
proof (rule ok.safe_bind [OF ok.safe_gate], rule ok.safeI)
  fix actor :: user_account and s out t
  let ?a = "\<lparr>na_username = uc_username payload, na_display_name = uc_display_name payload,
           na_password = chosen_password (uc_temporary_password payload) generated, na_email = uc_email payload,
           na_role_keys = uc_role_keys payload, na_must_change_password = True,
           na_is_system_admin = uc_is_system_admin payload, na_actor_id = Some (ua_id actor),
           na_registration_source = ''administrator'', na_status = None, na_terms_accepted_at = None,
           na_privacy_notice_version = None, na_is_demo_account = False\<rparr>"
  assume I: "accounts_ok s"
    and r: "(let temporary_password = chosen_password (uc_temporary_password payload) generated in
       case create_user cx salt
          \<lparr>na_username = uc_username payload, na_display_name = uc_display_name payload,
           na_password = temporary_password, na_email = uc_email payload, na_role_keys = uc_role_keys payload,
           na_must_change_password = True, na_is_system_admin = uc_is_system_admin payload,
           na_actor_id = Some (ua_id actor), na_registration_source = ''administrator'', na_status = None,
           na_terms_accepted_at = None, na_privacy_notice_version = None, na_is_demo_account = False\<rparr> s of
         (Inl e, s1) \<Rightarrow> (Inl (if is_ValueError e then HTTPException 422 (exn_message e) else e), s1)
       | (Inr uid, s1) \<Rightarrow>
           bind_action (audited cx (user_audit cx request ''user_created'' ''create_user'' actor uid []) (Inr ()))
             (\<lambda>_ s2. (Inr (user_dict s2 (the (get_user s2 uid)) False, temporary_password), s2)) s1) = (out, t)"
  obtain o1 s1 where c: "create_user cx salt ?a s = (o1, s1)" by fastforce
  show "accounts_ok t"
  proof (cases o1)
    case (Inl e)
    then show ?thesis using r c I create_user_InlD [of cx salt ?a s e s1] by (simp add: Let_def)
  next
    case (Inr uid)
    then have "bind_action (audited cx (user_audit cx request ''user_created'' ''create_user'' actor uid []) (Inr ()))
       (\<lambda>_ s2. (Inr (user_dict s2 (the (get_user s2 uid)) False, chosen_password (uc_temporary_password payload) generated), s2)) s1 = (out, t)"
      using r c by (simp add: Let_def)
    then have "accounts_ok t \<longleftrightarrow> accounts_ok s1" by (rule ok.after_audit)
    moreover have "accounts_ok s1"
      using I create_user_wf [OF _ c [unfolded Inr]] by (auto simp: accounts_ok_def has_active_admin_def)
    ultimately show ?thesis by simp
  qed
qed

lemma with_display_name_same:
  assumes "with_display_name d u = Inr u'"
  shows "ua_id u' = ua_id u" "ua_username_normalized u' = ua_username_normalized u" "account_row_ok u' = account_row_ok u"
    "active_admin u' = active_admin u" "ua_email_normalized u' = ua_email_normalized u"
  using assms by (auto simp: with_display_name_def bind_result_Inr_iff account_row_ok_def active_admin_def split: option.splits)

lemma with_email_same:
  assumes "with_email s e u = Inr u'"
  shows "ua_id u' = ua_id u" "ua_username_normalized u' = ua_username_normalized u"
    "active_admin u' = active_admin u" "ua_username u' = ua_username u"
  using assms by (auto simp: with_email_def bind_result_Inr_iff active_admin_def split: option.splits if_splits)

lemma with_email_row:
  assumes w: "with_email s e u = Inr u'" and ok: "account_row_ok u"
  shows "account_row_ok u'"
    "ua_email_normalized u' = ua_email_normalized u \<or> ua_email_normalized u' = None \<or>
       (\<forall>v \<in> set (users s). ua_id v \<noteq> ua_id u \<longrightarrow> ua_email_normalized v \<noteq> ua_email_normalized u')"
proof -
  have "account_row_ok u' \<and> (ua_email_normalized u' = ua_email_normalized u \<or> ua_email_normalized u' = None \<or>
       (\<forall>v \<in> set (users s). ua_id v \<noteq> ua_id u \<longrightarrow> ua_email_normalized v \<noteq> ua_email_normalized u'))"
  proof (cases e)
    case None
    with w ok show ?thesis by (simp add: with_email_def)
  next
    case (Some x)
    with w obtain n where n: "normalize_email (Some x) = Inr n"
      and free: "\<not> (truthy n \<and> (\<exists>v \<in> set (users s). ua_email_normalized v = n \<and> ua_id v \<noteq> ua_id u))"
      and u': "u' = u\<lparr>ua_email := (if strip x = [] then None else Some (strip x)), ua_email_normalized := n\<rparr>"
      by (auto simp: with_email_def bind_result_Inr_iff split: if_splits)
    have "normalize_email (if strip x = [] then None else Some (strip x)) = Inr n"
      using normalize_email_strip [of "Some x"] n by (simp split: if_splits)
    then have "account_row_ok u'" using ok by (simp add: u' account_row_ok_def)
    moreover have "n = None \<or> truthy n" using n normalize_email_SomeD by (cases n) (auto simp: truthy_def)
    ultimately show ?thesis using free by (auto simp: u')
  qed
  then show "account_row_ok u'"
    "ua_email_normalized u' = ua_email_normalized u \<or> ua_email_normalized u' = None \<or>
       (\<forall>v \<in> set (users s). ua_id v \<noteq> ua_id u \<longrightarrow> ua_email_normalized v \<noteq> ua_email_normalized u')"
    by blast+
qed

lemma with_must_change_same:
  "ua_id (with_must_change b u) = ua_id u" "ua_username_normalized (with_must_change b u) = ua_username_normalized u"
  "account_row_ok (with_must_change b u) = account_row_ok u"
  "ua_email_normalized (with_must_change b u) = ua_email_normalized u"
  "active_admin u \<Longrightarrow> active_admin (with_must_change b u)"
  by (auto simp: with_must_change_def account_row_ok_def active_admin_def split: option.splits)

lemma admin_update_user_safe: "ok.safe (admin_update_user cx uid payload request)"
  unfolding admin_update_user_def
proof (rule ok.safe_bind [OF ok.safe_gate ok.safe_user_or_404])
  fix actor u s out t
  assume I: "accounts_ok s" and u: "get_user s uid = Some u"
    and r: "(case updated_user s payload u of
         Inl e \<Rightarrow> (Inl (if is_ValueError e then HTTPException 422 (exn_message e) else e), s)
       | Inr u' \<Rightarrow>
           bind_action (audited cx (user_audit cx request ''user_updated'' ''update_user'' actor uid []) (Inr ()))
             (\<lambda>_ s2. (Inr (user_dict s2 (reload s2 u) False), s2)) (upd_user uid (\<lambda>_. u') s)) = (out, t)"
  show "accounts_ok t"
  proof (cases "updated_user s payload u")
    case (Inl e)
    then show ?thesis using r I by simp
  next
    case (Inr u')
    then obtain u1 u2 where s1: "with_display_name (up_display_name payload) u = Inr u1"
      and s2: "with_email s (up_email payload) u1 = Inr u2" and s3: "u' = with_must_change (up_must_change_password payload) u2"
      by (auto simp: updated_user_def bind_result_Inr_iff)
    have mem: "u \<in> set (users s)" by (rule conjunct1 [OF get_user_mem [OF u]])
    then have row: "account_row_ok u1"
      using I with_display_name_same [OF s1] by (simp add: accounts_ok_def accounts_wf_def)
    note same = with_display_name_same [OF s1] with_email_same [OF s2]
    have free: "\<forall>v \<in> set (users s). ua_id v \<noteq> ua_id u \<longrightarrow>
        ua_email_normalized u' = None \<or> ua_email_normalized v \<noteq> ua_email_normalized u'"
      using with_email_row(2) [OF s2 row] same I mem email_unique [of s u]
      by (auto simp: s3 with_must_change_same accounts_ok_def)
    have "accounts_ok (upd_user uid (\<lambda>_. u') s)"
      using with_email_row(1) [OF s2 row] same with_must_change_same(5) [of u2]
      by (intro accounts_ok_replace [OF I u _ _ _ free]) (simp_all add: s3 with_must_change_same)
    moreover have "bind_action (audited cx (user_audit cx request ''user_updated'' ''update_user'' actor uid []) (Inr ()))
             (\<lambda>_ s2. (Inr (user_dict s2 (reload s2 u) False), s2)) (upd_user uid (\<lambda>_. u') s) = (out, t)"
      using r Inr by simp
    then have "accounts_ok t \<longleftrightarrow> accounts_ok (upd_user uid (\<lambda>_. u') s)" by (rule ok.after_audit)
    ultimately show ?thesis by simp
  qed
qed


text \<open>Endpoints that update the row of one account and record it.\<close>

lemma simple_update_safe:
  assumes "same_identity f"
    and "\<And>s u. get_user s uid = Some u \<Longrightarrow> guard s u \<Longrightarrow>
       (active_admin u \<longrightarrow> active_admin (f u)) \<or> ensure_not_last_admin s u = Inr ()"
    and "\<And>actor u s out t. accounts_ok s \<Longrightarrow> get_user s uid = Some u \<Longrightarrow> body actor u s = (out, t) \<Longrightarrow>
       users t = users s \<or> guard s u \<and> users t = users (upd_user uid f s)"
  shows "ok.safe (bind_action (require_csrf_permission cx p request) (\<lambda>actor. bind_action (user_or_404 uid) (body actor)))"
proof (rule ok.safe_bind [OF ok.safe_gate ok.safe_user_or_404])
  fix actor u s out t
  assume I: "accounts_ok s" and u: "get_user s uid = Some u" and b: "body actor u s = (out, t)"
  from assms(3) [OF I u b] show "accounts_ok t"
  proof
    assume "users t = users s"
    then show ?thesis using I ok.reads_users by blast
  next
    assume "guard s u \<and> users t = users (upd_user uid f s)"
    then show ?thesis using accounts_ok_upd [OF I u assms(1)] assms(2) [OF u] by blast
  qed
qed

lemma bind_audited_users:
  "bind_action (audited cx a (Inr ())) (\<lambda>_ s2. (g s2, s2)) s = (out, t) \<Longrightarrow> users t = users s"
  by (drule bind_action_cases) (auto dest: audited_frame(1))

lemmas admin_row_defs = active_admin_def new_password_row_def reset_failures_def Let_def

lemma disable_user_safe: "ok.safe (disable_user cx uid request)"
  unfolding disable_user_def
  by (rule simple_update_safe [where f = "\<lambda>u. u\<lparr>ua_status := Disabled, ua_disabled_at := Some (cx_now cx)\<rparr>"
        and guard = "\<lambda>s u. ensure_not_last_admin s u = Inr ()"])
    (auto split: sum.splits dest!: bind_audited_users)

lemma enable_user_safe: "ok.safe (enable_user cx uid request)"
  unfolding enable_user_def
  by (rule simple_update_safe [where guard = "\<lambda>s u. True" and
        f = "\<lambda>u. u\<lparr>ua_status := (if ua_must_change_password u then PendingPasswordChange else Active), ua_disabled_at := None\<rparr>"])
    (auto simp: active_admin_def dest!: bind_audited_users)

lemma unlock_user_safe: "ok.safe (unlock_user cx uid request)"
  unfolding unlock_user_def
  by (rule simple_update_safe [where guard = "\<lambda>s u. True" and f = reset_failures])
    (auto simp: clear_failures_def upd_user_def active_admin_updates dest!: bind_audited_users)

lemma reset_password_safe: "ok.safe (reset_password cx salt generated uid given request)"
  unfolding reset_password_def
proof (rule simple_update_safe [where guard = "\<lambda>s u. True" and
      f = "new_password_row cx (argon2_hash (cx_crypto cx) salt (chosen_password given generated)) True"])
  fix actor u s out t
  assume u: "get_user s uid = Some u"
    and r: "(let temporary = chosen_password given generated in
       case set_password cx salt u temporary True ''administrator_password_reset'' None s of
         (Inl (PasswordPolicyError m), s1) \<Rightarrow> (Inl (HTTPException 422 m), s1)
       | (Inl e, s1) \<Rightarrow> (Inl e, s1)
       | (Inr _, s1) \<Rightarrow>
           audited cx (user_audit cx request ''password_reset'' ''reset_password'' actor uid []) (Inr temporary) s1) = (out, t)"
  obtain o1 s1 where c: "set_password cx salt u (chosen_password given generated) True ''administrator_password_reset'' None s = (o1, s1)"
    by fastforce
  show "users t = users s \<or> True \<and>
      users t = users (upd_user uid (new_password_row cx (argon2_hash (cx_crypto cx) salt (chosen_password given generated)) True) s)"
  proof (cases o1)
    case (Inl e)
    then have "s1 = s" using c set_password_InlD by blast
    moreover have "t = s1" using r c Inl by (cases e) (simp_all add: Let_def)
    ultimately show ?thesis by simp
  next
    case (Inr x)
    with r c have "users t = users s1" by (auto simp: Let_def dest: audited_frame(1))
    then show ?thesis using set_password_InrD [OF c [unfolded Inr]] get_user_mem [OF u] by simp
  qed
qed (simp_all add: active_admin_updates)

lemma reset_mfa_safe: "ok.safe (reset_mfa cx uid request)"
  unfolding reset_mfa_def
proof (rule ok.safe_bind [OF ok.safe_gate ok.safe_user_or_404])
  fix actor and u :: user_account and s out t
  let ?f = "\<lambda>u' :: user_account. u'\<lparr>ua_mfa_enabled := False, ua_must_change_password := True,
     ua_status := (if ua_status u = Disabled then Disabled else PendingPasswordChange)\<rparr>"
  assume I: "accounts_ok s" and u: "get_user s uid = Some u"
    and r: "(let was_disabled = (ua_status u = Disabled);
           s1 = s\<lparr>mfa_devices := upd_where (\<lambda>d. md_user_id d = uid) (disabled_device cx) (mfa_devices s),
                  recovery_codes := filter (\<lambda>c. rc_user_id c \<noteq> uid) (recovery_codes s)\<rparr>;
           s2 = upd_user uid (\<lambda>u. u\<lparr>ua_mfa_enabled := False, ua_must_change_password := True,
                  ua_status := (if was_disabled then Disabled else PendingPasswordChange)\<rparr>) s1
       in audited cx (user_audit cx request ''mfa_reset'' ''reset_mfa'' actor uid []) (Inr True)
            (snd (revoke_user_sessions cx uid ''administrator_mfa_reset'' None s2))) = (out, t)"
  then have "users t = users (upd_user uid ?f s)" by (auto simp: Let_def upd_user_def dest!: audited_frame(1))
  then show "accounts_ok t" by (rule accounts_ok_upd [OF I u, rotated -1]) (auto simp: active_admin_def)
qed

lemma set_user_roles_safe: "ok.safe (set_user_roles cx uid keys request)"
  unfolding set_user_roles_def
  by (rule simple_update_safe [where f = "\<lambda>u. u\<lparr>ua_is_system_admin := (''administrator'' \<in> set keys)\<rparr>" and
        guard = "\<lambda>s u. ua_is_system_admin u \<and> ''administrator'' \<notin> set keys \<longrightarrow> ensure_not_last_admin s u = Inr ()"])
    (auto simp: Let_def active_admin_def upd_user_def split: sum.splits if_splits prod.splits
      dest!: bind_audited_users dest: assign_roles_frame(1))

lemma revoke_each_users [simp]: "users (revoke_each cx reason uids s) = users s"
  unfolding revoke_each_def by (induction uids arbitrary: s) simp_all

lemma role_or_404_safe:
  assumes "\<And>r s out t. f r s = (out, t) \<Longrightarrow> users t = users s"
  shows "ok.safe (bind_action (role_or_404 rid) f)"
  by (rule ok.safe_users, drule bind_action_cases)
    (auto simp: role_or_404_def split: option.splits dest: assms)

lemma role_endpoints_safe:
  "ok.safe (create_role cx role request)" "ok.safe (update_role cx rid change request)"
  "ok.safe (delete_role cx rid request)" "ok.safe (set_role_permissions cx rid keys request)"
proof -
  show "ok.safe (create_role cx role request)"
    unfolding create_role_def
    by (rule ok.safe_bind [OF ok.safe_gate], rule ok.safe_users)
      (auto simp: Let_def split: if_splits sum.splits dest!: bind_audited_users)
  show "ok.safe (update_role cx rid change request)"
    unfolding update_role_def
    by (rule ok.safe_bind [OF ok.safe_gate role_or_404_safe])
      (auto simp: upd_role_def split: sum.splits dest!: bind_audited_users)
  show "ok.safe (delete_role cx rid request)"
    unfolding delete_role_def
    by (rule ok.safe_bind [OF ok.safe_gate role_or_404_safe]) (auto split: if_splits dest!: audited_frame(1))
  show "ok.safe (set_role_permissions cx rid keys request)"
    unfolding set_role_permissions_def
    by (rule ok.safe_bind [OF ok.safe_gate role_or_404_safe])
      (auto split: if_splits sum.splits dest!: bind_audited_users)
qed

lemma session_endpoints_safe:
  "ok.safe (admin_revoke_session cx uid sid request)" "ok.safe (admin_revoke_all cx uid request)"
proof -
  show "ok.safe (admin_revoke_session cx uid sid request)"
    unfolding admin_revoke_session_def
    by (rule ok.safe_bind [OF ok.safe_gate], rule ok.safe_users)
      (auto simp: revoke_session_def split: option.splits dest!: audited_frame(1))
  show "ok.safe (admin_revoke_all cx uid request)"
    unfolding admin_revoke_all_def
    by (rule simple_update_safe [where f = id and guard = "\<lambda>s u. True"])
      (auto simp: same_identity_def revoke_user_sessions_def dest!: audited_frame(1))
qed


section \<open>Properties\<close>

text \<open>The administration requests that change state, with the random values they draw.\<close>

datatype admin_call =
    Approve nat "string list" bool
  | Reject nat string
  | Reopen nat
  | AdminCreateUser string string user_create
  | AdminUpdateUser nat user_update
  | DisableUser nat
  | EnableUser nat
  | UnlockUser nat
  | ResetPassword string string nat "string option"
  | ResetMfa nat
  | AdminRevokeSession nat nat
  | AdminRevokeAll nat
  | CreateRole role_create
  | UpdateRole nat role_update
  | DeleteRole nat
  | SetRolePermissions nat "string list"
  | SetUserRoles nat "string list"

fun serve :: "ctx \<times> request \<times> admin_call \<Rightarrow> db \<Rightarrow> db" where
  "serve (cx, rq, Approve uid keys confirm) s = snd (approve cx uid keys confirm rq s)"
| "serve (cx, rq, Reject uid reason) s = snd (reject cx uid reason rq s)"
| "serve (cx, rq, Reopen uid) s = snd (reopen cx uid rq s)"
| "serve (cx, rq, AdminCreateUser salt generated p) s = snd (admin_create_user cx salt generated p rq s)"
| "serve (cx, rq, AdminUpdateUser uid p) s = snd (admin_update_user cx uid p rq s)"
| "serve (cx, rq, DisableUser uid) s = snd (disable_user cx uid rq s)"
| "serve (cx, rq, EnableUser uid) s = snd (enable_user cx uid rq s)"
| "serve (cx, rq, UnlockUser uid) s = snd (unlock_user cx uid rq s)"
| "serve (cx, rq, ResetPassword salt generated uid given) s = snd (reset_password cx salt generated uid given rq s)"
| "serve (cx, rq, ResetMfa uid) s = snd (reset_mfa cx uid rq s)"
| "serve (cx, rq, AdminRevokeSession uid sid) s = snd (admin_revoke_session cx uid sid rq s)"
| "serve (cx, rq, AdminRevokeAll uid) s = snd (admin_revoke_all cx uid rq s)"
| "serve (cx, rq, CreateRole p) s = snd (create_role cx p rq s)"
| "serve (cx, rq, UpdateRole rid p) s = snd (update_role cx rid p rq s)"
| "serve (cx, rq, DeleteRole rid) s = snd (delete_role cx rid rq s)"
| "serve (cx, rq, SetRolePermissions rid keys) s = snd (set_role_permissions cx rid keys rq s)"
| "serve (cx, rq, SetUserRoles uid keys) s = snd (set_user_roles cx uid keys rq s)"

lemma safe_snd: "ok.safe m \<Longrightarrow> accounts_ok s \<Longrightarrow> accounts_ok (snd (m s))"
  by (cases "m s") (simp add: ok.safeD)

lemma serve_safe: "accounts_ok s \<Longrightarrow> accounts_ok (serve c s)"
  by (cases "(c, s)" rule: serve.cases)
    (simp_all add: safe_snd approve_safe reject_safe reopen_safe admin_create_user_safe admin_update_user_safe
      disable_user_safe enable_user_safe unlock_user_safe reset_password_safe reset_mfa_safe
      session_endpoints_safe role_endpoints_safe set_user_roles_safe)

text \<open>C4. Administration cannot lock itself out: over any sequence of administration requests, by any
  callers, with any arguments and at any times, whether they succeed or are refused, there stays an
  active administrator, and usernames and e-mail addresses stay unique.\<close>

theorem administration_keeps_an_administrator:
  assumes "accounts_wf s" "has_active_admin s"
  shows "accounts_wf (fold serve calls s) \<and> has_active_admin (fold serve calls s)"
proof -
  have "accounts_ok (fold serve calls s)" using assms
  proof (induction calls arbitrary: s)
    case Nil
    then show ?case by (simp add: accounts_ok_def)
  next
    case (Cons c calls)
    then show ?case using serve_safe [of s c] by (simp add: accounts_ok_def)
  qed
  then show ?thesis by (simp add: accounts_ok_def)
qed

definition demo_admin_db :: db where
  "demo_admin_db = demo_db
     \<lparr>users := [demo_user 1 ''root'' Active True, demo_user 2 ''ana'' Active True],
      permissions := [demo_permission 1 ''users:manage'', demo_permission 2 ''roles:manage'']\<rparr>"

theorem administration_keeps_an_administrator_witness:
  "has_active_admin (fold serve
     [(demo_ctx 7, demo_request ''POST'' ''/api/admin/users/1/disable'' ''t2'', DisableUser 1),
      (demo_ctx 8, demo_request ''PUT'' ''/api/admin/users/2/roles'' ''t2'', SetUserRoles 2 [])] demo_admin_db)"
proof -
  have "normalize_username ''root'' = Inr ''root'' \<and> normalize_username ''ana'' = Inr ''ana''" by code_simp
  then have "accounts_wf demo_admin_db" "has_active_admin demo_admin_db"
    by (simp_all add: demo_admin_db_def accounts_wf_def List.map_filter_def has_active_admin_def active_admin_def
        account_row_ok_def normalize_email_def demo_defs)
  then show ?thesis using administration_keeps_an_administrator by blast
qed

end
