(* ===== verification/Audit_Router.thy ===== *)
theory Audit_Router
  imports Admin_Router
begin

text \<open>
  The read side of the audit log (\<open>access_control/router.py\<close>, \<open>audit_router\<close>): the filtered and
  paged list, one event, the integrity check and the overview. The two columns that hold JSON are
  shown as the stored text.
\<close>

definition audit_dict :: "security_audit_event \<Rightarrow> security_audit_event" where
  "audit_dict e = e\<lparr>ae_client_ip_hash := cut 12 (ae_client_ip_hash e)\<rparr>"

record audit_query =
  aq_actor :: "string option"
  aq_event_type :: "string option"
  aq_action :: "string option"
  aq_outcome :: "string option"
  aq_resource_type :: "string option"
  aq_status_code :: "nat option"
  aq_request_id :: "string option"
  aq_q :: "string option"
  aq_date_from :: "time option"
  aq_date_to :: "time option"
  aq_page :: nat
  aq_page_size :: nat

definition audit_selected :: "audit_query \<Rightarrow> security_audit_event \<Rightarrow> bool" where
  "audit_selected q e \<longleftrightarrow>
     when_truthy (aq_event_type q) (\<lambda>v. ae_event_type e = v) \<and>
     when_truthy (aq_action q) (\<lambda>v. ae_action e = v) \<and>
     when_truthy (aq_outcome q) (\<lambda>v. ae_outcome e = v) \<and>
     when_truthy (aq_resource_type q) (\<lambda>v. ae_resource_type e = Some v) \<and>
     when_truthy (aq_request_id q) (\<lambda>v. ae_request_id e = v) \<and>
     when_truthy (aq_actor q) (\<lambda>v. ilike (containing v) (ae_actor_username_snapshot e)) \<and>
     when_some (aq_status_code q) (\<lambda>n. ae_status_code e = Some n) \<and>
     when_some (aq_date_from q) (\<lambda>t. t \<le> ae_occurred_at e) \<and>
     when_some (aq_date_to q) (\<lambda>t. ae_occurred_at e \<le> t) \<and>
     when_truthy (aq_q q) (\<lambda>v.
       ilike (containing v) (Some (ae_action e)) \<or> ilike (containing v) (Some (ae_event_type e)) \<or>
       ilike (containing v) (ae_resource_id e) \<or> ilike (containing v) (Some (ae_request_id e)))"

record audit_page =
  apg_items :: "security_audit_event list"
  apg_total :: nat
  apg_page :: nat
  apg_page_size :: nat

text \<open>Pages are numbered from one: the schema refuses smaller numbers.\<close>

definition audit_events_list :: "ctx \<Rightarrow> audit_query \<Rightarrow> request \<Rightarrow> (db, audit_page) action" where
  "audit_events_list cx q request =
     bind_action (require_permission cx ''audit:read'' request) (\<lambda>_ s.
       if (case (aq_date_from q, aq_date_to q) of (Some a, Some b) \<Rightarrow> b < a | _ \<Rightarrow> False)
       then (Inl (HTTPException 422 ''date_from must not be after date_to''), s)
       else
         (let found = filter (audit_selected q) (audit_events s);
              ordered = sort_key (\<lambda>e. - int (ae_sequence_number e)) found
          in (Inr \<lparr>apg_items = map audit_dict (page_of ((aq_page q - 1) * aq_page_size q) (aq_page_size q) ordered),
                   apg_total = length found, apg_page = aq_page q, apg_page_size = aq_page_size q\<rparr>, s)))"

definition audit_event :: "ctx \<Rightarrow> nat \<Rightarrow> request \<Rightarrow> (db, security_audit_event) action" where
  "audit_event cx eid request =
     bind_action (require_permission cx ''audit:read'' request) (\<lambda>_ s.
       case find (\<lambda>e. ae_id e = eid) (audit_events s) of
         None \<Rightarrow> (Inl (HTTPException 404 ''Audit event not found''), s)
       | Some e \<Rightarrow> (Inr (audit_dict e), s))"

definition audit_verify :: "ctx \<Rightarrow> request \<Rightarrow> (db, integrity_report) action" where
  "audit_verify cx request =
     bind_action (require_csrf_permission cx ''audit:verify'' request) (\<lambda>_ s. (Inr (verify_integrity cx s), s))"

record audit_overview_view =
  ao_total_events :: nat
  ao_denied_events :: nat
  ao_failed_events :: nat
  ao_latest_sequence :: nat

definition audit_overview :: "ctx \<Rightarrow> request \<Rightarrow> (db, audit_overview_view) action" where
  "audit_overview cx request =
     bind_action (require_permission cx ''audit:read'' request) (\<lambda>_ s.
       (Inr \<lparr>ao_total_events = length (audit_events s),
             ao_denied_events = count_where (\<lambda>e. ae_outcome e = ''denied'') (audit_events s),
             ao_failed_events = count_where (\<lambda>e. ae_outcome e = ''failure'') (audit_events s),
             ao_latest_sequence =
               (case latest ae_sequence_number (audit_events s) of None \<Rightarrow> 0 | Some e \<Rightarrow> ae_sequence_number e)\<rparr>, s))"

end
