(* ===== verification/Production_Secrets.thy ===== *)
theory Production_Secrets
  imports Access_Store
begin

text \<open>
  How the platform loads its secrets (\<open>modules/production/secrets.py\<close>): from the
  environment or, in production, from mounted files only. The host is a parameter: its
  environment, its file system (metadata, contents, symbolic links, read-only mounts) and
  the expansion and resolution of paths. Paths are POSIX paths.
\<close>

section \<open>The host\<close>

record file_info =
  st_mode :: int
  st_size :: int

record host =
  hs_environ :: environ
  hs_expanduser :: "string \<Rightarrow> string"
  hs_resolve :: "string \<Rightarrow> string"
  hs_is_symlink :: "string \<Rightarrow> bool"
  hs_stat :: "string \<Rightarrow> file_info option"
  hs_read_text :: "string \<Rightarrow> string option"
  hs_statvfs_rdonly :: "string \<Rightarrow> bool option"
  hs_version_file :: "string option"

text \<open>\<open>stat.S_ISREG\<close> and the bit \<open>stat.S_IWOTH\<close> of a mode.\<close>

definition s_isreg :: "int \<Rightarrow> bool" where
  "s_isreg mode = ((mode div 4096) mod 16 = 8)"

definition s_iwoth :: "int \<Rightarrow> bool" where
  "s_iwoth mode = odd (mode div 2)"

definition is_absolute :: "string \<Rightarrow> bool" where
  "is_absolute path = startswith path ''/''"

definition os_name :: string where
  "os_name = ''posix''"

definition rstrip_newlines :: "string \<Rightarrow> string" where
  "rstrip_newlines s = rev (dropWhile (\<lambda>c. c = CHR 0x0D \<or> c = CHR 0x0A) (rev s))"


section \<open>Loading\<close>

definition MAX_SECRET_BYTES :: int where
  "MAX_SECRET_BYTES = 65536"

record SecretStatus =
  ss_name :: string
  ss_configured :: bool
  ss_source :: string
  ss_permission_warning :: bool

definition read_only_mount :: "host \<Rightarrow> string \<Rightarrow> bool" where
  "read_only_mount h path = (case hs_statvfs_rdonly h path of None \<Rightarrow> False | Some b \<Rightarrow> b)"

definition read_secret_file :: "host \<Rightarrow> string \<Rightarrow> string \<Rightarrow> (string \<times> bool) result" where
  "read_secret_file h name raw_path =
     (let path = hs_expanduser h raw_path in
      if \<not> is_absolute path
      then Inl (SecretLoadError (name @ ''_FILE must reference an absolute path''))
      else if hs_is_symlink h path
      then Inl (SecretLoadError (name @ ''_FILE must not be a symbolic link''))
      else case hs_stat h path of
        None \<Rightarrow> Inl (SecretLoadError (name @ ''_FILE is unavailable''))
      | Some info \<Rightarrow>
          if \<not> s_isreg (st_mode info)
          then Inl (SecretLoadError (name @ ''_FILE must reference a regular file''))
          else if st_size info \<le> 0 then Inl (SecretLoadError (name @ ''_FILE is empty''))
          else if st_size info > MAX_SECRET_BYTES
          then Inl (SecretLoadError (name @ ''_FILE exceeds the safe size limit''))
          else case hs_read_text h path of
            None \<Rightarrow> Inl (SecretLoadError (name @ ''_FILE could not be read safely''))
          | Some text \<Rightarrow>
              (let value = rstrip_newlines text; world_writable = s_iwoth (st_mode info) in
               if value = [] then Inl (SecretLoadError (name @ ''_FILE is empty''))
               else if os_name \<noteq> ''nt'' \<and> world_writable \<and> \<not> read_only_mount h path
               then Inl (SecretLoadError (name @ ''_FILE must not be world-writable''))
               else Inr (value, world_writable)))"

definition env_present :: "string option \<Rightarrow> bool" where
  "env_present v = (case v of None \<Rightarrow> False | Some text \<Rightarrow> strip text \<noteq> [])"

definition load_secret :: "host \<Rightarrow> string \<Rightarrow> bool \<Rightarrow> bool \<Rightarrow> (string \<times> SecretStatus) result" where
  "load_secret h name production required =
     (let direct = hs_environ h name;
          file_ref = hs_environ h (name @ ''_FILE'');
          direct_present = env_present direct;
          file_present = env_present file_ref
      in if production \<and> direct_present \<and> file_present
         then Inl (SecretLoadError (name @ '' and '' @ name @ ''_FILE cannot both be set in production''))
         else if production \<and> direct_present
         then Inl (SecretLoadError (name @ '' must use '' @ name @ ''_FILE in production''))
         else if file_present
         then bind_result (read_secret_file h name (strip (the file_ref)))
           (\<lambda>(value, warning).
              Inr (value, \<lparr>ss_name = name, ss_configured = True, ss_source = ''file'',
                           ss_permission_warning = warning\<rparr>))
         else (let value = (if direct_present then strip (the direct) else []) in
               if required \<and> value = []
               then Inl (SecretLoadError (''Required secret reference '' @
                      (if production then name @ ''_FILE'' else name) @ '' is not configured''))
               else Inr (value, \<lparr>ss_name = name, ss_configured = (value \<noteq> []),
                                 ss_source = (if value \<noteq> [] then ''environment'' else ''none''),
                                 ss_permission_warning = False\<rparr>)))"

definition secret_definitions :: "bool \<Rightarrow> (string \<times> bool) list" where
  "secret_definitions production =
     [(''THREATSCOPE_SESSION_SECRET'', production),
      (''THREATSCOPE_MFA_ENCRYPTION_KEY'', production),
      (''THREATSCOPE_CONNECTOR_SECRETS_KEY'', production),
      (''THREATSCOPE_BACKUP_ENCRYPTION_KEY'', False),
      (''THREATSCOPE_PASSWORD_PEPPER'', False)]"

fun load_secrets :: "host \<Rightarrow> bool \<Rightarrow> (string \<times> bool) list \<Rightarrow>
    ((string \<times> string) list \<times> SecretStatus list) result" where
  "load_secrets h production [] = Inr ([], [])"
| "load_secrets h production ((name, required) # rest) =
     bind_result (load_secret h name production required) (\<lambda>(value, status).
       bind_result (load_secrets h production rest) (\<lambda>(secret_values, statuses).
         Inr ((name, value) # secret_values, status # statuses)))"

definition load_application_secrets ::
  "host \<Rightarrow> bool \<Rightarrow> ((string \<times> string) list \<times> SecretStatus list) result" where
  "load_application_secrets h production = load_secrets h production (secret_definitions production)"


section \<open>What a loaded secret satisfies\<close>

text \<open>A file the loader accepts a secret from.\<close>

definition safe_secret_file :: "host \<Rightarrow> string \<Rightarrow> bool" where
  "safe_secret_file h path \<longleftrightarrow>
     is_absolute path \<and> \<not> hs_is_symlink h path \<and>
     (\<exists>info. hs_stat h path = Some info \<and> s_isreg (st_mode info) \<and>
             0 < st_size info \<and> st_size info \<le> MAX_SECRET_BYTES \<and>
             (s_iwoth (st_mode info) \<longrightarrow> hs_statvfs_rdonly h path = Some True))"

lemma read_secret_file_InrD:
  "read_secret_file h name raw = Inr (v, w) \<Longrightarrow>
     v \<noteq> [] \<and> safe_secret_file h (hs_expanduser h raw) \<and>
     (\<exists>text. hs_read_text h (hs_expanduser h raw) = Some text \<and> v = rstrip_newlines text)"
  by (auto simp: read_secret_file_def safe_secret_file_def read_only_mount_def Let_def os_name_def
      split: if_splits option.splits)

lemma read_secret_file_InlD:
  "read_secret_file h name raw = Inl e \<Longrightarrow> \<exists>m. e = SecretLoadError m"
  by (auto simp: read_secret_file_def Let_def split: if_splits option.splits)

lemma load_secret_InlD:
  "load_secret h name production required = Inl e \<Longrightarrow> \<exists>m. e = SecretLoadError m"
  by (auto simp: load_secret_def Let_def bind_result_def dest: read_secret_file_InlD
      split: if_splits sum.splits)

lemma load_secret_status:
  "load_secret h name production required = Inr (v, st) \<Longrightarrow>
     ss_name st = name \<and> ss_configured st = (v \<noteq> []) \<and> (required \<longrightarrow> v \<noteq> [])"
  by (auto simp: load_secret_def Let_def bind_result_def dest: read_secret_file_InrD
      split: if_splits sum.splits)

lemma load_secret_production:
  "load_secret h name True required = Inr (v, st) \<Longrightarrow>
     \<not> env_present (hs_environ h name) \<and>
     (v \<noteq> [] \<longrightarrow> ss_source st = ''file'' \<and>
        (\<exists>ref content. hs_environ h (name @ ''_FILE'') = Some ref \<and>
               safe_secret_file h (hs_expanduser h (strip ref)) \<and>
               hs_read_text h (hs_expanduser h (strip ref)) = Some content \<and> v = rstrip_newlines content))"
  by (auto simp: load_secret_def Let_def bind_result_def env_present_def
      dest: read_secret_file_InrD split: if_splits sum.splits option.splits)

lemma load_secrets_InrD:
  "load_secrets h production defs = Inr (vs, sts) \<Longrightarrow>
     map fst vs = map fst defs \<and> map ss_name sts = map fst defs \<and>
     list_all2 (\<lambda>(name, required) ((name', v), st).
        name' = name \<and> load_secret h name production required = Inr (v, st)) defs (zip vs sts)"
proof (induction defs arbitrary: vs sts)
  case (Cons d defs)
  obtain name required where d: "d = (name, required)" by (cases d)
  from Cons.prems obtain v st vs' sts' where
    one: "load_secret h name production required = Inr (v, st)" and
    rest: "load_secrets h production defs = Inr (vs', sts')" and
    eq: "vs = (name, v) # vs'" "sts = st # sts'"
    by (auto simp: d bind_result_Inr_iff)
  show ?case using Cons.IH [OF rest] one eq load_secret_status [OF one] by (simp add: d)
qed simp

lemma load_secrets_InlD:
  "load_secrets h production defs = Inl e \<Longrightarrow> \<exists>m. e = SecretLoadError m"
  by (induction defs) (auto simp: bind_result_def dest: load_secret_InlD split: sum.splits)

lemma load_application_secrets_InrD:
  assumes "load_application_secrets h production = Inr (vs, sts)"
    and "(name, required) \<in> set (secret_definitions production)"
  shows "\<exists>v st. map_of vs name = Some v \<and> st \<in> set sts \<and>
           load_secret h name production required = Inr (v, st)"
proof -
  have *: "list_all2 (\<lambda>(name, required) ((name', v), st).
        name' = name \<and> load_secret h name production required = Inr (v, st))
        (secret_definitions production) (zip vs sts)"
    and names: "map fst vs = map fst (secret_definitions production)"
    and len: "map ss_name sts = map fst (secret_definitions production)"
    using load_secrets_InrD assms(1) unfolding load_application_secrets_def by auto
  from assms(2) obtain i where i: "i < length (secret_definitions production)"
    "secret_definitions production ! i = (name, required)" by (auto simp: in_set_conv_nth)
  obtain v st where z: "zip vs sts ! i = ((name, v), st)"
    "load_secret h name production required = Inr (v, st)"
    using list_all2_nthD [OF * i(1)] i(2) by (auto split: prod.splits)
  have l: "length vs = length (secret_definitions production)" "length sts = length vs"
    using names len by (metis length_map)+
  with i z have "(name, v) \<in> set vs" "st \<in> set sts"
    by (auto simp: in_set_conv_nth intro!: exI [of _ i])
  moreover have "distinct (map fst vs)" unfolding names by (simp add: secret_definitions_def)
  ultimately show ?thesis using z by auto
qed

text \<open>C31. Production secrets: whenever the secrets of a production process load, the
session, MFA and connector secrets are present; none of the five secrets is set directly in
the environment; and every secret that is present is the content of the file its
\<open>_FILE\<close> variable names, without the newlines at its end, and that file is an absolute, non-symbolic,
regular file of 1 to 65536 bytes that is not world-writable unless its mount is read-only.\<close>

theorem production_secrets_from_safe_files:
  assumes "load_application_secrets h True = Inr (vs, sts)"
    and "(name, required) \<in> set (secret_definitions True)"
  shows "\<exists>v. map_of vs name = Some v \<and> (required \<longrightarrow> v \<noteq> []) \<and>
           \<not> env_present (hs_environ h name) \<and>
           (v \<noteq> [] \<longrightarrow> (\<exists>ref content. hs_environ h (name @ ''_FILE'') = Some ref \<and>
               safe_secret_file h (hs_expanduser h (strip ref)) \<and>
               hs_read_text h (hs_expanduser h (strip ref)) = Some content \<and> v = rstrip_newlines content))"
  using load_application_secrets_InrD [OF assms]
  by (blast dest: load_secret_production load_secret_status)

definition demo_host :: host where
  "demo_host =
     \<lparr>hs_environ = map_of
        [(''THREATSCOPE_PROFILE'', ''production''),
         (''THREATSCOPE_SESSION_SECRET_FILE'', ''/run/s''),
         (''THREATSCOPE_MFA_ENCRYPTION_KEY_FILE'', ''/run/m''),
         (''THREATSCOPE_CONNECTOR_SECRETS_KEY_FILE'', ''/run/c''),
         (''THREATSCOPE_ALLOWED_HOSTS'', ''xdr.example''),
         (''THREATSCOPE_ALLOWED_ORIGINS'', ''https://xdr.example''),
         (''THREATSCOPE_TRUSTED_PROXY_NETWORKS'', ''10.0.0.0/8''),
         (''DATABASE_URL'', ''sqlite:////data/x.db''),
         (''THREATSCOPE_BUILD_COMMIT'', ''abc123'')],
      hs_expanduser = (\<lambda>p. p), hs_resolve = (\<lambda>p. p), hs_is_symlink = (\<lambda>p. False),
      hs_stat = (\<lambda>p. Some \<lparr>st_mode = 33024, st_size = 44\<rparr>),
      hs_read_text = (\<lambda>p. Some (''abcdefghijklmnopqrstuvwxyz0123456789'' @ p)),
      hs_statvfs_rdonly = (\<lambda>p. Some False), hs_version_file = Some ''1.4.0''\<rparr>"

theorem production_secrets_from_safe_files_witness:
  "\<exists>vs sts v. load_application_secrets demo_host True = Inr (vs, sts) \<and>
     map_of vs ''THREATSCOPE_SESSION_SECRET'' = Some v \<and> v = ''abcdefghijklmnopqrstuvwxyz0123456789/run/s'' \<and>
     \<not> env_present (hs_environ demo_host ''THREATSCOPE_SESSION_SECRET'')"
proof -
  have "isl (load_application_secrets demo_host True) = False" by code_simp
  then obtain vs sts where l: "load_application_secrets demo_host True = Inr (vs, sts)"
    by (cases "load_application_secrets demo_host True") auto
  have e: "hs_environ demo_host ''THREATSCOPE_SESSION_SECRET_FILE'' = Some ''/run/s''"
    "hs_expanduser demo_host (strip ''/run/s'') = ''/run/s''"
    "map_option rstrip_newlines (hs_read_text demo_host ''/run/s'') = Some ''abcdefghijklmnopqrstuvwxyz0123456789/run/s''"
    by code_simp+
  have "(''THREATSCOPE_SESSION_SECRET'', True) \<in> set (secret_definitions True)" by (simp add: secret_definitions_def)
  from production_secrets_from_safe_files [OF l this] e l show ?thesis by auto
qed

end
