(* ===== verification/Net_Address.thy ===== *)
theory Net_Address
  imports Prelude
begin

text \<open>
  The standard-library text formats the platform validates: addresses and networks as
  \<open>ipaddress.ip_address\<close> and \<open>ipaddress.ip_network(_, strict=False)\<close> accept them, and the
  parts of an address that \<open>urllib.parse.urlsplit\<close> returns (Python 3.11). All of it is on
  ASCII text.
\<close>

section \<open>Partition of text\<close>

text \<open>\<open>s.partition(d)\<close>: the text lead the separator, and what follows it if it occurs.\<close>

fun partition_at :: "char \<Rightarrow> string \<Rightarrow> string \<times> string option" where
  "partition_at d [] = ([], None)"
| "partition_at d (c # cs) =
     (if c = d then ([], Some cs)
      else (case partition_at d cs of (a, b) \<Rightarrow> (c # a, b)))"

text \<open>\<open>s.rpartition(d)\<close>: what precedes the last separator, if it occurs, and the rest.\<close>

definition rpartition_at :: "char \<Rightarrow> string \<Rightarrow> string option \<times> string" where
  "rpartition_at d s =
     (case partition_at d (rev s) of (a, b) \<Rightarrow> (map_option rev b, rev a))"

lemma partition_at_None: "partition_at d s = (a, None) \<Longrightarrow> a = s \<and> d \<notin> set s"
  by (induction s arbitrary: a) (auto split: if_splits prod.splits)

lemma partition_at_Some: "partition_at d s = (a, Some b) \<Longrightarrow> s = a @ d # b \<and> d \<notin> set a"
  by (induction s arbitrary: a b) (auto split: if_splits prod.splits)


section \<open>Addresses and networks\<close>

definition all_digits :: "string \<Rightarrow> bool" where
  "all_digits s \<longleftrightarrow> s \<noteq> [] \<and> list_all is_digit s"

definition decimal :: "string \<Rightarrow> int" where
  "decimal s = foldl (\<lambda>n c. n * 10 + int (of_char c - 48)) 0 s"

definition octet :: "string \<Rightarrow> int option" where
  "octet s = (if all_digits s \<and> length s \<le> 3 \<and> (s = ''0'' \<or> hd s \<noteq> CHR ''0'') \<and> decimal s \<le> 255
              then Some (decimal s) else None)"

definition ipv4_int :: "string \<Rightarrow> int option" where
  "ipv4_int s =
     (case map octet (split_on CHR ''.'' s) of
        [Some a, Some b, Some c, Some d] \<Rightarrow> Some (((a * 256 + b) * 256 + c) * 256 + d)
      | _ \<Rightarrow> None)"

text \<open>The number is a run of ones followed by a run of zeros, 32 bits in all.\<close>

definition netmask_int :: "int \<Rightarrow> bool" where
  "netmask_int n = list_ex (\<lambda>p. n = (2 ^ p - 1) * 2 ^ (32 - p)) [0..<33]"

definition prefix_length :: "int \<Rightarrow> string \<Rightarrow> bool" where
  "prefix_length bound s \<longleftrightarrow> all_digits s \<and> decimal s \<le> bound"

definition ipv4_mask :: "string \<Rightarrow> bool" where
  "ipv4_mask s \<longleftrightarrow>
     prefix_length 32 s \<or>
     (case ipv4_int s of
        None \<Rightarrow> False
      | Some n \<Rightarrow> netmask_int n \<or> netmask_int (2 ^ 32 - 1 - n))"

definition is_hex :: "char \<Rightarrow> bool" where
  "is_hex c \<longleftrightarrow> is_digit c \<or> lower_char c \<in> set ''abcdef''"

definition hextet :: "string \<Rightarrow> bool" where
  "hextet s \<longleftrightarrow> s \<noteq> [] \<and> list_all is_hex s \<and> length s \<le> 4"

fun hex_text :: "int \<Rightarrow> nat \<Rightarrow> string" where
  "hex_text n 0 = []"
| "hex_text n (Suc k) =
     (if n < 16 then [''0123456789abcdef'' ! nat n]
      else hex_text (n div 16) k @ [''0123456789abcdef'' ! nat (n mod 16)])"

text \<open>\<open>'%x' % value\<close> of a sixteen-bit number.\<close>

definition hextet_text :: "int \<Rightarrow> string" where
  "hextet_text n = hex_text n 4"

text \<open>A dotted last part stands for two groups of sixteen bits.\<close>

definition ipv6_parts :: "string \<Rightarrow> string list option" where
  "ipv6_parts s =
     (let parts = split_on CHR '':'' s in
      if length parts < 3 then None
      else if CHR ''.'' \<in> set (last parts)
      then (case ipv4_int (last parts) of
              None \<Rightarrow> None
            | Some n \<Rightarrow> Some (butlast parts @ [hextet_text (n div 65536), hextet_text (n mod 65536)]))
      else Some parts)"

definition inner_empty :: "string list \<Rightarrow> nat list" where
  "inner_empty parts = filter (\<lambda>i. parts ! i = []) [1..<length parts - 1]"

definition ipv6_groups :: "string list \<Rightarrow> bool" where
  "ipv6_groups parts =
     (if length parts > 9 then False
      else case inner_empty parts of
        [] \<Rightarrow> length parts = 8 \<and> list_all hextet parts
      | [i] \<Rightarrow>
          (let hi = take i parts; lo = drop (i + 1) parts in
           (hi = [[]] \<or> hd hi \<noteq> [] \<and> list_all hextet hi) \<and>
           (lo = [[]] \<or> last lo \<noteq> [] \<and> list_all hextet lo) \<and>
           length (filter (\<lambda>p. p \<noteq> []) hi) + length (filter (\<lambda>p. p \<noteq> []) lo) < 8)
      | _ \<Rightarrow> False)"

definition ipv6_text :: "string \<Rightarrow> bool" where
  "ipv6_text s =
     (case partition_at CHR ''%'' s of
        (a, None) \<Rightarrow> (case ipv6_parts a of None \<Rightarrow> False | Some parts \<Rightarrow> ipv6_groups parts)
      | (a, Some scope) \<Rightarrow>
          scope \<noteq> [] \<and> CHR ''%'' \<notin> set scope \<and>
          (case ipv6_parts a of None \<Rightarrow> False | Some parts \<Rightarrow> ipv6_groups parts))"

definition is_ipv4 :: "string \<Rightarrow> bool" where
  "is_ipv4 s \<longleftrightarrow> ipv4_int s \<noteq> None"

definition is_ipv6 :: "string \<Rightarrow> bool" where
  "is_ipv6 s \<longleftrightarrow> CHR ''/'' \<notin> set s \<and> ipv6_text s"

definition ip_address :: "string \<Rightarrow> bool" where
  "ip_address s \<longleftrightarrow> is_ipv4 s \<or> is_ipv6 s"

definition ip_network :: "string \<Rightarrow> bool" where
  "ip_network s =
     (case split_on CHR ''/'' s of
        [a] \<Rightarrow> is_ipv4 a \<or> is_ipv6 a
      | [a, m] \<Rightarrow> is_ipv4 a \<and> ipv4_mask m \<or> is_ipv6 a \<and> prefix_length 128 m
      | _ \<Rightarrow> False)"

text \<open>
  \<open>str(ipaddress.ip_address(text))\<close>: an IPv4 address is its own text; an IPv6 address is printed in
  lower case without leading zeros, its longest run of at least two zero groups compressed.
\<close>

definition hex_digit_value :: "char \<Rightarrow> int" where
  "hex_digit_value c = (let n = int (of_char (lower_char c)) in if n < 58 then n - 48 else n - 87)"

definition hextet_value :: "string \<Rightarrow> int" where
  "hextet_value s = foldl (\<lambda>n c. n * 16 + hex_digit_value c) 0 s"

definition ipv6_values :: "string list \<Rightarrow> int list" where
  "ipv6_values parts =
     (case inner_empty parts of
        [] \<Rightarrow> map hextet_value parts
      | i # _ \<Rightarrow>
          (let hi = map hextet_value (filter (\<lambda>p. p \<noteq> []) (take i parts));
               lo = map hextet_value (filter (\<lambda>p. p \<noteq> []) (drop (i + 1) parts))
           in hi @ replicate (8 - (length hi + length lo)) 0 @ lo))"

definition zero_run :: "string list \<Rightarrow> nat \<Rightarrow> nat" where
  "zero_run groups i = length (takeWhile (\<lambda>g. g = ''0'') (drop i groups))"

definition longest_run :: "string list \<Rightarrow> nat" where
  "longest_run groups =
     foldl (\<lambda>best i. if zero_run groups best < zero_run groups i then i else best) 0 [0..<length groups]"

definition compressed :: "string list \<Rightarrow> string" where
  "compressed groups =
     (let i = longest_run groups; n = zero_run groups i in
      if n < 2 then join '':'' groups
      else join '':'' (take i groups) @ ''::'' @ join '':'' (drop (i + n) groups))"

definition ip_address_text :: "string \<Rightarrow> string option" where
  "ip_address_text s =
     (if is_ipv4 s then Some s
      else if is_ipv6 s then
        (case partition_at CHR ''%'' s of
           (a, scope) \<Rightarrow>
             Some (compressed (map hextet_text (ipv6_values (the (ipv6_parts a)))) @
                   (case scope of None \<Rightarrow> [] | Some z \<Rightarrow> CHR ''%'' # z)))
      else None)"

lemma ip_address_text_iff: "ip_address_text s \<noteq> None \<longleftrightarrow> ip_address s"
  by (auto simp: ip_address_text_def ip_address_def split: prod.splits)

lemma octet_bound: "octet s = Some n \<Longrightarrow> n \<le> 255"
  by (auto simp: octet_def split: if_splits)

lemma ipv4_int_bound: "ipv4_int s = Some n \<Longrightarrow> n < 2 ^ 32"
  by (auto simp: ipv4_int_def split: list.splits option.splits dest!: octet_bound)

lemma ip_address_not_empty: "ip_address s \<Longrightarrow> s \<noteq> []"
  by (auto simp: ip_address_def is_ipv4_def is_ipv6_def ipv4_int_def ipv6_text_def ipv6_parts_def
      octet_def all_digits_def)


section \<open>The parts of an address\<close>

record split_url =
  us_scheme :: string
  us_netloc :: string
  us_query :: string
  us_fragment :: string

definition scheme_char :: "char \<Rightarrow> bool" where
  "scheme_char c \<longleftrightarrow> is_alnum c \<or> c \<in> set ''+-.''"

definition unsafe_url_char :: "char \<Rightarrow> bool" where
  "unsafe_url_char c \<longleftrightarrow> c = CHR 0x09 \<or> c = CHR 0x0D \<or> c = CHR 0x0A"

definition control_or_space :: "char \<Rightarrow> bool" where
  "control_or_space c \<longleftrightarrow> (of_char c :: nat) \<le> 32"

definition split_scheme :: "string \<Rightarrow> string \<times> string" where
  "split_scheme url =
     (case partition_at CHR '':'' url of
        (a, Some b) \<Rightarrow>
          if a \<noteq> [] \<and> (is_upper (hd a) \<or> is_lower (hd a)) \<and> list_all scheme_char a
          then (casefold a, b) else ([], url)
      | (_, None) \<Rightarrow> ([], url))"

definition netloc_char :: "char \<Rightarrow> bool" where
  "netloc_char c \<longleftrightarrow> c \<notin> set ''/?#''"

definition split_netloc :: "string \<Rightarrow> string \<times> string" where
  "split_netloc rest =
     (if prefix ''//'' rest
      then (takeWhile netloc_char (drop 2 rest), dropWhile netloc_char (drop 2 rest))
      else ([], rest))"

definition host_text :: "string \<Rightarrow> string" where
  "host_text netloc =
     (let hostinfo = snd (rpartition_at CHR ''@'' netloc) in
      case partition_at CHR ''['' hostinfo of
        (_, Some bracketed) \<Rightarrow> fst (partition_at CHR '']'' bracketed)
      | (_, None) \<Rightarrow> fst (partition_at CHR '':'' hostinfo))"

definition ip_future :: "string \<Rightarrow> bool" where
  "ip_future s =
     (case partition_at CHR ''.'' (drop 1 s) of
        (a, Some b) \<Rightarrow> a \<noteq> [] \<and> list_all is_hex a \<and> b \<noteq> []
      | _ \<Rightarrow> False)"

definition bracketed_host_error :: "string \<Rightarrow> string option" where
  "bracketed_host_error host =
     (if prefix ''v'' host
      then (if ip_future host then None else Some ''IPvFuture address is invalid'')
      else if is_ipv4 host then Some ''An IPv4 address cannot be in brackets''
      else if is_ipv6 host then None
      else Some (CHR 0x27 # host @ CHR 0x27 # '' does not appear to be an IPv4 or IPv6 address''))"

definition bracketed_netloc_error :: "string \<Rightarrow> string option" where
  "bracketed_netloc_error netloc =
     (let hostinfo = snd (rpartition_at CHR ''@'' netloc) in
      case partition_at CHR ''['' hostinfo of
        (lead, Some bracketed) \<Rightarrow>
          (let port = (case snd (partition_at CHR '']'' bracketed) of None \<Rightarrow> [] | Some p \<Rightarrow> p) in
           if lead \<noteq> [] \<or> port \<noteq> [] \<and> \<not> prefix '':'' port then Some ''Invalid IPv6 URL''
           else bracketed_host_error (host_text netloc))
      | (_, None) \<Rightarrow> bracketed_host_error (host_text netloc))"

definition netloc_error :: "string \<Rightarrow> string option" where
  "netloc_error netloc =
     (let opened = CHR ''['' \<in> set netloc; closed = CHR '']'' \<in> set netloc in
      if opened \<noteq> closed then Some ''Invalid IPv6 URL''
      else if opened then bracketed_netloc_error netloc
      else None)"

definition urlsplit :: "string \<Rightarrow> split_url result" where
  "urlsplit text =
     (let url = filter (\<lambda>c. \<not> unsafe_url_char c) (dropWhile control_or_space text);
          (scheme, rest) = split_scheme url;
          (netloc, tail) = split_netloc rest;
          (lead, fragment) = partition_at CHR ''#'' tail;
          (path, query) = partition_at CHR ''?'' lead
      in case netloc_error netloc of
           Some message \<Rightarrow> Inl (ValueError message)
         | None \<Rightarrow> Inr \<lparr>us_scheme = scheme, us_netloc = netloc,
                         us_query = (case query of None \<Rightarrow> [] | Some q \<Rightarrow> q),
                         us_fragment = (case fragment of None \<Rightarrow> [] | Some f \<Rightarrow> f)\<rparr>)"

definition url_username :: "split_url \<Rightarrow> string option" where
  "url_username u = map_option (\<lambda>info. fst (partition_at CHR '':'' info))
     (fst (rpartition_at CHR ''@'' (us_netloc u)))"

definition url_password :: "split_url \<Rightarrow> string option" where
  "url_password u = (case fst (rpartition_at CHR ''@'' (us_netloc u)) of
     None \<Rightarrow> None | Some info \<Rightarrow> snd (partition_at CHR '':'' info))"

text \<open>The host in lower case, a zone identifier excepted; \<open>None\<close> for an empty host.\<close>

definition url_hostname :: "split_url \<Rightarrow> string option" where
  "url_hostname u =
     (case partition_at CHR ''%'' (host_text (us_netloc u)) of
        (a, zone) \<Rightarrow>
          if host_text (us_netloc u) = [] then None
          else Some (casefold a @ (case zone of None \<Rightarrow> [] | Some z \<Rightarrow> CHR ''%'' # z)))"

end
