(* ===== verification/Production_Config.thy ===== *)
theory Production_Config
  imports Production_Secrets Net_Address Py_Values Access_Fixtures
begin

text \<open>
  The runtime configuration (\<open>modules/production/config.py\<close>), the version information it
  falls back on (\<open>version.py\<close>) and the response headers that depend on it
  (\<open>modules/production/headers.py\<close>). \<open>get_runtime_config\<close> reads every setting from the
  environment of the host, in the order of the source, so that the first invalid setting is
  the one reported; a production profile is accepted only when \<open>validate_production\<close> finds
  nothing unsafe. The structural check of a Fernet key is the field \<open>fernet_key_valid\<close> of the
  outside functions.
\<close>

section \<open>Reading settings\<close>

datatype RuntimeProfile = DEVELOPMENT | TEST | PRODUCTION

fun profile_value :: "RuntimeProfile \<Rightarrow> string" where
  "profile_value DEVELOPMENT = ''development''"
| "profile_value TEST = ''test''"
| "profile_value PRODUCTION = ''production''"

definition profile_of :: "string \<Rightarrow> RuntimeProfile option" where
  "profile_of s = find (\<lambda>p. profile_value p = s) [DEVELOPMENT, TEST, PRODUCTION]"

definition raw_setting :: "environ \<Rightarrow> string \<Rightarrow> string \<Rightarrow> string" where
  "raw_setting env name dflt = strip (case env name of None \<Rightarrow> dflt | Some v \<Rightarrow> v)"

definition bool_setting :: "environ \<Rightarrow> string \<Rightarrow> bool \<Rightarrow> bool result" where
  "bool_setting env name dflt =
     (case env name of
        None \<Rightarrow> Inr dflt
      | Some value \<Rightarrow>
          if strip value = [] then Inr dflt
          else if casefold (strip value) \<in> {''1'', ''true'', ''yes'', ''on''} then Inr True
          else if casefold (strip value) \<in> {''0'', ''false'', ''no'', ''off''} then Inr False
          else Inl (ConfigurationError (name @ '' must be an explicit boolean'')))"

definition integer_setting :: "environ \<Rightarrow> string \<Rightarrow> int \<Rightarrow> int \<Rightarrow> int \<Rightarrow> int result" where
  "integer_setting env name dflt minimum maximum =
     (case py_int (raw_setting env name (str_int dflt)) of
        None \<Rightarrow> Inl (ConfigurationError (name @ '' must be an integer''))
      | Some value \<Rightarrow>
          if value < minimum \<or> value > maximum
          then Inl (ConfigurationError (name @ '' must be between '' @ str_int minimum @ '' and '' @
                      str_int maximum))
          else Inr value)"

text \<open>\<open>dict.fromkeys\<close>: the first occurrence of every element, in order.\<close>

fun fromkeys :: "'a list \<Rightarrow> 'a list" where
  "fromkeys [] = []"
| "fromkeys (x # xs) = x # filter (\<lambda>y. y \<noteq> x) (fromkeys xs)"

definition items_setting :: "environ \<Rightarrow> string \<Rightarrow> string \<Rightarrow> string list" where
  "items_setting env name dflt =
     fromkeys (filter (\<lambda>item. item \<noteq> []) (map strip (split_on CHR '','' (raw_setting env name dflt))))"

definition directory_setting :: "host \<Rightarrow> string \<Rightarrow> string \<Rightarrow> string" where
  "directory_setting h name dflt =
     hs_resolve h (hs_expanduser h (raw_setting (hs_environ h) name dflt))"

text \<open>\<open>directory / name\<close> for a resolved directory.\<close>

definition path_join :: "string \<Rightarrow> string \<Rightarrow> string" where
  "path_join directory name =
     (if endswith directory ''/'' then directory @ name else directory @ ''/'' @ name)"

lemma bind_result_InrE:
  assumes "bind_result r f = Inr y"
  obtains x where "r = Inr x" and "f x = Inr y"
  using assms by (auto simp: bind_result_Inr_iff)

lemma set_fromkeys [simp]: "set (fromkeys xs) = set xs"
  by (induction xs) auto

lemma distinct_fromkeys [simp]: "distinct (fromkeys xs)"
  by (induction xs) auto

lemma fromkeys_Nil_iff [simp]: "fromkeys xs = [] \<longleftrightarrow> xs = []"
  by (cases xs) auto

lemma integer_setting_bounds:
  "integer_setting env name dflt lo hi = Inr v \<Longrightarrow> lo \<le> v \<and> v \<le> hi"
  by (auto simp: integer_setting_def split: option.splits if_splits)

lemma profile_value_inj: "profile_value p = profile_value q \<longleftrightarrow> p = q"
  by (cases p; cases q) auto

lemma profile_of_value [simp]: "profile_of (profile_value p) = Some p"
  by (cases p) (auto simp: profile_of_def)

lemma profile_of_SomeD: "profile_of s = Some p \<Longrightarrow> profile_value p = s"
  by (auto simp: profile_of_def split: if_splits)


section \<open>Version information\<close>

definition SCHEMA_IDENTIFIER :: string where
  "SCHEMA_IDENTIFIER = ''threatscope-schema-v19''"

record version_record =
  vi_application_name :: string
  vi_version :: string
  vi_commit_hash :: string
  vi_build_timestamp :: string
  vi_schema_identifier :: string
  vi_frontend_version :: string
  vi_export_manifest_version :: string
  vi_backup_manifest_version :: string

definition getenv :: "environ \<Rightarrow> string \<Rightarrow> string \<Rightarrow> string" where
  "getenv env name dflt = (case env name of None \<Rightarrow> dflt | Some v \<Rightarrow> v)"

definition version_info :: "host \<Rightarrow> version_record" where
  "version_info h =
     (let file_version = (case hs_version_file h of None \<Rightarrow> ''1.0.0'' | Some text \<Rightarrow> strip text);
          env = hs_environ h
      in \<lparr>vi_application_name = ''ThreatScope XDR'',
          vi_version = take 40 (getenv env ''THREATSCOPE_APP_VERSION'' file_version),
          vi_commit_hash = take 64 (getenv env ''THREATSCOPE_BUILD_COMMIT'' ''development''),
          vi_build_timestamp = take 64 (getenv env ''THREATSCOPE_BUILD_TIMESTAMP'' ''local-development''),
          vi_schema_identifier = SCHEMA_IDENTIFIER,
          vi_frontend_version = ''1.0.0'',
          vi_export_manifest_version = ''1'',
          vi_backup_manifest_version = ''1''\<rparr>)"


section \<open>The configuration\<close>

record RuntimeConfig =
  rc_profile :: RuntimeProfile
  rc_debug :: bool
  rc_reload :: bool
  rc_allowed_hosts :: "string list"
  rc_allowed_origins :: "string list"
  rc_trusted_proxy_networks :: "string list"
  rc_cookie_secure :: bool
  rc_cookie_samesite :: string
  rc_session_hours :: int
  rc_idle_minutes :: int
  rc_csrf_enabled :: bool
  rc_database_url :: string
  rc_data_dir :: string
  rc_upload_dir :: string
  rc_backup_dir :: string
  rc_report_dir :: string
  rc_runtime_dir :: string
  rc_export_dir :: string
  rc_release_dir :: string
  rc_log_level :: string
  rc_json_logging :: bool
  rc_max_request_bytes :: int
  rc_max_upload_bytes :: int
  rc_request_timeout_seconds :: int
  rc_graceful_shutdown_seconds :: int
  rc_worker_count :: int
  rc_public_registration :: bool
  rc_registration_acknowledged :: bool
  rc_demo_seed :: bool
  rc_api_docs :: bool
  rc_connector_egress_enabled :: bool
  rc_tls_proxy_expected :: bool
  rc_schema_identifier :: string
  rc_application_version :: string
  rc_source_revision :: string
  rc_build_timestamp :: string
  rc_frontend_build_id :: string
  rc_backend_build_id :: string
  rc_minimum_free_bytes :: int
  rc_tls_certificate_file :: string
  rc_tls_private_key_file :: string
  rc_secrets :: "(string \<times> string) list"
  rc_secret_statuses :: "SecretStatus list"

definition production :: "RuntimeConfig \<Rightarrow> bool" where
  "production config = (rc_profile config = PRODUCTION)"

definition public_summary :: "RuntimeConfig \<Rightarrow> (string \<times> pyvalue) list" where
  "public_summary config =
     [(''profile'', PStr (profile_value (rc_profile config))),
      (''application_version'', PStr (rc_application_version config)),
      (''schema_identifier'', PStr (rc_schema_identifier config)),
      (''source_revision'', PStr (rc_source_revision config)),
      (''tls_proxy_expected'', PBool (rc_tls_proxy_expected config)),
      (''connector_egress_enabled'', PBool (rc_connector_egress_enabled config)),
      (''public_registration_enabled'', PBool (rc_public_registration config)),
      (''api_documentation_enabled'', PBool (rc_api_docs config)),
      (''worker_count'', PInt (rc_worker_count config)),
      (''secret_loader'', PList (map (\<lambda>item.
          PDict [(''name'', PStr (ss_name item)), (''configured'', PBool (ss_configured item)),
                 (''source'', PStr (ss_source item))]) (rc_secret_statuses config)))]"

text \<open>The secrets never reach the public summary.\<close>

lemma public_summary_no_secrets:
  "public_summary (config\<lparr>rc_secrets := vs\<rparr>) = public_summary config"
  by (simp add: public_summary_def)


section \<open>Validation of a production configuration\<close>

text \<open>\<open>if condition: errors.append(message)\<close>.\<close>

definition complain :: "bool \<Rightarrow> string \<Rightarrow> string list" where
  "complain condition message = (if condition then [message] else [])"

definition switch_errors :: "string \<Rightarrow> RuntimeConfig \<Rightarrow> string list" where
  "switch_errors mode config =
     complain (mode \<notin> {''disabled'', ''approval_required'', ''auto_activate_limited''})
       ''THREATSCOPE_REGISTRATION_MODE is unsupported'' @
     complain (rc_debug config) ''THREATSCOPE_DEBUG must be disabled'' @
     complain (rc_reload config) ''THREATSCOPE_RELOAD must be disabled'' @
     complain (rc_api_docs config) ''THREATSCOPE_API_DOCS must be disabled'' @
     complain (\<not> rc_cookie_secure config) ''THREATSCOPE_COOKIE_SECURE must be enabled'' @
     complain (rc_cookie_samesite config \<notin> {''lax'', ''strict''})
       ''THREATSCOPE_COOKIE_SAMESITE must be lax or strict'' @
     complain (\<not> rc_csrf_enabled config) ''THREATSCOPE_CSRF_ENABLED must be enabled'' @
     complain (rc_allowed_hosts config = [] \<or>
               list_ex (\<lambda>host. host = ''*'' \<or> py_in ''*'' host) (rc_allowed_hosts config))
       ''THREATSCOPE_ALLOWED_HOSTS must contain exact hosts'' @
     complain (rc_allowed_origins config = [] \<or>
               list_ex (\<lambda>origin. origin = ''*'') (rc_allowed_origins config))
       ''THREATSCOPE_ALLOWED_ORIGINS must contain exact origins''"

definition origin_errors :: "bool \<Rightarrow> string \<Rightarrow> string list result" where
  "origin_errors smoke origin =
     bind_result (urlsplit origin) (\<lambda>parsed. Inr (
       complain (truthy (url_username parsed) \<or> truthy (url_password parsed) \<or>
                 us_query parsed \<noteq> [] \<or> us_fragment parsed \<noteq> [])
         ''Production origins must not contain userinfo, query, or fragment'' @
       complain (us_scheme parsed \<noteq> ''https'' \<and>
                 \<not> (smoke \<and> us_scheme parsed = ''http'' \<and>
                    url_hostname parsed \<in> {Some ''localhost'', Some ''127.0.0.1''}))
         ''Production origins must use HTTPS'' @
       complain (\<not> truthy (url_hostname parsed)) ''Production origins must be absolute''))"

fun origins_errors :: "bool \<Rightarrow> string list \<Rightarrow> string list result" where
  "origins_errors smoke [] = Inr []"
| "origins_errors smoke (origin # rest) =
     bind_result (origin_errors smoke origin) (\<lambda>here.
       bind_result (origins_errors smoke rest) (\<lambda>later. Inr (here @ later)))"

definition network_errors :: "string list \<Rightarrow> string list" where
  "network_errors networks =
     complain (networks = []) ''THREATSCOPE_TRUSTED_PROXY_NETWORKS is required'' @
     concat (map (\<lambda>network. complain (\<not> ip_network network)
       ''THREATSCOPE_TRUSTED_PROXY_NETWORKS contains an invalid network'') networks)"

definition deployment_errors :: "environ \<Rightarrow> string \<Rightarrow> RuntimeConfig \<Rightarrow> string list" where
  "deployment_errors env mode config =
     complain (\<not> rc_tls_proxy_expected config) ''THREATSCOPE_TLS_PROXY_EXPECTED must be enabled'' @
     complain (\<not> startswith (rc_database_url config) ''sqlite:////'')
       ''Production SQLite DATABASE_URL must use an absolute persistent path'' @
     complain (rc_worker_count config \<noteq> 1) ''SQLite production mode requires exactly one worker'' @
     complain (rc_demo_seed config) ''THREATSCOPE_DEMO_MODE must be disabled'' @
     complain (raw_setting env ''THREATSCOPE_BOOTSTRAP_ADMIN_USERNAME'' [] \<noteq> [] \<or>
               raw_setting env ''THREATSCOPE_BOOTSTRAP_ADMIN_PASSWORD'' [] \<noteq> [])
       ''Environment password bootstrap is disabled in production'' @
     complain (rc_public_registration config \<and> \<not> rc_registration_acknowledged config)
       ''Public registration requires explicit production acknowledgement'' @
     complain (mode = ''disabled'' \<and> rc_public_registration config)
       ''Disabled registration mode cannot enable public registration'' @
     complain (rc_schema_identifier config \<noteq> SCHEMA_IDENTIFIER)
       ''Configured schema identifier is unsupported'' @
     complain (rc_source_revision config \<in> {'''', ''development'', ''unknown''})
       ''THREATSCOPE_BUILD_COMMIT is required'' @
     complain (rc_application_version config \<in> {'''', ''development''})
       ''THREATSCOPE_APP_VERSION is required''"

text \<open>\<open>config.secrets[name]\<close>.\<close>

definition secret_value :: "RuntimeConfig \<Rightarrow> string \<Rightarrow> string result" where
  "secret_value config name =
     (case map_of (rc_secrets config) name of None \<Rightarrow> Inl (KeyError name) | Some v \<Rightarrow> Inr v)"

definition session_secret_errors :: "string \<Rightarrow> string list" where
  "session_secret_errors secret =
     complain (length secret < 32 \<or> length (remdups secret) < 12)
       ''Session signing secret does not meet the strength requirement''"

definition fernet_errors :: "crypto \<Rightarrow> RuntimeConfig \<Rightarrow> string \<Rightarrow> string list result" where
  "fernet_errors cr config name =
     bind_result (secret_value config name) (\<lambda>key. Inr (
       complain (\<not> fernet_key_valid cr key)
         (name @ ''_FILE does not contain a structurally valid Fernet key'')))"

definition secret_errors :: "crypto \<Rightarrow> environ \<Rightarrow> RuntimeConfig \<Rightarrow> string list result" where
  "secret_errors cr env config =
     bind_result (secret_value config ''THREATSCOPE_SESSION_SECRET'') (\<lambda>session.
     bind_result (fernet_errors cr config ''THREATSCOPE_MFA_ENCRYPTION_KEY'') (\<lambda>mfa.
     bind_result (fernet_errors cr config ''THREATSCOPE_CONNECTOR_SECRETS_KEY'') (\<lambda>connector.
     bind_result (bool_setting env ''THREATSCOPE_REQUIRE_BACKUP_ENCRYPTION'' False) (\<lambda>needed.
     bind_result (if needed then fernet_errors cr config ''THREATSCOPE_BACKUP_ENCRYPTION_KEY''
                  else Inr []) (\<lambda>backup.
       Inr (session_secret_errors session @ mfa @ connector @ backup))))))"

definition validate_production :: "crypto \<Rightarrow> environ \<Rightarrow> RuntimeConfig \<Rightarrow> unit result" where
  "validate_production cr env config =
     (let mode =
            casefold (raw_setting env ''THREATSCOPE_REGISTRATION_MODE'' ''disabled'')
      in bind_result (bool_setting env ''THREATSCOPE_LOCAL_PRODUCTION_SMOKE'' False) (\<lambda>smoke.
         bind_result (origins_errors smoke (rc_allowed_origins config)) (\<lambda>origins.
         bind_result (secret_errors cr env config) (\<lambda>secrets.
           let errors = switch_errors mode config @ origins @
                        network_errors (rc_trusted_proxy_networks config) @
                        deployment_errors env mode config @ secrets
           in if errors \<noteq> []
              then Inl (ConfigurationError (''Unsafe production configuration: '' @
                          join ''; '' (fromkeys errors)))
              else Inr ()))))"


section \<open>Loading the configuration\<close>

definition get_runtime_config :: "crypto \<Rightarrow> host \<Rightarrow> RuntimeConfig result" where
  "get_runtime_config cr h =
     (let env = hs_environ h;
          profile_name = casefold (raw_setting env ''THREATSCOPE_PROFILE''
                           (raw_setting env ''THREATSCOPE_ENV'' ''development''))
      in case profile_of profile_name of
        None \<Rightarrow> Inl (ConfigurationError ''THREATSCOPE_PROFILE must be development, test, or production'')
      | Some profile \<Rightarrow>
        (let production = (profile = PRODUCTION) in
         case load_application_secrets h production of
           Inl e \<Rightarrow> Inl (ConfigurationError (exn_message e))
         | Inr (secret_values, secret_statuses) \<Rightarrow>
        (let runtime_default = (if production then ''/var/lib/threatscope/runtime'' else ''./runtime'');
             runtime_dir = directory_setting h ''THREATSCOPE_RUNTIME_DIR'' runtime_default;
             data_dir = directory_setting h ''THREATSCOPE_DATA_DIR'' (path_join runtime_dir ''data'');
             info = version_info h;
             mode = raw_setting env ''THREATSCOPE_REGISTRATION_MODE''
               (if production then ''disabled'' else ''auto_activate_limited'')
         in
         bind_result (bool_setting env ''THREATSCOPE_SELF_REGISTRATION_ENABLED'' (\<not> production)) (\<lambda>self_registration.
         bind_result (bool_setting env ''THREATSCOPE_DEBUG'' False) (\<lambda>debug.
         bind_result (bool_setting env ''THREATSCOPE_RELOAD'' False) (\<lambda>reload.
         bind_result (bool_setting env ''THREATSCOPE_COOKIE_SECURE'' production) (\<lambda>cookie_secure.
         bind_result (integer_setting env ''THREATSCOPE_SESSION_HOURS'' 8 1 (if production then 24 else 168)) (\<lambda>session_hours.
         bind_result (integer_setting env ''THREATSCOPE_IDLE_MINUTES'' 30 5 (if production then 240 else 1440)) (\<lambda>idle_minutes.
         bind_result (bool_setting env ''THREATSCOPE_CSRF_ENABLED'' True) (\<lambda>csrf_enabled.
         bind_result (bool_setting env ''THREATSCOPE_JSON_LOGS'' production) (\<lambda>json_logging.
         bind_result (integer_setting env ''THREATSCOPE_MAX_REQUEST_BYTES'' 10485760 1024 52428800) (\<lambda>max_request_bytes.
         bind_result (integer_setting env ''THREATSCOPE_MAX_UPLOAD_BYTES'' 10485760 1024 26214400) (\<lambda>max_upload_bytes.
         bind_result (integer_setting env ''THREATSCOPE_REQUEST_TIMEOUT_SECONDS'' 30 1 120) (\<lambda>request_timeout.
         bind_result (integer_setting env ''THREATSCOPE_GRACEFUL_SHUTDOWN_SECONDS'' 30 5 120) (\<lambda>graceful_shutdown.
         bind_result (integer_setting env ''THREATSCOPE_WORKERS'' 1 1 32) (\<lambda>worker_count.
         bind_result (bool_setting env ''THREATSCOPE_PUBLIC_REGISTRATION_ACKNOWLEDGED'' False) (\<lambda>acknowledged.
         bind_result (bool_setting env ''THREATSCOPE_DEMO_MODE'' False) (\<lambda>demo_seed.
         bind_result (bool_setting env ''THREATSCOPE_API_DOCS'' (\<not> production)) (\<lambda>api_docs.
         bind_result (bool_setting env ''THREATSCOPE_CONNECTOR_EGRESS_ENABLED'' False) (\<lambda>egress.
         bind_result (bool_setting env ''THREATSCOPE_TLS_PROXY_EXPECTED'' production) (\<lambda>tls_proxy.
         bind_result (integer_setting env ''THREATSCOPE_MINIMUM_FREE_BYTES'' 268435456 16777216 1099511627776) (\<lambda>minimum_free.
         let config =
           \<lparr>rc_profile = profile,
            rc_debug = debug,
            rc_reload = reload,
            rc_allowed_hosts = items_setting env ''THREATSCOPE_ALLOWED_HOSTS''
              (if \<not> production then ''localhost,127.0.0.1,testserver'' else []),
            rc_allowed_origins = items_setting env ''THREATSCOPE_ALLOWED_ORIGINS''
              (if \<not> production then ''http://localhost:5173'' else []),
            rc_trusted_proxy_networks = items_setting env ''THREATSCOPE_TRUSTED_PROXY_NETWORKS''
              (if \<not> production then ''127.0.0.1/32'' else []),
            rc_cookie_secure = cookie_secure,
            rc_cookie_samesite = casefold (raw_setting env ''THREATSCOPE_COOKIE_SAMESITE'' ''lax''),
            rc_session_hours = session_hours,
            rc_idle_minutes = idle_minutes,
            rc_csrf_enabled = csrf_enabled,
            rc_database_url = raw_setting env ''DATABASE_URL'' ''sqlite:///./vulnscope.db'',
            rc_data_dir = data_dir,
            rc_upload_dir = directory_setting h ''THREATSCOPE_UPLOAD_DIR'' (path_join runtime_dir ''uploads''),
            rc_backup_dir = directory_setting h ''THREATSCOPE_BACKUP_DIR'' (path_join runtime_dir ''backups''),
            rc_report_dir = directory_setting h ''THREATSCOPE_REPORT_DIR'' (path_join runtime_dir ''reports''),
            rc_runtime_dir = runtime_dir,
            rc_export_dir = directory_setting h ''THREATSCOPE_EXPORT_DIR'' (path_join runtime_dir ''exports''),
            rc_release_dir = directory_setting h ''THREATSCOPE_RELEASE_DIR'' (path_join runtime_dir ''releases''),
            rc_log_level = upper (raw_setting env ''THREATSCOPE_LOG_LEVEL'' ''INFO''),
            rc_json_logging = json_logging,
            rc_max_request_bytes = max_request_bytes,
            rc_max_upload_bytes = max_upload_bytes,
            rc_request_timeout_seconds = request_timeout,
            rc_graceful_shutdown_seconds = graceful_shutdown,
            rc_worker_count = worker_count,
            rc_public_registration = (self_registration \<and> mode \<noteq> ''disabled''),
            rc_registration_acknowledged = acknowledged,
            rc_demo_seed = demo_seed,
            rc_api_docs = api_docs,
            rc_connector_egress_enabled = egress,
            rc_tls_proxy_expected = tls_proxy,
            rc_schema_identifier = raw_setting env ''THREATSCOPE_SCHEMA_IDENTIFIER'' SCHEMA_IDENTIFIER,
            rc_application_version = raw_setting env ''THREATSCOPE_APP_VERSION'' (vi_version info),
            rc_source_revision = raw_setting env ''THREATSCOPE_BUILD_COMMIT'' (vi_commit_hash info),
            rc_build_timestamp = raw_setting env ''THREATSCOPE_BUILD_TIMESTAMP'' (vi_build_timestamp info),
            rc_frontend_build_id = raw_setting env ''THREATSCOPE_FRONTEND_BUILD_ID'' ''development'',
            rc_backend_build_id = raw_setting env ''THREATSCOPE_BACKEND_BUILD_ID'' ''development'',
            rc_minimum_free_bytes = minimum_free,
            rc_tls_certificate_file = raw_setting env ''THREATSCOPE_TLS_CERTIFICATE_FILE'' [],
            rc_tls_private_key_file = raw_setting env ''THREATSCOPE_TLS_PRIVATE_KEY_FILE'' [],
            rc_secrets = secret_values,
            rc_secret_statuses = secret_statuses\<rparr>
         in if production
            then bind_result (validate_production cr env config) (\<lambda>_. Inr config)
            else Inr config))))))))))))))))))))))"

section \<open>What an accepted production configuration satisfies\<close>

text \<open>The specification of a hardened deployment, setting by setting.\<close>

definition hardened_origin :: "bool \<Rightarrow> string \<Rightarrow> bool" where
  "hardened_origin smoke origin \<longleftrightarrow>
     (\<exists>u. urlsplit origin = Inr u \<and>
        \<not> truthy (url_username u) \<and> \<not> truthy (url_password u) \<and> us_query u = [] \<and> us_fragment u = [] \<and>
        truthy (url_hostname u) \<and>
        (us_scheme u = ''https'' \<or>
         smoke \<and> us_scheme u = ''http'' \<and> url_hostname u \<in> {Some ''localhost'', Some ''127.0.0.1''}))"

definition hardened_switches :: "string \<Rightarrow> RuntimeConfig \<Rightarrow> bool" where
  "hardened_switches mode config \<longleftrightarrow>
     mode \<in> {''disabled'', ''approval_required'', ''auto_activate_limited''} \<and>
     \<not> rc_debug config \<and> \<not> rc_reload config \<and> \<not> rc_api_docs config \<and>
     rc_cookie_secure config \<and> rc_cookie_samesite config \<in> {''lax'', ''strict''} \<and>
     rc_csrf_enabled config \<and>
     rc_allowed_hosts config \<noteq> [] \<and> (\<forall>host \<in> set (rc_allowed_hosts config). CHR ''*'' \<notin> set host) \<and>
     rc_allowed_origins config \<noteq> [] \<and> ''*'' \<notin> set (rc_allowed_origins config)"

definition hardened_deployment :: "environ \<Rightarrow> string \<Rightarrow> RuntimeConfig \<Rightarrow> bool" where
  "hardened_deployment env mode config \<longleftrightarrow>
     rc_tls_proxy_expected config \<and> prefix ''sqlite:////'' (rc_database_url config) \<and>
     rc_worker_count config = 1 \<and> \<not> rc_demo_seed config \<and>
     raw_setting env ''THREATSCOPE_BOOTSTRAP_ADMIN_USERNAME'' [] = [] \<and>
     raw_setting env ''THREATSCOPE_BOOTSTRAP_ADMIN_PASSWORD'' [] = [] \<and>
     (rc_public_registration config \<longrightarrow> rc_registration_acknowledged config \<and> mode \<noteq> ''disabled'') \<and>
     rc_schema_identifier config = SCHEMA_IDENTIFIER \<and>
     rc_source_revision config \<notin> {'''', ''development'', ''unknown''} \<and>
     rc_application_version config \<notin> {'''', ''development''}"

definition hardened_secrets :: "crypto \<Rightarrow> environ \<Rightarrow> RuntimeConfig \<Rightarrow> bool" where
  "hardened_secrets cr env config \<longleftrightarrow>
     (\<exists>s. map_of (rc_secrets config) ''THREATSCOPE_SESSION_SECRET'' = Some s \<and>
          32 \<le> length s \<and> 12 \<le> card (set s)) \<and>
     (\<exists>k. map_of (rc_secrets config) ''THREATSCOPE_MFA_ENCRYPTION_KEY'' = Some k \<and> fernet_key_valid cr k) \<and>
     (\<exists>k. map_of (rc_secrets config) ''THREATSCOPE_CONNECTOR_SECRETS_KEY'' = Some k \<and> fernet_key_valid cr k) \<and>
     (\<exists>needed. bool_setting env ''THREATSCOPE_REQUIRE_BACKUP_ENCRYPTION'' False = Inr needed \<and>
        (needed \<longrightarrow> (\<exists>k. map_of (rc_secrets config) ''THREATSCOPE_BACKUP_ENCRYPTION_KEY'' = Some k \<and>
                         fernet_key_valid cr k)))"

definition hardened :: "crypto \<Rightarrow> environ \<Rightarrow> RuntimeConfig \<Rightarrow> bool" where
  "hardened cr env config \<longleftrightarrow>
     (let mode = casefold (raw_setting env ''THREATSCOPE_REGISTRATION_MODE'' ''disabled'') in
      hardened_switches mode config \<and>
      (\<exists>smoke. bool_setting env ''THREATSCOPE_LOCAL_PRODUCTION_SMOKE'' False = Inr smoke \<and>
               (\<forall>origin \<in> set (rc_allowed_origins config). hardened_origin smoke origin)) \<and>
      rc_trusted_proxy_networks config \<noteq> [] \<and>
      (\<forall>network \<in> set (rc_trusted_proxy_networks config). ip_network network) \<and>
      hardened_deployment env mode config \<and> hardened_secrets cr env config)"

lemma complain_Nil [simp]: "complain b m = [] \<longleftrightarrow> \<not> b"
  by (simp add: complain_def)

lemma py_in_char [simp]: "py_in [c] s \<longleftrightarrow> c \<in> set s"
  by (induction s) auto

lemma switch_errors_iff: "switch_errors mode config = [] \<longleftrightarrow> hardened_switches mode config"
  by (auto simp: switch_errors_def hardened_switches_def list_ex_iff)

lemma network_errors_iff:
  "network_errors ns = [] \<longleftrightarrow> ns \<noteq> [] \<and> (\<forall>n \<in> set ns. ip_network n)"
  by (auto simp: network_errors_def)

lemma deployment_errors_iff: "deployment_errors env mode config = [] \<longleftrightarrow> hardened_deployment env mode config"
  by (auto simp: deployment_errors_def hardened_deployment_def startswith_def)

lemma origin_errors_iff: "origin_errors smoke origin = Inr [] \<longleftrightarrow> hardened_origin smoke origin"
  by (cases "urlsplit origin") (auto simp: origin_errors_def hardened_origin_def)

lemma origins_errors_iff:
  "origins_errors smoke origins = Inr [] \<longleftrightarrow> (\<forall>origin \<in> set origins. hardened_origin smoke origin)"
  by (induction origins) (auto simp: bind_result_Inr_iff origin_errors_iff)

lemma secret_value_Inr: "secret_value config name = Inr v \<longleftrightarrow> map_of (rc_secrets config) name = Some v"
  by (auto simp: secret_value_def split: option.splits)

lemma fernet_errors_iff:
  "fernet_errors cr config name = Inr [] \<longleftrightarrow>
     (\<exists>k. map_of (rc_secrets config) name = Some k \<and> fernet_key_valid cr k)"
  by (auto simp: fernet_errors_def bind_result_Inr_iff secret_value_Inr)

lemma session_secret_errors_iff:
  "session_secret_errors s = [] \<longleftrightarrow> 32 \<le> length s \<and> 12 \<le> card (set s)"
  by (auto simp: session_secret_errors_def length_remdups_card_conv)

lemma secret_errors_iff: "secret_errors cr env config = Inr [] \<longleftrightarrow> hardened_secrets cr env config"
proof -
  have "secret_errors cr env config = Inr [] \<longleftrightarrow>
     (\<exists>s. secret_value config ''THREATSCOPE_SESSION_SECRET'' = Inr s \<and> session_secret_errors s = []) \<and>
     fernet_errors cr config ''THREATSCOPE_MFA_ENCRYPTION_KEY'' = Inr [] \<and>
     fernet_errors cr config ''THREATSCOPE_CONNECTOR_SECRETS_KEY'' = Inr [] \<and>
     (\<exists>needed. bool_setting env ''THREATSCOPE_REQUIRE_BACKUP_ENCRYPTION'' False = Inr needed \<and>
        (needed \<longrightarrow> fernet_errors cr config ''THREATSCOPE_BACKUP_ENCRYPTION_KEY'' = Inr []))"
    by (auto simp: secret_errors_def bind_result_def split: sum.splits)
  then show ?thesis
    by (simp add: hardened_secrets_def secret_value_Inr fernet_errors_iff session_secret_errors_iff)
qed

text \<open>The checks are complete: a configuration is accepted exactly when it is hardened.\<close>

lemma validate_production_iff:
  "validate_production cr env config = Inr () \<longleftrightarrow> hardened cr env config"
proof -
  let ?mode = "casefold (raw_setting env ''THREATSCOPE_REGISTRATION_MODE'' ''disabled'')"
  have "validate_production cr env config = Inr () \<longleftrightarrow>
     (\<exists>smoke. bool_setting env ''THREATSCOPE_LOCAL_PRODUCTION_SMOKE'' False = Inr smoke \<and>
        origins_errors smoke (rc_allowed_origins config) = Inr []) \<and>
     secret_errors cr env config = Inr [] \<and> switch_errors ?mode config = [] \<and>
     network_errors (rc_trusted_proxy_networks config) = [] \<and> deployment_errors env ?mode config = []"
    by (auto simp: validate_production_def Let_def bind_result_Inr_iff)
  then show ?thesis
    by (auto simp: hardened_def Let_def origins_errors_iff secret_errors_iff switch_errors_iff
        network_errors_iff deployment_errors_iff)
qed

lemma production_settings:
  "validate_production cr env config = Inr () \<Longrightarrow>
     rc_cookie_secure config \<and>
     (\<exists>s. map_of (rc_secrets config) ''THREATSCOPE_SESSION_SECRET'' = Some s \<and> 32 \<le> length s)"
  unfolding validate_production_iff hardened_def Let_def hardened_switches_def hardened_secrets_def
  by blast

lemma get_runtime_config_InrD:
  assumes "get_runtime_config cr h = Inr config"
  shows "load_application_secrets h (production config) = Inr (rc_secrets config, rc_secret_statuses config)"
    and "production config \<Longrightarrow> validate_production cr (hs_environ h) config = Inr ()"
    and "1 \<le> rc_session_hours config \<and> rc_session_hours config \<le> (if production config then 24 else 168)"
    and "5 \<le> rc_idle_minutes config \<and> rc_idle_minutes config \<le> (if production config then 240 else 1440)"
proof -
  obtain profile where p: "profile_of (casefold (raw_setting (hs_environ h) ''THREATSCOPE_PROFILE''
       (raw_setting (hs_environ h) ''THREATSCOPE_ENV'' ''development''))) = Some profile"
    using assms by (simp add: get_runtime_config_def Let_def split: option.splits)
  obtain vs sts where l: "load_application_secrets h (profile = PRODUCTION) = Inr (vs, sts)"
    using assms
    by (cases "load_application_secrets h (profile = PRODUCTION)")
      (auto simp: get_runtime_config_def Let_def p)
  note run = assms [unfolded get_runtime_config_def Let_def p option.case l sum.case prod.case]
  have "rc_profile config = profile \<and> rc_secrets config = vs \<and> rc_secret_statuses config = sts \<and>
      (profile = PRODUCTION \<longrightarrow> validate_production cr (hs_environ h) config = Inr ()) \<and>
      1 \<le> rc_session_hours config \<and> rc_session_hours config \<le> (if profile = PRODUCTION then 24 else 168) \<and>
      5 \<le> rc_idle_minutes config \<and> rc_idle_minutes config \<le> (if profile = PRODUCTION then 240 else 1440)"
  proof (cases "profile = PRODUCTION")
    case True
    from run [unfolded Eq_TrueI [OF True] if_True] show ?thesis
      by (elim bind_result_InrE) (auto simp: True dest: integer_setting_bounds)
  next
    case False
    from run [unfolded Eq_FalseI [OF False] if_False] show ?thesis
      by (elim bind_result_InrE) (auto simp: False dest: integer_setting_bounds)
  qed
  then show "load_application_secrets h (production config) = Inr (rc_secrets config, rc_secret_statuses config)"
    and "production config \<Longrightarrow> validate_production cr (hs_environ h) config = Inr ()"
    and "1 \<le> rc_session_hours config \<and> rc_session_hours config \<le> (if production config then 24 else 168)"
    and "5 \<le> rc_idle_minutes config \<and> rc_idle_minutes config \<le> (if production config then 240 else 1440)"
    using l by (auto simp: production_def)
qed


text \<open>C30. A production process starts only with a hardened configuration: whenever
\<open>get_runtime_config\<close> returns a configuration with the production profile, debugging, reload,
API documentation and demonstration data are off, cookies are secure and CSRF protection is
on, there are allowed hosts and none contains an asterisk, there are allowed origins, none of them is
the lone wildcard \<open>*\<close> (an asterisk inside a host, as in \<open>https://*.example.com\<close>, is not excluded) and
each is an absolute HTTPS URL (plain HTTP only for the local smoke test)
without user, password, query or fragment, the trusted proxies are valid networks, the database path is absolute with one worker,
no environment password bootstrap is set, public registration is acknowledged, the session
secret has at least 32 characters with 12 distinct ones and the encryption keys are
well-formed.\<close>

theorem production_config_hardened:
  assumes "get_runtime_config cr h = Inr config" and "production config"
  shows "hardened cr (hs_environ h) config"
  using get_runtime_config_InrD(2) [OF assms] by (simp add: validate_production_iff)

lemma demo_host_runs:
  "case get_runtime_config demo_crypto demo_host of Inl e \<Rightarrow> False | Inr config \<Rightarrow> production config"
  by code_simp

theorem production_config_hardened_witness:
  "\<exists>config. get_runtime_config demo_crypto demo_host = Inr config \<and> production config \<and>
     hardened demo_crypto (hs_environ demo_host) config"
proof -
  obtain config where c: "get_runtime_config demo_crypto demo_host = Inr config" "production config"
    using demo_host_runs by (auto split: sum.splits)
  show ?thesis using c production_config_hardened [OF c] by blast
qed


text \<open>The check of the origins looks for the lone wildcard only: a pattern with a wildcard inside, which
the documentation of the production configuration lists among the unsafe values, passes.\<close>

lemma wildcard_pattern_origin_passes:
  "origin_errors False ''https://*.example.com'' = Inr [] \<and> ''https://*.example.com'' \<noteq> ''*''"
  by code_simp


section \<open>The settings of the access-control module\<close>

text \<open>The fields of the runtime configuration that \<open>access_control.config.get_config\<close> reads.\<close>

definition secret_text :: "RuntimeConfig \<Rightarrow> string \<Rightarrow> string" where
  "secret_text config name = (case map_of (rc_secrets config) name of None \<Rightarrow> [] | Some v \<Rightarrow> v)"

definition access_runtime :: "RuntimeConfig \<Rightarrow> runtime_config" where
  "access_runtime config =
     \<lparr>rt_profile = profile_value (rc_profile config),
      rt_session_secret = secret_text config ''THREATSCOPE_SESSION_SECRET'',
      rt_mfa_encryption_key = secret_text config ''THREATSCOPE_MFA_ENCRYPTION_KEY'',
      rt_allowed_origins = rc_allowed_origins config,
      rt_cookie_secure = rc_cookie_secure config,
      rt_cookie_samesite = rc_cookie_samesite config,
      rt_session_hours = rc_session_hours config,
      rt_idle_minutes = rc_idle_minutes config,
      rt_public_registration = rc_public_registration config\<rparr>"

text \<open>The settings of the access-control module are always within their bounds: for every
environment from which the runtime configuration loads, the module gets a session lifetime
of at least an hour and at most 168 (24 in production), an idle time of at least five and at
most 1440 minutes (240 in production), 2 to 20 login attempts, a lockout of 1 to 1440
minutes and a supported registration mode; in production its cookies are secure and its
session secret is the strong one that was loaded.\<close>

theorem access_settings_within_bounds:
  assumes "get_runtime_config cr h = Inr config"
  shows "let cfg = get_config (hs_environ h) (access_runtime config) in
    config_ok cfg \<and> session_hours cfg \<le> 168 \<and> idle_minutes cfg \<le> 1440 \<and>
    (production config \<longrightarrow>
       session_hours cfg \<le> 24 \<and> idle_minutes cfg \<le> 240 \<and> cookie_secure cfg \<and>
       32 \<le> length (session_secret cfg))"
proof -
  let ?cfg = "get_config (hs_environ h) (access_runtime config)"
  note loaded = get_runtime_config_InrD [OF assms]
  have ok: "config_ok ?cfg"
    by (rule get_config_ok) (use loaded(3,4) in \<open>simp_all add: access_runtime_def\<close>)
  have same: "session_hours ?cfg = rc_session_hours config" "idle_minutes ?cfg = rc_idle_minutes config"
    "cookie_secure ?cfg = rc_cookie_secure config"
    "session_secret ?cfg = secret_text config ''THREATSCOPE_SESSION_SECRET''"
    by (simp_all add: get_config_def access_runtime_def Let_def)
  have prod: "rc_cookie_secure config \<and>
      32 \<le> length (secret_text config ''THREATSCOPE_SESSION_SECRET'')"
    if "production config"
    using production_settings [OF loaded(2) [OF that]] by (auto simp: secret_text_def)
  show ?thesis using loaded(3,4) ok prod by (simp add: Let_def same split: if_splits)
qed

theorem access_settings_within_bounds_witness:
  "\<exists>config. get_runtime_config demo_crypto demo_host = Inr config \<and>
     config_ok (get_config (hs_environ demo_host) (access_runtime config)) \<and>
     session_hours (get_config (hs_environ demo_host) (access_runtime config)) \<le> 24"
proof -
  obtain config where c: "get_runtime_config demo_crypto demo_host = Inr config" "production config"
    using demo_host_runs by (auto split: sum.splits)
  show ?thesis using c access_settings_within_bounds [OF c(1)] by (auto simp: Let_def)
qed


section \<open>Response headers\<close>

definition PRODUCTION_CSP :: string where
  "PRODUCTION_CSP =
     ''default-src 'self'; base-uri 'self'; object-src 'none'; frame-ancestors 'none'; '' @
     ''form-action 'self'; img-src 'self' data:; font-src 'self'; style-src 'self' 'unsafe-inline'; '' @
     ''script-src 'self'; connect-src 'self'' @ [CHR 0x27]"

definition response_security_headers :: "RuntimeConfig \<Rightarrow> bool \<Rightarrow> string \<Rightarrow> (string \<times> string) list" where
  "response_security_headers config https path =
     [(''Content-Security-Policy'',
         if production config then PRODUCTION_CSP
         else ''default-src 'self'; img-src 'self' data:; style-src 'self' 'unsafe-inline'; '' @
              ''script-src 'self'; connect-src 'self' http://localhost:8000; frame-ancestors 'self'' @ [CHR 0x27]),
      (''X-Content-Type-Options'', ''nosniff''),
      (''Referrer-Policy'', ''strict-origin-when-cross-origin''),
      (''Permissions-Policy'', ''camera=(), microphone=(), geolocation=(), payment=(), usb=()''),
      (''X-Frame-Options'', if production config then ''DENY'' else ''SAMEORIGIN''),
      (''Cross-Origin-Opener-Policy'', ''same-origin''),
      (''Cross-Origin-Resource-Policy'', ''same-origin'')] @
     (if production config \<and> https then [(''Strict-Transport-Security'', ''max-age=31536000'')] else []) @
     (if list_ex (startswith path) [''/api/auth'', ''/api/admin'', ''/api/security-audit'',
           ''/api/operations'', ''/api/reports'']
      then [(''Cache-Control'', ''no-store'')]
      else if startswith path ''/api/'' then [(''Cache-Control'', ''private, no-store'')]
      else [])"

lemma api_responses_never_cached:
  "startswith path ''/api/'' \<Longrightarrow>
     \<exists>v. map_of (response_security_headers config https path) ''Cache-Control'' = Some v \<and>
         suffix ''no-store'' v"
  by (auto simp: response_security_headers_def suffix_def)

lemma strict_transport_only_over_https:
  "map_of (response_security_headers config https path) ''Strict-Transport-Security'' \<noteq> None \<longleftrightarrow>
     production config \<and> https"
  by (auto simp: response_security_headers_def)

end
