(* ===== verification/Soar_Catalog.thy ===== *)
theory Soar_Catalog
  imports Prelude
begin

text \<open>
  The server-owned catalog of playbook actions (\<open>modules/soar/catalog.py\<close>). The descriptions,
  the input and output schemas and the warnings, which only documentation shows, are left out.
\<close>

record ActionDefinition =
  action_key :: string
  display_name :: string
  category :: string
  safety_classification :: string
  allowed_execution_modes :: "string list"
  required_permission :: string
  approval_requirement :: string
  administrator_approval_required :: bool
  requester_approver_separation_required :: bool
  timeout_seconds :: nat
  maximum_retries :: nat
  retryable_error_codes :: "string list"
  supports_idempotency :: bool
  supports_compensation :: bool
  compensating_action_key :: "string option"
  simulation_only :: bool
  enabled_by_default :: bool
  automatic_local_eligible :: bool
  evidence_snapshot_supported :: bool
  audit_event_type :: string

definition action_definition ::
  "string \<Rightarrow> string \<Rightarrow> string \<Rightarrow> string \<Rightarrow> string \<Rightarrow> string option \<Rightarrow> bool \<Rightarrow> bool \<Rightarrow> ActionDefinition" where
  "action_definition key name cat safety permission compensation auto evidence =
     (let sensitive = (safety = ''sensitive_local'');
          simulated = (safety = ''simulation_only'');
          read_only = (safety = ''read_only'')
      in \<lparr>action_key = key, display_name = name, category = cat, safety_classification = safety,
          allowed_execution_modes =
            (if \<not> simulated then [''dry_run'', ''simulation'', ''live_local''] else [''dry_run'', ''simulation'']),
          required_permission = permission,
          approval_requirement =
            (if sensitive then ''administrator'' else if simulated then ''explicit'' else ''policy''),
          administrator_approval_required = sensitive,
          requester_approver_separation_required = sensitive, timeout_seconds = 30,
          maximum_retries = (if sensitive \<or> simulated then 0 else 3),
          retryable_error_codes = (if sensitive \<or> simulated then [] else [''SOAR_EXECUTION_CONFLICT'']),
          supports_idempotency = True, supports_compensation = (compensation \<noteq> None),
          compensating_action_key = compensation, simulation_only = simulated, enabled_by_default = True,
          automatic_local_eligible = ((read_only \<or> auto) \<and> \<not> sensitive \<and> \<not> simulated),
          evidence_snapshot_supported = (evidence \<or> read_only),
          audit_event_type = ''soar_action_'' @ key\<rparr>)"

definition READ_ONLY_ACTIONS :: "(string \<times> string \<times> string \<times> string) list" where
  "READ_ONLY_ACTIONS =
    [(''load_soc_alert_context'', ''Load SOC alert context'', ''soc'', ''soc:read''),
     (''load_incident_case_context'', ''Load incident-case context'', ''cases'', ''cases:read''),
     (''load_detection_match_context'', ''Load detection-match context'', ''detections'', ''detections:view''),
     (''load_threat_intelligence_match_context'', ''Load threat-intelligence-match context'', ''threat_intelligence'', ''threat_intel:view''),
     (''load_vulnerability_context'', ''Load vulnerability context'', ''vulnerability'', ''vulnerabilities:view''),
     (''load_phishing_analysis_context'', ''Load phishing-analysis context'', ''phishing'', ''phishing:read''),
     (''load_document_analysis_context'', ''Load document-analysis context'', ''documents'', ''document:read''),
     (''load_user_security_context'', ''Load user security context'', ''identity'', ''soar:sensitive_actions''),
     (''load_session_metadata'', ''Load session metadata'', ''identity'', ''soar:sensitive_actions''),
     (''load_asset_context'', ''Load asset context'', ''assets'', ''assets:view''),
     (''load_anomaly_context'', ''Load security anomaly context'', ''analytics'', ''analytics:view''),
     (''calculate_workflow_risk_summary'', ''Calculate current workflow risk summary'', ''workflow'', ''soar:view''),
     (''check_existing_case_link'', ''Check existing case link'', ''cases'', ''cases:read''),
     (''check_existing_remediation_task'', ''Check existing remediation task'', ''vulnerability'', ''vulnerabilities:view''),
     (''check_existing_notification'', ''Check existing notification'', ''workflow'', ''notifications:read''),
     (''check_current_ownership'', ''Check current ownership'', ''workflow'', ''soar:view'')]"

definition LOCAL_ACTIONS :: "(string \<times> string \<times> string \<times> string \<times> string \<times> string option \<times> bool \<times> bool) list" where
  "LOCAL_ACTIONS =
    [(''create_incident_case'', ''Create incident case'', ''cases'', ''controlled_local'', ''cases:create'', None, False, True),
     (''reuse_incident_case'', ''Reuse incident case by idempotency key'', ''cases'', ''read_only'', ''cases:read'', None, False, False),
     (''assign_case_owner'', ''Assign case owner'', ''cases'', ''controlled_local'', ''cases:manage'', Some ''restore_case_owner'', False, False),
     (''change_case_severity'', ''Change case severity'', ''cases'', ''controlled_local'', ''cases:manage'', Some ''restore_case_severity'', False, False),
     (''add_case_comment'', ''Add case comment'', ''cases'', ''harmless_local'', ''cases:manage'', None, True, False),
     (''add_case_evidence'', ''Add case evidence'', ''cases'', ''harmless_local'', ''cases:manage'', None, True, True),
     (''add_case_tag'', ''Add case tag'', ''cases'', ''harmless_local'', ''cases:manage'', Some ''remove_case_tag'', True, False),
     (''link_soc_alert_to_case'', ''Link SOC alert'', ''cases'', ''harmless_local'', ''cases:manage'', None, True, True),
     (''link_detection_match_to_case'', ''Link detection match'', ''detections'', ''harmless_local'', ''detections:review'', None, True, True),
     (''link_threat_intelligence_match_to_case'', ''Link threat-intelligence match'', ''threat_intelligence'', ''harmless_local'', ''threat_intel:manage'', None, True, True),
     (''link_vulnerability_to_case'', ''Link vulnerability'', ''vulnerability'', ''harmless_local'', ''vulnerabilities:triage'', None, True, True),
     (''link_phishing_analysis_to_case'', ''Link phishing analysis'', ''phishing'', ''harmless_local'', ''phishing:manage_disposition'', None, True, True),
     (''link_document_analysis_to_case'', ''Link document analysis'', ''documents'', ''harmless_local'', ''document:analyze'', None, True, True),
     (''create_investigation_checklist_item'', ''Create investigation checklist item'', ''cases'', ''harmless_local'', ''cases:manage'', Some ''cancel_case_task'', True, False),
     (''create_case_follow_up_task'', ''Create case follow-up task'', ''cases'', ''harmless_local'', ''cases:manage'', Some ''cancel_case_task'', True, False),
     (''transition_case_lifecycle'', ''Perform valid case lifecycle transition'', ''cases'', ''controlled_local'', ''cases:manage'', Some ''restore_case_status'', False, False),
     (''mark_soc_alert_reviewing'', ''Mark alert as reviewing'', ''soc'', ''controlled_local'', ''soc:manage_alerts'', None, False, False),
     (''add_soc_alert_note'', ''Add analyst note to alert'', ''soc'', ''harmless_local'', ''soc:manage_alerts'', None, True, False),
     (''create_alert_review_task'', ''Create alert-review task'', ''soc'', ''harmless_local'', ''soc:manage_alerts'', Some ''cancel_case_task'', True, False),
     (''create_detection_suppression_proposal'', ''Create detection-suppression proposal'', ''detections'', ''harmless_local'', ''detections:review'', None, True, False),
     (''create_analyst_review_task'', ''Create analyst-review task'', ''workflow'', ''harmless_local'', ''soar:review'', Some ''cancel_case_task'', True, False),
     (''add_indicator_to_watchlist'', ''Add indicator to existing watchlist'', ''threat_intelligence'', ''controlled_local'', ''threat_intel:manage'', None, False, False),
     (''create_ioc_review_task'', ''Create IOC analyst-review task'', ''threat_intelligence'', ''harmless_local'', ''threat_intel:manage'', Some ''cancel_case_task'', True, False),
     (''assign_vulnerability'', ''Assign vulnerability'', ''vulnerability'', ''controlled_local'', ''vulnerabilities:triage'', Some ''restore_vulnerability_owner'', False, False),
     (''add_vulnerability_comment'', ''Add vulnerability comment'', ''vulnerability'', ''harmless_local'', ''vulnerabilities:triage'', None, True, False),
     (''create_remediation_plan_draft'', ''Create remediation-plan draft'', ''vulnerability'', ''controlled_local'', ''vulnerabilities:remediate'', None, False, False),
     (''create_remediation_task'', ''Create remediation task'', ''vulnerability'', ''controlled_local'', ''vulnerabilities:remediate'', Some ''cancel_remediation_task'', False, False),
     (''request_vulnerability_verification'', ''Request vulnerability verification'', ''vulnerability'', ''controlled_local'', ''vulnerabilities:verify'', None, False, False),
     (''create_risk_acceptance_proposal'', ''Create risk-acceptance proposal'', ''vulnerability'', ''controlled_local'', ''vulnerabilities:accept_risk'', None, False, False),
     (''create_internal_notification'', ''Create internal notification'', ''workflow'', ''harmless_local'', ''soar:execute'', None, True, False),
     (''assign_internal_task'', ''Assign internal task'', ''workflow'', ''controlled_local'', ''soar:review'', None, False, False),
     (''add_supported_record_tag'', ''Add tag to supported record'', ''workflow'', ''harmless_local'', ''soar:execute'', None, True, False),
     (''capture_evidence_snapshot'', ''Capture audit-safe evidence snapshot'', ''workflow'', ''harmless_local'', ''soar:execute'', None, True, True),
     (''create_anomaly_case_proposal'', ''Create anomaly case proposal'', ''analytics'', ''harmless_local'', ''analytics:review'', None, True, True),
     (''request_anomaly_review'', ''Request anomaly analyst review'', ''analytics'', ''harmless_local'', ''analytics:review'', None, True, False),
     (''generate_analytics_report'', ''Generate bounded analytics report'', ''analytics'', ''controlled_local'', ''analytics:export'', None, False, False),
     (''add_anomaly_tag'', ''Add approved anomaly tag'', ''analytics'', ''harmless_local'', ''analytics:review'', None, True, True),
     (''revoke_selected_session'', ''Revoke selected ThreatScope session'', ''identity'', ''sensitive_local'', ''soar:sensitive_actions'', None, False, False),
     (''revoke_other_user_sessions'', ''Revoke all other ThreatScope sessions'', ''identity'', ''sensitive_local'', ''soar:sensitive_actions'', None, False, False),
     (''temporarily_disable_user'', ''Temporarily disable ThreatScope user'', ''identity'', ''sensitive_local'', ''soar:sensitive_actions'', Some ''reenable_user'', False, False),
     (''reenable_user'', ''Re-enable ThreatScope user'', ''identity'', ''sensitive_local'', ''soar:sensitive_actions'', None, False, False)]"

definition SIMULATION_ACTIONS :: "(string \<times> string) list" where
  "SIMULATION_ACTIONS =
    [(''simulate_block_ip'', ''Simulate block IP''),
     (''simulate_block_domain'', ''Simulate block domain''),
     (''simulate_block_url'', ''Simulate block URL''),
     (''simulate_quarantine_endpoint'', ''Simulate quarantine endpoint''),
     (''simulate_isolate_host'', ''Simulate isolate host''),
     (''simulate_disable_external_account'', ''Simulate disable external account''),
     (''simulate_revoke_external_token'', ''Simulate revoke external token''),
     (''simulate_remove_malicious_email'', ''Simulate remove malicious email''),
     (''simulate_update_firewall_rule'', ''Simulate update firewall rule''),
     (''simulate_update_waf_rule'', ''Simulate update WAF rule''),
     (''simulate_update_dns_blocklist'', ''Simulate update DNS blocklist''),
     (''simulate_update_proxy_blocklist'', ''Simulate update proxy blocklist''),
     (''simulate_update_edr_policy'', ''Simulate update EDR policy''),
     (''simulate_terminate_malicious_process'', ''Simulate terminate malicious process''),
     (''simulate_quarantine_malicious_file'', ''Simulate quarantine malicious file'')]"

definition COMPENSATION_ACTIONS :: "(string \<times> string \<times> string \<times> string) list" where
  "COMPENSATION_ACTIONS =
    [(''restore_case_owner'', ''Restore previous case owner'', ''cases'', ''cases:manage''),
     (''restore_case_severity'', ''Restore previous case severity'', ''cases'', ''cases:manage''),
     (''restore_case_status'', ''Restore previous valid case status'', ''cases'', ''cases:manage''),
     (''remove_case_tag'', ''Remove execution-added case tag'', ''cases'', ''cases:manage''),
     (''cancel_case_task'', ''Cancel execution-created case task'', ''cases'', ''cases:manage''),
     (''restore_vulnerability_owner'', ''Restore previous vulnerability owner'', ''vulnerability'', ''vulnerabilities:triage''),
     (''cancel_remediation_task'', ''Cancel execution-created remediation task'', ''vulnerability'', ''vulnerabilities:remediate''),
     (''restore_playbook_enabled_state'', ''Restore playbook enabled state'', ''soar'', ''soar:manage'')]"

definition CONNECTOR_ACTIONS :: "(string \<times> string) list" where
  "CONNECTOR_ACTIONS =
    [(''queue_connector_notification'', ''Queue connector notification''),
     (''queue_external_ticket_create'', ''Queue external ticket creation''),
     (''queue_external_ticket_update'', ''Queue external ticket update''),
     (''queue_siem_event_publish'', ''Queue SIEM event publishing''),
     (''queue_stix_export'', ''Queue STIX export''),
     (''test_connector_health'', ''Queue connector health test''),
     (''create_connector_delivery_review_task'', ''Create connector delivery review task'')]"

text \<open>The dictionary in the order its entries are put.\<close>

definition CATALOG_ACTIONS :: "ActionDefinition list" where
  "CATALOG_ACTIONS =
     map (\<lambda>(key, name, cat, permission).
            action_definition key name cat ''read_only'' permission None False False) READ_ONLY_ACTIONS @
     map (\<lambda>(key, name, cat, safety, permission, compensation, auto, evidence).
            action_definition key name cat safety permission compensation auto evidence) LOCAL_ACTIONS @
     map (\<lambda>(key, name).
            action_definition key name ''simulated_containment'' ''simulation_only'' ''soar:execute'' None False False)
       SIMULATION_ACTIONS @
     map (\<lambda>(key, name, cat, permission).
            action_definition key name cat ''controlled_local'' permission None False False) COMPENSATION_ACTIONS @
     map (\<lambda>(key, name).
            (action_definition key name ''security_integrations'' ''controlled_local'' ''integrations:execute''
               None False False)
              \<lparr>approval_requirement := ''administrator'', administrator_approval_required := True,
               requester_approver_separation_required := True, automatic_local_eligible := False\<rparr>)
       CONNECTOR_ACTIONS"

definition ACTION_CATALOG :: "(string \<times> ActionDefinition) list" where
  "ACTION_CATALOG = map (\<lambda>a. (action_key a, a)) CATALOG_ACTIONS"

text \<open>\<open>ACTION_CATALOG.get(key)\<close>.\<close>

definition get_action :: "string \<Rightarrow> ActionDefinition option" where
  "get_action key = map_of ACTION_CATALOG key"


section \<open>What the catalog promises\<close>

lemma catalog_keys_distinct: "distinct (map action_key CATALOG_ACTIONS)"
  by code_simp

lemma get_action_SomeD: "get_action key = Some a \<Longrightarrow> a \<in> set CATALOG_ACTIONS \<and> action_key a = key"
  by (auto simp: get_action_def ACTION_CATALOG_def dest: map_of_SomeD)

text \<open>The rules every entry obeys, checked on the whole catalog.\<close>

definition safe_action :: "ActionDefinition \<Rightarrow> bool" where
  "safe_action a \<longleftrightarrow>
     (simulation_only a \<longleftrightarrow> safety_classification a = ''simulation_only'') \<and>
     (simulation_only a \<longrightarrow> ''live_local'' \<notin> set (allowed_execution_modes a)) \<and>
     (safety_classification a = ''sensitive_local'' \<longrightarrow>
        \<not> automatic_local_eligible a \<and> requester_approver_separation_required a \<and>
        required_permission a = ''soar:sensitive_actions'' \<and> maximum_retries a = 0 \<and> retryable_error_codes a = []) \<and>
     (case compensating_action_key a of None \<Rightarrow> True | Some k \<Rightarrow> k \<in> action_key ` set CATALOG_ACTIONS)"

lemma catalog_safe: "list_all safe_action CATALOG_ACTIONS"
  by code_simp

lemma get_action_safe: "get_action key = Some a \<Longrightarrow> safe_action a"
  using catalog_safe get_action_SomeD by (auto simp: list_all_iff)

end
