(* ===== verification/Soar_Graph.thy ===== *)
theory Soar_Graph
  imports Prelude
begin

text \<open>
  The two searches over the routes of a playbook (\<open>modules/soar/validation.py\<close>): the queue that
  collects the reachable steps, and the depth-first search that looks for a cycle.
\<close>

type_synonym adjacency = "(string \<times> string list) list"

definition successors :: "adjacency \<Rightarrow> string \<Rightarrow> string list" where
  "successors adj key = (case map_of adj key of None \<Rightarrow> [] | Some targets \<Rightarrow> targets)"

definition edges :: "adjacency \<Rightarrow> (string \<times> string) set" where
  "edges adj = {(a, b). b \<in> set (successors adj a)}"

lemma edges_iff [simp]: "(a, b) \<in> edges adj \<longleftrightarrow> b \<in> set (successors adj a)"
  by (simp add: edges_def)

lemma successors_known: "b \<in> set (successors adj a) \<Longrightarrow> a \<in> fst ` set adj"
  by (cases "map_of adj a") (auto simp: successors_def dest: map_of_SomeD intro: rev_image_eqI)


section \<open>The reachable steps\<close>

text \<open>The queue loop: \<open>queue.popleft()\<close>, skip what is known, else record it and queue its routes.\<close>

function reach :: "adjacency \<Rightarrow> string list \<Rightarrow> string list \<Rightarrow> string list" where
  "reach adj found [] = found"
| "reach adj found (key # queue) =
     (if key \<in> set found then reach adj found queue
      else reach adj (key # found) (queue @ successors adj key))"
  by pat_completeness auto
termination
proof (relation "measures [\<lambda>(adj, found, queue). card (fst ` set adj - set found), \<lambda>(adj, found, queue). length queue]",
    goal_cases)
  case 1
  show ?case by simp
next
  case (2 adj found key queue)
  then show ?case by simp
next
  case (3 adj found key queue)
  show ?case
  proof (cases "key \<in> fst ` set adj")
    case True
    with 3 have "fst ` set adj - set (key # found) \<subset> fst ` set adj - set found" by auto
    then have "card (fst ` set adj - set (key # found)) < card (fst ` set adj - set found)"
      by (simp add: psubset_card_mono)
    then show ?thesis by simp
  next
    case False
    then have "successors adj key = []" using successors_known [of _ adj key] by (cases "successors adj key") auto
    moreover from False have "fst ` set adj - set (key # found) = fst ` set adj - set found" by auto
    ultimately show ?thesis by simp
  qed
qed

definition pending_closed :: "adjacency \<Rightarrow> string list \<Rightarrow> string list \<Rightarrow> bool" where
  "pending_closed adj found queue \<longleftrightarrow> (\<forall>a \<in> set found. set (successors adj a) \<subseteq> set found \<union> set queue)"

lemma closed_reaches:
  assumes "pending_closed adj found queue" and "(a, b) \<in> (edges adj)\<^sup>*" and "a \<in> set found"
  shows "b \<in> set found \<union> (edges adj)\<^sup>* `` set queue"
  using assms(2,3)
proof (induction rule: rtrancl_induct)
  case (step b c)
  then consider "b \<in> set found" | q where "q \<in> set queue" "(q, b) \<in> (edges adj)\<^sup>*" by blast
  then show ?case
  proof cases
    case 1
    with assms(1) step(2) show ?thesis by (fastforce simp: pending_closed_def)
  next
    case 2
    with step(2) show ?thesis by (meson Image_iff UnI2 rtrancl.rtrancl_into_rtrancl)
  qed
qed simp

lemma reach_unfold: "(edges adj)\<^sup>* `` {key} = insert key ((edges adj)\<^sup>* `` set (successors adj key))"
proof (intro set_eqI iffI)
  fix b assume "b \<in> (edges adj)\<^sup>* `` {key}"
  then have "(key, b) \<in> (edges adj)\<^sup>*" by simp
  then show "b \<in> insert key ((edges adj)\<^sup>* `` set (successors adj key))"
    by (cases rule: converse_rtranclE) auto
next
  fix b assume "b \<in> insert key ((edges adj)\<^sup>* `` set (successors adj key))"
  then consider "b = key" | t where "(key, t) \<in> edges adj" "(t, b) \<in> (edges adj)\<^sup>*" by auto
  then have "(key, b) \<in> (edges adj)\<^sup>*" by cases (simp, rule converse_rtrancl_into_rtrancl)
  then show "b \<in> (edges adj)\<^sup>* `` {key}" by simp
qed

lemma set_reach:
  "pending_closed adj found queue \<Longrightarrow> set (reach adj found queue) = set found \<union> (edges adj)\<^sup>* `` set queue"
proof (induction adj found queue rule: reach.induct)
  case (2 adj found key queue)
  show ?case
  proof (cases "key \<in> set found")
    case True
    with 2(3) have p: "pending_closed adj found queue" by (auto simp: pending_closed_def)
    have "set found \<union> (edges adj)\<^sup>* `` set (key # queue) = set found \<union> (edges adj)\<^sup>* `` set queue"
      using closed_reaches [OF p _ True] by auto
    with 2(1) [OF True p] True show ?thesis by simp
  next
    case False
    have p: "pending_closed adj (key # found) (queue @ successors adj key)"
      using 2(3) by (auto simp: pending_closed_def)
    have "set (reach adj found (key # queue)) = insert key (set found) \<union> (edges adj)\<^sup>* `` (set queue \<union> set (successors adj key))"
      using 2(2) [OF False p] False by simp
    also have "\<dots> = set found \<union> (insert key ((edges adj)\<^sup>* `` set (successors adj key)) \<union> (edges adj)\<^sup>* `` set queue)"
      unfolding Image_Un by blast
    also have "\<dots> = set found \<union> (edges adj)\<^sup>* `` ({key} \<union> set queue)"
      unfolding reach_unfold [symmetric] Image_Un ..
    finally show ?thesis by simp
  qed
qed simp

text \<open>The queue finds exactly what the routes lead to.\<close>

lemma reach_exact: "set (reach adj [] [start]) = {b. (start, b) \<in> (edges adj)\<^sup>*}"
  using set_reach [of adj "[]" "[start]"] by (auto simp: pending_closed_def)


section \<open>The search for a cycle\<close>

text \<open>
  \<open>visit\<close> with the dictionary \<open>color\<close> (0 for an absent key) and the flag \<open>cycle\<close>. The recursion of
  the source needs at most as many nested calls as there are steps; the first argument counts them.
\<close>

fun visit :: "adjacency \<Rightarrow> nat \<Rightarrow> string \<Rightarrow> (string \<Rightarrow> nat) \<times> bool \<Rightarrow> (string \<Rightarrow> nat) \<times> bool"
and visit_all :: "adjacency \<Rightarrow> nat \<Rightarrow> string list \<Rightarrow> (string \<Rightarrow> nat) \<times> bool \<Rightarrow> (string \<Rightarrow> nat) \<times> bool" where
  "visit adj 0 key (color, cycle) = (color, cycle)"
| "visit adj (Suc n) key (color, cycle) =
     (case visit_all adj n (successors adj key) (color(key := 1), cycle) of
        (color', cycle') \<Rightarrow> (color'(key := 2), cycle'))"
| "visit_all adj n [] (color, cycle) = (color, cycle)"
| "visit_all adj n (target # targets) (color, cycle) =
     visit_all adj n targets
       (if color target = 1 then (color, True)
        else if color target = 0 then visit adj n target (color, cycle) else (color, cycle))"

definition has_cycle :: "adjacency \<Rightarrow> string \<Rightarrow> bool" where
  "has_cycle adj start = snd (visit adj (length adj) start (\<lambda>_. 0, False))"

definition painted :: "(string \<Rightarrow> nat) \<Rightarrow> nat \<Rightarrow> string set" where
  "painted color n = {k. color k = n}"

lemma painted_iff [simp]: "k \<in> painted color n \<longleftrightarrow> color k = n"
  by (simp add: painted_def)

text \<open>
  The state of the search: finished steps lead to finished steps only and contain no cycle; the
  steps in progress all lead to the current one; the flag is raised for a real cycle only.
\<close>

definition search_ok :: "adjacency \<Rightarrow> string \<Rightarrow> (string \<Rightarrow> nat) \<times> bool \<Rightarrow> bool" where
  "search_ok adj start st \<longleftrightarrow>
     (\<forall>k. fst st k \<le> 2) \<and>
     (snd st \<longrightarrow> (\<exists>x. (start, x) \<in> (edges adj)\<^sup>* \<and> (x, x) \<in> (edges adj)\<^sup>+)) \<and>
     (\<not> snd st \<longrightarrow> (\<forall>a b. fst st a = 2 \<longrightarrow> b \<in> set (successors adj a) \<longrightarrow> fst st b = 2) \<and>
                    (\<forall>a. fst st a = 2 \<longrightarrow> (a, a) \<notin> (edges adj)\<^sup>+))"

lemma finished_closed:
  assumes "(a, b) \<in> E\<^sup>+" "a \<in> B" "\<And>a b. a \<in> B \<Longrightarrow> (a, b) \<in> E \<Longrightarrow> b \<in> B"
  shows "b \<in> B"
  using assms by (induction rule: trancl_induct) blast+

definition white :: "adjacency \<Rightarrow> (string \<Rightarrow> nat) \<Rightarrow> string set" where
  "white adj color = {k \<in> fst ` set adj. color k = 0}"

lemma finite_white [simp]: "finite (white adj color)"
  by (simp add: white_def)

text \<open>What one call does, given room for the unvisited steps.\<close>

definition search_step :: "adjacency \<Rightarrow> string \<Rightarrow> (string \<Rightarrow> nat) \<times> bool \<Rightarrow> (string \<Rightarrow> nat) \<times> bool \<Rightarrow> bool" where
  "search_step adj start st st' \<longleftrightarrow>
     search_ok adj start st' \<and> painted (fst st') 1 = painted (fst st) 1 \<and>
     painted (fst st) 2 \<subseteq> painted (fst st') 2 \<and> (snd st \<longrightarrow> snd st')"

lemma white_mono:
  assumes "painted c' 1 = painted c 1" "painted c 2 \<subseteq> painted c' 2" "\<forall>k. c k \<le> 2"
  shows "white adj c' \<subseteq> white adj c"
proof
  fix k assume k: "k \<in> white adj c'"
  have "c k = 1 \<longleftrightarrow> c' k = 1" using assms(1) by (metis painted_iff)
  moreover have "c k = 2 \<longrightarrow> c' k = 2" using assms(2) by auto
  moreover have "c k \<le> 2" using assms(3) by simp
  ultimately have "c k = 0" using k by (auto simp: white_def)
  with k show "k \<in> white adj c" by (simp add: white_def)
qed

lemma search_step_refl: "search_ok adj start st \<Longrightarrow> search_step adj start st st"
  by (simp add: search_step_def)

lemma search_step_trans: "search_step adj start a b \<Longrightarrow> search_step adj start b c \<Longrightarrow> search_step adj start a c"
  by (auto simp: search_step_def)

lemma search_ok_gray: "search_ok adj start (c, cycle) \<Longrightarrow> c key = 0 \<Longrightarrow> search_ok adj start (c(key := 1), cycle)"
  by (auto simp: search_ok_def)

lemma white_gray:
  assumes "key \<in> fst ` set adj" "c key = 0"
  shows "card (white adj (c(key := 1))) < card (white adj c)"
proof -
  have "white adj (c(key := 1)) \<subset> white adj c" using assms by (auto simp: white_def)
  then show ?thesis by (simp add: psubset_card_mono)
qed

lemma search_ok_finish:
  assumes ok: "search_ok adj start (c, cycle)" and key: "c key = 1"
    and done_all: "\<not> cycle \<longrightarrow> (\<forall>t \<in> set (successors adj key). c t = 2)"
  shows "search_ok adj start (c(key := 2), cycle)"
proof (cases cycle)
  case True
  with ok show ?thesis by (auto simp: search_ok_def)
next
  case False
  let ?B = "painted c 2"
  have closed: "b \<in> ?B" if "(a, b) \<in> (edges adj)\<^sup>+" "a \<in> ?B" for a b
    using that ok False by (rule_tac finished_closed [OF that]) (auto simp: search_ok_def)
  have "(key, key) \<notin> (edges adj)\<^sup>+"
  proof
    assume "(key, key) \<in> (edges adj)\<^sup>+"
    then obtain t where t: "(key, t) \<in> edges adj" "(t, key) \<in> (edges adj)\<^sup>*" by (meson tranclD)
    then have "t \<in> ?B" using done_all False by simp
    then have "key \<in> ?B" using t(2) closed by (metis rtranclD)
    with key show False by simp
  qed
  with ok False done_all key show ?thesis by (auto simp: search_ok_def)
qed

definition graph_closed :: "adjacency \<Rightarrow> bool" where
  "graph_closed adj \<longleftrightarrow> (\<forall>a. set (successors adj a) \<subseteq> fst ` set adj)"

lemma visit_correct:
  shows "\<lbrakk>key \<in> fst ` set adj; card (white adj c) \<le> n; c key = 0; search_ok adj start (c, cycle);
      (start, key) \<in> (edges adj)\<^sup>*; \<forall>g. c g = 1 \<longrightarrow> (g, key) \<in> (edges adj)\<^sup>*; graph_closed adj\<rbrakk> \<Longrightarrow>
    search_step adj start (c, cycle) (visit adj n key (c, cycle)) \<and> fst (visit adj n key (c, cycle)) key = 2"
  and "\<lbrakk>card (white adj c) \<le> n; c parent = 1; set targets \<subseteq> set (successors adj parent);
      search_ok adj start (c, cycle); (start, parent) \<in> (edges adj)\<^sup>*;
      \<forall>g. c g = 1 \<longrightarrow> (g, parent) \<in> (edges adj)\<^sup>*; graph_closed adj\<rbrakk> \<Longrightarrow>
    search_step adj start (c, cycle) (visit_all adj n targets (c, cycle)) \<and>
    (\<not> snd (visit_all adj n targets (c, cycle)) \<longrightarrow>
       (\<forall>t \<in> set targets. fst (visit_all adj n targets (c, cycle)) t = 2))"
proof (induction adj n key "(c, cycle)" and adj n targets "(c, cycle)" arbitrary: c cycle and c cycle parent
    rule: visit_visit_all.induct)
  case (1 adj key c cycle)
  then have "white adj c = {}" by simp
  with 1 show ?case by (auto simp: white_def)
next
  case (2 adj n key c cycle)
  let ?g = "c(key := 1)"
  obtain c' cycle' where run: "visit_all adj n (successors adj key) (?g, cycle) = (c', cycle')"
    by (cases "visit_all adj n (successors adj key) (?g, cycle)")
  have room: "card (white adj ?g) \<le> n" using white_gray [OF 2(2), of c] 2(3,4) by simp
  have "search_step adj start (?g, cycle) (c', cycle') \<and> (\<not> cycle' \<longrightarrow> (\<forall>t \<in> set (successors adj key). c' t = 2))"
    using 2(1) [of key] room search_ok_gray [of adj start c cycle key] 2(4-8) run by auto
  then have st: "search_step adj start (?g, cycle) (c', cycle')"
    and fin: "\<not> cycle' \<longrightarrow> (\<forall>t \<in> set (successors adj key). c' t = 2)" by auto
  have p1: "painted c' 1 = painted ?g 1" and p2: "painted ?g 2 \<subseteq> painted c' 2" and ok: "search_ok adj start (c', cycle')"
    and fl: "cycle \<longrightarrow> cycle'"
    using st by (auto simp: search_step_def)
  have "c' key = 1" using p1 by (metis fun_upd_same painted_iff)
  then have "search_ok adj start (c'(key := 2), cycle')" using search_ok_finish [OF ok _ fin] by simp
  moreover have "painted (c'(key := 2)) 1 = painted c 1"
  proof -
    have "painted (c'(key := 2)) 1 = painted c' 1 - {key}" by (auto simp: painted_def)
    also have "\<dots> = painted c 1" unfolding p1 using 2(4) by (auto simp: painted_def)
    finally show ?thesis .
  qed
  moreover have "painted c 2 \<subseteq> painted (c'(key := 2)) 2"
  proof
    fix k assume "k \<in> painted c 2"
    then have "k \<in> painted ?g 2" using 2(4) by (auto simp: painted_def)
    with p2 show "k \<in> painted (c'(key := 2)) 2" by (auto simp: painted_def)
  qed
  ultimately show ?case using fl unfolding visit.simps run prod.case search_step_def by simp
next
  case (3 adj n c cycle parent)
  then show ?case by (simp add: search_step_refl)
next
  case (4 adj n target targets c cycle parent)
  let ?st = "if c target = 1 then (c, True) else if c target = 0 then visit adj n target (c, cycle) else (c, cycle)"
  have e: "(parent, target) \<in> edges adj" using 4(5) by simp
  have step: "search_step adj start (c, cycle) ?st \<and> (\<not> snd ?st \<longrightarrow> fst ?st target = 2)"
  proof -
    consider (gray) "c target = 1" | (white) "c target = 0" | (black) "c target = 2"
      using 4(6) by (force simp: search_ok_def le_Suc_eq numeral_2_eq_2)
    then show ?thesis
    proof cases
      case gray
      with 4(8) e have "(parent, parent) \<in> (edges adj)\<^sup>+"
        by (meson rtrancl_into_trancl2)
      with 4(6,7) gray show ?thesis by (auto simp: search_step_def search_ok_def)
    next
      case white
      have "target \<in> fst ` set adj" using 4(9) e unfolding graph_closed_def edges_iff by blast
      moreover have "(start, target) \<in> (edges adj)\<^sup>*" using 4(7) e by (rule rtrancl.rtrancl_into_rtrancl)
      moreover have "\<forall>g. c g = 1 \<longrightarrow> (g, target) \<in> (edges adj)\<^sup>*"
        using 4(8) e by (meson rtrancl.rtrancl_into_rtrancl)
      ultimately show ?thesis using 4(1) white 4(3,6,9) by simp
    next
      case black
      with search_step_refl [OF 4(6)] show ?thesis by simp
    qed
  qed
  obtain c' cycle' where st: "?st = (c', cycle')" by (cases ?st)
  have s1: "search_step adj start (c, cycle) (c', cycle')" and t: "\<not> cycle' \<longrightarrow> c' target = 2"
    using step by (auto simp only: st fst_conv snd_conv)
  have p: "painted c' 1 = painted c 1" "painted c 2 \<subseteq> painted c' 2" "search_ok adj start (c', cycle')"
    using s1 by (auto simp: search_step_def)
  have le: "\<forall>k. c k \<le> 2" using 4(6) by (simp add: search_ok_def)
  have "card (white adj c') \<le> n"
    using card_mono [OF finite_white white_mono [OF p(1,2) le]] 4(3) by (rule order_trans)
  moreover have gray: "c' g = 1 \<longleftrightarrow> c g = 1" for g using p(1) by (metis painted_iff)
  ultimately have rest: "search_step adj start (c', cycle') (visit_all adj n targets (c', cycle')) \<and>
      (\<not> snd (visit_all adj n targets (c', cycle')) \<longrightarrow>
         (\<forall>t \<in> set targets. fst (visit_all adj n targets (c', cycle')) t = 2))"
    using 4(2) [of c' cycle' parent] st 4(4,5,7,8,9) p(3) by auto
  let ?last = "visit_all adj n targets (c', cycle')"
  have "fst ?last target = 2" if "\<not> snd ?last"
    using that rest t unfolding search_step_def by auto
  with rest s1 show ?case
    by (auto simp only: visit_all.simps st intro: search_step_trans) (auto simp: search_step_def)
qed

text \<open>
  The flag tells exactly whether a cycle can be reached, whatever the shape of the graph; the depth
  of the recursion is at most the number of steps.
\<close>

lemma has_cycle_iff:
  assumes "graph_closed adj" "start \<in> fst ` set adj"
  shows "has_cycle adj start \<longleftrightarrow> (\<exists>x. (start, x) \<in> (edges adj)\<^sup>* \<and> (x, x) \<in> (edges adj)\<^sup>+)"
proof -
  let ?last = "visit adj (length adj) start (\<lambda>_. 0, False)"
  have "card (white adj (\<lambda>_. 0)) \<le> length adj"
    by (simp add: white_def) (metis card_length length_map list.set_map)
  then have r: "search_step adj start (\<lambda>_. 0, False) ?last \<and> fst ?last start = 2"
    using visit_correct(1) [OF assms(2), of "\<lambda>_. 0" "length adj" start False] assms(1)
    by (simp add: search_ok_def)
  show ?thesis
  proof
    assume "has_cycle adj start"
    with r show "\<exists>x. (start, x) \<in> (edges adj)\<^sup>* \<and> (x, x) \<in> (edges adj)\<^sup>+"
      by (simp add: has_cycle_def search_step_def search_ok_def)
  next
    assume "\<exists>x. (start, x) \<in> (edges adj)\<^sup>* \<and> (x, x) \<in> (edges adj)\<^sup>+"
    then obtain x where x: "(start, x) \<in> (edges adj)\<^sup>*" "(x, x) \<in> (edges adj)\<^sup>+" by blast
    show "has_cycle adj start"
    proof (rule ccontr)
      assume "\<not> has_cycle adj start"
      then have ok: "\<forall>a b. fst ?last a = 2 \<longrightarrow> b \<in> set (successors adj a) \<longrightarrow> fst ?last b = 2"
        "\<forall>a. fst ?last a = 2 \<longrightarrow> (a, a) \<notin> (edges adj)\<^sup>+"
        using r by (auto simp: has_cycle_def search_step_def search_ok_def)
      from x(1) have "fst ?last x = 2"
        by (induction rule: rtrancl_induct) (use r ok(1) in auto)
      with ok(2) x(2) show False by blast
    qed
  qed
qed

end
