(* ===== verification/Py_Compare.thy ===== *)
theory Py_Compare
  imports Py_Values
begin

text \<open>
  What the source uses of Python's operations on decoded JSON values: numbers and their
  comparison across classes, equality of containers, truth values, membership, iteration,
  \<open>str\<close> and \<open>repr\<close>. What a float's text denotes is a parameter \<open>fv\<close>: a finite binary number
  \<open>m * 2 ^ e\<close>, an infinity or not-a-number.
\<close>

section \<open>Python comparisons\<close>

datatype py_float = Finite int int | PosInf | NegInf | NaN

text \<open>\<open>m * 2 ^ e\<close> against \<open>m' * 2 ^ e'\<close>, both scaled to the smaller exponent.\<close>

definition scaled :: "int \<Rightarrow> int \<Rightarrow> int \<Rightarrow> int" where
  "scaled m e low = m * 2 ^ nat (e - low)"

definition float_less :: "py_float \<Rightarrow> py_float \<Rightarrow> bool" where
  "float_less x y =
     (case x of
        NaN \<Rightarrow> False
      | NegInf \<Rightarrow> y \<noteq> NaN \<and> y \<noteq> NegInf
      | PosInf \<Rightarrow> False
      | Finite m e \<Rightarrow>
          (case y of
             NaN \<Rightarrow> False | PosInf \<Rightarrow> True | NegInf \<Rightarrow> False
           | Finite m' e' \<Rightarrow> scaled m e (min e e') < scaled m' e' (min e e')))"

definition float_equal :: "py_float \<Rightarrow> py_float \<Rightarrow> bool" where
  "float_equal x y =
     (case (x, y) of
        (Finite m e, Finite m' e') \<Rightarrow> scaled m e (min e e') = scaled m' e' (min e e')
      | (PosInf, PosInf) \<Rightarrow> True
      | (NegInf, NegInf) \<Rightarrow> True
      | _ \<Rightarrow> False)"

text \<open>The finite number cut to an integer, towards zero.\<close>

definition truncated :: "int \<Rightarrow> int \<Rightarrow> int" where
  "truncated m e = (if e \<ge> 0 then m * 2 ^ nat e
                    else if m \<ge> 0 then m div 2 ^ nat (- e) else - ((- m) div 2 ^ nat (- e)))"

text \<open>The number a value of a numeric class denotes; a boolean is an integer.\<close>

fun number_of :: "(string \<Rightarrow> py_float) \<Rightarrow> pyvalue \<Rightarrow> py_float option" where
  "number_of fv (PBool b) = Some (Finite (if b then 1 else 0) 0)"
| "number_of fv (PInt i) = Some (Finite i 0)"
| "number_of fv (PFloat t) = Some (fv t)"
| "number_of fv _ = None"

lemma size_map_of: "map_of d k = Some v \<Longrightarrow> size v < size (PDict d)"
  using size_list_estimation' [of "(k, v)" d "size v" "size_prod (\<lambda>_. 0) size"]
  by (auto dest: map_of_SomeD)

lemma size_list_member: "v \<in> set xs \<Longrightarrow> size v < size (PList xs)"
  using size_list_estimation' [of v xs "size v" size] by simp

lemma size_list_nth: "i < length xs \<Longrightarrow> size (xs ! i :: pyvalue) < Suc (size_list size xs)"
  using size_list_member [of "xs ! i" xs] by simp

lemma size_dict_member:
  "kv \<in> set d \<Longrightarrow> size (snd kv :: pyvalue) < Suc (size_list (size_prod (\<lambda>_. 0) size) d)"
  using size_list_estimation' [of kv d "size (snd kv)" "size_prod (\<lambda>_. 0) size"] by (cases kv) auto

lemma size_dict_nth:
  "i < length d \<Longrightarrow> size (snd (d ! i) :: pyvalue) < Suc (size_list (size_prod (\<lambda>_. 0) size) d)"
  using size_list_estimation' [of "d ! i" d "size (snd (d ! i))" "size_prod (\<lambda>_. 0) size"]
    nth_mem [of i d]
  by (cases "d ! i") auto

text \<open>\<open>left == right\<close>: numbers by value across their classes, containers element by element.\<close>

function py_equal :: "(string \<Rightarrow> py_float) \<Rightarrow> pyvalue \<Rightarrow> pyvalue \<Rightarrow> bool" where
  "py_equal fv a b =
     (case (number_of fv a, number_of fv b) of
        (Some x, Some y) \<Rightarrow> float_equal x y
      | _ \<Rightarrow>
        (case (a, b) of
           (PNone, PNone) \<Rightarrow> True
         | (PStr s, PStr t) \<Rightarrow> s = t
         | (POther s, POther t) \<Rightarrow> s = t
         | (PList xs, PList ys) \<Rightarrow>
             length xs = length ys \<and> list_all (\<lambda>i. py_equal fv (xs ! i) (ys ! i)) [0..<length xs]
         | (PDict d, PDict d') \<Rightarrow>
             length d = length d' \<and>
             list_all (\<lambda>i. case map_of d' (fst (d ! i)) of
                             None \<Rightarrow> False
                           | Some v \<Rightarrow> py_equal fv (snd (d ! i)) v) [0..<length d]
         | _ \<Rightarrow> False))"
  by pat_completeness auto
termination
  by (relation "measure (\<lambda>(fv, a, b). size a)") (auto dest: size_list_nth size_dict_nth)

declare py_equal.simps [simp del]

fun type_name :: "pyvalue \<Rightarrow> string" where
  "type_name PNone = ''NoneType''"
| "type_name (PBool _) = ''bool''"
| "type_name (PInt _) = ''int''"
| "type_name (PFloat _) = ''float''"
| "type_name (PStr _) = ''str''"
| "type_name (PList _) = ''list''"
| "type_name (PDict _) = ''dict''"
| "type_name (POther _) = ''object''"

text \<open>\<open>type(left) is type(right) and left == right\<close>.\<close>

definition same_value :: "(string \<Rightarrow> py_float) \<Rightarrow> pyvalue \<Rightarrow> pyvalue \<Rightarrow> bool" where
  "same_value fv a b \<longleftrightarrow> type_name a = type_name b \<and> py_equal fv a b"

fun py_truthy :: "(string \<Rightarrow> py_float) \<Rightarrow> pyvalue \<Rightarrow> bool" where
  "py_truthy fv PNone = False"
| "py_truthy fv (PBool b) = b"
| "py_truthy fv (PInt i) = (i \<noteq> 0)"
| "py_truthy fv (PFloat t) = (\<not> float_equal (fv t) (Finite 0 0))"
| "py_truthy fv (PStr s) = (s \<noteq> [])"
| "py_truthy fv (PList xs) = (xs \<noteq> [])"
| "py_truthy fv (PDict d) = (d \<noteq> [])"
| "py_truthy fv (POther _) = True"

text \<open>\<open>d.get(key)\<close>.\<close>

definition dict_get :: "(string \<times> pyvalue) list \<Rightarrow> string \<Rightarrow> pyvalue" where
  "dict_get d key = (case map_of d key of None \<Rightarrow> PNone | Some v \<Rightarrow> v)"

lemma size_dict_get [simp]: "size (dict_get d k) < size (PDict d)"
  by (auto simp: dict_get_def dest: size_map_of split: option.splits)


text \<open>The items of a value on which the source calls \<open>get\<close>.\<close>

definition as_dict :: "pyvalue \<Rightarrow> (string \<times> pyvalue) list result" where
  "as_dict v = (case v of
      PDict d \<Rightarrow> Inr d
    | _ \<Rightarrow> Inl (AttributeError (type_name v @ '' object has no attribute get'')))"


section \<open>Membership and iteration\<close>

definition unhashable :: "pyvalue \<Rightarrow> bool" where
  "unhashable v = (case v of PList _ \<Rightarrow> True | PDict _ \<Rightarrow> True | _ \<Rightarrow> False)"

text \<open>\<open>item in container\<close>.\<close>

definition py_member :: "(string \<Rightarrow> py_float) \<Rightarrow> pyvalue \<Rightarrow> pyvalue \<Rightarrow> bool result" where
  "py_member fv item container =
     (case container of
        PList items \<Rightarrow> Inr (list_ex (\<lambda>x. py_equal fv x item) items)
      | PStr s \<Rightarrow> (case item of
                    PStr t \<Rightarrow> Inr (py_in t s)
                  | _ \<Rightarrow> Inl (TypeError (''in <string> requires string as left operand, not '' @ type_name item)))
      | PDict d \<Rightarrow> (if unhashable item then Inl (TypeError (''unhashable type: '' @ type_name item))
                   else Inr (case item of PStr t \<Rightarrow> t \<in> fst ` set d | _ \<Rightarrow> False))
      | _ \<Rightarrow> Inl (TypeError (''argument of type '' @ type_name container @ '' is not iterable'')))"

text \<open>\<open>for item in container\<close>.\<close>

definition py_iter :: "pyvalue \<Rightarrow> pyvalue list result" where
  "py_iter container =
     (case container of
        PList items \<Rightarrow> Inr items
      | PStr s \<Rightarrow> Inr (map (\<lambda>c. PStr [c]) s)
      | PDict d \<Rightarrow> Inr (map (\<lambda>kv. PStr (fst kv)) d)
      | _ \<Rightarrow> Inl (TypeError (type_name container @ '' object is not iterable'')))"


section \<open>Text of values\<close>

definition str_bool :: "bool \<Rightarrow> string" where
  "str_bool b = (if b then ''True'' else ''False'')"

definition repr_char :: "char \<Rightarrow> char \<Rightarrow> string" where
  "repr_char quote c =
     (if c = quote \<or> c = CHR 0x5C then [CHR 0x5C, c]
      else if c = CHR 0x0A then [CHR 0x5C, CHR ''n'']
      else if c = CHR 0x0D then [CHR 0x5C, CHR ''r'']
      else if c = CHR 0x09 then [CHR 0x5C, CHR ''t'']
      else let n = (of_char c :: nat) in
           if n < 32 \<or> n = 127 then [CHR 0x5C, CHR ''x'', hex_digit (n div 16), hex_digit (n mod 16)]
           else [c])"

definition repr_str :: "string \<Rightarrow> string" where
  "repr_str s =
     (let quote = (if CHR 0x27 \<in> set s \<and> CHR 0x22 \<notin> set s then CHR 0x22 else CHR 0x27)
      in quote # concat (map (repr_char quote) s) @ [quote])"

function py_repr :: "pyvalue \<Rightarrow> string" where
  "py_repr PNone = ''None''"
| "py_repr (PBool b) = str_bool b"
| "py_repr (PInt i) = str_int i"
| "py_repr (PFloat t) = t"
| "py_repr (PStr s) = repr_str s"
| "py_repr (PList xs) = ''['' @ join '', '' (map py_repr xs) @ '']''"
| "py_repr (PDict d) = ''{'' @ join '', '' (map (\<lambda>kv. repr_str (fst kv) @ '': '' @ py_repr (snd kv)) d) @ ''}''"
| "py_repr (POther t) = t"
  by pat_completeness auto
termination
proof (relation "measure size", goal_cases)
  case 1
  show ?case by simp
next
  case (2 xs x)
  then show ?case using size_list_member [of x xs] by simp
next
  case (3 d kv)
  then show ?case by (auto dest: size_dict_member)
qed

definition py_str :: "pyvalue \<Rightarrow> string" where
  "py_str v = (case v of PStr s \<Rightarrow> s | _ \<Rightarrow> py_repr v)"

end
