(* ===== verification/Soar_Conditions.thy ===== *)
theory Soar_Conditions
  imports Py_Compare
begin

text \<open>
  The condition language of the playbooks (\<open>modules/soar/conditions.py\<close>) and its static check
  (\<open>_condition_errors\<close> of \<open>modules/soar/validation.py\<close>). Conditions and contexts are decoded
  JSON. The budget of comparisons, a one-element list the recursive calls share, is a number
  threaded through the evaluation. \<open>MISSING\<close> is \<open>None\<close>. What a float's text denotes is
  the parameter \<open>fv\<close>.
\<close>

section \<open>References\<close>

definition OPERATORS :: "string list" where
  "OPERATORS = [''equals'', ''not_equals'', ''contains'', ''starts_with'', ''ends_with'', ''in'', ''not_in'',
     ''greater_than'', ''greater_than_or_equal'', ''less_than'', ''less_than_or_equal'', ''exists'',
     ''not_exists'', ''is_true'', ''is_false'', ''all'', ''any'', ''not'']"

definition ALLOWED_ROOTS :: "string list" where
  "ALLOWED_ROOTS = [''trigger'', ''execution'', ''playbook'', ''steps'', ''analyst_input'', ''constants'']"

definition MAX_DEPTH :: nat where "MAX_DEPTH = 8"
definition MAX_COMPARISONS :: nat where "MAX_COMPARISONS = 100"

definition bad_part :: "string \<Rightarrow> bool" where
  "bad_part part \<longleftrightarrow> part = [] \<or> startswith part ''_'' \<or> py_in ''__'' part"

fun walk_path :: "pyvalue \<Rightarrow> string list \<Rightarrow> pyvalue option" where
  "walk_path current [] = Some current"
| "walk_path current (part # parts) =
     (case current of
        PDict d \<Rightarrow> (case map_of d part of None \<Rightarrow> None | Some v \<Rightarrow> walk_path v parts)
      | _ \<Rightarrow> None)"

text \<open>\<open>value[2:-1].split(".")\<close>.\<close>

definition reference_parts :: "string \<Rightarrow> string list" where
  "reference_parts s = split_on CHR ''.'' (butlast (drop 2 s))"

definition is_reference :: "string \<Rightarrow> bool" where
  "is_reference s \<longleftrightarrow> startswith s ''${'' \<and> endswith s ''}''"

definition resolve_reference :: "pyvalue \<Rightarrow> (string \<times> pyvalue) list \<Rightarrow> pyvalue option" where
  "resolve_reference value context =
     (case value of
        PStr s \<Rightarrow>
          if \<not> is_reference s then Some value
          else let parts = reference_parts s in
               if hd parts \<notin> set ALLOWED_ROOTS \<or> list_ex bad_part parts then None
               else walk_path (PDict context) parts
      | _ \<Rightarrow> Some value)"

definition validate_reference :: "pyvalue \<Rightarrow> bool" where
  "validate_reference value =
     (case value of
        PStr s \<Rightarrow>
          if \<not> startswith s ''${'' then True
          else if \<not> endswith s ''}'' then False
          else let parts = reference_parts s in
               hd parts \<in> set ALLOWED_ROOTS \<and>
               list_all (\<lambda>part. \<not> bad_part part \<and> length part \<le> 100) parts
      | _ \<Rightarrow> True)"


section \<open>Evaluation\<close>

record ConditionResult =
  matched :: bool
  explanation :: string
  comparisons :: nat

text \<open>\<open>str(b).lower()\<close>.\<close>

definition lower_bool :: "bool \<Rightarrow> string" where
  "lower_bool b = (if b then ''true'' else ''false'')"

definition folded :: "bool \<Rightarrow> string \<Rightarrow> string" where
  "folded case_sensitive s = (if case_sensitive then s else casefold s)"

fun is_number :: "pyvalue \<Rightarrow> bool" where
  "is_number (PInt _) = True"
| "is_number (PFloat _) = True"
| "is_number _ = False"

definition compare_numbers :: "(string \<Rightarrow> py_float) \<Rightarrow> string \<Rightarrow> pyvalue \<Rightarrow> pyvalue \<Rightarrow> bool" where
  "compare_numbers fv operator left right =
     (if \<not> is_number left \<or> \<not> is_number right then False
      else let x = the (number_of fv left); y = the (number_of fv right) in
           if operator = ''greater_than'' then float_less y x
           else if operator = ''greater_than_or_equal'' then float_less y x \<or> float_equal x y
           else if operator = ''less_than'' then float_less x y
           else float_less x y \<or> float_equal x y)"

definition compare_present :: "(string \<Rightarrow> py_float) \<Rightarrow> string \<Rightarrow> bool \<Rightarrow> pyvalue \<Rightarrow> pyvalue \<Rightarrow> bool" where
  "compare_present fv operator case_sensitive left right =
     (if operator \<in> {''equals'', ''not_equals''} then
        (let equal = (case (left, right) of
                        (PStr a, PStr b) \<Rightarrow> folded case_sensitive a = folded case_sensitive b
                      | _ \<Rightarrow> same_value fv left right)
         in if operator = ''not_equals'' then \<not> equal else equal)
      else if operator = ''contains'' then
        (case left of
           PStr a \<Rightarrow> (case right of PStr b \<Rightarrow> py_in (folded case_sensitive b) (folded case_sensitive a)
                                | _ \<Rightarrow> False)
         | PList items \<Rightarrow> list_ex (\<lambda>item. same_value fv item right) items
         | _ \<Rightarrow> False)
      else if operator \<in> {''starts_with'', ''ends_with''} then
        (case (left, right) of
           (PStr a, PStr b) \<Rightarrow>
             if operator = ''starts_with''
             then startswith (folded case_sensitive a) (folded case_sensitive b)
             else endswith (folded case_sensitive a) (folded case_sensitive b)
         | _ \<Rightarrow> False)
      else if operator \<in> {''in'', ''not_in''} then
        (let member = (case right of PList items \<Rightarrow> list_ex (\<lambda>item. same_value fv left item) items
                                   | _ \<Rightarrow> False)
         in if operator = ''not_in'' then \<not> member else member)
      else if operator \<in> {''greater_than'', ''greater_than_or_equal'', ''less_than'', ''less_than_or_equal''}
      then compare_numbers fv operator left right
      else False)"

definition compare_leaf ::
  "(string \<Rightarrow> py_float) \<Rightarrow> string \<Rightarrow> bool \<Rightarrow> pyvalue option \<Rightarrow> pyvalue option \<Rightarrow> bool" where
  "compare_leaf fv operator case_sensitive left right =
     (if operator = ''exists'' then left \<noteq> None \<and> left \<noteq> Some PNone
      else if operator = ''not_exists'' then left = None \<or> left = Some PNone
      else if operator = ''is_true'' then left = Some (PBool True)
      else if operator = ''is_false'' then left = Some (PBool False)
      else case (left, right) of
        (Some l, Some r) \<Rightarrow> compare_present fv operator case_sensitive l r
      | _ \<Rightarrow> False)"

definition safe_type :: "pyvalue option \<Rightarrow> string" where
  "safe_type v = (case v of None \<Rightarrow> ''missing'' | Some x \<Rightarrow> type_name x)"

definition case_sensitive_of :: "(string \<Rightarrow> py_float) \<Rightarrow> (string \<times> pyvalue) list \<Rightarrow> bool" where
  "case_sensitive_of fv d = (case map_of d ''case_sensitive'' of None \<Rightarrow> True | Some v \<Rightarrow> py_truthy fv v)"

text \<open>One comparison: the operands resolved in the context and compared.\<close>

definition evaluate_leaf ::
  "(string \<Rightarrow> py_float) \<Rightarrow> string \<Rightarrow> (string \<times> pyvalue) list \<Rightarrow> (string \<times> pyvalue) list \<Rightarrow> ConditionResult" where
  "evaluate_leaf fv operator d context =
     (let left = resolve_reference (dict_get d ''left'') context;
          right = resolve_reference (dict_get d ''right'') context;
          m = compare_leaf fv operator (case_sensitive_of fv d) left right
      in \<lparr>matched = m,
          explanation = operator @ ''('' @ safe_type left @ '', '' @ safe_type right @ '') => '' @ lower_bool m,
          comparisons = 1\<rparr>)"

text \<open>The operator of a node; testing an unhashable value for membership raises.\<close>

definition operator_of :: "pyvalue \<Rightarrow> string option result" where
  "operator_of condition =
     (case condition of
        PDict d \<Rightarrow>
          (case dict_get d ''operator'' of
             PStr op \<Rightarrow> Inr (if op \<in> set OPERATORS then Some op else None)
           | PList _ \<Rightarrow> Inl (TypeError ''unhashable type: list'')
           | PDict _ \<Rightarrow> Inl (TypeError ''unhashable type: dict'')
           | _ \<Rightarrow> Inr None)
      | _ \<Rightarrow> Inr None)"

fun items_of :: "pyvalue \<Rightarrow> (string \<times> pyvalue) list" where
  "items_of (PDict d) = d"
| "items_of _ = []"

text \<open>\<open>condition.get("conditions")\<close> when it is a list of one to twenty conditions.\<close>

definition child_conditions :: "pyvalue \<Rightarrow> pyvalue list option" where
  "child_conditions condition =
     (case dict_get (items_of condition) ''conditions'' of
        PList items \<Rightarrow> if 1 \<le> length items \<and> length items \<le> 20 then Some items else None
      | _ \<Rightarrow> None)"

definition combine :: "string \<Rightarrow> ConditionResult list \<Rightarrow> ConditionResult" where
  "combine operator results =
     (let m = (if operator = ''all'' then list_all matched results else list_ex matched results)
      in \<lparr>matched = m,
          explanation = operator @ ''('' @ join '', '' (map (\<lambda>r. lower_bool (matched r)) results) @
                        '') => '' @ lower_bool m,
          comparisons = sum_list (map comparisons results)\<rparr>)"

definition negate :: "ConditionResult \<Rightarrow> ConditionResult" where
  "negate result =
     \<lparr>matched = (\<not> matched result),
      explanation = ''not('' @ str_bool (matched result) @ '') => '' @ str_bool (\<not> matched result),
      comparisons = comparisons result\<rparr>"

lemma size_items_of: "items_of c \<noteq> [] \<Longrightarrow> size (dict_get (items_of c) k) < size c"
  by (cases c) (simp_all del: pyvalue.size add: size_dict_get)

lemma child_conditions_size:
  "child_conditions c = Some items \<Longrightarrow> size_list size items < size c"
  using size_items_of [of c "''conditions''"]
  by (cases "items_of c = []")
    (auto simp: child_conditions_def dict_get_def split: pyvalue.splits if_splits)

lemma child_conditions_length:
  "child_conditions c = Some items \<Longrightarrow> 1 \<le> length items \<and> length items \<le> 20"
  by (auto simp: child_conditions_def split: pyvalue.splits if_splits)

lemma operator_of_Some: "operator_of c = Inr (Some op) \<Longrightarrow> items_of c \<noteq> [] \<and> op \<in> set OPERATORS"
  by (cases c) (auto simp: operator_of_def dict_get_def split: pyvalue.splits if_splits option.splits)

function evaluate ::
  "(string \<Rightarrow> py_float) \<Rightarrow> (string \<times> pyvalue) list \<Rightarrow> nat \<Rightarrow> nat \<Rightarrow> pyvalue \<Rightarrow> (ConditionResult \<times> nat) result"
and evaluate_items ::
  "(string \<Rightarrow> py_float) \<Rightarrow> (string \<times> pyvalue) list \<Rightarrow> nat \<Rightarrow> nat \<Rightarrow> pyvalue list \<Rightarrow>
     (ConditionResult list \<times> nat) result" where
  "evaluate fv context depth budget condition =
     (if depth > MAX_DEPTH then Inl (ValueError ''Condition nesting exceeds maximum depth 8'')
      else if budget = 0 then Inl (ValueError ''Condition comparison limit exceeded'')
      else case operator_of condition of
        Inl e \<Rightarrow> Inl e
      | Inr None \<Rightarrow> Inl (ValueError ''Unsupported condition operator'')
      | Inr (Some operator) \<Rightarrow>
          if operator \<in> {''all'', ''any''} then
            (case child_conditions condition of
               None \<Rightarrow> Inl (ValueError (operator @ '' requires 1 to 20 conditions''))
             | Some items \<Rightarrow>
                 bind_result (evaluate_items fv context (depth + 1) budget items)
                   (\<lambda>(results, budget'). Inr (combine operator results, budget')))
          else if operator = ''not'' then
            bind_result (evaluate fv context (depth + 1) budget (dict_get (items_of condition) ''condition''))
              (\<lambda>(result, budget'). Inr (negate result, budget'))
          else Inr (evaluate_leaf fv operator (items_of condition) context, budget - 1))"
| "evaluate_items fv context depth budget [] = Inr ([], budget)"
| "evaluate_items fv context depth budget (item # items) =
     bind_result (evaluate fv context depth budget item) (\<lambda>(result, budget').
       bind_result (evaluate_items fv context depth budget' items) (\<lambda>(results, budget'').
         Inr (result # results, budget'')))"
  by pat_completeness auto
termination
  by (relation "measure (\<lambda>x. case x of Inl (fv, context, depth, budget, c) \<Rightarrow> size c
                                   | Inr (fv, context, depth, budget, cs) \<Rightarrow> size_list size cs)")
    (auto dest: child_conditions_size operator_of_Some intro: size_items_of)

declare evaluate.simps [simp del]

text \<open>The call as the executor makes it.\<close>

definition evaluate_condition ::
  "(string \<Rightarrow> py_float) \<Rightarrow> pyvalue \<Rightarrow> (string \<times> pyvalue) list \<Rightarrow> ConditionResult result" where
  "evaluate_condition fv condition context =
     bind_result (evaluate fv context 0 MAX_COMPARISONS condition) (\<lambda>(r, _). Inr r)"


section \<open>The static check\<close>

record soar_error =
  se_code :: string
  se_path :: string
  se_message :: string

definition invalid :: "string \<Rightarrow> string \<Rightarrow> soar_error" where
  "invalid path message = \<lparr>se_code = ''SOAR_PLAYBOOK_INVALID'', se_path = path, se_message = message\<rparr>"

definition side_errors :: "string \<Rightarrow> (string \<times> pyvalue) list \<Rightarrow> soar_error list" where
  "side_errors path d =
     concat (map (\<lambda>side. case map_of d side of
                    None \<Rightarrow> []
                  | Some v \<Rightarrow> if validate_reference v then []
                              else [invalid (path @ ''.'' @ side) ''Variable reference is not allowed''])
       [''left'', ''right''])"

text \<open>The errors the check appends, and the number of comparisons counted so far.\<close>

function condition_errors :: "string \<Rightarrow> nat \<Rightarrow> nat \<Rightarrow> pyvalue \<Rightarrow> (soar_error list \<times> nat) result"
and children_errors :: "string \<Rightarrow> nat \<Rightarrow> nat \<Rightarrow> nat \<Rightarrow> pyvalue list \<Rightarrow> (soar_error list \<times> nat) result" where
  "condition_errors path depth count node =
     (if depth > MAX_DEPTH then Inr ([invalid path ''Condition depth exceeds 8''], count)
      else case operator_of node of
        Inl e \<Rightarrow> Inl e
      | Inr None \<Rightarrow> Inr ([invalid path ''Condition operator is invalid''], count)
      | Inr (Some op) \<Rightarrow>
          if op \<in> {''all'', ''any''} then
            (case child_conditions node of
               None \<Rightarrow> Inr ([invalid path (op @ '' requires 1 to 20 conditions'')], count)
             | Some children \<Rightarrow> children_errors path (depth + 1) count 0 children)
          else if op = ''not'' then
            condition_errors (path @ ''.condition'') (depth + 1) count
              (dict_get (items_of node) ''condition'')
          else Inr ((if count + 1 > 100 then [invalid path ''Condition comparison count exceeds 100''] else [])
                    @ side_errors path (items_of node), count + 1))"
| "children_errors path depth count index [] = Inr ([], count)"
| "children_errors path depth count index (child # children) =
     bind_result (condition_errors (path @ ''.conditions['' @ str_nat index @ '']'') depth count child)
       (\<lambda>(errors, count').
          bind_result (children_errors path depth count' (index + 1) children)
            (\<lambda>(later, count''). Inr (errors @ later, count'')))"
  by pat_completeness auto
termination
  by (relation "measure (\<lambda>x. case x of Inl (path, depth, count, c) \<Rightarrow> size c
                                   | Inr (path, depth, count, index, cs) \<Rightarrow> size_list size cs)")
    (auto dest: child_conditions_size operator_of_Some intro: size_items_of)

declare condition_errors.simps [simp del]


section \<open>Reference semantics\<close>

text \<open>What a condition means: no budget, no depth, no errors.\<close>

function holds :: "(string \<Rightarrow> py_float) \<Rightarrow> (string \<times> pyvalue) list \<Rightarrow> pyvalue \<Rightarrow> bool" where
  "holds fv ctxt condition =
     (case operator_of condition of
        Inr (Some operator) \<Rightarrow>
          if operator = ''all'' then
            (case child_conditions condition of None \<Rightarrow> False | Some cs \<Rightarrow> list_all (holds fv ctxt) cs)
          else if operator = ''any'' then
            (case child_conditions condition of None \<Rightarrow> False | Some cs \<Rightarrow> list_ex (holds fv ctxt) cs)
          else if operator = ''not'' then \<not> holds fv ctxt (dict_get (items_of condition) ''condition'')
          else compare_leaf fv operator (case_sensitive_of fv (items_of condition))
                 (resolve_reference (dict_get (items_of condition) ''left'') ctxt)
                 (resolve_reference (dict_get (items_of condition) ''right'') ctxt)
      | _ \<Rightarrow> False)"
  by pat_completeness auto
termination
proof (relation "measure (\<lambda>(fv, ctxt, c). size c)", goal_cases)
  case 1
  show ?case by simp
next
  case (2 fv ctxt condition b op cs c)
  then show ?case using child_conditions_size [of condition cs] size_list_member [of c cs] by auto
next
  case (3 fv ctxt condition b op cs c)
  then show ?case using child_conditions_size [of condition cs] size_list_member [of c cs] by auto
next
  case (4 fv ctxt condition b op)
  then show ?case using operator_of_Some [of condition op] size_items_of [of condition] by auto
qed

declare holds.simps [simp del]

lemma evaluate_leaf_simps [simp]:
  "comparisons (evaluate_leaf fv op d ctxt) = 1"
  "matched (evaluate_leaf fv op d ctxt) =
     compare_leaf fv op (case_sensitive_of fv d) (resolve_reference (dict_get d ''left'') ctxt)
       (resolve_reference (dict_get d ''right'') ctxt)"
  by (simp_all add: evaluate_leaf_def Let_def)

lemma combine_simps [simp]:
  "comparisons (combine op rs) = sum_list (map comparisons rs)"
  "matched (combine op rs) = (if op = ''all'' then list_all matched rs else list_ex matched rs)"
  by (simp_all add: combine_def Let_def)

lemma negate_simps [simp]:
  "comparisons (negate r) = comparisons r" "matched (negate r) = (\<not> matched r)"
  by (simp_all add: negate_def)

lemma same_truth:
  "map f xs = map g ys \<Longrightarrow> list_all f xs = list_all g ys \<and> list_ex f xs = list_ex g ys"
  by (induction xs arbitrary: ys) (auto simp: Cons_eq_map_conv)

text \<open>
  A returned result agrees with the reference semantics, and every comparison was paid from
  the budget.
\<close>

lemma evaluate_sound:
  "evaluate fv ctxt depth budget c = Inr (r, budget') \<Longrightarrow>
     matched r = holds fv ctxt c \<and> 1 \<le> comparisons r \<and> comparisons r + budget' = budget"
  "evaluate_items fv ctxt depth budget cs = Inr (rs, budget') \<Longrightarrow>
     map matched rs = map (holds fv ctxt) cs \<and>
     length rs \<le> sum_list (map comparisons rs) \<and> sum_list (map comparisons rs) + budget' = budget"
proof (induction fv ctxt depth budget c and fv ctxt depth budget cs
    arbitrary: r budget' and rs budget' rule: evaluate_evaluate_items.induct)
  case (1 fv ctxt depth budget c)
  note unfold = evaluate.simps [of fv ctxt depth budget c] holds.simps [of fv ctxt c]
  from "1.prems" have g: "\<not> depth > MAX_DEPTH" "budget \<noteq> 0"
    by (auto simp: unfold(1) split: if_splits)
  from "1.prems" g obtain op where op: "operator_of c = Inr (Some op)"
    by (auto simp: unfold(1) split: sum.splits option.splits)
  consider (comb) "op \<in> {''all'', ''any''}" | (neg) "op = ''not''"
    | (leaf) "op \<notin> {''all'', ''any'', ''not''}" by blast
  then show ?case
  proof cases
    case comb
    with "1.prems" g op obtain cs rs where
      cs: "child_conditions c = Some cs" and
      run: "evaluate_items fv ctxt (depth + 1) budget cs = Inr (rs, budget')" and
      r: "r = combine op rs"
      by (auto simp: unfold(1) bind_result_Inr_iff split: option.splits)
    note IH = "1.IH"(1) [OF g op refl comb cs run]
    have "length rs = length cs" using IH by (metis length_map)
    then have "1 \<le> length rs" using child_conditions_length [OF cs] by simp
    then show ?thesis
      using IH comb op cs r same_truth [of matched rs "holds fv ctxt" cs] by (auto simp: unfold(2))
  next
    case neg
    with "1.prems" g op obtain r' where
      run: "evaluate fv ctxt (depth + 1) budget (dict_get (items_of c) ''condition'') = Inr (r', budget')" and
      r: "r = negate r'"
      by (auto simp: unfold(1) bind_result_Inr_iff)
    from "1.IH"(2) [OF g op refl _ neg run] neg op r show ?thesis by (auto simp: unfold(2))
  next
    case leaf
    with "1.prems" g op show ?thesis by (auto simp: unfold)
  qed
next
  case (2 fv ctxt depth budget)
  then show ?case by simp
next
  case (3 fv ctxt depth budget c cs)
  then show ?case by (fastforce simp: bind_result_Inr_iff)
qed

text \<open>A check without errors counts every comparison once and stays within the limits.\<close>

lemma checked_condition_runs:
  "condition_errors path depth count c = Inr ([], count') \<Longrightarrow>
     count < count' \<and> count' \<le> MAX_COMPARISONS \<and>
     (\<exists>r. evaluate fv ctxt depth (MAX_COMPARISONS - count) c = Inr (r, MAX_COMPARISONS - count'))"
  "children_errors path depth count index cs = Inr ([], count') \<Longrightarrow>
     cs \<noteq> [] \<or> count \<le> MAX_COMPARISONS \<Longrightarrow>
     count + length cs \<le> count' \<and> count' \<le> MAX_COMPARISONS \<and>
     (\<exists>rs. evaluate_items fv ctxt depth (MAX_COMPARISONS - count) cs = Inr (rs, MAX_COMPARISONS - count'))"
proof (induction path depth count c and path depth count index cs
    arbitrary: count' and count' rule: condition_errors_children_errors.induct)
  case (1 path depth count c)
  note unfold = condition_errors.simps [of path depth count c]
    evaluate.simps [of fv ctxt depth "MAX_COMPARISONS - count" c]
  from "1.prems" have g: "\<not> depth > MAX_DEPTH" by (auto simp: unfold(1) split: if_splits)
  from "1.prems" g obtain op where op: "operator_of c = Inr (Some op)"
    by (auto simp: unfold(1) split: sum.splits option.splits)
  consider (comb) "op \<in> {''all'', ''any''}" | (neg) "op = ''not''"
    | (leaf) "op \<notin> {''all'', ''any'', ''not''}" by blast
  then show ?case
  proof cases
    case comb
    with "1.prems" g op obtain cs where cs: "child_conditions c = Some cs" and
      run: "children_errors path (depth + 1) count 0 cs = Inr ([], count')"
      by (auto simp: unfold(1) split: option.splits)
    have "cs \<noteq> []" using child_conditions_length [OF cs] by auto
    with "1.IH"(1) [OF g op refl comb cs run] g op comb cs show ?thesis
      using child_conditions_length [OF cs] by (auto simp: unfold(2))
  next
    case neg
    with "1.prems" g op have
      "condition_errors (path @ ''.condition'') (depth + 1) count (dict_get (items_of c) ''condition'')
         = Inr ([], count')"
      by (auto simp: unfold(1))
    from "1.IH"(2) [OF g op refl _ neg this] neg g op show ?thesis by (auto simp: unfold(2))
  next
    case leaf
    with "1.prems" g op have "count < MAX_COMPARISONS" "count' = count + 1"
      by (auto simp: unfold(1) MAX_COMPARISONS_def split: if_splits)
    with leaf g op show ?thesis by (auto simp: unfold(2))
  qed
next
  case (2 path depth count index)
  then show ?case by simp
next
  case (3 path depth count index c cs)
  then obtain mid where
    "condition_errors (path @ ''.conditions['' @ str_nat index @ '']'') depth count c = Inr ([], mid)"
    "children_errors path depth mid (index + 1) cs = Inr ([], count')"
    by (auto simp: bind_result_Inr_iff)
  with 3 show ?case by fastforce
qed

text \<open>C33. The evaluation of a playbook condition agrees with its meaning and is bounded:
whenever \<open>evaluate\<close> returns, the verdict is the one of the reference semantics, which knows
neither budget nor depth, and between 1 and 100 comparisons were made.\<close>

theorem evaluate_condition_agrees:
  assumes "evaluate_condition fv condition ctxt = Inr r"
  shows "matched r = holds fv ctxt condition \<and> 1 \<le> comparisons r \<and> comparisons r \<le> 100"
proof -
  obtain budget where "evaluate fv ctxt 0 MAX_COMPARISONS condition = Inr (r, budget)"
    using assms by (auto simp: evaluate_condition_def bind_result_Inr_iff)
  from evaluate_sound(1) [OF this] show ?thesis by (simp add: MAX_COMPARISONS_def)
qed

text \<open>A severity test, and a condition of the alert's class or its absence.\<close>

definition demo_condition :: pyvalue where
  "demo_condition =
     PDict [(''operator'', PStr ''all''),
            (''conditions'', PList
               [PDict [(''operator'', PStr ''equals''), (''left'', PStr ''${trigger.severity}''),
                       (''right'', PStr ''HIGH''), (''case_sensitive'', PBool False)],
                PDict [(''operator'', PStr ''not''),
                       (''condition'', PDict [(''operator'', PStr ''exists''),
                                              (''left'', PStr ''${trigger.owner}'')])]])]"

definition demo_context :: "(string \<times> pyvalue) list" where
  "demo_context = [(''trigger'', PDict [(''severity'', PStr ''high'')])]"

definition no_floats :: "string \<Rightarrow> py_float" where
  "no_floats t = NaN"

theorem evaluate_condition_agrees_witness:
  "\<exists>r. evaluate_condition no_floats demo_condition demo_context = Inr r \<and>
     matched r = holds no_floats demo_context demo_condition \<and> comparisons r \<le> 100"
proof -
  have "\<not> isl (evaluate_condition no_floats demo_condition demo_context)" by code_simp
  then obtain r where r: "evaluate_condition no_floats demo_condition demo_context = Inr r"
    by (cases "evaluate_condition no_floats demo_condition demo_context") auto
  show ?thesis using evaluate_condition_agrees [OF r] r by blast
qed

text \<open>C32. A condition that passes the static check of the playbook validator is always evaluated
to a verdict: in every context \<open>evaluate\<close> returns, it raises no depth, budget, operator or
arity error, and it makes exactly as many comparisons as the check counted.\<close>

theorem checked_condition_never_raises:
  assumes "condition_errors path 0 0 condition = Inr ([], count)"
  shows "\<exists>r. evaluate_condition fv condition ctxt = Inr r \<and> comparisons r = count \<and>
             matched r = holds fv ctxt condition"
proof -
  obtain r where run: "evaluate fv ctxt 0 (MAX_COMPARISONS - 0) condition = Inr (r, MAX_COMPARISONS - count)"
    and le: "count \<le> MAX_COMPARISONS"
    using checked_condition_runs(1) [OF assms] by blast
  then have "comparisons r = count" "matched r = holds fv ctxt condition"
    using evaluate_sound(1) [OF run] by auto
  with run show ?thesis by (simp add: evaluate_condition_def)
qed

theorem checked_condition_never_raises_witness:
  "condition_errors ''steps[0].condition'' 0 0 demo_condition = Inr ([], 2) \<and>
   (\<exists>r. evaluate_condition no_floats demo_condition demo_context = Inr r \<and> comparisons r = 2)"
proof -
  have c: "condition_errors ''steps[0].condition'' 0 0 demo_condition = Inr ([], 2)" by code_simp
  show ?thesis using c checked_condition_never_raises [OF c] by blast
qed

end
