(* ===== verification/Soar_Validation.thy ===== *)
theory Soar_Validation
  imports Soar_Catalog Soar_Graph Soar_Conditions Access_Store "HOL-Library.Product_Lexorder"
begin

text \<open>
  The validation of playbook definitions (\<open>modules/soar/validation.py\<close>): the static checks of the
  steps, the graph of their routes, and the summary. A malformed definition can make the validator
  itself raise, so its result is an \<open>exn\<close> or a summary. What a float denotes and SHA-256 are
  arguments.
\<close>

section \<open>Limits and names\<close>

definition MAX_DEFINITION_BYTES :: nat where "MAX_DEFINITION_BYTES = 512 * 1024"
definition MAX_STEPS :: nat where "MAX_STEPS = 50"
definition MAX_VARIABLES :: nat where "MAX_VARIABLES = 100"
definition MAX_BRANCHES :: nat where "MAX_BRANCHES = 20"
definition MAX_DELAY_SECONDS :: int where "MAX_DELAY_SECONDS = 24 * 3600"
definition MAX_RETRY_DELAY_SECONDS :: int where "MAX_RETRY_DELAY_SECONDS = 3600"
definition MAX_TOTAL_SECONDS :: int where "MAX_TOTAL_SECONDS = 72 * 3600"

definition STEP_TYPES :: "string list" where
  "STEP_TYPES = [''action'', ''approval'', ''condition'', ''analyst_input'', ''delay'', ''notification'',
     ''case_workflow'', ''evidence_snapshot'', ''end'']"

definition FORBIDDEN_KEYS :: "string list" where
  "FORBIDDEN_KEYS = [''command'', ''shell'', ''url'', ''webhook'', ''callable'', ''module'', ''python'',
     ''javascript'', ''sql'', ''query'', ''executable'', ''script'', ''headers'', ''http_method'']"

definition KEY_RE :: "string \<Rightarrow> bool" where
  "KEY_RE s = (case s of
      [] \<Rightarrow> False
    | c # cs \<Rightarrow> (is_upper c \<or> is_lower c) \<and> length cs \<le> 99 \<and>
                list_all (\<lambda>x. is_alnum x \<or> x = CHR ''_'' \<or> x = CHR ''-'') cs)"

definition content_hash :: "(string \<Rightarrow> string) \<Rightarrow> pyvalue \<Rightarrow> string" where
  "content_hash sha v = sha (canonical v)"


section \<open>Errors and warnings\<close>

record soar_issue = soar_error +
  se_step_key :: "string option"

definition issue :: "string \<Rightarrow> string \<Rightarrow> string option \<Rightarrow> string \<Rightarrow> soar_issue" where
  "issue code path step_key message =
     \<lparr>se_code = code, se_path = path, se_message = message, se_step_key = step_key\<rparr>"

definition bad :: "string \<Rightarrow> string \<Rightarrow> soar_issue" where
  "bad path message = issue ''SOAR_PLAYBOOK_INVALID'' path None message"

definition bad_step :: "string \<Rightarrow> string \<Rightarrow> string \<Rightarrow> soar_issue" where
  "bad_step path key message = issue ''SOAR_PLAYBOOK_INVALID'' path (Some key) message"

definition condition_issue :: "soar_error \<Rightarrow> soar_issue" where
  "condition_issue e = issue (se_code e) (se_path e) None (se_message e)"

definition unless :: "bool \<Rightarrow> soar_issue \<Rightarrow> soar_issue list" where
  "unless ok e = (if ok then [] else [e])"

lemma unless_simps [simp]: "unless True e = []" "unless False e = [e]"
  by (simp_all add: unless_def)

lemma unless_Nil [simp]: "unless ok e = [] \<longleftrightarrow> ok"
  by (simp add: unless_def)


section \<open>Reading fields\<close>

definition get_or :: "(string \<times> pyvalue) list \<Rightarrow> string \<Rightarrow> pyvalue \<Rightarrow> pyvalue" where
  "get_or d key fallback = (case map_of d key of None \<Rightarrow> fallback | Some v \<Rightarrow> v)"

text \<open>\<open>isinstance(v, int)\<close>, which booleans satisfy, and the number then.\<close>

definition as_int :: "pyvalue \<Rightarrow> int option" where
  "as_int v = (case v of PInt i \<Rightarrow> Some i | PBool b \<Rightarrow> Some (if b then 1 else 0) | _ \<Rightarrow> None)"

definition int_between :: "int \<Rightarrow> int \<Rightarrow> pyvalue \<Rightarrow> bool" where
  "int_between lo hi v = (case as_int v of None \<Rightarrow> False | Some i \<Rightarrow> lo \<le> i \<and> i \<le> hi)"

text \<open>\<open>int(v)\<close>.\<close>

definition int_of_value :: "(string \<Rightarrow> py_float) \<Rightarrow> pyvalue \<Rightarrow> int result" where
  "int_of_value fv v =
     (case v of
        PInt i \<Rightarrow> Inr i
      | PBool b \<Rightarrow> Inr (if b then 1 else 0)
      | PStr s \<Rightarrow> (case py_int s of Some i \<Rightarrow> Inr i | None \<Rightarrow> Inl (ValueError ''invalid literal for int()''))
      | PFloat t \<Rightarrow> (case fv t of
            Finite m e \<Rightarrow> Inr (truncated m e)
          | NaN \<Rightarrow> Inl (ValueError ''cannot convert float NaN to integer'')
          | _ \<Rightarrow> Inl (OverflowError ''cannot convert float infinity to integer''))
      | _ \<Rightarrow> Inl (TypeError ''int() argument must be a string or a number''))"

definition hash_checked :: "pyvalue \<Rightarrow> unit result" where
  "hash_checked v = (if unhashable v then Inl (TypeError (''unhashable type: '' @ type_name v)) else Inr ())"

definition empty_dict :: pyvalue where "empty_dict = PDict []"

text \<open>\<open>step.get("configuration", {})\<close> where it is a dictionary.\<close>

definition step_config :: "(string \<times> pyvalue) list \<Rightarrow> (string \<times> pyvalue) list option" where
  "step_config d = (case get_or d ''configuration'' empty_dict of PDict c \<Rightarrow> Some c | _ \<Rightarrow> None)"


section \<open>Forbidden keys\<close>

definition forbidden_key :: "string \<Rightarrow> bool" where
  "forbidden_key key =
     (let normalized = replace_char CHR ''-'' ''_'' (casefold key)
      in normalized \<in> set FORBIDDEN_KEYS \<or> startswith normalized ''__'')"

function walk_forbidden :: "nat \<Rightarrow> string \<Rightarrow> pyvalue \<Rightarrow> soar_issue list" where
  "walk_forbidden depth path v =
     (if depth > 12 then [bad path ''JSON nesting exceeds safe depth'']
      else case v of
        PDict d \<Rightarrow>
          concat (map (\<lambda>kv. (if forbidden_key (fst kv)
                             then [bad (path @ ''.'' @ fst kv)
                                     ''Executable, network, SQL, or internal-object fields are prohibited'']
                             else []) @ walk_forbidden (depth + 1) (path @ ''.'' @ fst kv) (snd kv)) d)
      | PList xs \<Rightarrow>
          concat (map (\<lambda>ix. walk_forbidden (depth + 1) (path @ ''['' @ str_nat (fst ix) @ '']'') (snd ix))
                   (zip [0..<length xs] xs))
      | PStr s \<Rightarrow> (if startswith s ''${'' \<and> endswith s ''}'' \<and> \<not> validate_reference (PStr s)
                  then [bad path ''Variable reference is not in an allowlisted context''] else [])
      | _ \<Rightarrow> [])"
  by pat_completeness auto
termination
  by (relation "measure (\<lambda>(depth, path, v). 13 - depth)") auto

declare walk_forbidden.simps [simp del]


section \<open>The steps\<close>

record soar_scan =
  sc_by_key :: "(string \<times> (string \<times> pyvalue) list) list"
  sc_positions :: "pyvalue list"
  sc_errors :: "soar_issue list"
  sc_warnings :: "soar_issue list"
  sc_simulations :: "string list"
  sc_approvals :: "(string \<times> int) list"
  sc_automatic :: bool
  sc_branches :: nat
  sc_evidence :: nat

definition empty_scan :: soar_scan where
  "empty_scan = \<lparr>sc_by_key = [], sc_positions = [], sc_errors = [], sc_warnings = [], sc_simulations = [],
     sc_approvals = [], sc_automatic = True, sc_branches = 0, sc_evidence = 0\<rparr>"

definition report :: "soar_issue list \<Rightarrow> soar_scan \<Rightarrow> soar_scan" where
  "report es sc = sc\<lparr>sc_errors := sc_errors sc @ es\<rparr>"

definition warn :: "soar_issue list \<Rightarrow> soar_scan \<Rightarrow> soar_scan" where
  "warn ws sc = sc\<lparr>sc_warnings := sc_warnings sc @ ws\<rparr>"

record soar_policies =
  sp_trigger_mode :: string
  sp_enabled :: "(string \<times> bool) list"
  sp_automatic :: "(string \<times> bool) list"

text \<open>Type, position, retries, delays and timeout of a step.\<close>

definition timing_errors :: "string \<Rightarrow> string \<Rightarrow> (string \<times> pyvalue) list \<Rightarrow> soar_issue list" where
  "timing_errors path key d =
     unless (int_between 0 3 (get_or d ''max_retries'' (PInt 0)))
       (bad_step (path @ ''.max_retries'') key ''Retries must be between 0 and 3'') @
     unless (int_between 0 MAX_RETRY_DELAY_SECONDS (get_or d ''retry_delay_seconds'' (PInt 0)))
       (bad_step (path @ ''.retry_delay_seconds'') key ''Retry delay exceeds one hour'') @
     unless (int_between 1 3600 (get_or d ''timeout_seconds'' (PInt 30)))
       (bad_step (path @ ''.timeout_seconds'') key ''Step timeout must be 1 to 3600 seconds'')"

definition delay_errors :: "string \<Rightarrow> string \<Rightarrow> (string \<times> pyvalue) list \<Rightarrow> soar_issue list" where
  "delay_errors path key d =
     unless (case step_config d of None \<Rightarrow> False
             | Some c \<Rightarrow> int_between 1 MAX_DELAY_SECONDS (dict_get c ''delay_seconds''))
       (bad_step (path @ ''.configuration.delay_seconds'') key ''Delay must be 1 second to 24 hours'')"

definition secret_words :: "string list" where
  "secret_words = [''password'', ''secret'', ''token'', ''mfa'', ''recovery'', ''key'']"

definition input_types :: "string list" where
  "input_types = [''short_text'', ''long_text'', ''select'', ''multi_select'', ''boolean'', ''integer'',
     ''date'', ''datetime'']"

definition field_error :: "string \<Rightarrow> string \<Rightarrow> pyvalue \<Rightarrow> soar_issue list result" where
  "field_error path key field =
     bind_result (as_dict field) (\<lambda>f. Inr (unless
       (py_str (get_or f ''type'' (PStr [])) \<in> set input_types \<and>
        \<not> list_ex (\<lambda>word. py_in word (casefold (py_str (get_or f ''name'' (PStr []))))) secret_words)
       (bad_step (path @ ''.configuration.fields'') key
          ''Secret or unsupported analyst-input fields are prohibited'')))"

fun field_errors :: "string \<Rightarrow> string \<Rightarrow> pyvalue list \<Rightarrow> soar_issue list result" where
  "field_errors path key [] = Inr []"
| "field_errors path key (f # fs) =
     bind_result (field_error path key f) (\<lambda>es. bind_result (field_errors path key fs) (\<lambda>es'. Inr (es @ es')))"

definition input_errors :: "string \<Rightarrow> string \<Rightarrow> (string \<times> pyvalue) list \<Rightarrow> soar_issue list result" where
  "input_errors path key d =
     (let fields = (case step_config d of None \<Rightarrow> PList [] | Some c \<Rightarrow> get_or c ''fields'' (PList []));
          too_many = bad_step (path @ ''.configuration.fields'') key ''Analyst input supports at most 20 fields''
      in case fields of
           PList fs \<Rightarrow> bind_result (field_errors path key fs) (\<lambda>es. Inr (unless (length fs \<le> 20) too_many @ es))
         | _ \<Rightarrow> Inr [too_many])"

definition approval_requirement_of :: "(string \<Rightarrow> py_float) \<Rightarrow> (string \<times> pyvalue) list \<Rightarrow> int result" where
  "approval_requirement_of fv d =
     bind_result (as_dict (get_or d ''configuration'' empty_dict)) (\<lambda>c.
     bind_result (int_of_value fv (get_or c ''minimum_approvals'' (PInt 1))) (\<lambda>n.
       Inr (max 1 (min 5 n))))"

text \<open>\<open>any(item.get("type") == "approval" for item in steps)\<close>.\<close>

fun any_approval :: "pyvalue list \<Rightarrow> bool result" where
  "any_approval [] = Inr False"
| "any_approval (item # items) =
     bind_result (as_dict item) (\<lambda>d. if dict_get d ''type'' = PStr ''approval'' then Inr True else any_approval items)"

definition action_types :: "string list" where
  "action_types = [''action'', ''notification'', ''case_workflow'', ''evidence_snapshot'']"

definition not_automatic :: "soar_policies \<Rightarrow> ActionDefinition \<Rightarrow> bool" where
  "not_automatic pol action \<longleftrightarrow>
     sp_trigger_mode pol = ''automatic_local'' \<and>
     (\<not> automatic_local_eligible action \<or>
      safety_classification action = ''harmless_local'' \<and> map_of (sp_automatic pol) (action_key action) \<noteq> Some True)"

definition action_errors ::
  "soar_policies \<Rightarrow> pyvalue list \<Rightarrow> string \<Rightarrow> string \<Rightarrow> ActionDefinition \<Rightarrow> soar_issue list result" where
  "action_errors pol steps path key action =
     bind_result (if safety_classification action = ''sensitive_local'' then any_approval steps else Inr True)
       (\<lambda>approved. Inr
         (unless approved
            (issue ''SOAR_APPROVAL_REQUIRED'' path (Some key) ''Sensitive actions require an approval step'') @
          unless (\<not> not_automatic pol action)
            (issue ''SOAR_ACTION_POLICY_VIOLATION'' path (Some key)
               ''Action is not explicitly policy-enabled for automatic-local execution'')))"

definition action_warnings ::
  "(string \<Rightarrow> py_float) \<Rightarrow> soar_policies \<Rightarrow> string \<Rightarrow> (string \<times> pyvalue) list \<Rightarrow> ActionDefinition \<Rightarrow> soar_issue list" where
  "action_warnings fv pol key d action =
     unless (map_of (sp_enabled pol) (action_key action) \<noteq> Some False)
       (issue ''SOAR_ACTION_DISABLED'' [] (Some key) ''Action is disabled by policy'') @
     unless (\<not> (py_truthy fv (get_or d ''max_retries'' (PInt 0)) \<and> \<not> supports_idempotency action))
       (bad_step [] key ''Retry is configured for a non-idempotent action'') @
     unless (\<not> simulation_only action)
       (issue ''SOAR_ACTION_MODE_NOT_ALLOWED'' [] (Some key) ''SIMULATION ONLY - NO EXTERNAL ACTION IS PERFORMED'') @
     unless (safety_classification action \<noteq> ''sensitive_local'')
       (issue ''SOAR_APPROVAL_REQUIRED'' [] (Some key) ''ADMINISTRATOR APPROVAL REQUIRED'')"

definition action_checks ::
  "(string \<Rightarrow> py_float) \<Rightarrow> soar_policies \<Rightarrow> pyvalue list \<Rightarrow> string \<Rightarrow> string \<Rightarrow> (string \<times> pyvalue) list \<Rightarrow>
     ActionDefinition \<Rightarrow> soar_scan \<Rightarrow> soar_scan result" where
  "action_checks fv pol steps path key d action sc =
     bind_result (action_errors pol steps path key action) (\<lambda>es. Inr
       ((warn (action_warnings fv pol key d action) (report es sc))
          \<lparr>sc_simulations := (if simulation_only action then sc_simulations sc @ [action_key action] else sc_simulations sc),
           sc_automatic := (sc_automatic sc \<and> \<not> not_automatic pol action)\<rparr>))"

definition route_fields :: "string list" where
  "route_fields = [''on_success'', ''on_failure'', ''on_timeout'']"

definition routes_of :: "(string \<Rightarrow> py_float) \<Rightarrow> (string \<times> pyvalue) list \<Rightarrow> pyvalue list" where
  "routes_of fv d = filter (py_truthy fv) (map (dict_get d) route_fields)"

definition scan_identity :: "string \<Rightarrow> string \<Rightarrow> (string \<times> pyvalue) list \<Rightarrow> soar_scan \<Rightarrow> soar_scan result" where
  "scan_identity path key d sc =
     (let step_type = dict_get d ''type'';
          sc1 = (report (unless (key \<notin> fst ` set (sc_by_key sc)) (bad_step (path @ ''.key'') key ''Duplicate stable step key'')) sc)
                  \<lparr>sc_by_key := dict_put (sc_by_key sc) key d\<rparr>
      in bind_result (hash_checked step_type) (\<lambda>_. Inr (report
           (unless (step_type \<in> PStr ` set STEP_TYPES) (bad_step (path @ ''.type'') key ''Unsupported step type'')) sc1)))"

definition scan_position ::
  "(string \<Rightarrow> py_float) \<Rightarrow> string \<Rightarrow> nat \<Rightarrow> string \<Rightarrow> (string \<times> pyvalue) list \<Rightarrow> soar_scan \<Rightarrow> soar_scan result" where
  "scan_position fv path index key d sc =
     (let position = get_or d ''position'' (PInt (int index));
          sc1 = report (unless (as_int position \<noteq> None \<and> \<not> list_ex (\<lambda>p. py_equal fv p position) (sc_positions sc))
                  (bad_step (path @ ''.position'') key ''Step positions must be unique integers'')) sc
      in bind_result (hash_checked position) (\<lambda>_. Inr (sc1\<lparr>sc_positions := position # sc_positions sc\<rparr>)))"

text \<open>The checks of the single step types.\<close>

definition kind_errors :: "string \<Rightarrow> string \<Rightarrow> (string \<times> pyvalue) list \<Rightarrow> soar_issue list result" where
  "kind_errors path key d =
     (let step_type = dict_get d ''type'' in
      if step_type = PStr ''delay'' then Inr (delay_errors path key d)
      else if step_type = PStr ''condition''
      then bind_result (condition_errors (path @ ''.condition'') 0 0 (dict_get d ''condition''))
             (\<lambda>(es, _). Inr (map condition_issue es))
      else if step_type = PStr ''analyst_input'' then input_errors path key d
      else Inr [])"

definition scan_kind ::
  "(string \<Rightarrow> py_float) \<Rightarrow> string \<Rightarrow> string \<Rightarrow> (string \<times> pyvalue) list \<Rightarrow> soar_scan \<Rightarrow> soar_scan result" where
  "scan_kind fv path key d sc =
     bind_result (kind_errors path key d) (\<lambda>es.
       let step_type = dict_get d ''type'';
           sc1 = report (timing_errors path key d @ es) sc;
           sc2 = (if step_type = PStr ''evidence_snapshot'' then sc1\<lparr>sc_evidence := sc_evidence sc1 + 1\<rparr> else sc1)
       in if step_type = PStr ''approval''
          then bind_result (approval_requirement_of fv d) (\<lambda>n. Inr (sc2\<lparr>sc_approvals := sc_approvals sc2 @ [(key, n)]\<rparr>))
          else Inr sc2)"

text \<open>An unknown action ends the checks of the step; its routes are not counted.\<close>

definition scan_action ::
  "(string \<Rightarrow> py_float) \<Rightarrow> soar_policies \<Rightarrow> pyvalue list \<Rightarrow> string \<Rightarrow> string \<Rightarrow> (string \<times> pyvalue) list \<Rightarrow>
     soar_scan \<Rightarrow> soar_scan result" where
  "scan_action fv pol steps path key d sc =
     (let count = (\<lambda>sc'. Inr (sc'\<lparr>sc_branches := sc_branches sc' + length (routes_of fv d)\<rparr>)) in
      if dict_get d ''type'' \<in> PStr ` set action_types
      then bind_result (hash_checked (dict_get d ''action_key'')) (\<lambda>_.
        case (case dict_get d ''action_key'' of PStr k \<Rightarrow> get_action k | _ \<Rightarrow> None) of
          None \<Rightarrow> Inr (report [issue ''SOAR_ACTION_UNKNOWN'' (path @ ''.action_key'') (Some key)
                           ''Action key is not in the server-owned catalog''] sc)
        | Some action \<Rightarrow> bind_result (action_checks fv pol steps path key d action sc) count)
      else count sc)"

definition scan_step ::
  "(string \<Rightarrow> py_float) \<Rightarrow> soar_policies \<Rightarrow> pyvalue list \<Rightarrow> nat \<Rightarrow> pyvalue \<Rightarrow> soar_scan \<Rightarrow> soar_scan result" where
  "scan_step fv pol steps index step sc =
     (let path = ''steps['' @ str_nat index @ '']'';
          no_key = report [bad (path @ ''.key'') ''Stable step key is invalid''] sc
      in case step of
           PDict d \<Rightarrow>
             (case dict_get d ''key'' of
                PStr key \<Rightarrow>
                  if KEY_RE key
                  then bind_result (scan_identity path key d sc) (\<lambda>sc1.
                       bind_result (scan_position fv path index key d sc1) (\<lambda>sc2.
                       bind_result (scan_kind fv path key d sc2) (scan_action fv pol steps path key d)))
                  else Inr no_key
              | _ \<Rightarrow> Inr no_key)
         | _ \<Rightarrow> Inr (report [bad path ''Step must be an object''] sc))"

fun scan_steps ::
  "(string \<Rightarrow> py_float) \<Rightarrow> soar_policies \<Rightarrow> pyvalue list \<Rightarrow> nat \<Rightarrow> pyvalue list \<Rightarrow> soar_scan \<Rightarrow> soar_scan result" where
  "scan_steps fv pol steps index [] sc = Inr sc"
| "scan_steps fv pol steps index (step # rest) sc =
     bind_result (scan_step fv pol steps index step sc) (scan_steps fv pol steps (index + 1) rest)"


section \<open>The routes\<close>

fun route_errors :: "string list \<Rightarrow> string \<Rightarrow> pyvalue list \<Rightarrow> soar_issue list result" where
  "route_errors keys key [] = Inr []"
| "route_errors keys key (target # targets) =
     (if target = PStr key
      then bind_result (route_errors keys key targets) (\<lambda>es. Inr (bad_step [] key ''Self-loop is prohibited'' # es))
      else bind_result (hash_checked target) (\<lambda>_. bind_result (route_errors keys key targets) (\<lambda>es.
             Inr (unless (target \<in> PStr ` set keys)
                    (bad_step [] key (''Route target '' @ py_repr target @ '' does not exist'')) @ es))))"

fun routes_errors ::
  "(string \<Rightarrow> py_float) \<Rightarrow> string list \<Rightarrow> (string \<times> (string \<times> pyvalue) list) list \<Rightarrow> soar_issue list result" where
  "routes_errors fv keys [] = Inr []"
| "routes_errors fv keys ((key, d) # rest) =
     bind_result (route_errors keys key (routes_of fv d)) (\<lambda>es.
     bind_result (routes_errors fv keys rest) (\<lambda>es'. Inr (es @ es')))"

definition route_warnings ::
  "(string \<Rightarrow> py_float) \<Rightarrow> (string \<times> (string \<times> pyvalue) list) list \<Rightarrow> soar_issue list" where
  "route_warnings fv by_key =
     concat (map (\<lambda>kd. unless (dict_get (snd kd) ''type'' = PStr ''end'' \<or> routes_of fv (snd kd) \<noteq> [])
                          (bad_step [] (fst kd) ''Non-terminal step has no route'')) by_key)"

definition strings_of :: "pyvalue list \<Rightarrow> string list" where
  "strings_of vs = concat (map (\<lambda>v. case v of PStr s \<Rightarrow> [s] | _ \<Rightarrow> []) vs)"

text \<open>The routes to known steps, which both searches follow.\<close>

definition adjacency_of :: "(string \<Rightarrow> py_float) \<Rightarrow> (string \<times> (string \<times> pyvalue) list) list \<Rightarrow> adjacency" where
  "adjacency_of fv by_key =
     map (\<lambda>kd. (fst kd, filter (\<lambda>t. t \<in> fst ` set by_key) (strings_of (routes_of fv (snd kd))))) by_key"

definition is_end :: "(string \<times> (string \<times> pyvalue) list) list \<Rightarrow> string \<Rightarrow> bool" where
  "is_end by_key key = (case map_of by_key key of None \<Rightarrow> False | Some d \<Rightarrow> dict_get d ''type'' = PStr ''end'')"

record soar_graph =
  sg_errors :: "soar_issue list"
  sg_unreachable :: "string list"

definition graph_checks ::
  "(string \<Rightarrow> py_float) \<Rightarrow> (string \<times> (string \<times> pyvalue) list) list \<Rightarrow> pyvalue \<Rightarrow> soar_graph result" where
  "graph_checks fv by_key start_value =
     (let keys = map fst by_key;
          start = (case start_value of PStr s \<Rightarrow> if s \<in> set keys then Some s else None | _ \<Rightarrow> None);
          adj = adjacency_of fv by_key;
          reachable = (case start of None \<Rightarrow> [] | Some s \<Rightarrow> reach adj [] [s]);
          unreachable = sort (filter (\<lambda>k. k \<notin> set reachable) keys)
      in bind_result (hash_checked start_value) (\<lambda>_.
         bind_result (routes_errors fv keys by_key) (\<lambda>es. Inr
           \<lparr>sg_errors =
              unless (start \<noteq> None) (bad ''start_step'' ''Start step does not exist'') @ es @
              map (\<lambda>k. bad_step [] k ''Step is unreachable'') unreachable @
              unless (case start of None \<Rightarrow> True | Some s \<Rightarrow> \<not> has_cycle adj s)
                (bad ''steps'' ''Cycles and recursive playbooks are prohibited'') @
              unless (list_ex (is_end by_key) reachable) (bad ''steps'' ''No reachable terminal end step''),
            sg_unreachable = unreachable\<rparr>)))"


section \<open>The normalised definition\<close>

function sorted_keys :: "pyvalue \<Rightarrow> pyvalue" where
  "sorted_keys v =
     (case v of
        PList xs \<Rightarrow> PList (map sorted_keys xs)
      | PDict d \<Rightarrow> PDict (sort_key fst (map (\<lambda>kv. (fst kv, sorted_keys (snd kv))) d))
      | _ \<Rightarrow> v)"
  by pat_completeness auto
termination
  by (relation "measure size") (auto dest: size_list_member size_dict_member simp: size_list_estimation)

declare sorted_keys.simps [simp del]

function json_ok :: "pyvalue \<Rightarrow> bool" where
  "json_ok v =
     (case v of
        PList xs \<Rightarrow> list_all json_ok xs
      | PDict d \<Rightarrow> list_all (\<lambda>kv. json_ok (snd kv)) d
      | POther _ \<Rightarrow> False
      | _ \<Rightarrow> True)"
  by pat_completeness auto
termination
  by (relation "measure size") (auto dest: size_list_member size_dict_member simp: size_list_estimation)

declare json_ok.simps [simp del]

text \<open>The sort key of a step: \<open>(int(item.get("position", 0)), str(item.get("key", "")))\<close>.\<close>

definition step_sort_key :: "(string \<Rightarrow> py_float) \<Rightarrow> pyvalue \<Rightarrow> (int \<times> string) result" where
  "step_sort_key fv item =
     bind_result (as_dict item) (\<lambda>d.
     bind_result (int_of_value fv (get_or d ''position'' (PInt 0))) (\<lambda>n.
       Inr (n, py_str (get_or d ''key'' (PStr [])))))"

fun keyed_steps :: "(string \<Rightarrow> py_float) \<Rightarrow> pyvalue list \<Rightarrow> ((int \<times> string) \<times> pyvalue) list result" where
  "keyed_steps fv [] = Inr []"
| "keyed_steps fv (item # items) =
     bind_result (step_sort_key fv item) (\<lambda>k.
     bind_result (keyed_steps fv items) (\<lambda>rest. Inr ((k, item) # rest)))"

definition normalize_definition ::
  "(string \<Rightarrow> py_float) \<Rightarrow> (string \<times> pyvalue) list \<Rightarrow> (string \<times> pyvalue) list result" where
  "normalize_definition fv d =
     (if \<not> json_ok (PDict d) then Inl (TypeError ''Object is not JSON serializable'')
      else case sorted_keys (PDict d) of
        PDict result \<Rightarrow>
          bind_result (py_iter (get_or result ''steps'' (PList []))) (\<lambda>items.
          bind_result (keyed_steps fv items) (\<lambda>keyed.
            Inr (dict_put result ''steps'' (PList (map snd (sort_key fst keyed))))))
      | _ \<Rightarrow> Inr [])"


section \<open>The summary\<close>

record soar_validation =
  sv_valid :: bool
  sv_errors :: "soar_issue list"
  sv_warnings :: "soar_issue list"
  sv_normalized :: "(string \<times> pyvalue) list"
  sv_complexity :: nat
  sv_approvals :: "(string \<times> int) list"
  sv_simulations :: "string list"
  sv_automatic :: bool
  sv_seconds :: int
  sv_bounded :: bool
  sv_unreachable :: "string list"
  sv_sha256 :: string

definition validation_result ::
  "(string \<Rightarrow> string) \<Rightarrow> bool \<Rightarrow> soar_issue list \<Rightarrow> soar_issue list \<Rightarrow> (string \<times> pyvalue) list \<Rightarrow>
     (string \<times> int) list \<Rightarrow> string list \<Rightarrow> bool \<Rightarrow> string list \<Rightarrow> int \<Rightarrow> soar_validation" where
  "validation_result sha ok es ws normalized approvals simulations auto unreachable estimated =
     \<lparr>sv_valid = ok, sv_errors = take 100 es, sv_warnings = take 100 ws, sv_normalized = normalized,
      sv_complexity = min 100 ((case get_or normalized ''steps'' (PList []) of PList xs \<Rightarrow> length xs | _ \<Rightarrow> 0) * 2
                               + length approvals * 3 + length simulations * 2),
      sv_approvals = approvals, sv_simulations = simulations, sv_automatic = (auto \<and> ok),
      sv_seconds = estimated, sv_bounded = (estimated \<le> MAX_TOTAL_SECONDS), sv_unreachable = unreachable,
      sv_sha256 = content_hash sha (PDict normalized)\<rparr>"

definition int_or :: "int \<Rightarrow> pyvalue \<Rightarrow> int" where
  "int_or n v = (case as_int v of None \<Rightarrow> n | Some i \<Rightarrow> i)"

definition step_seconds :: "(string \<times> pyvalue) list \<Rightarrow> int" where
  "step_seconds d =
     (if dict_get d ''type'' = PStr ''delay''
      then (case step_config d of None \<Rightarrow> 0 | Some c \<Rightarrow> int_or 0 (get_or c ''delay_seconds'' (PInt 0)))
      else 0)
     + int_or 30 (get_or d ''timeout_seconds'' (PInt 30)) * (1 + int_or 0 (get_or d ''max_retries'' (PInt 0)))"

definition estimated_seconds :: "pyvalue list \<Rightarrow> int" where
  "estimated_seconds steps = sum_list (map (\<lambda>s. case s of PDict d \<Rightarrow> step_seconds d | _ \<Rightarrow> 0) steps)"

definition supported_root :: "string list" where
  "supported_root = [''start_step'', ''variables'', ''constants'', ''steps'', ''description'']"

definition step_list :: "(string \<times> pyvalue) list \<Rightarrow> pyvalue list option" where
  "step_list d = (case dict_get d ''steps'' of
      PList xs \<Rightarrow> if 1 \<le> length xs \<and> length xs \<le> MAX_STEPS then Some xs else None
    | _ \<Rightarrow> None)"

definition size_errors :: "pyvalue \<Rightarrow> soar_issue list" where
  "size_errors definition =
     unless (json_ok definition) (bad ''definition'' ''Definition must be JSON-compatible'') @
     unless ((if json_ok definition then length (canonical definition) else 0) \<le> MAX_DEFINITION_BYTES)
       (bad ''definition'' ''Definition exceeds 512 KiB'')"

definition root_errors :: "(string \<times> pyvalue) list \<Rightarrow> soar_issue list" where
  "root_errors d =
     size_errors (PDict d) @ walk_forbidden 0 ''definition'' (PDict d) @
     concat (map (\<lambda>kv. unless (fst kv \<in> set supported_root) (bad (fst kv) ''Unsupported root field'')) d) @
     unless (case get_or d ''variables'' empty_dict of PDict vs \<Rightarrow> length vs \<le> MAX_VARIABLES | _ \<Rightarrow> False)
       (bad ''variables'' ''Variables must be an object with at most 100 entries'') @
     unless (step_list d \<noteq> None) (bad ''steps'' ''Playbook requires 1 to 50 steps'')"

definition validate_definition ::
  "(string \<Rightarrow> py_float) \<Rightarrow> (string \<Rightarrow> string) \<Rightarrow> soar_policies \<Rightarrow> pyvalue \<Rightarrow> soar_validation result" where
  "validate_definition fv sha pol definition =
     (case definition of
        PDict d \<Rightarrow>
          (let steps = (case step_list d of None \<Rightarrow> [] | Some xs \<Rightarrow> xs);
               seconds_needed = estimated_seconds steps
           in bind_result (scan_steps fv pol steps 0 steps empty_scan) (\<lambda>sc.
              bind_result (graph_checks fv (sc_by_key sc) (dict_get d ''start_step'')) (\<lambda>graph.
              bind_result (normalize_definition fv d) (\<lambda>normalized.
                let errors =
                      root_errors d @ sc_errors sc @
                      unless (sc_branches sc \<le> MAX_BRANCHES) (bad ''steps'' ''Branch count exceeds 20'') @
                      unless (sc_evidence sc \<le> 25) (bad ''steps'' ''Evidence snapshot count exceeds 25'') @
                      sg_errors graph @
                      unless (seconds_needed \<le> MAX_TOTAL_SECONDS)
                        (bad ''steps'' ''Estimated maximum execution path exceeds 72 hours'')
                in Inr (validation_result sha (errors = []) errors
                     (sc_warnings sc @ route_warnings fv (sc_by_key sc)) normalized (sc_approvals sc)
                     (sort (remdups (sc_simulations sc))) (sc_automatic sc) (sg_unreachable graph) seconds_needed)))))
      | _ \<Rightarrow>
          (let errors = size_errors definition in
           Inr (validation_result sha False
             (if errors = [] then [bad ''definition'' ''Definition must be an object''] else errors)
             [] [] [] [] False [] 0)))"

end
