(* ===== verification/Soar_Store.thy ===== *)
theory Soar_Store
  imports Soar_Validation Roles Audit_Log
begin

text \<open>
  The tables of the playbook engine (\<open>modules/soar/models.py\<close>) and the state its operations
  transform: its own tables, the access-control database, and the tables of the other modules,
  which are an argument type. Columns that hold JSON text hold the decoded value.
\<close>

section \<open>Tables\<close>

record soar_action_policy =
  pl_id :: nat
  pl_action_key :: string
  pl_enabled :: bool
  pl_automatic_local_allowed :: bool
  pl_approval_required_override :: "bool option"
  pl_requester_approver_separation_required :: bool
  pl_maximum_retries_override :: "nat option"
  pl_notes :: "string option"
  pl_system_owned :: bool
  pl_updated_by_user_id :: "nat option"
  pl_created_at :: time
  pl_updated_at :: time

record soar_playbook =
  pb_id :: nat
  pb_playbook_uuid :: string
  pb_name :: string
  pb_normalized_name :: string
  pb_description :: string
  pb_category :: string
  pb_lifecycle_status :: string
  pb_trigger_mode :: string
  pb_severity_threshold :: "string option"
  pb_enabled :: bool
  pb_system_owned :: bool
  pb_demo_owned :: bool
  pb_current_version :: nat
  pb_owner_user_id :: "nat option"
  pb_created_by_user_id :: nat
  pb_activated_by_user_id :: "nat option"
  pb_activated_at :: "time option"
  pb_disabled_at :: "time option"
  pb_archived_at :: "time option"
  pb_last_validated_at :: "time option"
  pb_validation_status :: "string option"
  pb_last_executed_at :: "time option"
  pb_execution_count :: nat
  pb_successful_execution_count :: nat
  pb_failed_execution_count :: nat
  pb_optimistic_lock_version :: nat
  pb_created_at :: time
  pb_updated_at :: time

record soar_playbook_version =
  pv_id :: nat
  pv_playbook_id :: nat
  pv_version_number :: nat
  pv_definition :: pyvalue
  pv_normalized_definition :: "(string \<times> pyvalue) list"
  pv_content_sha256 :: string
  pv_change_summary :: string
  pv_created_by_user_id :: nat
  pv_created_at :: time

record soar_trigger_rule =
  tg_id :: nat
  tg_playbook_id :: nat
  tg_name :: string
  tg_source_type :: string
  tg_conditions :: pyvalue
  tg_proposal_only :: bool
  tg_automatic_local :: bool
  tg_cooldown_minutes :: nat
  tg_maximum_proposals_per_hour :: nat
  tg_enabled :: bool
  tg_created_by_user_id :: nat
  tg_created_at :: time
  tg_updated_at :: time

record soar_execution =
  ex_id :: nat
  ex_execution_uuid :: string
  ex_playbook_id :: nat
  ex_playbook_version :: nat
  ex_trigger_rule_id :: "nat option"
  ex_trigger_source_type :: string
  ex_trigger_source_id :: "nat option"
  ex_idempotency_key :: string
  ex_mode :: string
  ex_status :: string
  ex_requested_by_user_id :: "nat option"
  ex_approved_by_user_id :: "nat option"
  ex_current_step_key :: "string option"
  ex_input_context :: pyvalue
  ex_variable_state :: pyvalue
  ex_error_code :: "string option"
  ex_error_summary :: "string option"
  ex_records_created :: nat
  ex_records_updated :: nat
  ex_simulated_action_count :: nat
  ex_retry_count :: nat
  ex_started_at :: "time option"
  ex_completed_at :: "time option"
  ex_cancelled_at :: "time option"
  ex_cancellation_reason :: "string option"
  ex_expires_at :: "time option"
  ex_next_resume_at :: "time option"
  ex_demo_owned :: bool
  ex_created_at :: time

record soar_step_execution =
  sr_id :: nat
  sr_execution_id :: nat
  sr_step_key :: string
  sr_step_name :: string
  sr_step_type :: string
  sr_action_key :: "string option"
  sr_sequence_number :: nat
  sr_attempt_number :: nat
  sr_idempotency_key :: string
  sr_status :: string
  sr_input_snapshot :: pyvalue
  sr_output_snapshot :: pyvalue
  sr_redacted_input_summary :: string
  sr_redacted_output_summary :: "string option"
  sr_error_code :: "string option"
  sr_error_summary :: "string option"
  sr_started_at :: "time option"
  sr_completed_at :: "time option"
  sr_created_at :: time

record soar_execution_event =
  ee_id :: nat
  ee_execution_id :: nat
  ee_step_execution_id :: "nat option"
  ee_event_type :: string
  ee_previous_status :: "string option"
  ee_new_status :: "string option"
  ee_actor_user_id :: "nat option"
  ee_summary :: string
  ee_metadata :: pyvalue
  ee_created_at :: time

record soar_approval =
  pa_id :: nat
  pa_approval_uuid :: string
  pa_execution_id :: nat
  pa_step_execution_id :: nat
  pa_approval_type :: string
  pa_required_permission :: string
  pa_minimum_approvals :: nat
  pa_requester_user_id :: nat
  pa_assigned_to_user_id :: "nat option"
  pa_assigned_role_name :: "string option"
  pa_status :: string
  pa_request_reason :: string
  pa_request_context :: pyvalue
  pa_separation_required :: bool
  pa_expires_at :: "time option"
  pa_decided_at :: "time option"
  pa_created_at :: time

record soar_approval_decision =
  pd_id :: nat
  pd_approval_id :: nat
  pd_decision :: string
  pd_decided_by_user_id :: nat
  pd_decision_note :: string
  pd_created_at :: time

record soar_analyst_input =
  ai_id :: nat
  ai_input_uuid :: string
  ai_execution_id :: nat
  ai_step_execution_id :: nat
  ai_title :: string
  ai_instructions :: string
  ai_schema :: pyvalue
  ai_response :: "pyvalue option"
  ai_required_fields :: pyvalue
  ai_requested_from_user_id :: "nat option"
  ai_requested_from_role :: string
  ai_submitted_by_user_id :: "nat option"
  ai_status :: string
  ai_requested_at :: time
  ai_submitted_at :: "time option"
  ai_expires_at :: "time option"

record soar_rollback_record =
  rb_id :: nat
  rb_rollback_uuid :: string
  rb_execution_id :: nat
  rb_source_step_execution_id :: nat
  rb_compensating_action_key :: "string option"
  rb_status :: string
  rb_before_state :: pyvalue
  rb_intended_after_state :: "pyvalue option"
  rb_actual_after_state :: "pyvalue option"
  rb_reason :: string
  rb_requested_by_user_id :: nat
  rb_approved_by_user_id :: "nat option"
  rb_executed_by_user_id :: "nat option"
  rb_error_summary :: "string option"
  rb_created_at :: time
  rb_completed_at :: "time option"


section \<open>The state\<close>

record 'w soar_db =
  so_access :: db
  so_policies :: "soar_action_policy list"
  so_playbooks :: "soar_playbook list"
  so_versions :: "soar_playbook_version list"
  so_triggers :: "soar_trigger_rule list"
  so_executions :: "soar_execution list"
  so_step_runs :: "soar_step_execution list"
  so_events :: "soar_execution_event list"
  so_approvals :: "soar_approval list"
  so_decisions :: "soar_approval_decision list"
  so_inputs :: "soar_analyst_input list"
  so_rollbacks :: "soar_rollback_record list"
  so_others :: 'w

definition set_pl_id :: "nat \<Rightarrow> soar_action_policy \<Rightarrow> soar_action_policy" where "set_pl_id i r = r\<lparr>pl_id := i\<rparr>"
definition set_pb_id :: "nat \<Rightarrow> soar_playbook \<Rightarrow> soar_playbook" where "set_pb_id i r = r\<lparr>pb_id := i\<rparr>"
definition set_pv_id :: "nat \<Rightarrow> soar_playbook_version \<Rightarrow> soar_playbook_version" where "set_pv_id i r = r\<lparr>pv_id := i\<rparr>"
definition set_ex_id :: "nat \<Rightarrow> soar_execution \<Rightarrow> soar_execution" where "set_ex_id i r = r\<lparr>ex_id := i\<rparr>"
definition set_sr_id :: "nat \<Rightarrow> soar_step_execution \<Rightarrow> soar_step_execution" where "set_sr_id i r = r\<lparr>sr_id := i\<rparr>"
definition set_ee_id :: "nat \<Rightarrow> soar_execution_event \<Rightarrow> soar_execution_event" where "set_ee_id i r = r\<lparr>ee_id := i\<rparr>"
definition set_pa_id :: "nat \<Rightarrow> soar_approval \<Rightarrow> soar_approval" where "set_pa_id i r = r\<lparr>pa_id := i\<rparr>"
definition set_pd_id :: "nat \<Rightarrow> soar_approval_decision \<Rightarrow> soar_approval_decision" where "set_pd_id i r = r\<lparr>pd_id := i\<rparr>"
definition set_ai_id :: "nat \<Rightarrow> soar_analyst_input \<Rightarrow> soar_analyst_input" where "set_ai_id i r = r\<lparr>ai_id := i\<rparr>"
definition set_rb_id :: "nat \<Rightarrow> soar_rollback_record \<Rightarrow> soar_rollback_record" where "set_rb_id i r = r\<lparr>rb_id := i\<rparr>"

lemmas set_soar_id_defs = set_pl_id_def set_pb_id_def set_pv_id_def set_ex_id_def set_sr_id_def set_ee_id_def
  set_pa_id_def set_pd_id_def set_ai_id_def set_rb_id_def

interpretation policy_table: table_rows pl_id set_pl_id
  by unfold_locales (simp add: set_soar_id_defs)

interpretation playbook_table: table_rows pb_id set_pb_id
  by unfold_locales (simp add: set_soar_id_defs)

interpretation version_table: table_rows pv_id set_pv_id
  by unfold_locales (simp add: set_soar_id_defs)

interpretation execution_table: table_rows ex_id set_ex_id
  by unfold_locales (simp add: set_soar_id_defs)

interpretation step_run_table: table_rows sr_id set_sr_id
  by unfold_locales (simp add: set_soar_id_defs)

interpretation approval_request_table: table_rows pa_id set_pa_id
  by unfold_locales (simp add: set_soar_id_defs)

interpretation decision_table: table_rows pd_id set_pd_id
  by unfold_locales (simp add: set_soar_id_defs)

interpretation input_table: table_rows ai_id set_ai_id
  by unfold_locales (simp add: set_soar_id_defs)

interpretation rollback_table: table_rows rb_id set_rb_id
  by unfold_locales (simp add: set_soar_id_defs)


section \<open>Outside functions\<close>

text \<open>What an action on the tables of another module returns; it may also raise.\<close>

record local_outcome =
  lo_record_id :: "nat option"
  lo_before_state :: pyvalue
  lo_created :: nat
  lo_updated :: nat
  lo_variables :: "pyvalue option"
  lo_notifications :: "notification list"

text \<open>
  The request context, the value of a float's text, the random identifiers (one per table and row),
  the session of the request, and the two parts of the dispatcher that work on the tables of other
  modules: reading a context and performing a local action.
\<close>

record 'w soar_env =
  sn_cx :: ctx
  sn_fv :: "string \<Rightarrow> py_float"
  sn_uuid :: "string \<Rightarrow> nat \<Rightarrow> string"
  sn_current_session_id :: "nat option"
  sn_read_context :: "string \<Rightarrow> int \<Rightarrow> 'w soar_db \<Rightarrow> (string \<times> pyvalue) list result"
  sn_local_action :: "ActionDefinition \<Rightarrow> (string \<times> pyvalue) list \<Rightarrow> soar_execution \<Rightarrow> soar_step_execution \<Rightarrow>
                        user_account \<Rightarrow> 'w \<Rightarrow> local_outcome result \<times> 'w"

definition sn_now :: "'w soar_env \<Rightarrow> time" where "sn_now env = cx_now (sn_cx env)"
definition sn_sha :: "'w soar_env \<Rightarrow> string \<Rightarrow> string" where "sn_sha env = sha256_hex (cx_crypto (sn_cx env))"

end
