(* ===== verification/Soar_Validity.thy ===== *)
theory Soar_Validity
  imports Soar_Validation
begin

text \<open>
  What the validation of a playbook (\<open>modules/soar/validation.py\<close>) guarantees: a definition without
  errors is a well-formed acyclic graph of checked steps, so every walk along its routes is short.
\<close>

section \<open>Well-formed playbooks\<close>

type_synonym step = "(string \<times> pyvalue) list"

definition step_key :: "step \<Rightarrow> string" where
  "step_key d = (case dict_get d ''key'' of PStr k \<Rightarrow> k | _ \<Rightarrow> [])"

definition action_of :: "step \<Rightarrow> ActionDefinition option" where
  "action_of d = (case dict_get d ''action_key'' of PStr k \<Rightarrow> get_action k | _ \<Rightarrow> None)"

definition step_ok :: "soar_policies \<Rightarrow> pyvalue list \<Rightarrow> step \<Rightarrow> bool" where
  "step_ok pol steps d \<longleftrightarrow>
     (\<exists>k. dict_get d ''key'' = PStr k) \<and> dict_get d ''type'' \<in> PStr ` set STEP_TYPES \<and>
     int_between 0 3 (get_or d ''max_retries'' (PInt 0)) \<and>
     int_between 1 3600 (get_or d ''timeout_seconds'' (PInt 30)) \<and>
     (dict_get d ''type'' = PStr ''condition'' \<longrightarrow>
        (\<exists>path n. condition_errors path 0 0 (dict_get d ''condition'') = Inr ([], n))) \<and>
     (dict_get d ''type'' \<in> PStr ` set action_types \<longrightarrow>
        (\<exists>a. action_of d = Some a \<and>
           (safety_classification a = ''sensitive_local'' \<longrightarrow> any_approval steps = Inr True) \<and>
           (sp_trigger_mode pol = ''automatic_local'' \<longrightarrow> automatic_local_eligible a)))"

definition routes_between :: "(string \<Rightarrow> py_float) \<Rightarrow> step list \<Rightarrow> (string \<times> string) set" where
  "routes_between fv ds = {(step_key d, t) | d t. d \<in> set ds \<and> PStr t \<in> set (routes_of fv d)}"

definition playbook_ok :: "(string \<Rightarrow> py_float) \<Rightarrow> soar_policies \<Rightarrow> step \<Rightarrow> step list \<Rightarrow> string \<Rightarrow> bool" where
  "playbook_ok fv pol root ds start \<longleftrightarrow>
     dict_get root ''steps'' = PList (map PDict ds) \<and> dict_get root ''start_step'' = PStr start \<and>
     length ds \<le> 50 \<and> distinct (map step_key ds) \<and> list_all (step_ok pol (map PDict ds)) ds \<and>
     list_all (\<lambda>d. set (routes_of fv d) \<subseteq> PStr ` step_key ` set ds) ds \<and>
     step_key ` set ds = {k. (start, k) \<in> (routes_between fv ds)\<^sup>*} \<and>
     acyclic (routes_between fv ds) \<and>
     (\<exists>d \<in> set ds. dict_get d ''type'' = PStr ''end'')"


section \<open>Errors only accumulate\<close>

definition reports_more :: "soar_scan \<Rightarrow> soar_scan \<Rightarrow> bool" where
  "reports_more sc sc' \<longleftrightarrow> (\<exists>es. sc_errors sc' = sc_errors sc @ es)"

lemma report_simps [simp]:
  "sc_errors (report es sc) = sc_errors sc @ es" "sc_errors (warn ws sc) = sc_errors sc"
  "sc_by_key (report es sc) = sc_by_key sc" "sc_by_key (warn ws sc) = sc_by_key sc"
  by (simp_all add: report_def warn_def)

lemma scan_identity_InrD:
  assumes "scan_identity path key d sc = Inr sc'" "sc_errors sc' = []"
  shows "sc_errors sc = [] \<and> key \<notin> fst ` set (sc_by_key sc) \<and> sc_by_key sc' = dict_put (sc_by_key sc) key d \<and>
    dict_get d ''type'' \<in> PStr ` set STEP_TYPES"
  using assms by (clarsimp simp: scan_identity_def Let_def bind_result_Inr_iff)

lemma scan_position_InrD:
  assumes "scan_position fv path index key d sc = Inr sc'" "sc_errors sc' = []"
  shows "sc_errors sc = [] \<and> sc_by_key sc' = sc_by_key sc"
  using assms by (auto simp: scan_position_def Let_def bind_result_Inr_iff)

lemma condition_issue_Nil [simp]: "map condition_issue es = [] \<longleftrightarrow> es = []"
  by simp

lemma scan_kind_InrD:
  assumes "scan_kind fv path key d sc = Inr sc'" "sc_errors sc' = []"
  shows "sc_errors sc = [] \<and> sc_by_key sc' = sc_by_key sc \<and> timing_errors path key d = [] \<and>
    kind_errors path key d = Inr []"
  using assms by (auto simp: scan_kind_def Let_def bind_result_Inr_iff split: if_splits)

lemma kind_errors_condition:
  "kind_errors path key d = Inr [] \<Longrightarrow> dict_get d ''type'' = PStr ''condition'' \<Longrightarrow>
     \<exists>n. condition_errors (path @ ''.condition'') 0 0 (dict_get d ''condition'') = Inr ([], n)"
  by (auto simp: kind_errors_def bind_result_Inr_iff)

lemma action_checks_InrD:
  assumes "action_checks fv pol steps path key d a sc = Inr sc'" "sc_errors sc' = []"
  shows "sc_errors sc = [] \<and> sc_by_key sc' = sc_by_key sc \<and>
    (safety_classification a = ''sensitive_local'' \<longrightarrow> any_approval steps = Inr True) \<and>
    (sp_trigger_mode pol = ''automatic_local'' \<longrightarrow> automatic_local_eligible a)"
  using assms
  by (auto simp: action_checks_def action_errors_def not_automatic_def bind_result_Inr_iff split: if_splits)

lemma scan_action_InrD:
  assumes "scan_action fv pol steps path key d sc = Inr sc'" "sc_errors sc' = []"
  shows "sc_errors sc = [] \<and> sc_by_key sc' = sc_by_key sc \<and>
    (dict_get d ''type'' \<in> PStr ` set action_types \<longrightarrow>
       (\<exists>a. action_of d = Some a \<and>
          (safety_classification a = ''sensitive_local'' \<longrightarrow> any_approval steps = Inr True) \<and>
          (sp_trigger_mode pol = ''automatic_local'' \<longrightarrow> automatic_local_eligible a)))"
proof (cases "dict_get d ''type'' \<in> PStr ` set action_types")
  case False
  with assms show ?thesis by (auto simp: scan_action_def)
next
  case True
  then obtain a sc1 where a: "action_of d = Some a" and sc1: "action_checks fv pol steps path key d a sc = Inr sc1"
    and sc': "sc' = sc1\<lparr>sc_branches := sc_branches sc1 + length (routes_of fv d)\<rparr>"
    using assms
    by (auto simp: scan_action_def action_of_def bind_result_Inr_iff split: option.splits pyvalue.splits)
  from action_checks_InrD [OF sc1] assms(2) sc' a show ?thesis by auto
qed

lemma scan_step_InrD:
  assumes "scan_step fv pol steps index step sc = Inr sc'" "sc_errors sc' = []"
  shows "sc_errors sc = [] \<and> (\<exists>d. step = PDict d \<and> step_ok pol steps d \<and>
    step_key d \<notin> fst ` set (sc_by_key sc) \<and> sc_by_key sc' = dict_put (sc_by_key sc) (step_key d) d)"
proof -
  let ?path = "''steps['' @ str_nat index @ '']''"
  obtain d key sc1 sc2 sc3 where d: "step = PDict d" "dict_get d ''key'' = PStr key"
    and s1: "scan_identity ?path key d sc = Inr sc1" and s2: "scan_position fv ?path index key d sc1 = Inr sc2"
    and s3: "scan_kind fv ?path key d sc2 = Inr sc3" and s4: "scan_action fv pol steps ?path key d sc3 = Inr sc'"
    using assms
    by (auto simp: scan_step_def Let_def bind_result_Inr_iff split: pyvalue.splits if_splits)
  note a4 = scan_action_InrD [OF s4 assms(2)]
  then have "sc_errors sc3 = []" by simp
  note a3 = scan_kind_InrD [OF s3 this]
  then have "sc_errors sc2 = []" by simp
  note a2 = scan_position_InrD [OF s2 this]
  then have "sc_errors sc1 = []" by simp
  note a1 = scan_identity_InrD [OF s1 this]
  have k: "step_key d = key" using d by (simp add: step_key_def)
  have "step_ok pol steps d"
    using a1 a3 a4 d(2) kind_errors_condition [of ?path key d]
    unfolding step_ok_def timing_errors_def by auto
  with a1 a2 a3 a4 d k show ?thesis by auto
qed

lemma dict_put_new: "k \<notin> fst ` set d \<Longrightarrow> dict_put d k v = d @ [(k, v)]"
  by (induction d) auto

definition keyed :: "step list \<Rightarrow> (string \<times> step) list" where
  "keyed ds = map (\<lambda>d. (step_key d, d)) ds"

lemma scan_steps_errors:
  "scan_steps fv pol steps index items sc = Inr sc' \<Longrightarrow> sc_errors sc' = [] \<Longrightarrow> sc_errors sc = []"
proof (induction fv pol steps index items sc rule: scan_steps.induct)
  case (2 fv pol steps index item items sc)
  then show ?case using scan_step_InrD by (auto simp: bind_result_Inr_iff)
qed simp

lemma scan_steps_InrD:
  "scan_steps fv pol steps index items sc = Inr sc' \<Longrightarrow> sc_errors sc' = [] \<Longrightarrow> distinct (map fst (sc_by_key sc)) \<Longrightarrow>
     sc_errors sc = [] \<and> (\<exists>ds. items = map PDict ds \<and> list_all (step_ok pol steps) ds \<and>
       sc_by_key sc' = sc_by_key sc @ keyed ds \<and> distinct (map fst (sc_by_key sc')))"
proof (induction fv pol steps index items sc arbitrary: sc' rule: scan_steps.induct)
  case (1 fv pol steps index sc)
  then show ?case by (simp add: keyed_def)
next
  case (2 fv pol steps index item items sc)
  from 2(2) obtain sc1 where s1: "scan_step fv pol steps index item sc = Inr sc1"
    and rest: "scan_steps fv pol steps (index + 1) items sc1 = Inr sc'"
    by (auto simp: bind_result_Inr_iff)
  have errs: "sc_errors sc1 = []" using scan_steps_errors [OF rest 2(3)] .
  from scan_step_InrD [OF s1 errs] obtain d where d: "item = PDict d" "step_ok pol steps d"
    "step_key d \<notin> fst ` set (sc_by_key sc)" "sc_by_key sc1 = sc_by_key sc @ [(step_key d, d)]" "sc_errors sc = []"
    using dict_put_new by fastforce
  then have "distinct (map fst (sc_by_key sc1))" using 2(4) by auto
  from 2(1) [OF rest 2(3) this] obtain ds where "items = map PDict ds" "list_all (step_ok pol steps) ds"
    "sc_by_key sc' = sc_by_key sc1 @ keyed ds" "distinct (map fst (sc_by_key sc'))" by blast
  with d show ?case by (intro conjI exI [of _ "d # ds"]) (auto simp: keyed_def)
qed



section \<open>The graph\<close>

lemma keyed_simps [simp]:
  "map fst (keyed ds) = map step_key ds" "fst ` set (keyed ds) = step_key ` set ds" "length (keyed ds) = length ds"
  by (simp_all add: keyed_def image_image)

lemma map_of_keyed:
  "distinct (map step_key ds) \<Longrightarrow> map_of (keyed ds) k = Some d \<longleftrightarrow> d \<in> set ds \<and> step_key d = k"
  by (auto simp: keyed_def image_image intro: map_of_is_SomeI dest!: map_of_SomeD)
    (metis (no_types, lifting) comp_apply fst_conv image_eqI list.set_map map_eq_conv map_map map_of_is_SomeI)

lemma route_errors_Nil:
  "route_errors keys key targets = Inr [] \<Longrightarrow> set targets \<subseteq> PStr ` set keys"
  by (induction targets) (auto simp: bind_result_Inr_iff split: if_splits)

lemma routes_errors_Nil:
  "routes_errors fv keys (keyed ds) = Inr [] \<Longrightarrow> list_all (\<lambda>d. set (routes_of fv d) \<subseteq> PStr ` set keys) ds"
  by (induction ds) (auto simp: keyed_def bind_result_Inr_iff dest!: route_errors_Nil)

lemma set_strings_of [simp]: "set (strings_of vs) = {s. PStr s \<in> set vs}"
  by (force simp: strings_of_def split: pyvalue.splits)

lemma map_of_values: "map_of (map (\<lambda>kv. (fst kv, f (snd kv))) kvs) a = map_option f (map_of kvs a)"
  by (induction kvs) auto

lemma successors_adjacency:
  assumes "distinct (map step_key ds)"
  shows "b \<in> set (successors (adjacency_of fv (keyed ds)) a) \<longleftrightarrow>
    (\<exists>d \<in> set ds. step_key d = a \<and> PStr b \<in> set (routes_of fv d) \<and> b \<in> step_key ` set ds)"
proof -
  let ?f = "\<lambda>d. filter (\<lambda>t. t \<in> step_key ` set ds) (strings_of (routes_of fv d))"
  have m: "map_of (adjacency_of fv (keyed ds)) a = map_option ?f (map_of (keyed ds) a)"
    using map_of_values [of ?f "keyed ds" a] by (simp add: adjacency_of_def)
  show ?thesis
  proof (cases "map_of (keyed ds) a")
    case None
    then have "a \<notin> step_key ` set ds" by (metis keyed_simps(2) map_of_eq_None_iff)
    then show ?thesis by (auto simp: successors_def m None)
  next
    case (Some d)
    have d: "e \<in> set ds \<and> step_key e = a \<longleftrightarrow> e = d" for e
      using map_of_keyed [OF assms, of a e] unfolding Some by auto
    have "successors (adjacency_of fv (keyed ds)) a = ?f d" by (simp add: successors_def m Some)
    then have "b \<in> set (successors (adjacency_of fv (keyed ds)) a) \<longleftrightarrow>
        PStr b \<in> set (routes_of fv d) \<and> b \<in> step_key ` set ds"
      by (simp only: set_filter set_strings_of mem_Collect_eq)
    also have "\<dots> \<longleftrightarrow> (\<exists>e. (e \<in> set ds \<and> step_key e = a) \<and> PStr b \<in> set (routes_of fv e) \<and> b \<in> step_key ` set ds)"
      unfolding d by simp
    finally show ?thesis by (simp only: Bex_def conj_assoc)
  qed
qed

lemma edges_adjacency:
  assumes "distinct (map step_key ds)" "list_all (\<lambda>d. set (routes_of fv d) \<subseteq> PStr ` step_key ` set ds) ds"
  shows "edges (adjacency_of fv (keyed ds)) = routes_between fv ds"
  using assms(2) successors_adjacency [OF assms(1)]
  by (fastforce simp: edges_def routes_between_def list_all_iff)

lemma adjacency_closed: "distinct (map step_key ds) \<Longrightarrow> graph_closed (adjacency_of fv (keyed ds))"
  using successors_adjacency [of ds _ fv]
  by (auto simp: graph_closed_def adjacency_of_def image_image keyed_def)

lemma graph_checks_InrD:
  assumes "graph_checks fv (keyed ds) sv = Inr g" "sg_errors g = []" "distinct (map step_key ds)"
  shows "\<exists>start. sv = PStr start \<and> list_all (\<lambda>d. set (routes_of fv d) \<subseteq> PStr ` step_key ` set ds) ds \<and>
     step_key ` set ds = {k. (start, k) \<in> (routes_between fv ds)\<^sup>*} \<and> acyclic (routes_between fv ds) \<and>
     (\<exists>d \<in> set ds. dict_get d ''type'' = PStr ''end'')"
proof -
  let ?adj = "adjacency_of fv (keyed ds)"
  obtain start where start: "sv = PStr start" "start \<in> step_key ` set ds"
    and routes: "routes_errors fv (map step_key ds) (keyed ds) = Inr []"
    and all: "sort (filter (\<lambda>k. k \<notin> set (reach ?adj [] [start])) (map step_key ds)) = []"
    and cyc: "\<not> has_cycle ?adj start" and fin: "list_ex (is_end (keyed ds)) (reach ?adj [] [start])"
    using assms(1,2)
    by (auto simp: graph_checks_def Let_def bind_result_Inr_iff split: pyvalue.splits if_splits)
  have closed: "list_all (\<lambda>d. set (routes_of fv d) \<subseteq> PStr ` step_key ` set ds) ds"
    using routes_errors_Nil [OF routes] by simp
  note E = edges_adjacency [OF assms(3) closed]
  have r: "set (reach ?adj [] [start]) = {k. (start, k) \<in> (routes_between fv ds)\<^sup>*}"
    unfolding reach_exact E ..
  have "step_key ` set ds \<subseteq> set (reach ?adj [] [start])"
  proof -
    have "set (sort (filter (\<lambda>k. k \<notin> set (reach ?adj [] [start])) (map step_key ds))) = {}" unfolding all by simp
    then show ?thesis by (simp only: set_sort set_filter set_map) blast
  qed
  moreover have "b \<in> step_key ` set ds" if "(start, b) \<in> (routes_between fv ds)\<^sup>*" for b
    using that start(2) closed
    by (induction rule: rtrancl_induct) (fastforce simp: routes_between_def list_all_iff)+
  ultimately have keys: "step_key ` set ds = {k. (start, k) \<in> (routes_between fv ds)\<^sup>*}" using r by auto
  have "acyclic (routes_between fv ds)"
  proof (rule acyclicI, intro allI notI)
    fix x assume x: "(x, x) \<in> (routes_between fv ds)\<^sup>+"
    then have "x \<in> step_key ` set ds" by (cases rule: converse_tranclE) (auto simp: routes_between_def)
    then have "(start, x) \<in> (edges ?adj)\<^sup>*" using keys E by auto
    with x have "has_cycle ?adj start"
      using has_cycle_iff [OF adjacency_closed [OF assms(3)], of start fv] start(2) E
      by (auto simp: adjacency_of_def image_image keyed_def)
    with cyc show False by simp
  qed
  moreover have "\<exists>d \<in> set ds. dict_get d ''type'' = PStr ''end''"
    using fin map_of_keyed [OF assms(3)] by (force simp: list_ex_iff is_end_def split: option.splits)
  ultimately show ?thesis using start closed keys by blast
qed

lemma validation_result_simps [simp]:
  "sv_valid (validation_result sha ok es ws n ap si auto un sec) = ok"
  by (simp add: validation_result_def)

lemma validate_InrD:
  assumes "validate_definition fv sha pol root = Inr r" "sv_valid r"
  shows "\<exists>d ds start. root = PDict d \<and> playbook_ok fv pol d ds start"
proof -
  obtain d sc g where d: "root = PDict d" and errs: "root_errors d = []"
    and sc: "scan_steps fv pol (case step_list d of None \<Rightarrow> [] | Some xs \<Rightarrow> xs) 0
               (case step_list d of None \<Rightarrow> [] | Some xs \<Rightarrow> xs) empty_scan = Inr sc" "sc_errors sc = []"
    and g: "graph_checks fv (sc_by_key sc) (dict_get d ''start_step'') = Inr g" "sg_errors g = []"
    using assms
    by (auto simp: validate_definition_def Let_def bind_result_Inr_iff split: pyvalue.splits)
  obtain xs where xs: "step_list d = Some xs" using errs by (auto simp: root_errors_def)
  then have len: "dict_get d ''steps'' = PList xs" "length xs \<le> 50"
    by (auto simp: step_list_def MAX_STEPS_def split: pyvalue.splits if_splits)
  have "distinct (map fst (sc_by_key empty_scan))" by (simp add: empty_scan_def)
  from scan_steps_InrD [OF sc this] xs obtain ds where ds: "xs = map PDict ds" "list_all (step_ok pol xs) ds"
    "sc_by_key sc = keyed ds" "distinct (map step_key ds)"
    by (auto simp: empty_scan_def)
  from graph_checks_InrD [OF g [unfolded ds(3)] ds(4)] obtain start where
    "dict_get d ''start_step'' = PStr start"
    "list_all (\<lambda>d. set (routes_of fv d) \<subseteq> PStr ` step_key ` set ds) ds"
    "step_key ` set ds = {k. (start, k) \<in> (routes_between fv ds)\<^sup>*}" "acyclic (routes_between fv ds)"
    "\<exists>d \<in> set ds. dict_get d ''type'' = PStr ''end''" by blast
  with ds len d have "root = PDict d \<and> playbook_ok fv pol d ds start" by (simp add: playbook_ok_def)
  then show ?thesis by blast
qed

end
