(* ===== verification/Soar_Execution.thy ===== *)
theory Soar_Execution
  imports Soar_Store Soar_Validity
begin

text \<open>
  The execution of playbooks (\<open>modules/soar/service.py\<close>): steps, approvals, the dispatcher and the
  bounded loop \<open>run_execution\<close>. A state passed on is what the session sees; the loop also carries
  the last committed state, to which an exception rolls back. Routes and action keys that are not
  strings, which the validation refuses, end an execution here as absent ones do.
\<close>

section \<open>Values and messages\<close>

definition TERMINAL :: "string list" where
  "TERMINAL = [''completed'', ''completed_with_warnings'', ''failed'', ''cancelled'', ''rolled_back'',
     ''rollback_failed'', ''expired'']"

definition soar_http :: "nat \<Rightarrow> string \<Rightarrow> string \<Rightarrow> exn" where
  "soar_http status code message = HTTPException status (code @ '': '' @ take 500 message)"

definition dumps_bounded :: "nat \<Rightarrow> pyvalue \<Rightarrow> pyvalue result" where
  "dumps_bounded limit v =
     (if length (canonical (redact 0 v)) > limit
      then Inl (soar_http 422 ''SOAR_PLAYBOOK_INVALID'' ''JSON payload exceeds safe storage bound'')
      else Inr (sorted_keys (redact 0 v)))"

definition nat_value :: "nat option \<Rightarrow> pyvalue" where
  "nat_value n = (case n of None \<Rightarrow> PNone | Some i \<Rightarrow> PInt (int i))"

definition str_value :: "string option \<Rightarrow> pyvalue" where
  "str_value t = (case t of None \<Rightarrow> PNone | Some s \<Rightarrow> PStr s)"

text \<open>Python's \<open>a or b\<close> on values.\<close>

definition or_value :: "(string \<Rightarrow> py_float) \<Rightarrow> pyvalue \<Rightarrow> pyvalue \<Rightarrow> pyvalue" where
  "or_value fv a b = (if py_truthy fv a then a else b)"

definition log_event ::
  "'w soar_env \<Rightarrow> nat \<Rightarrow> nat option \<Rightarrow> string \<Rightarrow> string option \<Rightarrow> string option \<Rightarrow> nat option \<Rightarrow> string \<Rightarrow>
     (string \<times> pyvalue) list \<Rightarrow> 'w soar_db \<Rightarrow> 'w soar_db" where
  "log_event env eid step_id event_type previous new actor_id summary metadata s =
     s\<lparr>so_events := insert_row ee_id set_ee_id
         \<lparr>ee_id = 0, ee_execution_id = eid, ee_step_execution_id = step_id, ee_event_type = take 80 event_type,
          ee_previous_status = previous, ee_new_status = new, ee_actor_user_id = actor_id,
          ee_summary = take 1000 summary, ee_metadata = sorted_keys (redact 0 (PDict metadata)),
          ee_created_at = sn_now env\<rparr> (so_events s)\<rparr>"

definition soar_activity :: "'w soar_env \<Rightarrow> string \<Rightarrow> string \<Rightarrow> string \<Rightarrow> nat \<Rightarrow> 'w soar_db \<Rightarrow> 'w soar_db" where
  "soar_activity env action message entity_type entity_id s =
     (let a = so_access s;
          row = \<lparr>sa_id = next_id sa_id (activities a), sa_action = take 100 action, sa_message = take 500 message,
                 sa_entity_type = take 80 entity_type, sa_entity_id = Some entity_id, sa_created_at = sn_now env\<rparr>
      in s\<lparr>so_access := a\<lparr>activities := activities a @ [row]\<rparr>\<rparr>)"

definition notify_once ::
  "'w soar_env \<Rightarrow> nat \<Rightarrow> nat option \<Rightarrow> string \<Rightarrow> string \<Rightarrow> string \<Rightarrow> 'w soar_db \<Rightarrow> 'w soar_db" where
  "notify_once env eid recipient title message level s =
     (let a = so_access s in
      if list_ex (\<lambda>n. nt_entity_type n = ''soar_execution'' \<and> nt_entity_id n = Some eid \<and>
                      nt_recipient_user_id n = recipient \<and> nt_title n = take 150 title) (notifications a)
      then s
      else s\<lparr>so_access := a\<lparr>notifications := notifications a @
              [\<lparr>nt_id = next_id nt_id (notifications a), nt_title = take 150 title, nt_message = take 500 message,
                nt_type = level, nt_entity_type = ''soar_execution'', nt_entity_id = Some eid,
                nt_recipient_user_id = recipient, nt_is_read = False, nt_created_at = sn_now env\<rparr>]\<rparr>\<rparr>)"

definition upd_execution :: "nat \<Rightarrow> (soar_execution \<Rightarrow> soar_execution) \<Rightarrow> 'w soar_db \<Rightarrow> 'w soar_db" where
  "upd_execution eid f s = s\<lparr>so_executions := upd_row ex_id eid f (so_executions s)\<rparr>"

definition upd_step_run :: "nat \<Rightarrow> (soar_step_execution \<Rightarrow> soar_step_execution) \<Rightarrow> 'w soar_db \<Rightarrow> 'w soar_db" where
  "upd_step_run sid f s = s\<lparr>so_step_runs := upd_row sr_id sid f (so_step_runs s)\<rparr>"

definition upd_playbook :: "nat \<Rightarrow> (soar_playbook \<Rightarrow> soar_playbook) \<Rightarrow> 'w soar_db \<Rightarrow> 'w soar_db" where
  "upd_playbook pid f s = s\<lparr>so_playbooks := upd_row pb_id pid f (so_playbooks s)\<rparr>"

definition get_execution :: "'w soar_db \<Rightarrow> nat \<Rightarrow> soar_execution option" where
  "get_execution s eid = find_row ex_id eid (so_executions s)"

definition short_uuid :: "soar_execution \<Rightarrow> string" where
  "short_uuid x = take 16 (ex_execution_uuid x)"


section \<open>Failing an execution\<close>

definition running_step :: "'w soar_db \<Rightarrow> nat \<Rightarrow> soar_step_execution option" where
  "running_step s eid =
     latest sr_id (filter (\<lambda>r. sr_execution_id r = eid \<and> sr_status r = ''running'') (so_step_runs s))"

definition fail_execution ::
  "'w soar_env \<Rightarrow> user_account \<Rightarrow> nat \<Rightarrow> string \<Rightarrow> string \<Rightarrow> 'w soar_db \<Rightarrow> 'w soar_db" where
  "fail_execution env actor eid code summary s =
     (case get_execution s eid of
        None \<Rightarrow> s
      | Some x \<Rightarrow>
          (let last_step = running_step s eid;
               s1 = (case last_step of
                       None \<Rightarrow> s
                     | Some r \<Rightarrow> upd_step_run (sr_id r) (\<lambda>r. r\<lparr>sr_status := ''failed'', sr_error_code := Some code,
                                   sr_error_summary := Some (take 1000 summary),
                                   sr_completed_at := Some (sn_now env)\<rparr>) s);
               s2 = upd_execution eid (\<lambda>x. x\<lparr>ex_status := ''failed'', ex_error_code := Some code,
                      ex_error_summary := Some (take 1000 summary), ex_completed_at := Some (sn_now env)\<rparr>) s1;
               s3 = log_event env eid (map_option sr_id last_step) ''execution_failed'' None (Some ''failed'')
                      (Some (ua_id actor)) (take 1000 summary) [(''error_code'', PStr code)] s2;
               s4 = upd_playbook (ex_playbook_id x)
                      (\<lambda>p. p\<lparr>pb_failed_execution_count := pb_failed_execution_count p + 1\<rparr>) s3;
               s5 = notify_once env eid (ex_requested_by_user_id x) ''SOAR execution failed''
                      (''Execution '' @ short_uuid x @ '' failed safely with '' @ code @ ''.'') ''danger'' s4
           in soar_activity env ''soar_execution_failed''
                (''SOAR execution '' @ short_uuid x @ '' failed safely.'') ''soar_execution'' eid s5))"


section \<open>Steps and approvals\<close>

definition reusable_status :: "string list" where
  "reusable_status = [''succeeded'', ''simulated'', ''skipped'', ''approved'', ''waiting_approval'',
     ''waiting_input'', ''waiting_delay'']"

definition optional_key :: "pyvalue \<Rightarrow> string option result" where
  "optional_key v = (case v of
      PNone \<Rightarrow> Inr None
    | PStr s \<Rightarrow> Inr (Some s)
    | _ \<Rightarrow> Inl (TypeError ''column value is not a string''))"

definition required_key :: "string \<Rightarrow> pyvalue \<Rightarrow> string result" where
  "required_key name v = (case v of PStr s \<Rightarrow> Inr s | _ \<Rightarrow> Inl (KeyError name))"

definition create_step ::
  "'w soar_env \<Rightarrow> soar_execution \<Rightarrow> step \<Rightarrow> 'w soar_db \<Rightarrow> (soar_step_execution \<times> 'w soar_db) result" where
  "create_step env x d s =
     (let eid = ex_id x;
          idem = sn_sha env (ex_execution_uuid x @ '':'' @ step_key d);
          attempts = filter (\<lambda>r. sr_execution_id r = eid \<and> sr_idempotency_key r = idem) (so_step_runs s);
          existing = latest sr_attempt_number attempts;
          attempt = (case existing of None \<Rightarrow> 1
                     | Some r \<Rightarrow> if sr_status r = ''failed'' then sr_attempt_number r + 1 else 1);
          reused = (case existing of None \<Rightarrow> False | Some r \<Rightarrow> sr_status r \<in> set reusable_status)
      in if reused then (case existing of Some r \<Rightarrow> Inr (r, s) | None \<Rightarrow> Inl ObjectDeletedError)
         else bind_result (required_key ''type'' (dict_get d ''type'')) (\<lambda>step_type.
              bind_result (optional_key (dict_get d ''action_key'')) (\<lambda>action.
              bind_result (dumps_bounded 65536 (get_or d ''configuration'' empty_dict)) (\<lambda>snapshot.
                if list_ex (\<lambda>r. sr_attempt_number r = attempt) attempts then Inl IntegrityError
                else let run = \<lparr>sr_id = next_id sr_id (so_step_runs s), sr_execution_id = eid, sr_step_key = step_key d,
                           sr_step_name = take 200 (py_str (get_or d ''name'' (PStr (step_key d)))),
                           sr_step_type = step_type, sr_action_key = action,
                           sr_sequence_number = count_where (\<lambda>r. sr_execution_id r = eid) (so_step_runs s) + 1,
                           sr_attempt_number = attempt, sr_idempotency_key = idem, sr_status = ''running'',
                           sr_input_snapshot = snapshot, sr_output_snapshot = empty_dict,
                           sr_redacted_input_summary = ''Bounded '' @ step_type @ '' input'',
                           sr_redacted_output_summary = None, sr_error_code = None, sr_error_summary = None,
                           sr_started_at = Some (sn_now env), sr_completed_at = None, sr_created_at = sn_now env\<rparr>
                     in Inr (run, s\<lparr>so_step_runs := so_step_runs s @ [run]\<rparr>)))))"

text \<open>A reference to a user in a configuration; the database checks that it exists.\<close>

definition user_ref :: "'w soar_db \<Rightarrow> pyvalue \<Rightarrow> nat option result" where
  "user_ref s v = (case v of
      PNone \<Rightarrow> Inr None
    | PInt i \<Rightarrow> if i \<ge> 0 \<and> get_user (so_access s) (nat i) \<noteq> None then Inr (Some (nat i)) else Inl IntegrityError
    | _ \<Rightarrow> Inl (TypeError ''column value is not an integer''))"

definition expiry_hours :: "'w soar_env \<Rightarrow> (string \<times> pyvalue) list \<Rightarrow> time result" where
  "expiry_hours env config =
     bind_result (int_of_value (sn_fv env) (get_or config ''expires_hours'' (PInt 24)))
       (\<lambda>n. Inr (sn_now env + hours (min 72 (max 1 n))))"

definition is_sensitive :: "ActionDefinition option \<Rightarrow> bool" where
  "is_sensitive a = (case a of None \<Rightarrow> False | Some d \<Rightarrow> safety_classification d = ''sensitive_local'')"

definition new_approval ::
  "'w soar_env \<Rightarrow> soar_execution \<Rightarrow> soar_step_execution \<Rightarrow> ActionDefinition option \<Rightarrow> (string \<times> pyvalue) list \<Rightarrow>
     user_account \<Rightarrow> string \<Rightarrow> 'w soar_db \<Rightarrow> soar_approval result" where
  "new_approval env x run action config actor approval_type s =
     (let sensitive = is_sensitive action;
          i = next_id pa_id (so_approvals s);
          role = take 100 (py_str (get_or config ''assigned_role_name''
                   (PStr (if sensitive then ''Administrator'' else []))))
      in bind_result (int_of_value (sn_fv env) (get_or config ''minimum_approvals'' (PInt 1))) (\<lambda>n.
         bind_result (expiry_hours env config) (\<lambda>expires.
         bind_result (user_ref s (dict_get config ''assigned_to_user_id'')) (\<lambda>assigned. Inr
           \<lparr>pa_id = i, pa_approval_uuid = sn_uuid env ''soar_approvals'' i, pa_execution_id = ex_id x,
            pa_step_execution_id = sr_id run, pa_approval_type = approval_type,
            pa_required_permission = (if \<not> sensitive then ''soar:approve'' else ''soar:sensitive_actions''),
            pa_minimum_approvals = nat (max 1 (min 5 n)), pa_requester_user_id = ua_id actor,
            pa_assigned_to_user_id = assigned, pa_assigned_role_name = (if role = [] then None else Some role),
            pa_status = ''pending'',
            pa_request_reason = take 2000 (py_str (get_or config ''reason''
              (PStr ''Explicit approval required before execution''))),
            pa_request_context = PDict
              [(''action_key'', str_value (map_option action_key action)),
               (''safety_classification'', PStr (case action of None \<Rightarrow> ''approval'' | Some d \<Rightarrow> safety_classification d))],
            pa_separation_required =
              (sensitive \<or> py_truthy (sn_fv env) (get_or config ''separation_required'' (PBool False))),
            pa_expires_at = Some expires, pa_decided_at = None, pa_created_at = sn_now env\<rparr>))))"

definition approval_of_step :: "'w soar_db \<Rightarrow> nat \<Rightarrow> nat \<Rightarrow> soar_approval option" where
  "approval_of_step s eid sid =
     latest pa_id (filter (\<lambda>a. pa_execution_id a = eid \<and> pa_step_execution_id a = sid) (so_approvals s))"

definition pending_approval ::
  "'w soar_env \<Rightarrow> soar_execution \<Rightarrow> soar_step_execution \<Rightarrow> ActionDefinition option \<Rightarrow> (string \<times> pyvalue) list \<Rightarrow>
     user_account \<Rightarrow> string \<Rightarrow> 'w soar_db \<Rightarrow> (soar_approval \<times> 'w soar_db) result" where
  "pending_approval env x run action config actor approval_type s =
     (case approval_of_step s (ex_id x) (sr_id run) of
        Some a \<Rightarrow> Inr (a, s)
      | None \<Rightarrow>
          bind_result (new_approval env x run action config actor approval_type s) (\<lambda>a.
            let eid = ex_id x;
                s1 = s\<lparr>so_approvals := so_approvals s @ [a]\<rparr>;
                s2 = upd_step_run (sr_id run) (\<lambda>r. r\<lparr>sr_status := ''waiting_approval''\<rparr>) s1;
                s3 = upd_execution eid (\<lambda>x. x\<lparr>ex_status := ''waiting_approval''\<rparr>) s2;
                s4 = log_event env eid (Some (sr_id run)) ''approval_requested'' (Some ''running'')
                       (Some ''waiting_approval'') (Some (ua_id actor)) ''Execution paused for explicit approval.''
                       [(''approval_type'', PStr approval_type),
                        (''safety_classification'',
                           PStr (case action of None \<Rightarrow> ''approval'' | Some d \<Rightarrow> safety_classification d))] s3;
                s5 = notify_once env eid (pa_assigned_to_user_id a) ''SOAR approval requested''
                       (''Execution '' @ short_uuid x @ '' requires '' @ replace_char CHR ''_'' '' '' approval_type
                        @ '' approval.'') ''warning'' s4
            in Inr (a, soar_activity env ''soar_approval_requested''
                 (''SOAR execution '' @ short_uuid x @ '' paused for '' @ approval_type @ '' approval.'')
                 ''soar_execution'' eid s5)))"


section \<open>The dispatcher\<close>

definition identity_actions :: "string list" where
  "identity_actions = [''revoke_selected_session'', ''revoke_other_user_sessions'', ''temporarily_disable_user'',
     ''reenable_user'']"

definition active_admin_total :: "db \<Rightarrow> nat" where
  "active_admin_total a = count_where (\<lambda>u. ua_status u = Active \<and> ua_is_system_admin u) (users a)"

definition revoke_open_sessions :: "time \<Rightarrow> nat \<Rightarrow> string \<Rightarrow> db \<Rightarrow> db" where
  "revoke_open_sessions now uid reason a =
     a\<lparr>sessions := upd_where (\<lambda>r. as_user_id r = uid \<and> as_revoked_at r = None)
         (\<lambda>r. r\<lparr>as_revoked_at := Some now, as_revoke_reason := Some reason\<rparr>) (sessions a)\<rparr>"

definition revoke_one_session :: "time \<Rightarrow> nat \<Rightarrow> db \<Rightarrow> db" where
  "revoke_one_session now sid a =
     a\<lparr>sessions := upd_row as_id sid
         (\<lambda>r. r\<lparr>as_revoked_at := Some (case as_revoked_at r of None \<Rightarrow> now | Some t \<Rightarrow> t),
              as_revoke_reason := Some ''soar_sensitive_action''\<rparr>) (sessions a)\<rparr>"

definition int_or_zero :: "(string \<Rightarrow> py_float) \<Rightarrow> pyvalue list \<Rightarrow> int result" where
  "int_or_zero fv vs = int_of_value fv (foldr (or_value fv) vs (PInt 0))"

definition change_user :: "nat \<Rightarrow> (user_account \<Rightarrow> user_account) \<Rightarrow> db \<Rightarrow> db" where
  "change_user uid f a = a\<lparr>users := upd_row ua_id uid f (users a)\<rparr>"

text \<open>The actions on one ThreatScope account: the affected record and the new database.\<close>

definition user_action :: "time \<Rightarrow> string \<Rightarrow> user_account \<Rightarrow> user_account \<Rightarrow> db \<Rightarrow> (nat \<times> db) result" where
  "user_action now key target actor a =
     (let uid = ua_id target in
      if key = ''temporarily_disable_user'' then
        if uid = ua_id actor
        then Inl (soar_http 409 ''SOAR_SENSITIVE_ACTION_DENIED'' ''Unsafe self-disablement is prohibited'')
        else if ua_is_system_admin target \<and> active_admin_total a \<le> 1
        then Inl (soar_http 409 ''SOAR_LAST_ADMIN_PROTECTED'' ''The only active Administrator cannot be disabled'')
        else Inr (uid, revoke_open_sessions now uid ''user_disabled_by_soar''
               (change_user uid (\<lambda>u. u\<lparr>ua_status := Disabled, ua_disabled_at := Some now\<rparr>) a))
      else if key = ''reenable_user'' then
        Inr (uid, change_user uid (\<lambda>u. u\<lparr>ua_status := Active, ua_disabled_at := None\<rparr>) a)
      else if uid = ua_id actor
      then Inl (soar_http 409 ''SOAR_SENSITIVE_ACTION_DENIED''
         ''Use normal session controls for the current user; this action is limited to another user'')
      else Inr (uid, revoke_open_sessions now uid ''soar_sensitive_action'' a))"

text \<open>The sensitive actions, on one session or on an account.\<close>

definition identity_action ::
  "'w soar_env \<Rightarrow> string \<Rightarrow> (string \<times> pyvalue) list \<Rightarrow> soar_execution \<Rightarrow> user_account \<Rightarrow> db \<Rightarrow> (nat \<times> db) result" where
  "identity_action env key config x actor a =
     (let fv = sn_fv env; now = sn_now env; reason = py_str (or_value fv (dict_get config ''reason'') (PStr [])) in
      if reason = [] then Inl (ValueError ''Sensitive action requires an explicit reason'')
      else bind_result (int_or_zero fv [dict_get config ''user_id'', dict_get config ''source_id'',
                          nat_value (ex_trigger_source_id x)]) (\<lambda>uid.
        if key = ''revoke_selected_session'' then
          bind_result (int_or_zero fv [dict_get config ''session_id'']) (\<lambda>sid.
            case (if sid < 0 then None else find_row as_id (nat sid) (sessions a)) of
              None \<Rightarrow> Inl (ValueError ''Target session is invalid'')
            | Some session \<Rightarrow>
                if Some (as_id session) = sn_current_session_id env
                then Inl (ValueError ''Unsafe current-session revocation is prohibited'')
                else Inr (as_id session, revoke_one_session now (as_id session) a))
        else case (if uid < 0 then None else get_user a (nat uid)) of
            None \<Rightarrow> Inl (ValueError ''Target user is invalid'')
          | Some target \<Rightarrow> user_action now key target actor a))"

definition action_output :: "ActionDefinition \<Rightarrow> nat option \<Rightarrow> pyvalue \<Rightarrow> (string \<times> pyvalue) list" where
  "action_output action record_id before =
     [(''status'', PStr ''succeeded''), (''record_id'', nat_value record_id),
      (''summary'', PStr (''Allowlisted local action completed: '' @ display_name action @ ''.'')),
      (''before_state'', redact 0 before), (''safety_classification'', PStr (safety_classification action))]"

definition simulated_output ::
  "(string \<Rightarrow> py_float) \<Rightarrow> ActionDefinition \<Rightarrow> (string \<times> pyvalue) list \<Rightarrow> soar_execution \<Rightarrow> (string \<times> pyvalue) list" where
  "simulated_output fv action config x =
     [(''status'', PStr ''simulated''),
      (''summary'', PStr (''Simulated '' @ casefold (display_name action) @ ''. No external infrastructure was modified.'')),
      (''intended_target'', PStr (take 500 (py_str (get_or config ''target'' (nat_value (ex_trigger_source_id x)))))),
      (''reason'', PStr (take 2000 (py_str (get_or config ''reason'' (PStr ''Approved simulation''))))),
      (''assumptions'', redact 0 (get_or config ''assumptions'' (PList []))),
      (''simulation_only'', PBool True), (''external_infrastructure_modified'', PBool False)]"

text \<open>The effects of a local action on the execution and on the shared notifications.\<close>

definition renumbered :: "notification list \<Rightarrow> notification list \<Rightarrow> notification list" where
  "renumbered new old = foldl (\<lambda>ns n. ns @ [n\<lparr>nt_id := next_id nt_id ns\<rparr>]) old new"

definition apply_local :: "nat \<Rightarrow> local_outcome \<Rightarrow> 'w \<Rightarrow> 'w soar_db \<Rightarrow> 'w soar_db" where
  "apply_local eid res w s =
     upd_execution eid
       (\<lambda>x. x\<lparr>ex_records_created := ex_records_created x + lo_created res,
             ex_records_updated := ex_records_updated x + lo_updated res,
             ex_variable_state := (case lo_variables res of None \<Rightarrow> ex_variable_state x | Some v \<Rightarrow> v)\<rparr>)
       (s\<lparr>so_others := w,
          so_access := (so_access s)\<lparr>notifications := renumbered (lo_notifications res) (notifications (so_access s))\<rparr>\<rparr>)"

definition dispatch ::
  "'w soar_env \<Rightarrow> soar_execution \<Rightarrow> soar_step_execution \<Rightarrow> ActionDefinition \<Rightarrow> (string \<times> pyvalue) list \<Rightarrow>
     user_account \<Rightarrow> ('w soar_db, (string \<times> pyvalue) list) action" where
  "dispatch env x run action config actor s =
     (let fv = sn_fv env; eid = ex_id x in
      if simulation_only action then
        (Inr (simulated_output fv action config x),
         upd_execution eid (\<lambda>x. x\<lparr>ex_simulated_action_count := ex_simulated_action_count x + 1\<rparr>) s)
      else if safety_classification action = ''read_only'' then
        (bind_result (int_or_zero fv [dict_get config ''source_id'', nat_value (ex_trigger_source_id x)])
           (\<lambda>sid. sn_read_context env (action_key action) sid s), s)
      else if ex_mode x = ''simulation'' \<and> \<not> py_truthy fv (get_or config ''perform_harmless_local'' (PBool False)) then
        (Inr [(''status'', PStr ''intended''),
              (''summary'', PStr ''Simulation recorded the intended local action; no local mutation was configured.'')], s)
      else case bind_result (as_dict (ex_variable_state x)) (\<lambda>vars.
                  int_or_zero fv [dict_get config ''case_id'', dict_get vars ''case_id'']) of
        Inl e \<Rightarrow> (Inl e, s)
      | Inr _ \<Rightarrow>
          if action_key action \<in> set identity_actions then
            (case identity_action env (action_key action) config x actor (so_access s) of
               Inl e \<Rightarrow> (Inl e, s)
             | Inr (record_id, a) \<Rightarrow>
                 (Inr (action_output action (Some record_id) empty_dict),
                  upd_execution eid (\<lambda>x. x\<lparr>ex_records_updated := ex_records_updated x + 1\<rparr>) (s\<lparr>so_access := a\<rparr>)))
          else
            (case sn_local_action env action config x run actor (so_others s) of
               (Inl e, w) \<Rightarrow> (Inl e, s\<lparr>so_others := w\<rparr>)
             | (Inr res, w) \<Rightarrow> (Inr (action_output action (lo_record_id res) (lo_before_state res)), apply_local eid res w s)))"


section \<open>One step\<close>

datatype verdict = Stop | Go | Fail string string

definition connector_action_keys :: "string list" where
  "connector_action_keys = map fst CONNECTOR_ACTIONS"

definition connector_audit :: "soar_execution \<Rightarrow> user_account \<Rightarrow> string \<Rightarrow> pyvalue \<Rightarrow> audit_args" where
  "connector_audit x actor key record_id =
     \<lparr>aa_event_type = ''integration_operation'', aa_action = ''soar_connector_delivery_queue'',
      aa_request_id = ex_execution_uuid x, aa_outcome = ''success'', aa_actor = Some actor,
      aa_resource_type = Some ''integration_delivery'',
      aa_resource_id = (if record_id = PNone then None else Some (py_str record_id)), aa_route_template = None,
      aa_request_method = None, aa_status_code = Some 200, aa_reason_code = None,
      aa_metadata = [(''soar_execution_id'', PInt (int (ex_id x))), (''action_key'', PStr key)],
      aa_client_ip_hash = None, aa_user_agent_summary = None\<rparr>"

definition warn_completed :: "'w soar_env \<Rightarrow> user_account \<Rightarrow> soar_execution \<Rightarrow> 'w soar_db \<Rightarrow> 'w soar_db" where
  "warn_completed env actor x s =
     (let eid = ex_id x;
          s1 = upd_execution eid (\<lambda>x. x\<lparr>ex_status := ''completed_with_warnings'', ex_completed_at := Some (sn_now env)\<rparr>) s;
          s2 = log_event env eid None ''execution_completed_with_warnings'' None (Some ''completed_with_warnings'')
                 (Some (ua_id actor)) ''Execution stopped at a step without a success route.'' [] s1;
          s3 = notify_once env eid (ex_requested_by_user_id x) ''SOAR execution completed with warnings''
                 (''Execution '' @ short_uuid x @ '' completed with warnings.'') ''warning'' s2
      in soar_activity env ''soar_execution_completed_with_warnings''
           (''SOAR execution '' @ short_uuid x @ '' completed with warnings.'') ''soar_execution'' eid s3)"

text \<open>The end of a step that produced an output: record it, move on, audit connector deliveries.\<close>

definition complete_step ::
  "'w soar_env \<Rightarrow> user_account \<Rightarrow> soar_execution \<Rightarrow> soar_step_execution \<Rightarrow> (string \<times> pyvalue) list \<Rightarrow> string \<Rightarrow>
     string option \<Rightarrow> ('w soar_db, verdict) action" where
  "complete_step env actor x run output status route s =
     (case dumps_bounded 65536 (PDict output) of
        Inl e \<Rightarrow> (Inl e, s)
      | Inr stored \<Rightarrow>
          (let eid = ex_id x;
               s1 = upd_step_run (sr_id run) (\<lambda>r. r\<lparr>sr_status := status, sr_output_snapshot := stored,
                      sr_redacted_output_summary := Some (take 2000 (py_str (get_or output ''summary'' (PStr [])))),
                      sr_completed_at := Some (sn_now env)\<rparr>) s;
               s2 = upd_execution eid (\<lambda>x. x\<lparr>ex_current_step_key := route\<rparr>) s1;
               s3 = log_event env eid (Some (sr_id run)) ''step_completed'' (Some ''running'') (Some status)
                      (Some (ua_id actor)) (''Step '' @ sr_step_name run @ '' completed with status '' @ status @ ''.'')
                      [(''action_key'', str_value (sr_action_key run)),
                       (''safety_classification'',
                          str_value (case sr_action_key run of None \<Rightarrow> None
                                     | Some k \<Rightarrow> map_option safety_classification (get_action k)))] s2;
               finish = (\<lambda>t. if route = None then (Inr Stop, warn_completed env actor x t) else (Inr Go, t))
           in case sr_action_key run of
                None \<Rightarrow> finish s3
              | Some key \<Rightarrow>
                  if key \<in> set connector_action_keys
                  then (case append_event (sn_cx env) (connector_audit x actor key (dict_get output ''record_id''))
                               (so_access s3) of
                          (Inl e, _) \<Rightarrow> (Inr (Fail ''SOAR_STEP_FAILED'' (take 500 (exn_message e))), s3)
                        | (Inr _, a) \<Rightarrow> finish (s3\<lparr>so_access := a\<rparr>))
                  else finish s3))"

definition route_of :: "step \<Rightarrow> string \<Rightarrow> string option" where
  "route_of d field = (case dict_get d field of PStr t \<Rightarrow> if t = [] then None else Some t | _ \<Rightarrow> None)"

definition execution_context ::
  "'w soar_db \<Rightarrow> soar_execution \<Rightarrow> (string \<times> pyvalue) list \<Rightarrow> (string \<times> pyvalue) list result" where
  "execution_context s x root =
     bind_result (as_dict (ex_variable_state x)) (\<lambda>variables.
     bind_result (as_dict (ex_input_context x)) (\<lambda>given.
       let runs = filter (\<lambda>r. sr_execution_id r = ex_id x \<and> sr_status r \<in> {''succeeded'', ''simulated'', ''skipped''})
                    (so_step_runs s);
           outputs = foldl (\<lambda>d r. dict_put d (sr_step_key r) (PDict [(''output'', sr_output_snapshot r)])) []
                       (sort_key sr_id runs);
           trigger = foldl (\<lambda>d kv. dict_put d (fst kv) (snd kv))
                       [(''source_type'', PStr (ex_trigger_source_type x)),
                        (''source_id'', nat_value (ex_trigger_source_id x))] given
       in Inr (foldl (\<lambda>d kv. dict_put d (fst kv) (snd kv))
            [(''trigger'', PDict trigger),
             (''execution'', PDict [(''id'', PInt (int (ex_id x))), (''uuid'', PStr (ex_execution_uuid x)),
                                    (''mode'', PStr (ex_mode x))]),
             (''playbook'', PDict [(''id'', PInt (int (ex_playbook_id x))),
                                   (''version'', PInt (int (ex_playbook_version x)))]),
             (''steps'', PDict outputs), (''analyst_input'', empty_dict),
             (''constants'', get_or root ''constants'' empty_dict)] variables)))"

definition finish_execution ::
  "'w soar_env \<Rightarrow> user_account \<Rightarrow> soar_execution \<Rightarrow> soar_step_execution \<Rightarrow> 'w soar_db \<Rightarrow> 'w soar_db" where
  "finish_execution env actor x run s =
     (let eid = ex_id x;
          s1 = upd_step_run (sr_id run) (\<lambda>r. r\<lparr>sr_status := ''succeeded'',
                 sr_output_snapshot := PDict [(''status'', PStr ''completed''), (''summary'', PStr ''Terminal step reached'')],
                 sr_completed_at := Some (sn_now env)\<rparr>) s;
          s2 = upd_execution eid (\<lambda>x. x\<lparr>ex_status := ''completed'', ex_completed_at := Some (sn_now env),
                 ex_current_step_key := None\<rparr>) s1;
          s3 = log_event env eid (Some (sr_id run)) ''execution_completed'' (Some ''running'') (Some ''completed'')
                 (Some (ua_id actor)) ''Execution completed.'' [] s2;
          s4 = upd_playbook (ex_playbook_id x)
                 (\<lambda>p. p\<lparr>pb_successful_execution_count := pb_successful_execution_count p + 1\<rparr>) s3
      in soar_activity env ''soar_execution_completed''
           (''SOAR execution '' @ short_uuid x @ '' completed.'') ''soar_execution'' eid s4)"

definition dry_output :: "string \<Rightarrow> (string \<times> pyvalue) list" where
  "dry_output step_type =
     [(''status'', PStr ''intended''),
      (''summary'', PStr (''Dry run recorded intended '' @ step_type @ '' step; no mutation was performed.''))]"

definition perform_condition ::
  "'w soar_env \<Rightarrow> user_account \<Rightarrow> (string \<times> pyvalue) list \<Rightarrow> soar_execution \<Rightarrow> step \<Rightarrow> soar_step_execution \<Rightarrow>
     ('w soar_db, verdict) action" where
  "perform_condition env actor root x d run s =
     (case bind_result (execution_context s x root) (evaluate_condition (sn_fv env) (dict_get d ''condition'')) of
        Inl e \<Rightarrow> (Inl e, s)
      | Inr r \<Rightarrow>
          complete_step env actor x run
            [(''status'', PStr ''succeeded''), (''matched'', PBool (matched r)), (''summary'', PStr (explanation r))]
            ''succeeded'' (route_of d (if matched r then ''on_success'' else ''on_failure'')) s)"

definition perform_approval ::
  "'w soar_env \<Rightarrow> user_account \<Rightarrow> soar_execution \<Rightarrow> (string \<times> pyvalue) list \<Rightarrow> soar_step_execution \<Rightarrow>
     ('w soar_db, verdict) action" where
  "perform_approval env actor x config run s =
     (case pending_approval env x run None config actor (py_str (get_or config ''approval_type'' (PStr ''step''))) s of
        Inl e \<Rightarrow> (Inl e, s)
      | Inr (_, t) \<Rightarrow> (Inr Stop, t))"

text \<open>\<open>[f.get("name") for f in fields if f.get("required")]\<close>.\<close>

fun required_names :: "(string \<Rightarrow> py_float) \<Rightarrow> pyvalue list \<Rightarrow> pyvalue list result" where
  "required_names fv [] = Inr []"
| "required_names fv (f # fs) =
     bind_result (as_dict f) (\<lambda>d. bind_result (required_names fv fs) (\<lambda>names.
       Inr (if py_truthy fv (dict_get d ''required'') then dict_get d ''name'' # names else names)))"

definition new_input ::
  "'w soar_env \<Rightarrow> soar_execution \<Rightarrow> (string \<times> pyvalue) list \<Rightarrow> soar_step_execution \<Rightarrow> 'w soar_db \<Rightarrow>
     soar_analyst_input result" where
  "new_input env x config run s =
     (let fields = get_or config ''fields'' (PList []); i = next_id ai_id (so_inputs s) in
      bind_result (dumps_bounded 65536 fields) (\<lambda>form.
      bind_result (bind_result (py_iter fields) (required_names (sn_fv env))) (\<lambda>names.
      bind_result (dumps_bounded 65536 (PList names)) (\<lambda>required.
      bind_result (user_ref s (dict_get config ''requested_from_user_id'')) (\<lambda>asked.
      bind_result (expiry_hours env config) (\<lambda>expires. Inr
        \<lparr>ai_id = i, ai_input_uuid = sn_uuid env ''soar_analyst_inputs'' i, ai_execution_id = ex_id x,
         ai_step_execution_id = sr_id run,
         ai_title = take 200 (py_str (get_or config ''title'' (PStr (sr_step_name run)))),
         ai_instructions = take 4000 (py_str (get_or config ''instructions'' (PStr ''Analyst input is required.''))),
         ai_schema = form, ai_response = None, ai_required_fields = required, ai_requested_from_user_id = asked,
         ai_requested_from_role = take 100 (py_str (get_or config ''requested_from_role'' (PStr ''Security Analyst''))),
         ai_submitted_by_user_id = None, ai_status = ''pending'', ai_requested_at = sn_now env,
         ai_submitted_at = None, ai_expires_at = Some expires\<rparr>))))))"

definition perform_input ::
  "'w soar_env \<Rightarrow> user_account \<Rightarrow> soar_execution \<Rightarrow> (string \<times> pyvalue) list \<Rightarrow> soar_step_execution \<Rightarrow>
     ('w soar_db, verdict) action" where
  "perform_input env actor x config run s =
     (let eid = ex_id x;
          existing = find (\<lambda>r. ai_step_execution_id r = sr_id run) (so_inputs s)
      in case (case existing of
                 Some r \<Rightarrow> Inr (r, s)
               | None \<Rightarrow> bind_result (new_input env x config run s) (\<lambda>r. Inr (r, s\<lparr>so_inputs := so_inputs s @ [r]\<rparr>))) of
           Inl e \<Rightarrow> (Inl e, s)
         | Inr (r, s1) \<Rightarrow>
             (let s2 = upd_step_run (sr_id run) (\<lambda>q. q\<lparr>sr_status := ''waiting_input''\<rparr>) s1;
                  s3 = upd_execution eid (\<lambda>x. x\<lparr>ex_status := ''waiting_input''\<rparr>) s2;
                  s4 = log_event env eid (Some (sr_id run)) ''analyst_input_requested'' (Some ''running'')
                         (Some ''waiting_input'') (Some (ua_id actor)) ''Execution paused for bounded analyst input.'' [] s3;
                  s5 = notify_once env eid
                         (case ai_requested_from_user_id r of None \<Rightarrow> ex_requested_by_user_id x
                          | Some i \<Rightarrow> if i = 0 then ex_requested_by_user_id x else Some i)
                         ''SOAR analyst input required''
                         (''Execution '' @ short_uuid x @ '' requires bounded analyst input.'') ''warning'' s4
              in (Inr Stop, soar_activity env ''soar_analyst_input_requested''
                    (''SOAR execution '' @ short_uuid x @ '' paused for analyst input.'') ''soar_execution'' eid s5)))"

definition perform_delay ::
  "'w soar_env \<Rightarrow> user_account \<Rightarrow> soar_execution \<Rightarrow> (string \<times> pyvalue) list \<Rightarrow> soar_step_execution \<Rightarrow>
     ('w soar_db, verdict) action" where
  "perform_delay env actor x config run s =
     (case int_of_value (sn_fv env) (get_or config ''delay_seconds'' (PInt 1)) of
        Inl e \<Rightarrow> (Inl e, s)
      | Inr n \<Rightarrow>
          (let eid = ex_id x;
               s1 = upd_step_run (sr_id run) (\<lambda>q. q\<lparr>sr_status := ''waiting_delay''\<rparr>) s;
               s2 = upd_execution eid (\<lambda>x. x\<lparr>ex_status := ''waiting_delay'',
                      ex_next_resume_at := Some (sn_now env + seconds n)\<rparr>) s1
           in (Inr Stop, log_event env eid (Some (sr_id run)) ''delay_started'' (Some ''running'') (Some ''waiting_delay'')
                 (Some (ua_id actor)) (''Execution paused for '' @ str_int n @ '' seconds without blocking.'') [] s2)))"

definition policy_of :: "'w soar_db \<Rightarrow> string \<Rightarrow> soar_action_policy option" where
  "policy_of s key = find (\<lambda>p. pl_action_key p = key) (so_policies s)"

definition approval_type_of :: "ActionDefinition \<Rightarrow> string option" where
  "approval_type_of action =
     (if safety_classification action = ''sensitive_local'' then Some ''sensitive_action''
      else if simulation_only action then Some ''containment_simulation'' else None)"

definition perform_dispatch ::
  "'w soar_env \<Rightarrow> user_account \<Rightarrow> soar_execution \<Rightarrow> step \<Rightarrow> (string \<times> pyvalue) list \<Rightarrow> soar_step_execution \<Rightarrow>
     ActionDefinition \<Rightarrow> ('w soar_db, verdict) action" where
  "perform_dispatch env actor x d config run action s =
     (case dispatch env x run action config actor s of
        (Inl e, t) \<Rightarrow> (Inl e, t)
      | (Inr output, t) \<Rightarrow>
          complete_step env actor x run output (if simulation_only action then ''simulated'' else ''succeeded'')
            (route_of d ''on_success'') t)"

definition perform_action ::
  "'w soar_env \<Rightarrow> user_account \<Rightarrow> soar_execution \<Rightarrow> step \<Rightarrow> (string \<times> pyvalue) list \<Rightarrow> soar_step_execution \<Rightarrow>
     ('w soar_db, verdict) action" where
  "perform_action env actor x d config run s =
     (case action_of d of
        None \<Rightarrow> (Inr (Fail ''SOAR_ACTION_UNKNOWN'' ''Action is not in the server-owned catalog''), s)
      | Some action \<Rightarrow>
          if (case policy_of s (action_key action) of None \<Rightarrow> True | Some p \<Rightarrow> \<not> pl_enabled p)
          then (Inr (Fail ''SOAR_ACTION_DISABLED'' ''Action is disabled by policy''), s)
          else if ex_mode x \<notin> set (allowed_execution_modes action)
          then (Inr (Fail ''SOAR_ACTION_MODE_NOT_ALLOWED'' ''Action cannot run in this execution mode''), s)
          else if required_permission action \<notin> effective_permissions (so_access s) actor
          then (Inr (Fail ''SOAR_PERMISSION_DENIED'' ''Dispatch-time action permission denied''), s)
          else (case approval_type_of action of
                  None \<Rightarrow> perform_dispatch env actor x d config run action s
                | Some approval_type \<Rightarrow>
                    (case pending_approval env x run (Some action) config actor approval_type s of
                       Inl e \<Rightarrow> (Inl e, s)
                     | Inr (a, t) \<Rightarrow>
                         if pa_status a \<noteq> ''approved'' then (Inr Stop, t)
                         else perform_dispatch env actor x d config run action t)))"

definition perform_step ::
  "'w soar_env \<Rightarrow> user_account \<Rightarrow> (string \<times> pyvalue) list \<Rightarrow> soar_execution \<Rightarrow> step \<Rightarrow> soar_step_execution \<Rightarrow>
     ('w soar_db, verdict) action" where
  "perform_step env actor root x d run s =
     (let step_type = (case dict_get d ''type'' of PStr t \<Rightarrow> t | _ \<Rightarrow> []);
          config = (case step_config d of None \<Rightarrow> [] | Some c \<Rightarrow> c)
      in if ex_mode x = ''dry_run'' \<and> step_type \<noteq> ''end''
         then complete_step env actor x run (dry_output step_type) ''skipped'' (route_of d ''on_success'') s
         else if step_type = ''end'' then
           if get_or config ''outcome'' (PStr ''completed'') = PStr ''failed''
           then (Inr (Fail ''SOAR_STEP_FAILED'' ''Workflow reached its failure terminal''), s)
           else (Inr Stop, finish_execution env actor x run s)
         else if step_type = ''condition'' then perform_condition env actor root x d run s
         else if step_type = ''approval'' then perform_approval env actor x config run s
         else if step_type = ''analyst_input'' then perform_input env actor x config run s
         else if step_type = ''delay'' then perform_delay env actor x config run s
         else perform_action env actor x d config run s)"


section \<open>The loop\<close>

definition waiting_status :: "string list" where
  "waiting_status = [''waiting_approval'', ''waiting_input'', ''waiting_delay'']"

fun is_http :: "exn \<Rightarrow> bool" where
  "is_http (HTTPException _ _) = True"
| "is_http _ = False"

text \<open>
  The loop, with the number of iterations left, the committed state and the current one. An HTTP
  exception passes through, any other rolls back and fails the execution.
\<close>

fun run_loop ::
  "'w soar_env \<Rightarrow> user_account \<Rightarrow> nat \<Rightarrow> (string \<times> pyvalue) list \<Rightarrow> (string \<Rightarrow> step option) \<Rightarrow> nat \<Rightarrow>
     'w soar_db \<Rightarrow> 'w soar_db \<Rightarrow> unit result \<times> 'w soar_db" where
  "run_loop env actor eid root by_key 0 committed s =
     (Inr (), fail_execution env actor eid ''SOAR_PLAYBOOK_INVALID''
        ''Execution exceeded the bounded 50-step dispatch limit'' s)"
| "run_loop env actor eid root by_key (Suc n) committed s =
     (case get_execution s eid of
        None \<Rightarrow> (Inl ObjectDeletedError, committed)
      | Some x \<Rightarrow>
        (case ex_current_step_key x of
           None \<Rightarrow> (Inr (), fail_execution env actor eid ''SOAR_PLAYBOOK_INVALID''
                             ''Execution exceeded the bounded 50-step dispatch limit'' s)
         | Some key \<Rightarrow>
           (case by_key key of
              None \<Rightarrow> (Inr (), fail_execution env actor eid ''SOAR_PLAYBOOK_INVALID'' ''Current step is unavailable'' s)
            | Some d \<Rightarrow>
              (case create_step env x d s of
                 Inl e \<Rightarrow> (Inl e, committed)
               | Inr (run, s1) \<Rightarrow>
                 if sr_status run \<in> set waiting_status then (Inr (), s1)
                 else (case perform_step env actor root x d run s1 of
                     (Inl e, _) \<Rightarrow>
                       if is_http e then (Inl e, committed)
                       else (Inr (), fail_execution env actor eid ''SOAR_STEP_FAILED'' (take 500 (exn_message e)) committed)
                   | (Inr Stop, s2) \<Rightarrow> (Inr (), s2)
                   | (Inr (Fail code message), s2) \<Rightarrow> (Inr (), fail_execution env actor eid code message s2)
                   | (Inr Go, s2) \<Rightarrow> run_loop env actor eid root by_key n s2 s2)))))"

definition version_of :: "'w soar_db \<Rightarrow> nat \<Rightarrow> nat \<Rightarrow> soar_playbook_version option" where
  "version_of s pid n = find (\<lambda>v. pv_playbook_id v = pid \<and> pv_version_number v = n) (so_versions s)"

text \<open>\<open>{step["key"]: step for step in definition.get("steps", [])}\<close>.\<close>

fun steps_by_key :: "pyvalue list \<Rightarrow> (string \<Rightarrow> step option) result" where
  "steps_by_key [] = Inr Map.empty"
| "steps_by_key (v # vs) =
     bind_result (case v of PDict d \<Rightarrow> bind_result (required_key ''key'' (dict_get d ''key'')) (\<lambda>k. Inr (k, d))
                  | _ \<Rightarrow> Inl (TypeError ''step is not subscriptable'')) (\<lambda>(k, d).
     bind_result (steps_by_key vs) (\<lambda>m. Inr ([k \<mapsto> d] ++ m)))"

definition definition_of :: "'w soar_db \<Rightarrow> soar_execution \<Rightarrow> (string \<times> pyvalue) list result" where
  "definition_of s x =
     (case version_of s (ex_playbook_id x) (ex_playbook_version x) of
        None \<Rightarrow> Inl ObjectDeletedError
      | Some v \<Rightarrow> as_dict (pv_definition v))"

definition expire_execution :: "'w soar_env \<Rightarrow> user_account \<Rightarrow> nat \<Rightarrow> string \<Rightarrow> 'w soar_db \<Rightarrow> 'w soar_db" where
  "expire_execution env actor eid summary s =
     log_event env eid None ''execution_expired'' None (Some ''expired'') (Some (ua_id actor)) summary []
       (upd_execution eid (\<lambda>x. x\<lparr>ex_status := ''expired'', ex_completed_at := Some (sn_now env)\<rparr>) s)"

definition past :: "'w soar_env \<Rightarrow> time option \<Rightarrow> bool" where
  "past env t = (case t of None \<Rightarrow> False | Some u \<Rightarrow> u \<le> sn_now env)"

definition start_running :: "'w soar_env \<Rightarrow> user_account \<Rightarrow> soar_execution \<Rightarrow> 'w soar_db \<Rightarrow> 'w soar_db" where
  "start_running env actor x s =
     (let eid = ex_id x;
          s1 = upd_execution eid (\<lambda>x. x\<lparr>ex_status := ''running'',
                 ex_started_at := Some (case ex_started_at x of None \<Rightarrow> sn_now env | Some t \<Rightarrow> t)\<rparr>) s
      in log_event env eid None
           (if startswith (ex_status x) ''waiting'' then ''execution_resumed'' else ''execution_started'')
           (Some (ex_status x)) (Some ''running'') (Some (ua_id actor)) ''Execution processing started.'' [] s1)"

definition run_execution :: "'w soar_env \<Rightarrow> user_account \<Rightarrow> nat \<Rightarrow> ('w soar_db, unit) action" where
  "run_execution env actor eid s =
     (case get_execution s eid of
        None \<Rightarrow> (Inl (HTTPException 404 ''Record not found''), s)
      | Some x \<Rightarrow>
          if ex_status x \<in> set TERMINAL
          then (Inl (soar_http 409 ''SOAR_EXECUTION_TERMINAL'' ''Terminal execution cannot resume''), s)
          else if past env (ex_expires_at x)
          then (Inr (), expire_execution env actor eid ''Execution expired before completion.'' s)
          else (case bind_result (definition_of s x) (\<lambda>root.
                       bind_result (py_iter (get_or root ''steps'' (PList []))) (\<lambda>steps.
                       bind_result (steps_by_key steps) (\<lambda>by_key. Inr (root, by_key)))) of
                  Inl e \<Rightarrow> (Inl e, s)
                | Inr (root, by_key) \<Rightarrow> run_loop env actor eid root by_key 50 s (start_running env actor x s)))"

end
