(* ===== verification/Soar_Operations.thy ===== *)
theory Soar_Operations
  imports Soar_Execution
begin

text \<open>
  The operations around an execution (\<open>modules/soar/service.py\<close>, and the handlers of
  \<open>modules/soar/router.py\<close> that change a record themselves): creation, approval decisions, analyst
  input, cancellation, retry, due delays and rollbacks.
\<close>

section \<open>Creating an execution\<close>

record ExecutionCreate =
  xp_mode :: string
  xp_trigger_source_type :: string
  xp_trigger_source_id :: "nat option"
  xp_idempotency_key :: string
  xp_input_context :: pyvalue

definition policy_map :: "'w soar_db \<Rightarrow> (string \<times> bool) list" where
  "policy_map s = map (\<lambda>p. (pl_action_key p, pl_enabled p)) (so_policies s)"

definition automatic_policy_map :: "'w soar_db \<Rightarrow> (string \<times> bool) list" where
  "automatic_policy_map s = map (\<lambda>p. (pl_action_key p, pl_automatic_local_allowed p)) (so_policies s)"

definition policies_for :: "'w soar_db \<Rightarrow> string \<Rightarrow> soar_policies" where
  "policies_for s mode = \<lparr>sp_trigger_mode = mode, sp_enabled = policy_map s, sp_automatic = automatic_policy_map s\<rparr>"

definition mode_permitted :: "soar_playbook \<Rightarrow> string \<Rightarrow> bool" where
  "mode_permitted pb mode \<longleftrightarrow>
     \<not> (pb_lifecycle_status pb = ''archived'' \<or>
        (mode = ''live_local'' \<and> pb_lifecycle_status pb \<noteq> ''active'') \<or>
        (mode \<noteq> ''live_local'' \<and> pb_lifecycle_status pb \<notin> {''testing'', ''active''}))"

definition execution_with_key :: "'w soar_db \<Rightarrow> nat \<Rightarrow> string \<Rightarrow> soar_execution option" where
  "execution_with_key s pid key = find (\<lambda>x. ex_playbook_id x = pid \<and> ex_idempotency_key x = key) (so_executions s)"

definition checked_version ::
  "'w soar_env \<Rightarrow> 'w soar_db \<Rightarrow> soar_playbook \<Rightarrow> string \<Rightarrow> (string \<times> pyvalue) list result" where
  "checked_version env s pb mode =
     (case version_of s (pb_id pb) (pb_current_version pb) of
        None \<Rightarrow> Inl ObjectDeletedError
      | Some v \<Rightarrow>
          bind_result (validate_definition (sn_fv env) (sn_sha env) (policies_for s (pb_trigger_mode pb)) (pv_definition v))
            (\<lambda>r. if \<not> sv_valid r
                 then Inl (soar_http 422 ''SOAR_PLAYBOOK_INVALID'' ''Current playbook version is invalid'')
                 else if mode = ''live_local'' \<and> sv_simulations r \<noteq> []
                 then Inl (soar_http 422 ''SOAR_ACTION_MODE_NOT_ALLOWED''
                   ''A playbook containing simulation-only actions cannot execute in live-local mode'')
                 else as_dict (pv_definition v)))"

definition new_execution ::
  "'w soar_env \<Rightarrow> 'w soar_db \<Rightarrow> soar_playbook \<Rightarrow> (string \<times> pyvalue) list \<Rightarrow> ExecutionCreate \<Rightarrow> user_account \<Rightarrow>
     nat option \<Rightarrow> bool \<Rightarrow> soar_execution result" where
  "new_execution env s pb root p actor rule proposed =
     (let i = next_id ex_id (so_executions s) in
      bind_result (dumps_bounded 65536 (xp_input_context p)) (\<lambda>given.
      bind_result (dumps_bounded 65536 (get_or root ''variables'' empty_dict)) (\<lambda>variables. Inr
        \<lparr>ex_id = i, ex_execution_uuid = sn_uuid env ''soar_executions'' i, ex_playbook_id = pb_id pb,
         ex_playbook_version = pb_current_version pb, ex_trigger_rule_id = rule,
         ex_trigger_source_type = xp_trigger_source_type p, ex_trigger_source_id = xp_trigger_source_id p,
         ex_idempotency_key = xp_idempotency_key p, ex_mode = xp_mode p,
         ex_status = (if proposed then ''proposed'' else ''queued''), ex_requested_by_user_id = Some (ua_id actor),
         ex_approved_by_user_id = None, ex_current_step_key = route_of root ''start_step'',
         ex_input_context = given, ex_variable_state = variables, ex_error_code = None, ex_error_summary = None,
         ex_records_created = 0, ex_records_updated = 0, ex_simulated_action_count = 0, ex_retry_count = 0,
         ex_started_at = None, ex_completed_at = None, ex_cancelled_at = None, ex_cancellation_reason = None,
         ex_expires_at = Some (sn_now env + hours 72), ex_next_resume_at = None,
         ex_demo_owned = pb_demo_owned pb, ex_created_at = sn_now env\<rparr>)))"

definition record_execution ::
  "'w soar_env \<Rightarrow> user_account \<Rightarrow> bool \<Rightarrow> soar_execution \<Rightarrow> 'w soar_db \<Rightarrow> 'w soar_db" where
  "record_execution env actor proposed x s =
     (let eid = ex_id x;
          s1 = s\<lparr>so_executions := so_executions s @ [x]\<rparr>;
          s2 = log_event env eid None (if proposed then ''execution_proposed'' else ''execution_requested'') None
                 (Some (ex_status x)) (Some (ua_id actor))
                 (if proposed then ''Execution proposal created.'' else ''Execution requested.'')
                 [(''mode'', PStr (ex_mode x)), (''playbook_version'', PInt (int (ex_playbook_version x)))] s1;
          s3 = (if proposed
                then notify_once env eid (Some (ua_id actor)) ''SOAR execution proposed''
                       (''Execution proposal '' @ short_uuid x @ '' is ready for analyst review.'') ''info'' s2
                else s2);
          s4 = soar_activity env (if proposed then ''soar_execution_proposed'' else ''soar_execution_requested'')
                 (''SOAR execution '' @ short_uuid x @ '' was '' @ (if proposed then ''proposed'' else ''requested'') @ ''.'')
                 ''soar_execution'' eid s3
      in upd_playbook (ex_playbook_id x)
           (\<lambda>p. p\<lparr>pb_execution_count := pb_execution_count p + 1, pb_last_executed_at := Some (sn_now env)\<rparr>) s4)"

definition create_execution ::
  "'w soar_env \<Rightarrow> nat \<Rightarrow> ExecutionCreate \<Rightarrow> user_account \<Rightarrow> nat option \<Rightarrow> bool \<Rightarrow> ('w soar_db, nat) action" where
  "create_execution env pid p actor rule proposed s =
     (case find_row pb_id pid (so_playbooks s) of
        None \<Rightarrow> (Inl (HTTPException 404 ''Record not found''), s)
      | Some pb \<Rightarrow>
        (case execution_with_key s pid (xp_idempotency_key p) of
           Some x \<Rightarrow> (Inr (ex_id x), s)
         | None \<Rightarrow>
             if \<not> mode_permitted pb (xp_mode p)
             then (Inl (soar_http 409 ''SOAR_PLAYBOOK_NOT_ACTIVE''
                     ''Playbook lifecycle does not permit this execution mode''), s)
             else (case bind_result (checked_version env s pb (xp_mode p))
                          (\<lambda>root. new_execution env s pb root p actor rule proposed) of
                     Inl e \<Rightarrow> (Inl e, s)
                   | Inr x \<Rightarrow>
                       (let s1 = record_execution env actor proposed x s in
                        if proposed then (Inr (ex_id x), s1)
                        else (case run_execution env actor (ex_id x) s1 of
                                (Inl e, s2) \<Rightarrow> (Inl e, s2)
                              | (Inr _, s2) \<Rightarrow> (Inr (ex_id x), s2))))))"


section \<open>Deciding an approval\<close>

definition upd_approval :: "nat \<Rightarrow> (soar_approval \<Rightarrow> soar_approval) \<Rightarrow> 'w soar_db \<Rightarrow> 'w soar_db" where
  "upd_approval aid f s = s\<lparr>so_approvals := upd_row pa_id aid f (so_approvals s)\<rparr>"

definition may_decide :: "db \<Rightarrow> soar_approval \<Rightarrow> user_account \<Rightarrow> bool" where
  "may_decide a ap u \<longleftrightarrow>
     pa_required_permission ap \<in> effective_permissions a u \<or> ''soar:approve'' \<in> effective_permissions a u"

text \<open>The guards of \<open>decide_approval\<close> after the one on its expiry, in their order.\<close>

definition decision_refusal ::
  "'w soar_env \<Rightarrow> 'w soar_db \<Rightarrow> soar_approval \<Rightarrow> user_account \<Rightarrow> exn option" where
  "decision_refusal env s ap actor =
     (let a = so_access s in
      if \<not> may_decide a ap actor
      then Some (soar_http 403 ''SOAR_APPROVAL_NOT_ELIGIBLE'' ''Current user is not eligible to decide'')
      else if ua_status actor \<noteq> Active \<or> (case ua_locked_until actor of None \<Rightarrow> False | Some t \<Rightarrow> t > sn_now env)
      then Some (soar_http 403 ''SOAR_APPROVAL_NOT_ELIGIBLE'' ''Disabled or locked users cannot approve'')
      else if (case pa_assigned_to_user_id ap of None \<Rightarrow> False | Some i \<Rightarrow> i \<noteq> 0 \<and> i \<noteq> ua_id actor)
      then Some (soar_http 403 ''SOAR_APPROVAL_NOT_ELIGIBLE'' ''Approval is assigned to another user'')
      else if pa_separation_required ap \<and> pa_requester_user_id ap = ua_id actor \<and>
              list_ex (\<lambda>u. ua_status u = Active \<and> ua_id u \<noteq> ua_id actor \<and> may_decide a ap u) (users a)
      then Some (soar_http 403 ''SOAR_APPROVAL_NOT_ELIGIBLE'' ''Requester/approver separation is required'')
      else if list_ex (\<lambda>d. pd_approval_id d = pa_id ap \<and> pd_decided_by_user_id d = ua_id actor) (so_decisions s)
      then Some (soar_http 409 ''SOAR_APPROVAL_ALREADY_DECIDED'' ''User already decided this approval'')
      else None)"

definition add_decision ::
  "'w soar_env \<Rightarrow> soar_approval \<Rightarrow> user_account \<Rightarrow> string \<Rightarrow> string \<Rightarrow> 'w soar_db \<Rightarrow> 'w soar_db" where
  "add_decision env ap actor decision note s =
     s\<lparr>so_decisions := insert_row pd_id set_pd_id
         \<lparr>pd_id = 0, pd_approval_id = pa_id ap, pd_decision = decision, pd_decided_by_user_id = ua_id actor,
          pd_decision_note = note, pd_created_at = sn_now env\<rparr> (so_decisions s)\<rparr>"

definition approve_count :: "'w soar_db \<Rightarrow> nat \<Rightarrow> nat" where
  "approve_count s aid = count_where (\<lambda>d. pd_approval_id d = aid \<and> pd_decision d = ''approve'') (so_decisions s)"

definition reject_approval ::
  "'w soar_env \<Rightarrow> soar_approval \<Rightarrow> soar_execution \<Rightarrow> user_account \<Rightarrow> 'w soar_db \<Rightarrow> 'w soar_db" where
  "reject_approval env ap x actor s =
     (let eid = ex_id x;
          s1 = upd_approval (pa_id ap) (\<lambda>a. a\<lparr>pa_status := ''rejected'', pa_decided_at := Some (sn_now env)\<rparr>) s;
          s2 = upd_execution eid (\<lambda>x. x\<lparr>ex_status := ''failed'', ex_error_code := Some ''SOAR_APPROVAL_REQUIRED'',
                 ex_error_summary := Some ''Approval was rejected'', ex_completed_at := Some (sn_now env)\<rparr>) s1;
          s3 = log_event env eid None ''approval_rejected'' None (Some ''failed'') (Some (ua_id actor))
                 ''Approval rejected; execution stopped.'' [] s2
      in notify_once env eid (ex_requested_by_user_id x) ''SOAR approval rejected''
           (''Approval for execution '' @ short_uuid x @ '' was rejected.'') ''danger'' s3)"

text \<open>\<open>next(item for item in definition["steps"] if item["key"] == key)\<close>.\<close>

definition step_named :: "(string \<times> pyvalue) list \<Rightarrow> string \<Rightarrow> step result" where
  "step_named root key =
     bind_result (py_iter (dict_get root ''steps'')) (\<lambda>items.
       case find (\<lambda>v. case v of PDict d \<Rightarrow> dict_get d ''key'' = PStr key | _ \<Rightarrow> False) items of
         Some (PDict d) \<Rightarrow> Inr d
       | _ \<Rightarrow> Inl ObjectDeletedError)"

definition grant_approval ::
  "'w soar_env \<Rightarrow> soar_approval \<Rightarrow> soar_execution \<Rightarrow> user_account \<Rightarrow> 'w soar_db \<Rightarrow> 'w soar_db result" where
  "grant_approval env ap x actor s =
     (case find_row sr_id (pa_step_execution_id ap) (so_step_runs s) of
        None \<Rightarrow> Inl (AttributeError ''NoneType object has no attribute status'')
      | Some run \<Rightarrow>
          bind_result (definition_of s x) (\<lambda>root.
          bind_result (step_named root (sr_step_key run)) (\<lambda>source. Inr
            (let is_approval = (sr_step_type run = ''approval'');
                 s1 = upd_approval (pa_id ap) (\<lambda>a. a\<lparr>pa_status := ''approved'', pa_decided_at := Some (sn_now env)\<rparr>) s;
                 s2 = upd_step_run (sr_id run)
                        (\<lambda>r. r\<lparr>sr_status := (if is_approval then ''succeeded'' else ''approved''),
                              sr_completed_at := (if is_approval then Some (sn_now env) else None)\<rparr>) s1;
                 s3 = upd_execution (ex_id x)
                        (\<lambda>x. x\<lparr>ex_approved_by_user_id := Some (ua_id actor),
                              ex_current_step_key := (if is_approval then route_of source ''on_success''
                                                      else Some (sr_step_key run)),
                              ex_status := ''queued''\<rparr>) s2
             in log_event env (ex_id x) None ''approval_approved'' None (Some ''queued'') (Some (ua_id actor))
                  ''Required approval count reached.'' [] s3))))"

definition partial_approval ::
  "'w soar_env \<Rightarrow> soar_approval \<Rightarrow> soar_execution \<Rightarrow> user_account \<Rightarrow> nat \<Rightarrow> 'w soar_db \<Rightarrow> 'w soar_db" where
  "partial_approval env ap x actor n s =
     (let s1 = upd_approval (pa_id ap) (\<lambda>a. a\<lparr>pa_status := ''partially_approved''\<rparr>) s;
          s2 = log_event env (ex_id x) None ''approval_partially_approved'' None None (Some (ua_id actor))
                 ''Partial approval recorded.''
                 [(''current'', PInt (int n)), (''required'', PInt (int (pa_minimum_approvals ap)))] s1
      in notify_once env (ex_id x)
           (case pa_assigned_to_user_id ap of None \<Rightarrow> ex_requested_by_user_id x
            | Some i \<Rightarrow> if i = 0 then ex_requested_by_user_id x else Some i)
           ''SOAR approval partially complete''
           (''Execution '' @ short_uuid x @ '' has '' @ str_nat n @ '' of '' @ str_nat (pa_minimum_approvals ap)
            @ '' required approvals.'') ''warning'' s2)"

definition decide_approval ::
  "'w soar_env \<Rightarrow> nat \<Rightarrow> user_account \<Rightarrow> string \<Rightarrow> string \<Rightarrow> ('w soar_db, unit) action" where
  "decide_approval env aid actor decision note s =
     (case find_row pa_id aid (so_approvals s) of
        None \<Rightarrow> (Inl (HTTPException 404 ''Record not found''), s)
      | Some ap \<Rightarrow>
          if pa_status ap \<notin> {''pending'', ''partially_approved''}
          then (Inl (soar_http 409 ''SOAR_APPROVAL_ALREADY_DECIDED'' ''Approval is no longer pending''), s)
          else if past env (pa_expires_at ap)
          then (Inl (soar_http 409 ''SOAR_APPROVAL_EXPIRED'' ''Approval has expired''),
                upd_approval aid (\<lambda>a. a\<lparr>pa_status := ''expired''\<rparr>) s)
          else case decision_refusal env s ap actor of Some e \<Rightarrow> (Inl e, s)
          | None \<Rightarrow>
            (case get_execution s (pa_execution_id ap) of
               None \<Rightarrow> (Inl (AttributeError ''NoneType object has no attribute status''), s)
             | Some x \<Rightarrow>
               (let s1 = add_decision env ap actor decision note s;
                    n = approve_count s1 aid;
                    announce = soar_activity env ''soar_approval_decided''
                      (''SOAR approval '' @ take 16 (pa_approval_uuid ap) @ '' recorded a '' @ decision @ '' decision.'')
                      ''soar_approval'' aid
                in if decision = ''reject'' then (Inr (), announce (reject_approval env ap x actor s1))
                   else if n \<ge> pa_minimum_approvals ap then
                     (case grant_approval env ap x actor s1 of
                        Inl e \<Rightarrow> (Inl e, s)
                      | Inr s2 \<Rightarrow> run_execution env actor (ex_id x) (announce s2))
                   else (Inr (), announce (partial_approval env ap x actor n s1)))))"

definition cancel_approval :: "nat \<Rightarrow> ('w soar_db, unit) action" where
  "cancel_approval aid s =
     (case find_row pa_id aid (so_approvals s) of
        None \<Rightarrow> (Inl (HTTPException 404 ''Record not found''), s)
      | Some ap \<Rightarrow>
          if pa_status ap \<notin> {''pending'', ''partially_approved''}
          then (Inl (soar_http 409 ''SOAR_APPROVAL_ALREADY_DECIDED'' ''Approval is not pending''), s)
          else (Inr (), upd_approval aid (\<lambda>a. a\<lparr>pa_status := ''cancelled''\<rparr>) s))"


section \<open>Analyst input\<close>

definition upd_input :: "nat \<Rightarrow> (soar_analyst_input \<Rightarrow> soar_analyst_input) \<Rightarrow> 'w soar_db \<Rightarrow> 'w soar_db" where
  "upd_input iid f s = s\<lparr>so_inputs := upd_row ai_id iid f (so_inputs s)\<rparr>"

definition field_names :: "pyvalue \<Rightarrow> string list" where
  "field_names v = (case v of
      PList fs \<Rightarrow> strings_of (map (\<lambda>f. case f of PDict d \<Rightarrow> dict_get d ''name'' | _ \<Rightarrow> PNone) fs)
    | _ \<Rightarrow> [])"

definition list_items :: "pyvalue \<Rightarrow> pyvalue list" where
  "list_items v = (case v of PList xs \<Rightarrow> xs | _ \<Rightarrow> [])"

definition response_refusal :: "soar_analyst_input \<Rightarrow> (string \<times> pyvalue) list \<Rightarrow> exn option" where
  "response_refusal item response =
     (if \<not> (fst ` set response \<subseteq> set (field_names (ai_schema item))) \<or>
         \<not> (set (list_items (ai_required_fields item)) \<subseteq> (\<lambda>kv. PStr (fst kv)) ` set response)
      then Some (soar_http 422 ''SOAR_ANALYST_INPUT_INVALID'' ''Response fields do not match the bounded server schema'')
      else if list_ex (\<lambda>kv. length (py_str (snd kv)) > 8000) response
      then Some (soar_http 422 ''SOAR_ANALYST_INPUT_INVALID'' ''Response value is too long'')
      else None)"

definition accept_response ::
  "'w soar_env \<Rightarrow> soar_analyst_input \<Rightarrow> user_account \<Rightarrow> (string \<times> pyvalue) list \<Rightarrow> 'w soar_db \<Rightarrow> 'w soar_db result" where
  "accept_response env item actor response s =
     (case (find_row sr_id (ai_step_execution_id item) (so_step_runs s), get_execution s (ai_execution_id item)) of
        (Some run, Some x) \<Rightarrow>
          bind_result (dumps_bounded 32000 (PDict response)) (\<lambda>stored.
          bind_result (dumps_bounded 65536 (PDict [(''status'', PStr ''submitted''), (''response'', PDict response)])) (\<lambda>output.
          bind_result (definition_of s x) (\<lambda>root.
          bind_result (step_named root (sr_step_key run)) (\<lambda>source.
          bind_result (dumps_bounded 16000
              (PDict [(''field_names'', PList (map PStr (sort (map fst response))))])) (\<lambda>_. Inr
            (let s1 = upd_input (ai_id item) (\<lambda>i. i\<lparr>ai_response := Some stored, ai_submitted_by_user_id := Some (ua_id actor),
                        ai_status := ''submitted'', ai_submitted_at := Some (sn_now env)\<rparr>) s;
                 s2 = upd_step_run (sr_id run) (\<lambda>r. r\<lparr>sr_status := ''succeeded'', sr_output_snapshot := output,
                        sr_completed_at := Some (sn_now env)\<rparr>) s1;
                 s3 = upd_execution (ex_id x) (\<lambda>x. x\<lparr>ex_current_step_key := route_of source ''on_success'',
                        ex_status := ''queued''\<rparr>) s2
             in log_event env (ex_id x) (Some (sr_id run)) ''analyst_input_submitted'' None (Some ''queued'')
                  (Some (ua_id actor)) ''Bounded analyst input submitted.''
                  [(''field_names'', PList (map PStr (sort (map fst response))))] s3))))))
      | _ \<Rightarrow> Inl (AttributeError ''NoneType object has no attribute status''))"

definition submit_analyst_input ::
  "'w soar_env \<Rightarrow> nat \<Rightarrow> user_account \<Rightarrow> (string \<times> pyvalue) list \<Rightarrow> ('w soar_db, unit) action" where
  "submit_analyst_input env iid actor response s =
     (case find_row ai_id iid (so_inputs s) of
        None \<Rightarrow> (Inl (HTTPException 404 ''Record not found''), s)
      | Some item \<Rightarrow>
          if ai_status item \<noteq> ''pending''
          then (Inl (soar_http 409 ''SOAR_ANALYST_INPUT_INVALID'' ''Analyst input is no longer pending''), s)
          else if past env (ai_expires_at item)
          then (Inl (soar_http 409 ''SOAR_ANALYST_INPUT_INVALID'' ''Analyst input has expired''),
                upd_input iid (\<lambda>i. i\<lparr>ai_status := ''expired''\<rparr>) s)
          else if (case ai_requested_from_user_id item of None \<Rightarrow> False | Some i \<Rightarrow> i \<noteq> 0 \<and> i \<noteq> ua_id actor)
          then (Inl (soar_http 403 ''SOAR_PERMISSION_DENIED'' ''Analyst input is assigned to another user''), s)
          else (case response_refusal item response of
                  Some e \<Rightarrow> (Inl e, s)
                | None \<Rightarrow> (case accept_response env item actor response s of
                             Inl e \<Rightarrow> (Inl e, s)
                           | Inr t \<Rightarrow> run_execution env actor (ai_execution_id item) t)))"

definition cancel_input :: "nat \<Rightarrow> ('w soar_db, unit) action" where
  "cancel_input iid s =
     (case find_row ai_id iid (so_inputs s) of
        None \<Rightarrow> (Inl (HTTPException 404 ''Record not found''), s)
      | Some item \<Rightarrow>
          if ai_status item \<noteq> ''pending''
          then (Inl (soar_http 409 ''SOAR_ANALYST_INPUT_INVALID'' ''Input is no longer pending''), s)
          else (Inr (), upd_input iid (\<lambda>i. i\<lparr>ai_status := ''cancelled''\<rparr>) s))"


section \<open>Cancelling, retrying, resuming due delays\<close>

definition cancel_execution :: "'w soar_env \<Rightarrow> nat \<Rightarrow> user_account \<Rightarrow> string \<Rightarrow> ('w soar_db, unit) action" where
  "cancel_execution env eid actor reason s =
     (case get_execution s eid of
        None \<Rightarrow> (Inl (HTTPException 404 ''Record not found''), s)
      | Some x \<Rightarrow>
          if ex_status x \<in> set TERMINAL
          then (Inl (soar_http 409 ''SOAR_EXECUTION_TERMINAL'' ''Terminal execution cannot be cancelled''), s)
          else
            (let s1 = upd_execution eid (\<lambda>x. x\<lparr>ex_status := ''cancelled'', ex_cancelled_at := Some (sn_now env),
                        ex_completed_at := Some (sn_now env), ex_cancellation_reason := Some reason\<rparr>) s;
                 s2 = s1\<lparr>so_approvals := upd_where
                        (\<lambda>a. pa_execution_id a = eid \<and> pa_status a \<in> {''pending'', ''partially_approved''})
                        (\<lambda>a. a\<lparr>pa_status := ''cancelled''\<rparr>) (so_approvals s1),
                      so_inputs := upd_where (\<lambda>i. ai_execution_id i = eid \<and> ai_status i = ''pending'')
                        (\<lambda>i. i\<lparr>ai_status := ''cancelled''\<rparr>) (so_inputs s1)\<rparr>;
                 s3 = log_event env eid None ''execution_cancelled'' (Some (ex_status x)) (Some ''cancelled'')
                        (Some (ua_id actor)) reason [] s2;
                 s4 = notify_once env eid (ex_requested_by_user_id x) ''SOAR execution cancelled''
                        (''Execution '' @ short_uuid x @ '' was cancelled with history preserved.'') ''warning'' s3
             in (Inr (), soar_activity env ''soar_execution_cancelled''
                   (''SOAR execution '' @ short_uuid x @ '' was cancelled.'') ''soar_execution'' eid s4)))"

definition failed_step :: "'w soar_db \<Rightarrow> nat \<Rightarrow> soar_step_execution option" where
  "failed_step s eid = latest sr_id (filter (\<lambda>r. sr_execution_id r = eid \<and> sr_status r = ''failed'') (so_step_runs s))"

definition retryable :: "soar_step_execution \<Rightarrow> bool" where
  "retryable r =
     (case (case sr_action_key r of None \<Rightarrow> None | Some k \<Rightarrow> get_action k) of
        None \<Rightarrow> False
      | Some action \<Rightarrow> supports_idempotency action \<and>
          (case sr_error_code r of None \<Rightarrow> False | Some c \<Rightarrow> c \<in> set (retryable_error_codes action)))"

definition retry_execution :: "'w soar_env \<Rightarrow> nat \<Rightarrow> user_account \<Rightarrow> string \<Rightarrow> ('w soar_db, unit) action" where
  "retry_execution env eid actor reason s =
     (case get_execution s eid of
        None \<Rightarrow> (Inl (HTTPException 404 ''Record not found''), s)
      | Some x \<Rightarrow>
          if ex_status x \<noteq> ''failed''
          then (Inl (soar_http 409 ''SOAR_EXECUTION_CONFLICT'' ''Only failed executions can be retried''), s)
          else if ex_retry_count x \<ge> 3
          then (Inl (soar_http 409 ''SOAR_RETRY_EXHAUSTED'' ''Execution retry limit is exhausted''), s)
          else (case failed_step s eid of
                  None \<Rightarrow> (Inl (soar_http 409 ''SOAR_RETRY_EXHAUSTED''
                              ''Failed step or error code is not safely retryable''), s)
                | Some r \<Rightarrow>
                    if \<not> retryable r
                    then (Inl (soar_http 409 ''SOAR_RETRY_EXHAUSTED''
                              ''Failed step or error code is not safely retryable''), s)
                    else run_execution env actor eid
                      (log_event env eid None ''manual_retry_requested'' None (Some ''queued'') (Some (ua_id actor)) reason
                         [(''retry_count'', PInt (int (ex_retry_count x + 1))),
                          (''previous_error_code'', str_value (sr_error_code r))]
                         (upd_execution eid (\<lambda>x. x\<lparr>ex_retry_count := ex_retry_count x + 1,
                            ex_current_step_key := Some (sr_step_key r), ex_status := ''queued'',
                            ex_completed_at := None, ex_error_code := None, ex_error_summary := None\<rparr>) s))))"

definition due_executions :: "'w soar_env \<Rightarrow> nat \<Rightarrow> 'w soar_db \<Rightarrow> soar_execution list" where
  "due_executions env batch s =
     take batch (sort_key (\<lambda>x. (case ex_next_resume_at x of None \<Rightarrow> 0 | Some t \<Rightarrow> t))
       (sort_key ex_id (filter (\<lambda>x. ex_status x = ''waiting_delay'' \<and> past env (ex_next_resume_at x)) (so_executions s))))"

definition delayed_step :: "'w soar_db \<Rightarrow> soar_execution \<Rightarrow> soar_step_execution option" where
  "delayed_step s x =
     latest sr_id (filter (\<lambda>r. sr_execution_id r = ex_id x \<and> Some (sr_step_key r) = ex_current_step_key x \<and>
                               sr_status r = ''waiting_delay'') (so_step_runs s))"

definition wake_execution ::
  "'w soar_env \<Rightarrow> user_account \<Rightarrow> soar_execution \<Rightarrow> soar_step_execution \<Rightarrow> 'w soar_db \<Rightarrow> 'w soar_db result" where
  "wake_execution env actor x run s =
     bind_result (definition_of s x) (\<lambda>root.
     bind_result (step_named root (sr_step_key run)) (\<lambda>source. Inr
       (let s1 = upd_step_run (sr_id run) (\<lambda>r. r\<lparr>sr_status := ''succeeded'', sr_completed_at := Some (sn_now env),
                   sr_output_snapshot := PDict [(''status'', PStr ''delay_completed''),
                                                (''summary'', PStr ''Persistent delay became due'')]\<rparr>) s;
            s2 = upd_execution (ex_id x) (\<lambda>x. x\<lparr>ex_current_step_key := route_of source ''on_success'',
                   ex_next_resume_at := None, ex_status := ''queued''\<rparr>) s1
        in log_event env (ex_id x) (Some (sr_id run)) ''delay_completed'' None (Some ''queued'') (Some (ua_id actor))
             ''Due execution resumed without blocking sleep.'' [] s2)))"

text \<open>The loop over the due executions; an exception ends the request with what was committed.\<close>

fun process_items ::
  "'w soar_env \<Rightarrow> user_account \<Rightarrow> soar_execution list \<Rightarrow> nat list \<Rightarrow> ('w soar_db, nat list) action" where
  "process_items env actor [] processed s = (Inr processed, s)"
| "process_items env actor (item # items) processed s =
     (case get_execution s (ex_id item) of
        None \<Rightarrow> (Inl ObjectDeletedError, s)
      | Some x \<Rightarrow>
        (case delayed_step s x of
           None \<Rightarrow> process_items env actor items processed s
         | Some run \<Rightarrow>
           (case wake_execution env actor x run s of
              Inl e \<Rightarrow> (Inl e, s)
            | Inr s1 \<Rightarrow>
              (case run_execution env actor (ex_id x) s1 of
                 (Inl e, s2) \<Rightarrow> (Inl e, s2)
               | (Inr _, s2) \<Rightarrow> process_items env actor items (processed @ [ex_id x]) s2))))"

definition expire_all :: "'w soar_env \<Rightarrow> user_account \<Rightarrow> 'w soar_db \<Rightarrow> nat \<times> 'w soar_db" where
  "expire_all env actor s =
     (let stale = filter (\<lambda>x. ex_status x \<notin> set TERMINAL \<and> past env (ex_expires_at x)) (so_executions s)
      in (length stale,
          fold (\<lambda>x. expire_execution env actor (ex_id x) ''Execution expired during due processing.'') stale s))"

definition process_due :: "'w soar_env \<Rightarrow> user_account \<Rightarrow> nat \<Rightarrow> ('w soar_db, nat list \<times> nat) action" where
  "process_due env actor batch s =
     (case process_items env actor (due_executions env batch s) [] s of
        (Inl e, t) \<Rightarrow> (Inl e, t)
      | (Inr processed, t) \<Rightarrow> (case expire_all env actor t of (n, u) \<Rightarrow> (Inr (processed, n), u)))"


section \<open>Rollbacks\<close>

definition rollback_of_step :: "'w soar_env \<Rightarrow> soar_execution \<Rightarrow> user_account \<Rightarrow> string \<Rightarrow> soar_step_execution \<Rightarrow>
     'w soar_db \<Rightarrow> 'w soar_db" where
  "rollback_of_step env x actor reason run s =
     (let comp = (case (case sr_action_key run of None \<Rightarrow> None | Some k \<Rightarrow> get_action k) of
                    None \<Rightarrow> None | Some action \<Rightarrow> compensating_action_key action)
      in if list_ex (\<lambda>r. rb_source_step_execution_id r = sr_id run \<and> rb_compensating_action_key r = comp) (so_rollbacks s)
         then s
         else let i = next_id rb_id (so_rollbacks s) in
           s\<lparr>so_rollbacks := so_rollbacks s @
             [\<lparr>rb_id = i, rb_rollback_uuid = sn_uuid env ''soar_rollback_records'' i, rb_execution_id = ex_id x,
               rb_source_step_execution_id = sr_id run, rb_compensating_action_key = comp,
               rb_status = (if comp \<noteq> None then ''waiting_approval'' else ''not_supported''),
               rb_before_state = (case sr_output_snapshot run of PDict d \<Rightarrow> get_or d ''before_state'' empty_dict | _ \<Rightarrow> empty_dict),
               rb_intended_after_state = map_option (\<lambda>k. PDict [(''compensating_action_key'', PStr k)]) comp,
               rb_actual_after_state = None, rb_reason = reason, rb_requested_by_user_id = ua_id actor,
               rb_approved_by_user_id = None, rb_executed_by_user_id = None, rb_error_summary = None,
               rb_created_at = sn_now env,
               rb_completed_at = (if comp = None then Some (sn_now env) else None)\<rparr>]\<rparr>)"

definition request_rollbacks :: "'w soar_env \<Rightarrow> nat \<Rightarrow> user_account \<Rightarrow> string \<Rightarrow> ('w soar_db, nat) action" where
  "request_rollbacks env eid actor reason s =
     (case get_execution s eid of
        None \<Rightarrow> (Inl (HTTPException 404 ''Record not found''), s)
      | Some x \<Rightarrow>
          if ex_status x \<notin> set TERMINAL - {''rolled_back'', ''rollback_failed''}
          then (Inl (soar_http 409 ''SOAR_EXECUTION_TERMINAL''
                  ''Rollback requires a completed, failed, or cancelled execution''), s)
          else
            (let runs = rev (sort_key sr_id (filter (\<lambda>r. sr_execution_id r = eid \<and>
                          sr_status r \<in> {''succeeded'', ''simulated''}) (so_step_runs s)));
                 s1 = fold (rollback_of_step env x actor reason) runs s
             in if runs = []
                then (Inl (soar_http 409 ''SOAR_ROLLBACK_UNSUPPORTED'' ''Execution has no compensatable step history''), s)
                else
                  let s2 = upd_execution eid (\<lambda>x. x\<lparr>ex_status := ''rollback_requested''\<rparr>) s1;
                      s3 = log_event env eid None ''rollback_requested'' None (Some ''rollback_requested'')
                             (Some (ua_id actor)) ''Rollback records created; unsupported actions remain explicit.''
                             [(''record_count'', PInt (int (length runs)))] s2;
                      s4 = notify_once env eid (ex_requested_by_user_id x) ''SOAR rollback requested''
                             (''Execution '' @ short_uuid x @ '' has '' @ str_nat (length runs)
                              @ '' explicit compensation records.'') ''warning'' s3
                  in (Inr (length runs), soar_activity env ''soar_rollback_requested''
                        (''Rollback requested for SOAR execution '' @ short_uuid x @ ''.'') ''soar_execution'' eid s4)))"

definition upd_rollback :: "nat \<Rightarrow> (soar_rollback_record \<Rightarrow> soar_rollback_record) \<Rightarrow> 'w soar_db \<Rightarrow> 'w soar_db" where
  "upd_rollback rid f s = s\<lparr>so_rollbacks := upd_row rb_id rid f (so_rollbacks s)\<rparr>"

definition approve_rollback :: "nat \<Rightarrow> user_account \<Rightarrow> ('w soar_db, unit) action" where
  "approve_rollback rid actor s =
     (case find_row rb_id rid (so_rollbacks s) of
        None \<Rightarrow> (Inl (HTTPException 404 ''Record not found''), s)
      | Some r \<Rightarrow>
          if rb_status r \<noteq> ''waiting_approval''
          then (Inl (soar_http 409 ''SOAR_ROLLBACK_CONFLICT'' ''Rollback is not awaiting approval''), s)
          else if rb_requested_by_user_id r = ua_id actor \<and>
                  list_ex (\<lambda>u. ua_status u = Active \<and> ua_id u \<noteq> ua_id actor \<and> ua_is_system_admin u) (users (so_access s))
          then (Inl (soar_http 403 ''SOAR_APPROVAL_NOT_ELIGIBLE''
                  ''Rollback requester cannot self-approve while another Administrator is eligible''), s)
          else (Inr (), upd_rollback rid (\<lambda>r. r\<lparr>rb_status := ''approved'', rb_approved_by_user_id := Some (ua_id actor)\<rparr>) s))"

definition cancel_rollback :: "'w soar_env \<Rightarrow> nat \<Rightarrow> ('w soar_db, unit) action" where
  "cancel_rollback env rid s =
     (case find_row rb_id rid (so_rollbacks s) of
        None \<Rightarrow> (Inl (HTTPException 404 ''Record not found''), s)
      | Some r \<Rightarrow>
          if rb_status r \<notin> {''proposed'', ''waiting_approval'', ''approved''}
          then (Inl (soar_http 409 ''SOAR_ROLLBACK_CONFLICT'' ''Rollback cannot be cancelled''), s)
          else (Inr (), upd_rollback rid (\<lambda>r. r\<lparr>rb_status := ''cancelled'', rb_completed_at := Some (sn_now env)\<rparr>) s))"

text \<open>The configuration a compensating action gets: the recorded state before the action and its target.\<close>

definition rollback_config ::
  "(string \<times> pyvalue) list \<Rightarrow> (string \<times> pyvalue) list \<Rightarrow> string \<Rightarrow> (string \<times> pyvalue) list" where
  "rollback_config before output reason =
     foldl (\<lambda>d kv. dict_put d (fst kv) (snd kv)) before
       [(''record_id'', dict_get output ''record_id''),
        (''value'', case find (\<lambda>kv. fst kv \<notin> {''case_id'', ''vulnerability_id'', ''record_id''}) before of
                      None \<Rightarrow> PNone | Some kv \<Rightarrow> snd kv),
        (''case_id'', dict_get before ''case_id''), (''source_id'', dict_get before ''vulnerability_id''),
        (''reason'', PStr reason)]"

definition rollback_failed ::
  "'w soar_env \<Rightarrow> soar_rollback_record \<Rightarrow> soar_execution \<Rightarrow> user_account \<Rightarrow> exn \<Rightarrow> 'w soar_db \<Rightarrow> 'w soar_db" where
  "rollback_failed env r x actor e s =
     (let eid = ex_id x;
          s1 = upd_rollback (rb_id r) (\<lambda>r. r\<lparr>rb_status := ''failed'', rb_error_summary := Some (take 1000 (exn_message e)),
                 rb_completed_at := Some (sn_now env)\<rparr>) s;
          s2 = upd_execution eid (\<lambda>x. x\<lparr>ex_status := ''rollback_failed''\<rparr>) s1;
          s3 = log_event env eid None ''rollback_failed'' None (Some ''rollback_failed'') (Some (ua_id actor))
                 ''Rollback failed safely and history was preserved.'' [] s2
      in notify_once env eid (ex_requested_by_user_id x) ''SOAR rollback failed''
           (''Rollback for execution '' @ short_uuid x @ '' failed safely; history was preserved.'') ''danger'' s3)"

definition rollback_done ::
  "'w soar_env \<Rightarrow> soar_rollback_record \<Rightarrow> soar_execution \<Rightarrow> nat \<Rightarrow> string \<Rightarrow> pyvalue \<Rightarrow> user_account \<Rightarrow> 'w soar_db \<Rightarrow> 'w soar_db" where
  "rollback_done env r x step_id key output actor s =
     (let eid = ex_id x;
          s1 = upd_rollback (rb_id r) (\<lambda>r. r\<lparr>rb_status := ''completed'', rb_actual_after_state := Some output,
                 rb_executed_by_user_id := Some (ua_id actor), rb_completed_at := Some (sn_now env)\<rparr>) s;
          s2 = log_event env eid (Some step_id) ''rollback_completed'' None (Some ''rolled_back'') (Some (ua_id actor))
                 ''Approved local compensation completed.'' [(''compensating_action_key'', PStr key)] s1;
          pending = count_where (\<lambda>r. rb_execution_id r = eid \<and> rb_status r = ''waiting_approval'') (so_rollbacks s2)
      in upd_execution eid (\<lambda>x. x\<lparr>ex_status := (if pending = 0 then ''rolled_back'' else ''rollback_requested'')\<rparr>) s2)"

definition announce_rollback :: "'w soar_env \<Rightarrow> soar_rollback_record \<Rightarrow> string \<Rightarrow> 'w soar_db \<Rightarrow> 'w soar_db" where
  "announce_rollback env r status =
     soar_activity env (if status = ''completed'' then ''soar_rollback_completed'' else ''soar_rollback_failed'')
       (''SOAR rollback '' @ take 16 (rb_rollback_uuid r) @ '' finished with status '' @ status @ ''.'')
       ''soar_rollback'' (rb_id r)"

definition execute_rollback :: "'w soar_env \<Rightarrow> nat \<Rightarrow> user_account \<Rightarrow> ('w soar_db, unit) action" where
  "execute_rollback env rid actor s =
     (case find_row rb_id rid (so_rollbacks s) of
        None \<Rightarrow> (Inl (HTTPException 404 ''Record not found''), s)
      | Some r \<Rightarrow>
          if rb_status r \<noteq> ''approved''
          then (Inl (soar_http 409 ''SOAR_ROLLBACK_CONFLICT'' ''Rollback must be approved before execution''), s)
          else (case (case rb_compensating_action_key r of None \<Rightarrow> None | Some k \<Rightarrow> get_action k) of
             None \<Rightarrow> (Inl (soar_http 409 ''SOAR_ROLLBACK_UNSUPPORTED'' ''This action cannot be securely reversed''),
                      upd_rollback rid (\<lambda>r. r\<lparr>rb_status := ''not_supported'', rb_completed_at := Some (sn_now env)\<rparr>) s)
           | Some action \<Rightarrow>
               (case (get_execution s (rb_execution_id r), find_row sr_id (rb_source_step_execution_id r) (so_step_runs s)) of
                  (Some x, Some run) \<Rightarrow>
                    (case bind_result (as_dict (rb_before_state r)) (\<lambda>before.
                            bind_result (as_dict (sr_output_snapshot run)) (\<lambda>output.
                              Inr (rollback_config before output (rb_reason r)))) of
                       Inl e \<Rightarrow> (Inl e, s)
                     | Inr config \<Rightarrow>
                         (case dispatch env x run action config actor
                                 (upd_rollback rid (\<lambda>r. r\<lparr>rb_status := ''running''\<rparr>) s) of
                            (Inl e, _) \<Rightarrow> (Inr (), announce_rollback env r ''failed'' (rollback_failed env r x actor e s))
                          | (Inr output, t) \<Rightarrow>
                              (case dumps_bounded 65536 (PDict output) of
                                 Inl e \<Rightarrow> (Inr (), announce_rollback env r ''failed'' (rollback_failed env r x actor e s))
                               | Inr stored \<Rightarrow>
                                   (Inr (), announce_rollback env r ''completed''
                                      (rollback_done env r x (sr_id run) (action_key action) stored actor t)))))
                | _ \<Rightarrow> (Inl (AttributeError ''NoneType object has no attribute id''), s))))"

end
