(* ===== verification/Soar_Events.thy ===== *)
theory Soar_Events
  imports Soar_Operations Admin_Safety
begin

text \<open>
  What an execution can do to accounts, sessions and approvals: every run of the playbook engine is
  a sequence of three kinds of event. Everything else it writes leaves the view below unchanged.
\<close>

section \<open>The guarded part of the state\<close>

definition accounts_view :: "db \<Rightarrow> user_account list \<times> auth_session list \<times> access_role list \<times>
    access_permission list \<times> user_role_assignment list \<times> role_permission_assignment list" where
  "accounts_view a = (users a, sessions a, roles a, permissions a, user_roles a, role_permissions a)"

definition exec_mode :: "'w soar_db \<Rightarrow> nat \<Rightarrow> string option" where
  "exec_mode s eid = map_option ex_mode (get_execution s eid)"

definition guard_view where
  "guard_view s = (accounts_view (so_access s), so_approvals s, so_decisions s)"

definition run_view where
  "run_view s = (guard_view s, exec_mode s)"

named_theorems view_simps \<open>operations that leave the guarded part alone\<close>

lemma permissions_view: "accounts_view a = accounts_view b \<Longrightarrow> effective_permissions a u = effective_permissions b u"
  by (simp add: accounts_view_def effective_permissions_def)

lemma guard_of_run: "run_view t = run_view s \<Longrightarrow> guard_view t = guard_view s"
  by (simp add: run_view_def)

lemma exec_mode_upd:
  "(\<And>x. ex_id (f x) = ex_id x) \<Longrightarrow> (\<And>x. ex_mode (f x) = ex_mode x) \<Longrightarrow>
     exec_mode (upd_execution i f s) = exec_mode s"
  by (rule ext) (simp add: exec_mode_def get_execution_def upd_execution_def find_row_upd_row option.map_comp comp_def
    if_distrib cong: map_option_cong)

lemma view_upd_execution [view_simps]:
  "(\<And>x. ex_id (f x) = ex_id x) \<Longrightarrow> (\<And>x. ex_mode (f x) = ex_mode x) \<Longrightarrow> run_view (upd_execution i f s) = run_view s"
  by (simp add: run_view_def exec_mode_upd) (simp add: upd_execution_def guard_view_def)

lemma view_plain [view_simps]:
  "run_view (s\<lparr>so_events := es\<rparr>) = run_view s" "run_view (s\<lparr>so_step_runs := rs\<rparr>) = run_view s"
  "run_view (s\<lparr>so_playbooks := ps\<rparr>) = run_view s" "run_view (s\<lparr>so_inputs := ins\<rparr>) = run_view s"
  "run_view (s\<lparr>so_rollbacks := bs\<rparr>) = run_view s" "run_view (s\<lparr>so_others := w\<rparr>) = run_view s"
  by (simp_all add: run_view_def guard_view_def exec_mode_def [abs_def] get_execution_def)

lemma view_access [view_simps]:
  "accounts_view a = accounts_view (so_access s) \<Longrightarrow> run_view (s\<lparr>so_access := a\<rparr>) = run_view s"
  by (simp add: run_view_def guard_view_def exec_mode_def [abs_def] get_execution_def)

lemma accounts_view_simps [simp]:
  "accounts_view (a\<lparr>notifications := ns\<rparr>) = accounts_view a" "accounts_view (a\<lparr>activities := acts\<rparr>) = accounts_view a"
  "accounts_view (a\<lparr>audit_events := aes\<rparr>) = accounts_view a"
  by (simp_all add: accounts_view_def)

lemma exec_mode_keeps [simp]:
  "exec_mode (s\<lparr>so_access := a\<rparr>) = exec_mode s" "exec_mode (s\<lparr>so_approvals := aps\<rparr>) = exec_mode s"
  "exec_mode (s\<lparr>so_decisions := ds\<rparr>) = exec_mode s"
  by (simp_all add: exec_mode_def [abs_def] get_execution_def)

lemma append_event_view: "append_event cx args a = (out, b) \<Longrightarrow> accounts_view b = accounts_view a"
  by (auto simp: append_event_def Let_def split: if_splits)

lemma upd_execution_simps [simp]:
  "so_access (upd_execution i f s) = so_access s" "so_approvals (upd_execution i f s) = so_approvals s"
  "so_decisions (upd_execution i f s) = so_decisions s"
  by (simp_all add: upd_execution_def)

lemma view_small [view_simps]:
  "run_view (upd_step_run i g s) = run_view s" "run_view (upd_playbook i h s) = run_view s"
  "run_view (log_event env eid sid et p n a su md s) = run_view s"
  "run_view (soar_activity env act m ty i s) = run_view s"
  "run_view (notify_once env eid r ti m l s) = run_view s"
  by (simp_all add: upd_step_run_def upd_playbook_def log_event_def soar_activity_def notify_once_def Let_def view_simps)

lemma view_composed [view_simps]:
  "run_view (fail_execution env actor eid code su s) = run_view s"
  "run_view (warn_completed env actor x s) = run_view s"
  "run_view (finish_execution env actor x run s) = run_view s"
  "run_view (start_running env actor x s) = run_view s"
  "run_view (expire_execution env actor eid su s) = run_view s"
  "run_view (apply_local eid res w s) = run_view s"
  by (auto simp: fail_execution_def warn_completed_def finish_execution_def start_running_def expire_execution_def
      apply_local_def Let_def view_simps split: option.splits)

lemma create_step_view: "create_step env x d s = Inr (run, t) \<Longrightarrow> run_view t = run_view s"
  by (auto simp: create_step_def Let_def bind_result_Inr_iff view_simps split: if_splits option.splits)

lemma complete_step_view: "complete_step env actor x run out st route s = (r, t) \<Longrightarrow> run_view t = run_view s"
  by (auto simp: complete_step_def Let_def view_simps append_event_view
      split: sum.splits option.splits if_splits prod.splits)


section \<open>Events of a run\<close>

text \<open>
  An account or session changes only by an identity action of the catalog, for an execution that is
  not a dry run, by an actor who holds its permission, on a granted approval of that step.
\<close>

inductive run_event :: "'w soar_env \<Rightarrow> user_account \<Rightarrow> nat \<Rightarrow> 'w soar_db \<Rightarrow> 'w soar_db \<Rightarrow> bool"
  for env :: "'w soar_env" and actor :: user_account and eid :: nat where
  quiet_event: "run_view t = run_view s \<Longrightarrow> run_event env actor eid s t"
| request_event:
    "\<lbrakk>so_approvals t = so_approvals s @ [a]; pa_id a = next_id pa_id (so_approvals s); pa_status a = ''pending'';
      1 \<le> pa_minimum_approvals a; pa_execution_id a = eid; accounts_view (so_access t) = accounts_view (so_access s);
      so_decisions t = so_decisions s; exec_mode t = exec_mode s\<rbrakk> \<Longrightarrow> run_event env actor eid s t"
| identity_event:
    "\<lbrakk>key \<in> set identity_actions; exec_mode s eid = Some mode; mode \<noteq> ''dry_run'';
      ''soar:sensitive_actions'' \<in> effective_permissions (so_access s) actor;
      ap \<in> set (so_approvals s); pa_execution_id ap = eid; pa_status ap = ''approved'';
      identity_action env key config x actor (so_access s) = Inr (rid, a);
      accounts_view (so_access t) = accounts_view a; so_approvals t = so_approvals s; so_decisions t = so_decisions s;
      exec_mode t = exec_mode s\<rbrakk> \<Longrightarrow> run_event env actor eid s t"

abbreviation run_path where "run_path env actor eid \<equiv> (run_event env actor eid)\<^sup>*\<^sup>*"

lemma quiet_path: "run_view t = run_view s \<Longrightarrow> run_path env actor eid s t"
  by (blast intro: quiet_event)

lemma path_quiet: "run_path env actor eid s t \<Longrightarrow> run_view u = run_view t \<Longrightarrow> run_path env actor eid s u"
  by (meson quiet_event rtranclp.rtrancl_into_rtrancl)

lemma quiet_then: "run_view t = run_view s \<Longrightarrow> run_path env actor eid t u \<Longrightarrow> run_path env actor eid s u"
  by (meson quiet_event converse_rtranclp_into_rtranclp)

text \<open>The dispatcher leaves the view alone or performs an identity action.\<close>

lemma dispatch_cases:
  assumes "dispatch env x run action config actor s = (r, t)"
  shows "run_view t = run_view s \<or>
    (action_key action \<in> set identity_actions \<and>
     (\<exists>rid a. identity_action env (action_key action) config x actor (so_access s) = Inr (rid, a) \<and>
        accounts_view (so_access t) = accounts_view a \<and> so_approvals t = so_approvals s \<and>
        so_decisions t = so_decisions s \<and> exec_mode t = exec_mode s))"
proof (cases "action_key action \<in> set identity_actions")
  case True
  let ?ids = "bind_result (as_dict (ex_variable_state x)) (\<lambda>vars.
                int_or_zero (sn_fv env) [dict_get config ''case_id'', dict_get vars ''case_id''])"
  show ?thesis
  proof (cases ?ids; cases "identity_action env (action_key action) config x actor (so_access s)")
    fix i ra assume "?ids = Inr i" "identity_action env (action_key action) config x actor (so_access s) = Inr ra"
    with assms True show ?thesis
      by (cases ra) (auto simp: dispatch_def Let_def view_simps exec_mode_upd split: if_splits)
  qed (use assms True in \<open>auto simp: dispatch_def Let_def view_simps split: if_splits\<close>)
next
  case False
  with assms show ?thesis
    by (auto simp: dispatch_def Let_def view_simps split: if_splits sum.splits prod.splits)
qed

text \<open>Every identity action of the catalog is a sensitive local action.\<close>

lemma identity_actions_sensitive:
  "get_action k = Some a \<Longrightarrow> action_key a \<in> set identity_actions \<Longrightarrow>
     safety_classification a = ''sensitive_local'' \<and> required_permission a = ''soar:sensitive_actions'' \<and>
     approval_type_of a = Some ''sensitive_action''"
proof -
  have "list_all (\<lambda>d. action_key d \<in> set identity_actions \<longrightarrow>
      safety_classification d = ''sensitive_local'' \<and>
      required_permission d = ''soar:sensitive_actions'') CATALOG_ACTIONS"
    by code_simp
  then show "get_action k = Some a \<Longrightarrow> action_key a \<in> set identity_actions \<Longrightarrow> ?thesis"
    by (auto simp: list_all_iff approval_type_of_def dest!: get_action_SomeD)
qed

lemma new_approval_InrD:
  "new_approval env x run action config actor ty s = Inr a \<Longrightarrow>
     pa_id a = next_id pa_id (so_approvals s) \<and> pa_status a = ''pending'' \<and> 1 \<le> pa_minimum_approvals a \<and>
     pa_execution_id a = ex_id x"
  by (auto simp: new_approval_def Let_def bind_result_Inr_iff)

lemma approval_of_step_mem:
  "approval_of_step s eid sid = Some a \<Longrightarrow> a \<in> set (so_approvals s) \<and> pa_execution_id a = eid"
  by (auto simp: approval_of_step_def dest!: latest_mem)

text \<open>Asking for an approval finds the one of the step or adds a pending one.\<close>

lemma pending_approval_cases:
  assumes "pending_approval env x run action config actor ty s = Inr (a, t)"
  shows "(t = s \<and> a \<in> set (so_approvals s) \<and> pa_execution_id a = ex_id x) \<or>
    (run_event env actor (ex_id x) s t \<and> pa_status a = ''pending'')"
proof (cases "approval_of_step s (ex_id x) (sr_id run)")
  case (Some b)
  with assms show ?thesis by (auto simp: pending_approval_def dest: approval_of_step_mem)
next
  case None
  with assms have n: "new_approval env x run action config actor ty s = Inr a"
    and t: "run_view t = run_view (s\<lparr>so_approvals := so_approvals s @ [a]\<rparr>)"
    by (auto simp: pending_approval_def Let_def bind_result_Inr_iff view_simps)
  from t have "so_approvals t = so_approvals s @ [a]" "accounts_view (so_access t) = accounts_view (so_access s)"
    "so_decisions t = so_decisions s" "exec_mode t = exec_mode s"
    by (simp_all add: run_view_def guard_view_def exec_mode_def [abs_def] get_execution_def)
  then have "run_event env actor (ex_id x) s t"
    using new_approval_InrD [OF n] by (intro request_event) auto
  with new_approval_InrD [OF n] show ?thesis by blast
qed

lemma perform_action_path:
  assumes r: "perform_action env actor x d config run s = (out, t)"
    and mode: "exec_mode s (ex_id x) = Some (ex_mode x)" "ex_mode x \<noteq> ''dry_run''"
  shows "run_path env actor (ex_id x) s t"
proof -
  let ?path = "run_path env actor (ex_id x)"
  have dispatched: "?path s u"
    if action: "action_of d = Some action" and d: "perform_dispatch env actor x d config run action s = (res, u)"
      and perm: "required_permission action \<in> effective_permissions (so_access s) actor"
      and ap: "approval_type_of action \<noteq> None \<longrightarrow>
        (\<exists>ap \<in> set (so_approvals s). pa_execution_id ap = ex_id x \<and> pa_status ap = ''approved'')" for action res u
  proof -
    obtain res1 t1 where d1: "dispatch env x run action config actor s = (res1, t1)" by fastforce
    have u: "run_view u = run_view t1"
      using d d1 by (auto simp: perform_dispatch_def split: sum.splits dest: complete_step_view)
    from dispatch_cases [OF d1] have "?path s t1"
    proof (elim disjE conjE exE)
      fix rid a
      assume key: "action_key action \<in> set identity_actions"
        and a: "identity_action env (action_key action) config x actor (so_access s) = Inr (rid, a)"
        "accounts_view (so_access t1) = accounts_view a" "so_approvals t1 = so_approvals s"
        "so_decisions t1 = so_decisions s" "exec_mode t1 = exec_mode s"
      from action obtain k where "get_action k = Some action" by (auto simp: action_of_def split: pyvalue.splits)
      from identity_actions_sensitive [OF this key]
      have "required_permission action = ''soar:sensitive_actions''" "approval_type_of action \<noteq> None" by auto
      with ap perm obtain ap where "ap \<in> set (so_approvals s)" "pa_execution_id ap = ex_id x"
        "pa_status ap = ''approved''" "''soar:sensitive_actions'' \<in> effective_permissions (so_access s) actor" by auto
      with a key mode have "run_event env actor (ex_id x) s t1" by (intro identity_event) auto
      then show ?thesis by blast
    qed (rule quiet_path)
    then show ?thesis using u by (rule path_quiet)
  qed
  show ?thesis
  proof (cases "action_of d")
    case None
    with r show ?thesis by (simp add: perform_action_def)
  next
    case (Some action)
    show ?thesis
    proof (cases "approval_type_of action")
      case None
      with r Some dispatched show ?thesis by (auto simp: perform_action_def split: if_splits)
    next
      case (Some ty)
      from r \<open>action_of d = Some action\<close> Some consider "t = s"
        | a u where "pending_approval env x run (Some action) config actor ty s = Inr (a, u)"
            "pa_status a \<noteq> ''approved''" "t = u"
        | a u where "pending_approval env x run (Some action) config actor ty s = Inr (a, u)"
            "pa_status a = ''approved''" "perform_dispatch env actor x d config run action u = (out, t)"
            "required_permission action \<in> effective_permissions (so_access s) actor"
        by (auto simp: perform_action_def split: if_splits sum.splits)
      then show ?thesis
      proof cases
        case 2
        from pending_approval_cases [OF 2(1)] show ?thesis using 2(3) by auto
      next
        case 3
        from pending_approval_cases [OF 3(1)] 3(2) have "u = s" "a \<in> set (so_approvals s)" "pa_execution_id a = ex_id x"
          by auto
        with 3 \<open>action_of d = Some action\<close> show ?thesis by (intro dispatched) auto
      qed simp
    qed
  qed
qed

lemma perform_approval_path:
  "perform_approval env actor x config run s = (out, t) \<Longrightarrow> run_path env actor (ex_id x) s t"
  by (auto simp: perform_approval_def split: sum.splits prod.splits dest!: pending_approval_cases [of env x])

lemma perform_quiet:
  "perform_condition env actor root x d run s = (out, t) \<Longrightarrow> run_view t = run_view s"
  "perform_input env actor x config run s = (out, t) \<Longrightarrow> run_view t = run_view s"
  "perform_delay env actor x config run s = (out, t) \<Longrightarrow> run_view t = run_view s"
  by (auto simp: perform_condition_def perform_input_def perform_delay_def Let_def view_simps bind_result_Inr_iff
      split: sum.splits prod.splits option.splits dest: complete_step_view)

lemma perform_step_path:
  assumes r: "perform_step env actor root x d run s = (out, t)" and mode: "exec_mode s (ex_id x) = Some (ex_mode x)"
  shows "run_path env actor (ex_id x) s t"
proof -
  let ?config = "case step_config d of None \<Rightarrow> [] | Some c \<Rightarrow> c"
  from r consider "run_view t = run_view s"
    | "perform_approval env actor x ?config run s = (out, t)"
    | "perform_action env actor x d ?config run s = (out, t)" "ex_mode x \<noteq> ''dry_run''"
    by (simp only: perform_step_def Let_def split: if_splits)
      (auto simp: view_simps dest: perform_quiet complete_step_view)
  then show ?thesis
    by cases (blast intro: quiet_path perform_approval_path perform_action_path [OF _ mode])+
qed


section \<open>Runs\<close>

lemma get_execution_id: "get_execution s eid = Some x \<Longrightarrow> ex_id x = eid"
  by (auto simp: get_execution_def find_row_def dest: find_SomeD)

text \<open>Both states the loop carries are reached by events; what it returns is one of them, perhaps failed.\<close>

lemma run_loop_path:
  "run_loop env actor eid root by_key n committed s = (out, t) \<Longrightarrow> run_path env actor eid a committed \<Longrightarrow>
     run_path env actor eid a s \<Longrightarrow> run_path env actor eid a t"
proof (induction env actor eid root by_key n committed s rule: run_loop.induct)
  case (1 env actor eid root by_key committed s)
  then show ?case by (auto intro: path_quiet simp: view_simps)
next
  case (2 env actor eid root by_key n committed s)
  let ?path = "run_path env actor eid"
  have failed: "?path a (fail_execution env actor eid code m u)" if "?path a u" for code m u
    using that by (rule path_quiet) (simp add: view_simps)
  show ?case
  proof (cases "get_execution s eid")
    case None
    with 2 show ?thesis by simp
  next
    case (Some x)
    note x = Some get_execution_id [OF Some]
    show ?thesis
    proof (cases "case ex_current_step_key x of None \<Rightarrow> None | Some key \<Rightarrow> by_key key")
      case None
      with 2(2,4) x(1) show ?thesis by (auto split: option.splits intro: failed)
    next
      case (Some d)
      then obtain key where key: "ex_current_step_key x = Some key" "by_key key = Some d" by (auto split: option.splits)
      show ?thesis
      proof (cases "create_step env x d s")
        case (Inl e)
        with 2(2,3) x(1) key show ?thesis by simp
      next
        case (Inr rs)
        obtain run s1 where rs: "rs = (run, s1)" by fastforce
        have v: "run_view s1 = run_view s" using create_step_view Inr rs by blast
        have s1: "?path a s1" using 2(4) v by (rule path_quiet)
        show ?thesis
        proof (cases "sr_status run \<in> set waiting_status")
          case True
          with 2(2) x(1) key Inr rs s1 show ?thesis by simp
        next
          case False
          obtain res s2 where p: "perform_step env actor root x d run s1 = (res, s2)" by fastforce
          have "exec_mode s1 eid = Some (ex_mode x)" using v x by (simp add: run_view_def exec_mode_def)
          with perform_step_path [OF p] x(2) have "?path s1 s2" by simp
          with s1 have s2: "?path a s2" by (rule rtranclp_trans)
          show ?thesis
          proof (cases res)
            case (Inl e)
            with 2(2,3) x(1) key Inr rs False p show ?thesis by (auto intro: failed split: if_splits)
          next
            case (Inr v)
            with 2(2,3) x(1) key \<open>create_step env x d s = Inr rs\<close> rs False p s2 show ?thesis
              by (cases v) (auto intro: failed 2(1) [OF x(1) key \<open>create_step env x d s = Inr rs\<close>])
          qed
        qed
      qed
    qed
  qed
qed

lemma run_execution_path:
  assumes "run_execution env actor eid s = (out, t)"
  shows "run_path env actor eid s t"
proof (cases "get_execution s eid")
  case None
  with assms show ?thesis by (simp add: run_execution_def)
next
  case (Some x)
  from assms Some consider "run_view t = run_view s"
    | root by_key where "run_loop env actor eid root by_key 50 s (start_running env actor x s) = (out, t)"
    by (auto simp: run_execution_def view_simps split: if_splits sum.splits)
  then show ?thesis
  proof cases
    case 2
    then show ?thesis by (rule run_loop_path) (auto intro: quiet_path simp: view_simps)
  qed (rule quiet_path)
qed

lemma run_execution_path_after:
  "run_path env actor eid s t \<Longrightarrow> run_execution env actor eid t = (out, u) \<Longrightarrow> run_path env actor eid s u"
  by (meson run_execution_path rtranclp_trans)

end
