(* ===== verification/Soar_Quorum.thy ===== *)
theory Soar_Quorum
  imports Soar_Events
begin

text \<open>
  The approvals of the playbook engine against an abstract voting protocol: ballots are opened,
  collect votes of distinct users, and close once and for all. Every request is a sequence of
  events, and every event is a step of the protocol.
\<close>

section \<open>Requests\<close>

text \<open>The requests that change executions, approvals, inputs or rollbacks, with their arguments.\<close>

datatype soar_request =
    StartExecution nat ExecutionCreate "nat option" bool
  | ResumeExecution nat
  | CancelExecution nat string
  | RetryExecution nat string
  | ProcessDue nat
  | DecideApproval nat bool string
  | CancelApproval nat
  | SubmitInput nat "(string \<times> pyvalue) list"
  | CancelInput nat
  | RequestRollback nat string
  | ApproveRollback nat
  | ExecuteRollback nat
  | CancelRollback nat

fun serve_soar :: "'w soar_env \<times> user_account \<times> soar_request \<Rightarrow> 'w soar_db \<Rightarrow> 'w soar_db" where
  "serve_soar (env, actor, StartExecution pid p rule proposed) s = snd (create_execution env pid p actor rule proposed s)"
| "serve_soar (env, actor, ResumeExecution eid) s = snd (run_execution env actor eid s)"
| "serve_soar (env, actor, CancelExecution eid reason) s = snd (cancel_execution env eid actor reason s)"
| "serve_soar (env, actor, RetryExecution eid reason) s = snd (retry_execution env eid actor reason s)"
| "serve_soar (env, actor, ProcessDue batch) s = snd (process_due env actor batch s)"
| "serve_soar (env, actor, DecideApproval aid granted note) s =
     snd (decide_approval env aid actor (if granted then ''approve'' else ''reject'') note s)"
| "serve_soar (env, actor, CancelApproval aid) s = snd (cancel_approval aid s)"
| "serve_soar (env, actor, SubmitInput iid response) s = snd (submit_analyst_input env iid actor response s)"
| "serve_soar (env, actor, CancelInput iid) s = snd (cancel_input iid s)"
| "serve_soar (env, actor, RequestRollback eid reason) s = snd (request_rollbacks env eid actor reason s)"
| "serve_soar (env, actor, ApproveRollback rid) s = snd (approve_rollback rid actor s)"
| "serve_soar (env, actor, ExecuteRollback rid) s = snd (execute_rollback env rid actor s)"
| "serve_soar (env, actor, CancelRollback rid) s = snd (cancel_rollback env rid s)"


section \<open>Events of a request\<close>

definition open_approval :: "soar_approval \<Rightarrow> bool" where
  "open_approval a \<longleftrightarrow> pa_status a \<in> {''pending'', ''partially_approved''}"

definition vote_status :: "soar_approval \<Rightarrow> string \<Rightarrow> nat \<Rightarrow> string" where
  "vote_status a decision n =
     (if decision = ''reject'' then ''rejected''
      else if n \<ge> pa_minimum_approvals a then ''approved'' else ''partially_approved'')"

inductive soar_event :: "'w soar_env \<Rightarrow> user_account \<Rightarrow> 'w soar_db \<Rightarrow> 'w soar_db \<Rightarrow> bool"
  for env :: "'w soar_env" and actor :: user_account where
  still: "guard_view t = guard_view s \<Longrightarrow> soar_event env actor s t"
| run: "run_event env actor eid s t \<Longrightarrow> soar_event env actor s t"
| compensate:
    "\<lbrakk>key \<in> set identity_actions; rb \<in> set (so_rollbacks s); rb_status rb = ''approved'';
      identity_action env key config x actor (so_access s) = Inr (rid, a);
      accounts_view (so_access t) = accounts_view a; so_approvals t = so_approvals s; so_decisions t = so_decisions s\<rbrakk> \<Longrightarrow>
     soar_event env actor s t"
| vote:
    "\<lbrakk>find_row pa_id aid (so_approvals s) = Some ap; open_approval ap; decision_refusal env s ap actor = None;
      decision \<in> {''approve'', ''reject''};
      so_decisions t = so_decisions (add_decision env ap actor decision note s);
      so_approvals t = upd_row pa_id aid f (so_approvals s);
      \<And>a. pa_id (f a) = pa_id a; \<And>a. pa_minimum_approvals (f a) = pa_minimum_approvals a;
      \<And>a. pa_status (f a) = vote_status ap decision (approve_count t aid);
      accounts_view (so_access t) = accounts_view (so_access s)\<rbrakk> \<Longrightarrow> soar_event env actor s t"
| withdraw:
    "\<lbrakk>so_approvals t = upd_where P (\<lambda>a. a\<lparr>pa_status := st\<rparr>) (so_approvals s);
      \<And>i a. find_row pa_id i (so_approvals s) = Some a \<Longrightarrow> P a \<Longrightarrow> open_approval a; st \<in> {''expired'', ''cancelled''};
      so_decisions t = so_decisions s; accounts_view (so_access t) = accounts_view (so_access s)\<rbrakk> \<Longrightarrow>
     soar_event env actor s t"

abbreviation soar_path where "soar_path env actor \<equiv> (soar_event env actor)\<^sup>*\<^sup>*"

lemma run_path_events: "run_path env actor eid s t \<Longrightarrow> soar_path env actor s t"
  by (induction rule: rtranclp_induct) (auto intro: run rtranclp.rtrancl_into_rtrancl)

lemma still_path: "run_view t = run_view s \<Longrightarrow> soar_path env actor s t"
  by (blast intro: still guard_of_run)

lemma run_execution_events: "run_execution env actor eid s = (out, t) \<Longrightarrow> soar_path env actor s t"
  by (blast intro: run_path_events run_execution_path)

lemma then_run:
  assumes "soar_path env actor s t" "run_execution env actor eid t = (out, u)"
  shows "soar_path env actor s u"
  using assms(1) run_execution_events [OF assms(2)] by (rule rtranclp_trans)

lemma event_then: "soar_event env actor s t \<Longrightarrow> run_view u = run_view t \<Longrightarrow> soar_path env actor s u"
  by (meson still_path r_into_rtranclp rtranclp_trans)

lemma guard_view_simps [view_simps]:
  "guard_view (s\<lparr>so_executions := xs\<rparr>) = guard_view s"
  by (simp add: guard_view_def)

lemma view_more [view_simps]:
  "run_view (upd_input i f s) = run_view s" "run_view (upd_rollback i g s) = run_view s"
  "run_view (rollback_of_step env x actor reason run s) = run_view s"
  "run_view (announce_rollback env r st s) = run_view s"
  "run_view (rollback_failed env r x actor e s) = run_view s"
  "run_view (rollback_done env r x sid key res actor s) = run_view s"
  by (simp_all add: upd_input_def upd_rollback_def rollback_of_step_def announce_rollback_def rollback_failed_def
      rollback_done_def Let_def view_simps)

lemma fold_view: "(\<And>x s. x \<in> set xs \<Longrightarrow> run_view (g x s) = run_view s) \<Longrightarrow> run_view (fold g xs s) = run_view s"
  by (induction xs arbitrary: s) simp_all

lemma fold_rollbacks [view_simps]:
  "run_view (fold (rollback_of_step env x actor reason) runs s) = run_view s"
  "run_view (fold (\<lambda>x. expire_execution env actor (ex_id x) su) xs s) = run_view s"
  by (rule fold_view; simp add: view_simps)+

lemma guard_view_approvals [view_simps]:
  "guard_view (s\<lparr>so_approvals := aps\<rparr>) = (accounts_view (so_access s), aps, so_decisions s)"
  by (simp add: guard_view_def)

lemma quiet_run: "run_execution env actor eid u = (out, t) \<Longrightarrow> run_view u = run_view s \<Longrightarrow> soar_path env actor s t"
  by (rule then_run [OF still_path])

lemmas view_guards [view_simps] = view_small [THEN guard_of_run] view_plain [THEN guard_of_run]

lemma record_execution_guard: "guard_view (record_execution env actor proposed x s) = guard_view s"
  by (simp add: record_execution_def Let_def view_simps)

lemma create_execution_events:
  assumes "create_execution env pid p actor rule proposed s = (out, t)"
  shows "soar_path env actor s t"
proof -
  have rec: "soar_path env actor s (record_execution env actor proposed x s)" for x
    by (intro r_into_rtranclp still record_execution_guard)
  with assms show ?thesis
    by (auto simp: create_execution_def Let_def split: option.splits if_splits sum.splits prod.splits intro: then_run)
qed

text \<open>What withdraws open approvals.\<close>

lemma withdraw_path:
  assumes "\<And>i a. find_row pa_id i (so_approvals s) = Some a \<Longrightarrow> P a \<Longrightarrow> open_approval a" "st \<in> {''expired'', ''cancelled''}"
    "guard_view t = guard_view (s\<lparr>so_approvals := upd_where P (\<lambda>a. a\<lparr>pa_status := st\<rparr>) (so_approvals s)\<rparr>)"
  shows "soar_path env actor s t"
  by (rule r_into_rtranclp, rule withdraw [of t P st]) (use assms in \<open>auto simp: guard_view_def\<close>)

lemma cancel_execution_events:
  assumes "cancel_execution env eid actor reason s = (out, t)"
  shows "soar_path env actor s t"
proof (cases "get_execution s eid")
  case (Some x)
  show ?thesis
  proof (cases "ex_status x \<in> set TERMINAL")
    case False
    with assms Some show ?thesis
      by (intro withdraw_path [of _ "\<lambda>a. pa_execution_id a = eid \<and> pa_status a \<in> {''pending'', ''partially_approved''}" "''cancelled''"])
        (auto simp: cancel_execution_def Let_def open_approval_def view_simps)
  qed (use assms Some in \<open>simp add: cancel_execution_def\<close>)
qed (use assms in \<open>simp add: cancel_execution_def\<close>)

lemma withdraw_one:
  assumes "find_row pa_id aid (so_approvals s) = Some ap" "open_approval ap" "st \<in> {''expired'', ''cancelled''}"
  shows "soar_path env actor s (upd_approval aid (\<lambda>a. a\<lparr>pa_status := st\<rparr>) s)"
proof (rule withdraw_path [of _ "\<lambda>a. pa_id a = aid" st])
  show "open_approval a" if "find_row pa_id i (so_approvals s) = Some a" "pa_id a = aid" for i a
    using that assms(1,2) find_row_SomeD [OF that(1)] by simp
qed (use assms in \<open>simp_all add: upd_approval_def upd_row_upd_where\<close>)

lemma cancel_approval_events:
  "cancel_approval aid s = (out, t) \<Longrightarrow> soar_path env actor s t"
  by (auto simp: cancel_approval_def open_approval_def intro!: withdraw_one split: option.splits if_splits)

lemma quiet_requests:
  "cancel_input iid s = (out, t) \<Longrightarrow> run_view t = run_view s"
  "request_rollbacks env eid actor reason s = (out', t) \<Longrightarrow> run_view t = run_view s"
  "approve_rollback rid actor s = (out, t) \<Longrightarrow> run_view t = run_view s"
  "cancel_rollback env rid s = (out, t) \<Longrightarrow> run_view t = run_view s"
  by (auto simp: cancel_input_def request_rollbacks_def approve_rollback_def cancel_rollback_def Let_def view_simps
      split: option.splits if_splits)

lemma retry_execution_events: "retry_execution env eid actor reason s = (out, t) \<Longrightarrow> soar_path env actor s t"
  by (auto simp: retry_execution_def view_simps intro: quiet_run split: option.splits if_splits)

lemma accept_response_view: "accept_response env item actor response s = Inr t \<Longrightarrow> run_view t = run_view s"
  by (auto simp: accept_response_def Let_def bind_result_Inr_iff view_simps split: option.splits)

lemma submit_input_events: "submit_analyst_input env iid actor response s = (out, t) \<Longrightarrow> soar_path env actor s t"
  by (auto simp: submit_analyst_input_def view_simps split: option.splits if_splits sum.splits
      intro: still_path then_run [OF still_path [OF accept_response_view]])

lemma wake_execution_view: "wake_execution env actor x run s = Inr t \<Longrightarrow> run_view t = run_view s"
  by (auto simp: wake_execution_def Let_def bind_result_Inr_iff view_simps)

lemma process_items_events:
  "process_items env actor items processed s = (out, t) \<Longrightarrow> soar_path env actor s t"
proof (induction env actor items processed s rule: process_items.induct)
  case (2 env actor item items processed s)
  then show ?case
    by (auto split: option.splits sum.splits prod.splits
        intro: then_run [OF still_path [OF wake_execution_view]] rtranclp_trans)
qed simp

lemma process_due_events:
  assumes "process_due env actor batch s = (out, t)"
  shows "soar_path env actor s t"
proof -
  obtain r u where u: "process_items env actor (due_executions env batch s) [] s = (r, u)" by fastforce
  with assms have "run_view t = run_view u"
    by (auto simp: process_due_def expire_all_def Let_def view_simps split: sum.splits)
  with process_items_events [OF u] show ?thesis by (meson rtranclp_trans still_path)
qed

text \<open>A vote.\<close>

lemma vote_path:
  assumes "find_row pa_id aid (so_approvals s) = Some ap" "open_approval ap" "decision_refusal env s ap actor = None"
    "decision \<in> {''approve'', ''reject''}"
    "guard_view t = (accounts_view (so_access s), upd_row pa_id aid f (so_approvals s),
                     so_decisions (add_decision env ap actor decision note s))"
    "\<And>a. pa_id (f a) = pa_id a" "\<And>a. pa_minimum_approvals (f a) = pa_minimum_approvals a"
    "\<And>a. pa_status (f a) = vote_status ap decision (approve_count (add_decision env ap actor decision note s) aid)"
  shows "soar_path env actor s t"
  by (rule r_into_rtranclp, rule vote [where f = f and ap = ap and decision = decision and aid = aid and s = s])
    (use assms in \<open>auto simp: guard_view_def approve_count_def\<close>)

lemma guard_upd_approval [view_simps]:
  "guard_view (upd_approval aid f s) = (accounts_view (so_access s), upd_row pa_id aid f (so_approvals s), so_decisions s)"
  by (simp add: upd_approval_def guard_view_def)

lemma add_decision_simps [simp]:
  "so_access (add_decision env ap actor decision note s) = so_access s"
  "so_approvals (add_decision env ap actor decision note s) = so_approvals s"
  by (simp_all add: add_decision_def)

lemma guard_upd_execution [view_simps]: "guard_view (upd_execution i f s) = guard_view s"
  by (simp add: guard_view_def)

lemma grant_approval_view:
  "grant_approval env ap x actor s = Inr t \<Longrightarrow>
     guard_view t = (accounts_view (so_access s), upd_row pa_id (pa_id ap)
       (\<lambda>a. a\<lparr>pa_status := ''approved'', pa_decided_at := Some (sn_now env)\<rparr>) (so_approvals s), so_decisions s)"
  by (auto simp: grant_approval_def Let_def bind_result_Inr_iff view_simps split: option.splits)

lemma decided_views:
  "guard_view (reject_approval env ap x actor s) = (accounts_view (so_access s), upd_row pa_id (pa_id ap)
       (\<lambda>a. a\<lparr>pa_status := ''rejected'', pa_decided_at := Some (sn_now env)\<rparr>) (so_approvals s), so_decisions s)"
  "guard_view (partial_approval env ap x actor n s) = (accounts_view (so_access s), upd_row pa_id (pa_id ap)
       (\<lambda>a. a\<lparr>pa_status := ''partially_approved''\<rparr>) (so_approvals s), so_decisions s)"
  by (simp_all add: reject_approval_def partial_approval_def Let_def view_simps)

lemma decide_approval_events:
  assumes "decide_approval env aid actor decision note s = (out, t)" "decision \<in> {''approve'', ''reject''}"
  shows "soar_path env actor s t"
proof (cases "find_row pa_id aid (so_approvals s)")
  case None
  with assms show ?thesis by (simp add: decide_approval_def)
next
  case (Some ap)
  let ?s1 = "add_decision env ap actor decision note s"
  have aid: "pa_id ap = aid" using find_row_SomeD [OF Some] by simp
  from assms(1) Some consider "t = s"
    | "open_approval ap" "t = upd_approval aid (\<lambda>a. a\<lparr>pa_status := ''expired''\<rparr>) s"
    | x where "open_approval ap" "decision_refusal env s ap actor = None" "decision = ''reject''"
        "guard_view t = guard_view (reject_approval env ap x actor ?s1)"
    | x u m where "open_approval ap" "decision_refusal env s ap actor = None" "decision \<noteq> ''reject''"
        "approve_count ?s1 aid \<ge> pa_minimum_approvals ap" "grant_approval env ap x actor ?s1 = Inr u"
        "run_execution env actor (ex_id x)
           (soar_activity env ''soar_approval_decided'' m ''soar_approval'' aid u) = (out, t)"
    | x where "open_approval ap" "decision_refusal env s ap actor = None" "decision \<noteq> ''reject''"
        "\<not> approve_count ?s1 aid \<ge> pa_minimum_approvals ap"
        "guard_view t = guard_view (partial_approval env ap x actor (approve_count ?s1 aid) ?s1)"
    by (auto simp: decide_approval_def Let_def open_approval_def view_simps split: if_splits option.splits sum.splits)
  then show ?thesis
  proof cases
    case 2
    then show ?thesis using withdraw_one [OF Some] by simp
  next
    case 3
    then show ?thesis using Some assms(2) aid
      by (intro vote_path [of aid s ap env actor decision t "\<lambda>a. a\<lparr>pa_status := ''rejected'', pa_decided_at := Some (sn_now env)\<rparr>"])
        (auto simp: decided_views vote_status_def)
  next
    case 4
    let ?v = "soar_activity env ''soar_approval_decided'' m ''soar_approval'' aid u"
    have "soar_path env actor s ?v" using 4 Some assms(2) aid
      by (intro vote_path [of aid s ap env actor decision ?v "\<lambda>a. a\<lparr>pa_status := ''approved'', pa_decided_at := Some (sn_now env)\<rparr>"])
        (auto simp: grant_approval_view [OF 4(5)] view_simps vote_status_def)
    then show ?thesis using 4(6) by (rule then_run)
  next
    case 5
    then show ?thesis using Some assms(2) aid
      by (intro vote_path [of aid s ap env actor decision t "\<lambda>a. a\<lparr>pa_status := ''partially_approved''\<rparr>"])
        (auto simp: decided_views vote_status_def)
  qed simp
qed

text \<open>A compensation.\<close>

lemma execute_rollback_events:
  assumes "execute_rollback env rid actor s = (out, t)"
  shows "soar_path env actor s t"
proof -
  from assms consider "run_view t = run_view s"
    | r x run action config res u where "find_row rb_id rid (so_rollbacks s) = Some r" "rb_status r = ''approved''"
        "dispatch env x run action config actor (upd_rollback rid (\<lambda>r. r\<lparr>rb_status := ''running''\<rparr>) s) = (res, u)"
        "run_view t = run_view u"
    by (auto simp: execute_rollback_def view_simps split: if_splits option.splits sum.splits prod.splits)
  then show ?thesis
  proof cases
    case 1
    then show ?thesis by (rule still_path)
  next
    case 2
    let ?s1 = "upd_rollback rid (\<lambda>r. r\<lparr>rb_status := ''running''\<rparr>) s"
    have s1: "so_access ?s1 = so_access s" "so_approvals ?s1 = so_approvals s" "so_decisions ?s1 = so_decisions s"
      by (simp_all add: upd_rollback_def)
    from dispatch_cases [OF 2(3)] have "soar_path env actor s u"
    proof (elim disjE conjE exE)
      assume "run_view u = run_view ?s1"
      then show ?thesis by (intro still_path) (simp add: view_simps)
    next
      fix i a assume "action_key action \<in> set identity_actions"
        "identity_action env (action_key action) config x actor (so_access ?s1) = Inr (i, a)"
        "accounts_view (so_access u) = accounts_view a" "so_approvals u = so_approvals ?s1"
        "so_decisions u = so_decisions ?s1"
      with 2(1,2) show ?thesis
        by (intro r_into_rtranclp compensate [of "action_key action" r s]) (auto simp: s1 dest: find_row_SomeD)
    qed
    with 2(4) show ?thesis by (meson still_path rtranclp_trans)
  qed
qed

text \<open>Every request is a sequence of events.\<close>

lemmas quiet_paths = quiet_requests [OF surjective_pairing, THEN still_path]

lemmas request_paths = create_execution_events [OF surjective_pairing] run_execution_events [OF surjective_pairing]
  cancel_execution_events [OF surjective_pairing] retry_execution_events [OF surjective_pairing]
  process_due_events [OF surjective_pairing] cancel_approval_events [OF surjective_pairing]
  submit_input_events [OF surjective_pairing] execute_rollback_events [OF surjective_pairing]
  decide_approval_events [OF surjective_pairing] quiet_paths

lemma serve_soar_events: "soar_path env actor s (serve_soar (env, actor, req) s)"
  by (cases req) (simp_all add: request_paths)


section \<open>The voting protocol\<close>

datatype ballot_status = Ballot_open | Ballot_granted | Ballot_refused | Ballot_void

record ballot =
  bt_needed :: nat
  bt_status :: ballot_status
  bt_yes :: "nat set"
  bt_no :: "nat set"

type_synonym ballots = "nat \<Rightarrow> ballot option"

text \<open>
  A ballot opens without votes. Each user votes at most once, on an open ballot; one vote against
  it refuses it, and it is granted with the vote that completes the number needed. Open ballots may
  be voided. Nothing else happens: a closed ballot stays as it is.
\<close>

inductive quorum_step :: "ballots \<Rightarrow> ballots \<Rightarrow> bool" where
  opened: "m i = None \<Longrightarrow> 1 \<le> n \<Longrightarrow>
     quorum_step m (m(i \<mapsto> \<lparr>bt_needed = n, bt_status = Ballot_open, bt_yes = {}, bt_no = {}\<rparr>))"
| in_favour: "m i = Some b \<Longrightarrow> bt_status b = Ballot_open \<Longrightarrow> u \<notin> bt_yes b \<union> bt_no b \<Longrightarrow>
     quorum_step m (m(i \<mapsto> b\<lparr>bt_yes := insert u (bt_yes b),
       bt_status := (if bt_needed b \<le> card (insert u (bt_yes b)) then Ballot_granted else Ballot_open)\<rparr>))"
| against: "m i = Some b \<Longrightarrow> bt_status b = Ballot_open \<Longrightarrow> u \<notin> bt_yes b \<union> bt_no b \<Longrightarrow>
     quorum_step m (m(i \<mapsto> b\<lparr>bt_no := insert u (bt_no b), bt_status := Ballot_refused\<rparr>))"
| voided: "(\<And>i b. i \<in> S \<Longrightarrow> m i = Some b \<Longrightarrow> bt_status b = Ballot_open) \<Longrightarrow>
     quorum_step m (\<lambda>i. if i \<in> S then map_option (\<lambda>b. b\<lparr>bt_status := Ballot_void\<rparr>) (m i) else m i)"

definition ballot_sound :: "ballot \<Rightarrow> bool" where
  "ballot_sound b \<longleftrightarrow> finite (bt_yes b) \<and> bt_yes b \<inter> bt_no b = {} \<and>
     (bt_status b = Ballot_granted \<longrightarrow> 1 \<le> bt_needed b \<and> bt_needed b \<le> card (bt_yes b) \<and> bt_no b = {}) \<and>
     (bt_status b = Ballot_open \<longrightarrow> 1 \<le> bt_needed b \<and> card (bt_yes b) < bt_needed b \<and> bt_no b = {}) \<and>
     (bt_status b = Ballot_refused \<longrightarrow> bt_no b \<noteq> {})"

definition ballots_sound :: "ballots \<Rightarrow> bool" where
  "ballots_sound m \<longleftrightarrow> (\<forall>i b. m i = Some b \<longrightarrow> ballot_sound b)"

lemma quorum_step_sound: "quorum_step m m' \<Longrightarrow> ballots_sound m \<Longrightarrow> ballots_sound m'"
proof (induction rule: quorum_step.induct)
  case (voided S m)
  then show ?case by (auto simp: ballots_sound_def ballot_sound_def split: if_splits)
qed (auto simp: ballots_sound_def ballot_sound_def split: if_splits)

lemma quorum_path_sound: "quorum_step\<^sup>*\<^sup>* m m' \<Longrightarrow> ballots_sound m \<Longrightarrow> ballots_sound m'"
  by (induction rule: rtranclp_induct) (auto intro: quorum_step_sound)

text \<open>Closed ballots are final.\<close>

lemma quorum_step_final:
  "quorum_step m m' \<Longrightarrow> m i = Some b \<Longrightarrow> bt_status b \<noteq> Ballot_open \<Longrightarrow> m' i = Some b"
  by (induction rule: quorum_step.induct) auto

lemma quorum_path_final:
  "quorum_step\<^sup>*\<^sup>* m m' \<Longrightarrow> m i = Some b \<Longrightarrow> bt_status b \<noteq> Ballot_open \<Longrightarrow> m' i = Some b"
  by (induction rule: rtranclp_induct) (auto intro: quorum_step_final)

text \<open>The number needed and the ballots themselves never change.\<close>

lemma quorum_step_needed:
  "quorum_step m m' \<Longrightarrow> m i = Some b \<Longrightarrow> \<exists>b'. m' i = Some b' \<and> bt_needed b' = bt_needed b \<and> bt_yes b \<subseteq> bt_yes b'"
  by (induction rule: quorum_step.induct) auto


section \<open>Approvals as ballots\<close>

definition ballot_status_of :: "string \<Rightarrow> ballot_status" where
  "ballot_status_of st =
     (if st \<in> {''pending'', ''partially_approved''} then Ballot_open
      else if st = ''approved'' then Ballot_granted
      else if st = ''rejected'' then Ballot_refused else Ballot_void)"

definition voters :: "soar_approval_decision list \<Rightarrow> nat \<Rightarrow> string \<Rightarrow> nat set" where
  "voters ds aid decision =
     set (map pd_decided_by_user_id (filter (\<lambda>d. pd_approval_id d = aid \<and> pd_decision d = decision) ds))"

definition ballot_of :: "soar_approval_decision list \<Rightarrow> soar_approval \<Rightarrow> ballot" where
  "ballot_of ds a =
     \<lparr>bt_needed = pa_minimum_approvals a, bt_status = ballot_status_of (pa_status a),
      bt_yes = voters ds (pa_id a) ''approve'', bt_no = voters ds (pa_id a) ''reject''\<rparr>"

definition ballots :: "'w soar_db \<Rightarrow> ballots" where
  "ballots s i = map_option (ballot_of (so_decisions s)) (find_row pa_id i (so_approvals s))"

text \<open>What the tables keep: one decision of a user on an approval, on existing approvals only.\<close>

definition approvals_wf :: "'w soar_db \<Rightarrow> bool" where
  "approvals_wf s \<longleftrightarrow>
     distinct (map (\<lambda>d. (pd_approval_id d, pd_decided_by_user_id d)) (so_decisions s)) \<and>
     pd_approval_id ` set (so_decisions s) \<subseteq> pa_id ` set (so_approvals s)"

lemma voters_append [simp]: "voters (ds @ es) aid decision = voters ds aid decision \<union> voters es aid decision"
  by (auto simp: voters_def)

lemma voters_none: "aid \<notin> pd_approval_id ` set ds \<Longrightarrow> voters ds aid decision = {}"
  by (auto simp: voters_def)

lemma distinct_voters:
  "distinct (map (\<lambda>d. (pd_approval_id d, pd_decided_by_user_id d)) ds) \<Longrightarrow>
     distinct (map pd_decided_by_user_id (filter (\<lambda>d. pd_approval_id d = aid \<and> pd_decision d = decision) ds))"
  by (induction ds) (auto simp: image_iff)

lemma card_voters:
  "distinct (map (\<lambda>d. (pd_approval_id d, pd_decided_by_user_id d)) ds) \<Longrightarrow>
     card (voters ds aid decision) = count_where (\<lambda>d. pd_approval_id d = aid \<and> pd_decision d = decision) ds"
  using distinct_card [OF distinct_voters] by (simp add: voters_def count_where_def)

lemma ballots_view: "guard_view t = guard_view s \<Longrightarrow> ballots t = ballots s \<and> (approvals_wf t \<longleftrightarrow> approvals_wf s)"
  by (auto simp: ballots_def [abs_def] guard_view_def approvals_wf_def)

lemma ballots_same:
  "so_approvals t = so_approvals s \<Longrightarrow> so_decisions t = so_decisions s \<Longrightarrow>
     ballots t = ballots s \<and> (approvals_wf t \<longleftrightarrow> approvals_wf s)"
  by (auto simp: ballots_def [abs_def] approvals_wf_def)

lemma soar_approval_ids: "pa_id (a\<lparr>pa_status := st\<rparr>) = pa_id a"
  by simp

text \<open>Asking for an approval opens a ballot.\<close>

lemma request_refines:
  assumes wf: "approvals_wf s" and t: "so_approvals t = so_approvals s @ [a]" "so_decisions t = so_decisions s"
    and a: "pa_id a = next_id pa_id (so_approvals s)" "pa_status a = ''pending''" "1 \<le> pa_minimum_approvals a"
  shows "approvals_wf t \<and> quorum_step (ballots s) (ballots t)"
proof -
  let ?i = "next_id pa_id (so_approvals s)"
  have fresh: "?i \<notin> pa_id ` set (so_approvals s)" by (rule next_id_fresh)
  then have none: "find_row pa_id ?i (so_approvals s) = None" by (simp add: find_row_None_iff)
  have "?i \<notin> pd_approval_id ` set (so_decisions s)" using wf fresh by (auto simp: approvals_wf_def)
  then have "ballot_of (so_decisions s) a =
      \<lparr>bt_needed = pa_minimum_approvals a, bt_status = Ballot_open, bt_yes = {}, bt_no = {}\<rparr>"
    by (simp add: ballot_of_def ballot_status_of_def a voters_none)
  moreover have "ballots t = (ballots s)(?i \<mapsto> ballot_of (so_decisions s) a)"
    using none by (auto simp: ballots_def t find_row_def find_append a(1) split: option.splits)
  moreover have "ballots s ?i = None" by (simp add: ballots_def none)
  ultimately show ?thesis using wf opened [of "ballots s" ?i] a(3) by (auto simp: approvals_wf_def t)
qed

text \<open>A decision is a vote: who already voted is refused, and the count is the number of voters.\<close>

lemma vote_refines:
  assumes wf: "approvals_wf s" and ap: "find_row pa_id aid (so_approvals s) = Some ap" "open_approval ap"
    and refusal: "decision_refusal env s ap actor = None" and decision: "decision \<in> {''approve'', ''reject''}"
    and t: "so_decisions t = so_decisions (add_decision env ap actor decision note s)"
      "so_approvals t = upd_row pa_id aid f (so_approvals s)"
    and f: "\<And>a. pa_id (f a) = pa_id a" "\<And>a. pa_minimum_approvals (f a) = pa_minimum_approvals a"
      "\<And>a. pa_status (f a) = vote_status ap decision (approve_count t aid)"
  shows "approvals_wf t \<and> quorum_step (ballots s) (ballots t)"
proof -
  let ?u = "ua_id actor" and ?b = "ballot_of (so_decisions s) ap"
  have id: "pa_id ap = aid" "ap \<in> set (so_approvals s)" using find_row_SomeD [OF ap(1)] by auto
  obtain d where ds: "so_decisions t = so_decisions s @ [d]"
    and d: "pd_approval_id d = aid" "pd_decision d = decision" "pd_decided_by_user_id d = ?u"
    using t(1) id by (simp add: add_decision_def insert_row_def set_pd_id_def)
  have new: "(aid, ?u) \<notin> set (map (\<lambda>d. (pd_approval_id d, pd_decided_by_user_id d)) (so_decisions s))"
    using refusal id by (auto simp: decision_refusal_def Let_def list_ex_iff split: if_splits)
  have ids: "map pa_id (so_approvals t) = map pa_id (so_approvals s)" unfolding t(2) by (rule map_upd_row) (rule f(1))
  have "pa_id ` set (so_approvals t) = pa_id ` set (so_approvals s)" by (metis ids list.set_map)
  with wf new id have wft: "approvals_wf t" by (auto simp: approvals_wf_def ds d)
  have u: "?u \<notin> bt_yes ?b \<union> bt_no ?b" using new id by (auto simp: ballot_of_def voters_def image_iff)
  have b: "ballots s aid = Some ?b" "bt_status ?b = Ballot_open"
    using ap by (auto simp: ballots_def ballot_of_def ballot_status_of_def open_approval_def)
  have votes: "voters [d] i v = (if i = aid \<and> v = decision then {?u} else {})" for i v
    by (auto simp: voters_def d)
  have other: "ballots t i = ballots s i" if "i \<noteq> aid" for i
    using that by (auto simp: ballots_def t(2) find_row_upd_row [of pa_id f, OF f(1)] ds ballot_of_def votes
        split: option.splits dest!: find_row_SomeD intro!: map_option_cong)
  have mine: "ballots t aid = Some (ballot_of (so_decisions t) (f ap))"
    using ap(1) by (simp add: ballots_def t(2) find_row_upd_row [of pa_id f, OF f(1)])
  have count: "approve_count t aid = card (voters (so_decisions t) aid ''approve'')"
    using card_voters wft by (simp add: approve_count_def approvals_wf_def)
  show ?thesis
  proof (cases "decision = ''reject''")
    case True
    have "ballot_of (so_decisions t) (f ap) = ?b\<lparr>bt_no := insert ?u (bt_no ?b), bt_status := Ballot_refused\<rparr>"
      by (simp add: ballot_of_def f ds votes True id vote_status_def ballot_status_of_def)
    then have "ballots t = (ballots s)(aid \<mapsto> ?b\<lparr>bt_no := insert ?u (bt_no ?b), bt_status := Ballot_refused\<rparr>)"
      using other mine by auto
    with against [of "ballots s" aid ?b ?u] b u wft show ?thesis by simp
  next
    case False
    with decision have dec: "decision = ''approve''" by simp
    let ?b' = "?b\<lparr>bt_yes := insert ?u (bt_yes ?b),
        bt_status := (if bt_needed ?b \<le> card (insert ?u (bt_yes ?b)) then Ballot_granted else Ballot_open)\<rparr>"
    have "voters (so_decisions t) aid ''approve'' = insert ?u (bt_yes ?b)"
      by (simp add: ds votes dec ballot_of_def id)
    with count have "ballot_of (so_decisions t) (f ap) = ?b'"
      by (simp add: ballot_of_def f id vote_status_def ballot_status_of_def dec ds votes)
    then have "ballots t = (ballots s)(aid \<mapsto> ?b')" using other mine by auto
    with in_favour [of "ballots s" aid ?b ?u] b u wft show ?thesis by simp
  qed
qed

text \<open>Expiry and cancellation void open ballots.\<close>

lemma withdraw_refines:
  assumes wf: "approvals_wf s" and t: "so_approvals t = upd_where P (\<lambda>a. a\<lparr>pa_status := st\<rparr>) (so_approvals s)"
      "so_decisions t = so_decisions s"
    and P: "\<And>i a. find_row pa_id i (so_approvals s) = Some a \<Longrightarrow> P a \<Longrightarrow> open_approval a"
    and st: "st \<in> {''expired'', ''cancelled''}"
  shows "approvals_wf t \<and> quorum_step (ballots s) (ballots t)"
proof -
  let ?S = "{i. \<exists>a. find_row pa_id i (so_approvals s) = Some a \<and> P a}"
  have status: "ballot_of ds (a\<lparr>pa_status := st\<rparr>) = ballot_of ds a\<lparr>bt_status := Ballot_void\<rparr>" for ds a
    using st by (auto simp: ballot_of_def ballot_status_of_def)
  have "ballots t i = (if i \<in> ?S then map_option (\<lambda>b. b\<lparr>bt_status := Ballot_void\<rparr>) (ballots s i) else ballots s i)" for i
    by (cases "find_row pa_id i (so_approvals s)") (simp_all add: ballots_def t find_row_upd_where status)
  then have "ballots t = (\<lambda>i. if i \<in> ?S then map_option (\<lambda>b. b\<lparr>bt_status := Ballot_void\<rparr>) (ballots s i) else ballots s i)"
    by (rule ext)
  moreover have "quorum_step (ballots s)
      (\<lambda>i. if i \<in> ?S then map_option (\<lambda>b. b\<lparr>bt_status := Ballot_void\<rparr>) (ballots s i) else ballots s i)"
    by (rule voided) (use P in \<open>auto simp: ballots_def ballot_of_def ballot_status_of_def open_approval_def\<close>)
  moreover have "pa_id ` set (so_approvals t) = pa_id ` set (so_approvals s)"
    using map_upd_where [of pa_id "\<lambda>a. a\<lparr>pa_status := st\<rparr>" P "so_approvals s"] unfolding t by (metis list.set_map soar_approval_ids)
  ultimately show ?thesis using wf by (simp add: approvals_wf_def t)
qed

lemma run_event_refines:
  assumes "run_event env actor eid s t" "approvals_wf s"
  shows "approvals_wf t \<and> quorum_step\<^sup>*\<^sup>* (ballots s) (ballots t)"
  using assms(1)
proof cases
  case quiet_event
  then show ?thesis using ballots_view [OF guard_of_run, of t s] assms(2) by simp
next
  case (request_event a)
  then show ?thesis using request_refines [OF assms(2)] by blast
next
  case identity_event
  then show ?thesis using ballots_same [of t s] assms(2) by simp
qed

lemma soar_event_refines:
  assumes "soar_event env actor s t" "approvals_wf s"
  shows "approvals_wf t \<and> quorum_step\<^sup>*\<^sup>* (ballots s) (ballots t)"
  using assms(1)
proof cases
  case still
  then show ?thesis using ballots_view [of t s] assms(2) by simp
next
  case (run eid)
  then show ?thesis using run_event_refines assms(2) by blast
next
  case compensate
  then show ?thesis using ballots_same [of t s] assms(2) by simp
next
  case vote
  then show ?thesis using vote_refines [OF assms(2)] by blast
next
  case withdraw
  then show ?thesis using withdraw_refines [OF assms(2)] by blast
qed

lemma soar_path_refines:
  assumes "soar_path env actor s t" "approvals_wf s"
  shows "approvals_wf t \<and> quorum_step\<^sup>*\<^sup>* (ballots s) (ballots t)"
  using assms by (induction rule: rtranclp_induct) (auto dest: soar_event_refines intro: rtranclp_trans)

interpretation quorum: served_refinement approvals_wf serve_soar "\<lambda>_. True" ballots quorum_step
  by unfold_locales (metis prod_cases3 serve_soar_events soar_path_refines)+

end
