(* ===== verification/Soar_Limit.thy ===== *)
theory Soar_Limit
  imports Soar_Execution
begin

text \<open>
  The dispatch limit of \<open>run_execution\<close>: a valid playbook is acyclic and has at most 50 steps, so
  its execution stops, waits or fails before the loop runs out of iterations.
\<close>

section \<open>A step moves along a route\<close>

definition moved_to :: "'w soar_db \<Rightarrow> nat \<Rightarrow> string \<Rightarrow> bool" where
  "moved_to t eid k \<longleftrightarrow> (\<forall>y. get_execution t eid = Some y \<longrightarrow> ex_current_step_key y = Some k)"

lemma get_execution_small [simp]:
  "get_execution (s\<lparr>so_access := a\<rparr>) eid = get_execution s eid"
  "get_execution (log_event env i sid et p n ac su md s) eid = get_execution s eid"
  by (simp_all add: get_execution_def log_event_def)

lemma moved_upd: "moved_to (upd_execution eid (\<lambda>x. x\<lparr>ex_current_step_key := Some k\<rparr>) s) eid k"
  by (auto simp: moved_to_def get_execution_def upd_execution_def find_row_upd_row)

lemma complete_step_Go:
  assumes "complete_step env actor x run out st route s = (Inr Go, t)"
  shows "\<exists>k. route = Some k \<and> moved_to t (ex_id x) k"
proof (cases route)
  case None
  with assms show ?thesis
    by (auto simp: complete_step_def Let_def split: sum.splits option.splits if_splits prod.splits)
next
  case (Some k)
  have m: "moved_to (log_event env i sid et p n ac su md (upd_execution (ex_id x) (\<lambda>x. x\<lparr>ex_current_step_key := Some k\<rparr>) u)) (ex_id x) k"
    for i sid et p n ac su md u
    using moved_upd [of "ex_id x" k u] by (simp add: moved_to_def)
  from assms Some show ?thesis
    by (auto simp: complete_step_def Let_def intro: m split: sum.splits option.splits if_splits prod.splits)
      (simp add: moved_to_def m [unfolded moved_to_def])
qed

lemma route_of_routes:
  "route_of d f = Some k \<Longrightarrow> f \<in> set route_fields \<Longrightarrow> PStr k \<in> set (routes_of fv d)"
  by (auto simp: route_of_def routes_of_def split: pyvalue.splits if_splits) (metis image_eqI)

lemma routes_named [simp]: "''on_success'' \<in> set route_fields" "''on_failure'' \<in> set route_fields"
  by (simp_all add: route_fields_def)

lemma perform_step_Go:
  assumes "perform_step env actor root x d run s = (Inr Go, t)"
  shows "\<exists>k. PStr k \<in> set (routes_of fv d) \<and> moved_to t (ex_id x) k"
proof -
  have via: ?thesis if "complete_step env actor x run out st (route_of d f) u = (Inr Go, t)" "f \<in> set route_fields" for out st f u
    using complete_step_Go [OF that(1)] route_of_routes [OF _ that(2)] by blast
  have action: ?thesis if "perform_action env actor x d config run s = (Inr Go, t)" for config
    using that by (auto simp: perform_action_def perform_dispatch_def intro: via [of _ _ "''on_success''"]
        split: option.splits if_splits sum.splits prod.splits)
  have condition: ?thesis if "perform_condition env actor root x d run s = (Inr Go, t)"
    using that by (auto simp: perform_condition_def intro: via split: sum.splits if_splits)
  from assms show ?thesis
    by (simp only: perform_step_def Let_def split: if_splits)
      (auto simp: perform_approval_def perform_input_def perform_delay_def Let_def
        intro: via [of _ _ "''on_success''"] action condition split: sum.splits prod.splits)
qed


section \<open>The number of steps left\<close>

definition steps_left :: "(string \<Rightarrow> py_float) \<Rightarrow> step list \<Rightarrow> string \<Rightarrow> nat" where
  "steps_left fv ds k = card {j. (k, j) \<in> (routes_between fv ds)\<^sup>*}"

lemma reachable_keys:
  assumes "playbook_ok fv pol root ds start" "k \<in> step_key ` set ds"
  shows "{j. (k, j) \<in> (routes_between fv ds)\<^sup>*} \<subseteq> step_key ` set ds"
  using assms unfolding playbook_ok_def by (auto intro: rtrancl_trans)

lemma steps_left_bounds:
  assumes "playbook_ok fv pol root ds start" "k \<in> step_key ` set ds"
  shows "1 \<le> steps_left fv ds k \<and> steps_left fv ds k \<le> 50"
proof -
  have fin: "finite {j. (k, j) \<in> (routes_between fv ds)\<^sup>*}" using reachable_keys [OF assms] by (rule finite_subset) simp
  have "steps_left fv ds k \<le> card (step_key ` set ds)"
    unfolding steps_left_def by (rule card_mono [OF _ reachable_keys [OF assms]]) simp
  also have "\<dots> \<le> card (set ds)" by (rule card_image_le) simp
  also have "\<dots> \<le> length ds" by (rule card_length)
  also have "\<dots> \<le> 50" using assms(1) by (simp add: playbook_ok_def)
  finally have "steps_left fv ds k \<le> 50" .
  moreover have "card {k} \<le> steps_left fv ds k" unfolding steps_left_def by (rule card_mono [OF fin]) simp
  ultimately show ?thesis by simp
qed

lemma steps_left_decreases:
  assumes ok: "playbook_ok fv pol root ds start" and d: "d \<in> set ds" "PStr t \<in> set (routes_of fv d)"
  shows "t \<in> step_key ` set ds \<and> steps_left fv ds t < steps_left fv ds (step_key d)"
proof -
  let ?E = "routes_between fv ds"
  have e: "(step_key d, t) \<in> ?E" using d by (auto simp: routes_between_def)
  have k: "step_key d \<in> step_key ` set ds" using d by simp
  have t: "t \<in> step_key ` set ds" using reachable_keys [OF ok k] e by auto
  have "step_key d \<notin> {j. (t, j) \<in> ?E\<^sup>*}"
  proof
    assume "step_key d \<in> {j. (t, j) \<in> ?E\<^sup>*}"
    with e have "(step_key d, step_key d) \<in> ?E\<^sup>+" by (simp add: rtrancl_into_trancl2)
    with ok show False by (simp add: playbook_ok_def acyclic_def)
  qed
  then have "{j. (t, j) \<in> ?E\<^sup>*} \<subset> {j. (step_key d, j) \<in> ?E\<^sup>*}"
    using e by (auto intro: converse_rtrancl_into_rtrancl)
  moreover have "finite {j. (step_key d, j) \<in> ?E\<^sup>*}"
    using reachable_keys [OF ok k] by (rule finite_subset) simp
  ultimately show ?thesis using t unfolding steps_left_def by (simp add: psubset_card_mono)
qed

lemma steps_by_key_sound:
  "steps_by_key (map PDict ds) = Inr by_key \<Longrightarrow> by_key k = Some d \<Longrightarrow> d \<in> set ds \<and> step_key d = k"
proof (induction ds arbitrary: by_key)
  case (Cons e ds)
  then obtain k' m where k': "dict_get e ''key'' = PStr k'" and m: "steps_by_key (map PDict ds) = Inr m"
    and by_key: "by_key = [k' \<mapsto> e] ++ m"
    by (auto simp: bind_result_Inr_iff required_key_def split: pyvalue.splits)
  then show ?case using Cons.IH [OF m] Cons.prems(2) by (cases "m k") (auto simp: step_key_def map_add_def split: if_splits)
qed simp

lemma run_loop_fuel:
  assumes ok: "playbook_ok (sn_fv env) pol root ds start"
    and keys: "\<And>k d. by_key k = Some d \<Longrightarrow> d \<in> set ds \<and> step_key d = k"
  shows "1 \<le> n \<Longrightarrow> 1 \<le> m \<Longrightarrow>
    (\<And>x k. get_execution s eid = Some x \<Longrightarrow> ex_current_step_key x = Some k \<Longrightarrow> k \<in> step_key ` set ds \<Longrightarrow>
       steps_left (sn_fv env) ds k \<le> n \<and> steps_left (sn_fv env) ds k \<le> m) \<Longrightarrow>
    run_loop env actor eid root by_key n committed s = run_loop env actor eid root by_key m committed s"
proof (induction n arbitrary: m committed s)
  case (Suc n)
  from Suc.prems(2) obtain m' where m: "m = Suc m'" by (cases m) auto
  have rest: "run_loop env actor eid root by_key n s2 s2 = run_loop env actor eid root by_key m' s2 s2"
    if x: "get_execution s eid = Some x" "ex_current_step_key x = Some k" "by_key k = Some d"
      and go: "perform_step env actor root x d run s1 = (Inr Go, s2)" for x k d run s1 s2
  proof -
    have d: "d \<in> set ds" "step_key d = k" using keys [OF x(3)] by auto
    have eid: "ex_id x = eid" using x(1) by (auto simp: get_execution_def dest: find_row_SomeD)
    obtain t where t: "PStr t \<in> set (routes_of (sn_fv env) d)" "moved_to s2 eid t"
      using perform_step_Go [OF go] eid by blast
    note less = steps_left_decreases [OF ok d(1) t(1)]
    have bound: "steps_left (sn_fv env) ds k \<le> Suc n \<and> steps_left (sn_fv env) ds k \<le> Suc m'"
      using Suc.prems(3) [OF x(1,2)] d m by auto
    have "1 \<le> steps_left (sn_fv env) ds t" using steps_left_bounds [OF ok] less by blast
    with less bound d(2) have "1 \<le> n" "1 \<le> m'" by auto
    moreover have "steps_left (sn_fv env) ds j \<le> n \<and> steps_left (sn_fv env) ds j \<le> m'"
      if "get_execution s2 eid = Some y" "ex_current_step_key y = Some j" for y j
    proof -
      have "j = t" using that t(2) by (auto simp: moved_to_def)
      with less bound d(2) show ?thesis by simp
    qed
    ultimately show ?thesis by (intro Suc.IH)
  qed
  show ?case unfolding m
    by (auto split: option.splits sum.splits prod.splits verdict.splits dest: rest)
qed simp

end
