(* ===== verification/Soar_Safety.thy ===== *)
theory Soar_Safety
  imports Soar_Quorum Soar_Limit Access_Fixtures
begin

text \<open>
  The properties of the playbook engine: valid playbooks are well-formed and end within the
  dispatch limit, approvals follow the voting protocol, sensitive actions need a granted approval,
  and an active administrator always remains.
\<close>

section \<open>Accounts\<close>

lemma two_of_distinct:
  assumes "distinct (map f rows)" "1 < count_where P rows"
  shows "\<exists>r \<in> set rows. P r \<and> f r \<noteq> i"
proof (rule ccontr)
  assume "\<not> ?thesis"
  then have "count_where P rows \<le> count_where (\<lambda>r. f r = i) rows" by (intro count_where_mono) auto
  also have "\<dots> \<le> 1"
    using assms(1) by (induction rows) (auto simp: count_where_zero_iff le_Suc_eq image_iff)
  finally show False using assms(2) by simp
qed

lemma soar_last_admin:
  assumes "distinct (map ua_id (users a))" "\<not> (ua_is_system_admin u \<and> active_admin_total a \<le> 1)"
  shows "ensure_not_last_admin a u = Inr ()"
proof (cases "ua_is_system_admin u")
  case True
  with assms(2) have "1 < count_where (\<lambda>u. ua_status u = Active \<and> ua_is_system_admin u) (users a)"
    by (simp add: active_admin_total_def)
  from two_of_distinct [OF assms(1) this, of "ua_id u"] True show ?thesis
    by (auto simp: ensure_not_last_admin_def active_administrator_count_zero active_admin_def)
qed (simp add: ensure_not_last_admin_def)

lemma identity_users:
  "users (revoke_one_session now sid a) = users a" "users (revoke_open_sessions now uid reason a) = users a"
  "users (change_user uid f a) = users (upd_user uid f a)"
  by (simp_all add: revoke_one_session_def revoke_open_sessions_def change_user_def upd_user_def)

lemma get_user_self: "get_user a i = Some u \<Longrightarrow> get_user a (ua_id u) = Some u"
  by (auto simp: get_user_def dest: find_row_SomeD)

lemma identity_action_users:
  assumes "identity_action env key config x actor a = Inr (rid, b)"
  shows "users b = users a \<or>
    (\<exists>i u. get_user a i = Some u \<and> \<not> (ua_is_system_admin u \<and> active_admin_total a \<le> 1) \<and>
       users b = users (upd_user (ua_id u) (\<lambda>u. u\<lparr>ua_status := Disabled, ua_disabled_at := Some (sn_now env)\<rparr>) a)) \<or>
    (\<exists>i u. get_user a i = Some u \<and>
       users b = users (upd_user (ua_id u) (\<lambda>u. u\<lparr>ua_status := Active, ua_disabled_at := None\<rparr>) a))"
proof (cases "key = ''revoke_selected_session''")
  case True
  with assms show ?thesis
    by (auto simp: identity_action_def Let_def bind_result_Inr_iff identity_users split: if_splits option.splits)
next
  case False
  with assms obtain i target where t: "get_user a i = Some target"
    and r: "user_action (sn_now env) key target actor a = Inr (rid, b)"
    by (auto simp: identity_action_def Let_def bind_result_Inr_iff split: if_splits option.splits)
  from t have u: "\<exists>i. get_user a i = Some target" by blast
  from r consider "b = revoke_open_sessions (sn_now env) (ua_id target) ''user_disabled_by_soar''
        (change_user (ua_id target) (\<lambda>u. u\<lparr>ua_status := Disabled, ua_disabled_at := Some (sn_now env)\<rparr>) a)"
      "\<not> (ua_is_system_admin target \<and> active_admin_total a \<le> 1)"
    | "b = change_user (ua_id target) (\<lambda>u. u\<lparr>ua_status := Active, ua_disabled_at := None\<rparr>) a"
    | "b = revoke_open_sessions (sn_now env) (ua_id target) ''soar_sensitive_action'' a"
    by (simp add: user_action_def Let_def split: if_splits) blast+
  then show ?thesis
  proof cases
    case 1
    with u show ?thesis unfolding 1(1) identity_users by blast
  next
    case 2
    with u show ?thesis unfolding 2 identity_users by blast
  next
    case 3
    show ?thesis unfolding 3 identity_users by blast
  qed
qed

lemma identity_action_accounts:
  assumes "identity_action env key config x actor a = Inr (rid, b)" "accounts_ok a"
  shows "accounts_ok b"
proof -
  have ids: "distinct (map ua_id (users a))" using assms(2) by (simp add: accounts_ok_def accounts_wf_def)
  from identity_action_users [OF assms(1)] consider "users b = users a"
    | u where "get_user a (ua_id u) = Some u" "\<not> (ua_is_system_admin u \<and> active_admin_total a \<le> 1)"
        "users b = users (upd_user (ua_id u) (\<lambda>u. u\<lparr>ua_status := Disabled, ua_disabled_at := Some (sn_now env)\<rparr>) a)"
    | u where "get_user a (ua_id u) = Some u"
        "users b = users (upd_user (ua_id u) (\<lambda>u. u\<lparr>ua_status := Active, ua_disabled_at := None\<rparr>) a)"
    by (metis get_user_self)
  then show ?thesis
  proof cases
    case 1
    then show ?thesis using assms(2) ok.reads_users by blast
  next
    case 2
    then show ?thesis using soar_last_admin [OF ids] by (intro accounts_ok_upd [OF assms(2) 2(1) _ _ 2(3)]) auto
  next
    case 3
    then show ?thesis by (intro accounts_ok_upd [OF assms(2) 3(1) _ _ 3(2)]) (auto simp: active_admin_def)
  qed
qed

definition soar_accounts_ok :: "'w soar_db \<Rightarrow> bool" where
  "soar_accounts_ok s = accounts_ok (so_access s)"

lemma accounts_ok_view: "accounts_view a = accounts_view b \<Longrightarrow> accounts_ok a \<longleftrightarrow> accounts_ok b"
  by (rule ok.reads_users) (simp add: accounts_view_def)

lemma run_event_accounts: "run_event env actor eid s t \<Longrightarrow> soar_accounts_ok s \<Longrightarrow> soar_accounts_ok t"
  unfolding soar_accounts_ok_def
proof (induction rule: run_event.induct)
  case (identity_event key s mode ap config x rid a t)
  then show ?case using identity_action_accounts accounts_ok_view by blast
qed (auto simp: run_view_def guard_view_def dest: accounts_ok_view)

lemma soar_event_accounts: "soar_event env actor s t \<Longrightarrow> soar_accounts_ok s \<Longrightarrow> soar_accounts_ok t"
proof (induction rule: soar_event.induct)
  case (run eid s t)
  then show ?case by (blast intro: run_event_accounts)
next
  case (compensate key rb s config x rid a t)
  then show ?case using identity_action_accounts accounts_ok_view unfolding soar_accounts_ok_def by blast
qed (auto simp: soar_accounts_ok_def guard_view_def dest: accounts_ok_view)

lemma soar_path_accounts: "soar_path env actor s t \<Longrightarrow> soar_accounts_ok s \<Longrightarrow> soar_accounts_ok t"
  by (induction rule: rtranclp_induct) (auto intro: soar_event_accounts)

interpretation soar_accounts: served_invariant soar_accounts_ok serve_soar "\<lambda>_. True"
  by unfold_locales (metis prod_cases3 serve_soar_events soar_path_accounts)

text \<open>C6. Over any sequence of requests to the playbook engine, accounts stay unique and an active
  administrator remains: playbooks and rollbacks may disable, re-enable and sign out accounts, but
  never the last administrator.\<close>

theorem soar_keeps_an_administrator:
  assumes "accounts_wf (so_access s)" "has_active_admin (so_access s)"
  shows "accounts_wf (so_access (fold serve_soar calls s)) \<and> has_active_admin (so_access (fold serve_soar calls s))"
  using soar_accounts.sequence_keeps [of s calls] assms
  by (simp add: soar_accounts_ok_def accounts_ok_def list_all_iff)


section \<open>Approvals\<close>

text \<open>C3. The approvals of the engine refine the abstract voting protocol: over any sequence of
  requests the ballots read off the tables take only steps of the protocol.\<close>

theorem approvals_refine_quorum:
  assumes "approvals_wf s"
  shows "quorum_step\<^sup>*\<^sup>* (ballots s) (ballots (fold serve_soar calls s)) \<and> approvals_wf (fold serve_soar calls s)"
  using quorum.sequence_refines [OF assms] quorum.sequence_keeps [OF assms] by (simp add: list_all_iff)

text \<open>C8. After any sequence of requests, an approved approval has at least the required number of
  distinct approvers and no rejection, a rejected one has a rejection, and an approval that was
  closed before is closed in the same way with the same votes.\<close>

theorem approvals_need_quorum:
  assumes "approvals_wf s" "ballots_sound (ballots s)"
    and "find_row pa_id aid (so_approvals (fold serve_soar calls s)) = Some a"
  shows "(pa_status a = ''approved'' \<longrightarrow>
           pa_minimum_approvals a \<le> card (voters (so_decisions (fold serve_soar calls s)) aid ''approve'') \<and>
           1 \<le> pa_minimum_approvals a \<and> voters (so_decisions (fold serve_soar calls s)) aid ''reject'' = {}) \<and>
         (pa_status a = ''rejected'' \<longrightarrow> voters (so_decisions (fold serve_soar calls s)) aid ''reject'' \<noteq> {}) \<and>
         (\<forall>b. find_row pa_id aid (so_approvals s) = Some b \<and> \<not> open_approval b \<longrightarrow>
           ballot_of (so_decisions (fold serve_soar calls s)) a = ballot_of (so_decisions s) b)"
proof -
  let ?t = "fold serve_soar calls s"
  have path: "quorum_step\<^sup>*\<^sup>* (ballots s) (ballots ?t)"
    using quorum.sequence_refines [OF assms(1)] by (simp add: list_all_iff)
  have a: "ballots ?t aid = Some (ballot_of (so_decisions ?t) a)" by (simp add: ballots_def assms(3))
  have "ballot_sound (ballot_of (so_decisions ?t) a)"
    using quorum_path_sound [OF path assms(2)] a by (simp add: ballots_sound_def)
  moreover have "pa_id a = aid" using find_row_SomeD [OF assms(3)] by simp
  moreover have "ballot_of (so_decisions ?t) a = ballot_of (so_decisions s) b"
    if "find_row pa_id aid (so_approvals s) = Some b" "\<not> open_approval b" for b
  proof -
    have "bt_status (ballot_of (so_decisions s) b) \<noteq> Ballot_open"
      using that(2) by (simp add: ballot_of_def ballot_status_of_def open_approval_def)
    from quorum_path_final [OF path _ this, of aid] that(1) show ?thesis by (simp add: ballots_def assms(3))
  qed
  ultimately show ?thesis by (auto simp: ballot_sound_def ballot_of_def ballot_status_of_def)
qed


section \<open>Sensitive actions\<close>

definition sensitive_allowed :: "'w soar_db \<Rightarrow> user_account \<Rightarrow> nat \<Rightarrow> bool" where
  "sensitive_allowed s actor eid \<longleftrightarrow>
     (\<exists>ap \<in> set (so_approvals s). pa_execution_id ap = eid \<and> pa_status ap = ''approved'') \<and>
     ''soar:sensitive_actions'' \<in> effective_permissions (so_access s) actor \<and>
     (\<exists>mode. exec_mode s eid = Some mode \<and> mode \<noteq> ''dry_run'')"

definition approved_rows :: "'w soar_db \<Rightarrow> soar_approval set" where
  "approved_rows s = {a \<in> set (so_approvals s). pa_status a = ''approved''}"

lemma run_path_sensitive:
  "run_path env actor eid s t \<Longrightarrow> sensitive_allowed s actor eid \<or>
     (accounts_view (so_access t) = accounts_view (so_access s) \<and> exec_mode t = exec_mode s \<and> approved_rows t = approved_rows s)"
proof (induction rule: rtranclp_induct)
  case (step u t)
  from step(2) show ?case
  proof cases
    case quiet_event
    then have "accounts_view (so_access t) = accounts_view (so_access u) \<and> exec_mode t = exec_mode u \<and>
        approved_rows t = approved_rows u"
      by (simp add: run_view_def guard_view_def approved_rows_def)
    with step(3) show ?thesis by simp
  next
    case (request_event a)
    then have "approved_rows t = approved_rows u" by (auto simp: approved_rows_def)
    with step(3) request_event show ?thesis by simp
  next
    case (identity_event key mode ap)
    then have "ap \<in> approved_rows u" by (simp add: approved_rows_def)
    with step(3) identity_event show ?thesis
      using permissions_view [of "so_access u" "so_access s" actor]
      by (auto simp: sensitive_allowed_def approved_rows_def)
  qed
qed simp

text \<open>C2. A run of an execution changes an account or a session only if the execution had a granted
  approval when the run began, is not a dry run, and the actor holds the permission for
  sensitive actions; this covers every action of the catalog and every way the run may end.\<close>

theorem sensitive_actions_need_approval:
  assumes "run_execution env actor eid s = (out, t)"
    and "users (so_access t) \<noteq> users (so_access s) \<or> sessions (so_access t) \<noteq> sessions (so_access s)"
  shows "(\<exists>ap \<in> set (so_approvals s). pa_execution_id ap = eid \<and> pa_status ap = ''approved'') \<and>
    ''soar:sensitive_actions'' \<in> effective_permissions (so_access s) actor \<and>
    (\<exists>x. get_execution s eid = Some x \<and> ex_mode x \<noteq> ''dry_run'')"
  using run_path_sensitive [OF run_execution_path [OF assms(1)]] assms(2)
  by (auto simp: sensitive_allowed_def accounts_view_def exec_mode_def)


section \<open>Valid playbooks\<close>

text \<open>C12. A definition the validation accepts is a well-formed playbook: at most 50 steps with distinct
  keys, every step checked, every route leading to a step, every step reachable, no cycle, and an
  end step among them.\<close>

theorem valid_playbook_well_formed:
  assumes "validate_definition fv sha pol root = Inr r" "sv_valid r"
  shows "\<exists>d ds start. root = PDict d \<and> playbook_ok fv pol d ds start"
  by (rule validate_InrD [OF assms])

text \<open>C10. For a valid playbook the dispatch limit of 50 steps cuts nothing off: with any larger
  number of iterations the loop does the same, from any state.\<close>

theorem dispatch_limit_never_cuts:
  assumes "validate_definition (sn_fv env) sha pol (PDict root) = Inr r" "sv_valid r"
    and "dict_get root ''steps'' = PList items" "steps_by_key items = Inr by_key"
  shows "run_loop env actor eid root by_key (50 + k) committed s = run_loop env actor eid root by_key 50 committed s"
proof -
  obtain ds start where ok: "playbook_ok (sn_fv env) pol root ds start" using validate_InrD [OF assms(1,2)] by auto
  then have items: "items = map PDict ds" using assms(3) by (simp add: playbook_ok_def)
  show ?thesis
  proof (rule run_loop_fuel [OF ok])
    show "d \<in> set ds \<and> step_key d = j" if "by_key j = Some d" for j d
      using steps_by_key_sound [of ds by_key] assms(4) items that by blast
  qed (use steps_left_bounds [OF ok] in \<open>fastforce+\<close>)
qed


section \<open>A concrete installation\<close>

definition demo_condition_step :: step where
  "demo_condition_step =
     [(''key'', PStr ''check''), (''type'', PStr ''condition''),
      (''condition'', PDict [(''operator'', PStr ''equals''), (''left'', PStr ''${trigger.severity}''), (''right'', PStr ''high'')]),
      (''on_success'', PStr ''stop''), (''on_failure'', PStr ''stop'')]"

definition demo_playbook :: "(string \<times> pyvalue) list" where
  "demo_playbook =
     [(''start_step'', PStr ''check''),
      (''steps'', PList [PDict demo_condition_step,
                         PDict [(''key'', PStr ''stop''), (''type'', PStr ''end''), (''position'', PInt 1)]])]"

definition demo_policies :: soar_policies where
  "demo_policies = \<lparr>sp_trigger_mode = ''manual'', sp_enabled = [], sp_automatic = []\<rparr>"

definition demo_fv :: "string \<Rightarrow> py_float" where
  "demo_fv x = NaN"

definition demo_soar_env :: "unit soar_env" where
  "demo_soar_env = \<lparr>sn_cx = demo_ctx 9, sn_fv = demo_fv, sn_uuid = (\<lambda>table i. table @ str_nat i),
     sn_current_session_id = None, sn_read_context = (\<lambda>k i s. Inr []), sn_local_action = (\<lambda>a c x r u w. (Inl IntegrityError, w))\<rparr>"

lemma demo_root_errors: "root_errors demo_playbook = []"
proof -
  have "length (canonical (PDict demo_playbook)) \<le> 300" by code_simp
  moreover have "json_ok (PDict demo_playbook)" "walk_forbidden 0 ''definition'' (PDict demo_playbook) = []"
    "concat (map (\<lambda>kv. unless (fst kv \<in> set supported_root) (bad (fst kv) ''Unsupported root field'')) demo_playbook) = []"
    "step_list demo_playbook \<noteq> None" "get_or demo_playbook ''variables'' empty_dict = empty_dict"
    by code_simp+
  ultimately show ?thesis by (simp add: root_errors_def size_errors_def MAX_DEFINITION_BYTES_def empty_dict_def)
qed

definition checks_pass :: "(string \<Rightarrow> py_float) \<Rightarrow> soar_policies \<Rightarrow> (string \<times> pyvalue) list \<Rightarrow> pyvalue list \<Rightarrow> bool" where
  "checks_pass fv pol d steps =
     (case scan_steps fv pol steps 0 steps empty_scan of
        Inl _ \<Rightarrow> False
      | Inr sc \<Rightarrow> sc_errors sc = [] \<and> sc_branches sc \<le> MAX_BRANCHES \<and> sc_evidence sc \<le> 25 \<and>
          (case graph_checks fv (sc_by_key sc) (dict_get d ''start_step'') of
             Inl _ \<Rightarrow> False | Inr g \<Rightarrow> sg_errors g = []) \<and>
          (case normalize_definition fv d of Inl _ \<Rightarrow> False | Inr _ \<Rightarrow> True) \<and>
          estimated_seconds steps \<le> MAX_TOTAL_SECONDS)"

lemma checks_valid:
  "root_errors d = [] \<Longrightarrow> dict_get d ''steps'' = PList steps \<Longrightarrow> checks_pass fv pol d steps \<Longrightarrow>
     \<exists>r. validate_definition fv sha pol (PDict d) = Inr r \<and> sv_valid r"
  by (auto simp: checks_pass_def validate_definition_def root_errors_def step_list_def Let_def
      split: sum.splits if_splits)

lemma demo_checks: "checks_pass demo_fv demo_policies demo_playbook
    [PDict demo_condition_step, PDict [(''key'', PStr ''stop''), (''type'', PStr ''end''), (''position'', PInt 1)]]"
  by code_simp

lemma demo_steps: "dict_get demo_playbook ''steps'' =
    PList [PDict demo_condition_step, PDict [(''key'', PStr ''stop''), (''type'', PStr ''end''), (''position'', PInt 1)]]"
  by code_simp

lemma demo_valid: "\<exists>r. validate_definition demo_fv sha demo_policies (PDict demo_playbook) = Inr r \<and> sv_valid r"
  by (rule checks_valid [OF demo_root_errors demo_steps demo_checks])

theorem valid_playbook_well_formed_witness:
  "\<exists>d ds start. PDict demo_playbook = PDict d \<and> playbook_ok demo_fv demo_policies d ds start"
  using demo_valid [of "\<lambda>x. x"] valid_playbook_well_formed by blast

text \<open>
  Two administrators, an execution of a playbook that ends the sessions of the second, a granted
  approval of that step, and an open approval that needs two votes.
\<close>

definition demo_execution :: "nat \<Rightarrow> string \<Rightarrow> soar_execution" where
  "demo_execution i key =
     \<lparr>ex_id = i, ex_execution_uuid = ''x'' @ str_nat i, ex_playbook_id = i, ex_playbook_version = 1, ex_trigger_rule_id = None,
      ex_trigger_source_type = ''manual'', ex_trigger_source_id = Some 2, ex_idempotency_key = ''i'', ex_mode = ''live_local'',
      ex_status = ''queued'', ex_requested_by_user_id = Some 1, ex_approved_by_user_id = None, ex_current_step_key = Some key,
      ex_input_context = empty_dict, ex_variable_state = empty_dict, ex_error_code = None, ex_error_summary = None,
      ex_records_created = 0, ex_records_updated = 0, ex_simulated_action_count = 0, ex_retry_count = 0,
      ex_started_at = None, ex_completed_at = None, ex_cancelled_at = None, ex_cancellation_reason = None,
      ex_expires_at = None, ex_next_resume_at = None, ex_demo_owned = False, ex_created_at = 0\<rparr>"

definition demo_step_run :: "nat \<Rightarrow> string \<Rightarrow> string \<Rightarrow> string \<Rightarrow> soar_step_execution" where
  "demo_step_run i key step_type status =
     \<lparr>sr_id = i, sr_execution_id = i, sr_step_key = key, sr_step_name = key, sr_step_type = step_type,
      sr_action_key = Some ''revoke_other_user_sessions'', sr_sequence_number = 1, sr_attempt_number = 1,
      sr_idempotency_key = ''x'' @ str_nat i @ '':'' @ key, sr_status = status, sr_input_snapshot = empty_dict,
      sr_output_snapshot = empty_dict, sr_redacted_input_summary = [], sr_redacted_output_summary = None,
      sr_error_code = None, sr_error_summary = None, sr_started_at = None, sr_completed_at = None, sr_created_at = 0\<rparr>"

definition demo_approval :: "nat \<Rightarrow> nat \<Rightarrow> string \<Rightarrow> soar_approval" where
  "demo_approval i n status =
     \<lparr>pa_id = i, pa_approval_uuid = ''a'', pa_execution_id = i, pa_step_execution_id = i, pa_approval_type = ''sensitive_action'',
      pa_required_permission = ''soar:sensitive_actions'', pa_minimum_approvals = n, pa_requester_user_id = 9,
      pa_assigned_to_user_id = None, pa_assigned_role_name = None, pa_status = status, pa_request_reason = [],
      pa_request_context = empty_dict, pa_separation_required = True, pa_expires_at = None, pa_decided_at = None,
      pa_created_at = 0\<rparr>"

definition demo_revocation :: step where
  "demo_revocation = [(''key'', PStr ''revoke''), (''type'', PStr ''action''), (''action_key'', PStr ''revoke_other_user_sessions''),
     (''configuration'', PDict [(''reason'', PStr ''leak'')])]"

definition demo_version :: "nat \<Rightarrow> (string \<times> pyvalue) list \<Rightarrow> soar_playbook_version" where
  "demo_version i d = \<lparr>pv_id = i, pv_playbook_id = i, pv_version_number = 1, pv_definition = PDict d,
     pv_normalized_definition = d, pv_content_sha256 = [], pv_change_summary = [], pv_created_by_user_id = 1, pv_created_at = 0\<rparr>"

definition demo_soar_policy :: soar_action_policy where
  "demo_soar_policy = \<lparr>pl_id = 1, pl_action_key = ''revoke_other_user_sessions'', pl_enabled = True, pl_automatic_local_allowed = False,
     pl_approval_required_override = None, pl_requester_approver_separation_required = True, pl_maximum_retries_override = None,
     pl_notes = None, pl_system_owned = True, pl_updated_by_user_id = None, pl_created_at = 0, pl_updated_at = 0\<rparr>"

definition demo_soar_db :: "unit soar_db" where
  "demo_soar_db =
     \<lparr>so_access = demo_db\<lparr>users := [demo_user 1 ''root'' Active True, demo_user 2 ''ana'' Active True],
        permissions := [demo_permission 1 ''soar:approve'', demo_permission 2 ''soar:sensitive_actions'']\<rparr>,
      so_policies = [demo_soar_policy], so_playbooks = [],
      so_versions = [demo_version 1 [(''steps'', PList [PDict demo_revocation])], demo_version 2 demo_playbook],
      so_triggers = [], so_executions = [demo_execution 1 ''revoke'', demo_execution 2 ''check''],
      so_step_runs = [demo_step_run 1 ''revoke'' ''action'' ''approved'', demo_step_run 2 ''check'' ''approval'' ''waiting_approval''],
      so_events = [], so_approvals = [demo_approval 1 1 ''approved'', demo_approval 2 2 ''pending''],
      so_decisions = [\<lparr>pd_id = 1, pd_approval_id = 1, pd_decision = ''approve'', pd_decided_by_user_id = 2,
                        pd_decision_note = [], pd_created_at = 0\<rparr>],
      so_inputs = [], so_rollbacks = [], so_others = ()\<rparr>"

definition demo_actor :: user_account where
  "demo_actor = demo_user 1 ''root'' Active True"

definition demo_calls :: "(unit soar_env \<times> user_account \<times> soar_request) list" where
  "demo_calls = [(demo_soar_env, demo_actor, DecideApproval 2 True ''fine''),
                 (demo_soar_env, demo_user 2 ''ana'' Active True, DecideApproval 2 False ''not fine'')]"

theorem dispatch_limit_never_cuts_witness:
  "\<exists>by_key. by_key ''check'' = Some demo_condition_step \<and>
     run_loop demo_soar_env demo_actor 2 demo_playbook by_key (50 + 10) demo_soar_db demo_soar_db =
     run_loop demo_soar_env demo_actor 2 demo_playbook by_key 50 demo_soar_db demo_soar_db"
proof -
  have env: "sn_fv demo_soar_env = demo_fv" by (simp add: demo_soar_env_def)
  let ?items = "[PDict demo_condition_step, PDict [(''key'', PStr ''stop''), (''type'', PStr ''end''), (''position'', PInt 1)]]"
  have "dict_get demo_condition_step ''key'' = PStr ''check''"
    "dict_get [(''key'', PStr ''stop''), (''type'', PStr ''end''), (''position'', PInt 1)] ''key'' = PStr ''stop''" by code_simp+
  then obtain by_key where m: "steps_by_key ?items = Inr by_key" "by_key ''check'' = Some demo_condition_step"
    by (simp add: required_key_def)
  obtain r where "validate_definition demo_fv (\<lambda>x. x) demo_policies (PDict demo_playbook) = Inr r" "sv_valid r"
    using demo_valid by blast
  then have "run_loop demo_soar_env demo_actor 2 demo_playbook by_key (50 + 10) demo_soar_db demo_soar_db =
      run_loop demo_soar_env demo_actor 2 demo_playbook by_key 50 demo_soar_db demo_soar_db"
    using dispatch_limit_never_cuts [of demo_soar_env, unfolded env, OF _ _ demo_steps m(1)] by blast
  with m(2) show ?thesis by blast
qed

lemma demo_soar_wf: "approvals_wf demo_soar_db" "ballots_sound (ballots demo_soar_db)"
  by (simp_all add: approvals_wf_def demo_soar_db_def demo_approval_def ballots_sound_def ballots_def find_row_def
      ballot_of_def ballot_sound_def voters_def ballot_status_of_def)

theorem approvals_refine_quorum_witness:
  "quorum_step\<^sup>*\<^sup>* (ballots demo_soar_db) (ballots (fold serve_soar demo_calls demo_soar_db)) \<and>
   approvals_wf (fold serve_soar demo_calls demo_soar_db)"
  by (rule approvals_refine_quorum) (rule demo_soar_wf)

lemma demo_rejected:
  "map_option pa_status (find_row pa_id 2 (so_approvals (fold serve_soar demo_calls demo_soar_db))) = Some ''rejected''"
  by code_simp

theorem approvals_need_quorum_witness:
  "voters (so_decisions (fold serve_soar demo_calls demo_soar_db)) 2 ''reject'' \<noteq> {}"
proof -
  obtain a where a: "find_row pa_id 2 (so_approvals (fold serve_soar demo_calls demo_soar_db)) = Some a" "pa_status a = ''rejected''"
    using demo_rejected by auto
  show ?thesis using approvals_need_quorum [OF demo_soar_wf a(1)] a(2) by simp
qed

theorem soar_keeps_an_administrator_witness:
  "has_active_admin (so_access (fold serve_soar ((demo_soar_env, demo_actor, ResumeExecution 1) # demo_calls) demo_soar_db))"
proof -
  have "normalize_username ''root'' = Inr ''root'' \<and> normalize_username ''ana'' = Inr ''ana''" by code_simp
  then have "accounts_wf (so_access demo_soar_db)" "has_active_admin (so_access demo_soar_db)"
    by (simp_all add: demo_soar_db_def accounts_wf_def List.map_filter_def has_active_admin_def active_admin_def
        account_row_ok_def normalize_email_def demo_defs)
  then show ?thesis using soar_keeps_an_administrator by blast
qed


text \<open>The run of the first execution.\<close>

definition demo_started :: "unit soar_db" where
  "demo_started = start_running demo_soar_env demo_actor (demo_execution 1 ''revoke'') demo_soar_db"

definition demo_running :: soar_execution where
  "demo_running = (demo_execution 1 ''revoke'')\<lparr>ex_status := ''running'', ex_started_at := Some 9\<rparr>"

definition demo_run :: soar_step_execution where
  "demo_run = demo_step_run 1 ''revoke'' ''action'' ''approved''"

lemma demo_start:
  "get_execution demo_soar_db 1 = Some (demo_execution 1 ''revoke'')"
  "definition_of demo_soar_db (demo_execution 1 ''revoke'') = Inr [(''steps'', PList [PDict demo_revocation])]"
  "get_execution demo_started 1 = Some demo_running" "ex_current_step_key demo_running = Some ''revoke''"
  "create_step demo_soar_env demo_running demo_revocation demo_started = Inr (demo_run, demo_started)"
  "sessions (so_access demo_started) = sessions (so_access demo_soar_db)"
  by code_simp+

lemma demo_dispatched:
  "case action_of demo_revocation of None \<Rightarrow> False | Some action \<Rightarrow>
     (case dispatch demo_soar_env demo_running demo_run action [(''reason'', PStr ''leak'')] demo_actor demo_started of
        (Inl _, _) \<Rightarrow> False
      | (Inr out, t) \<Rightarrow> length (canonical (redact 0 (PDict out))) \<le> 400 \<and>
          sessions (so_access t) \<noteq> sessions (so_access demo_started)) \<and>
     policy_of demo_started (action_key action) = Some demo_soar_policy \<and>
     ''live_local'' \<in> set (allowed_execution_modes action) \<and> approval_type_of action = Some ''sensitive_action'' \<and>
     required_permission action = ''soar:sensitive_actions'' \<and> \<not> simulation_only action"
  by code_simp

lemma demo_step_facts:
  "step_config demo_revocation = Some [(''reason'', PStr ''leak'')]" "dict_get demo_revocation ''type'' = PStr ''action''"
  "dict_get demo_revocation ''key'' = PStr ''revoke''"
  "route_of demo_revocation ''on_success'' = None" "sr_action_key demo_run = Some ''revoke_other_user_sessions''"
  "''revoke_other_user_sessions'' \<notin> set connector_action_keys" "sr_status demo_run = ''approved''"
  "approval_of_step demo_started (ex_id demo_running) (sr_id demo_run) = Some (demo_approval 1 1 ''approved'')"
  "effective_permissions (so_access demo_started) demo_actor = {''soar:approve'', ''soar:sensitive_actions''}"
  by code_simp+

lemma complete_unrouted:
  assumes "length (canonical (redact 0 (PDict out))) \<le> 400" "sr_action_key run = Some k" "k \<notin> set connector_action_keys"
  shows "\<exists>t. complete_step env actor x run out st None s = (Inr Stop, t) \<and> run_view t = run_view s"
  using assms by (simp add: complete_step_def dumps_bounded_def Let_def view_simps)

lemma demo_run_changes_sessions:
  "\<exists>t. run_execution demo_soar_env demo_actor 1 demo_soar_db = (Inr (), t) \<and>
     sessions (so_access t) \<noteq> sessions (so_access demo_soar_db)"
proof -
  obtain action where a: "action_of demo_revocation = Some action"
    using demo_dispatched by (cases "action_of demo_revocation") auto
  obtain r t where d: "dispatch demo_soar_env demo_running demo_run action [(''reason'', PStr ''leak'')] demo_actor demo_started = (r, t)"
    by fastforce
  have facts: "policy_of demo_started (action_key action) = Some demo_soar_policy"
      "''live_local'' \<in> set (allowed_execution_modes action)" "approval_type_of action = Some ''sensitive_action''"
      "required_permission action = ''soar:sensitive_actions''" "\<not> simulation_only action"
    using demo_dispatched unfolding a by simp_all
  obtain out where r: "r = Inr out" and small: "length (canonical (redact 0 (PDict out))) \<le> 400"
    and changed: "sessions (so_access t) \<noteq> sessions (so_access demo_started)"
    using demo_dispatched unfolding a option.case d prod.case by (cases r) auto
  obtain u where u: "complete_step demo_soar_env demo_actor demo_running demo_run out ''succeeded'' None t = (Inr Stop, u)"
    "run_view u = run_view t"
    using complete_unrouted [OF small demo_step_facts(5,6)] by blast
  have "perform_action demo_soar_env demo_actor demo_running demo_revocation [(''reason'', PStr ''leak'')] demo_run demo_started = (Inr Stop, u)"
    using a d [unfolded r] facts u(1) demo_step_facts
    by (simp add: perform_action_def perform_dispatch_def pending_approval_def demo_soar_policy_def demo_approval_def
        demo_running_def demo_execution_def)
  then have "perform_step demo_soar_env demo_actor [(''steps'', PList [PDict demo_revocation])] demo_running demo_revocation
      demo_run demo_started = (Inr Stop, u)"
    using demo_step_facts by (simp add: perform_step_def demo_running_def demo_execution_def)
  then have "run_loop demo_soar_env demo_actor 1 [(''steps'', PList [PDict demo_revocation])] [''revoke'' \<mapsto> demo_revocation]
      (Suc 49) demo_soar_db demo_started = (Inr (), u)"
    unfolding run_loop.simps(2) demo_start(3,4) option.case fun_upd_same demo_start(5) sum.case prod.case
    by (simp add: waiting_status_def demo_step_facts)
  then have "run_loop demo_soar_env demo_actor 1 [(''steps'', PList [PDict demo_revocation])] [''revoke'' \<mapsto> demo_revocation]
      50 demo_soar_db demo_started = (Inr (), u)"
    by (simp del: run_loop.simps)
  moreover have "steps_by_key [PDict demo_revocation] = Inr [''revoke'' \<mapsto> demo_revocation]"
    using demo_step_facts by (simp add: required_key_def)
  moreover have "get_or [(''steps'', PList [PDict demo_revocation])] ''steps'' (PList []) = PList [PDict demo_revocation]"
    "ex_status (demo_execution 1 ''revoke'') \<notin> set TERMINAL" "ex_expires_at (demo_execution 1 ''revoke'') = None"
    by (simp_all add: get_or_def demo_execution_def TERMINAL_def)
  ultimately have "run_execution demo_soar_env demo_actor 1 demo_soar_db = (Inr (), u)"
    unfolding run_execution_def demo_start(1,2) option.case demo_started_def [symmetric]
    by (simp add: past_def py_iter_def del: run_loop.simps)
  moreover have "sessions (so_access u) = sessions (so_access t)"
    using u(2) by (simp add: run_view_def guard_view_def accounts_view_def)
  ultimately show ?thesis using changed demo_start(6) by auto
qed

theorem sensitive_actions_need_approval_witness:
  "\<exists>ap \<in> set (so_approvals demo_soar_db). pa_execution_id ap = 1 \<and> pa_status ap = ''approved''"
proof -
  obtain t where "run_execution demo_soar_env demo_actor 1 demo_soar_db = (Inr (), t)"
    "sessions (so_access t) \<noteq> sessions (so_access demo_soar_db)" using demo_run_changes_sessions by blast
  then show ?thesis using sensitive_actions_need_approval by blast
qed


section \<open>A compensation that misses its target\<close>

text \<open>
  Which account a compensating \<open>reenable_user\<close> re-enables does not depend on the output of the
  step it compensates, which holds the account that was disabled.
\<close>

lemma rollback_config_keys:
  "k \<noteq> ''record_id'' \<Longrightarrow> dict_get (rollback_config [] out reason) k = dict_get (rollback_config [] out' reason) k"
  by (simp add: rollback_config_def dict_get_def)

theorem rollback_ignores_disabled_account:
  "identity_action env ''reenable_user'' (rollback_config [] out reason) x actor a =
   identity_action env ''reenable_user'' (rollback_config [] out' reason) x actor a"
proof -
  note keys = rollback_config_keys [of _ out reason out']
  show ?thesis
    unfolding identity_action_def Let_def
    by (simp add: keys [of "''reason''"] keys [of "''user_id''"] keys [of "''source_id''"])
qed

end
