(* ===== verification/Soc_Store.thy ===== *)
theory Soc_Store
  imports Access_Store Py_Compare
begin

text \<open>
  The tables of the SOC monitor (\<open>modules/soc_monitor/models.py\<close>) and the state its operations
  work on. A relationship is the foreign key it follows. A text column that holds JSON
  (\<open>conditions_json\<close>, \<open>normalized_json\<close>, \<open>tags_json\<close>) is the value it encodes. A timestamp is
  a UTC time, which is what \<open>aware\<close> makes of the naive values the database returns.
\<close>

section \<open>Rows\<close>

record soc_log_source =
  sl_id :: nat
  sl_name :: string
  sl_description :: "string option"
  sl_source_type :: string
  sl_parser_type :: string
  sl_enabled :: bool
  sl_event_count :: nat
  sl_last_ingested_at :: "time option"
  sl_created_at :: time
  sl_updated_at :: time

record soc_log_import =
  li_id :: nat
  li_source_id :: nat
  li_filename :: "string option"
  li_file_hash :: "string option"
  li_total_lines :: nat
  li_accepted_events :: nat
  li_rejected_events :: nat
  li_status :: string
  li_error_summary :: "string option"
  li_created_at :: time
  li_completed_at :: "time option"

record soc_event =
  ev_id :: nat
  ev_source_id :: nat
  ev_import_id :: "nat option"
  ev_event_time :: time
  ev_received_at :: time
  ev_event_type :: string
  ev_action :: "string option"
  ev_outcome :: "string option"
  ev_severity :: string
  ev_source_ip :: "string option"
  ev_destination_ip :: "string option"
  ev_username :: "string option"
  ev_http_method :: "string option"
  ev_request_path :: "string option"
  ev_status_code :: "int option"
  ev_user_agent :: "string option"
  ev_message :: "string option"
  ev_normalized_json :: "(string \<times> pyvalue) list"
  ev_raw_event_hash :: string
  ev_raw_preview_redacted :: "string option"
  ev_created_at :: time

record soc_detection_rule =
  dr_id :: nat
  dr_rule_code :: string
  dr_name :: string
  dr_description :: string
  dr_rule_type :: string
  dr_enabled :: bool
  dr_severity :: string
  dr_confidence :: string
  dr_window_seconds :: int
  dr_threshold :: nat
  dr_group_by :: string
  dr_conditions_json :: pyvalue
  dr_remediation :: string
  dr_is_default :: bool
  dr_created_at :: time
  dr_updated_at :: time

record soc_alert =
  al_id :: nat
  al_rule_id :: nat
  al_title :: string
  al_description :: string
  al_severity :: string
  al_confidence :: string
  al_status :: string
  al_first_seen :: time
  al_last_seen :: time
  al_event_count :: nat
  al_correlation_key :: string
  al_source_ip :: "string option"
  al_username :: "string option"
  al_evidence_summary :: string
  al_fingerprint :: string
  al_analyst_notes :: "string option"
  al_created_at :: time
  al_updated_at :: time

record soc_alert_event =
  ln_id :: nat
  ln_alert_id :: nat
  ln_event_id :: nat
  ln_created_at :: time

record soc_threat_intel_result =
  tr_id :: nat
  tr_alert_id :: "nat option"
  tr_indicator_type :: string
  tr_indicator_value :: string
  tr_reputation :: string
  tr_confidence :: string
  tr_tags_json :: "string list"
  tr_source_name :: string
  tr_explanation :: string
  tr_created_at :: time

record soc_blocklist_entry =
  bl_id :: nat
  bl_indicator_type :: string
  bl_indicator_value :: string
  bl_reason :: string
  bl_source_alert_id :: "nat option"
  bl_status :: string
  bl_expires_at :: "time option"
  bl_created_at :: time
  bl_updated_at :: time


section \<open>The state\<close>

record soc_db =
  log_sources :: "soc_log_source list"
  log_imports :: "soc_log_import list"
  soc_events :: "soc_event list"
  detection_rules :: "soc_detection_rule list"
  alerts :: "soc_alert list"
  alert_links :: "soc_alert_event list"
  enrichments :: "soc_threat_intel_result list"
  blocklist :: "soc_blocklist_entry list"
  soc_activities :: "soc_activity list"
  soc_notifications :: "notification list"

definition empty_soc_db :: soc_db where
  "empty_soc_db = \<lparr>log_sources = [], log_imports = [], soc_events = [], detection_rules = [], alerts = [],
     alert_links = [], enrichments = [], blocklist = [], soc_activities = [], soc_notifications = []\<rparr>"

definition set_sl_id :: "nat \<Rightarrow> soc_log_source \<Rightarrow> soc_log_source" where "set_sl_id i r = r\<lparr>sl_id := i\<rparr>"
definition set_li_id :: "nat \<Rightarrow> soc_log_import \<Rightarrow> soc_log_import" where "set_li_id i r = r\<lparr>li_id := i\<rparr>"
definition set_ev_id :: "nat \<Rightarrow> soc_event \<Rightarrow> soc_event" where "set_ev_id i r = r\<lparr>ev_id := i\<rparr>"
definition set_dr_id :: "nat \<Rightarrow> soc_detection_rule \<Rightarrow> soc_detection_rule" where "set_dr_id i r = r\<lparr>dr_id := i\<rparr>"
definition set_al_id :: "nat \<Rightarrow> soc_alert \<Rightarrow> soc_alert" where "set_al_id i r = r\<lparr>al_id := i\<rparr>"
definition set_ln_id :: "nat \<Rightarrow> soc_alert_event \<Rightarrow> soc_alert_event" where "set_ln_id i r = r\<lparr>ln_id := i\<rparr>"
definition set_tr_id :: "nat \<Rightarrow> soc_threat_intel_result \<Rightarrow> soc_threat_intel_result" where "set_tr_id i r = r\<lparr>tr_id := i\<rparr>"
definition set_bl_id :: "nat \<Rightarrow> soc_blocklist_entry \<Rightarrow> soc_blocklist_entry" where "set_bl_id i r = r\<lparr>bl_id := i\<rparr>"

lemmas set_id_defs = set_sl_id_def set_li_id_def set_ev_id_def set_dr_id_def set_al_id_def set_ln_id_def
  set_tr_id_def set_bl_id_def

interpretation source_table: table_rows sl_id set_sl_id
  by unfold_locales (simp add: set_id_defs)

interpretation import_table: table_rows li_id set_li_id
  by unfold_locales (simp add: set_id_defs)

interpretation event_table: table_rows ev_id set_ev_id
  by unfold_locales (simp add: set_id_defs)

interpretation rule_table: table_rows dr_id set_dr_id
  by unfold_locales (simp add: set_id_defs)

interpretation alert_table: table_rows al_id set_al_id
  by unfold_locales (simp add: set_id_defs)

interpretation link_table: table_rows ln_id set_ln_id
  by unfold_locales (simp add: set_id_defs)

interpretation enrichment_table: table_rows tr_id set_tr_id
  by unfold_locales (simp add: set_id_defs)

interpretation blocklist_table: table_rows bl_id set_bl_id
  by unfold_locales (simp add: set_id_defs)


section \<open>The environment of the module\<close>

text \<open>
  The clock, SHA-256 (the digest in hexadecimal of the UTF-8 text) and the parsers of the
  standard library for dates: \<open>datetime.fromisoformat\<close>, and \<open>datetime.strptime\<close> with the three
  formats of the source, each giving the parsed moment in UTC. The format without a year takes
  the year of the fallback moment. \<open>sx_float_value\<close> is what the text of a float denotes.
\<close>

record soc_env =
  sx_now :: time
  sx_sha256_hex :: "string \<Rightarrow> string"
  sx_fromisoformat :: "string \<Rightarrow> time option"
  sx_strptime_access :: "string \<Rightarrow> time option"
  sx_strptime_syslog :: "time \<Rightarrow> string \<Rightarrow> time option"
  sx_strptime_plain :: "string \<Rightarrow> time option"
  sx_float_value :: "string \<Rightarrow> py_float"

end
