(* ===== verification/Soc_Redaction.thy ===== *)
theory Soc_Redaction
  imports Py_Compare
begin

text \<open>
  The redaction of log data (\<open>modules/soc_monitor/redaction.py\<close>, with the key list
  \<open>rules/sensitive_keys.json\<close>). The two regular expressions are written out as matchers on
  ASCII text: each looks at a position that a word does not run into, returns the keyword it
  found (group 1) and the length of its match, and \<open>substitute\<close> is the left-to-right,
  non-overlapping replacement of \<open>Pattern.sub\<close>. The one character outside ASCII the source
  appends, the ellipsis, is the character \<open>0x85\<close>.
\<close>

definition SENSITIVE_KEYS :: "string list" where
  "SENSITIVE_KEYS =
     [''password'', ''passwd'', ''pwd'', ''secret'', ''token'', ''access_token'', ''refresh_token'',
      ''api_key'', ''apikey'', ''authorization'', ''cookie'', ''session'', ''credential'',
      ''private_key'', ''client_secret'']"

definition is_word :: "char \<Rightarrow> bool" where
  "is_word c \<longleftrightarrow> is_alnum c \<or> c = CHR ''_''"

section \<open>Secrets in text\<close>

text \<open>\<open>\b(Bearer|Basic)\s+[A-Za-z0-9._~+/=-]+\<close>, ignoring case.\<close>

definition token_char :: "char \<Rightarrow> bool" where
  "token_char c \<longleftrightarrow> is_alnum c \<or> c \<in> set ''._~+/=-''"

definition scheme_match :: "string \<Rightarrow> (string \<times> nat) option" where
  "scheme_match s =
     (case find (\<lambda>keyword. casefold (take (length keyword) s) = keyword) [''bearer'', ''basic''] of
        None \<Rightarrow> None
      | Some keyword \<Rightarrow>
          (let n = length keyword;
               spaces = length (takeWhile py_isspace (drop n s));
               token = length (takeWhile token_char (drop (n + spaces) s))
           in if spaces = 0 \<or> token = 0 then None else Some (take n s, n + spaces + token)))"

text \<open>
  \<open>\b(keyword)\b\s*[:=]\s*(?:"[^"]*"|'[^']*'|[^\s,;]+)\<close>, ignoring case. The two word boundaries
  make the keyword the whole word at the position.
\<close>

definition quoted_length :: "char \<Rightarrow> string \<Rightarrow> nat option" where
  "quoted_length quote s =
     (case s of
        c # cs \<Rightarrow> if c = quote \<and> quote \<in> set cs
                  then Some (length (takeWhile (\<lambda>x. x \<noteq> quote) cs) + 2) else None
      | [] \<Rightarrow> None)"

definition value_length :: "string \<Rightarrow> nat" where
  "value_length s =
     (case quoted_length CHR 0x22 s of
        Some n \<Rightarrow> n
      | None \<Rightarrow>
          (case quoted_length CHR 0x27 s of
             Some n \<Rightarrow> n
           | None \<Rightarrow> length (takeWhile (\<lambda>c. \<not> py_isspace c \<and> c \<noteq> CHR '','' \<and> c \<noteq> CHR '';'') s)))"

definition assignment_match :: "string \<Rightarrow> (string \<times> nat) option" where
  "assignment_match s =
     (let word = takeWhile is_word s;
          rest = drop (length word) s;
          gap = length (takeWhile py_isspace rest);
          after = drop gap rest
      in if casefold word \<notin> set SENSITIVE_KEYS then None
         else case after of
           [] \<Rightarrow> None
         | c # cs \<Rightarrow>
             if c \<noteq> CHR '':'' \<and> c \<noteq> CHR ''='' then None
             else let gap' = length (takeWhile py_isspace cs); n = value_length (drop gap' cs)
                  in if n = 0 then None else Some (word, length word + gap + 1 + gap' + n))"

function substitute :: "(string \<Rightarrow> (string \<times> nat) option) \<Rightarrow> bool \<Rightarrow> string \<Rightarrow> string" where
  "substitute find_match in_word [] = []"
| "substitute find_match in_word (c # cs) =
     (case (if in_word then None else find_match (c # cs)) of
        None \<Rightarrow> c # substitute find_match (is_word c) cs
      | Some (word, n) \<Rightarrow>
          word @ ''=[REDACTED]'' @
          substitute find_match (is_word (last (take (max 1 n) (c # cs)))) (drop (max 1 n - 1) cs))"
  by pat_completeness auto
termination by (relation "measure (\<lambda>(f, b, s). length s)") auto

definition ellipsis :: char where
  "ellipsis = CHR 0x85"

definition redact_text :: "string \<Rightarrow> nat option \<Rightarrow> string" where
  "redact_text value limit =
     (let result = substitute assignment_match False (substitute scheme_match False value)
      in case limit of
           None \<Rightarrow> result
         | Some n \<Rightarrow> if length result > n then take n result @ [ellipsis] else result)"

lemma redact_text_length: "length (redact_text s (Some n)) \<le> n + 1"
  by (simp add: redact_text_def Let_def)


section \<open>Sensitive keys\<close>

text \<open>\<open>re.sub(r"[^a-z0-9]+", "_", text)\<close>: every run of other characters becomes one underscore.\<close>

fun underscored :: "string \<Rightarrow> string" where
  "underscored [] = []"
| "underscored (c # cs) =
     (if is_lower c \<or> is_digit c then c # underscored cs
      else if cs \<noteq> [] \<and> \<not> (is_lower (hd cs) \<or> is_digit (hd cs)) then underscored cs
      else CHR ''_'' # underscored cs)"

definition is_sensitive_key :: "string \<Rightarrow> bool" where
  "is_sensitive_key key =
     (let normalized = strip_with (\<lambda>c. c = CHR ''_'') (underscored (casefold key))
      in normalized \<in> set SENSITIVE_KEYS \<or>
         list_ex (\<lambda>part. part \<in> set SENSITIVE_KEYS) (split_on CHR ''_'' normalized))"


text \<open>
  A key of two words is recognised only as the whole key: the header of an API key is not.
\<close>

lemma prefixed_api_key_not_sensitive:
  "is_sensitive_key ''api-key'' \<and> \<not> is_sensitive_key ''X-Api-Key''"
  by code_simp


section \<open>Redaction of values\<close>

function soc_redact :: "pyvalue \<Rightarrow> pyvalue" where
  "soc_redact (PDict d) =
     PDict (map (\<lambda>kv. (fst kv, if is_sensitive_key (fst kv) then PStr ''[REDACTED]''
                                else soc_redact (snd kv))) d)"
| "soc_redact (PList xs) = PList (map soc_redact xs)"
| "soc_redact (PStr s) = PStr (redact_text s None)"
| "soc_redact PNone = PNone"
| "soc_redact (PBool b) = PBool b"
| "soc_redact (PInt i) = PInt i"
| "soc_redact (PFloat t) = PFloat t"
| "soc_redact (POther t) = POther t"
  by pat_completeness auto
termination
proof (relation "measure size", goal_cases)
  case 1
  show ?case by simp
next
  case (2 d kv)
  then show ?case by (auto dest: size_dict_member)
next
  case (3 xs x)
  then show ?case using size_list_member [of x xs] by simp
qed

text \<open>Nothing under a sensitive key survives, at any depth.\<close>

inductive exposes :: "pyvalue \<Rightarrow> string \<Rightarrow> pyvalue \<Rightarrow> bool" where
  here: "(k, v) \<in> set d \<Longrightarrow> exposes (PDict d) k v"
| inside: "(k', w) \<in> set d \<Longrightarrow> exposes w k v \<Longrightarrow> exposes (PDict d) k v"
| element: "w \<in> set xs \<Longrightarrow> exposes w k v \<Longrightarrow> exposes (PList xs) k v"

inductive_cases exposes_cases [elim!]:
  "exposes (PDict d) k v" "exposes (PList xs) k v" "exposes (PStr s) k v" "exposes PNone k v"
  "exposes (PBool b) k v" "exposes (PInt i) k v" "exposes (PFloat t) k v" "exposes (POther t) k v"

lemma soc_redact_hides:
  "exposes (soc_redact x) k v \<Longrightarrow> is_sensitive_key k \<Longrightarrow> v = PStr ''[REDACTED]''"
proof (induction x rule: soc_redact.induct)
  case (1 d)
  from "1.prems"(1) show ?case
  proof (simp only: soc_redact.simps, elim exposes_cases, goal_cases)
    case 1
    with "1.prems"(2) show ?case by auto
  next
    case (2 k' w)
    then obtain kv where kv: "kv \<in> set d" "\<not> is_sensitive_key (fst kv)" "w = soc_redact (snd kv)"
      by (auto split: if_splits)
    with 2 "1.IH" [OF kv(1,2)] "1.prems"(2) show ?case by simp
  qed
qed auto

end
