(* ===== verification/Soc_Correlation.thy ===== *)
theory Soc_Correlation
  imports Soc_Store Soc_Redaction Iso_Time
begin

text \<open>
  The offline correlation of events into alerts (\<open>modules/soc_monitor/correlation.py\<close>) with the
  activity and notification rows it writes (\<open>add_activity\<close>, \<open>notify\<close> of \<open>service.py\<close>). An
  uncaught exception leaves the state as the last commit left it. The rows linking an alert to
  its events are added in the order of the events.
\<close>

section \<open>Activity and notifications\<close>

definition soc_add_activity ::
  "soc_env \<Rightarrow> string \<Rightarrow> string \<Rightarrow> string \<Rightarrow> nat option \<Rightarrow> soc_db \<Rightarrow> soc_db" where
  "soc_add_activity env action message entity_type entity_id s =
     s\<lparr>soc_activities := insert_row sa_id set_sa_id
         \<lparr>sa_id = 0, sa_action = action, sa_message = redact_text message (Some 2000),
          sa_entity_type = entity_type, sa_entity_id = entity_id, sa_created_at = sx_now env\<rparr>
         (soc_activities s)\<rparr>"

definition soc_notify ::
  "soc_env \<Rightarrow> string \<Rightarrow> string \<Rightarrow> string \<Rightarrow> string \<Rightarrow> nat option \<Rightarrow> soc_db \<Rightarrow> soc_db" where
  "soc_notify env title message kind entity_type entity_id s =
     s\<lparr>soc_notifications := insert_row nt_id set_nt_id
         \<lparr>nt_id = 0, nt_title = title, nt_message = redact_text message (Some 2000), nt_type = kind,
          nt_entity_type = entity_type, nt_entity_id = entity_id, nt_recipient_user_id = None,
          nt_is_read = False, nt_created_at = sx_now env\<rparr>
         (soc_notifications s)\<rparr>"


section \<open>Selecting and grouping events\<close>

definition text_value :: "string option \<Rightarrow> pyvalue" where
  "text_value v = (case v of None \<Rightarrow> PNone | Some s \<Rightarrow> PStr s)"

definition int_value :: "int option \<Rightarrow> pyvalue" where
  "int_value v = (case v of None \<Rightarrow> PNone | Some i \<Rightarrow> PInt i)"

definition id_value :: "nat option \<Rightarrow> pyvalue" where
  "id_value v = (case v of None \<Rightarrow> PNone | Some i \<Rightarrow> PInt (int i))"

text \<open>\<open>getattr(event, name, None)\<close> for the columns of the table.\<close>

definition event_attr :: "soc_event \<Rightarrow> string \<Rightarrow> pyvalue" where
  "event_attr e name =
     (if name = ''id'' then PInt (int (ev_id e))
      else if name = ''source_id'' then PInt (int (ev_source_id e))
      else if name = ''import_id'' then id_value (ev_import_id e)
      else if name = ''event_time'' then POther (isoformat (ev_event_time e))
      else if name = ''received_at'' then POther (isoformat (ev_received_at e))
      else if name = ''event_type'' then PStr (ev_event_type e)
      else if name = ''action'' then text_value (ev_action e)
      else if name = ''outcome'' then text_value (ev_outcome e)
      else if name = ''severity'' then PStr (ev_severity e)
      else if name = ''source_ip'' then text_value (ev_source_ip e)
      else if name = ''destination_ip'' then text_value (ev_destination_ip e)
      else if name = ''username'' then text_value (ev_username e)
      else if name = ''http_method'' then text_value (ev_http_method e)
      else if name = ''request_path'' then text_value (ev_request_path e)
      else if name = ''status_code'' then int_value (ev_status_code e)
      else if name = ''user_agent'' then text_value (ev_user_agent e)
      else if name = ''message'' then text_value (ev_message e)
      else if name = ''raw_event_hash'' then PStr (ev_raw_event_hash e)
      else if name = ''raw_preview_redacted'' then text_value (ev_raw_preview_redacted e)
      else if name = ''created_at'' then POther (isoformat (ev_created_at e))
      else PNone)"

text \<open>\<open>conditions.get(key) and value not in conditions[key]\<close>: the test that excludes an event.\<close>

definition excluded_by ::
  "(string \<Rightarrow> py_float) \<Rightarrow> (string \<times> pyvalue) list \<Rightarrow> string \<Rightarrow> pyvalue \<Rightarrow> bool result" where
  "excluded_by fv conditions key value =
     (if \<not> py_truthy fv (dict_get conditions key) then Inr False
      else bind_result (py_member fv value (dict_get conditions key)) (\<lambda>member. Inr (\<not> member)))"

definition matches :: "(string \<Rightarrow> py_float) \<Rightarrow> soc_event \<Rightarrow> pyvalue \<Rightarrow> bool result" where
  "matches fv event value =
     bind_result (as_dict value) (\<lambda>conditions.
     bind_result (excluded_by fv conditions ''event_types'' (PStr (ev_event_type event))) (\<lambda>x.
       if x then Inr False
       else bind_result (excluded_by fv conditions ''outcomes'' (text_value (ev_outcome event))) (\<lambda>x.
         if x then Inr False
         else bind_result (excluded_by fv conditions ''status_codes'' (int_value (ev_status_code event))) (\<lambda>x.
           if x then Inr False else Inr True))))"

definition group_value :: "(string \<Rightarrow> py_float) \<Rightarrow> soc_event \<Rightarrow> string \<Rightarrow> string" where
  "group_value fv event group_by =
     (let value = event_attr event group_by;
          value = (if group_by = ''username'' \<and> \<not> py_truthy fv value
                   then text_value (ev_source_ip event) else value)
      in if value = PNone \<or> value = PStr [] then ''unknown'' else py_str value)"


section \<open>Sliding windows\<close>

text \<open>\<open>while window and (now - window[0].event_time) > window_seconds: window.popleft()\<close>.\<close>

definition trim :: "int \<Rightarrow> time \<Rightarrow> soc_event list \<Rightarrow> soc_event list" where
  "trim window_seconds now window =
     dropWhile (\<lambda>item. now - ev_event_time item > seconds window_seconds) window"

text \<open>Whether the rule takes the event into its windows at all.\<close>

definition rule_takes ::
  "(string \<Rightarrow> py_float) \<Rightarrow> soc_detection_rule \<Rightarrow> string list \<Rightarrow> soc_event \<Rightarrow> bool result" where
  "rule_takes fv rule active_blocklist event =
     (if dr_rule_type rule = ''blocklist''
      then Inr (case ev_source_ip event of None \<Rightarrow> False | Some ip \<Rightarrow> ip \<in> set active_blocklist)
      else if dr_rule_type rule = ''admin_after_failures'' then Inr True
      else matches fv event (dr_conditions_json rule))"

text \<open>\<open>any(fragment in path for fragment in fragments)\<close>.\<close>

fun any_in_path :: "pyvalue list \<Rightarrow> string \<Rightarrow> bool result" where
  "any_in_path [] path = Inr False"
| "any_in_path (fragment # fragments) path =
     (case fragment of
        PStr t \<Rightarrow> if py_in t path then Inr True else any_in_path fragments path
      | _ \<Rightarrow> Inl (TypeError (''in <string> requires string as left operand, not '' @ type_name fragment)))"

definition admin_contribution ::
  "soc_detection_rule \<Rightarrow> soc_event list \<Rightarrow> soc_event \<Rightarrow> soc_event list option result" where
  "admin_contribution rule window event =
     (let path = casefold (case ev_request_path event of None \<Rightarrow> [] | Some p \<Rightarrow> p);
          failures = filter (\<lambda>item. ev_outcome item \<in> {Some ''failure'', Some ''denied''} \<and>
                                    ev_id item \<noteq> ev_id event) window
      in bind_result (as_dict (dr_conditions_json rule)) (\<lambda>conditions.
         bind_result (py_iter (case map_of conditions ''path_contains'' of
                                 None \<Rightarrow> PList [] | Some v \<Rightarrow> v)) (\<lambda>items.
         bind_result (any_in_path items path) (\<lambda>is_admin.
           Inr (if is_admin \<and> length failures \<ge> dr_threshold rule then Some (failures @ [event])
                else None)))))"

definition threshold_contribution ::
  "(string \<Rightarrow> py_float) \<Rightarrow> soc_detection_rule \<Rightarrow> soc_event list \<Rightarrow> soc_event list option result" where
  "threshold_contribution fv rule window =
     (if dr_rule_type rule = ''distinct_threshold''
      then bind_result (as_dict (dr_conditions_json rule)) (\<lambda>conditions.
             case dict_get conditions ''distinct_field'' of
               PStr field \<Rightarrow>
                 Inr (if length (remdups (filter (py_truthy fv) (map (\<lambda>item. event_attr item field) window)))
                           \<ge> dr_threshold rule
                      then Some window else None)
             | other \<Rightarrow> Inl (TypeError (''attribute name must be string, not '' @ type_name other)))
      else Inr (if length window \<ge> dr_threshold rule then Some window else None))"

definition contribution ::
  "(string \<Rightarrow> py_float) \<Rightarrow> soc_detection_rule \<Rightarrow> soc_event list \<Rightarrow> soc_event \<Rightarrow> soc_event list option result" where
  "contribution fv rule window event =
     (if dr_rule_type rule = ''admin_after_failures'' then admin_contribution rule window event
      else threshold_contribution fv rule window)"

type_synonym windows = "(string \<times> soc_event list) list"

text \<open>\<open>groups[key]\<close> of the \<open>defaultdict(deque)\<close>.\<close>

definition window_for :: "windows \<Rightarrow> string \<Rightarrow> soc_event list" where
  "window_for groups key = (case map_of groups key of None \<Rightarrow> [] | Some w \<Rightarrow> w)"

definition window_step ::
  "(string \<Rightarrow> py_float) \<Rightarrow> soc_detection_rule \<Rightarrow> string list \<Rightarrow> soc_event \<Rightarrow> windows \<times> windows \<Rightarrow>
     (windows \<times> windows) result" where
  "window_step fv rule active_blocklist event st =
     (case st of (groups, results) \<Rightarrow>
        bind_result (rule_takes fv rule active_blocklist event) (\<lambda>taken.
          if \<not> taken then Inr (groups, results)
          else let key = group_value fv event (dr_group_by rule);
                   window = trim (dr_window_seconds rule) (ev_event_time event) (window_for groups key) @ [event];
                   groups' = dict_put groups key window
               in bind_result (contribution fv rule window event) (\<lambda>c.
                    Inr (groups', case c of None \<Rightarrow> results | Some ws \<Rightarrow> dict_put results key ws))))"

fun window_loop ::
  "(string \<Rightarrow> py_float) \<Rightarrow> soc_detection_rule \<Rightarrow> string list \<Rightarrow> soc_event list \<Rightarrow> windows \<times> windows \<Rightarrow>
     (windows \<times> windows) result" where
  "window_loop fv rule active_blocklist [] st = Inr st"
| "window_loop fv rule active_blocklist (event # events) st =
     bind_result (window_step fv rule active_blocklist event st) (window_loop fv rule active_blocklist events)"

definition qualifying_windows ::
  "(string \<Rightarrow> py_float) \<Rightarrow> soc_detection_rule \<Rightarrow> soc_event list \<Rightarrow> string list \<Rightarrow> windows result" where
  "qualifying_windows fv rule events active_blocklist =
     bind_result (window_loop fv rule active_blocklist events ([], [])) (\<lambda>(_, results). Inr results)"


text \<open>A rule whose conditions are not an object fails on the first event it looks at.\<close>

lemma null_conditions_raise:
  assumes "dr_conditions_json rule = PNone" and "dr_rule_type rule \<noteq> ''blocklist''" and "events \<noteq> []"
  shows "\<exists>m. qualifying_windows fv rule events bl = Inl (AttributeError m)"
  using assms
  by (cases events) (auto simp: qualifying_windows_def window_step_def rule_takes_def matches_def
      contribution_def admin_contribution_def as_dict_def Let_def)


section \<open>Windows recomputed from scratch\<close>

text \<open>
  The reference definition keeps no window: at every event it collects, from all the events
  before it, those the rule takes that fall into the same group and the time window.
\<close>

definition taken ::
  "(string \<Rightarrow> py_float) \<Rightarrow> soc_detection_rule \<Rightarrow> string list \<Rightarrow> soc_event \<Rightarrow> bool" where
  "taken fv rule active_blocklist event \<longleftrightarrow> rule_takes fv rule active_blocklist event = Inr True"

definition full_window ::
  "(string \<Rightarrow> py_float) \<Rightarrow> soc_detection_rule \<Rightarrow> string list \<Rightarrow> soc_event list \<Rightarrow> string \<Rightarrow> time \<Rightarrow> soc_event list" where
  "full_window fv rule active_blocklist history key now =
     filter (\<lambda>e. taken fv rule active_blocklist e \<and> group_value fv e (dr_group_by rule) = key \<and>
                 now - ev_event_time e \<le> seconds (dr_window_seconds rule)) history"

fun reference_loop ::
  "(string \<Rightarrow> py_float) \<Rightarrow> soc_detection_rule \<Rightarrow> string list \<Rightarrow> soc_event list \<Rightarrow> soc_event list \<Rightarrow> windows \<Rightarrow>
     windows result" where
  "reference_loop fv rule active_blocklist history [] results = Inr results"
| "reference_loop fv rule active_blocklist history (event # events) results =
     bind_result (rule_takes fv rule active_blocklist event) (\<lambda>takes.
       if \<not> takes then reference_loop fv rule active_blocklist (history @ [event]) events results
       else let key = group_value fv event (dr_group_by rule);
                window = full_window fv rule active_blocklist (history @ [event]) key (ev_event_time event)
            in bind_result (contribution fv rule window event) (\<lambda>c.
                 reference_loop fv rule active_blocklist (history @ [event]) events
                   (case c of None \<Rightarrow> results | Some ws \<Rightarrow> dict_put results key ws)))"

definition reference_windows ::
  "(string \<Rightarrow> py_float) \<Rightarrow> soc_detection_rule \<Rightarrow> soc_event list \<Rightarrow> string list \<Rightarrow> windows result" where
  "reference_windows fv rule events active_blocklist =
     reference_loop fv rule active_blocklist [] events []"

lemma trim_sorted:
  "sorted (map ev_event_time xs) \<Longrightarrow>
     trim w now xs = filter (\<lambda>e. now - ev_event_time e \<le> seconds w) xs"
proof (induction xs)
  case (Cons x xs)
  show ?case
  proof (cases "now - ev_event_time x > seconds w")
    case True
    with Cons show ?thesis by (simp add: trim_def)
  next
    case False
    with Cons.prems have "\<forall>e \<in> set xs. now - ev_event_time e \<le> seconds w" by fastforce
    with False show ?thesis by (simp add: trim_def)
  qed
qed (simp add: trim_def)

lemma window_for_put:
  "window_for (dict_put groups key w) key' = (if key' = key then w else window_for groups key')"
  by (induction groups) (auto simp: window_for_def)

lemma full_window_append:
  "full_window fv rule bl (history @ [e]) key now =
     full_window fv rule bl history key now @
     (if taken fv rule bl e \<and> group_value fv e (dr_group_by rule) = key \<and>
         now - ev_event_time e \<le> seconds (dr_window_seconds rule) then [e] else [])"
  by (simp add: full_window_def)

text \<open>What the windows kept so far are worth: trimmed to any later moment they are complete.\<close>

definition windows_complete ::
  "(string \<Rightarrow> py_float) \<Rightarrow> soc_detection_rule \<Rightarrow> string list \<Rightarrow> soc_event list \<Rightarrow> windows \<Rightarrow> bool" where
  "windows_complete fv rule bl history groups \<longleftrightarrow>
     (\<forall>key now. (\<forall>e \<in> set history. ev_event_time e \<le> now) \<longrightarrow>
        trim (dr_window_seconds rule) now (window_for groups key) = full_window fv rule bl history key now)"

lemma windows_completeD:
  "windows_complete fv rule bl history groups \<Longrightarrow> \<forall>e \<in> set history. ev_event_time e \<le> now \<Longrightarrow>
     trim (dr_window_seconds rule) now (window_for groups key) = full_window fv rule bl history key now"
  by (simp add: windows_complete_def)

lemma windows_complete_skip:
  "windows_complete fv rule bl history groups \<Longrightarrow> \<not> taken fv rule bl e \<Longrightarrow>
     windows_complete fv rule bl (history @ [e]) groups"
  by (simp add: windows_complete_def full_window_append)

lemma windows_complete_put:
  assumes complete: "windows_complete fv rule bl history groups"
    and sorted: "sorted (map ev_event_time (history @ [e]))"
    and w: "0 \<le> dr_window_seconds rule" and e: "taken fv rule bl e"
  defines "k \<equiv> group_value fv e (dr_group_by rule)"
  shows "windows_complete fv rule bl (history @ [e])
           (dict_put groups k (full_window fv rule bl (history @ [e]) k (ev_event_time e)))"
proof -
  let ?w = "full_window fv rule bl (history @ [e]) k (ev_event_time e)"
  have trimmed: "trim (dr_window_seconds rule) now ?w = full_window fv rule bl (history @ [e]) k now"
    if "\<forall>x \<in> set (history @ [e]). ev_event_time x \<le> now" for now
  proof -
    have "sorted (map ev_event_time ?w)"
      unfolding full_window_def using sorted by (rule sorted_filter)
    then have "trim (dr_window_seconds rule) now ?w =
        filter (\<lambda>x. now - ev_event_time x \<le> seconds (dr_window_seconds rule)) ?w" by (rule trim_sorted)
    also have "\<dots> = full_window fv rule bl (history @ [e]) k now"
      unfolding full_window_def filter_filter using that by (intro filter_cong) auto
    finally show ?thesis .
  qed
  have other: "full_window fv rule bl (history @ [e]) key now = full_window fv rule bl history key now"
    if "key \<noteq> k" for key now
    using that by (simp add: full_window_append k_def)
  show ?thesis
    unfolding windows_complete_def
  proof (intro allI impI)
    fix key now assume now: "\<forall>x \<in> set (history @ [e]). ev_event_time x \<le> now"
    show "trim (dr_window_seconds rule) now (window_for (dict_put groups k ?w) key) =
        full_window fv rule bl (history @ [e]) key now"
      using trimmed [OF now] other [of key now] windows_completeD [OF complete, of now key] now
      by (auto simp: window_for_put)
  qed
qed

lemma window_loop_reference:
  assumes "windows_complete fv rule bl history groups"
    and "sorted (map ev_event_time (history @ events))" and w: "0 \<le> dr_window_seconds rule"
  shows "bind_result (window_loop fv rule bl events (groups, results)) (\<lambda>(_, rs). Inr rs) =
         reference_loop fv rule bl history events results"
  using assms(1,2)
proof (induction events arbitrary: history groups results)
  case (Cons e events)
  have s: "sorted (map ev_event_time ((history @ [e]) @ events))" using Cons.prems(2) by simp
  have s1: "sorted (map ev_event_time (history @ [e]))" using s by (simp add: sorted_append)
  have le: "\<forall>x \<in> set history. ev_event_time x \<le> ev_event_time e" using s1 by (simp add: sorted_append)
  show ?case
  proof (cases "rule_takes fv rule bl e")
    case (Inl x)
    then show ?thesis by (simp add: window_step_def)
  next
    case (Inr takes)
    show ?thesis
    proof (cases takes)
      case False
      with Inr have "\<not> taken fv rule bl e" by (simp add: taken_def)
      from Cons.IH [OF windows_complete_skip [OF Cons.prems(1) this] s, of results] Inr False
      show ?thesis by (simp add: window_step_def)
    next
      case True
      with Inr have t: "taken fv rule bl e" by (simp add: taken_def)
      let ?k = "group_value fv e (dr_group_by rule)"
      let ?w = "full_window fv rule bl (history @ [e]) ?k (ev_event_time e)"
      have win: "trim (dr_window_seconds rule) (ev_event_time e) (window_for groups ?k) @ [e] = ?w"
        using windows_completeD [OF Cons.prems(1) le] t w
        by (simp add: full_window_append time_defs)
      note IH = Cons.IH [OF windows_complete_put [OF Cons.prems(1) s1 w t] s]
      show ?thesis
        using IH Inr True
        by (cases "contribution fv rule ?w e")
          (simp_all add: window_step_def Let_def win)
    qed
  qed
qed simp

text \<open>C34. The sliding windows of the correlation are exact: for events in chronological order, the
incremental windows (appended at one end, expired at the other) give the same result, errors
included, as recomputing at every event the window from all earlier events of its group that
the rule takes and that are at most \<open>window_seconds\<close> old.\<close>

theorem qualifying_windows_exact:
  assumes "sorted (map ev_event_time events)" and "0 \<le> dr_window_seconds rule"
  shows "qualifying_windows fv rule events active_blocklist =
         reference_windows fv rule events active_blocklist"
proof -
  have "windows_complete fv rule active_blocklist [] []"
    by (simp add: windows_complete_def window_for_def full_window_def trim_def)
  from window_loop_reference [OF this, of events "[]"] assms show ?thesis
    by (simp add: qualifying_windows_def reference_windows_def)
qed

definition demo_event :: "nat \<Rightarrow> time \<Rightarrow> soc_event" where
  "demo_event i t =
     \<lparr>ev_id = i, ev_source_id = 1, ev_import_id = None, ev_event_time = t, ev_received_at = t,
      ev_event_type = ''authentication'', ev_action = Some ''login'', ev_outcome = Some ''failure'',
      ev_severity = ''medium'', ev_source_ip = Some ''192.0.2.66'', ev_destination_ip = None,
      ev_username = Some ''demo-bob'', ev_http_method = None, ev_request_path = None,
      ev_status_code = None, ev_user_agent = None, ev_message = None, ev_normalized_json = [],
      ev_raw_event_hash = ''h'' @ str_nat i, ev_raw_preview_redacted = None, ev_created_at = t\<rparr>"

definition demo_rule :: soc_detection_rule where
  "demo_rule =
     \<lparr>dr_id = 1, dr_rule_code = ''SOC-001'', dr_name = ''Repeated authentication failures'',
      dr_description = ''Repeated failures'', dr_rule_type = ''threshold'', dr_enabled = True,
      dr_severity = ''high'', dr_confidence = ''high'', dr_window_seconds = 300, dr_threshold = 2,
      dr_group_by = ''source_ip'',
      dr_conditions_json = PDict [(''event_types'', PList [PStr ''authentication'']),
                                  (''outcomes'', PList [PStr ''failure'', PStr ''denied''])],
      dr_remediation = ''Validate the source'', dr_is_default = True, dr_created_at = 0, dr_updated_at = 0\<rparr>"

theorem qualifying_windows_exact_witness:
  "qualifying_windows (\<lambda>_. NaN) demo_rule [demo_event 1 0, demo_event 2 1000000, demo_event 3 301000000] [] =
     reference_windows (\<lambda>_. NaN) demo_rule [demo_event 1 0, demo_event 2 1000000, demo_event 3 301000000] [] \<and>
   qualifying_windows (\<lambda>_. NaN) demo_rule [demo_event 1 0, demo_event 2 1000000, demo_event 3 301000000] [] =
     Inr [(''192.0.2.66'', [demo_event 2 1000000, demo_event 3 301000000])]"
proof
  show "qualifying_windows (\<lambda>_. NaN) demo_rule [demo_event 1 0, demo_event 2 1000000, demo_event 3 301000000] [] =
     reference_windows (\<lambda>_. NaN) demo_rule [demo_event 1 0, demo_event 2 1000000, demo_event 3 301000000] []"
    by (rule qualifying_windows_exact) (simp_all add: demo_event_def demo_rule_def)
  show "qualifying_windows (\<lambda>_. NaN) demo_rule [demo_event 1 0, demo_event 2 1000000, demo_event 3 301000000] [] =
     Inr [(''192.0.2.66'', [demo_event 2 1000000, demo_event 3 301000000])]"
    by code_simp
qed


section \<open>The detection run\<close>

record DetectionRunRequest =
  dq_rule_ids :: "nat list option"
  dq_source_id :: "nat option"
  dq_start_time :: "time option"
  dq_end_time :: "time option"

record DetectionRunResult =
  rules_processed :: nat
  events_processed :: nat
  alerts_created :: nat
  alerts_updated :: nat
  duplicate_alerts_skipped :: nat

definition selected_rules :: "DetectionRunRequest \<Rightarrow> soc_db \<Rightarrow> soc_detection_rule list" where
  "selected_rules payload s =
     sort_key dr_id (filter (\<lambda>rule. dr_enabled rule \<and>
       (case dq_rule_ids payload of None \<Rightarrow> True | Some ids \<Rightarrow> ids = [] \<or> dr_id rule \<in> set ids))
       (detection_rules s))"

definition selected_events :: "DetectionRunRequest \<Rightarrow> soc_db \<Rightarrow> soc_event list" where
  "selected_events payload s =
     sort_key ev_event_time (sort_key ev_id (filter (\<lambda>e.
       (case dq_source_id payload of None \<Rightarrow> True | Some i \<Rightarrow> i = 0 \<or> ev_source_id e = i) \<and>
       (case dq_start_time payload of None \<Rightarrow> True | Some t \<Rightarrow> ev_event_time e \<ge> t) \<and>
       (case dq_end_time payload of None \<Rightarrow> True | Some t \<Rightarrow> ev_event_time e \<le> t)) (soc_events s)))"

definition active_ips :: "soc_db \<Rightarrow> string list" where
  "active_ips s = map bl_indicator_value
     (filter (\<lambda>row. bl_indicator_type row = ''ip'' \<and> bl_status row = ''active'') (blocklist s))"

text \<open>\<open>int(first_seen.timestamp()) // window_seconds\<close>.\<close>

definition time_bucket :: "time \<Rightarrow> int \<Rightarrow> int" where
  "time_bucket t window_seconds =
     (if t \<ge> 0 then t div 1000000 else - ((- t) div 1000000)) div window_seconds"

definition alert_fingerprint :: "soc_env \<Rightarrow> soc_detection_rule \<Rightarrow> string \<Rightarrow> soc_event list \<Rightarrow> string" where
  "alert_fingerprint env rule key contributing =
     sx_sha256_hex env (dr_rule_code rule @ ''|'' @ key @ ''|'' @
       str_int (time_bucket (ev_event_time (hd contributing)) (dr_window_seconds rule)))"

text \<open>\<open>isoformat\<close> of a moment with the UTC zone.\<close>

definition aware_isoformat :: "time \<Rightarrow> string" where
  "aware_isoformat t = isoformat t @ ''+00:00''"

definition evidence_text :: "soc_detection_rule \<Rightarrow> string \<Rightarrow> soc_event list \<Rightarrow> string" where
  "evidence_text rule key contributing =
     redact_text (str_nat (length (remdups (map ev_id contributing))) @ '' correlated events for '' @
       dr_group_by rule @ ''='' @ key @ '' from '' @ aware_isoformat (ev_event_time (hd contributing)) @
       '' through '' @ aware_isoformat (ev_event_time (last contributing)) @ ''.'') (Some 2000)"

definition title_case :: "string \<Rightarrow> string" where
  "title_case s = (case s of [] \<Rightarrow> [] | c # cs \<Rightarrow> upper_char c # casefold cs)"

definition link_ids :: "soc_db \<Rightarrow> nat \<Rightarrow> nat list" where
  "link_ids s aid = map ln_event_id (filter (\<lambda>l. ln_alert_id l = aid) (alert_links s))"

definition add_link :: "soc_env \<Rightarrow> nat \<Rightarrow> nat \<Rightarrow> soc_db \<Rightarrow> soc_db" where
  "add_link env aid eid s =
     s\<lparr>alert_links := insert_row ln_id set_ln_id
         \<lparr>ln_id = 0, ln_alert_id = aid, ln_event_id = eid, ln_created_at = sx_now env\<rparr> (alert_links s)\<rparr>"

definition new_alert ::
  "soc_env \<Rightarrow> soc_detection_rule \<Rightarrow> string \<Rightarrow> soc_event list \<Rightarrow> soc_alert" where
  "new_alert env rule key contributing =
     (let sample = last contributing in
      \<lparr>al_id = 0, al_rule_id = dr_id rule, al_title = dr_name rule, al_description = dr_description rule,
       al_severity = dr_severity rule, al_confidence = dr_confidence rule, al_status = ''open'',
       al_first_seen = ev_event_time (hd contributing), al_last_seen = ev_event_time sample,
       al_event_count = length (remdups (map ev_id contributing)),
       al_correlation_key = dr_group_by rule @ '':'' @ key,
       al_source_ip = (if dr_group_by rule = ''source_ip'' \<or> truthy (ev_source_ip sample)
                       then ev_source_ip sample else None),
       al_username = ev_username sample,
       al_evidence_summary = evidence_text rule key contributing,
       al_fingerprint = alert_fingerprint env rule key contributing,
       al_analyst_notes = None, al_created_at = sx_now env, al_updated_at = sx_now env\<rparr>)"

record run_state =
  rs_db :: soc_db
  rs_created :: nat
  rs_updated :: nat
  rs_skipped :: nat

text \<open>The alert of the window exists: link the new events, or skip it when nothing is new.\<close>

definition refresh_alert ::
  "soc_env \<Rightarrow> soc_detection_rule \<Rightarrow> string \<Rightarrow> soc_event list \<Rightarrow> soc_alert \<Rightarrow> run_state \<Rightarrow> run_state" where
  "refresh_alert env rule key contributing existing st =
     (let s = rs_db st;
          first_seen = ev_event_time (hd contributing);
          last_seen = ev_event_time (last contributing);
          ids = remdups (map ev_id contributing);
          existing_ids = link_ids s (al_id existing);
          new_ids = filter (\<lambda>i. i \<notin> set existing_ids) ids
      in if new_ids = [] \<and> al_last_seen existing = last_seen then st\<lparr>rs_skipped := rs_skipped st + 1\<rparr>
         else st\<lparr>rs_db := (fold (add_link env (al_id existing)) new_ids s)
                   \<lparr>alerts := upd_row al_id (al_id existing)
                      (\<lambda>a. a\<lparr>al_first_seen := min (al_first_seen a) first_seen,
                             al_last_seen := max (al_last_seen a) last_seen,
                             al_event_count := length (remdups (existing_ids @ ids)),
                             al_evidence_summary := evidence_text rule key contributing,
                             al_updated_at := sx_now env\<rparr>) (alerts s)\<rparr>,
                 rs_updated := rs_updated st + 1\<rparr>)"

definition open_alert ::
  "soc_env \<Rightarrow> soc_detection_rule \<Rightarrow> string \<Rightarrow> soc_event list \<Rightarrow> run_state \<Rightarrow> run_state" where
  "open_alert env rule key contributing st =
     (let s = rs_db st;
          aid = next_id al_id (alerts s);
          s1 = s\<lparr>alerts := insert_row al_id set_al_id (new_alert env rule key contributing) (alerts s)\<rparr>;
          s2 = fold (add_link env aid) (remdups (map ev_id contributing)) s1;
          s3 = (if dr_severity rule \<in> {''high'', ''critical''}
                then soc_notify env (title_case (dr_severity rule) @ '' SOC Alert'')
                       (dr_name rule @ '': '' @ evidence_text rule key contributing)
                       (if dr_severity rule = ''critical'' then ''danger'' else ''warning'')
                       ''soc_alert'' (Some aid) s2
                else s2)
      in st\<lparr>rs_db := s3, rs_created := rs_created st + 1\<rparr>)"

definition correlate_window ::
  "soc_env \<Rightarrow> soc_detection_rule \<Rightarrow> string \<times> soc_event list \<Rightarrow> run_state \<Rightarrow> run_state" where
  "correlate_window env rule kw st =
     (case kw of (key, contributing) \<Rightarrow>
        (case find (\<lambda>a. al_fingerprint a = alert_fingerprint env rule key contributing) (alerts (rs_db st)) of
           Some existing \<Rightarrow> refresh_alert env rule key contributing existing st
         | None \<Rightarrow> open_alert env rule key contributing st))"

fun run_rules ::
  "soc_env \<Rightarrow> soc_event list \<Rightarrow> string list \<Rightarrow> soc_detection_rule list \<Rightarrow> run_state \<Rightarrow> run_state result" where
  "run_rules env events active_blocklist [] st = Inr st"
| "run_rules env events active_blocklist (rule # rules) st =
     bind_result (qualifying_windows (sx_float_value env) rule events active_blocklist) (\<lambda>windows.
       run_rules env events active_blocklist rules (fold (correlate_window env rule) windows st))"

definition run :: "soc_env \<Rightarrow> DetectionRunRequest \<Rightarrow> (soc_db, DetectionRunResult) action" where
  "run env payload s =
     (let rules = selected_rules payload s; events = selected_events payload s
      in case run_rules env events (active_ips s) rules
                \<lparr>rs_db = s, rs_created = 0, rs_updated = 0, rs_skipped = 0\<rparr> of
           Inl e \<Rightarrow> (Inl e, s)
         | Inr st \<Rightarrow>
             (Inr \<lparr>rules_processed = length rules, events_processed = length events,
                   alerts_created = rs_created st, alerts_updated = rs_updated st,
                   duplicate_alerts_skipped = rs_skipped st\<rparr>,
              soc_add_activity env ''detection_run_completed''
                (''Detection run processed '' @ str_nat (length events) @ '' events and created '' @
                 str_nat (rs_created st) @ '' alerts.'') ''soc_detection'' None (rs_db st)))"


section \<open>What a run does to the alerts\<close>

text \<open>Every alert has its own fingerprint, is linked to each of its events once and counts them.\<close>

definition alerts_ok :: "soc_db \<Rightarrow> bool" where
  "alerts_ok s \<longleftrightarrow>
     distinct (map al_id (alerts s)) \<and> distinct (map al_fingerprint (alerts s)) \<and>
     (\<forall>a \<in> set (alerts s). distinct (link_ids s (al_id a)) \<and> al_event_count a = length (link_ids s (al_id a))) \<and>
     ln_alert_id ` set (alert_links s) \<subseteq> al_id ` set (alerts s)"

abbreviation fingerprints :: "run_state \<Rightarrow> string list" where
  "fingerprints st \<equiv> map al_fingerprint (alerts (rs_db st))"

lemma add_links_frame [simp]:
  "alerts (fold (add_link env aid) ids s) = alerts s"
  "soc_events (fold (add_link env aid) ids s) = soc_events s"
  "detection_rules (fold (add_link env aid) ids s) = detection_rules s"
  "blocklist (fold (add_link env aid) ids s) = blocklist s"
  by (induction ids arbitrary: s) (simp_all add: add_link_def)

lemma soc_notify_frame [simp]:
  "alerts (soc_notify env t m k et ei s) = alerts s"
  "alert_links (soc_notify env t m k et ei s) = alert_links s"
  "soc_events (soc_notify env t m k et ei s) = soc_events s"
  "detection_rules (soc_notify env t m k et ei s) = detection_rules s"
  "blocklist (soc_notify env t m k et ei s) = blocklist s"
  by (simp_all add: soc_notify_def)

lemma soc_add_activity_frame [simp]:
  "alerts (soc_add_activity env a m et ei s) = alerts s"
  "alert_links (soc_add_activity env a m et ei s) = alert_links s"
  "soc_events (soc_add_activity env a m et ei s) = soc_events s"
  "detection_rules (soc_add_activity env a m et ei s) = detection_rules s"
  "blocklist (soc_add_activity env a m et ei s) = blocklist s"
  by (simp_all add: soc_add_activity_def)

lemma link_ids_add_link [simp]:
  "link_ids (add_link env aid eid s) a = link_ids s a @ (if a = aid then [eid] else [])"
  by (simp add: link_ids_def add_link_def insert_row_def set_ln_id_def)

lemma link_ids_add_links [simp]:
  "link_ids (fold (add_link env aid) ids s) a = link_ids s a @ (if a = aid then ids else [])"
  by (induction ids arbitrary: s) simp_all

lemma links_owner_add_links:
  "ln_alert_id ` set (alert_links (fold (add_link env aid) ids s)) \<subseteq>
     insert aid (ln_alert_id ` set (alert_links s))"
proof (induction ids arbitrary: s)
  case (Cons i ids)
  show ?case using Cons [of "add_link env aid i s"]
    by (auto simp: add_link_def insert_row_def set_ln_id_def)
qed auto

lemma image_upd_row:
  "(\<And>r. g (f r) = g r) \<Longrightarrow> g ` set (upd_row rid i f rows) = g ` set rows"
  using map_upd_row [of g f rid i rows] by (metis set_map)

lemma link_ids_alerts [simp]: "link_ids (s\<lparr>alerts := as\<rparr>) a = link_ids s a"
  by (simp add: link_ids_def)

lemma link_ids_cong: "alert_links s = alert_links t \<Longrightarrow> link_ids s a = link_ids t a"
  by (simp add: link_ids_def)

lemma length_union:
  assumes "distinct xs" and "distinct ys"
  shows "length (remdups (xs @ ys)) = length (xs @ filter (\<lambda>i. i \<notin> set xs) ys)"
proof -
  have "distinct (xs @ filter (\<lambda>i. i \<notin> set xs) ys)" using assms by auto
  moreover have "set (xs @ filter (\<lambda>i. i \<notin> set xs) ys) = set (xs @ ys)" by auto
  ultimately show ?thesis by (metis distinct_card length_remdups_card_conv)
qed

lemma refresh_alert_ok:
  assumes ok: "alerts_ok (rs_db st)" and a: "existing \<in> set (alerts (rs_db st))"
  shows "alerts_ok (rs_db (refresh_alert env rule key c existing st))"
    and "fingerprints (refresh_alert env rule key c existing st) = fingerprints st"
    and "rs_created (refresh_alert env rule key c existing st) = rs_created st"
proof -
  let ?s = "rs_db st" and ?ids = "remdups (map ev_id c)"
  let ?new = "filter (\<lambda>i. i \<notin> set (link_ids ?s (al_id existing))) ?ids"
  have count: "length (remdups (link_ids ?s (al_id existing) @ ?ids)) =
      length (link_ids ?s (al_id existing) @ ?new)"
    using ok a by (intro length_union) (auto simp: alerts_ok_def)
  have owner: "ln_alert_id ` set (alert_links (fold (add_link env (al_id existing)) ?new ?s)) \<subseteq>
      al_id ` set (alerts ?s)"
  proof (rule order_trans [OF links_owner_add_links])
    show "insert (al_id existing) (ln_alert_id ` set (alert_links ?s)) \<subseteq> al_id ` set (alerts ?s)"
      using ok a by (simp add: alerts_ok_def)
  qed
  show "alerts_ok (rs_db (refresh_alert env rule key c existing st))"
  proof (cases "?new = [] \<and> al_last_seen existing = ev_event_time (last c)")
    case True
    then show ?thesis using ok by (simp add: refresh_alert_def Let_def)
  next
    case False
    define f where "f = (\<lambda>a :: soc_alert. a\<lparr>al_first_seen := min (al_first_seen a) (ev_event_time (hd c)),
        al_last_seen := max (al_last_seen a) (ev_event_time (last c)),
        al_event_count := length (remdups (link_ids ?s (al_id existing) @ ?ids)),
        al_evidence_summary := evidence_text rule key c, al_updated_at := sx_now env\<rparr>)"
    have f: "al_id (f a) = al_id a" "al_fingerprint (f a) = al_fingerprint a"
      "al_event_count (f a) = length (link_ids ?s (al_id existing) @ ?new)" for a
      using count by (simp_all add: f_def)
    have t: "rs_db (refresh_alert env rule key c existing st) =
        (fold (add_link env (al_id existing)) ?new ?s)\<lparr>alerts := upd_row al_id (al_id existing) f (alerts ?s)\<rparr>"
      using False by (auto simp: refresh_alert_def Let_def f_def)
    have rows: "distinct (link_ids ?s (al_id b) @ (if al_id b = al_id existing then ?new else [])) \<and>
        al_event_count (if al_id b = al_id existing then f b else b) =
          length (link_ids ?s (al_id b) @ (if al_id b = al_id existing then ?new else []))"
      if "b \<in> set (alerts ?s)" for b
      using ok that f(3) by (auto simp: alerts_ok_def)
    let ?t = "(fold (add_link env (al_id existing)) ?new ?s)\<lparr>alerts := upd_row al_id (al_id existing) f (alerts ?s)\<rparr>"
    have row: "distinct (link_ids ?t (al_id a)) \<and> al_event_count a = length (link_ids ?t (al_id a))"
      if "a \<in> set (alerts ?t)" for a
    proof -
      from that obtain b where b: "b \<in> set (alerts ?s)" "a = (if al_id b = al_id existing then f b else b)"
        by (auto simp: set_upd_row)
      then have "al_id a = al_id b" by (simp add: f)
      with rows [OF b(1)] b(2) show ?thesis by simp
    qed
    have "distinct (map al_id (alerts ?t))" "distinct (map al_fingerprint (alerts ?t))"
      using ok by (simp_all add: alerts_ok_def map_upd_row f)
    moreover have "ln_alert_id ` set (alert_links ?t) \<subseteq> al_id ` set (alerts ?t)"
      using owner by (simp add: image_upd_row f)
    ultimately show ?thesis unfolding t using row by (simp only: alerts_ok_def) blast
  qed
  show "fingerprints (refresh_alert env rule key c existing st) = fingerprints st"
    "rs_created (refresh_alert env rule key c existing st) = rs_created st"
    by (auto simp: refresh_alert_def Let_def map_upd_row)
qed

lemma no_links_of_next:
  "alerts_ok s \<Longrightarrow> link_ids s (next_id al_id (alerts s)) = []"
proof -
  assume "alerts_ok s"
  then have "\<forall>l \<in> set (alert_links s). ln_alert_id l \<noteq> next_id al_id (alerts s)"
    using next_id_fresh [of al_id "alerts s"] by (force simp: alerts_ok_def)
  then show ?thesis by (simp add: link_ids_def)
qed

lemma open_alert_ok:
  assumes ok: "alerts_ok (rs_db st)"
    and fresh: "alert_fingerprint env rule key c \<notin> set (fingerprints st)"
  shows "alerts_ok (rs_db (open_alert env rule key c st))"
    and "fingerprints (open_alert env rule key c st) = fingerprints st @ [alert_fingerprint env rule key c]"
proof -
  let ?s = "rs_db st" and ?ids = "remdups (map ev_id c)"
  let ?aid = "next_id al_id (alerts ?s)"
  let ?row = "set_al_id ?aid (new_alert env rule key c)"
  let ?t = "rs_db (open_alert env rule key c st)"
  have row: "al_id ?row = ?aid" "al_event_count ?row = length ?ids"
    "al_fingerprint ?row = alert_fingerprint env rule key c"
    by (simp_all add: set_al_id_def new_alert_def Let_def)
  have alerts: "alerts ?t = alerts ?s @ [?row]"
    by (simp add: open_alert_def Let_def insert_row_def)
  have links: "alert_links ?t =
      alert_links (fold (add_link env ?aid) ?ids (?s\<lparr>alerts := insert_row al_id set_al_id (new_alert env rule key c) (alerts ?s)\<rparr>))"
    by (simp add: open_alert_def Let_def)
  have ids: "link_ids ?t a = link_ids ?s a @ (if a = ?aid then ?ids else [])" for a
    unfolding link_ids_cong [OF links] by simp
  have "ln_alert_id ` set (alert_links ?t) \<subseteq> insert ?aid (ln_alert_id ` set (alert_links ?s))"
    unfolding links using links_owner_add_links [of env ?aid ?ids "?s\<lparr>alerts := _\<rparr>"] by simp
  then have owner: "ln_alert_id ` set (alert_links ?t) \<subseteq> insert ?aid (al_id ` set (alerts ?s))"
    using ok unfolding alerts_ok_def by blast
  have other: "a \<in> set (alerts ?s) \<Longrightarrow> al_id a \<noteq> ?aid" for a
    using next_id_fresh [of al_id "alerts ?s"] by force
  show "alerts_ok ?t"
    using ok fresh other owner no_links_of_next [OF ok] next_id_fresh [of al_id "alerts ?s"]
    by (auto simp: alerts_ok_def alerts ids row)
  show "fingerprints (open_alert env rule key c st) = fingerprints st @ [alert_fingerprint env rule key c]"
    by (simp add: alerts row)
qed

lemma correlate_window_ok:
  assumes "alerts_ok (rs_db st)"
  shows "alerts_ok (rs_db (correlate_window env rule (key, c) st))"
    and "set (fingerprints (correlate_window env rule (key, c) st)) =
           insert (alert_fingerprint env rule key c) (set (fingerprints st))"
    and "alert_fingerprint env rule key c \<in> set (fingerprints st) \<Longrightarrow>
           fingerprints (correlate_window env rule (key, c) st) = fingerprints st \<and>
           rs_created (correlate_window env rule (key, c) st) = rs_created st"
proof -
  let ?fp = "alert_fingerprint env rule key c"
  show "alerts_ok (rs_db (correlate_window env rule (key, c) st))"
    "set (fingerprints (correlate_window env rule (key, c) st)) = insert ?fp (set (fingerprints st))"
    "?fp \<in> set (fingerprints st) \<Longrightarrow>
       fingerprints (correlate_window env rule (key, c) st) = fingerprints st \<and>
       rs_created (correlate_window env rule (key, c) st) = rs_created st"
  proof (atomize (full), cases "find (\<lambda>a. al_fingerprint a = ?fp) (alerts (rs_db st))")
    case None
    then have "?fp \<notin> set (fingerprints st)" by (auto simp: find_None_iff)
    then show "alerts_ok (rs_db (correlate_window env rule (key, c) st)) \<and>
      set (fingerprints (correlate_window env rule (key, c) st)) = insert ?fp (set (fingerprints st)) \<and>
      (?fp \<in> set (fingerprints st) \<longrightarrow>
        fingerprints (correlate_window env rule (key, c) st) = fingerprints st \<and>
        rs_created (correlate_window env rule (key, c) st) = rs_created st)"
      using open_alert_ok [OF assms, of env rule key c] None by (simp add: correlate_window_def)
  next
    case (Some a)
    then have a: "a \<in> set (alerts (rs_db st))" "al_fingerprint a = ?fp" using find_SomeD by fastforce+
    then have "?fp \<in> set (fingerprints st)" by (metis imageI set_map)
    then show "alerts_ok (rs_db (correlate_window env rule (key, c) st)) \<and>
      set (fingerprints (correlate_window env rule (key, c) st)) = insert ?fp (set (fingerprints st)) \<and>
      (?fp \<in> set (fingerprints st) \<longrightarrow>
        fingerprints (correlate_window env rule (key, c) st) = fingerprints st \<and>
        rs_created (correlate_window env rule (key, c) st) = rs_created st)"
      using refresh_alert_ok [OF assms a(1), of env rule key c] Some
      by (simp add: correlate_window_def insert_absorb del: set_map)
  qed
qed

text \<open>The windows of a rule, one after the other, and the rules.\<close>

lemma correlate_windows_ok:
  "alerts_ok (rs_db st) \<Longrightarrow>
     alerts_ok (rs_db (fold (correlate_window env rule) ws st)) \<and>
     set (fingerprints (fold (correlate_window env rule) ws st)) =
       set (fingerprints st) \<union> (\<lambda>(key, c). alert_fingerprint env rule key c) ` set ws"
proof (induction ws arbitrary: st)
  case (Cons kw ws)
  obtain key c where "kw = (key, c)" by (cases kw)
  with Cons.IH [of "correlate_window env rule kw st"] correlate_window_ok(1,2) [OF Cons.prems, of env rule key c]
  show ?case by auto
qed simp

lemma correlate_windows_known:
  "alerts_ok (rs_db st) \<Longrightarrow>
   (\<lambda>(key, c). alert_fingerprint env rule key c) ` set ws \<subseteq> set (fingerprints st) \<Longrightarrow>
     fingerprints (fold (correlate_window env rule) ws st) = fingerprints st \<and>
     rs_created (fold (correlate_window env rule) ws st) = rs_created st"
proof (induction ws arbitrary: st)
  case (Cons kw ws)
  obtain key c where kw: "kw = (key, c)" by (cases kw)
  have "fingerprints (correlate_window env rule kw st) = fingerprints st \<and>
      rs_created (correlate_window env rule kw st) = rs_created st"
    using correlate_window_ok(3) [OF Cons.prems(1), of env rule key c] Cons.prems(2) kw by auto
  with Cons.IH [of "correlate_window env rule kw st"] correlate_window_ok(1) [OF Cons.prems(1), of env rule key c]
    Cons.prems(2) kw
  show ?case by (simp del: set_map)
qed simp

lemma correlate_window_frame:
  "soc_events (rs_db (correlate_window env rule kw st)) = soc_events (rs_db st) \<and>
   detection_rules (rs_db (correlate_window env rule kw st)) = detection_rules (rs_db st) \<and>
   blocklist (rs_db (correlate_window env rule kw st)) = blocklist (rs_db st)"
  by (auto simp: correlate_window_def refresh_alert_def open_alert_def Let_def split: prod.splits option.splits)

lemma correlate_windows_frame:
  "soc_events (rs_db (fold (correlate_window env rule) ws st)) = soc_events (rs_db st) \<and>
   detection_rules (rs_db (fold (correlate_window env rule) ws st)) = detection_rules (rs_db st) \<and>
   blocklist (rs_db (fold (correlate_window env rule) ws st)) = blocklist (rs_db st)"
  by (induction ws arbitrary: st) (simp_all add: correlate_window_frame)

lemma run_rules_ok:
  "run_rules env events bl rules st = Inr st' \<Longrightarrow> alerts_ok (rs_db st) \<Longrightarrow>
     alerts_ok (rs_db st') \<and> set (fingerprints st) \<subseteq> set (fingerprints st') \<and>
     (\<forall>rule \<in> set rules. \<exists>ws. qualifying_windows (sx_float_value env) rule events bl = Inr ws \<and>
        (\<lambda>(key, c). alert_fingerprint env rule key c) ` set ws \<subseteq> set (fingerprints st')) \<and>
     soc_events (rs_db st') = soc_events (rs_db st) \<and>
     detection_rules (rs_db st') = detection_rules (rs_db st) \<and> blocklist (rs_db st') = blocklist (rs_db st)"
proof (induction rules arbitrary: st)
  case (Cons rule rules)
  then obtain ws where ws: "qualifying_windows (sx_float_value env) rule events bl = Inr ws"
    and rest: "run_rules env events bl rules (fold (correlate_window env rule) ws st) = Inr st'"
    by (auto simp: bind_result_Inr_iff)
  note step = correlate_windows_ok [OF Cons.prems(2), of env rule ws]
  note IH = Cons.IH [OF rest conjunct1 [OF step]]
  have "(\<lambda>(key, c). alert_fingerprint env rule key c) ` set ws \<subseteq> set (fingerprints st')"
    using IH step by blast
  then show ?case using IH step ws correlate_windows_frame [of env rule ws st] by auto
qed simp

lemma run_rules_known:
  assumes "alerts_ok (rs_db st)"
    and "\<forall>rule \<in> set rules. \<exists>ws. qualifying_windows (sx_float_value env) rule events bl = Inr ws \<and>
        (\<lambda>(key, c). alert_fingerprint env rule key c) ` set ws \<subseteq> set (fingerprints st)"
  shows "\<exists>st'. run_rules env events bl rules st = Inr st' \<and> fingerprints st' = fingerprints st \<and>
     rs_created st' = rs_created st"
  using assms
proof (induction rules arbitrary: st)
  case (Cons rule rules)
  then obtain ws where ws: "qualifying_windows (sx_float_value env) rule events bl = Inr ws"
    "(\<lambda>(key, c). alert_fingerprint env rule key c) ` set ws \<subseteq> set (fingerprints st)" by auto
  let ?st = "fold (correlate_window env rule) ws st"
  note known = correlate_windows_known [OF Cons.prems(1) ws(2)]
  have "alerts_ok (rs_db ?st)" using correlate_windows_ok [OF Cons.prems(1)] by blast
  from Cons.IH [OF this] Cons.prems(2) known ws(1) show ?case by auto
qed simp

lemma run_InrD:
  assumes "run env payload s = (Inr r, s')"
  obtains st where
    "run_rules env (selected_events payload s) (active_ips s) (selected_rules payload s)
       \<lparr>rs_db = s, rs_created = 0, rs_updated = 0, rs_skipped = 0\<rparr> = Inr st"
    and "alerts s' = alerts (rs_db st)" and "alert_links s' = alert_links (rs_db st)"
    and "soc_events s' = soc_events (rs_db st)" and "detection_rules s' = detection_rules (rs_db st)"
    and "blocklist s' = blocklist (rs_db st)" and "alerts_created r = rs_created st"
  using assms by (auto simp: run_def Let_def split: sum.splits)

lemma alerts_ok_cong:
  "alerts s = alerts t \<Longrightarrow> alert_links s = alert_links t \<Longrightarrow> alerts_ok s = alerts_ok t"
  by (simp add: alerts_ok_def link_ids_def)

lemma run_frame:
  assumes "alerts_ok s" and "run env payload s = (out, s')"
  shows "alerts_ok s' \<and> soc_events s' = soc_events s \<and> detection_rules s' = detection_rules s \<and>
    blocklist s' = blocklist s"
proof (cases out)
  case (Inl e)
  with assms show ?thesis by (auto simp: run_def Let_def split: sum.splits)
next
  case (Inr r)
  obtain st where "run_rules env (selected_events payload s) (active_ips s) (selected_rules payload s)
       \<lparr>rs_db = s, rs_created = 0, rs_updated = 0, rs_skipped = 0\<rparr> = Inr st"
    and same: "alerts s' = alerts (rs_db st)" "alert_links s' = alert_links (rs_db st)"
      "soc_events s' = soc_events (rs_db st)" "detection_rules s' = detection_rules (rs_db st)"
      "blocklist s' = blocklist (rs_db st)"
    using run_InrD assms(2) Inr by metis
  from run_rules_ok [OF this(1)] same assms(1) alerts_ok_cong [OF same(1,2)] show ?thesis by simp
qed

text \<open>An alert starts open, and a run changes the status of none.\<close>

lemma correlate_window_status:
  "\<forall>a \<in> set (alerts (rs_db st)). P (al_status a) \<Longrightarrow> P ''open'' \<Longrightarrow>
     \<forall>a \<in> set (alerts (rs_db (correlate_window env rule kw st))). P (al_status a)"
  by (auto simp: correlate_window_def refresh_alert_def open_alert_def Let_def set_upd_row insert_row_def
      set_al_id_def new_alert_def split: prod.splits option.splits)

lemma correlate_windows_status:
  "\<forall>a \<in> set (alerts (rs_db st)). P (al_status a) \<Longrightarrow> P ''open'' \<Longrightarrow>
     \<forall>a \<in> set (alerts (rs_db (fold (correlate_window env rule) ws st))). P (al_status a)"
proof (induction ws arbitrary: st)
  case (Cons kw ws)
  from Cons.IH [OF correlate_window_status [OF Cons.prems] Cons.prems(2)] show ?case by simp
qed simp

lemma run_rules_status:
  "run_rules env events bl rules st = Inr st' \<Longrightarrow>
   \<forall>a \<in> set (alerts (rs_db st)). P (al_status a) \<Longrightarrow> P ''open'' \<Longrightarrow>
     \<forall>a \<in> set (alerts (rs_db st')). P (al_status a)"
proof (induction rules arbitrary: st)
  case (Cons rule rules)
  then obtain ws where
    "run_rules env events bl rules (fold (correlate_window env rule) ws st) = Inr st'"
    by (auto simp: bind_result_Inr_iff)
  with Cons.IH correlate_windows_status [OF Cons.prems(2,3)] Cons.prems(3) show ?case by blast
qed simp

lemma run_status:
  assumes "run env payload s = (out, s')" and "\<forall>a \<in> set (alerts s). P (al_status a)" and "P ''open''"
  shows "\<forall>a \<in> set (alerts s'). P (al_status a)"
proof (cases out)
  case (Inl e)
  with assms show ?thesis by (auto simp: run_def Let_def split: sum.splits)
next
  case (Inr r)
  with assms(1) obtain st where
    "run_rules env (selected_events payload s) (active_ips s) (selected_rules payload s)
       \<lparr>rs_db = s, rs_created = 0, rs_updated = 0, rs_skipped = 0\<rparr> = Inr st" "alerts s' = alerts (rs_db st)"
    using run_InrD by metis
  with run_rules_status [OF this(1), of P] assms(2,3) show ?thesis by simp
qed

text \<open>C11. A detection run keeps the alerts consistent and is repeatable. It keeps every alert with a
fingerprint of its own, linked once to each of its events and counting them, and it changes no
event, rule or blocklist entry. Run again with the same request on the state it left, it
succeeds, opens no alert and leaves the same fingerprints: nothing is reported twice.\<close>

theorem detection_run_consistent_and_repeatable:
  assumes "alerts_ok s" and "run env payload s = (Inr r, s')"
  shows "alerts_ok s' \<and> soc_events s' = soc_events s \<and> detection_rules s' = detection_rules s \<and>
    blocklist s' = blocklist s \<and>
    (\<exists>r2 s2. run env payload s' = (Inr r2, s2) \<and> alerts_created r2 = 0 \<and>
       map al_fingerprint (alerts s2) = map al_fingerprint (alerts s'))"
proof -
  obtain st where st: "run_rules env (selected_events payload s) (active_ips s) (selected_rules payload s)
       \<lparr>rs_db = s, rs_created = 0, rs_updated = 0, rs_skipped = 0\<rparr> = Inr st"
    and same: "alerts s' = alerts (rs_db st)" "alert_links s' = alert_links (rs_db st)"
      "soc_events s' = soc_events (rs_db st)" "detection_rules s' = detection_rules (rs_db st)"
      "blocklist s' = blocklist (rs_db st)"
    using run_InrD [OF assms(2)] by metis
  note ok = run_rules_ok [OF st]
  have ok': "alerts_ok s'" using ok assms(1) alerts_ok_cong [OF same(1,2)] by simp
  have inputs: "selected_events payload s' = selected_events payload s" "active_ips s' = active_ips s"
    "selected_rules payload s' = selected_rules payload s"
    using ok assms(1) same by (simp_all add: selected_events_def active_ips_def selected_rules_def)
  obtain st2 where st2: "run_rules env (selected_events payload s) (active_ips s) (selected_rules payload s)
       \<lparr>rs_db = s', rs_created = 0, rs_updated = 0, rs_skipped = 0\<rparr> = Inr st2"
    "fingerprints st2 = map al_fingerprint (alerts s')" "rs_created st2 = 0"
    using run_rules_known [of "\<lparr>rs_db = s', rs_created = 0, rs_updated = 0, rs_skipped = 0\<rparr>"
        "selected_rules payload s" env "selected_events payload s" "active_ips s"]
      ok ok' assms(1) same by auto
  have "\<exists>r2 s2. run env payload s' = (Inr r2, s2) \<and> alerts_created r2 = 0 \<and>
       map al_fingerprint (alerts s2) = map al_fingerprint (alerts s')"
    using st2 by (simp add: run_def inputs Let_def)
  with ok ok' assms(1) same show ?thesis by simp
qed

definition demo_env :: soc_env where
  "demo_env = \<lparr>sx_now = 0, sx_sha256_hex = (\<lambda>s. s), sx_fromisoformat = (\<lambda>_. None),
     sx_strptime_access = (\<lambda>_. None), sx_strptime_syslog = (\<lambda>_ _. None), sx_strptime_plain = (\<lambda>_. None),
     sx_float_value = (\<lambda>_. NaN)\<rparr>"

definition demo_soc_db :: soc_db where
  "demo_soc_db = empty_soc_db\<lparr>soc_events := [demo_event 7 0, demo_event 8 1000000],
     detection_rules := [demo_rule]\<rparr>"

definition demo_run_request :: DetectionRunRequest where
  "demo_run_request = \<lparr>dq_rule_ids = None, dq_source_id = None, dq_start_time = None, dq_end_time = None\<rparr>"

lemma demo_windows:
  "qualifying_windows (sx_float_value demo_env) demo_rule [demo_event 7 0, demo_event 8 1000000] [] =
     Inr [(''192.0.2.66'', [demo_event 7 0, demo_event 8 1000000])]"
  by code_simp

theorem detection_run_consistent_and_repeatable_witness:
  "\<exists>r s'. alerts_ok demo_soc_db \<and> run demo_env demo_run_request demo_soc_db = (Inr r, s') \<and>
     alerts_created r = 1 \<and> alerts_ok s' \<and>
     (\<exists>r2 s2. run demo_env demo_run_request s' = (Inr r2, s2) \<and> alerts_created r2 = 0)"
proof -
  have ok: "alerts_ok demo_soc_db"
    by (simp add: alerts_ok_def demo_soc_db_def empty_soc_db_def)
  have sel: "selected_events demo_run_request demo_soc_db = [demo_event 7 0, demo_event 8 1000000]"
    "selected_rules demo_run_request demo_soc_db = [demo_rule]" "active_ips demo_soc_db = []"
    by (simp_all add: selected_events_def selected_rules_def active_ips_def demo_run_request_def
        demo_soc_db_def empty_soc_db_def demo_event_def demo_rule_def)
  have none: "alerts demo_soc_db = []" by (simp add: demo_soc_db_def empty_soc_db_def)
  obtain r s' where r: "run demo_env demo_run_request demo_soc_db = (Inr r, s')" "alerts_created r = 1"
    by (simp add: run_def sel demo_windows Let_def correlate_window_def open_alert_def none)
  show ?thesis using ok r detection_run_consistent_and_repeatable [OF ok r(1)] by metis
qed

end
