(* ===== verification/Soc_Monitor.thy ===== *)
theory Soc_Monitor
  imports Soc_Correlation Net_Address Sql_Query
begin

text \<open>
  The endpoints of the SOC monitor over sources, rules, alerts, the simulated blocklist and
  enrichments (\<open>modules/soc_monitor/service.py\<close>, \<open>router.py\<close>, \<open>blocklist.py\<close>, \<open>enrichment.py\<close>,
  \<open>detection_rules.py\<close>) with the payloads of \<open>schemas.py\<close>. A field of a partial update is \<open>None\<close>
  when the request leaves it out and \<open>Some None\<close> when the request sends a null; writing a null
  into a column that does not admit it makes the commit raise, and the state is unchanged. The
  validity of a payload, which pydantic checks before an endpoint runs, is a predicate.
\<close>

section \<open>Payloads\<close>

definition SourceType :: "string list" where
  "SourceType = [''simulator'', ''jsonl'', ''csv'', ''access_log'', ''auth_log'', ''key_value'']"

definition Severity :: "string list" where
  "Severity = [''info'', ''low'', ''medium'', ''high'', ''critical'']"

definition Confidence :: "string list" where
  "Confidence = [''low'', ''medium'', ''high'']"

definition AlertStatus :: "string list" where
  "AlertStatus = [''open'', ''investigating'', ''contained'', ''resolved'', ''false_positive'']"

definition IndicatorType :: "string list" where
  "IndicatorType = [''ip'', ''domain'', ''username'']"

definition length_between :: "nat \<Rightarrow> nat \<Rightarrow> string \<Rightarrow> bool" where
  "length_between lo hi s \<longleftrightarrow> lo \<le> length s \<and> length s \<le> hi"

text \<open>A field that is left out or null, or satisfies its constraint.\<close>

definition optional_ok :: "('a \<Rightarrow> bool) \<Rightarrow> 'a option option \<Rightarrow> bool" where
  "optional_ok P v = (case v of Some (Some x) \<Rightarrow> P x | _ \<Rightarrow> True)"

record SourceCreate =
  sc_name :: string
  sc_description :: "string option"
  sc_source_type :: string
  sc_parser_type :: string
  sc_enabled :: bool

definition source_create_ok :: "SourceCreate \<Rightarrow> bool" where
  "source_create_ok p \<longleftrightarrow>
     length_between 2 160 (sc_name p) \<and>
     (case sc_description p of None \<Rightarrow> True | Some d \<Rightarrow> length d \<le> 2000) \<and>
     sc_source_type p \<in> set SourceType \<and> sc_parser_type p \<in> set SourceType"

record SourceUpdate =
  su_name :: "string option option"
  su_description :: "string option option"
  su_source_type :: "string option option"
  su_parser_type :: "string option option"
  su_enabled :: "bool option option"

definition APPROVED_GROUP_BY :: "string list" where
  "APPROVED_GROUP_BY = [''source_ip'', ''username'', ''event_type'', ''outcome'', ''status_code'', ''source_id'']"

definition allowed_condition_keys :: "string list" where
  "allowed_condition_keys =
     [''event_types'', ''outcomes'', ''status_codes'', ''path_contains'', ''distinct_field'', ''blocklist_match'']"

definition safe_conditions :: "(string \<times> pyvalue) list \<Rightarrow> bool" where
  "safe_conditions d \<longleftrightarrow>
     set (map fst d) \<subseteq> set allowed_condition_keys \<and> length (py_str (PDict d)) \<le> 8000"

definition code_char :: "char \<Rightarrow> bool" where
  "code_char c \<longleftrightarrow> is_upper c \<or> is_digit c \<or> c = CHR ''_'' \<or> c = CHR ''-''"

definition type_char :: "char \<Rightarrow> bool" where
  "type_char c \<longleftrightarrow> is_lower c \<or> is_digit c \<or> c = CHR ''_''"

record RuleCreate =
  rk_rule_code :: string
  rk_name :: string
  rk_description :: string
  rk_rule_type :: string
  rk_enabled :: bool
  rk_severity :: string
  rk_confidence :: string
  rk_window_seconds :: int
  rk_threshold :: nat
  rk_group_by :: string
  rk_conditions_json :: "(string \<times> pyvalue) list"
  rk_remediation :: string

definition rule_create_ok :: "RuleCreate \<Rightarrow> bool" where
  "rule_create_ok p \<longleftrightarrow>
     length_between 3 40 (rk_rule_code p) \<and> list_all code_char (rk_rule_code p) \<and>
     length_between 3 200 (rk_name p) \<and> length_between 3 4000 (rk_description p) \<and>
     length_between 3 80 (rk_rule_type p) \<and> list_all type_char (rk_rule_type p) \<and>
     rk_severity p \<in> set Severity \<and> rk_confidence p \<in> set Confidence \<and>
     10 \<le> rk_window_seconds p \<and> rk_window_seconds p \<le> 86400 \<and>
     0 < rk_threshold p \<and> rk_threshold p \<le> 10000 \<and>
     rk_group_by p \<in> set APPROVED_GROUP_BY \<and> safe_conditions (rk_conditions_json p) \<and>
     length_between 3 4000 (rk_remediation p)"

record RuleUpdate =
  ru_name :: "string option option"
  ru_description :: "string option option"
  ru_enabled :: "bool option option"
  ru_severity :: "string option option"
  ru_confidence :: "string option option"
  ru_window_seconds :: "int option option"
  ru_threshold :: "nat option option"
  ru_group_by :: "string option option"
  ru_conditions_json :: "(string \<times> pyvalue) list option option"
  ru_remediation :: "string option option"

definition rule_update_ok :: "RuleUpdate \<Rightarrow> bool" where
  "rule_update_ok p \<longleftrightarrow>
     optional_ok (length_between 3 200) (ru_name p) \<and>
     optional_ok (length_between 3 4000) (ru_description p) \<and>
     optional_ok (\<lambda>s. s \<in> set Severity) (ru_severity p) \<and>
     optional_ok (\<lambda>c. c \<in> set Confidence) (ru_confidence p) \<and>
     optional_ok (\<lambda>w. 10 \<le> w \<and> w \<le> 86400) (ru_window_seconds p) \<and>
     optional_ok (\<lambda>t. 0 < t \<and> t \<le> 10000) (ru_threshold p) \<and>
     optional_ok (\<lambda>g. g \<in> set APPROVED_GROUP_BY) (ru_group_by p) \<and>
     optional_ok safe_conditions (ru_conditions_json p) \<and>
     optional_ok (length_between 3 4000) (ru_remediation p)"

record AlertUpdate =
  au_status :: "string option"
  au_analyst_notes :: "string option"

definition alert_update_ok :: "AlertUpdate \<Rightarrow> bool" where
  "alert_update_ok p \<longleftrightarrow>
     (case au_status p of None \<Rightarrow> True | Some st \<Rightarrow> st \<in> set AlertStatus) \<and>
     (case au_analyst_notes p of None \<Rightarrow> True | Some n \<Rightarrow> length n \<le> 8000)"

record EnrichmentRequest =
  en_alert_id :: "nat option"
  en_indicator_type :: string
  en_indicator_value :: string

record BlocklistCreate =
  bc_indicator_type :: string
  bc_indicator_value :: string
  bc_reason :: string
  bc_source_alert_id :: "nat option"
  bc_expires_at :: "time option"

definition blocklist_create_ok :: "BlocklistCreate \<Rightarrow> bool" where
  "blocklist_create_ok p \<longleftrightarrow>
     bc_indicator_type p \<in> set IndicatorType \<and> length_between 1 500 (bc_indicator_value p) \<and>
     length_between 3 2000 (bc_reason p)"

record BlocklistUpdate =
  bu_reason :: "string option option"
  bu_status :: "string option option"
  bu_expires_at :: "time option option"


section \<open>Partial updates\<close>

text \<open>\<open>setattr(row, key, value)\<close> for the keys the request set; the commit rejects a null.\<close>

definition patched :: "'a option option \<Rightarrow> 'a \<Rightarrow> 'a result" where
  "patched change old =
     (case change of None \<Rightarrow> Inr old | Some (Some v) \<Rightarrow> Inr v | Some None \<Rightarrow> Inl IntegrityError)"

definition patched_null :: "'a option option \<Rightarrow> 'a option \<Rightarrow> 'a option" where
  "patched_null change old = (case change of None \<Rightarrow> old | Some v \<Rightarrow> v)"

lemma patched_InrD:
  "patched change old = Inr v \<Longrightarrow> optional_ok P change \<Longrightarrow> P old \<Longrightarrow> P v"
  by (auto simp: patched_def optional_ok_def split: option.splits)


section \<open>Sources\<close>

definition SOURCE_PARSER_COMPATIBILITY :: "(string \<times> string list) list" where
  "SOURCE_PARSER_COMPATIBILITY =
     [(''simulator'', [''simulator'']), (''jsonl'', [''jsonl'']), (''csv'', [''csv'']),
      (''access_log'', [''access_log'']), (''auth_log'', [''auth_log'']), (''key_value'', [''key_value''])]"

definition validate_source_pair :: "string option \<Rightarrow> string option \<Rightarrow> unit result" where
  "validate_source_pair source_type parser_type =
     (let parsers = (case source_type of
                       None \<Rightarrow> []
                     | Some t \<Rightarrow> (case map_of SOURCE_PARSER_COMPATIBILITY t of None \<Rightarrow> [] | Some ps \<Rightarrow> ps))
      in if (case parser_type of None \<Rightarrow> False | Some p \<Rightarrow> p \<in> set parsers) then Inr ()
         else Inl (HTTPException 422 ''Parser type is incompatible with this source type''))"

definition get_source :: "soc_db \<Rightarrow> nat \<Rightarrow> soc_log_source result" where
  "get_source s source_id =
     (case find_row sl_id source_id (log_sources s) of
        None \<Rightarrow> Inl (HTTPException 404 ''SOC log source not found'')
      | Some source \<Rightarrow> Inr source)"

definition create_source :: "soc_env \<Rightarrow> SourceCreate \<Rightarrow> (soc_db, soc_log_source) action" where
  "create_source env payload s =
     (case validate_source_pair (Some (sc_source_type payload)) (Some (sc_parser_type payload)) of
        Inl e \<Rightarrow> (Inl e, s)
      | Inr _ \<Rightarrow>
          (let source = \<lparr>sl_id = next_id sl_id (log_sources s), sl_name = sc_name payload,
                         sl_description = sc_description payload,
                         sl_source_type = sc_source_type payload, sl_parser_type = sc_parser_type payload,
                         sl_enabled = sc_enabled payload, sl_event_count = 0, sl_last_ingested_at = None,
                         sl_created_at = sx_now env, sl_updated_at = sx_now env\<rparr>
           in (Inr source,
               soc_add_activity env ''source_created'' (''Log source '' @ sl_name source @ '' created.'')
                 ''soc_source'' (Some (sl_id source))
                 (s\<lparr>log_sources := insert_row sl_id set_sl_id source (log_sources s)\<rparr>))))"

definition patched_source :: "soc_env \<Rightarrow> SourceUpdate \<Rightarrow> soc_log_source \<Rightarrow> soc_log_source result" where
  "patched_source env payload source =
     bind_result (patched (su_name payload) (sl_name source)) (\<lambda>name.
     bind_result (patched (su_source_type payload) (sl_source_type source)) (\<lambda>source_type.
     bind_result (patched (su_parser_type payload) (sl_parser_type source)) (\<lambda>parser_type.
     bind_result (patched (su_enabled payload) (sl_enabled source)) (\<lambda>enabled.
       Inr (source\<lparr>sl_name := name,
                   sl_description := patched_null (su_description payload) (sl_description source),
                   sl_source_type := source_type, sl_parser_type := parser_type,
                   sl_enabled := enabled, sl_updated_at := sx_now env\<rparr>)))))"

definition update_source :: "soc_env \<Rightarrow> nat \<Rightarrow> SourceUpdate \<Rightarrow> (soc_db, soc_log_source) action" where
  "update_source env source_id payload s =
     (case get_source s source_id of
        Inl e \<Rightarrow> (Inl e, s)
      | Inr source \<Rightarrow>
          (case validate_source_pair (patched_null (su_source_type payload) (Some (sl_source_type source)))
                  (patched_null (su_parser_type payload) (Some (sl_parser_type source))) of
             Inl e \<Rightarrow> (Inl e, s)
           | Inr _ \<Rightarrow>
               (case patched_source env payload source of
                  Inl e \<Rightarrow> (Inl e, s)
                | Inr row \<Rightarrow> (Inr row, s\<lparr>log_sources := upd_row sl_id source_id (\<lambda>_. row) (log_sources s)\<rparr>))))"

definition delete_source :: "nat \<Rightarrow> (soc_db, unit) action" where
  "delete_source source_id s =
     (case get_source s source_id of
        Inl e \<Rightarrow> (Inl e, s)
      | Inr _ \<Rightarrow>
          if count_where (\<lambda>e. ev_source_id e = source_id) (soc_events s) \<noteq> 0 \<or>
             count_where (\<lambda>i. li_source_id i = source_id) (log_imports s) \<noteq> 0
          then (Inl (HTTPException 409 ''Source has related imports or events and cannot be deleted''), s)
          else (Inr (), s\<lparr>log_sources := filter (\<lambda>r. sl_id r \<noteq> source_id) (log_sources s)\<rparr>))"


section \<open>Rules\<close>

definition rule_or_404 :: "soc_db \<Rightarrow> nat \<Rightarrow> soc_detection_rule result" where
  "rule_or_404 s rule_id =
     (case find_row dr_id rule_id (detection_rules s) of
        None \<Rightarrow> Inl (HTTPException 404 ''SOC detection rule not found'')
      | Some rule \<Rightarrow> Inr rule)"

definition new_rule :: "soc_env \<Rightarrow> RuleCreate \<Rightarrow> nat \<Rightarrow> soc_detection_rule" where
  "new_rule env payload i =
     \<lparr>dr_id = i, dr_rule_code = rk_rule_code payload, dr_name = rk_name payload,
      dr_description = rk_description payload, dr_rule_type = rk_rule_type payload,
      dr_enabled = rk_enabled payload, dr_severity = rk_severity payload,
      dr_confidence = rk_confidence payload, dr_window_seconds = rk_window_seconds payload,
      dr_threshold = rk_threshold payload, dr_group_by = rk_group_by payload,
      dr_conditions_json = PDict (rk_conditions_json payload), dr_remediation = rk_remediation payload,
      dr_is_default = False, dr_created_at = sx_now env, dr_updated_at = sx_now env\<rparr>"

definition create_rule :: "soc_env \<Rightarrow> RuleCreate \<Rightarrow> (soc_db, soc_detection_rule) action" where
  "create_rule env payload s =
     (if rk_rule_code payload \<in> dr_rule_code ` set (detection_rules s)
      then (Inl (HTTPException 409 ''Rule code already exists''), s)
      else let rule = new_rule env payload (next_id dr_id (detection_rules s))
           in (Inr rule, s\<lparr>detection_rules := insert_row dr_id set_dr_id rule (detection_rules s)\<rparr>))"

definition patched_rule :: "soc_env \<Rightarrow> RuleUpdate \<Rightarrow> soc_detection_rule \<Rightarrow> soc_detection_rule result" where
  "patched_rule env payload rule =
     bind_result (patched (ru_name payload) (dr_name rule)) (\<lambda>name.
     bind_result (patched (ru_description payload) (dr_description rule)) (\<lambda>description.
     bind_result (patched (ru_enabled payload) (dr_enabled rule)) (\<lambda>enabled.
     bind_result (patched (ru_severity payload) (dr_severity rule)) (\<lambda>severity.
     bind_result (patched (ru_confidence payload) (dr_confidence rule)) (\<lambda>confidence.
     bind_result (patched (ru_window_seconds payload) (dr_window_seconds rule)) (\<lambda>window_seconds.
     bind_result (patched (ru_threshold payload) (dr_threshold rule)) (\<lambda>threshold.
     bind_result (patched (ru_group_by payload) (dr_group_by rule)) (\<lambda>group_by.
     bind_result (patched (ru_remediation payload) (dr_remediation rule)) (\<lambda>remediation.
       Inr (rule\<lparr>dr_name := name, dr_description := description, dr_enabled := enabled,
                 dr_severity := severity, dr_confidence := confidence,
                 dr_window_seconds := window_seconds, dr_threshold := threshold, dr_group_by := group_by,
                 dr_conditions_json := (case ru_conditions_json payload of
                                          None \<Rightarrow> dr_conditions_json rule
                                        | Some None \<Rightarrow> PNone
                                        | Some (Some d) \<Rightarrow> PDict d),
                 dr_remediation := remediation, dr_updated_at := sx_now env\<rparr>))))))))))"

definition update_rule :: "soc_env \<Rightarrow> nat \<Rightarrow> RuleUpdate \<Rightarrow> (soc_db, soc_detection_rule) action" where
  "update_rule env rule_id payload s =
     (case rule_or_404 s rule_id of
        Inl e \<Rightarrow> (Inl e, s)
      | Inr rule \<Rightarrow>
          (case patched_rule env payload rule of
             Inl e \<Rightarrow> (Inl e, s)
           | Inr row \<Rightarrow> (Inr row, s\<lparr>detection_rules := upd_row dr_id rule_id (\<lambda>_. row) (detection_rules s)\<rparr>)))"

definition delete_rule :: "nat \<Rightarrow> (soc_db, unit) action" where
  "delete_rule rule_id s =
     (case rule_or_404 s rule_id of
        Inl e \<Rightarrow> (Inl e, s)
      | Inr rule \<Rightarrow>
          if dr_is_default rule then (Inl (HTTPException 409 ''Default rules cannot be deleted''), s)
          else if list_ex (\<lambda>a. al_rule_id a = rule_id) (alerts s)
          then (Inl (HTTPException 409 ''Rule has related alerts and cannot be deleted''), s)
          else (Inr (), s\<lparr>detection_rules := filter (\<lambda>r. dr_id r \<noteq> rule_id) (detection_rules s)\<rparr>))"

text \<open>The rules of the catalogue file that are missing are added, enabled and as defaults.\<close>

definition seed_rule :: "soc_env \<Rightarrow> RuleCreate \<Rightarrow> soc_db \<Rightarrow> soc_db" where
  "seed_rule env item s =
     (if rk_rule_code item \<in> dr_rule_code ` set (detection_rules s) then s
      else s\<lparr>detection_rules := insert_row dr_id set_dr_id
               ((new_rule env item 0)\<lparr>dr_enabled := True, dr_is_default := True\<rparr>) (detection_rules s)\<rparr>)"

definition seed_default_rules :: "soc_env \<Rightarrow> RuleCreate list \<Rightarrow> soc_db \<Rightarrow> soc_db" where
  "seed_default_rules env catalogue s = fold (seed_rule env) catalogue s"

definition list_rules :: "soc_env \<Rightarrow> RuleCreate list \<Rightarrow> (soc_db, soc_detection_rule list) action" where
  "list_rules env catalogue s =
     (let s1 = seed_default_rules env catalogue s
      in (Inr (sort_key dr_rule_code (detection_rules s1)), s1))"

definition run_detections ::
  "soc_env \<Rightarrow> RuleCreate list \<Rightarrow> DetectionRunRequest \<Rightarrow> (soc_db, DetectionRunResult) action" where
  "run_detections env catalogue payload s = run env payload (seed_default_rules env catalogue s)"


section \<open>Reading imports, events and alerts\<close>

definition list_sources :: "soc_db \<Rightarrow> soc_log_source list" where
  "list_sources s = sort_key (\<lambda>r. - sl_created_at r) (log_sources s)"

definition list_imports :: "nat option \<Rightarrow> soc_db \<Rightarrow> soc_log_import list" where
  "list_imports source_id s =
     sort_key (\<lambda>r. - li_created_at r)
       (filter (\<lambda>i. case source_id of None \<Rightarrow> True | Some k \<Rightarrow> k = 0 \<or> li_source_id i = k) (log_imports s))"

definition get_import :: "soc_db \<Rightarrow> nat \<Rightarrow> soc_log_import result" where
  "get_import s import_id =
     (case find_row li_id import_id (log_imports s) of
        None \<Rightarrow> Inl (HTTPException 404 ''SOC log import not found'')
      | Some item \<Rightarrow> Inr item)"

definition get_event :: "soc_db \<Rightarrow> nat \<Rightarrow> soc_event result" where
  "get_event s event_id =
     (case find_row ev_id event_id (soc_events s) of
        None \<Rightarrow> Inl (HTTPException 404 ''SOC event not found'')
      | Some item \<Rightarrow> Inr item)"

record event_query =
  eq_source_id :: "nat option"
  eq_event_type :: "string option"
  eq_severity :: "string option"
  eq_source_ip :: "string option"
  eq_username :: "string option"
  eq_outcome :: "string option"
  eq_status_code :: "int option"
  eq_start_time :: "time option"
  eq_end_time :: "time option"
  eq_q :: "string option"

definition event_selected :: "event_query \<Rightarrow> soc_event \<Rightarrow> bool" where
  "event_selected p e \<longleftrightarrow>
     when_some (eq_source_id p) (\<lambda>v. ev_source_id e = v) \<and>
     when_some (eq_event_type p) (\<lambda>v. ev_event_type e = v) \<and>
     when_some (eq_severity p) (\<lambda>v. ev_severity e = v) \<and>
     when_some (eq_source_ip p) (\<lambda>v. ev_source_ip e = Some v) \<and>
     when_some (eq_username p) (\<lambda>v. ev_username e = Some v) \<and>
     when_some (eq_outcome p) (\<lambda>v. ev_outcome e = Some v) \<and>
     when_some (eq_status_code p) (\<lambda>v. ev_status_code e = Some v) \<and>
     when_some (eq_start_time p) (\<lambda>t. ev_event_time e \<ge> t) \<and>
     when_some (eq_end_time p) (\<lambda>t. ev_event_time e \<le> t) \<and>
     when_truthy (eq_q p) (\<lambda>q.
       ilike (containing q) (ev_message e) \<or> ilike (containing q) (ev_raw_preview_redacted e) \<or>
       ilike (containing q) (ev_request_path e) \<or> ilike (containing q) (ev_username e) \<or>
       ilike (containing q) (ev_source_ip e))"

text \<open>Newest first; among equal times the largest key first.\<close>

definition list_events :: "nat \<Rightarrow> nat \<Rightarrow> event_query \<Rightarrow> soc_db \<Rightarrow> soc_event list \<times> nat" where
  "list_events page page_size p s =
     (let rows = filter (event_selected p) (soc_events s)
      in (page_of ((page - 1) * page_size) page_size
            (sort_key (\<lambda>e. - ev_event_time e) (sort_key (\<lambda>e. - int (ev_id e)) rows)), length rows))"

record alert_query =
  aq_status :: "string option"
  aq_severity :: "string option"
  aq_confidence :: "string option"
  aq_rule_id :: "nat option"
  aq_source_ip :: "string option"
  aq_username :: "string option"
  aq_start_time :: "time option"
  aq_end_time :: "time option"

definition alert_selected :: "alert_query \<Rightarrow> soc_alert \<Rightarrow> bool" where
  "alert_selected p a \<longleftrightarrow>
     when_some (aq_status p) (\<lambda>v. al_status a = v) \<and>
     when_some (aq_severity p) (\<lambda>v. al_severity a = v) \<and>
     when_some (aq_confidence p) (\<lambda>v. al_confidence a = v) \<and>
     when_some (aq_rule_id p) (\<lambda>v. al_rule_id a = v) \<and>
     when_some (aq_source_ip p) (\<lambda>v. al_source_ip a = Some v) \<and>
     when_some (aq_username p) (\<lambda>v. al_username a = Some v) \<and>
     when_some (aq_start_time p) (\<lambda>t. al_last_seen a \<ge> t) \<and>
     when_some (aq_end_time p) (\<lambda>t. al_first_seen a \<le> t)"

definition list_alerts :: "nat \<Rightarrow> nat \<Rightarrow> alert_query \<Rightarrow> soc_db \<Rightarrow> soc_alert list \<times> nat" where
  "list_alerts page page_size p s =
     (let rows = filter (alert_selected p) (alerts s)
      in (page_of ((page - 1) * page_size) page_size (sort_key (\<lambda>a. - al_last_seen a) rows), length rows))"

definition alert_or_404 :: "soc_db \<Rightarrow> nat \<Rightarrow> soc_alert result" where
  "alert_or_404 s alert_id =
     (case find_row al_id alert_id (alerts s) of
        None \<Rightarrow> Inl (HTTPException 404 ''SOC alert not found'')
      | Some alert \<Rightarrow> Inr alert)"

record alert_detail =
  ad_alert :: soc_alert
  ad_events :: "soc_event list"
  ad_enrichments :: "soc_threat_intel_result list"
  ad_blocklist_entries :: "soc_blocklist_entry list"

definition get_alert :: "soc_db \<Rightarrow> nat \<Rightarrow> alert_detail result" where
  "get_alert s alert_id =
     bind_result (alert_or_404 s alert_id) (\<lambda>alert. Inr
       \<lparr>ad_alert = alert,
        ad_events = sort_key ev_event_time
          (concat (map (\<lambda>i. case find_row ev_id i (soc_events s) of None \<Rightarrow> [] | Some e \<Rightarrow> [e])
            (link_ids s alert_id))),
        ad_enrichments = filter (\<lambda>r. tr_alert_id r = Some alert_id) (enrichments s),
        ad_blocklist_entries = filter (\<lambda>r. bl_source_alert_id r = Some alert_id) (blocklist s)\<rparr>)"


section \<open>The life of an alert\<close>

definition alert_transitions :: "(string \<times> string list) list" where
  "alert_transitions =
     [(''open'', [''investigating'', ''false_positive'']),
      (''investigating'', [''contained'', ''resolved'', ''false_positive'', ''open'']),
      (''contained'', [''resolved'', ''investigating'']),
      (''resolved'', [''investigating'']),
      (''false_positive'', [''investigating''])]"

definition update_alert :: "soc_env \<Rightarrow> nat \<Rightarrow> AlertUpdate \<Rightarrow> (soc_db, soc_alert) action" where
  "update_alert env alert_id payload s =
     (case alert_or_404 s alert_id of
        Inl e \<Rightarrow> (Inl e, s)
      | Inr alert \<Rightarrow>
          (let refused =
             (if truthy (au_status payload) \<and> au_status payload \<noteq> Some (al_status alert)
              then (case map_of alert_transitions (al_status alert) of
                      None \<Rightarrow> Some (KeyError (al_status alert))
                    | Some allowed \<Rightarrow>
                        if the (au_status payload) \<notin> set allowed
                        then Some (HTTPException 422 ''Invalid alert status transition'') else None)
              else None)
           in case refused of
                Some e \<Rightarrow> (Inl e, s)
              | None \<Rightarrow>
                  (let row = alert\<lparr>al_status := (if truthy (au_status payload) then the (au_status payload)
                                                 else al_status alert),
                                   al_analyst_notes := (case au_analyst_notes payload of
                                                          None \<Rightarrow> al_analyst_notes alert
                                                        | Some notes \<Rightarrow> Some (redact_text notes (Some 8000))),
                                   al_updated_at := sx_now env\<rparr>
                   in (Inr row,
                       soc_add_activity env ''alert_status_changed''
                         (''Alert '' @ str_nat alert_id @ '' updated to '' @ al_status row @ ''.'')
                         ''soc_alert'' (Some alert_id)
                         (s\<lparr>alerts := upd_row al_id alert_id (\<lambda>_. row) (alerts s)\<rparr>)))))"


section \<open>Indicators, enrichment and the simulated blocklist\<close>

definition domain_part_ok :: "string \<Rightarrow> bool" where
  "domain_part_ok part \<longleftrightarrow> part \<noteq> [] \<and>
     (let text = filter (\<lambda>c. c \<noteq> CHR ''-'') part in text \<noteq> [] \<and> list_all is_alnum text)"

definition rstrip_dots :: "string \<Rightarrow> string" where
  "rstrip_dots s = rev (dropWhile (\<lambda>c. c = CHR ''.'') (rev s))"

definition validate_indicator :: "string \<Rightarrow> string \<Rightarrow> string result" where
  "validate_indicator indicator_type raw =
     (let value = strip raw in
      if indicator_type = ''ip'' then
        (if ip_address value then Inr value else Inl (HTTPException 422 ''Invalid IP indicator''))
      else if indicator_type = ''domain'' then
        (if length value > 253 \<or>
            \<not> list_all domain_part_ok (split_on CHR ''.'' (rstrip_dots (casefold value)))
         then Inl (HTTPException 422 ''Invalid domain indicator'') else Inr value)
      else if indicator_type = ''username'' then
        (if value = [] \<or> list_ex (\<lambda>c. c = CHR 0x0D \<or> c = CHR 0x0A \<or> c = CHR 0x00) value
         then Inl (HTTPException 422 ''Invalid username indicator'') else Inr value)
      else Inr value)"

definition known_alert :: "soc_db \<Rightarrow> nat option \<Rightarrow> bool" where
  "known_alert s alert_id =
     (case alert_id of None \<Rightarrow> True | Some i \<Rightarrow> i = 0 \<or> find_row al_id i (alerts s) \<noteq> None)"

record catalogue_entry =
  ce_reputation :: string
  ce_confidence :: string
  ce_tags :: "string list"
  ce_explanation :: string

definition enrich ::
  "soc_env \<Rightarrow> (string \<times> catalogue_entry) list \<Rightarrow> EnrichmentRequest \<Rightarrow> (soc_db, soc_threat_intel_result) action" where
  "enrich env catalogue payload s =
     (case validate_indicator (en_indicator_type payload) (en_indicator_value payload) of
        Inl e \<Rightarrow> (Inl e, s)
      | Inr value \<Rightarrow>
          if \<not> known_alert s (en_alert_id payload) then (Inl (HTTPException 404 ''SOC alert not found''), s)
          else (let entry = (case map_of catalogue (en_indicator_type payload @ '':'' @ value) of
                               Some e \<Rightarrow> e
                             | None \<Rightarrow> \<lparr>ce_reputation = ''unknown'', ce_confidence = ''low'', ce_tags = [],
                                        ce_explanation = ''No match in local mock intelligence.''\<rparr>);
                    row = \<lparr>tr_id = next_id tr_id (enrichments s), tr_alert_id = en_alert_id payload,
                           tr_indicator_type = en_indicator_type payload, tr_indicator_value = value,
                           tr_reputation = ce_reputation entry, tr_confidence = ce_confidence entry,
                           tr_tags_json = ce_tags entry, tr_source_name = ''local_mock_intelligence'',
                           tr_explanation = ce_explanation entry, tr_created_at = sx_now env\<rparr>
                in (Inr row,
                    soc_notify env ''Local SOC Enrichment Completed''
                      ''This enrichment uses local demonstration intelligence and is not live reputation data.''
                      ''info'' ''soc_alert'' (en_alert_id payload)
                      (soc_add_activity env ''local_enrichment_completed''
                        (''Local mock enrichment completed for '' @ en_indicator_type payload @ '' indicator.'')
                        ''soc_enrichment'' (Some (tr_id row))
                        (s\<lparr>enrichments := insert_row tr_id set_tr_id row (enrichments s)\<rparr>)))))"

definition BLOCKLIST_DISCLAIMER :: string where
  "BLOCKLIST_DISCLAIMER =
     ''Local simulation only '' @ [CHR 0x97] @ '' this does not modify any real firewall or network control.''"

definition create_blocklist :: "soc_env \<Rightarrow> BlocklistCreate \<Rightarrow> (soc_db, soc_blocklist_entry) action" where
  "create_blocklist env payload s =
     (case validate_indicator (bc_indicator_type payload) (bc_indicator_value payload) of
        Inl e \<Rightarrow> (Inl e, s)
      | Inr value \<Rightarrow>
          if \<not> known_alert s (bc_source_alert_id payload)
          then (Inl (HTTPException 404 ''SOC alert not found''), s)
          else (let existing = find (\<lambda>r. bl_indicator_type r = bc_indicator_type payload \<and>
                                         bl_indicator_value r = value) (blocklist s);
                    (entry, s1) =
                      (case existing of
                         Some old \<Rightarrow>
                           (let row = old\<lparr>bl_reason := bc_reason payload,
                                          bl_source_alert_id := bc_source_alert_id payload,
                                          bl_expires_at := bc_expires_at payload, bl_status := ''active'',
                                          bl_updated_at := sx_now env\<rparr>
                            in (row, s\<lparr>blocklist := upd_row bl_id (bl_id old) (\<lambda>_. row) (blocklist s)\<rparr>))
                       | None \<Rightarrow>
                           (let row = \<lparr>bl_id = next_id bl_id (blocklist s),
                                       bl_indicator_type = bc_indicator_type payload,
                                       bl_indicator_value = value, bl_reason = bc_reason payload,
                                       bl_source_alert_id = bc_source_alert_id payload,
                                       bl_status = ''active'', bl_expires_at = bc_expires_at payload,
                                       bl_created_at = sx_now env, bl_updated_at = sx_now env\<rparr>
                            in (row, s\<lparr>blocklist := insert_row bl_id set_bl_id row (blocklist s)\<rparr>)))
                in (Inr entry,
                    soc_notify env ''Simulated Blocklist Updated'' BLOCKLIST_DISCLAIMER ''warning''
                      ''soc_blocklist'' (Some (bl_id entry))
                      (soc_add_activity env ''simulated_blocklist_updated''
                        (bc_indicator_type payload @ '' indicator added to the local simulated blocklist.'')
                        ''soc_blocklist'' (Some (bl_id entry)) s1))))"

definition blocklist_entry_or_404 :: "soc_db \<Rightarrow> nat \<Rightarrow> soc_blocklist_entry result" where
  "blocklist_entry_or_404 s entry_id =
     (case find_row bl_id entry_id (blocklist s) of
        None \<Rightarrow> Inl (HTTPException 404 ''Blocklist entry not found'')
      | Some entry \<Rightarrow> Inr entry)"

definition update_blocklist :: "soc_env \<Rightarrow> nat \<Rightarrow> BlocklistUpdate \<Rightarrow> (soc_db, soc_blocklist_entry) action" where
  "update_blocklist env entry_id payload s =
     (case blocklist_entry_or_404 s entry_id of
        Inl e \<Rightarrow> (Inl e, s)
      | Inr entry \<Rightarrow>
          (case bind_result (patched (bu_reason payload) (bl_reason entry)) (\<lambda>reason.
                bind_result (patched (bu_status payload) (bl_status entry)) (\<lambda>status.
                  Inr (entry\<lparr>bl_reason := reason, bl_status := status,
                             bl_expires_at := patched_null (bu_expires_at payload) (bl_expires_at entry),
                             bl_updated_at := sx_now env\<rparr>))) of
             Inl e \<Rightarrow> (Inl e, s)
           | Inr row \<Rightarrow>
               (Inr row,
                soc_add_activity env ''simulated_blocklist_updated''
                  (''Simulated blocklist entry marked '' @ bl_status row @ ''.'') ''soc_blocklist'' (Some entry_id)
                  (s\<lparr>blocklist := upd_row bl_id entry_id (\<lambda>_. row) (blocklist s)\<rparr>))))"

definition delete_blocklist :: "soc_env \<Rightarrow> nat \<Rightarrow> (soc_db, unit) action" where
  "delete_blocklist env entry_id s =
     (case blocklist_entry_or_404 s entry_id of
        Inl e \<Rightarrow> (Inl e, s)
      | Inr entry \<Rightarrow>
          (Inr (),
           soc_add_activity env ''simulated_blocklist_updated'' ''Simulated blocklist entry removed.''
             ''soc_blocklist'' (Some entry_id)
             (s\<lparr>blocklist := upd_row bl_id entry_id
                  (\<lambda>r. r\<lparr>bl_status := ''removed'', bl_updated_at := sx_now env\<rparr>) (blocklist s)\<rparr>)))"

definition list_blocklist :: "soc_db \<Rightarrow> soc_blocklist_entry list" where
  "list_blocklist s = sort_key (\<lambda>r. - bl_created_at r) (blocklist s)"


section \<open>The requests of the module\<close>

datatype soc_request =
    CreateSource SourceCreate
  | UpdateSource nat SourceUpdate
  | DeleteSource nat
  | CreateRule RuleCreate
  | UpdateRule nat RuleUpdate
  | DeleteRule nat
  | ListRules
  | RunDetections DetectionRunRequest
  | UpdateAlert nat AlertUpdate
  | Enrich EnrichmentRequest
  | CreateBlocklist BlocklistCreate
  | UpdateBlocklist nat BlocklistUpdate
  | DeleteBlocklist nat

text \<open>A request with the moment it arrives at and the catalogues the server has loaded.\<close>

record soc_call =
  sq_env :: soc_env
  sq_rules :: "RuleCreate list"
  sq_intelligence :: "(string \<times> catalogue_entry) list"
  sq_request :: soc_request

definition serve_soc :: "soc_call \<Rightarrow> soc_db \<Rightarrow> soc_db" where
  "serve_soc call s =
     (let env = sq_env call in
      case sq_request call of
        CreateSource p \<Rightarrow> snd (create_source env p s)
      | UpdateSource i p \<Rightarrow> snd (update_source env i p s)
      | DeleteSource i \<Rightarrow> snd (delete_source i s)
      | CreateRule p \<Rightarrow> snd (create_rule env p s)
      | UpdateRule i p \<Rightarrow> snd (update_rule env i p s)
      | DeleteRule i \<Rightarrow> snd (delete_rule i s)
      | ListRules \<Rightarrow> snd (list_rules env (sq_rules call) s)
      | RunDetections p \<Rightarrow> snd (run_detections env (sq_rules call) p s)
      | UpdateAlert i p \<Rightarrow> snd (update_alert env i p s)
      | Enrich p \<Rightarrow> snd (enrich env (sq_intelligence call) p s)
      | CreateBlocklist p \<Rightarrow> snd (create_blocklist env p s)
      | UpdateBlocklist i p \<Rightarrow> snd (update_blocklist env i p s)
      | DeleteBlocklist i \<Rightarrow> snd (delete_blocklist env i s))"

definition call_valid :: "soc_call \<Rightarrow> bool" where
  "call_valid call \<longleftrightarrow>
     list_all rule_create_ok (sq_rules call) \<and>
     (case sq_request call of
        CreateRule p \<Rightarrow> rule_create_ok p
      | UpdateRule i p \<Rightarrow> rule_update_ok p
      | UpdateAlert i p \<Rightarrow> alert_update_ok p
      | _ \<Rightarrow> True)"


section \<open>Well-formed states\<close>

definition rule_ok :: "soc_detection_rule \<Rightarrow> bool" where
  "rule_ok rule \<longleftrightarrow>
     10 \<le> dr_window_seconds rule \<and> dr_window_seconds rule \<le> 86400 \<and>
     0 < dr_threshold rule \<and> dr_threshold rule \<le> 10000 \<and>
     dr_severity rule \<in> set Severity \<and> dr_confidence rule \<in> set Confidence \<and>
     dr_group_by rule \<in> set APPROVED_GROUP_BY"

definition rules_ok :: "soc_detection_rule list \<Rightarrow> bool" where
  "rules_ok rules \<longleftrightarrow>
     distinct (map dr_id rules) \<and> distinct (map dr_rule_code rules) \<and> list_all rule_ok rules"

definition blocklist_ok :: "soc_blocklist_entry list \<Rightarrow> bool" where
  "blocklist_ok rows \<longleftrightarrow>
     distinct (map bl_id rows) \<and> distinct (map (\<lambda>r. (bl_indicator_type r, bl_indicator_value r)) rows)"

definition soc_ok :: "soc_db \<Rightarrow> bool" where
  "soc_ok s \<longleftrightarrow>
     rules_ok (detection_rules s) \<and> alerts_ok s \<and>
     (\<forall>a \<in> set (alerts s). al_status a \<in> set AlertStatus) \<and> blocklist_ok (blocklist s)"

text \<open>Replacing the row found under a key by one that agrees with it.\<close>

lemma map_replace:
  assumes "find_row rid i rows = Some old" and "distinct (map rid rows)" and "g row = g old"
  shows "map g (upd_row rid i (\<lambda>_. row) rows) = map g rows"
proof -
  have "g (if rid r = i then row else r) = g r" if "r \<in> set rows" for r
    using find_row_unique [OF assms(2) that] assms(1,3) by auto
  then show ?thesis by (simp add: upd_row_def)
qed

lemma set_replace: "set (upd_row rid i (\<lambda>_. row) rows) \<subseteq> insert row (set rows)"
  by (auto simp: upd_row_def)

lemma rules_ok_insert:
  "rules_ok rules \<Longrightarrow> rule_ok rule \<Longrightarrow> dr_rule_code rule \<notin> dr_rule_code ` set rules \<Longrightarrow>
     rules_ok (insert_row dr_id set_dr_id rule rules)"
  using rule_table.distinct_insert [of rules rule]
  by (auto simp: rules_ok_def insert_row_def set_dr_id_def rule_ok_def)

lemma new_rule_ok: "rule_create_ok p \<Longrightarrow> rule_ok (new_rule env p i)"
  by (simp add: rule_create_ok_def rule_ok_def new_rule_def)

lemma rule_ok_defaults [simp]: "rule_ok (r\<lparr>dr_enabled := e, dr_is_default := d\<rparr>) = rule_ok r"
  by (simp add: rule_ok_def)

lemma new_rule_code [simp]: "dr_rule_code (new_rule env p i) = rk_rule_code p"
  by (simp add: new_rule_def)

lemma seed_rule_ok:
  assumes "rules_ok (detection_rules s)" and "rule_create_ok item"
  shows "rules_ok (detection_rules (seed_rule env item s))"
  using assms new_rule_ok [of item env 0] by (simp add: seed_rule_def rules_ok_insert)

lemma seed_rule_frame [simp]:
  "alerts (seed_rule env item s) = alerts s" "alert_links (seed_rule env item s) = alert_links s"
  "blocklist (seed_rule env item s) = blocklist s"
  by (simp_all add: seed_rule_def)

lemma alerts_ok_links: "alerts s = alerts t \<Longrightarrow> alert_links s = alert_links t \<Longrightarrow> alerts_ok t \<Longrightarrow> alerts_ok s"
  using alerts_ok_cong by blast

lemma seed_rule_soc_ok:
  assumes "soc_ok s" and "rule_create_ok item"
  shows "soc_ok (seed_rule env item s)"
proof -
  have "alerts_ok (seed_rule env item s)"
    by (rule alerts_ok_links [of _ s]) (use assms in \<open>simp_all add: soc_ok_def\<close>)
  with assms seed_rule_ok [of s item env] show ?thesis by (simp add: soc_ok_def)
qed

lemma seed_default_rules_ok:
  "soc_ok s \<Longrightarrow> list_all rule_create_ok items \<Longrightarrow> soc_ok (seed_default_rules env items s)"
  unfolding seed_default_rules_def
  by (induction items arbitrary: s) (simp_all add: seed_rule_soc_ok)

lemma patched_rule_ok:
  assumes "patched_rule env p rule = Inr row" and p: "rule_update_ok p" and rule: "rule_ok rule"
  shows "rule_ok row \<and> dr_id row = dr_id rule \<and> dr_rule_code row = dr_rule_code rule"
proof -
  obtain severity confidence window_seconds threshold group_by where
    new: "patched (ru_severity p) (dr_severity rule) = Inr severity"
      "patched (ru_confidence p) (dr_confidence rule) = Inr confidence"
      "patched (ru_window_seconds p) (dr_window_seconds rule) = Inr window_seconds"
      "patched (ru_threshold p) (dr_threshold rule) = Inr threshold"
      "patched (ru_group_by p) (dr_group_by rule) = Inr group_by"
    and row: "dr_severity row = severity" "dr_confidence row = confidence"
      "dr_window_seconds row = window_seconds" "dr_threshold row = threshold" "dr_group_by row = group_by"
      "dr_id row = dr_id rule" "dr_rule_code row = dr_rule_code rule"
    using assms(1) by (clarsimp simp: patched_rule_def bind_result_Inr_iff)
  have "severity \<in> set Severity" "confidence \<in> set Confidence" "group_by \<in> set APPROVED_GROUP_BY"
    "10 \<le> window_seconds \<and> window_seconds \<le> 86400" "0 < threshold \<and> threshold \<le> 10000"
    using p rule
    by (auto intro: patched_InrD [OF new(1)] patched_InrD [OF new(2)] patched_InrD [OF new(5)]
        simp: rule_update_ok_def rule_ok_def
        dest: patched_InrD [OF new(3), of "\<lambda>w. 10 \<le> w \<and> w \<le> 86400"] patched_InrD [OF new(4), of "\<lambda>t. 0 < t \<and> t \<le> 10000"])
  with row show ?thesis by (simp add: rule_ok_def)
qed

text \<open>A state that agrees on the tables of the invariant.\<close>

lemma soc_ok_cong:
  assumes "detection_rules t = detection_rules s" "alerts t = alerts s" "alert_links t = alert_links s"
    "blocklist t = blocklist s"
  shows "soc_ok t = soc_ok s"
  using assms alerts_ok_cong [of t s] by (simp add: soc_ok_def)

lemma create_source_ok: "soc_ok s \<Longrightarrow> soc_ok (snd (create_source env p s))"
  by (subst soc_ok_cong [of _ s]) (auto simp: create_source_def Let_def split: sum.splits)

lemma update_source_ok: "soc_ok s \<Longrightarrow> soc_ok (snd (update_source env i p s))"
  by (subst soc_ok_cong [of _ s]) (auto simp: update_source_def split: sum.splits)

lemma delete_source_ok: "soc_ok s \<Longrightarrow> soc_ok (snd (delete_source i s))"
  by (subst soc_ok_cong [of _ s]) (auto simp: delete_source_def split: sum.splits)

lemma enrich_ok: "soc_ok s \<Longrightarrow> soc_ok (snd (enrich env cat p s))"
  by (subst soc_ok_cong [of _ s]) (auto simp: enrich_def Let_def split: sum.splits)

lemma soc_ok_rules:
  "soc_ok s \<Longrightarrow> rules_ok rules \<Longrightarrow> soc_ok (s\<lparr>detection_rules := rules\<rparr>)"
  using alerts_ok_cong [of "s\<lparr>detection_rules := rules\<rparr>" s] by (simp add: soc_ok_def)

lemma create_rule_ok:
  assumes "soc_ok s" and "rule_create_ok p"
  shows "soc_ok (snd (create_rule env p s))"
  using assms new_rule_ok [OF assms(2)]
  by (auto simp: create_rule_def Let_def soc_ok_def [of s] intro!: soc_ok_rules rules_ok_insert)

lemma update_rule_ok:
  assumes ok: "soc_ok s" and p: "rule_update_ok p"
  shows "soc_ok (snd (update_rule env i p s))"
proof (cases "rule_or_404 s i")
  case (Inl e)
  with ok show ?thesis by (simp add: update_rule_def)
next
  case (Inr rule)
  then have f: "find_row dr_id i (detection_rules s) = Some rule"
    by (simp add: rule_or_404_def split: option.splits)
  show ?thesis
  proof (cases "patched_rule env p rule")
    case (Inl e)
    with Inr ok show ?thesis by (simp add: update_rule_def)
  next
    case row: (Inr row)
    have rules: "rules_ok (detection_rules s)" using ok by (simp add: soc_ok_def)
    then have "rule_ok rule" using find_row_SomeD [OF f] by (auto simp: rules_ok_def list_all_iff)
    note r = patched_rule_ok [OF row p this]
    have "rules_ok (upd_row dr_id i (\<lambda>_. row) (detection_rules s))"
      using rules r map_replace [OF f, of dr_id row] map_replace [OF f, of dr_rule_code row]
        set_replace [of dr_id i row "detection_rules s"]
      by (auto simp: rules_ok_def list_all_iff)
    with Inr row ok show ?thesis by (simp add: update_rule_def soc_ok_rules)
  qed
qed

lemma delete_rule_ok: "soc_ok s \<Longrightarrow> soc_ok (snd (delete_rule i s))"
  by (auto simp: delete_rule_def soc_ok_def [of s] rules_ok_def distinct_map_filter list_all_iff
      intro!: soc_ok_rules split: sum.splits)

lemma list_rules_ok: "soc_ok s \<Longrightarrow> list_all rule_create_ok items \<Longrightarrow> soc_ok (snd (list_rules env items s))"
  by (simp add: list_rules_def Let_def seed_default_rules_ok)

lemma run_detections_ok:
  assumes "soc_ok s" and "list_all rule_create_ok items"
  shows "soc_ok (snd (run_detections env items p s))"
proof -
  let ?s = "seed_default_rules env items s"
  have ok: "soc_ok ?s" using assms by (rule seed_default_rules_ok)
  obtain out t where run: "run env p ?s = (out, t)" by fastforce
  have a: "alerts_ok ?s" using ok by (simp add: soc_ok_def)
  have st: "\<forall>x \<in> set (alerts t). al_status x \<in> set AlertStatus"
    by (rule run_status [OF run]) (use ok in \<open>auto simp: soc_ok_def AlertStatus_def\<close>)
  show ?thesis
    using run_frame [OF a run] st ok by (simp add: run_detections_def run soc_ok_def)
qed

lemma update_alert_row:
  assumes "update_alert env i p s = (Inr row, t)" and "alert_update_ok p"
    and "al_status alert \<in> set AlertStatus" and "alert_or_404 s i = Inr alert"
  shows "al_id row = al_id alert" "al_fingerprint row = al_fingerprint alert"
    "al_event_count row = al_event_count alert" "al_status row \<in> set AlertStatus"
    "alerts t = upd_row al_id i (\<lambda>_. row) (alerts s)" "alert_links t = alert_links s"
    "detection_rules t = detection_rules s" "blocklist t = blocklist s"
  using assms
  by (auto simp: update_alert_def Let_def truthy_def alert_update_ok_def split: option.splits if_splits)

lemma update_alert_Inl: "update_alert env i p s = (Inl e, t) \<Longrightarrow> t = s"
  by (auto simp: update_alert_def Let_def split: sum.splits option.splits if_splits)

lemma alerts_ok_replace:
  assumes ok: "alerts_ok s" and f: "find_row al_id i (alerts s) = Some alert"
    and row: "al_id row = al_id alert" "al_fingerprint row = al_fingerprint alert"
      "al_event_count row = al_event_count alert"
  shows "alerts_ok (s\<lparr>alerts := upd_row al_id i (\<lambda>_. row) (alerts s)\<rparr>)"
proof -
  let ?rows = "upd_row al_id i (\<lambda>_. row) (alerts s)"
  have d: "distinct (map al_id (alerts s))" using ok by (simp add: alerts_ok_def)
  have ids: "map al_id ?rows = map al_id (alerts s)" by (rule map_replace [OF f d row(1)])
  have "map (\<lambda>a. (al_id a, al_event_count a)) ?rows = map (\<lambda>a. (al_id a, al_event_count a)) (alerts s)"
    by (rule map_replace [OF f d]) (simp add: row)
  then have "(\<lambda>a. (al_id a, al_event_count a)) ` set ?rows = (\<lambda>a. (al_id a, al_event_count a)) ` set (alerts s)"
    by (metis set_map)
  then have "\<exists>y \<in> set (alerts s). al_id x = al_id y \<and> al_event_count x = al_event_count y" if "x \<in> set ?rows" for x
    using that by (metis (no_types, lifting) fst_conv image_iff snd_conv)
  moreover have "al_id ` set ?rows = al_id ` set (alerts s)" using ids by (metis set_map)
  ultimately show ?thesis
    using ok ids map_replace [OF f d row(2)] by (fastforce simp: alerts_ok_def)
qed

lemma update_alert_ok:
  assumes ok: "soc_ok s" and p: "alert_update_ok p"
  shows "soc_ok (snd (update_alert env i p s))"
proof (cases "update_alert env i p s")
  case (Pair out t)
  show ?thesis
  proof (cases out)
    case (Inl e)
    then show ?thesis using Pair ok update_alert_Inl [of env i p s e t] by simp
  next
    case (Inr row)
    then obtain alert where a: "alert_or_404 s i = Inr alert"
      using Pair by (auto simp: update_alert_def split: sum.splits)
    then have f: "find_row al_id i (alerts s) = Some alert"
      by (simp add: alert_or_404_def split: option.splits)
    have st: "al_status alert \<in> set AlertStatus"
      using ok find_row_SomeD [OF f] by (simp add: soc_ok_def)
    note r = update_alert_row [OF Pair [unfolded Inr] p st a]
    have "alerts_ok (s\<lparr>alerts := upd_row al_id i (\<lambda>_. row) (alerts s)\<rparr>)"
      by (rule alerts_ok_replace [OF _ f r(1-3)]) (use ok in \<open>simp add: soc_ok_def\<close>)
    then have "alerts_ok t" by (rule alerts_ok_links [rotated 2]) (simp_all add: r)
    moreover have "\<forall>x \<in> set (alerts t). al_status x \<in> set AlertStatus"
      using ok r(4) set_replace [of al_id i row "alerts s"] unfolding r(5) by (auto simp: soc_ok_def)
    ultimately show ?thesis using ok r(7,8) Pair by (simp add: soc_ok_def)
  qed
qed

lemma soc_ok_blocklist:
  "soc_ok s \<Longrightarrow> blocklist_ok rows \<Longrightarrow> soc_ok (s\<lparr>blocklist := rows\<rparr>)"
  using alerts_ok_cong [of "s\<lparr>blocklist := rows\<rparr>" s] by (simp add: soc_ok_def)

lemma soc_ok_messages [simp]:
  "soc_ok (soc_add_activity env a m et ei s) = soc_ok s"
  "soc_ok (soc_notify env t m k et ei s) = soc_ok s"
  by (rule soc_ok_cong; simp)+

lemma blocklist_ok_replace:
  assumes "blocklist_ok rows" and f: "find_row bl_id i rows = Some old"
    and "bl_id row = bl_id old" "bl_indicator_type row = bl_indicator_type old"
      "bl_indicator_value row = bl_indicator_value old"
  shows "blocklist_ok (upd_row bl_id i (\<lambda>_. row) rows)"
  using assms map_replace [OF f, of bl_id row]
    map_replace [OF f, of "\<lambda>r. (bl_indicator_type r, bl_indicator_value r)" row]
  by (simp add: blocklist_ok_def)

lemma blocklist_ok_insert:
  assumes "blocklist_ok rows"
    and "find (\<lambda>r. bl_indicator_type r = bl_indicator_type row \<and> bl_indicator_value r = bl_indicator_value row) rows = None"
  shows "blocklist_ok (insert_row bl_id set_bl_id row rows)"
  using assms blocklist_table.distinct_insert [of rows row]
  by (auto simp: blocklist_ok_def insert_row_def set_bl_id_def find_None_iff)

lemma create_blocklist_ok:
  assumes ok: "soc_ok s"
  shows "soc_ok (snd (create_blocklist env p s))"
proof (cases "validate_indicator (bc_indicator_type p) (bc_indicator_value p)")
  case (Inl e)
  with ok show ?thesis by (simp add: create_blocklist_def)
next
  case (Inr v)
  have b: "blocklist_ok (blocklist s)" using ok by (simp add: soc_ok_def)
  let ?find = "find (\<lambda>r. bl_indicator_type r = bc_indicator_type p \<and> bl_indicator_value r = v) (blocklist s)"
  show ?thesis
  proof (cases ?find)
    case None
    with Inr ok b show ?thesis
      by (auto simp: create_blocklist_def Let_def intro!: soc_ok_blocklist blocklist_ok_insert)
  next
    case (Some old)
    then have "find_row bl_id (bl_id old) (blocklist s) = Some old"
      using b by (auto simp: blocklist_ok_def dest: find_SomeD intro: find_row_unique)
    with Some Inr ok b show ?thesis
      by (auto simp: create_blocklist_def Let_def intro!: soc_ok_blocklist blocklist_ok_replace)
  qed
qed

lemma update_blocklist_ok: "soc_ok s \<Longrightarrow> soc_ok (snd (update_blocklist env i p s))"
  by (auto simp: update_blocklist_def blocklist_entry_or_404_def bind_result_Inr_iff soc_ok_def [of s]
      intro!: soc_ok_blocklist blocklist_ok_replace split: sum.splits option.splits)

lemma delete_blocklist_ok: "soc_ok s \<Longrightarrow> soc_ok (snd (delete_blocklist env i s))"
  by (auto simp: delete_blocklist_def soc_ok_def [of s] blocklist_ok_def map_upd_row
      intro!: soc_ok_blocklist split: sum.splits)

lemmas request_ok = create_source_ok update_source_ok delete_source_ok create_rule_ok update_rule_ok
  delete_rule_ok list_rules_ok run_detections_ok update_alert_ok enrich_ok create_blocklist_ok
  update_blocklist_ok delete_blocklist_ok

interpretation monitor: served_invariant soc_ok serve_soc call_valid
proof
  fix s c assume "soc_ok s" "call_valid c"
  then show "soc_ok (serve_soc c s)"
    by (cases "sq_request c") (simp_all add: serve_soc_def call_valid_def Let_def request_ok)
qed

text \<open>C35. The state of the SOC monitor stays well-formed: over any sequence of valid requests, in
any order and whether they succeed or fail, rule keys and codes stay unique and every rule
keeps a window of 10 to 86400 seconds, a threshold of 1 to 10000 and an approved grouping;
every alert keeps its own fingerprint, counts its linked events and has one of the five
statuses; and no indicator is on the blocklist twice. In particular no status update ever meets
an alert whose status has no transitions.\<close>

theorem soc_state_well_formed:
  assumes "soc_ok s" and "list_all call_valid calls"
  shows "soc_ok (fold serve_soc calls s) \<and>
    (\<forall>env i p e t. update_alert env i p (fold serve_soc calls s) = (Inl e, t) \<longrightarrow> (\<forall>k. e \<noteq> KeyError k))"
proof -
  have ok: "soc_ok (fold serve_soc calls s)" by (rule monitor.sequence_keeps [OF assms])
  have "e \<noteq> KeyError k" if u: "update_alert env i p (fold serve_soc calls s) = (Inl e, t)" for env i p e t k
  proof (cases "alert_or_404 (fold serve_soc calls s) i")
    case (Inl x)
    with u show ?thesis by (auto simp: update_alert_def alert_or_404_def split: option.splits)
  next
    case (Inr alert)
    then have "al_status alert \<in> set AlertStatus"
      using ok by (auto simp: alert_or_404_def soc_ok_def dest!: find_row_SomeD split: option.splits)
    then have "map_of alert_transitions (al_status alert) \<noteq> None"
      by (auto simp: AlertStatus_def alert_transitions_def)
    with Inr u show ?thesis
      by (auto simp: update_alert_def Let_def split: option.splits if_splits)
  qed
  with ok show ?thesis by blast
qed

definition demo_catalogue :: "RuleCreate list" where
  "demo_catalogue =
     [\<lparr>rk_rule_code = ''SOC-007'', rk_name = ''Locally blocklisted indicator activity'',
       rk_description = ''An event matches the application-only simulated blocklist.'',
       rk_rule_type = ''blocklist'', rk_enabled = True, rk_severity = ''high'', rk_confidence = ''high'',
       rk_window_seconds = 300, rk_threshold = 1, rk_group_by = ''source_ip'',
       rk_conditions_json = [(''blocklist_match'', PBool True)],
       rk_remediation = ''Review the simulated containment record; no real firewall action occurred.''\<rparr>]"

definition demo_call :: "soc_request \<Rightarrow> soc_call" where
  "demo_call r = \<lparr>sq_env = demo_env, sq_rules = demo_catalogue, sq_intelligence = [], sq_request = r\<rparr>"

theorem soc_state_well_formed_witness:
  "soc_ok empty_soc_db \<and> list_all call_valid [demo_call ListRules, demo_call (DeleteRule 1)] \<and>
   soc_ok (fold serve_soc [demo_call ListRules, demo_call (DeleteRule 1)] empty_soc_db)"
proof -
  have ok: "soc_ok empty_soc_db"
    by (simp add: soc_ok_def empty_soc_db_def rules_ok_def alerts_ok_def blocklist_ok_def)
  have v: "list_all call_valid [demo_call ListRules, demo_call (DeleteRule 1)]" by code_simp
  show ?thesis using ok v soc_state_well_formed [OF ok v] by blast
qed

end
