(* ===== verification/Soc_Ingest.thy ===== *)
theory Soc_Ingest
  imports Soc_Monitor
begin

text \<open>
  Normalisation of log data (\<open>modules/soc_monitor/normalization.py\<close>) and the ingestion of events
  (\<open>insert_event\<close> and \<open>import_log\<close> of \<open>service.py\<close>). The rows of a log file come from the
  parsers of \<open>parsers.py\<close>, which are an argument of the import. Dates before 1970 and integers
  the database cannot hold are outside the model.
\<close>

section \<open>Looking up fields\<close>

definition ALIASES :: "(string \<times> string list) list" where
  "ALIASES =
     [(''timestamp'', [''timestamp'', ''time'', ''event_time'', ''datetime'', ''date'']),
      (''source_ip'', [''src_ip'', ''source_ip'', ''client_ip'', ''remote_addr'', ''ip'']),
      (''destination_ip'', [''dst_ip'', ''destination_ip'']),
      (''username'', [''user'', ''username'', ''account'', ''identity'']),
      (''http_method'', [''method'', ''http_method'']),
      (''request_path'', [''path'', ''uri'', ''request_path'', ''endpoint'']),
      (''status_code'', [''status'', ''status_code'', ''http_status'']),
      (''outcome'', [''result'', ''outcome'', ''status_text'']),
      (''message'', [''msg'', ''message'', ''event_message'']),
      (''user_agent'', [''agent'', ''user_agent''])]"

definition lowered :: "(string \<times> pyvalue) list \<Rightarrow> (string \<times> pyvalue) list" where
  "lowered data = foldl (\<lambda>d kv. dict_put d (casefold (fst kv)) (snd kv)) [] data"

definition first_field :: "(string \<times> pyvalue) list \<Rightarrow> string \<Rightarrow> pyvalue" where
  "first_field data field =
     (let d = lowered data;
          aliases = (case map_of ALIASES field of None \<Rightarrow> [field] | Some names \<Rightarrow> names)
      in case find (\<lambda>alias. case map_of d alias of
                      None \<Rightarrow> False | Some v \<Rightarrow> v \<noteq> PNone \<and> v \<noteq> PStr []) aliases of
           None \<Rightarrow> PNone
         | Some alias \<Rightarrow> the (map_of d alias))"


section \<open>Outcome and type of an event\<close>

definition any_in :: "string list \<Rightarrow> string \<Rightarrow> bool" where
  "any_in words text = list_ex (\<lambda>word. py_in word text) words"

text \<open>\<open>str(value or "")\<close>.\<close>

definition str_or_empty :: "(string \<Rightarrow> py_float) \<Rightarrow> pyvalue \<Rightarrow> string" where
  "str_or_empty fv v = (if py_truthy fv v then py_str v else [])"

definition normalize_outcome :: "(string \<Rightarrow> py_float) \<Rightarrow> pyvalue \<Rightarrow> int option \<Rightarrow> string" where
  "normalize_outcome fv v status_code =
     (let text = casefold (str_or_empty fv v) in
      if any_in [''deny'', ''denied'', ''forbid'', ''unauthor''] text \<or> status_code \<in> {Some 401, Some 403}
      then ''denied''
      else if any_in [''block'', ''drop'', ''reject''] text then ''blocked''
      else if any_in [''fail'', ''invalid'', ''error''] text \<or>
              (case status_code of None \<Rightarrow> False | Some c \<Rightarrow> c \<ge> 400)
      then ''failure''
      else if any_in [''success'', ''allow'', ''accept'', ''ok''] text \<or>
              (case status_code of None \<Rightarrow> False | Some c \<Rightarrow> c < 400)
      then ''success''
      else ''unknown'')"

definition Outcome :: "string list" where
  "Outcome = [''success'', ''failure'', ''denied'', ''blocked'', ''unknown'']"

definition EventType :: "string list" where
  "EventType = [''authentication'', ''authorization'', ''web_request'', ''api_request'',
     ''administrative_action'', ''security_control'', ''system'', ''unknown'']"

definition normalize_event_type ::
  "(string \<Rightarrow> py_float) \<Rightarrow> (string \<times> pyvalue) list \<Rightarrow> string \<Rightarrow> string" where
  "normalize_event_type fv data outcome =
     (let named = (if py_truthy fv (dict_get data ''event_type'') then dict_get data ''event_type''
                   else dict_get data ''type'');
          explicit = replace_char CHR '' '' ''_'' (replace_char CHR ''-'' ''_'' (casefold (str_or_empty fv named)));
          combined = join '' '' (map (\<lambda>kv. casefold (py_str (snd kv))) data);
          path = str_or_empty fv (first_field data ''request_path'')
      in if explicit \<in> set EventType then explicit
         else if any_in [''login'', ''logon'', ''authentication'', ''password'', ''sshd''] combined
         then ''authentication''
         else if any_in [''authorization'', ''permission'', ''access denied''] combined \<or>
                 (outcome = ''denied'' \<and> path = [])
         then ''authorization''
         else if any_in [''/admin'', ''/manage'', ''/privileged''] (casefold path)
         then ''administrative_action''
         else if py_truthy fv (first_field data ''http_method'') \<or> path \<noteq> []
         then (if startswith path ''/api/'' then ''api_request'' else ''web_request'')
         else if combined \<noteq> [] then ''system'' else ''unknown'')"

definition valid_ip :: "(string \<Rightarrow> py_float) \<Rightarrow> pyvalue \<Rightarrow> string option" where
  "valid_ip fv v = (if py_truthy fv v then ip_address_text (strip (py_str v)) else None)"

lemma normalize_outcome_known: "normalize_outcome fv v c \<in> set Outcome"
  by (simp add: normalize_outcome_def Outcome_def Let_def)

lemma normalize_event_type_known: "normalize_event_type fv d oc \<in> set EventType"
  by (simp add: normalize_event_type_def Let_def) (simp add: EventType_def)

lemma valid_ip_is_address: "valid_ip fv v = Some a \<Longrightarrow> ip_address (strip (py_str v))"
  using ip_address_text_iff [of "strip (py_str v)"] by (simp add: valid_ip_def split: if_splits)


section \<open>Time stamps\<close>

text \<open>
  \<open>datetime.fromtimestamp(float(text), utc)\<close>: beyond the year 9999 it raises \<open>ValueError\<close> or
  \<open>OSError\<close>, which are caught; a number that does not fit the platform's \<open>time_t\<close> raises
  \<open>OverflowError\<close>, which is not.
\<close>

definition from_timestamp :: "time \<Rightarrow> int \<Rightarrow> time result" where
  "from_timestamp fallback n =
     (if n \<le> 253402300799 then Inr (seconds n)
      else if n < 2 ^ 63 - 512 then Inr fallback
      else Inl (OverflowError ''timestamp out of range for platform time_t''))"

fun first_some :: "'a option list \<Rightarrow> 'a option" where
  "first_some [] = None"
| "first_some (None # rest) = first_some rest"
| "first_some (Some x # rest) = Some x"

definition parse_timestamp :: "soc_env \<Rightarrow> pyvalue \<Rightarrow> time option \<Rightarrow> time result" where
  "parse_timestamp env v fallback_time =
     (let fallback = (case fallback_time of None \<Rightarrow> sx_now env | Some t \<Rightarrow> t) in
      if v = PNone \<or> v = PStr [] then Inr fallback
      else let text = strip (py_str v) in
           if all_digits text then from_timestamp fallback (decimal text)
           else case first_some
                  [sx_fromisoformat env text,
                   sx_fromisoformat env (replace_char CHR ''Z'' ''+00:00'' text),
                   sx_strptime_access env text, sx_strptime_syslog env fallback text,
                   sx_strptime_plain env text] of
                  Some t \<Rightarrow> Inr t
                | None \<Rightarrow> Inr fallback)"


section \<open>JSON text\<close>

text \<open>\<open>json.dumps(value, ensure_ascii=False, sort_keys=True, default=str)\<close>, with the default separators.\<close>

function dumps :: "pyvalue \<Rightarrow> string" where
  "dumps PNone = ''null''"
| "dumps (PBool b) = (if b then ''true'' else ''false'')"
| "dumps (PInt i) = str_int i"
| "dumps (PFloat t) = t"
| "dumps (PStr s) = json_string s"
| "dumps (PList xs) = ''['' @ join '', '' (map dumps xs) @ '']''"
| "dumps (PDict d) =
     ''{'' @ join '', '' (map (\<lambda>kv. json_string (fst kv) @ '': '' @ dumps (snd kv)) (sort_key fst d)) @ ''}''"
| "dumps (POther t) = json_string t"
  by pat_completeness auto
termination
proof (relation "measure size", goal_cases)
  case 1
  show ?case by simp
next
  case (2 xs x)
  then show ?case using size_list_member [of x xs] by simp
next
  case (3 d kv)
  then show ?case by (auto dest: size_dict_member)
qed


section \<open>Normalisation of an event\<close>

text \<open>\<open>int(value)\<close>: \<open>ValueError\<close> and \<open>TypeError\<close> give \<open>None\<close>, an infinite float raises.\<close>

definition status_code_of :: "(string \<Rightarrow> py_float) \<Rightarrow> pyvalue \<Rightarrow> int option result" where
  "status_code_of fv v =
     (case v of
        PInt i \<Rightarrow> Inr (Some i)
      | PBool b \<Rightarrow> Inr (Some (if b then 1 else 0))
      | PStr s \<Rightarrow> Inr (py_int s)
      | PFloat t \<Rightarrow>
          (case fv t of
             Finite m e \<Rightarrow> Inr (Some (truncated m e))
           | NaN \<Rightarrow> Inr None
           | _ \<Rightarrow> Inl (OverflowError ''cannot convert float infinity to integer''))
      | _ \<Rightarrow> Inr None)"

text \<open>\<open>str(value)[:limit] if value else None\<close>.\<close>

definition short_text :: "(string \<Rightarrow> py_float) \<Rightarrow> nat \<Rightarrow> pyvalue \<Rightarrow> string option" where
  "short_text fv limit v = (if py_truthy fv v then Some (take limit (py_str v)) else None)"

text \<open>\<open>redact_text(str(value or ""), limit) or None\<close>.\<close>

definition safe_text :: "(string \<Rightarrow> py_float) \<Rightarrow> nat \<Rightarrow> pyvalue \<Rightarrow> string option" where
  "safe_text fv limit v =
     (let text = redact_text (str_or_empty fv v) (Some limit) in if text = [] then None else Some text)"

definition put_all :: "(string \<times> pyvalue) list \<Rightarrow> (string \<times> pyvalue) list \<Rightarrow> (string \<times> pyvalue) list" where
  "put_all d updates = foldl (\<lambda>acc kv. dict_put acc (fst kv) (snd kv)) d updates"

definition normalize_severity :: "(string \<times> pyvalue) list \<Rightarrow> string" where
  "normalize_severity data =
     (let severity = casefold (py_str (case map_of data ''severity'' of None \<Rightarrow> PStr ''info'' | Some v \<Rightarrow> v))
      in if severity \<in> set Severity then severity else ''info'')"

text \<open>The columns of the new row; its key, its source and its times are set on insertion.\<close>

definition normalized_row ::
  "soc_env \<Rightarrow> (string \<times> pyvalue) list \<Rightarrow> string \<Rightarrow> time \<Rightarrow> int option \<Rightarrow> soc_event" where
  "normalized_row env redacted raw_text event_time status_code =
     (let fv = sx_float_value env;
          outcome = normalize_outcome fv (first_field redacted ''outcome'') status_code;
          event_type = normalize_event_type fv redacted outcome;
          source_ip = valid_ip fv (first_field redacted ''source_ip'');
          destination_ip = valid_ip fv (first_field redacted ''destination_ip'');
          username = short_text fv 160 (first_field redacted ''username'');
          http_method = (if py_truthy fv (first_field redacted ''http_method'')
                         then Some (take 16 (upper (py_str (first_field redacted ''http_method'')))) else None);
          request_path = short_text fv 1000 (first_field redacted ''request_path'');
          message = safe_text fv 4000 (first_field redacted ''message'');
          user_agent = safe_text fv 1000 (first_field redacted ''user_agent'');
          normalized = put_all redacted
            [(''event_time'', PStr (aware_isoformat event_time)), (''event_type'', PStr event_type),
             (''outcome'', PStr outcome), (''source_ip'', text_value source_ip),
             (''destination_ip'', text_value destination_ip), (''username'', text_value username),
             (''http_method'', text_value http_method), (''request_path'', text_value request_path),
             (''status_code'', int_value status_code), (''message'', text_value message),
             (''user_agent'', text_value user_agent)]
      in \<lparr>ev_id = 0, ev_source_id = 0, ev_import_id = None, ev_event_time = event_time,
          ev_received_at = sx_now env, ev_event_type = event_type,
          ev_action = short_text fv 120 (dict_get redacted ''action''), ev_outcome = Some outcome,
          ev_severity = normalize_severity redacted, ev_source_ip = source_ip,
          ev_destination_ip = destination_ip, ev_username = username, ev_http_method = http_method,
          ev_request_path = request_path, ev_status_code = status_code, ev_user_agent = user_agent,
          ev_message = message, ev_normalized_json = normalized,
          ev_raw_event_hash = sx_sha256_hex env (dumps (PDict normalized)),
          ev_raw_preview_redacted = Some (redact_text raw_text (Some 2000)), ev_created_at = sx_now env\<rparr>)"

definition redacted_items :: "(string \<times> pyvalue) list \<Rightarrow> (string \<times> pyvalue) list" where
  "redacted_items data = (case soc_redact (PDict data) of PDict d \<Rightarrow> d | _ \<Rightarrow> [])"

definition normalize_event ::
  "soc_env \<Rightarrow> (string \<times> pyvalue) list \<Rightarrow> string \<Rightarrow> time option \<Rightarrow> soc_event result" where
  "normalize_event env data raw_text fallback_time =
     (let redacted = redacted_items data in
      bind_result (status_code_of (sx_float_value env) (first_field redacted ''status_code'')) (\<lambda>status_code.
      bind_result (parse_timestamp env (first_field redacted ''timestamp'') fallback_time) (\<lambda>event_time.
        Inr (normalized_row env redacted raw_text event_time status_code))))"


section \<open>Insertion\<close>

definition insert_event ::
  "soc_env \<Rightarrow> nat \<Rightarrow> (string \<times> pyvalue) list \<Rightarrow> string \<Rightarrow> nat option \<Rightarrow> time option \<Rightarrow> (soc_db, bool) action" where
  "insert_event env source_id data raw import_id fallback_time s =
     (case normalize_event env data raw fallback_time of
        Inl e \<Rightarrow> (Inl e, s)
      | Inr row \<Rightarrow>
          if ev_raw_event_hash row \<in> ev_raw_event_hash ` set (soc_events s) then (Inr False, s)
          else (Inr True, s\<lparr>soc_events := insert_row ev_id set_ev_id
                 (row\<lparr>ev_source_id := source_id, ev_import_id := import_id\<rparr>) (soc_events s)\<rparr>))"


section \<open>Importing a log file\<close>

definition MAX_UPLOAD_BYTES :: nat where "MAX_UPLOAD_BYTES = 5 * 1024 * 1024"
definition MAX_IMPORT_EVENTS :: nat where "MAX_IMPORT_EVENTS = 10000"

text \<open>A row of a parsed file: the data or nothing, the raw line, the parser's complaint.\<close>

record log_row =
  lr_data :: "(string \<times> pyvalue) list option"
  lr_raw :: string
  lr_error :: "string option"

record import_state =
  is_db :: soc_db
  is_accepted :: nat
  is_rejected :: nat
  is_errors :: "string list"

definition complain_once :: "string \<Rightarrow> import_state \<Rightarrow> import_state" where
  "complain_once message st =
     st\<lparr>is_rejected := is_rejected st + 1,
        is_errors := (if length (is_errors st) < 5 then is_errors st @ [message] else is_errors st)\<rparr>"

definition line_message :: "nat \<Rightarrow> string \<Rightarrow> string" where
  "line_message index message = ''Line '' @ str_nat (index + 1) @ '': '' @ message"

definition import_row ::
  "soc_env \<Rightarrow> nat \<Rightarrow> nat \<Rightarrow> nat \<times> log_row \<Rightarrow> import_state \<Rightarrow> import_state" where
  "import_row env source_id import_id indexed st =
     (case indexed of (index, row) \<Rightarrow>
        if is_accepted st \<ge> MAX_IMPORT_EVENTS then complain_once ''10,000-event import limit reached'' st
        else if truthy (lr_error row) \<or> lr_data row = None
        then complain_once (line_message index (redact_text
               (if truthy (lr_error row) then the (lr_error row) else ''Malformed row'') (Some 240))) st
        else case insert_event env source_id (the (lr_data row)) (lr_raw row) (Some import_id) None (is_db st) of
               (Inl e, s) \<Rightarrow> complain_once (line_message index ''normalization rejected'') st
             | (Inr True, s) \<Rightarrow> st\<lparr>is_db := s, is_accepted := is_accepted st + 1\<rparr>
             | (Inr False, s) \<Rightarrow> st\<lparr>is_rejected := is_rejected st + 1\<rparr>)"

definition import_rows :: "soc_env \<Rightarrow> nat \<Rightarrow> nat \<Rightarrow> log_row list \<Rightarrow> soc_db \<Rightarrow> import_state" where
  "import_rows env source_id import_id rows s =
     fold (import_row env source_id import_id) (zip [0..<length rows] rows)
       \<lparr>is_db = s, is_accepted = 0, is_rejected = 0, is_errors = []\<rparr>"

definition EXTENSIONS :: "(string \<times> string list) list" where
  "EXTENSIONS =
     [(''jsonl'', [''.jsonl'', ''.ndjson'']), (''csv'', [''.csv'']), (''access_log'', [''.log'', ''.txt'']),
      (''auth_log'', [''.log'', ''.txt'']), (''key_value'', [''.log'', ''.txt''])]"

text \<open>\<open>Path(name).name\<close> and \<open>Path(name).suffix\<close> of a POSIX path.\<close>

definition path_name :: "string \<Rightarrow> string" where
  "path_name s =
     (let parts = filter (\<lambda>p. p \<noteq> [] \<and> p \<noteq> ''.'') (split_on CHR ''/'' s)
      in if parts = [] then [] else last parts)"

definition path_suffix :: "string \<Rightarrow> string" where
  "path_suffix name =
     (case rpartition_at CHR ''.'' name of
        (None, _) \<Rightarrow> []
      | (Some stem, ext) \<Rightarrow> if stem = [] \<or> ext = [] then [] else CHR ''.'' # ext)"

text \<open>The upload: its name, its bytes, and what decoding them as UTF-8 gives.\<close>

record upload =
  up_filename :: "string option"
  up_content :: string
  up_text :: "string option"

definition upload_name :: "upload \<Rightarrow> string" where
  "upload_name file = (case up_filename file of None \<Rightarrow> [] | Some n \<Rightarrow> n)"

definition import_refusal :: "soc_log_source \<Rightarrow> upload \<Rightarrow> exn option" where
  "import_refusal source file =
     (let filename = path_name (upload_name file) in
      if sl_parser_type source = ''simulator''
      then Some (HTTPException 422 ''Simulator sources do not accept file imports'')
      else case map_of EXTENSIONS (sl_parser_type source) of
        None \<Rightarrow> Some (if filename \<noteq> upload_name file then HTTPException 422 ''Unsupported file extension''
                      else KeyError (sl_parser_type source))
      | Some extensions \<Rightarrow>
          if filename \<noteq> upload_name file \<or> casefold (path_suffix filename) \<notin> set extensions
          then Some (HTTPException 422 ''Unsupported file extension'')
          else if length (up_content file) > MAX_UPLOAD_BYTES
          then Some (HTTPException 413 ''Uploaded log exceeds the 5 MB limit'')
          else None)"

definition started_import :: "soc_env \<Rightarrow> nat \<Rightarrow> upload \<Rightarrow> nat \<Rightarrow> soc_log_import" where
  "started_import env source_id file i =
     \<lparr>li_id = i, li_source_id = source_id, li_filename = Some (path_name (upload_name file)),
      li_file_hash = Some (sx_sha256_hex env (up_content file)), li_total_lines = 0,
      li_accepted_events = 0, li_rejected_events = 0, li_status = ''processing'',
      li_error_summary = None, li_created_at = sx_now env, li_completed_at = None\<rparr>"

definition failed_import :: "soc_env \<Rightarrow> soc_log_import \<Rightarrow> soc_log_import" where
  "failed_import env r =
     r\<lparr>li_status := ''failed'', li_error_summary := Some ''File must use UTF-8 text encoding'',
       li_completed_at := Some (sx_now env)\<rparr>"

definition completed_import :: "soc_env \<Rightarrow> nat \<Rightarrow> import_state \<Rightarrow> soc_log_import \<Rightarrow> soc_log_import" where
  "completed_import env n st r =
     r\<lparr>li_total_lines := n, li_accepted_events := is_accepted st, li_rejected_events := is_rejected st,
       li_status := ''completed'', li_completed_at := Some (sx_now env),
       li_error_summary := (if is_errors st = [] then None else Some (join ''; '' (is_errors st)))\<rparr>"

definition import_log ::
  "soc_env \<Rightarrow> (string \<Rightarrow> string \<Rightarrow> log_row list) \<Rightarrow> nat \<Rightarrow> upload \<Rightarrow> (soc_db, soc_log_import) action" where
  "import_log env parse_content source_id file s =
     (case get_source s source_id of
        Inl e \<Rightarrow> (Inl e, s)
      | Inr source \<Rightarrow>
        (case import_refusal source file of
           Some e \<Rightarrow> (Inl e, s)
         | None \<Rightarrow>
          (let import_id = next_id li_id (log_imports s);
               record = started_import env source_id file import_id;
               s1 = s\<lparr>log_imports := insert_row li_id set_li_id record (log_imports s)\<rparr>
           in case up_text file of
                None \<Rightarrow>
                  (Inl (HTTPException 422 ''File must use UTF-8 text encoding''),
                   s1\<lparr>log_imports := upd_row li_id import_id (failed_import env) (log_imports s1)\<rparr>)
              | Some text \<Rightarrow>
                  (let rows = parse_content (sl_parser_type source) text;
                       st = import_rows env source_id import_id rows s1;
                       done = completed_import env (length rows) st record;
                       s2 = (is_db st)
                         \<lparr>log_imports := upd_row li_id import_id (\<lambda>_. done) (log_imports (is_db st)),
                          log_sources := upd_row sl_id source_id
                            (\<lambda>r. r\<lparr>sl_event_count := sl_event_count r + is_accepted st,
                                   sl_last_ingested_at := Some (sx_now env), sl_updated_at := sx_now env\<rparr>)
                            (log_sources (is_db st))\<rparr>;
                       filename = path_name (upload_name file)
                   in (Inr done,
                       soc_notify env ''SOC Log Import Completed''
                         (filename @ '': '' @ str_nat (is_accepted st) @ '' events accepted and '' @
                          str_nat (is_rejected st) @ '' rejected.'') ''success'' ''soc_import'' (Some import_id)
                         (soc_add_activity env ''import_completed''
                           (''Import '' @ filename @ '' completed: '' @ str_nat (is_accepted st) @
                            '' accepted, '' @ str_nat (is_rejected st) @ '' rejected.'')
                           ''soc_import'' (Some import_id) s2))))))"


section \<open>The accounting of an import\<close>

text \<open>Events are told apart by the hash of their normalised content.\<close>

definition events_ok :: "soc_event list \<Rightarrow> bool" where
  "events_ok es \<longleftrightarrow> distinct (map ev_id es) \<and> distinct (map ev_raw_event_hash es) \<and>
     (\<forall>e \<in> set es. (case ev_outcome e of None \<Rightarrow> True | Some c \<Rightarrow> c \<in> set Outcome) \<and>
        ev_event_type e \<in> set EventType \<and> ev_severity e \<in> set Severity)"

lemma normalize_severity_known: "normalize_severity d \<in> set Severity"
  by (simp add: normalize_severity_def Let_def) (simp add: Severity_def)

lemma normalize_event_known:
  assumes "normalize_event env d raw f = Inr e"
  shows "(\<exists>c. ev_outcome e = Some c \<and> c \<in> set Outcome) \<and> ev_event_type e \<in> set EventType \<and>
    ev_severity e \<in> set Severity"
  using assms normalize_outcome_known normalize_event_type_known normalize_severity_known
  by (auto simp: normalize_event_def normalized_row_def bind_result_Inr_iff Let_def)

lemma insert_event_cases:
  assumes "insert_event env sid d raw iid f s = (out, s')"
  shows "(out \<noteq> Inr True \<and> s' = s) \<or>
    (out = Inr True \<and> (\<exists>e. soc_events s' = soc_events s @ [e] \<and> ev_source_id e = sid \<and> ev_import_id e = iid \<and>
       (events_ok (soc_events s) \<longrightarrow> events_ok (soc_events s')) \<and>
       s' = s\<lparr>soc_events := soc_events s'\<rparr>))"
proof (cases "normalize_event env d raw f")
  case (Inl e)
  with assms show ?thesis by (auto simp: insert_event_def)
next
  case (Inr row)
  show ?thesis
  proof (cases "ev_raw_event_hash row \<in> ev_raw_event_hash ` set (soc_events s)")
    case True
    with Inr assms show ?thesis by (auto simp: insert_event_def)
  next
    case False
    let ?row = "row\<lparr>ev_source_id := sid, ev_import_id := iid\<rparr>"
    have s': "out = Inr True" "s' = s\<lparr>soc_events := insert_row ev_id set_ev_id ?row (soc_events s)\<rparr>"
      using assms Inr False by (auto simp: insert_event_def)
    have "events_ok (soc_events s) \<Longrightarrow> events_ok (insert_row ev_id set_ev_id ?row (soc_events s))"
      using event_table.distinct_insert [of "soc_events s" ?row] False normalize_event_known [OF Inr]
      by (auto simp: events_ok_def insert_row_def set_ev_id_def)
    with s' show ?thesis by (auto simp: insert_row_def set_ev_id_def)
  qed
qed

definition import_progress :: "nat \<Rightarrow> nat \<Rightarrow> soc_db \<Rightarrow> nat \<Rightarrow> import_state \<Rightarrow> bool" where
  "import_progress sid iid s seen st \<longleftrightarrow>
     is_accepted st + is_rejected st = seen \<and> is_accepted st \<le> MAX_IMPORT_EVENTS \<and>
     length (is_errors st) \<le> 5 \<and> length (is_errors st) \<le> is_rejected st \<and>
     (\<exists>new. soc_events (is_db st) = soc_events s @ new \<and> length new = is_accepted st \<and>
        (\<forall>e \<in> set new. ev_source_id e = sid \<and> ev_import_id e = Some iid)) \<and>
     (events_ok (soc_events s) \<longrightarrow> events_ok (soc_events (is_db st))) \<and>
     is_db st = s\<lparr>soc_events := soc_events (is_db st)\<rparr>"

lemma complain_once_progress:
  "import_progress sid iid s seen st \<Longrightarrow> import_progress sid iid s (Suc seen) (complain_once m st)"
  by (auto simp: import_progress_def complain_once_def)

lemma import_row_progress:
  assumes st: "import_progress sid iid s seen st"
  shows "import_progress sid iid s (Suc seen) (import_row env sid iid ir st)"
proof -
  obtain index row where ir: "ir = (index, row)" by (cases ir)
  let ?i = "insert_event env sid (the (lr_data row)) (lr_raw row) (Some iid) None (is_db st)"
  obtain out s' where i: "?i = (out, s')" by (cases ?i)
  show ?thesis
  proof (cases "is_accepted st \<ge> MAX_IMPORT_EVENTS \<or> truthy (lr_error row) \<or> lr_data row = None")
    case True
    then show ?thesis using complain_once_progress [OF st] by (auto simp: import_row_def ir)
  next
    case False
    consider (accepted) "out = Inr True" | (other) "out \<noteq> Inr True" by blast
    then show ?thesis
    proof cases
      case accepted
      then obtain e where "soc_events s' = soc_events (is_db st) @ [e]" "ev_source_id e = sid"
        "ev_import_id e = Some iid" "events_ok (soc_events (is_db st)) \<longrightarrow> events_ok (soc_events s')"
        "s' = (is_db st)\<lparr>soc_events := soc_events s'\<rparr>"
        using insert_event_cases [OF i] by auto
      then have "import_progress sid iid s (Suc seen) (st\<lparr>is_db := s', is_accepted := is_accepted st + 1\<rparr>)"
        using st False by (auto simp: import_progress_def)
      with False accepted show ?thesis by (auto simp: import_row_def ir i)
    next
      case other
      then have "import_row env sid iid ir st = complain_once (line_message index ''normalization rejected'') st \<or>
          import_row env sid iid ir st = st\<lparr>is_rejected := is_rejected st + 1\<rparr>"
        using False by (auto simp: import_row_def ir i split: sum.splits bool.splits)
      then show ?thesis
        using complain_once_progress [OF st] st by (auto simp: import_progress_def)
    qed
  qed
qed

lemma import_rows_progress: "import_progress sid iid s (length rows) (import_rows env sid iid rows s)"
proof -
  have "import_progress sid iid s (seen + length xs) (fold (import_row env sid iid) xs st)"
    if "import_progress sid iid s seen st" for xs seen st
    using that
  proof (induction xs arbitrary: seen st)
    case (Cons x xs)
    from Cons.IH [OF import_row_progress [OF Cons.prems]] show ?case by simp
  qed simp
  from this [of 0 _ "zip [0..<length rows] rows"] show ?thesis
    by (simp add: import_rows_def import_progress_def)
qed

lemma find_row_replaced:
  "rid row = i \<Longrightarrow> find_row rid i (upd_row rid i (\<lambda>_. row) rows) = map_option (\<lambda>_. row) (find_row rid i rows)"
  by (induction rows) (auto simp: find_row_def upd_row_def)

lemma import_log_Inl_events:
  "import_log env parse_content sid file s = (Inl e, s') \<Longrightarrow> soc_events s' = soc_events s"
  by (auto simp: import_log_def Let_def split: sum.splits option.splits)

lemma import_log_returns:
  assumes "get_source s sid = Inr source" "import_refusal source file = None" "up_text file = Some contents"
  shows "\<exists>r s'. import_log env parse_content sid file s = (Inr r, s') \<and>
    li_total_lines r = length (parse_content (sl_parser_type source) contents)"
  by (simp add: import_log_def assms Let_def completed_import_def)

text \<open>C36. The books of an import balance, whatever the log parsers return. A completed import records
every parsed row as accepted or rejected and accepts at most 10000; the event table grows by
exactly the accepted events, all of the given source and of this import, with distinct content
hashes and normalised outcomes, types and severities; the counter of the source grows by the
same number; and the recorded import is the returned one. A refused import adds no event.\<close>

theorem import_log_accounts:
  assumes run: "import_log env parse_content sid file s = (out, s')"
    and ok: "events_ok (soc_events s)"
  shows "case out of
      Inl e \<Rightarrow> soc_events s' = soc_events s
    | Inr r \<Rightarrow>
        li_status r = ''completed'' \<and> li_accepted_events r + li_rejected_events r = li_total_lines r \<and>
        li_accepted_events r \<le> 10000 \<and> events_ok (soc_events s') \<and>
        (\<exists>new. soc_events s' = soc_events s @ new \<and> length new = li_accepted_events r \<and>
           (\<forall>e \<in> set new. ev_source_id e = sid \<and> ev_import_id e = Some (li_id r))) \<and>
        (\<exists>source. find_row sl_id sid (log_sources s) = Some source \<and>
           map_option sl_event_count (find_row sl_id sid (log_sources s')) =
             Some (sl_event_count source + li_accepted_events r)) \<and>
        find_row li_id (li_id r) (log_imports s') = Some r"
proof (cases out)
  case (Inl e)
  with run show ?thesis using import_log_Inl_events by auto
next
  case (Inr r)
  obtain source where src: "get_source s sid = Inr source"
    using run Inr by (auto simp: import_log_def split: sum.splits)
  have no: "import_refusal source file = None"
    using run Inr src by (auto simp: import_log_def split: option.splits)
  obtain contents where t: "up_text file = Some contents"
    using run Inr src no by (auto simp: import_log_def Let_def split: option.splits)
  let ?i = "next_id li_id (log_imports s)"
  let ?r0 = "started_import env sid file ?i"
  let ?s1 = "s\<lparr>log_imports := insert_row li_id set_li_id ?r0 (log_imports s)\<rparr>"
  let ?rows = "parse_content (sl_parser_type source) contents"
  let ?st = "import_rows env sid ?i ?rows ?s1"
  note p = import_rows_progress [of sid ?i ?s1 ?rows env, unfolded import_progress_def]
  then have frame: "is_db ?st = ?s1\<lparr>soc_events := soc_events (is_db ?st)\<rparr>" by blast
  have same: "log_imports (is_db ?st) = log_imports ?s1" "log_sources (is_db ?st) = log_sources s"
    by (subst frame, simp)+
  let ?inc = "\<lambda>x. x\<lparr>sl_event_count := sl_event_count x + is_accepted ?st,
              sl_last_ingested_at := Some (sx_now env), sl_updated_at := sx_now env\<rparr>"
  have r: "r = completed_import env (length ?rows) ?st ?r0"
    and ev: "soc_events s' = soc_events (is_db ?st)"
    and li: "log_imports s' = upd_row li_id ?i (\<lambda>_. r) (log_imports ?s1)"
    and sl: "log_sources s' = upd_row sl_id sid ?inc (log_sources s)"
    using run Inr src no t same
    by (auto simp: import_log_def Let_def soc_add_activity_def soc_notify_def)
  have rs: "li_id r = ?i" "li_status r = ''completed''" "li_total_lines r = length ?rows"
    "li_accepted_events r = is_accepted ?st" "li_rejected_events r = is_rejected ?st"
    by (simp_all add: r completed_import_def started_import_def)
  have "find_row li_id (li_id r) (log_imports s') = Some r"
    unfolding li rs(1) by (subst find_row_replaced [of li_id r, OF rs(1)]) (simp add: import_table.find_inserted)
  moreover have "find_row sl_id sid (log_sources s) = Some source"
    using src by (simp add: get_source_def split: option.splits)
  moreover from this have "map_option sl_event_count (find_row sl_id sid (log_sources s')) =
      Some (sl_event_count source + li_accepted_events r)"
    unfolding sl by (subst find_row_upd_row) (simp_all add: rs)
  ultimately show ?thesis
    using p ok by (simp add: Inr rs ev MAX_IMPORT_EVENTS_def)
qed

definition feed_source :: soc_log_source where
  "feed_source = \<lparr>sl_id = 7, sl_name = ''edge'', sl_description = None, sl_source_type = ''web_server'',
     sl_parser_type = ''jsonl'', sl_enabled = True, sl_event_count = 3, sl_last_ingested_at = None,
     sl_created_at = seconds 0, sl_updated_at = seconds 0\<rparr>"

definition feed_env :: soc_env where
  "feed_env = \<lparr>sx_now = seconds 0, sx_sha256_hex = (\<lambda>s. s), sx_fromisoformat = (\<lambda>_. None),
     sx_strptime_access = (\<lambda>_. None), sx_strptime_syslog = (\<lambda>_ _. None), sx_strptime_plain = (\<lambda>_. None),
     sx_float_value = (\<lambda>_. NaN)\<rparr>"

definition feed_file :: upload where
  "feed_file = \<lparr>up_filename = Some ''edge.jsonl'', up_content = ''{}'', up_text = Some ''{}''\<rparr>"

lemma feed_names:
  "upload_name feed_file = ''edge.jsonl''" "path_name ''edge.jsonl'' = ''edge.jsonl''"
  "casefold (path_suffix ''edge.jsonl'') = ''.jsonl''" "sl_parser_type feed_source = ''jsonl''"
  "map_of EXTENSIONS ''jsonl'' = Some [''.jsonl'', ''.ndjson'']"
  by code_simp+

lemma feed_refusal: "import_refusal feed_source feed_file = None"
  by (simp add: import_refusal_def Let_def feed_names MAX_UPLOAD_BYTES_def) (simp add: feed_file_def)

lemma import_log_accounts_witness:
  "\<exists>r s'. import_log feed_env (\<lambda>_ _. [\<lparr>lr_data = Some [], lr_raw = ''{}'', lr_error = None\<rparr>]) 7 feed_file
       (empty_soc_db\<lparr>log_sources := [feed_source]\<rparr>) = (Inr r, s') \<and>
     li_accepted_events r + li_rejected_events r = 1 \<and> length (soc_events s') = li_accepted_events r"
proof -
  let ?s = "empty_soc_db\<lparr>log_sources := [feed_source]\<rparr>"
  let ?p = "\<lambda>_ _. [\<lparr>lr_data = Some [], lr_raw = ''{}'', lr_error = None\<rparr>]"
  have f: "find_row sl_id 7 (log_sources ?s) = Some feed_source"
    by (simp add: find_row_def feed_source_def)
  have g: "get_source ?s 7 = Inr feed_source" using f by (simp add: get_source_def)
  have u: "up_text feed_file = Some ''{}''" by (simp add: feed_file_def)
  obtain r s' where run: "import_log feed_env ?p 7 feed_file ?s = (Inr r, s')" and o: "li_total_lines r = 1"
    using import_log_returns [OF g feed_refusal u, of feed_env ?p] by (simp only: list.size) auto
  have "events_ok (soc_events ?s)" by (simp add: events_ok_def empty_soc_db_def)
  note claim = import_log_accounts [OF run this]
  have "li_accepted_events r + li_rejected_events r = 1" using claim o by simp
  moreover obtain new where "soc_events s' = soc_events ?s @ new" "length new = li_accepted_events r"
    using claim by (simp only: sum.case) blast
  ultimately have "length (soc_events s') = li_accepted_events r" by (simp add: empty_soc_db_def)
  with run \<open>li_accepted_events r + li_rejected_events r = 1\<close> show ?thesis by blast
qed

end
