(* ===== verification/Detect_Condition.thy ===== *)
theory Detect_Condition
  imports Net_Address Soc_Redaction "HOL-Library.Multiset"
begin

text \<open>
  The condition language of detection rules (\<open>detection_engineering/evaluator.py\<close>): the tokens of a
  condition, and the recursive-descent parser \<open>_parse_condition\<close>. The parser's shared position is
  the list of the tokens that are left; its loops are the functions \<open>disjuncts\<close> and \<open>conjuncts\<close>.
  Beside the parser stands the grammar of the language as inductive relations, indexed by the depth
  the parser counts. The lemmas show that the parser accepts exactly the sentences of the grammar
  and returns their tree, that every name it returns is a selection of the rule, and that a printed
  tree is read back.
\<close>

section \<open>Tokens\<close>

definition letter :: "char \<Rightarrow> bool" where
  "letter c \<longleftrightarrow> is_upper c \<or> is_lower c"

definition ident_char :: "char \<Rightarrow> bool" where
  "ident_char c \<longleftrightarrow> is_alnum c \<or> c \<in> {CHR ''_'', CHR ''*'', CHR ''-''}"

definition connective_words :: "string list" where
  "connective_words = [''and'', ''or'', ''not'', ''of'', ''all'']"

text \<open>
  The length of \<open>\b(?:and|or|not|of|all)\b\<close> at this position: a keyword starts with a word
  character, so the first boundary holds when the character before is not one.
\<close>

definition keyword_length :: "char option \<Rightarrow> string \<Rightarrow> nat" where
  "keyword_length prev s =
     (if (case prev of None \<Rightarrow> False | Some p \<Rightarrow> is_word p) then 0
      else case find (\<lambda>k. casefold (take (length k) s) = k \<and>
                          (case drop (length k) s of [] \<Rightarrow> True | c # _ \<Rightarrow> \<not> is_word c)) connective_words of
             None \<Rightarrow> 0
           | Some k \<Rightarrow> length k)"

definition match_length :: "char option \<Rightarrow> string \<Rightarrow> nat" where
  "match_length prev s =
     (case s of
        [] \<Rightarrow> 0
      | c # _ \<Rightarrow>
          if c = CHR ''('' \<or> c = CHR '')'' then 1
          else if 0 < keyword_length prev s then keyword_length prev s
          else if is_digit c then length (takeWhile is_digit s)
          else if letter c then length (takeWhile ident_char s)
          else 0)"

function tokens_from :: "char option \<Rightarrow> string \<Rightarrow> string list" where
  "tokens_from prev s =
     (case s of
        [] \<Rightarrow> []
      | c # cs \<Rightarrow>
          let n = match_length prev s in
          if n = 0 then tokens_from (Some c) cs
          else take n s # tokens_from (Some (s ! (n - 1))) (drop n s))"
  by auto
termination by (relation "measure (length \<circ> snd)") auto

declare tokens_from.simps [simp del]

lemma tokens_from_code [code]:
  "tokens_from prev [] = []"
  "tokens_from prev (c # cs) =
     (case match_length prev (c # cs) of
        0 \<Rightarrow> tokens_from (Some c) cs
      | Suc m \<Rightarrow> take (Suc m) (c # cs) # tokens_from (Some ((c # cs) ! m)) (drop m cs))"
  by (simp_all add: tokens_from.simps [of prev] Let_def split: nat.split)

definition condition_tokens :: "string \<Rightarrow> string list" where
  "condition_tokens condition = tokens_from None condition"


section \<open>The parser\<close>

datatype node =
    Or node node
  | And node node
  | Not node
  | Of string "string list"
  | Selection string

definition CONDITION_DEPTH :: nat where "CONDITION_DEPTH = 8"

text \<open>The three tokens of a pattern \<open>N of prefix*\<close>.\<close>

definition pattern_prefix :: "string \<Rightarrow> string" where
  "pattern_prefix p = (if endswith p ''*'' then butlast p else p)"

definition pattern_matches :: "string list \<Rightarrow> string \<Rightarrow> string list" where
  "pattern_matches names p = sort (filter (\<lambda>n. startswith n (pattern_prefix p)) names)"

definition is_pattern :: "string list \<Rightarrow> bool" where
  "is_pattern ts \<longleftrightarrow>
     (case ts of
        amount # connective # _ # _ \<Rightarrow>
          (all_digits amount \<or> casefold amount = ''all'') \<and> casefold connective = ''of''
      | _ \<Rightarrow> False)"

function expression :: "string list \<Rightarrow> nat \<Rightarrow> string list \<Rightarrow> (node \<times> string list) result"
  and disjuncts :: "string list \<Rightarrow> nat \<Rightarrow> node \<Rightarrow> string list \<Rightarrow> (node \<times> string list) result"
  and conjunction :: "string list \<Rightarrow> nat \<Rightarrow> string list \<Rightarrow> (node \<times> string list) result"
  and conjuncts :: "string list \<Rightarrow> nat \<Rightarrow> node \<Rightarrow> string list \<Rightarrow> (node \<times> string list) result"
  and unary :: "string list \<Rightarrow> nat \<Rightarrow> string list \<Rightarrow> (node \<times> string list) result"
where
  "expression names depth ts =
     (if depth > CONDITION_DEPTH then Inl (RuleValidationError ''Condition depth limit exceeded'')
      else case conjunction names (depth + 1) ts of
             Inl e \<Rightarrow> Inl e
           | Inr (node, rest) \<Rightarrow> disjuncts names depth node rest)"
| "disjuncts names depth node ts =
     (case ts of
        [] \<Rightarrow> Inr (node, [])
      | t # after \<Rightarrow>
          if casefold t = ''or''
          then (case conjunction names (depth + 1) after of
                  Inl e \<Rightarrow> Inl e
                | Inr (right, rest) \<Rightarrow> disjuncts names depth (Or node right) rest)
          else Inr (node, ts))"
| "conjunction names depth ts =
     (case unary names (depth + 1) ts of
        Inl e \<Rightarrow> Inl e
      | Inr (node, rest) \<Rightarrow> conjuncts names depth node rest)"
| "conjuncts names depth node ts =
     (case ts of
        [] \<Rightarrow> Inr (node, [])
      | t # after \<Rightarrow>
          if casefold t = ''and''
          then (case unary names (depth + 1) after of
                  Inl e \<Rightarrow> Inl e
                | Inr (right, rest) \<Rightarrow> conjuncts names depth (And node right) rest)
          else Inr (node, ts))"
| "unary names depth ts =
     (case ts of
        [] \<Rightarrow> Inl (RuleValidationError ''Incomplete condition'')
      | t # after \<Rightarrow>
          if casefold t = ''not''
          then (case unary names (depth + 1) after of
                  Inl e \<Rightarrow> Inl e
                | Inr (node, rest) \<Rightarrow> Inr (Not node, rest))
          else if t = ''(''
          then (case expression names (depth + 1) after of
                  Inl e \<Rightarrow> Inl e
                | Inr (node, rest) \<Rightarrow>
                    (case rest of
                       [] \<Rightarrow> Inl (RuleValidationError ''Unbalanced condition parentheses'')
                     | closing # rest' \<Rightarrow>
                         if closing \<noteq> '')'' then Inl (RuleValidationError ''Unbalanced condition parentheses'')
                         else Inr (node, rest')))
          else if is_pattern ts
          then (let matched = pattern_matches names (ts ! 2) in
                if matched = [] then Inl (RuleValidationError ''Condition wildcard references no selections'')
                else Inr (Of (casefold t) matched, drop 3 ts))
          else if t \<notin> set names
          then Inl (RuleValidationError (''Unknown selection in condition: '' @ t))
          else Inr (Selection t, after))"
  by pat_completeness auto

lemma parser_rest_partial:
  shows "expression_disjuncts_conjunction_conjuncts_unary_dom (Inl (Inl (names, depth, ts))) \<Longrightarrow>
           (\<And>n r. expression names depth ts = Inr (n, r) \<Longrightarrow> length r \<le> length ts)"
    and "expression_disjuncts_conjunction_conjuncts_unary_dom (Inl (Inr (names, depth, node, ts))) \<Longrightarrow>
           (\<And>n r. disjuncts names depth node ts = Inr (n, r) \<Longrightarrow> length r \<le> length ts)"
    and "expression_disjuncts_conjunction_conjuncts_unary_dom (Inr (Inl (names, depth, ts))) \<Longrightarrow>
           (\<And>n r. conjunction names depth ts = Inr (n, r) \<Longrightarrow> length r \<le> length ts)"
    and "expression_disjuncts_conjunction_conjuncts_unary_dom (Inr (Inr (Inl (names, depth, node, ts)))) \<Longrightarrow>
           (\<And>n r. conjuncts names depth node ts = Inr (n, r) \<Longrightarrow> length r \<le> length ts)"
    and "expression_disjuncts_conjunction_conjuncts_unary_dom (Inr (Inr (Inr (names, depth, ts)))) \<Longrightarrow>
           (\<And>n r. unary names depth ts = Inr (n, r) \<Longrightarrow> length r \<le> length ts)"
proof (induction rule: expression_disjuncts_conjunction_conjuncts_unary.pinduct)
  case (1 names depth ts)
  then show ?case by (fastforce simp: expression.psimps split: if_splits sum.splits)
next
  case (2 names depth node ts)
  then show ?case by (fastforce simp: disjuncts.psimps split: if_splits sum.splits list.splits)
next
  case (3 names depth ts)
  then show ?case by (fastforce simp: conjunction.psimps split: if_splits sum.splits)
next
  case (4 names depth node ts)
  then show ?case by (fastforce simp: conjuncts.psimps split: if_splits sum.splits list.splits)
next
  case (5 names depth ts)
  then show ?case by (fastforce simp: unary.psimps Let_def split: if_splits sum.splits list.splits)
qed

definition parser_measure where
  "parser_measure x = (case x of
      Inl (Inl (names, depth, ts)) \<Rightarrow> 3 * length ts + 2
    | Inl (Inr (names, depth, node, ts)) \<Rightarrow> 3 * length ts
    | Inr (Inl (names, depth, ts)) \<Rightarrow> 3 * length ts + 1
    | Inr (Inr (Inl (names, depth, node, ts))) \<Rightarrow> 3 * length ts
    | Inr (Inr (Inr (names, depth, ts))) \<Rightarrow> 3 * length ts)"

termination expression
  by (relation "measure parser_measure")
    (auto simp: parser_measure_def dest!: parser_rest_partial)

declare expression.simps [simp del] disjuncts.simps [simp del] conjunction.simps [simp del]
  conjuncts.simps [simp del] unary.simps [simp del]

text \<open>\<open>_parse_condition\<close>.\<close>

definition parse_tokens :: "string list \<Rightarrow> string list \<Rightarrow> node result" where
  "parse_tokens names ts =
     (case expression names 0 ts of
        Inl e \<Rightarrow> Inl e
      | Inr (tree, rest) \<Rightarrow> if rest \<noteq> [] then Inl (RuleValidationError ''Malformed condition'') else Inr tree)"

definition parse_condition :: "string \<Rightarrow> string list \<Rightarrow> node result" where
  "parse_condition condition names =
     (let ts = condition_tokens condition in
      if casefold (concat ts) \<noteq> casefold (filter (\<lambda>c. \<not> py_isspace c) condition)
      then Inl (RuleValidationError ''Condition contains unsupported syntax'')
      else parse_tokens names ts)"


section \<open>The grammar\<close>

text \<open>
  A word that may stand as a selection: it opens neither a negation nor a bracket. The numbers are
  the depths the parser passes down; only an expression is checked against the limit.
\<close>

definition plain_word :: "string \<Rightarrow> bool" where
  "plain_word t \<longleftrightarrow> casefold t \<noteq> ''not'' \<and> t \<noteq> ''(''"

inductive disjunction_of :: "string list \<Rightarrow> nat \<Rightarrow> node \<Rightarrow> string list \<Rightarrow> bool"
  and conjunction_of :: "string list \<Rightarrow> nat \<Rightarrow> node \<Rightarrow> string list \<Rightarrow> bool"
  and unary_of :: "string list \<Rightarrow> nat \<Rightarrow> node \<Rightarrow> string list \<Rightarrow> bool"
  for names :: "string list"
where
  single_or: "d \<le> CONDITION_DEPTH \<Longrightarrow> conjunction_of names (d + 1) n w \<Longrightarrow> disjunction_of names d n w"
| more_or: "disjunction_of names d a v \<Longrightarrow> casefold t = ''or'' \<Longrightarrow> conjunction_of names (d + 1) b w \<Longrightarrow>
     disjunction_of names d (Or a b) (v @ t # w)"
| single_and: "unary_of names (d + 1) n w \<Longrightarrow> conjunction_of names d n w"
| more_and: "conjunction_of names d a v \<Longrightarrow> casefold t = ''and'' \<Longrightarrow> unary_of names (d + 1) b w \<Longrightarrow>
     conjunction_of names d (And a b) (v @ t # w)"
| negation: "casefold t = ''not'' \<Longrightarrow> unary_of names (d + 1) n w \<Longrightarrow> unary_of names d (Not n) (t # w)"
| bracket: "disjunction_of names (d + 1) n w \<Longrightarrow> unary_of names d n (''('' # w @ ['')''])"
| quantified: "plain_word amount \<Longrightarrow> is_pattern [amount, connective, p] \<Longrightarrow> pattern_matches names p \<noteq> [] \<Longrightarrow>
     unary_of names d (Of (casefold amount) (pattern_matches names p)) [amount, connective, p]"
| selected: "t \<in> set names \<Longrightarrow> plain_word t \<Longrightarrow> unary_of names d (Selection t) [t]"

text \<open>What may follow a complete expression, and a complete conjunction or unary.\<close>

definition follow_expression :: "string list \<Rightarrow> bool" where
  "follow_expression r \<longleftrightarrow> (case r of [] \<Rightarrow> True | t # _ \<Rightarrow> casefold t = ''or'' \<or> t = '')'')"

definition follow_unary :: "string list \<Rightarrow> bool" where
  "follow_unary r \<longleftrightarrow> (case r of [] \<Rightarrow> True | t # _ \<Rightarrow> casefold t \<in> {''or'', ''and''} \<or> t = '')'')"

lemma casefold_paren [simp]: "casefold '')'' = '')''" "casefold ''('' = ''(''"
  by code_simp+

lemma follow_weaken [intro]: "follow_expression r \<Longrightarrow> follow_unary r"
  by (auto simp: follow_expression_def follow_unary_def split: list.splits)

lemma is_pattern_append: "is_pattern [a, b, c] \<Longrightarrow> is_pattern (a # b # c # r)"
  by (simp add: is_pattern_def)

lemma not_pattern_at_end: "follow_unary r \<Longrightarrow> \<not> is_pattern (t # r)"
  by (auto simp: is_pattern_def follow_unary_def split: list.splits)

lemma conjuncts_stop: "follow_expression r \<Longrightarrow> conjuncts names d n r = Inr (n, r)"
  by (auto simp: follow_expression_def conjuncts.simps split: list.splits)

lemma disjuncts_stop: "follow_unary r \<Longrightarrow> r = [] \<or> hd r = '')'' \<Longrightarrow> disjuncts names d n r = Inr (n, r)"
  by (auto simp: disjuncts.simps split: list.splits)

subsection \<open>Every sentence is accepted_form\<close>

lemma parser_complete:
  "disjunction_of names d n w \<Longrightarrow>
     (\<forall>r. follow_expression r \<longrightarrow> expression names d (w @ r) = disjuncts names d n r)"
  "conjunction_of names d n w \<Longrightarrow>
     (\<forall>r. follow_unary r \<longrightarrow> conjunction names d (w @ r) = conjuncts names d n r)"
  "unary_of names d n w \<Longrightarrow> (\<forall>r. follow_unary r \<longrightarrow> unary names d (w @ r) = Inr (n, r))"
proof (induction rule: disjunction_of_conjunction_of_unary_of.inducts)
  case (single_or d n w)
  then show ?case by (auto simp: expression.simps conjuncts_stop)
next
  case (more_or d a v t b w)
  show ?case
  proof (intro allI impI)
    fix r assume r: "follow_expression r"
    have "follow_expression (t # w @ r)" using more_or.hyps by (simp add: follow_expression_def)
    then have "expression names d ((v @ t # w) @ r) = disjuncts names d a (t # w @ r)" using more_or.IH by simp
    also have "\<dots> = disjuncts names d (Or a b) r"
      using more_or.IH more_or.hyps r by (subst disjuncts.simps) (auto simp: conjuncts_stop)
    finally show "expression names d ((v @ t # w) @ r) = disjuncts names d (Or a b) r" .
  qed
next
  case (single_and d n w)
  then show ?case by (auto simp: conjunction.simps)
next
  case (more_and d a v t b w)
  show ?case
  proof (intro allI impI)
    fix r assume r: "follow_unary r"
    have "follow_unary (t # w @ r)" using more_and.hyps by (simp add: follow_unary_def)
    then have "conjunction names d ((v @ t # w) @ r) = conjuncts names d a (t # w @ r)" using more_and.IH by simp
    also have "\<dots> = conjuncts names d (And a b) r"
      using more_and.IH more_and.hyps r by (subst conjuncts.simps) auto
    finally show "conjunction names d ((v @ t # w) @ r) = conjuncts names d (And a b) r" .
  qed
next
  case (negation t d n w)
  then show ?case by (auto simp: unary.simps [of _ _ "t # _"])
next
  case (bracket d n w)
  show ?case
  proof (intro allI impI)
    fix r :: "string list" assume "follow_unary r"
    have "follow_expression ('')'' # r)" by (simp add: follow_expression_def)
    then have "expression names (d + 1) (w @ '')'' # r) = disjuncts names (d + 1) n ('')'' # r)"
      using bracket.IH by blast
    also have "\<dots> = Inr (n, '')'' # r)" by (simp add: disjuncts.simps)
    finally show "unary names d ((''('' # w @ ['')'']) @ r) = Inr (n, r)"
      by (simp add: unary.simps [of _ _ "''('' # _"])
  qed
next
  case (quantified amount connective p d)
  then show ?case
    by (auto simp: unary.simps [of _ _ "amount # _"] plain_word_def is_pattern_append)
next
  case (selected t d)
  then show ?case
    by (auto simp: unary.simps [of _ _ "t # _"] plain_word_def dest!: not_pattern_at_end)
qed


subsection \<open>Only sentences are accepted_form\<close>

lemma parser_sound:
  "expression names d ts = Inr (n, r) \<Longrightarrow> \<exists>w. ts = w @ r \<and> disjunction_of names d n w"
  "disjuncts names d node ts = Inr (n, r) \<Longrightarrow> disjunction_of names d node v \<Longrightarrow>
     \<exists>w. ts = w @ r \<and> disjunction_of names d n (v @ w)"
  "conjunction names d ts = Inr (n, r) \<Longrightarrow> \<exists>w. ts = w @ r \<and> conjunction_of names d n w"
  "conjuncts names d node ts = Inr (n, r) \<Longrightarrow> conjunction_of names d node v \<Longrightarrow>
     \<exists>w. ts = w @ r \<and> conjunction_of names d n (v @ w)"
  "unary names d ts = Inr (n, r) \<Longrightarrow> \<exists>w. ts = w @ r \<and> unary_of names d n w"
proof (induction names d ts and names d node ts and names d ts and names d node ts and names d ts
    arbitrary: n r and v n r and n r and v n r and n r
    rule: expression_disjuncts_conjunction_conjuncts_unary.induct)
  case (1 names d ts)
  from "1.prems" obtain m s where c: "conjunction names (d + 1) ts = Inr (m, s)" "d \<le> CONDITION_DEPTH"
    and dj: "disjuncts names d m s = Inr (n, r)"
    by (auto simp: expression.simps split: if_splits sum.splits)
  from c "1.IH"(1) obtain w where w: "ts = w @ s" "conjunction_of names (d + 1) m w" by force
  with c(2) have "disjunction_of names d m w" by (blast intro: single_or)
  with "1.IH"(2) [of "(m, s)" m s n r w] c dj obtain w' where "s = w' @ r" "disjunction_of names d n (w @ w')"
    by auto
  with w show ?case by auto
next
  case (2 names d node ts)
  show ?case
  proof (cases "\<exists>t after. ts = t # after \<and> casefold t = ''or''")
    case False
    with "2.prems" have "n = node" "r = ts" by (auto simp: disjuncts.simps split: list.splits if_splits)
    with "2.prems" show ?thesis by auto
  next
    case True
    then obtain t after where t: "ts = t # after" "casefold t = ''or''" by blast
    with "2.prems" obtain b s where c: "conjunction names (d + 1) after = Inr (b, s)"
      and dj: "disjuncts names d (Or node b) s = Inr (n, r)"
      by (auto simp: disjuncts.simps [of names d node "t # after"] split: sum.splits)
    from c t "2.IH"(1) obtain w where w: "after = w @ s" "conjunction_of names (d + 1) b w" by blast
    with t "2.prems" have g: "disjunction_of names d (Or node b) (v @ t # w)" by (blast intro: more_or)
    from "2.IH"(2) [OF t(1) t(2) c refl dj g] obtain w' where
      "s = w' @ r" "disjunction_of names d n ((v @ t # w) @ w')" by auto
    with w t show ?thesis by auto
  qed
next
  case (3 names d ts)
  from "3.prems" obtain m s where c: "unary names (d + 1) ts = Inr (m, s)"
    and dj: "conjuncts names d m s = Inr (n, r)"
    by (auto simp: conjunction.simps split: sum.splits)
  from c "3.IH"(1) obtain w where w: "ts = w @ s" "unary_of names (d + 1) m w" by force
  then have "conjunction_of names d m w" by (blast intro: single_and)
  from "3.IH"(2) [OF c refl dj this] obtain w' where "s = w' @ r" "conjunction_of names d n (w @ w')"
    by auto
  with w show ?case by auto
next
  case (4 names d node ts)
  show ?case
  proof (cases "\<exists>t after. ts = t # after \<and> casefold t = ''and''")
    case False
    with "4.prems" have "n = node" "r = ts" by (auto simp: conjuncts.simps split: list.splits if_splits)
    with "4.prems" show ?thesis by auto
  next
    case True
    then obtain t after where t: "ts = t # after" "casefold t = ''and''" by blast
    with "4.prems" obtain b s where c: "unary names (d + 1) after = Inr (b, s)"
      and dj: "conjuncts names d (And node b) s = Inr (n, r)"
      by (auto simp: conjuncts.simps [of names d node "t # after"] split: sum.splits)
    from c t "4.IH"(1) obtain w where w: "after = w @ s" "unary_of names (d + 1) b w" by blast
    with t "4.prems" have g: "conjunction_of names d (And node b) (v @ t # w)" by (blast intro: more_and)
    from "4.IH"(2) [OF t(1) t(2) c refl dj g] obtain w' where
      "s = w' @ r" "conjunction_of names d n ((v @ t # w) @ w')" by auto
    with w t show ?thesis by auto
  qed
next
  case (5 names d ts)
  show ?case
  proof (cases ts)
    case Nil
    with "5.prems" show ?thesis by (simp add: unary.simps)
  next
    case (Cons t after)
    consider (neg) "casefold t = ''not''" | (paren) "casefold t \<noteq> ''not''" "t = ''(''"
      | (pattern) "plain_word t" "is_pattern (t # after)" | (name) "plain_word t" "\<not> is_pattern (t # after)"
      unfolding plain_word_def by blast
    then show ?thesis
    proof cases
      case neg
      with Cons "5.prems" obtain m where m: "unary names (d + 1) after = Inr (m, r)" "n = Not m"
        by (auto simp: unary.simps [of names d "t # after"] split: sum.splits)
      with Cons neg "5.IH"(1) obtain w where "after = w @ r" "unary_of names (d + 1) m w" by blast
      with neg m Cons show ?thesis by (intro exI [of _ "t # w"]) (auto intro: negation)
    next
      case paren
      with Cons "5.prems" obtain s where m: "expression names (d + 1) after = Inr (n, s)" "s = '')'' # r"
        by (auto simp: unary.simps [of names d "''('' # after"] split: sum.splits list.splits if_splits)
      with Cons paren "5.IH"(2) obtain w where "after = w @ s" "disjunction_of names (d + 1) n w" by blast
      with paren m Cons show ?thesis by (intro exI [of _ "''('' # w @ ['')'']"]) (auto intro: bracket)
    next
      case pattern
      then obtain connective p rest where a: "after = connective # p # rest"
        by (auto simp: is_pattern_def split: list.splits)
      with pattern have s: "is_pattern [t, connective, p]" by (simp add: is_pattern_def)
      from pattern a Cons "5.prems" have "pattern_matches names p \<noteq> []" "r = rest"
          "n = Of (casefold t) (pattern_matches names p)"
        by (auto simp: unary.simps [of names d "t # connective # p # rest"] plain_word_def Let_def split: if_splits)
      with s pattern a Cons show ?thesis
        by (intro exI [of _ "[t, connective, p]"]) (auto intro: quantified)
    next
      case name
      with Cons "5.prems" have "t \<in> set names" "n = Selection t" "r = after"
        by (auto simp: unary.simps [of names d "t # after"] plain_word_def split: if_splits)
      with name Cons show ?thesis by (intro exI [of _ "[t]"]) (auto intro: selected)
    qed
  qed
qed

lemma expression_depth: "disjunction_of names d n w \<Longrightarrow> d \<le> CONDITION_DEPTH"
  "conjunction_of names d n w \<Longrightarrow> True" "unary_of names d n w \<Longrightarrow> True"
  by (induction rule: disjunction_of_conjunction_of_unary_of.inducts) auto

lemma parse_tokens_iff: "parse_tokens names ts = Inr tree \<longleftrightarrow> disjunction_of names 0 tree ts"
proof
  assume "parse_tokens names ts = Inr tree"
  then have "expression names 0 ts = Inr (tree, [])"
    by (auto simp: parse_tokens_def split: sum.splits if_splits)
  with parser_sound(1) show "disjunction_of names 0 tree ts" by fastforce
next
  assume "disjunction_of names 0 tree ts"
  then have "\<forall>r. follow_expression r \<longrightarrow> expression names 0 (ts @ r) = disjuncts names 0 tree r"
    by (rule parser_complete)
  moreover have "follow_expression []" by (simp add: follow_expression_def)
  ultimately have "expression names 0 (ts @ []) = disjuncts names 0 tree []" by blast
  also have "\<dots> = Inr (tree, [])" by (simp add: disjuncts.simps)
  finally show "parse_tokens names ts = Inr tree" by (simp add: parse_tokens_def)
qed


section \<open>The names of a tree\<close>

fun tree_names :: "node \<Rightarrow> string list" where
  "tree_names (Or a b) = tree_names a @ tree_names b"
| "tree_names (And a b) = tree_names a @ tree_names b"
| "tree_names (Not a) = tree_names a"
| "tree_names (Of amount matched) = matched"
| "tree_names (Selection t) = [t]"

lemma grammar_names:
  "disjunction_of names d n w \<Longrightarrow> set (tree_names n) \<subseteq> set names"
  "conjunction_of names d n w \<Longrightarrow> set (tree_names n) \<subseteq> set names"
  "unary_of names d n w \<Longrightarrow> set (tree_names n) \<subseteq> set names"
  by (induction rule: disjunction_of_conjunction_of_unary_of.inducts) (auto simp: pattern_matches_def)

lemma parse_condition_grammar:
  "parse_condition condition names = Inr tree \<Longrightarrow> disjunction_of names 0 tree (condition_tokens condition)"
  by (simp add: parse_condition_def Let_def parse_tokens_iff split: if_splits)

lemma parse_condition_names: "parse_condition condition names = Inr tree \<Longrightarrow> set (tree_names tree) \<subseteq> set names"
  by (blast dest: parse_condition_grammar grammar_names(1))

text \<open>The parser looks at the set of the names only.\<close>

lemma pattern_matches_cong:
  "set names = set names' \<Longrightarrow> distinct names \<Longrightarrow> distinct names' \<Longrightarrow>
     pattern_matches names p = pattern_matches names' p"
  unfolding pattern_matches_def
  by (rule sorted_distinct_set_unique) auto

lemma grammar_cong:
  assumes "set names = set names'" "\<And>p. pattern_matches names p = pattern_matches names' p"
  shows "disjunction_of names d n w \<Longrightarrow> disjunction_of names' d n w"
    and "conjunction_of names d n w \<Longrightarrow> conjunction_of names' d n w"
    and "unary_of names d n w \<Longrightarrow> unary_of names' d n w"
proof (induction rule: disjunction_of_conjunction_of_unary_of.inducts)
  case (quantified amount connective p d)
  then show ?case
    using disjunction_of_conjunction_of_unary_of.quantified [of amount connective p names' d] assms(2) by simp
qed (auto intro: disjunction_of_conjunction_of_unary_of.intros simp: assms(1))

lemma parse_condition_agree:
  assumes "set names = set names'" "\<And>p. pattern_matches names p = pattern_matches names' p"
  shows "parse_condition condition names = Inr tree \<longleftrightarrow> parse_condition condition names' = Inr tree"
  using grammar_cong(1) [OF assms] grammar_cong(1) [OF assms(1) [symmetric] assms(2) [symmetric]]
  by (auto simp: parse_condition_def Let_def parse_tokens_iff)

lemma parse_condition_cong:
  assumes "set names = set names'" "distinct names" "distinct names'"
  shows "parse_condition condition names = Inr tree \<longleftrightarrow> parse_condition condition names' = Inr tree"
  using assms by (intro parse_condition_agree pattern_matches_cong)

lemma parse_condition_perm:
  assumes "mset names = mset names'"
  shows "parse_condition condition names = Inr tree \<longleftrightarrow> parse_condition condition names' = Inr tree"
proof (rule parse_condition_agree)
  show "set names = set names'" using assms by (metis set_mset_mset)
  show "pattern_matches names p = pattern_matches names' p" for p
    unfolding pattern_matches_def by (rule properties_for_sort) (simp_all add: mset_filter assms)
qed


section \<open>Printing a tree\<close>

definition bracketed :: "bool \<Rightarrow> string list \<Rightarrow> string list" where
  "bracketed b ts = (if b then ''('' # ts @ ['')''] else ts)"

text \<open>
  The words of a tree with the brackets its shape needs: at level 0 a disjunction stands as it is, at
  level 1 a conjunction, at level 2 only a negation or a name.
\<close>

fun words :: "nat \<Rightarrow> node \<Rightarrow> string list" where
  "words p (Or a b) = bracketed (p > 0) (words 0 a @ ''or'' # words 1 b)"
| "words p (And a b) = bracketed (p > 1) (words 1 a @ ''and'' # words 2 b)"
| "words p (Not a) = ''not'' # words 2 a"
| "words p (Selection t) = [t]"
| "words p (Of amount matched) = []"

text \<open>
  The tree names selections only, and printed at a level and a depth of the grammar it stays within
  the limit of the brackets.
\<close>

fun printable :: "string list \<Rightarrow> nat \<Rightarrow> nat \<Rightarrow> node \<Rightarrow> bool" where
  "printable names p d (Or a b) =
     (let e = (if p = 0 then d else if p = 1 then d + 2 else d + 1) in
      e \<le> CONDITION_DEPTH \<and> printable names 0 e a \<and> printable names 1 (e + 1) b)"
| "printable names p d (And a b) =
     (let c = (if p = 0 then d + 1 else if p = 1 then d else d + 2) in
      (p = 0 \<longrightarrow> d \<le> CONDITION_DEPTH) \<and> (p > 1 \<longrightarrow> d + 1 \<le> CONDITION_DEPTH) \<and>
      printable names 1 c a \<and> printable names 2 (c + 1) b)"
| "printable names p d (Not a) =
     (let u = (if p = 0 then d + 2 else if p = 1 then d + 1 else d) in
      (p = 0 \<longrightarrow> d \<le> CONDITION_DEPTH) \<and> printable names 2 (u + 1) a)"
| "printable names p d (Selection t) =
     ((p = 0 \<longrightarrow> d \<le> CONDITION_DEPTH) \<and> t \<in> set names \<and> plain_word t)"
| "printable names p d (Of amount matched) = False"

lemma casefold_connectives: "casefold ''or'' = ''or''" "casefold ''and'' = ''and''" "casefold ''not'' = ''not''"
  by code_simp+

lemma words_grammar:
  "printable names p d n \<Longrightarrow>
     (p = 0 \<longrightarrow> disjunction_of names d n (words p n)) \<and>
     (p = 1 \<longrightarrow> conjunction_of names d n (words p n)) \<and>
     (p > 1 \<longrightarrow> unary_of names d n (words p n))"
proof (induction names p d n rule: printable.induct)
  case (1 names p d a b)
  define e where "e = (if p = 0 then d else if p = 1 then d + 2 else d + 1)"
  have "e \<le> CONDITION_DEPTH" "printable names 0 e a" "printable names 1 (e + 1) b"
    using "1.prems" by (simp_all add: e_def Let_def)
  with "1.IH" [OF e_def] have o: "disjunction_of names e (Or a b) (words 0 a @ ''or'' # words 1 b)"
    by (intro more_or) (auto simp: casefold_connectives)
  then have u: "unary_of names u (Or a b) (''('' # (words 0 a @ ''or'' # words 1 b) @ ['')''])" if "u + 1 = e" for u
    using that bracket by blast
  show ?case using o u [of d] single_and [OF u [of "d + 1"]]
    by (cases "p = 0"; cases "p = 1") (auto simp: e_def bracketed_def)
next
  case (2 names p d a b)
  define c where "c = (if p = 0 then d + 1 else if p = 1 then d else d + 2)"
  have pr: "printable names 1 c a" "printable names 2 (c + 1) b"
    using "2.prems" by (simp_all add: c_def Let_def)
  with "2.IH" [OF c_def] have o: "conjunction_of names c (And a b) (words 1 a @ ''and'' # words 2 b)"
    by (intro more_and) (auto simp: casefold_connectives)
  show ?case
  proof (cases "p = 0 \<or> p = 1")
    case True
    with o "2.prems" show ?thesis by (auto simp: c_def bracketed_def Let_def intro: single_or)
  next
    case False
    with "2.prems" o have "disjunction_of names (d + 1) (And a b) (words 1 a @ ''and'' # words 2 b)"
      by (intro single_or) (auto simp: c_def Let_def)
    then have "unary_of names d (And a b) (''('' # (words 1 a @ ''and'' # words 2 b) @ ['')''])" by (rule bracket)
    with False show ?thesis by (simp add: bracketed_def)
  qed
next
  case (3 names p d a)
  define u where "u = (if p = 0 then d + 2 else if p = 1 then d + 1 else d)"
  have "printable names 2 (u + 1) a" using "3.prems" by (simp add: u_def Let_def)
  with "3.IH" [OF u_def] have "unary_of names (u + 1) a (words 2 a)" by simp
  then have "unary_of names u (Not a) (''not'' # words 2 a)" by (auto intro: negation simp: casefold_connectives)
  with "3.prems" show ?case by (auto simp: u_def Let_def intro!: single_or single_and)
next
  case (4 names p d t)
  then show ?case by (auto intro!: single_or single_and selected)
next
  case (5 names p d amount matched)
  then show ?case by simp
qed

lemma words_nonempty: "printable names p d n \<Longrightarrow> words p n \<noteq> []"
  by (cases n) (auto simp: bracketed_def)


subsection \<open>Words separated by blanks\<close>

text \<open>A word that is one token.\<close>

definition single_token :: "string \<Rightarrow> bool" where
  "single_token t \<longleftrightarrow> condition_tokens t = [t]"

lemma tokens_length: "length (concat (tokens_from prev s)) \<le> length s"
proof (induction prev s rule: tokens_from.induct)
  case (1 prev s)
  then show ?case
    by (subst tokens_from.simps) (fastforce simp: Let_def split: list.splits)
qed

lemma keyword_lengthD:
  assumes "0 < keyword_length prev s"
  shows "casefold (take (keyword_length prev s) s) \<in> set connective_words \<and>
    length (take (keyword_length prev s) s) = keyword_length prev s"
proof -
  from assms obtain k where k: "k \<in> set connective_words" "casefold (take (length k) s) = k"
      "keyword_length prev s = length k"
    by (auto simp: keyword_length_def split: option.splits if_splits dest!: find_SomeD)
  then have "length (take (length k) s) = length k" by (metis length_casefold)
  with k show ?thesis by simp
qed

definition token_text :: "string \<Rightarrow> bool" where
  "token_text t \<longleftrightarrow> list_all (\<lambda>c. \<not> py_isspace c) t"

lemma letter_of_lower: "is_lower (lower_char c) \<Longrightarrow> is_alnum c"
  by (auto simp: lower_char_def is_alnum_def)

lemma connective_letters: "k \<in> set connective_words \<Longrightarrow> list_all is_lower k"
  by (auto simp: connective_words_def) code_simp+

lemma alnum_not_space: "is_alnum c \<Longrightarrow> \<not> py_isspace c"
  by (auto simp: is_alnum_def is_upper_def is_lower_def is_digit_def py_isspace_def Let_def)

lemma ident_not_space: "ident_char c \<Longrightarrow> \<not> py_isspace c"
  by (auto simp: ident_char_def alnum_not_space) code_simp+

lemma keyword_text: "casefold w \<in> set connective_words \<Longrightarrow> token_text w"
  using connective_letters [of "casefold w"]
  by (auto simp: casefold_def token_text_def list_all_iff) (metis alnum_not_space letter_of_lower)

lemma takeWhile_text: "(\<And>c. P c \<Longrightarrow> \<not> py_isspace c) \<Longrightarrow> token_text (takeWhile P s)"
  by (induction s) (auto simp: token_text_def)

lemma match_text: "token_text (take (match_length prev s) s) \<and> match_length prev s \<le> length s"
proof (cases s)
  case (Cons c cs)
  have p: "token_text [CHR ''('']" "token_text [CHR '')'']" by code_simp+
  have "take (length (takeWhile P xs)) xs = takeWhile P xs" for P and xs :: string by (metis takeWhile_eq_take)
  moreover have "token_text (takeWhile is_digit s)" "token_text (takeWhile ident_char s)"
    by (auto intro!: takeWhile_text simp: alnum_not_space ident_not_space is_alnum_def)
  moreover have "0 < keyword_length prev s \<Longrightarrow>
      token_text (take (keyword_length prev s) s) \<and> keyword_length prev s \<le> length s"
    using keyword_lengthD [of prev s] keyword_text by (metis length_take min.cobounded1)
  ultimately show ?thesis using Cons p
    by (auto simp: match_length_def token_text_def length_takeWhile_le)
qed (simp add: match_length_def token_text_def)

lemma single_tokenD:
  assumes t: "single_token t"
  shows "t \<noteq> [] \<and> match_length None t = length t \<and> token_text t"
proof -
  from t obtain c cs where c: "t = c # cs"
    by (cases t) (auto simp: single_token_def condition_tokens_def tokens_from.simps)
  have "match_length None t \<noteq> 0"
  proof
    assume "match_length None t = 0"
    with t c have "tokens_from (Some c) cs = [t]"
      by (simp add: single_token_def condition_tokens_def tokens_from.simps [of None])
    with tokens_length [of "Some c" cs] c show False by simp
  qed
  with t c have "take (match_length None t) t = t"
    by (simp add: single_token_def condition_tokens_def tokens_from.simps [of None] Let_def)
  with match_text [of None t] c show ?thesis by (metis length_take list.distinct(1) min.absorb2)
qed

lemma space_not: "\<not> is_word CHR '' ''" "\<not> is_digit CHR '' ''" "\<not> ident_char CHR '' ''" "py_isspace CHR '' ''"
  "lower_char CHR '' '' = CHR '' ''"
  by code_simp+

lemma keyword_length_blank: "keyword_length None (t @ CHR '' '' # r) = keyword_length None t"
proof -
  have "casefold (take (length k) (t @ CHR '' '' # r)) = k \<and>
          (case drop (length k) (t @ CHR '' '' # r) of [] \<Rightarrow> True | c # _ \<Rightarrow> \<not> is_word c) \<longleftrightarrow>
        casefold (take (length k) t) = k \<and> (case drop (length k) t of [] \<Rightarrow> True | c # _ \<Rightarrow> \<not> is_word c)"
    if "k \<in> set connective_words" for k
  proof (cases "length k \<le> length t")
    case True
    then show ?thesis by (auto simp: space_not split: list.splits)
  next
    case False
    have "CHR '' '' \<notin> set k" using that by (auto simp: connective_words_def)
    moreover have "CHR '' '' \<in> set (casefold (take (length k) (t @ CHR '' '' # r)))"
      using False space_not(5) by (cases "length k - length t") (auto simp: casefold_def)
    moreover have "casefold (take (length k) t) \<noteq> k" using False
      by (metis length_casefold length_take min.cobounded2 nat_le_linear take_all)
    ultimately show ?thesis by metis
  qed
  then have "find (\<lambda>k. casefold (take (length k) (t @ CHR '' '' # r)) = k \<and>
               (case drop (length k) (t @ CHR '' '' # r) of [] \<Rightarrow> True | c # _ \<Rightarrow> \<not> is_word c)) connective_words =
             find (\<lambda>k. casefold (take (length k) t) = k \<and>
               (case drop (length k) t of [] \<Rightarrow> True | c # _ \<Rightarrow> \<not> is_word c)) connective_words"
    by (intro find_cong) auto
  then show ?thesis by (simp add: keyword_length_def)
qed

lemma takeWhile_blank:
  "\<not> P CHR '' '' \<Longrightarrow> length (takeWhile P (t @ CHR '' '' # r)) = length (takeWhile P t)"
  by (induction t) auto

lemma match_length_blank:
  "t \<noteq> [] \<Longrightarrow> match_length None (t @ CHR '' '' # r) = match_length None t"
  by (cases t) (auto simp: match_length_def keyword_length_blank [of "_ # _", simplified]
      takeWhile_blank space_not)

lemma match_length_prev: "match_length (Some CHR '' '') s = match_length None s"
proof -
  have "keyword_length (Some CHR '' '') s = keyword_length None s"
    by (simp add: keyword_length_def space_not)
  then show ?thesis by (simp add: match_length_def split: list.split)
qed

lemma match_length_space: "match_length prev (CHR '' '' # r) = 0"
proof -
  have "keyword_length prev (CHR '' '' # r) = 0"
    by (auto simp: keyword_length_def connective_words_def casefold_def space_not)
  then show ?thesis using space_not by (simp add: match_length_def letter_def is_upper_def is_lower_def)
qed

definition separated :: "char option \<Rightarrow> bool" where
  "separated prev \<longleftrightarrow> prev = None \<or> prev = Some CHR '' ''"

lemma tokens_joined:
  "list_all single_token ts \<Longrightarrow> separated prev \<Longrightarrow> tokens_from prev (join '' '' ts) = ts"
proof (induction ts arbitrary: prev)
  case Nil
  then show ?case by (simp add: tokens_from.simps)
next
  case (Cons t ts)
  have t: "t \<noteq> []" "match_length None t = length t" using Cons.prems single_tokenD by auto
  have m: "match_length prev s = match_length None s" for s
    using Cons.prems(2) match_length_prev by (auto simp: separated_def)
  show ?case
  proof (cases ts)
    case Nil
    with t show ?thesis
      by (cases t) (simp_all add: tokens_from.simps [of prev] tokens_from.simps [of _ "[]"] m Let_def)
  next
    case (Cons u us)
    let ?r = "join '' '' ts"
    have j: "join '' '' (t # ts) = t @ CHR '' '' # ?r" using Cons by simp
    have "tokens_from prev (join '' '' (t # ts)) = t # tokens_from (Some (last t)) (CHR '' '' # ?r)"
      using t m [of "t @ CHR '' '' # ?r"] match_length_blank [of t ?r]
      unfolding j by (cases t) (simp_all add: tokens_from.simps [of prev] Let_def last_conv_nth nth_append)
    also have "tokens_from (Some (last t)) (CHR '' '' # ?r) = tokens_from (Some CHR '' '') ?r"
      by (subst tokens_from.simps) (simp add: match_length_space)
    also have "\<dots> = ts" using Cons.IH Cons.prems by (simp add: separated_def)
    finally show ?thesis .
  qed
qed

lemma join_no_blank: "list_all token_text ts \<Longrightarrow> filter (\<lambda>c. \<not> py_isspace c) (join '' '' ts) = concat ts"
proof (induction ts rule: induct_list012)
  case (3 t u us)
  then show ?case by (simp add: token_text_def list_all_iff space_not filter_id_conv)
qed (simp_all add: token_text_def list_all_iff filter_id_conv)

lemma parse_joined:
  assumes "list_all single_token ts"
  shows "parse_condition (join '' '' ts) names = parse_tokens names ts"
proof -
  have "condition_tokens (join '' '' ts) = ts"
    unfolding condition_tokens_def using assms by (rule tokens_joined) (simp add: separated_def)
  moreover have "list_all token_text ts" using assms single_tokenD by (auto simp: list_all_iff)
  ultimately show ?thesis by (simp add: parse_condition_def join_no_blank)
qed

lemma bracket_tokens: "single_token ''(''" "single_token '')''" "single_token ''or''" "single_token ''and''"
  "single_token ''not''"
  by code_simp+

lemma bracketed_single: "list_all single_token ts \<Longrightarrow> list_all single_token (bracketed b ts)"
  by (simp add: bracketed_def bracket_tokens)

lemma words_single:
  assumes "list_all single_token names"
  shows "printable names p d n \<Longrightarrow> list_all single_token (words p n)"
proof (induction n arbitrary: p d)
  case (Or a b)
  from Or.prems have "list_all single_token (words 0 a)" "list_all single_token (words 1 b)"
    by (auto simp: Let_def intro: Or.IH)
  then show ?case by (simp add: bracketed_single bracket_tokens)
next
  case (And a b)
  from And.prems have "list_all single_token (words 1 a)" "list_all single_token (words 2 b)"
    by (auto simp: Let_def intro: And.IH)
  then show ?case by (simp add: bracketed_single bracket_tokens)
next
  case (Not a)
  from Not.prems have "list_all single_token (words 2 a)" by (auto simp: Let_def intro: Not.IH)
  then show ?case by (simp add: bracket_tokens)
next
  case (Selection t)
  with assms show ?case by (simp add: list_all_iff)
qed simp

text \<open>The condition text of a tree.\<close>

definition condition_text :: "node \<Rightarrow> string" where
  "condition_text n = join '' '' (words 0 n)"

lemma condition_text_parses:
  assumes "printable names 0 0 n" "list_all single_token names"
  shows "parse_condition (condition_text n) names = Inr n"
  using words_grammar [OF assms(1)] words_single [OF assms(2,1)]
  by (simp add: condition_text_def parse_joined parse_tokens_iff)

end
