(* ===== verification/Detect_Match.thy ===== *)
theory Detect_Match
  imports Net_Address Py_Compare
begin

text \<open>
  How a detection rule compares one value of an event (\<open>_match_value\<close> of
  \<open>detection_engineering/evaluator.py\<close>), with what it uses of the standard library: \<open>float\<close> on
  decoded values, membership of an address in a network, and the shell patterns of
  \<open>fnmatch.fnmatchcase\<close> (Python 3.11). What a float's text denotes, and the numbers that
  \<open>float\<close> reads from text, are parameters.
\<close>

section \<open>Numbers\<close>

record float_texts =
  fl_value :: "string \<Rightarrow> py_float"
  fl_parse :: "string \<Rightarrow> py_float option"

function bit_length :: "nat \<Rightarrow> nat" where
  "bit_length n = (if n = 0 then 0 else Suc (bit_length (n div 2)))"
  by auto
termination by (relation "measure id") auto

declare bit_length.simps [simp del]

text \<open>
  The double nearest to an integer, ties to even; \<open>None\<close> when it is out of range, which raises
  \<open>OverflowError\<close>.
\<close>

definition float_of_int :: "int \<Rightarrow> py_float option" where
  "float_of_int i =
     (let n = nat \<bar>i\<bar>; b = bit_length n in
      if b \<le> 53 then Some (Finite i 0)
      else let e = b - 53; q = n div 2 ^ e; r = n mod 2 ^ e; half = 2 ^ (e - 1);
               m = (if r > half \<or> r = half \<and> odd q then q + 1 else q)
           in if m * 2 ^ e \<ge> 2 ^ 1024 then None
              else Some (Finite (if i < 0 then - int m else int m) (int e)))"

text \<open>\<open>float(value)\<close>.\<close>

fun py_float_of :: "float_texts \<Rightarrow> pyvalue \<Rightarrow> py_float result" where
  "py_float_of fl (PBool b) = Inr (Finite (if b then 1 else 0) 0)"
| "py_float_of fl (PInt i) =
     (case float_of_int i of
        None \<Rightarrow> Inl (OverflowError ''int too large to convert to float'')
      | Some x \<Rightarrow> Inr x)"
| "py_float_of fl (PFloat t) = Inr (fl_value fl t)"
| "py_float_of fl (PStr s) =
     (case fl_parse fl s of
        None \<Rightarrow> Inl (ValueError (''could not convert string to float: '' @ s))
      | Some x \<Rightarrow> Inr x)"
| "py_float_of fl v = Inl (TypeError (''float() argument must be a string or a real number, not '' @ type_name v))"


section \<open>Networks\<close>

text \<open>The version and the number of an address.\<close>

definition address_value :: "string \<Rightarrow> (nat \<times> int) option" where
  "address_value s =
     (case ipv4_int s of
        Some n \<Rightarrow> Some (4, n)
      | None \<Rightarrow>
          if is_ipv6 s
          then Some (6, foldl (\<lambda>n g. n * 65536 + g) 0 (ipv6_values (the (ipv6_parts (fst (partition_at CHR ''%'' s))))))
          else None)"

definition mask_prefix :: "int \<Rightarrow> nat option" where
  "mask_prefix n = find (\<lambda>p. n = (2 ^ p - 1) * 2 ^ (32 - p)) [0..<33]"

text \<open>The prefix length after the slash: a number, a netmask or a host mask.\<close>

definition network_prefix :: "nat \<Rightarrow> string \<Rightarrow> nat option" where
  "network_prefix version m =
     (if prefix_length (if version = 4 then 32 else 128) m then Some (nat (decimal m))
      else if version = 4
      then (case ipv4_int m of
              None \<Rightarrow> None
            | Some n \<Rightarrow> (case mask_prefix n of Some p \<Rightarrow> Some p | None \<Rightarrow> mask_prefix (2 ^ 32 - 1 - n)))
      else None)"

text \<open>\<open>ip_network(text, strict=False)\<close>: the version, the number of an address in it, and the prefix.\<close>

definition network_value :: "string \<Rightarrow> (nat \<times> int \<times> nat) option" where
  "network_value s =
     (case split_on CHR ''/'' s of
        [a] \<Rightarrow> map_option (\<lambda>(v, n). (v, n, if v = 4 then 32 else 128)) (address_value a)
      | [a, m] \<Rightarrow>
          (case address_value a of
             None \<Rightarrow> None
           | Some (v, n) \<Rightarrow> map_option (\<lambda>p. (v, n, p)) (network_prefix v m))
      | _ \<Rightarrow> None)"

text \<open>Both \<open>ValueError\<close>s of the conversions make the membership false.\<close>

definition address_in_network :: "string \<Rightarrow> string \<Rightarrow> bool" where
  "address_in_network a net =
     (case (address_value a, network_value net) of
        (Some (v, n), Some (w, m, p)) \<Rightarrow>
          (let bits = (if v = 4 then 32 else 128) in
           v = w \<and> n div 2 ^ (bits - p) = m div 2 ^ (bits - p))
      | _ \<Rightarrow> False)"


section \<open>Shell patterns\<close>

text \<open>
  One element of a pattern: a run of any characters, one character out of ranges (or out of none of
  them), or a character itself. \<open>?\<close> is the empty set of ranges, complemented.
\<close>

datatype glob = Star | OneOf bool "(char \<times> char) list" | Exactly char

text \<open>The text between the brackets, and what follows them; \<open>None\<close> when they are not closed.\<close>

definition skip_one :: "char \<Rightarrow> string \<Rightarrow> string" where
  "skip_one c s = (case s of [] \<Rightarrow> [] | x # xs \<Rightarrow> if x = c then xs else s)"

definition bracket_text :: "string \<Rightarrow> (string \<times> string) option" where
  "bracket_text s =
     (let rest = dropWhile (\<lambda>c. c \<noteq> CHR '']'') (skip_one CHR '']'' (skip_one CHR ''!'' s))
      in if rest = [] then None else Some (take (length s - length rest) s, tl rest))"

text \<open>The pieces between the hyphens that stand for ranges: the next one is looked for from index \<open>k\<close>.\<close>

function hyphen_chunks :: "nat \<Rightarrow> string \<Rightarrow> string list" where
  "hyphen_chunks k s =
     (let before = length (takeWhile (\<lambda>c. c \<noteq> CHR ''-'') (drop k s)) in
      if k + before < length s then take (k + before) s # hyphen_chunks 2 (drop (k + before + 1) s)
      else [s])"
  by auto
termination by (relation "measure (length \<circ> snd)") (auto simp: Let_def)

declare hyphen_chunks.simps [simp del]

definition trailing_hyphen :: "string list \<Rightarrow> string list" where
  "trailing_hyphen cs =
     (if last cs = [] then butlast (butlast cs) @ [last (butlast cs) @ ''-''] else cs)"

text \<open>An empty range disappears with both its ends.\<close>

definition drop_empty_range :: "string \<Rightarrow> string list \<Rightarrow> string list" where
  "drop_empty_range c cs =
     (case cs of
        [] \<Rightarrow> [c]
      | d # ds \<Rightarrow> if last c > hd d then (butlast c @ tl d) # ds else c # cs)"

fun chunk_ranges :: "string list \<Rightarrow> (char \<times> char) list" where
  "chunk_ranges [] = []"
| "chunk_ranges [c] = map (\<lambda>x. (x, x)) c"
| "chunk_ranges (c # d # ds) = map (\<lambda>x. (x, x)) c @ (last c, hd d) # chunk_ranges (d # ds)"

definition bracket_glob :: "string \<Rightarrow> glob" where
  "bracket_glob stuff =
     (let cs = (if CHR ''-'' \<in> set stuff
                then foldr drop_empty_range
                       (trailing_hyphen (hyphen_chunks (if hd stuff = CHR ''!'' then 2 else 1) stuff)) []
                else [stuff])
      in case cs of
           [] \<Rightarrow> OneOf True []
         | c # ds \<Rightarrow>
             if c = [] then OneOf True (chunk_ranges ds)
             else if hd c = CHR ''!''
             then (if tl c = [] then (if ds = [] then OneOf False []
                                      else OneOf False ((CHR ''-'', CHR ''-'') # chunk_ranges ds))
                   else OneOf False (chunk_ranges (tl c # ds)))
             else OneOf True (chunk_ranges cs))"

lemma length_skip_one: "length (skip_one c s) \<le> length s"
  by (cases s) (simp_all add: skip_one_def)

lemma bracket_text_shorter [termination_simp]:
  assumes "bracket_text s = Some (a, r)"
  shows "length r < length s"
proof -
  let ?rest = "dropWhile (\<lambda>c. c \<noteq> CHR '']'') (skip_one CHR '']'' (skip_one CHR ''!'' s))"
  have "?rest \<noteq> [] \<and> r = tl ?rest"
    using assms by (simp add: bracket_text_def Let_def split: if_split_asm)
  then have "length r < length ?rest" by simp
  also have "\<dots> \<le> length s" by (rule order_trans [OF length_dropWhile_le]) (meson length_skip_one order_trans)
  finally show ?thesis .
qed

fun glob_of :: "string \<Rightarrow> glob list" where
  "glob_of [] = []"
| "glob_of (c # cs) =
     (if c = CHR ''*'' then Star # glob_of cs
      else if c = CHR ''?'' then OneOf False [] # glob_of cs
      else if c = CHR ''['' then
        (case bracket_text cs of
           None \<Rightarrow> Exactly c # glob_of cs
         | Some (stuff, rest) \<Rightarrow> bracket_glob stuff # glob_of rest)
      else Exactly c # glob_of cs)"

fun glob_match :: "glob list \<Rightarrow> string \<Rightarrow> bool" where
  "glob_match [] t \<longleftrightarrow> t = []"
| "glob_match (g # gs) t \<longleftrightarrow>
     (case g of
        Star \<Rightarrow> glob_match gs t \<or> (case t of [] \<Rightarrow> False | _ # ts \<Rightarrow> glob_match (g # gs) ts)
      | OneOf inside ranges \<Rightarrow>
          (case t of [] \<Rightarrow> False
           | c # ts \<Rightarrow> list_ex (\<lambda>(a, b). a \<le> c \<and> c \<le> b) ranges = inside \<and> glob_match gs ts)
      | Exactly x \<Rightarrow> (case t of [] \<Rightarrow> False | c # ts \<Rightarrow> c = x \<and> glob_match gs ts))"

definition fnmatchcase :: "string \<Rightarrow> string \<Rightarrow> bool" where
  "fnmatchcase name pat = glob_match (glob_of pat) name"

text \<open>Without a bracket or a question mark the pattern between two stars is a text that must occur.\<close>

definition no_glob :: "string \<Rightarrow> bool" where
  "no_glob s \<longleftrightarrow> CHR ''*'' \<notin> set s \<and> CHR ''?'' \<notin> set s \<and> CHR ''['' \<notin> set s"

lemma glob_of_plain: "no_glob s \<Longrightarrow> glob_of (s @ r) = map Exactly s @ glob_of r"
  by (induction s) (auto simp: no_glob_def)

lemma glob_exact: "glob_match (map Exactly s @ gs) t \<longleftrightarrow> (\<exists>u. t = s @ u \<and> glob_match gs u)"
proof (induction s arbitrary: t)
  case (Cons a s)
  then show ?case by (cases t) auto
qed simp

lemma glob_star: "glob_match (Star # gs) t \<longleftrightarrow> (\<exists>u v. t = u @ v \<and> glob_match gs v)"
proof (induction t)
  case (Cons c t)
  have "glob_match (Star # gs) (c # t) \<longleftrightarrow> glob_match gs (c # t) \<or> glob_match (Star # gs) t" by simp
  then show ?case unfolding Cons.IH by (auto simp: Cons_eq_append_conv)
qed simp

lemma fnmatch_contains:
  assumes "no_glob s"
  shows "fnmatchcase t (''*'' @ s @ ''*'') \<longleftrightarrow> py_in s t"
proof -
  have "glob_of (''*'' @ s @ ''*'') = Star # map Exactly s @ [Star]"
    using glob_of_plain [OF assms, of "''*''"] by simp
  moreover have "glob_match [Star] u" for u by (subst glob_star) auto
  ultimately show ?thesis
    by (auto simp: fnmatchcase_def glob_star glob_exact py_in_sublist sublist_def simp del: glob_match.simps)
qed


section \<open>One comparison\<close>

definition numeric_test :: "string \<Rightarrow> py_float \<Rightarrow> py_float \<Rightarrow> bool" where
  "numeric_test op a b =
     (if op = ''gt'' then float_less b a
      else if op = ''gte'' then float_less b a \<or> float_equal a b
      else if op = ''lt'' then float_less a b
      else float_less a b \<or> float_equal a b)"

fun is_TypeError :: "exn \<Rightarrow> bool" where
  "is_TypeError (TypeError _) = True"
| "is_TypeError _ = False"

text \<open>\<open>except (TypeError, ValueError): return False\<close>; an \<open>OverflowError\<close> is neither.\<close>

definition compare_floats :: "float_texts \<Rightarrow> pyvalue \<Rightarrow> string \<Rightarrow> pyvalue \<Rightarrow> bool result" where
  "compare_floats fl actual op expected =
     (case bind_result (py_float_of fl actual) (\<lambda>a.
           bind_result (py_float_of fl expected) (\<lambda>b. Inr (numeric_test op a b))) of
        Inl e \<Rightarrow> if is_TypeError e \<or> is_ValueError e then Inr False else Inl e
      | Inr r \<Rightarrow> Inr r)"

definition as_list :: "pyvalue \<Rightarrow> pyvalue list" where
  "as_list v = (case v of PList xs \<Rightarrow> xs | _ \<Rightarrow> [v])"

definition compare_texts :: "string \<Rightarrow> string \<Rightarrow> string \<Rightarrow> bool" where
  "compare_texts op a b =
     (if op = ''iexact'' then a = b
      else if op = ''contains'' then py_in b a
      else if op = ''startswith'' then startswith a b
      else if op = ''endswith'' then endswith a b
      else if op = ''wildcard'' then fnmatchcase a b
      else False)"

definition match_value :: "float_texts \<Rightarrow> pyvalue \<Rightarrow> string \<Rightarrow> pyvalue \<Rightarrow> bool result" where
  "match_value fl actual op expected =
     (if op = ''exists'' then Inr ((actual \<noteq> PNone) = py_truthy (fl_value fl) expected)
      else if actual = PNone then Inr False
      else if op = ''cidr'' then Inr (address_in_network (py_str actual) (py_str expected))
      else if op \<in> {''gt'', ''gte'', ''lt'', ''lte''} then compare_floats fl actual op expected
      else if op = ''in'' then py_member (fl_value fl) actual (PList (as_list expected))
      else if op = ''exact'' then Inr (py_str actual = py_str expected)
      else Inr (compare_texts op (casefold (py_str actual)) (casefold (py_str expected))))"

lemma py_float_of_error:
  "py_float_of fl v = Inl e \<Longrightarrow> is_TypeError e \<or> is_ValueError e \<or> (\<exists>i. v = PInt i \<and> float_of_int i = None)"
  by (cases v) (auto split: option.splits)

text \<open>The one exception a comparison can let through: an integer too large for a double.\<close>

definition fits_double :: "pyvalue \<Rightarrow> bool" where
  "fits_double v = (case v of PInt i \<Rightarrow> float_of_int i \<noteq> None | _ \<Rightarrow> True)"

lemma match_value_InlD: "match_value fl actual op expected = Inl e \<Longrightarrow> compare_floats fl actual op expected = Inl e"
  by (auto simp: match_value_def py_member_def split: if_splits)

lemma match_value_returns:
  assumes "fits_double actual" "fits_double expected"
  shows "\<exists>b. match_value fl actual op expected = Inr b"
proof -
  have "\<exists>b. compare_floats fl actual op expected = Inr b"
  proof (cases "py_float_of fl actual")
    case (Inl e)
    with py_float_of_error [OF Inl] assms(1) show ?thesis
      by (auto simp: compare_floats_def fits_double_def)
  next
    case (Inr a)
    show ?thesis
    proof (cases "py_float_of fl expected")
      case (Inl e)
      with Inr py_float_of_error [OF Inl] assms(2) show ?thesis
        by (auto simp: compare_floats_def fits_double_def)
    next
      case (Inr b)
      with \<open>py_float_of fl actual = Inr a\<close> show ?thesis by (simp add: compare_floats_def)
    qed
  qed
  then show ?thesis by (cases "match_value fl actual op expected") (auto dest: match_value_InlD)
qed

lemma py_float_of_raises:
  "py_float_of fl v = Inl e \<Longrightarrow> is_TypeError e \<or> is_ValueError e \<or> (\<exists>m. e = OverflowError m)"
  by (cases v) (auto split: option.splits)

lemma match_value_raises:
  assumes "match_value fl actual op expected = Inl e"
  shows "\<exists>m. e = OverflowError m"
proof -
  have "\<exists>m. e = OverflowError m" if c: "compare_floats fl actual op expected = Inl e"
    using c py_float_of_raises [of fl actual] py_float_of_raises [of fl expected]
    by (cases "py_float_of fl actual"; cases "py_float_of fl expected")
      (auto simp: compare_floats_def split: if_splits)
  with assms match_value_InlD show ?thesis by blast
qed

end
