(* ===== verification/Detect_Meaning.thy ===== *)
theory Detect_Meaning
  imports Detect_Evaluator
begin

text \<open>
  What an accepted detection rule means: the bounds it satisfies, when its evaluation returns, and
  that the verdict is the reference meaning of its condition over the selections that hold on the
  event, before the rule is stored and after it is read back.
\<close>

section \<open>Accepted rules\<close>

definition term_ok :: "rule_term \<Rightarrow> bool" where
  "term_ok t \<longleftrightarrow>
     (if tm_unsupported t then tm_field t \<notin> set ALLOWED_FIELDS
      else tm_field t \<in> set ALLOWED_FIELDS \<and> (tm_operator t \<in> set RULE_OPERATORS \<or> tm_operator t = ''all''))"

definition term_wildcards :: "rule_term \<Rightarrow> nat" where
  "term_wildcards t = (if tm_unsupported t then 0 else wildcards (tm_value t))"

definition rule_terms :: "normalized_rule \<Rightarrow> rule_term list" where
  "rule_terms n = concat (map snd (nr_selections n))"

definition bounded_rule :: "normalized_rule \<Rightarrow> bool" where
  "bounded_rule n \<longleftrightarrow>
     nr_selections n \<noteq> [] \<and> length (nr_selections n) \<le> 32 \<and>
     list_all (\<lambda>(name, ts). selection_name name \<and> ts \<noteq> []) (nr_selections n) \<and>
     length (rule_terms n) \<le> FIELD_LIMIT \<and> list_all term_ok (rule_terms n) \<and>
     sum_list (map term_wildcards (rule_terms n)) \<le> WILDCARD_LIMIT \<and>
     nr_condition n \<noteq> [] \<and> length (nr_condition n) \<le> 500 \<and>
     (\<exists>tree. parse_condition (nr_condition n) (map fst (nr_selections n)) = Inr tree)"

lemma term_simps:
  "term_wildcards \<lparr>tm_field = f, tm_operator = op, tm_value = v, tm_all = a, tm_unsupported = u\<rparr> = (if u then 0 else wildcards v)"
  "term_ok \<lparr>tm_field = f, tm_operator = op, tm_value = v, tm_all = a, tm_unsupported = u\<rparr> \<longleftrightarrow>
     (if u then f \<notin> set ALLOWED_FIELDS else f \<in> set ALLOWED_FIELDS \<and> (op \<in> set RULE_OPERATORS \<or> op = ''all''))"
  by (simp_all add: term_wildcards_def term_ok_def)

lemma normalize_terms_InrD:
  "normalize_terms nf wild items = Inr (ts, n, w) \<Longrightarrow> nf \<le> FIELD_LIMIT \<Longrightarrow> wild \<le> WILDCARD_LIMIT \<Longrightarrow>
     length ts = length items \<and> n = nf + length items \<and> n \<le> FIELD_LIMIT \<and>
     w = wild + sum_list (map term_wildcards ts) \<and> w \<le> WILDCARD_LIMIT \<and> list_all term_ok ts"
proof (induction nf wild items arbitrary: ts n w rule: normalize_terms.induct)
  case (1 nf wild)
  then show ?case by simp
next
  case (2 nf wild key raw rest)
  obtain field op0 mods where k: "operator_from_key key = (field, op0, mods)" by (cases "operator_from_key key") auto
  have l: "nf + 1 \<le> FIELD_LIMIT" using "2.prems"(1) by (auto split: if_splits)
  show ?case
  proof (cases "field \<in> set ALLOWED_FIELDS")
    case False
    with "2.prems"(1) k l obtain us where r: "normalize_terms (nf + 1) wild rest = Inr (us, n, w)"
        "ts = \<lparr>tm_field = field, tm_operator = op0, tm_value = raw, tm_all = False, tm_unsupported = True\<rparr> # us"
      by (auto simp: bind_result_Inr_iff)
    have "length us = length rest \<and> n = nf + 1 + length rest \<and> n \<le> FIELD_LIMIT \<and>
        w = wild + sum_list (map term_wildcards us) \<and> w \<le> WILDCARD_LIMIT \<and> list_all term_ok us"
      using "2.IH"(1) k l False r(1) "2.prems"(3) by force
    with r False show ?thesis by (simp add: term_simps)
  next
    case True
    obtain op v where p: "term_parts op0 raw = (op, v)" by (cases "term_parts op0 raw") auto
    have o: "op \<in> set RULE_OPERATORS \<or> op = ''all''" "wild + wildcards v \<le> WILDCARD_LIMIT"
      using "2.prems"(1) k l True p by (auto split: if_splits)
    with "2.prems"(1) k l True p obtain us where
      r: "normalize_terms (nf + 1) (wild + wildcards v) rest = Inr (us, n, w)"
        "ts = \<lparr>tm_field = field, tm_operator = op, tm_value = v, tm_all = ''all'' \<in> set mods, tm_unsupported = False\<rparr> # us"
      by (auto simp: bind_result_Inr_iff)
    have "length us = length rest \<and> n = nf + 1 + length rest \<and> n \<le> FIELD_LIMIT \<and>
        w = wild + wildcards v + sum_list (map term_wildcards us) \<and> w \<le> WILDCARD_LIMIT \<and> list_all term_ok us"
      using "2.IH"(2) [OF _ k [symmetric] refl _ p [symmetric]] l True o r(1) by auto
    with r True o show ?thesis by (simp add: term_simps)
  qed
qed

lemma normalize_selections_InrD:
  "normalize_selections nf wild items = Inr sels \<Longrightarrow> nf \<le> FIELD_LIMIT \<Longrightarrow> wild \<le> WILDCARD_LIMIT \<Longrightarrow>
     map fst sels = map fst items \<and>
     list_all (\<lambda>(name, ts). selection_name name \<and> ts \<noteq> []) sels \<and>
     nf + length (concat (map snd sels)) \<le> FIELD_LIMIT \<and> list_all term_ok (concat (map snd sels)) \<and>
     wild + sum_list (map term_wildcards (concat (map snd sels))) \<le> WILDCARD_LIMIT"
proof (induction nf wild items arbitrary: sels rule: normalize_selections.induct)
  case (1 nf wild)
  then show ?case by simp
next
  case (2 nf wild name selection rest)
  then obtain d where d: "selection = PDict d" "d \<noteq> []" "selection_name name"
    by (auto split: if_splits pyvalue.splits)
  with "2.prems"(1) obtain ts n w us where r: "normalize_terms nf wild d = Inr (ts, n, w)"
      "normalize_selections n w rest = Inr us" "sels = (name, ts) # us"
    by (auto simp: bind_result_Inr_iff)
  note t = normalize_terms_InrD [OF r(1) "2.prems"(2,3)]
  have "map fst us = map fst rest \<and>
     list_all (\<lambda>(name, ts). selection_name name \<and> ts \<noteq> []) us \<and>
     n + length (concat (map snd us)) \<le> FIELD_LIMIT \<and> list_all term_ok (concat (map snd us)) \<and>
     w + sum_list (map term_wildcards (concat (map snd us))) \<le> WILDCARD_LIMIT"
    using "2.IH" d r t by auto
  with d r t show ?case by auto
qed

text \<open>The selections of the content, as \<open>normalize_rule\<close> reads them.\<close>

lemma normalize_rule_InrD:
  assumes "normalize_rule fl content = Inr n"
  shows "\<exists>d tree. d \<noteq> [] \<and> length d \<le> 32 \<and> normalize_selections 0 0 d = Inr (nr_selections n) \<and>
    nr_condition n \<noteq> [] \<and> length (nr_condition n) \<le> 500 \<and>
    parse_condition (nr_condition n) (map fst (nr_selections n)) = Inr tree"
proof -
  obtain detection condition selections where
    n: "(case selections of
           PDict d \<Rightarrow>
             if d = [] \<or> length d > 32 then Inl (RuleValidationError ''Rule requires 1-32 selections'')
             else bind_result (normalize_selections 0 0 d) (\<lambda>sels.
               if condition = [] \<or> length condition > 500
               then Inl (RuleValidationError ''Condition is required and bounded to 500 characters'')
               else bind_result (parse_condition condition (map fst sels)) (\<lambda>_.
                 Inr \<lparr>nr_selections = sels, nr_condition = condition\<rparr>))
         | _ \<Rightarrow> Inl (RuleValidationError ''Rule requires 1-32 selections'')) = Inr n"
    using assms unfolding normalize_rule_def bind_result_Inr_iff Let_def by blast
  then obtain d where d: "selections = PDict d" by (cases selections) auto
  with n obtain sels tree where "d \<noteq> []" "length d \<le> 32" "normalize_selections 0 0 d = Inr sels"
      "condition \<noteq> []" "length condition \<le> 500" "parse_condition condition (map fst sels) = Inr tree"
      "n = \<lparr>nr_selections = sels, nr_condition = condition\<rparr>"
    by (auto simp: bind_result_Inr_iff split: if_splits)
  then show ?thesis by auto
qed

lemma normalize_rule_ok:
  assumes "normalize_rule fl content = Inr n"
  shows "bounded_rule n"
proof -
  from normalize_rule_InrD [OF assms] obtain d tree where
    d: "d \<noteq> []" "length d \<le> 32" "normalize_selections 0 0 d = Inr (nr_selections n)"
      "nr_condition n \<noteq> []" "length (nr_condition n) \<le> 500"
      "parse_condition (nr_condition n) (map fst (nr_selections n)) = Inr tree" by blast
  note s = normalize_selections_InrD [OF d(3)]
  have "length (nr_selections n) = length d" using s by (metis length_map zero_le)
  with d s show ?thesis by (auto simp: bounded_rule_def rule_terms_def)
qed


section \<open>When an evaluation returns\<close>

lemma all_results_InlD: "all_results f xs = Inl e \<Longrightarrow> \<exists>x \<in> set xs. f x = Inl e"
proof (induction xs)
  case (Cons x xs)
  then show ?case by (cases "f x"; cases "all_results f xs") auto
qed simp

lemma all_results_Inr: "(\<And>x. x \<in> set xs \<Longrightarrow> \<exists>y. f x = Inr y) \<Longrightarrow> \<exists>ys. all_results f xs = Inr ys"
proof (induction xs)
  case (Cons x xs)
  then obtain y ys where "f x = Inr y" "all_results f xs = Inr ys" by fastforce
  then show ?case by simp
qed simp

definition term_values :: "rule_term \<Rightarrow> pyvalue list" where
  "term_values t = (if tm_operator t \<noteq> ''in'' then as_list (tm_value t) else [tm_value t])"

lemma term_outcome_cases:
  "term_outcome fl event t =
     (if tm_unsupported t then Inr False
      else bind_result (all_results (match_value fl (dict_get event (tm_field t)) (tm_operator t)) (term_values t))
             (\<lambda>checks. Inr (if tm_all t then list_all id checks else list_ex id checks)))"
  by (simp add: term_outcome_def term_values_def Let_def)

lemma term_outcome_raises:
  assumes "term_outcome fl event t = Inl e"
  shows "\<exists>m. e = OverflowError m"
proof -
  from assms have "all_results (match_value fl (dict_get event (tm_field t)) (tm_operator t)) (term_values t) = Inl e"
    by (simp add: term_outcome_cases bind_result_def split: sum.splits if_splits)
  with all_results_InlD match_value_raises show ?thesis by metis
qed

text \<open>
  Every number of the rule and of the event fits a double; an integer inside a list counts where the
  list is taken apart.
\<close>

definition term_fits :: "rule_term \<Rightarrow> bool" where
  "term_fits t \<longleftrightarrow> list_all fits_double (as_list (tm_value t)) \<and> fits_double (tm_value t)"

definition event_fits :: "event_fields \<Rightarrow> bool" where
  "event_fits event \<longleftrightarrow> list_all (\<lambda>(k, v). fits_double v) event"

lemma event_fits_get: "event_fits event \<Longrightarrow> fits_double (dict_get event f)"
  using map_of_SomeD [of event f]
  by (cases "map_of event f") (auto simp: event_fits_def dict_get_def list_all_iff fits_double_def [of PNone])

lemma term_outcome_returns:
  assumes "term_fits t" "event_fits event"
  shows "\<exists>b. term_outcome fl event t = Inr b"
proof -
  have "\<exists>ys. all_results (match_value fl (dict_get event (tm_field t)) (tm_operator t)) (term_values t) = Inr ys"
    using assms by (intro all_results_Inr match_value_returns event_fits_get)
      (auto simp: term_fits_def term_values_def list_all_iff split: if_splits)
  then show ?thesis by (auto simp: term_outcome_cases)
qed

section \<open>What the loops compute\<close>

definition term_holds :: "float_texts \<Rightarrow> event_fields \<Rightarrow> rule_term \<Rightarrow> bool" where
  "term_holds fl event t \<longleftrightarrow> term_outcome fl event t = Inr True"

definition selection_holds :: "float_texts \<Rightarrow> event_fields \<Rightarrow> rule_term list \<Rightarrow> bool" where
  "selection_holds fl event ts \<longleftrightarrow> list_all (term_holds fl event) ts"

definition evaluable :: "float_texts \<Rightarrow> event_fields \<Rightarrow> rule_term list \<Rightarrow> bool" where
  "evaluable fl event ts \<longleftrightarrow> list_all (\<lambda>t. \<exists>b. term_outcome fl event t = Inr b) ts"

text \<open>The fields a rule reports, after those already reported.\<close>

definition reported_fields :: "float_texts \<Rightarrow> event_fields \<Rightarrow> (string \<Rightarrow> pyvalue option) \<Rightarrow> rule_term list \<Rightarrow> string \<Rightarrow> pyvalue option" where
  "reported_fields fl event old ts f =
     (if \<exists>t \<in> set ts. term_holds fl event t \<and> tm_field t = f then Some (dict_get event f) else old f)"

lemma map_of_dict_put: "map_of (dict_put d k v) = (map_of d)(k \<mapsto> v)"
  by (induction d k v rule: dict_put.induct) (auto simp: fun_eq_iff)

lemma term_outcomes_Inr:
  "term_outcomes fl event m ts = Inr (oks, m') \<Longrightarrow>
     oks = map (term_holds fl event) ts \<and> map_of m' = reported_fields fl event (map_of m) ts \<and> evaluable fl event ts"
proof (induction fl event m ts arbitrary: oks m' rule: term_outcomes.induct)
  case (1 fl event m)
  then show ?case by (auto simp: reported_fields_def evaluable_def fun_eq_iff)
next
  case (2 fl event m t ts)
  then obtain ok us where t: "term_outcome fl event t = Inr ok" "oks = ok # us"
      "term_outcomes fl event (if ok then dict_put m (tm_field t) (dict_get event (tm_field t)) else m) ts = Inr (us, m')"
    by (auto simp: bind_result_Inr_iff)
  from "2.IH" [OF t(3)] t show ?case
    by (auto simp: reported_fields_def evaluable_def term_holds_def map_of_dict_put fun_eq_iff)
qed

lemma term_outcomes_returns: "evaluable fl event ts \<Longrightarrow> \<exists>r. term_outcomes fl event m ts = Inr r"
proof (induction ts arbitrary: m)
  case (Cons t ts)
  then obtain ok where ok: "term_outcome fl event t = Inr ok" by (auto simp: evaluable_def)
  with Cons.IH [of "if ok then dict_put m (tm_field t) (dict_get event (tm_field t)) else m"] Cons.prems
  show ?case by (auto simp: evaluable_def)
qed simp

lemma selection_outcomes_Inr:
  "selection_outcomes fl event m sels = Inr (outs, m') \<Longrightarrow>
     outs = map (\<lambda>(k, ts). (k, selection_holds fl event ts)) sels \<and>
     map_of m' = reported_fields fl event (map_of m) (concat (map snd sels)) \<and>
     evaluable fl event (concat (map snd sels))"
proof (induction fl event m sels arbitrary: outs m' rule: selection_outcomes.induct)
  case (1 fl event m)
  then show ?case by (auto simp: reported_fields_def evaluable_def fun_eq_iff)
next
  case (2 fl event m name ts rest)
  then obtain oks m1 us where t: "term_outcomes fl event m ts = Inr (oks, m1)"
      "selection_outcomes fl event m1 rest = Inr (us, m')" "outs = (name, list_all id oks) # us"
    by (auto simp: bind_result_Inr_iff)
  from "2.IH" [OF t(2)] term_outcomes_Inr [OF t(1)] t(3) show ?case
    by (auto simp: reported_fields_def evaluable_def selection_holds_def list_all_iff fun_eq_iff)
qed

lemma selection_outcomes_returns:
  "evaluable fl event (concat (map snd sels)) \<Longrightarrow> \<exists>r. selection_outcomes fl event m sels = Inr r"
proof (induction sels arbitrary: m)
  case (Cons kv sels)
  obtain k ts where kv: "kv = (k, ts)" by (cases kv) auto
  have e: "evaluable fl event ts" "evaluable fl event (concat (map snd sels))"
    using Cons.prems kv by (simp_all add: evaluable_def)
  obtain r where r: "term_outcomes fl event m ts = Inr r" using term_outcomes_returns [OF e(1)] by blast
  obtain r' where "selection_outcomes fl event (snd r) sels = Inr r'" using Cons.IH [OF e(2)] by blast
  with r kv show ?case by (auto simp: split: prod.splits)
qed simp

lemma selection_outcomes_raises:
  "selection_outcomes fl event m sels = Inl e \<Longrightarrow> \<exists>x. e = OverflowError x"
proof (induction fl event m sels rule: selection_outcomes.induct)
  case (2 fl event m name ts rest)
  have t: "term_outcomes fl event m ts = Inl e \<Longrightarrow> \<exists>x. e = OverflowError x" for m ts
  proof (induction fl event m ts rule: term_outcomes.induct)
    case (2 fl event m t ts)
    then show ?case
      by (cases "term_outcome fl event t") (auto simp: bind_result_def dest!: term_outcome_raises split: sum.splits)
  qed simp
  show ?case
  proof (cases "term_outcomes fl event m ts")
    case (Inl a)
    with "2.prems" t show ?thesis by simp
  next
    case (Inr b)
    with "2.prems" "2.IH" [of "snd b"] show ?thesis
      by (cases b) (auto simp: bind_result_def split: sum.splits prod.splits)
  qed
qed simp


section \<open>The reference meaning\<close>

text \<open>A condition over the set of the selections that hold.\<close>

fun satisfies :: "(string \<Rightarrow> bool) \<Rightarrow> node \<Rightarrow> bool" where
  "satisfies V (Selection name) \<longleftrightarrow> V name"
| "satisfies V (Not a) \<longleftrightarrow> \<not> satisfies V a"
| "satisfies V (And a b) \<longleftrightarrow> satisfies V a \<and> satisfies V b"
| "satisfies V (Or a b) \<longleftrightarrow> satisfies V a \<or> satisfies V b"
| "satisfies V (Of amount matched) \<longleftrightarrow>
     (if amount = ''all'' then \<forall>x \<in> set matched. V x
      else digits_nat amount \<le> card {x \<in> set matched. V x})"

definition holding :: "float_texts \<Rightarrow> event_fields \<Rightarrow> normalized_rule \<Rightarrow> string \<Rightarrow> bool" where
  "holding fl event n name \<longleftrightarrow> (\<exists>ts. (name, ts) \<in> set (nr_selections n) \<and> selection_holds fl event ts)"

text \<open>Every pattern of a tree lists its names once.\<close>

fun patterns_distinct :: "node \<Rightarrow> bool" where
  "patterns_distinct (Selection name) = True"
| "patterns_distinct (Not a) = patterns_distinct a"
| "patterns_distinct (And a b) = (patterns_distinct a \<and> patterns_distinct b)"
| "patterns_distinct (Or a b) = (patterns_distinct a \<and> patterns_distinct b)"
| "patterns_distinct (Of amount matched) = distinct matched"

lemma grammar_patterns_distinct:
  assumes "distinct names"
  shows "disjunction_of names d n w \<Longrightarrow> patterns_distinct n"
    and "conjunction_of names d n w \<Longrightarrow> patterns_distinct n"
    and "unary_of names d n w \<Longrightarrow> patterns_distinct n"
  using assms by (induction rule: disjunction_of_conjunction_of_unary_of.inducts) (auto simp: pattern_matches_def)

lemma length_filter_all: "length (filter P xs) = length xs \<longleftrightarrow> (\<forall>x \<in> set xs. P x)"
  by (metis filter_True filter_id_conv length_filter_less less_irrefl_nat)

lemma resolve_satisfies:
  "patterns_distinct tree \<Longrightarrow> resolve outcomes tree = satisfies (outcome_of outcomes) tree"
proof (induction tree)
  case (Of amount matched)
  then have "card (set (filter (outcome_of outcomes) matched)) = length (filter (outcome_of outcomes) matched)"
    by (intro distinct_card) simp
  then show ?case by (simp add: Let_def length_filter_all)
qed auto

lemma satisfies_cong: "(\<And>x. x \<in> set (tree_names tree) \<Longrightarrow> V x = W x) \<Longrightarrow> satisfies V tree = satisfies W tree"
proof (induction tree)
  case (Of amount matched)
  then have "{x \<in> set matched. V x} = {x \<in> set matched. W x}" by auto
  with Of show ?case by auto
qed auto

lemma outcome_of_map:
  "distinct (map fst sels) \<Longrightarrow>
     outcome_of (map (\<lambda>(k, ts). (k, selection_holds fl event ts)) sels) name \<longleftrightarrow>
       (\<exists>ts. (name, ts) \<in> set sels \<and> selection_holds fl event ts)"
proof (induction sels)
  case (Cons kv sels)
  then show ?case by (cases kv) (force simp: outcome_of_def)
qed (simp add: outcome_of_def)

lemma map_fst_outcomes: "map fst (map (\<lambda>(k, ts). (k, f ts)) sels) = map fst sels"
  by (induction sels) auto

lemma filter_outcomes:
  "map fst (filter snd (map (\<lambda>(k, ts). (k, f ts)) sels)) = map fst (filter (\<lambda>(k, ts). f ts) sels)"
  by (induction sels) auto

definition holding_names :: "float_texts \<Rightarrow> event_fields \<Rightarrow> normalized_rule \<Rightarrow> string list" where
  "holding_names fl event n =
     sort (map fst (filter (\<lambda>(k, ts). selection_holds fl event ts) (nr_selections n)))"

lemma evaluate_rule_meaning:
  assumes "evaluate_rule fl n event = Inr (verdict, matched, names)"
    and "distinct (map fst (nr_selections n))"
  obtains tree where "parse_condition (nr_condition n) (map fst (nr_selections n)) = Inr tree"
    and "verdict = satisfies (holding fl event n) tree"
    and "map_of matched = (if verdict then reported_fields fl event Map.empty (rule_terms n) else Map.empty)"
    and "names = holding_names fl event n"
    and "evaluable fl event (rule_terms n)"
proof -
  from assms(1) obtain outs m tree where
    s: "selection_outcomes fl event [] (nr_selections n) = Inr (outs, m)"
    and t: "parse_condition (nr_condition n) (map fst outs) = Inr tree"
    and r: "verdict = resolve outs tree" "matched = (if verdict then m else [])"
      "names = sort (map fst (filter snd outs))"
    by (auto simp: evaluate_rule_def bind_result_Inr_iff Let_def)
  note o = selection_outcomes_Inr [OF s]
  have f: "map fst outs = map fst (nr_selections n)" using o map_fst_outcomes by metis
  have "distinct (map fst outs)" using f assms(2) by simp
  then have "patterns_distinct tree" using parse_condition_grammar [OF t] grammar_patterns_distinct(1) by blast
  then have "verdict = satisfies (outcome_of outs) tree" using r resolve_satisfies by simp
  also have "\<dots> = satisfies (holding fl event n) tree"
    using o outcome_of_map [OF assms(2)] by (intro satisfies_cong) (simp add: holding_def)
  finally have v: "verdict = satisfies (holding fl event n) tree" .
  have "map fst (filter snd outs) = map fst (filter (\<lambda>(k, ts). selection_holds fl event ts) (nr_selections n))"
    unfolding o [THEN conjunct1] by (rule filter_outcomes)
  then have "names = holding_names fl event n" using r(3) by (simp add: holding_names_def)
  moreover have "map_of matched = (if verdict then reported_fields fl event Map.empty (rule_terms n) else Map.empty)"
    using r(2) o by (simp add: rule_terms_def)
  moreover have "evaluable fl event (rule_terms n)" using o by (simp add: rule_terms_def)
  ultimately show ?thesis using that [of tree] t [unfolded f] v by blast
qed

lemma parsed_rule_raises:
  assumes "parse_condition (nr_condition n) (map fst (nr_selections n)) = Inr tree" "evaluate_rule fl n event = Inl e"
  shows "\<exists>m. e = OverflowError m"
proof (cases "selection_outcomes fl event [] (nr_selections n)")
  case (Inl a)
  with assms(2) selection_outcomes_raises show ?thesis by (auto simp: evaluate_rule_def)
next
  case (Inr b)
  then obtain outs m where s: "selection_outcomes fl event [] (nr_selections n) = Inr (outs, m)" by (cases b) auto
  then have "map fst outs = map fst (nr_selections n)" using selection_outcomes_Inr [OF s] map_fst_outcomes by metis
  with assms s show ?thesis by (auto simp: evaluate_rule_def Let_def)
qed

lemma evaluate_rule_raises: "bounded_rule n \<Longrightarrow> evaluate_rule fl n event = Inl e \<Longrightarrow> \<exists>m. e = OverflowError m"
  using parsed_rule_raises by (auto simp: bounded_rule_def)

lemma evaluate_rule_returns:
  assumes "bounded_rule n" "evaluable fl event (rule_terms n)"
  shows "\<exists>r. evaluate_rule fl n event = Inr r"
proof -
  obtain outs m where s: "selection_outcomes fl event [] (nr_selections n) = Inr (outs, m)"
    using selection_outcomes_returns [of fl event "nr_selections n" "[]"] assms(2) unfolding rule_terms_def by auto
  then have "map fst outs = map fst (nr_selections n)" using selection_outcomes_Inr [OF s] map_fst_outcomes by metis
  with assms s show ?thesis by (auto simp: evaluate_rule_def bounded_rule_def Let_def)
qed

definition rule_fits :: "normalized_rule \<Rightarrow> bool" where
  "rule_fits n \<longleftrightarrow> list_all term_fits (rule_terms n)"

lemma fits_evaluable: "rule_fits n \<Longrightarrow> event_fits event \<Longrightarrow> evaluable fl event (rule_terms n)"
  using term_outcome_returns by (auto simp: rule_fits_def evaluable_def list_all_iff)


section \<open>Storing a rule\<close>

text \<open>
  The rule is stored as \<open>json.dumps(normalized, sort_keys=True)\<close> and read back: every dictionary comes
  back with its keys in order, a value of another class as its text.
\<close>

function stored_value :: "pyvalue \<Rightarrow> pyvalue" where
  "stored_value (PList xs) = PList (map stored_value xs)"
| "stored_value (PDict d) = PDict (map (\<lambda>kv. (fst kv, stored_value (snd kv))) (sort_key fst d))"
| "stored_value (POther t) = PStr t"
| "stored_value PNone = PNone"
| "stored_value (PBool b) = PBool b"
| "stored_value (PInt i) = PInt i"
| "stored_value (PFloat t) = PFloat t"
| "stored_value (PStr s) = PStr s"
  by pat_completeness auto
termination
proof (relation "measure size", goal_cases)
  case 1
  show ?case by simp
next
  case (2 xs x)
  then show ?case using size_list_member [of x xs] by simp
next
  case (3 d kv)
  then show ?case by (auto dest: size_dict_member)
qed

definition stored_rule :: "normalized_rule \<Rightarrow> normalized_rule" where
  "stored_rule n =
     n\<lparr>nr_selections := map (\<lambda>(k, ts). (k, map (\<lambda>t. t\<lparr>tm_value := stored_value (tm_value t)\<rparr>) ts))
                            (sort_key fst (nr_selections n))\<rparr>"

text \<open>No value of the rule contains a dictionary.\<close>

function plain_value :: "pyvalue \<Rightarrow> bool" where
  "plain_value (PList xs) = list_all plain_value xs"
| "plain_value (PDict d) = False"
| "plain_value (POther t) = False"
| "plain_value PNone = True"
| "plain_value (PBool b) = True"
| "plain_value (PInt i) = True"
| "plain_value (PFloat t) = True"
| "plain_value (PStr s) = True"
  by pat_completeness auto
termination
proof (relation "measure size", goal_cases)
  case 1
  show ?case by simp
next
  case (2 xs x)
  then show ?case using size_list_member [of x xs] by simp
qed

lemma stored_plain: "plain_value v \<Longrightarrow> stored_value v = v"
  by (induction v rule: plain_value.induct) (auto simp: list_all_iff intro: map_idI)

definition plain_rule :: "normalized_rule \<Rightarrow> bool" where
  "plain_rule n \<longleftrightarrow> list_all (\<lambda>t. plain_value (tm_value t)) (rule_terms n)"

lemma stored_rule_plain:
  assumes "plain_rule n"
  shows "stored_rule n = n\<lparr>nr_selections := sort_key fst (nr_selections n)\<rparr>"
proof -
  have "(\<lambda>(k, ts). (k, map (\<lambda>t. t\<lparr>tm_value := stored_value (tm_value t)\<rparr>) ts)) kv = kv"
    if "kv \<in> set (nr_selections n)" for kv
  proof -
    obtain k ts where kv: "kv = (k, ts)" by (cases kv) auto
    have "stored_value (tm_value t) = tm_value t" if "t \<in> set ts" for t
      using that assms \<open>kv \<in> set (nr_selections n)\<close> kv
      by (intro stored_plain) (fastforce simp: plain_rule_def rule_terms_def list_all_iff)
    then show ?thesis using kv by (simp add: map_idI)
  qed
  then have "map (\<lambda>(k, ts). (k, map (\<lambda>t. t\<lparr>tm_value := stored_value (tm_value t)\<rparr>) ts))
               (sort_key fst (nr_selections n)) = sort_key fst (nr_selections n)"
    by (intro map_idI) simp
  then show ?thesis unfolding stored_rule_def by (rule arg_cong)
qed

lemma distinct_sort_fst: "distinct (map fst xs) \<Longrightarrow> distinct (map fst (sort_key fst xs))"
  by (simp add: distinct_map)

lemma report_cong: "set ts = set us \<Longrightarrow> reported_fields fl event m ts = reported_fields fl event m us"
  by (auto simp: reported_fields_def fun_eq_iff)

text \<open>Two rules with the same selections in another order have the same verdict and report.\<close>

lemma evaluate_rule_reordered:
  assumes e: "evaluate_rule fl n event = Inr (verdict, matched, names)"
    and d: "distinct (map fst (nr_selections n))"
    and n': "nr_condition n' = nr_condition n" "set (nr_selections n') = set (nr_selections n)"
      "distinct (map fst (nr_selections n'))"
  shows "\<exists>matched'. evaluate_rule fl n' event = Inr (verdict, matched', names) \<and> map_of matched' = map_of matched"
proof -
  let ?names = "map fst (nr_selections n)" and ?names' = "map fst (nr_selections n')"
  from evaluate_rule_meaning [OF e d] obtain tree where
    t: "parse_condition (nr_condition n) ?names = Inr tree" "verdict = satisfies (holding fl event n) tree"
      "map_of matched = (if verdict then reported_fields fl event Map.empty (rule_terms n) else Map.empty)"
      "names = holding_names fl event n" "evaluable fl event (rule_terms n)" .
  have st: "set (rule_terms n') = set (rule_terms n)" using n'(2) by (simp add: rule_terms_def)
  have t': "parse_condition (nr_condition n') ?names' = Inr tree"
    using t(1) parse_condition_cong [of ?names ?names'] n' d by simp
  have "evaluable fl event (concat (map snd (nr_selections n')))"
    using t(5) st by (simp add: evaluable_def list_all_iff rule_terms_def)
  then obtain outs m where s: "selection_outcomes fl event [] (nr_selections n') = Inr (outs, m)"
    using selection_outcomes_returns [of fl event "nr_selections n'" "[]"] by auto
  moreover have "map fst outs = ?names'" using selection_outcomes_Inr [OF s] map_fst_outcomes by metis
  ultimately obtain v m' ns where e': "evaluate_rule fl n' event = Inr (v, m', ns)"
    using t' by (auto simp: evaluate_rule_def Let_def)
  from evaluate_rule_meaning [OF e' n'(3)] obtain tree' where
    u: "parse_condition (nr_condition n') ?names' = Inr tree'" "v = satisfies (holding fl event n') tree'"
      "map_of m' = (if v then reported_fields fl event Map.empty (rule_terms n') else Map.empty)"
      "ns = holding_names fl event n'" .
  have "tree' = tree" using t' u(1) by simp
  moreover have "holding fl event n' = holding fl event n" using n'(2) by (simp add: holding_def fun_eq_iff)
  ultimately have v: "v = verdict" using t(2) u(2) by simp
  have "ns = names"
    unfolding t(4) u(4) holding_names_def
    by (rule sorted_distinct_set_unique) (use n' d in \<open>auto simp: distinct_map intro: inj_on_subset distinct_filter\<close>)
  moreover have "map_of m' = map_of matched" using v t(3) u(3) report_cong [OF st] by simp
  ultimately show ?thesis using e' v by blast
qed

lemma evaluate_stored_rule:
  assumes "evaluate_rule fl n event = Inr (verdict, matched, names)"
    and "distinct (map fst (nr_selections n))" "plain_rule n"
  shows "\<exists>matched'. evaluate_rule fl (stored_rule n) event = Inr (verdict, matched', names) \<and>
           map_of matched' = map_of matched"
  using assms evaluate_rule_reordered [OF assms(1,2), of "stored_rule n"]
  by (simp add: stored_rule_plain distinct_sort_fst)

text \<open>A stored rule parses like the rule it was made from, so it raises no more either.\<close>

lemma stored_rule_parses:
  assumes "bounded_rule n"
  shows "\<exists>tree. parse_condition (nr_condition (stored_rule n)) (map fst (nr_selections (stored_rule n))) = Inr tree"
proof -
  have "map fst (nr_selections (stored_rule n)) = map fst (sort_key fst (nr_selections n))"
    by (auto simp: stored_rule_def)
  then have m: "mset (map fst (nr_selections (stored_rule n))) = mset (map fst (nr_selections n))" by simp
  have c: "nr_condition (stored_rule n) = nr_condition n" by (simp add: stored_rule_def)
  show ?thesis unfolding c parse_condition_perm [OF m] using assms by (simp add: bounded_rule_def)
qed

lemma stored_rule_raises: "bounded_rule n \<Longrightarrow> evaluate_rule fl (stored_rule n) event = Inl e \<Longrightarrow> \<exists>m. e = OverflowError m"
  using stored_rule_parses parsed_rule_raises by blast

end
