(* ===== verification/Detect_Store.thy ===== *)
theory Detect_Store
  imports Detect_Meaning Audit_Log
begin

text \<open>
  The tables of detection engineering (\<open>detection_engineering/models.py\<close>), the state its endpoints
  work on, and what they share: the sliding-window limiter of the router and the record of a
  committed change, \<open>threat_intelligence.service.post_commit_event\<close>. A column that holds JSON text
  holds what reading it back gives. A score with one decimal is the number of its tenths.
\<close>

section \<open>Rows\<close>

record detection_rule =
  du_id :: nat
  du_rule_uuid :: string
  du_title :: string
  du_description :: string
  du_rule_format :: string
  du_lifecycle_status :: string
  du_severity :: string
  du_confidence :: nat
  du_source_module :: "string option"
  du_logsource_category :: "string option"
  du_logsource_product :: "string option"
  du_logsource_service :: "string option"
  du_rule_content :: "(string \<times> pyvalue) list"
  du_normalized_condition :: normalized_rule
  du_false_positive_guidance :: "string option"
  du_tags :: "string list"
  du_enabled :: bool
  du_system_owned :: bool
  du_current_version :: nat
  du_quality_score :: nat
  du_owner_user_id :: "nat option"
  du_created_by_user_id :: nat
  du_created_at :: time
  du_updated_at :: time
  du_last_validated_at :: "time option"
  du_last_executed_at :: "time option"

record detection_rule_version =
  dv_id :: nat
  dv_rule_id :: nat
  dv_version_number :: nat
  dv_change_summary :: string
  dv_rule_content :: "(string \<times> pyvalue) list"
  dv_normalized_condition :: normalized_rule
  dv_content_sha256 :: string
  dv_created_by_user_id :: nat
  dv_created_at :: time

record detection_rule_pack =
  dp_id :: nat
  dp_name :: string
  dp_description :: "string option"
  dp_version :: string
  dp_enabled :: bool
  dp_system_owned :: bool
  dp_created_by_user_id :: nat
  dp_created_at :: time
  dp_updated_at :: time

record detection_rule_pack_entry =
  de_id :: nat
  de_pack_id :: nat
  de_rule_id :: nat
  de_added_by_user_id :: nat
  de_added_at :: time

record attack_technique =
  dt_id :: nat
  dt_external_id :: string
  dt_name :: string
  dt_tactic :: string
  dt_description :: "string option"
  dt_system_owned :: bool
  dt_created_at :: time

record detection_rule_technique =
  dl_id :: nat
  dl_rule_id :: nat
  dl_technique_id :: nat
  dl_mapping_confidence :: nat
  dl_mapping_source :: string
  dl_created_by_user_id :: "nat option"
  dl_created_at :: time

record detection_test_case =
  dc_id :: nat
  dc_rule_id :: nat
  dc_name :: string
  dc_description :: "string option"
  dc_event_payload :: "(string \<times> pyvalue) list"
  dc_expected_match :: bool
  dc_expected_severity :: "string option"
  dc_enabled :: bool
  dc_created_by_user_id :: nat
  dc_created_at :: time
  dc_updated_at :: time

record detection_execution =
  dx_id :: nat
  dx_rule_id :: "nat option"
  dx_pack_id :: "nat option"
  dx_status :: string
  dx_mode :: string
  dx_records_scanned :: nat
  dx_matches_found :: nat
  dx_suppressed_matches :: nat
  dx_errors_count :: nat
  dx_requested_by_user_id :: nat
  dx_started_at :: time
  dx_completed_at :: "time option"
  dx_error_summary :: "string option"

record detection_match =
  dm_id :: nat
  dm_execution_id :: nat
  dm_rule_id :: nat
  dm_rule_version :: nat
  dm_source_module :: string
  dm_source_entity_type :: string
  dm_source_entity_id :: nat
  dm_event_timestamp :: time
  dm_matched_fields :: event_fields
  dm_evidence_summary :: string
  dm_severity :: string
  dm_confidence :: nat
  dm_risk_tenths :: nat
  dm_status :: string
  dm_reviewed_by_user_id :: "nat option"
  dm_reviewed_at :: "time option"
  dm_analyst_note :: "string option"
  dm_alert_id :: "nat option"
  dm_case_id :: "nat option"
  dm_fingerprint :: string
  dm_created_at :: time
  dm_updated_at :: time

record detection_suppression =
  ds_id :: nat
  ds_name :: string
  ds_description :: string
  ds_rule_id :: "nat option"
  ds_field_conditions :: "(string \<times> pyvalue) list"
  ds_valid_from :: "time option"
  ds_valid_until :: "time option"
  ds_enabled :: bool
  ds_created_by_user_id :: nat
  ds_created_at :: time
  ds_updated_at :: time


section \<open>The state\<close>

type_synonym limiter = "((nat \<times> string) \<times> time list) list"

text \<open>
  Beside the module's tables: the access-control database (audit log, notifications, activities), the
  tables of the SOC monitor (events, alerts, its own detection rules), and the request buckets of
  the limiter, which live in memory.
\<close>

record detect_db =
  dd_access :: db
  dd_soc :: soc_db
  dd_rules :: "detection_rule list"
  dd_versions :: "detection_rule_version list"
  dd_packs :: "detection_rule_pack list"
  dd_entries :: "detection_rule_pack_entry list"
  dd_techniques :: "attack_technique list"
  dd_links :: "detection_rule_technique list"
  dd_tests :: "detection_test_case list"
  dd_executions :: "detection_execution list"
  dd_matches :: "detection_match list"
  dd_suppressions :: "detection_suppression list"
  dd_limits :: limiter

definition set_du_id :: "nat \<Rightarrow> detection_rule \<Rightarrow> detection_rule" where "set_du_id i r = r\<lparr>du_id := i\<rparr>"
definition set_dv_id :: "nat \<Rightarrow> detection_rule_version \<Rightarrow> detection_rule_version" where "set_dv_id i r = r\<lparr>dv_id := i\<rparr>"
definition set_dp_id :: "nat \<Rightarrow> detection_rule_pack \<Rightarrow> detection_rule_pack" where "set_dp_id i r = r\<lparr>dp_id := i\<rparr>"
definition set_de_id :: "nat \<Rightarrow> detection_rule_pack_entry \<Rightarrow> detection_rule_pack_entry" where "set_de_id i r = r\<lparr>de_id := i\<rparr>"
definition set_dl_id :: "nat \<Rightarrow> detection_rule_technique \<Rightarrow> detection_rule_technique" where "set_dl_id i r = r\<lparr>dl_id := i\<rparr>"
definition set_dc_id :: "nat \<Rightarrow> detection_test_case \<Rightarrow> detection_test_case" where "set_dc_id i r = r\<lparr>dc_id := i\<rparr>"
definition set_dx_id :: "nat \<Rightarrow> detection_execution \<Rightarrow> detection_execution" where "set_dx_id i r = r\<lparr>dx_id := i\<rparr>"
definition set_dm_id :: "nat \<Rightarrow> detection_match \<Rightarrow> detection_match" where "set_dm_id i r = r\<lparr>dm_id := i\<rparr>"
definition set_ds_id :: "nat \<Rightarrow> detection_suppression \<Rightarrow> detection_suppression" where "set_ds_id i r = r\<lparr>ds_id := i\<rparr>"

lemmas set_detect_id_defs = set_du_id_def set_dv_id_def set_dp_id_def set_de_id_def set_dl_id_def set_dc_id_def
  set_dx_id_def set_dm_id_def set_ds_id_def

interpretation drule_table: table_rows du_id set_du_id
  by unfold_locales (simp add: set_detect_id_defs)

interpretation dversion_table: table_rows dv_id set_dv_id
  by unfold_locales (simp add: set_detect_id_defs)

interpretation pack_table: table_rows dp_id set_dp_id
  by unfold_locales (simp add: set_detect_id_defs)

interpretation entry_table: table_rows de_id set_de_id
  by unfold_locales (simp add: set_detect_id_defs)

interpretation technique_link_table: table_rows dl_id set_dl_id
  by unfold_locales (simp add: set_detect_id_defs)

interpretation test_table: table_rows dc_id set_dc_id
  by unfold_locales (simp add: set_detect_id_defs)

interpretation dexecution_table: table_rows dx_id set_dx_id
  by unfold_locales (simp add: set_detect_id_defs)

interpretation match_table: table_rows dm_id set_dm_id
  by unfold_locales (simp add: set_detect_id_defs)

interpretation suppression_table: table_rows ds_id set_ds_id
  by unfold_locales (simp add: set_detect_id_defs)

text \<open>
  The environment of a request: the clock and the outside functions of the access-control context,
  the numbers of float texts, the identifier \<open>uuid4\<close> gives, the monotonic clock, the request, and
  the user it runs as.
\<close>

record detect_env =
  dn_cx :: ctx
  dn_fl :: float_texts
  dn_uuid4 :: string
  dn_monotonic :: time
  dn_request :: request
  dn_user :: user_account

definition dn_now :: "detect_env \<Rightarrow> time" where "dn_now env = cx_now (dn_cx env)"
definition dn_sha :: "detect_env \<Rightarrow> string \<Rightarrow> string" where "dn_sha env = sha256_hex (cx_crypto (dn_cx env))"


section \<open>The limiter of the router\<close>

definition bucket_of :: "limiter \<Rightarrow> nat \<times> string \<Rightarrow> time list" where
  "bucket_of limits key = (case map_of limits key of None \<Rightarrow> [] | Some b \<Rightarrow> b)"

definition put_bucket :: "limiter \<Rightarrow> nat \<times> string \<Rightarrow> time list \<Rightarrow> limiter" where
  "put_bucket limits key b = (key, b) # filter (\<lambda>kv. fst kv \<noteq> key) limits"

text \<open>\<open>rate_limit\<close>: the expired instants leave the bucket even when the request is refused.\<close>

definition rate_limit :: "nat \<Rightarrow> string \<Rightarrow> nat \<Rightarrow> time \<Rightarrow> (limiter, unit) action" where
  "rate_limit uid key limit instant limits =
     (let bucket = dropWhile (\<lambda>t. t < instant - seconds 60) (bucket_of limits (uid, key))
      in if length bucket \<ge> limit
         then (Inl (HTTPException 429 ''Rate limit exceeded; retry shortly''), put_bucket limits (uid, key) bucket)
         else (Inr (), put_bucket limits (uid, key) (bucket @ [instant])))"

definition limited_request :: "detect_env \<Rightarrow> string \<Rightarrow> nat \<Rightarrow> (detect_db, unit) action" where
  "limited_request env key limit s =
     (case rate_limit (ua_id (dn_user env)) key limit (dn_monotonic env) (dd_limits s) of
        (r, limits) \<Rightarrow> (r, s\<lparr>dd_limits := limits\<rparr>))"


section \<open>Recording a committed change\<close>

definition change_args :: "detect_env \<Rightarrow> string \<Rightarrow> string \<Rightarrow> nat \<Rightarrow> audit_args" where
  "change_args env action rtype rid =
     \<lparr>aa_event_type = ''threat_intelligence'', aa_action = action,
      aa_request_id = (case rq_request_id (dn_request env) of None \<Rightarrow> ''unknown'' | Some i \<Rightarrow> i),
      aa_outcome = ''success'', aa_actor = Some (dn_user env), aa_resource_type = Some rtype,
      aa_resource_id = Some (str_nat rid), aa_route_template = Some (rq_path (dn_request env)),
      aa_request_method = Some (rq_method (dn_request env)), aa_status_code = Some 200,
      aa_reason_code = None, aa_metadata = [], aa_client_ip_hash = None, aa_user_agent_summary = None\<rparr>"

definition add_notification ::
    "detect_env \<Rightarrow> string \<Rightarrow> nat \<Rightarrow> (string \<times> string \<times> string) option \<Rightarrow> db \<Rightarrow> db" where
  "add_notification env rtype rid notify a =
     (case notify of
        None \<Rightarrow> a
      | Some (title, body, level) \<Rightarrow>
          if list_ex (\<lambda>n. nt_title n = take 255 title \<and> nt_message n = take 1000 body \<and>
                          nt_entity_type n = rtype \<and> nt_entity_id n = Some rid) (notifications a)
          then a
          else a\<lparr>notifications := insert_row nt_id set_nt_id
                   \<lparr>nt_id = 0, nt_title = take 255 title, nt_message = take 1000 body, nt_type = level,
                    nt_entity_type = rtype, nt_entity_id = Some rid, nt_recipient_user_id = None,
                    nt_is_read = False, nt_created_at = dn_now env\<rparr> (notifications a)\<rparr>)"

definition post_commit_event ::
    "detect_env \<Rightarrow> string \<Rightarrow> string \<Rightarrow> nat \<Rightarrow> string \<Rightarrow> (string \<times> string \<times> string) option \<Rightarrow>
       (detect_db, unit) action" where
  "post_commit_event env action rtype rid message notify s =
     (case append_event (dn_cx env) (change_args env action rtype rid) (dd_access s) of
        (Inl e, _) \<Rightarrow> (Inl e, s)
      | (Inr _, a) \<Rightarrow>
          (let a1 = a\<lparr>activities := insert_row sa_id set_sa_id
                        \<lparr>sa_id = 0, sa_action = take 80 action, sa_message = take 1000 message,
                         sa_entity_type = take 40 rtype, sa_entity_id = Some rid,
                         sa_created_at = dn_now env\<rparr> (activities a)\<rparr>
           in (Inr (), s\<lparr>dd_access := add_notification env rtype rid notify a1\<rparr>)))"

text \<open>Recording a change touches the access-control database only.\<close>

definition same_detection :: "detect_db \<Rightarrow> detect_db \<Rightarrow> bool" where
  "same_detection s t \<longleftrightarrow> (\<exists>a l. t = s\<lparr>dd_access := a, dd_limits := l\<rparr>)"

lemma same_detection_intros [intro, simp]:
  "same_detection s s" "same_detection s (s\<lparr>dd_access := x\<rparr>)" "same_detection s (s\<lparr>dd_limits := y\<rparr>)"
proof -
  show "same_detection s s"
    unfolding same_detection_def by (rule exI [of _ "dd_access s"], rule exI [of _ "dd_limits s"]) simp
  show "same_detection s (s\<lparr>dd_access := x\<rparr>)"
    unfolding same_detection_def by (rule exI [of _ x], rule exI [of _ "dd_limits s"]) simp
  show "same_detection s (s\<lparr>dd_limits := y\<rparr>)"
    unfolding same_detection_def by (rule exI [of _ "dd_access s"], rule exI [of _ y]) simp
qed

lemma post_commit_same: "post_commit_event env a r i m n s = (out, s') \<Longrightarrow> same_detection s s'"
  by (auto simp: post_commit_event_def Let_def split: prod.splits sum.splits)

lemma limited_same: "limited_request env key limit s = (out, s') \<Longrightarrow> same_detection s s'"
  by (auto simp: limited_request_def split: prod.splits)

lemma same_detection_fields:
  assumes "same_detection s t"
  shows "dd_soc t = dd_soc s" "dd_rules t = dd_rules s" "dd_versions t = dd_versions s" "dd_packs t = dd_packs s"
    "dd_entries t = dd_entries s" "dd_techniques t = dd_techniques s" "dd_links t = dd_links s"
    "dd_tests t = dd_tests s" "dd_executions t = dd_executions s" "dd_matches t = dd_matches s"
    "dd_suppressions t = dd_suppressions s"
  using assms by (auto simp: same_detection_def)


section \<open>The window of the limiter\<close>

record limited_call =
  lc_user :: nat
  lc_key :: string
  lc_limit :: nat
  lc_instant :: time

definition call_limiter :: "limited_call \<Rightarrow> (limiter, unit) action" where
  "call_limiter c = rate_limit (lc_user c) (lc_key c) (lc_limit c) (lc_instant c)"

text \<open>The instants at which requests of one user and key were let through, in order.\<close>

fun granted :: "nat \<Rightarrow> string \<Rightarrow> limited_call list \<Rightarrow> limiter \<Rightarrow> time list" where
  "granted uid key [] limits = []"
| "granted uid key (c # cs) limits =
     (case call_limiter c limits of
        (r, limits') \<Rightarrow>
          (if lc_user c = uid \<and> lc_key c = key \<and> r = Inr () then [lc_instant c] else []) @
          granted uid key cs limits')"

lemma bucket_of_put: "bucket_of (put_bucket limits k b) k' = (if k' = k then b else bucket_of limits k')"
proof -
  have "map_of (filter (\<lambda>kv. fst kv \<noteq> k) xs) k' = map_of xs k'" if "k' \<noteq> k" for xs :: limiter
    using that by (induction xs) auto
  then show ?thesis by (simp add: bucket_of_def put_bucket_def)
qed

lemma dropWhile_sorted: "sorted xs \<Longrightarrow> dropWhile (\<lambda>t. t < x) xs = filter (\<lambda>t. x \<le> (t::int)) xs"
proof (induction xs)
  case (Cons a xs)
  then show ?case
  proof (cases "a < x")
    case False
    with Cons.prems have "filter (\<lambda>t. x \<le> t) (a # xs) = a # xs" by (auto simp: filter_id_conv)
    with False show ?thesis by simp
  qed auto
qed simp

definition window :: "time \<Rightarrow> time list \<Rightarrow> time list" where
  "window t xs = filter (\<lambda>x. t - seconds 60 \<le> x \<and> x \<le> t) xs"

text \<open>
  What holds of the instants \<open>old\<close> granted so far: the bucket keeps those that can still count for a
  later instant, and no window holds more than the limit.
\<close>

definition bucket_inv :: "nat \<Rightarrow> time list \<Rightarrow> time list \<Rightarrow> time \<Rightarrow> bool" where
  "bucket_inv limit old bucket now \<longleftrightarrow>
     sorted old \<and> list_all (\<lambda>x. x \<le> now) old \<and> sorted bucket \<and>
     (\<forall>i \<ge> now. filter (\<lambda>x. i - seconds 60 \<le> x) bucket = filter (\<lambda>x. i - seconds 60 \<le> x) old) \<and>
     (\<forall>t. length (window t old) \<le> limit)"

lemma bucket_inv_later: "bucket_inv limit old b now \<Longrightarrow> now \<le> now' \<Longrightarrow> bucket_inv limit old b now'"
  by (auto simp: bucket_inv_def list_all_iff)

lemma bucket_inv_step:
  assumes inv: "bucket_inv limit old b now" and i: "now \<le> i"
    and b': "b' = dropWhile (\<lambda>t. t < i - seconds 60) b"
  shows "bucket_inv limit old b' i" "length b' < limit \<Longrightarrow> bucket_inv limit (old @ [i]) (b' @ [i]) i"
proof -
  have s: "sorted old" "list_all (\<lambda>x. x \<le> now) old" "sorted b"
    and f: "\<And>j. j \<ge> now \<Longrightarrow> filter (\<lambda>x. j - seconds 60 \<le> x) b = filter (\<lambda>x. j - seconds 60 \<le> x) old"
    and w: "\<And>t. length (window t old) \<le> limit"
    using inv by (auto simp: bucket_inv_def)
  have b: "b' = filter (\<lambda>x. i - seconds 60 \<le> x) old" using b' s f [OF i] dropWhile_sorted [of b] by simp
  have fj: "filter (\<lambda>x. j - seconds 60 \<le> x) b' = filter (\<lambda>x. j - seconds 60 \<le> x) old" if "i \<le> j" for j
    unfolding b using that by (auto simp: intro!: filter_cong)
  have sb: "sorted b'" "list_all (\<lambda>x. x \<le> i) old" using s i b sorted_filter [of id old] by (auto simp: list_all_iff intro: order_trans)
  show "bucket_inv limit old b' i" using s sb fj w by (simp add: bucket_inv_def)
  assume l: "length b' < limit"
  have "length (window t (old @ [i])) \<le> limit" for t
  proof (cases "t - seconds 60 \<le> i \<and> i \<le> t")
    case True
    have "window t old = filter (\<lambda>x. t - seconds 60 \<le> x \<and> x \<le> t) b'"
      unfolding window_def b filter_filter using True by (intro filter_cong) auto
    then have "length (window t old) \<le> length b'" by simp
    with l True show ?thesis by (simp add: window_def)
  next
    case False
    with w [of t] show ?thesis by (auto simp: window_def)
  qed
  then show "bucket_inv limit (old @ [i]) (b' @ [i]) i"
    using s sb fj by (auto simp: bucket_inv_def sorted_append list_all_iff b seconds_def)
qed

lemma granted_window:
  assumes "bucket_inv limit old (bucket_of limits (uid, key)) now"
    and "sorted (now # map lc_instant cs)"
    and "list_all (\<lambda>c. lc_user c = uid \<and> lc_key c = key \<longrightarrow> lc_limit c = limit) cs"
  shows "length (window t (old @ granted uid key cs limits)) \<le> limit"
  using assms
proof (induction cs arbitrary: old limits now)
  case Nil
  then show ?case by (simp add: bucket_inv_def)
next
  case (Cons c cs)
  let ?i = "lc_instant c" and ?b = "bucket_of limits (uid, key)"
  let ?b' = "dropWhile (\<lambda>t. t < ?i - seconds 60) ?b"
  have i: "now \<le> ?i" "sorted (?i # map lc_instant cs)" using Cons.prems(2) by simp_all
  obtain r limits' where c: "call_limiter c limits = (r, limits')" by (cases "call_limiter c limits") auto
  note st = bucket_inv_step [OF Cons.prems(1) i(1) refl]
  show ?case
  proof (cases "lc_user c = uid \<and> lc_key c = key")
    case False
    then have "bucket_of limits' (uid, key) = ?b"
      using c by (auto simp: call_limiter_def rate_limit_def Let_def bucket_of_put split: if_splits)
    moreover have "bucket_inv limit old ?b ?i" using Cons.prems(1) i(1) by (rule bucket_inv_later)
    ultimately show ?thesis using Cons.IH [of old limits' ?i] i(2) Cons.prems(3) c False by auto
  next
    case True
    then have lim: "lc_limit c = limit" using Cons.prems(3) by simp
    show ?thesis
    proof (cases "limit \<le> length ?b'")
      case True': True
      then have "r \<noteq> Inr ()" "bucket_of limits' (uid, key) = ?b'"
        using c lim \<open>lc_user c = uid \<and> lc_key c = key\<close>
        by (auto simp: call_limiter_def rate_limit_def Let_def bucket_of_put split: if_splits)
      with Cons.IH [of old limits' ?i] st(1) i(2) Cons.prems(3) c show ?thesis by simp
    next
      case False
      then have "r = Inr ()" "bucket_of limits' (uid, key) = ?b' @ [?i]"
        using c lim True by (auto simp: call_limiter_def rate_limit_def Let_def bucket_of_put split: if_splits)
      with Cons.IH [of "old @ [?i]" limits' ?i] st(2) False i(2) Cons.prems(3) c True show ?thesis by simp
    qed
  qed
qed

end
