(* ===== verification/Detect_Rules.thy ===== *)
theory Detect_Rules
  imports Detect_Store
begin

text \<open>
  Detection rules and their tests: \<open>detection_engineering/service.py\<close>, the test cases of
  \<open>execution_service.py\<close> and the rule and test endpoints of \<open>router.py\<close>. The session does not flush
  on queries (\<open>autoflush=False\<close>): a row added but not flushed is not seen by a later query of the
  same request, which the technique count of \<open>quality_score\<close> depends on. A request that raises
  leaves the database as it was.
\<close>

section \<open>Service\<close>

definition get_rule :: "detect_db \<Rightarrow> nat \<Rightarrow> detection_rule option" where
  "get_rule s rid = find_row du_id rid (dd_rules s)"

definition detection_rule_or_404 :: "detect_db \<Rightarrow> nat \<Rightarrow> detection_rule result" where
  "detection_rule_or_404 s rid = (case get_rule s rid of None \<Rightarrow> Inl (HTTPException 404 ''Rule not found'') | Some r \<Rightarrow> Inr r)"

definition put_rule :: "detection_rule \<Rightarrow> detect_db \<Rightarrow> detect_db" where
  "put_rule r s = s\<lparr>dd_rules := upd_row du_id (du_id r) (\<lambda>_. r) (dd_rules s)\<rparr>"

text \<open>What reading back a stored dictionary gives.\<close>

definition stored_dict :: "(string \<times> pyvalue) list \<Rightarrow> (string \<times> pyvalue) list" where
  "stored_dict d = map (\<lambda>kv. (fst kv, stored_value (snd kv))) (sort_key fst d)"

definition rule_content_hash :: "detect_env \<Rightarrow> (string \<times> pyvalue) list \<Rightarrow> string" where
  "rule_content_hash env content = dn_sha env (dumps_value True '','' '':'' (PDict content))"

fun py_len :: "pyvalue \<Rightarrow> nat result" where
  "py_len (PStr s) = Inr (length s)"
| "py_len (PList xs) = Inr (length xs)"
| "py_len (PDict d) = Inr (length d)"
| "py_len v = Inl (TypeError (''object of type '' @ type_name v @ '' has no len()''))"

definition enabled_tests :: "detect_db \<Rightarrow> nat \<Rightarrow> detection_test_case list" where
  "enabled_tests s rid = sort_key dc_id (filter (\<lambda>c. dc_rule_id c = rid \<and> dc_enabled c) (dd_tests s))"

text \<open>\<open>quality_score\<close>, with the number of technique links its count query sees.\<close>

definition quality_score :: "detect_env \<Rightarrow> detect_db \<Rightarrow> detection_rule \<Rightarrow> nat \<Rightarrow> nat result" where
  "quality_score env s r links =
     bind_result (validate (dn_fl env) (du_rule_content r)) (\<lambda>validation.
     (let tests = enabled_tests s (du_id r);
          positives = length (filter dc_expected_match tests);
          negatives = length tests - positives;
          description = (case map_of (du_rule_content r) ''description'' of
                           None \<Rightarrow> PStr (du_description r) | Some v \<Rightarrow> v)
      in bind_result (py_len description) (\<lambda>n.
           Inr (min 100 (20 + min 20 (n div 20) + (if vd_valid validation then 15 else 0) +
                         min 20 (length tests * 5) + (if positives > 0 then 10 else 0) +
                         (if negatives > 0 then 10 else 0) + (if links > 0 then 5 else 0))))))"

definition count_links :: "detect_db \<Rightarrow> nat \<Rightarrow> nat" where
  "count_links s rid = count_where (\<lambda>l. dl_rule_id l = rid) (dd_links s)"

definition add_version :: "detect_env \<Rightarrow> detection_rule \<Rightarrow> string \<Rightarrow> detect_db \<Rightarrow> detect_db" where
  "add_version env r summary s =
     s\<lparr>dd_versions := insert_row dv_id set_dv_id
        \<lparr>dv_id = 0, dv_rule_id = du_id r, dv_version_number = du_current_version r,
         dv_change_summary = take 500 summary, dv_rule_content = du_rule_content r,
         dv_normalized_condition = du_normalized_condition r,
         dv_content_sha256 = rule_content_hash env (du_rule_content r),
         dv_created_by_user_id = ua_id (dn_user env), dv_created_at = dn_now env\<rparr> (dd_versions s)\<rparr>"

text \<open>\<open>map_techniques\<close>: the old links go at once, the new ones are added one by one.\<close>

fun add_links ::
    "detect_env \<Rightarrow> nat \<Rightarrow> string \<Rightarrow> string list \<Rightarrow> detect_db \<Rightarrow> detect_db result" where
  "add_links env rid source [] s = Inr s"
| "add_links env rid source (x # xs) s =
     (case find (\<lambda>t. dt_external_id t = upper x) (dd_techniques s) of
        None \<Rightarrow> Inl (HTTPException 422 (''Unknown local ATT&CK technique: '' @ x))
      | Some t \<Rightarrow>
          add_links env rid source xs
            (s\<lparr>dd_links := insert_row dl_id set_dl_id
               \<lparr>dl_id = 0, dl_rule_id = rid, dl_technique_id = dt_id t, dl_mapping_confidence = 80,
                dl_mapping_source = source, dl_created_by_user_id = Some (ua_id (dn_user env)),
                dl_created_at = dn_now env\<rparr> (dd_links s)\<rparr>))"

definition map_techniques :: "detect_env \<Rightarrow> nat \<Rightarrow> string list \<Rightarrow> string \<Rightarrow> detect_db \<Rightarrow> detect_db result" where
  "map_techniques env rid external_ids source s =
     add_links env rid source (sort (remdups external_ids))
       (s\<lparr>dd_links := filter (\<lambda>l. dl_rule_id l \<noteq> rid) (dd_links s)\<rparr>)"

text \<open>The unique constraint of the links, checked when they are written.\<close>

definition links_unique :: "detect_db \<Rightarrow> bool" where
  "links_unique s \<longleftrightarrow> distinct (map (\<lambda>l. (dl_rule_id l, dl_technique_id l)) (dd_links s))"

record rule_payload =
  rp_title :: string
  rp_description :: string
  rp_rule_uuid :: "string option"
  rp_rule_format :: string
  rp_severity :: string
  rp_confidence :: nat
  rp_source_module :: "string option"
  rp_logsource_category :: "string option"
  rp_logsource_product :: "string option"
  rp_logsource_service :: "string option"
  rp_selections :: pyvalue
  rp_condition :: pyvalue
  rp_false_positive_guidance :: "string option"
  rp_tags :: "string list"
  rp_technique_ids :: "string list"
  rp_lifecycle_status :: string

definition payload_content :: "rule_payload \<Rightarrow> (string \<times> pyvalue) list" where
  "payload_content p =
     [(''title'', PStr (rp_title p)), (''description'', PStr (rp_description p)),
      (''selections'', rp_selections p), (''condition'', rp_condition p)]"

definition tag_set :: "string list \<Rightarrow> string list" where
  "tag_set tags = sort (remdups (map (take 80) tags))"

definition new_rule_row ::
    "detect_env \<Rightarrow> rule_payload \<Rightarrow> bool \<Rightarrow> string \<Rightarrow> normalized_rule \<Rightarrow> detect_db \<Rightarrow> detection_rule" where
  "new_rule_row env p system_owned uuid n s =
     \<lparr>du_id = next_id du_id (dd_rules s), du_rule_uuid = uuid, du_title = rp_title p,
      du_description = rp_description p, du_rule_format = rp_rule_format p,
      du_lifecycle_status = rp_lifecycle_status p, du_severity = rp_severity p,
      du_confidence = rp_confidence p, du_source_module = rp_source_module p,
      du_logsource_category = rp_logsource_category p,
      du_logsource_product = rp_logsource_product p,
      du_logsource_service = rp_logsource_service p,
      du_rule_content = stored_dict (payload_content p), du_normalized_condition = stored_rule n,
      du_false_positive_guidance = rp_false_positive_guidance p,
      du_tags = tag_set (rp_tags p), du_enabled = False, du_system_owned = system_owned,
      du_current_version = 1, du_quality_score = 0,
      du_owner_user_id = Some (ua_id (dn_user env)),
      du_created_by_user_id = ua_id (dn_user env), du_created_at = dn_now env,
      du_updated_at = dn_now env, du_last_validated_at = None,
      du_last_executed_at = None\<rparr>"

text \<open>
  \<open>service.create_rule\<close>. The rule is flushed, so its identifier is known and its unique identifier
  checked; its version and its links are not, so the score counts no link.
\<close>

definition create_detection_rule :: "detect_env \<Rightarrow> rule_payload \<Rightarrow> bool \<Rightarrow> string option \<Rightarrow> (detect_db, detection_rule) action" where
  "create_detection_rule env p system_owned forced_uuid s =
     (let content = payload_content p;
          uuid = (if truthy forced_uuid then the forced_uuid
                  else if truthy (rp_rule_uuid p) then the (rp_rule_uuid p) else dn_uuid4 env)
      in case validate (dn_fl env) content of
           Inl e \<Rightarrow> (Inl e, s)
         | Inr result \<Rightarrow>
             (case vd_normalized result of
                None \<Rightarrow> (Inl (HTTPException 422 (join '', '' (vd_errors result))), s)
              | Some n \<Rightarrow>
                  if rp_lifecycle_status p = ''active''
                  then (Inl (HTTPException 422 ''Rules must pass validation and enabled tests before activation''), s)
                  else if \<not> serializable (PDict content)
                  then (Inl (TypeError ''Object is not JSON serializable''), s)
                  else if uuid \<in> du_rule_uuid ` set (dd_rules s) then (Inl IntegrityError, s)
                  else
                    (let row = new_rule_row env p system_owned uuid n s;
                         s1 = add_version env row ''Initial immutable version''
                                (s\<lparr>dd_rules := insert_row du_id set_du_id row (dd_rules s)\<rparr>)
                     in case map_techniques env (du_id row) (rp_technique_ids p)
                               (if system_owned then ''system_seed'' else ''manual'') s1 of
                          Inl e \<Rightarrow> (Inl e, s)
                        | Inr s2 \<Rightarrow>
                            (case quality_score env s row 0 of
                               Inl e \<Rightarrow> (Inl e, s)
                             | Inr q \<Rightarrow>
                                 (let row' = row\<lparr>du_quality_score := q\<rparr>
                                  in (Inr row', put_rule row' s2))))))"


section \<open>Tests\<close>

function nested_depth_ok :: "nat \<Rightarrow> pyvalue \<Rightarrow> bool" where
  "nested_depth_ok depth v =
     (if depth > 6 then False
      else case v of
             PDict d \<Rightarrow> list_all (\<lambda>kv. nested_depth_ok (depth + 1) (snd kv)) d
           | PList xs \<Rightarrow> list_all (nested_depth_ok (depth + 1)) xs
           | _ \<Rightarrow> True)"
  by auto
termination
  by (relation "measure (\<lambda>(depth, v). 7 - depth)") auto

declare nested_depth_ok.simps [simp del]

definition synthetic_event :: "(string \<times> pyvalue) list \<Rightarrow> event_fields result" where
  "synthetic_event payload =
     (if length (json_dumps (PDict payload)) > 65536 then Inl (ValueError ''Test event exceeds 64 KiB'')
      else if length payload > 64 then Inl (ValueError ''Test event exceeds 64 fields'')
      else if \<not> nested_depth_ok 0 (PDict payload)
      then Inl (ValueError ''Test event exceeds maximum nesting depth of 6'')
      else Inr (fold (\<lambda>(k, v) event. if canonical_field k \<in> set ALLOWED_FIELDS
                                    then dict_put event (canonical_field k) v else event)
                  payload (map (\<lambda>f. (f, PNone)) ALLOWED_FIELDS)))"

record test_result =
  tt_id :: nat
  tt_name :: string
  tt_passed :: bool
  tt_actual_match :: "bool option"
  tt_matched_fields :: event_fields
  tt_matched_selections :: "string list"
  tt_error :: "string option"

text \<open>One test case; only \<open>ValueError\<close> and \<open>TypeError\<close> are turned into a failed test.\<close>

definition run_test :: "detect_env \<Rightarrow> detection_rule \<Rightarrow> detection_test_case \<Rightarrow> test_result result" where
  "run_test env r c =
     (case bind_result (synthetic_event (dc_event_payload c))
             (evaluate_rule (dn_fl env) (du_normalized_condition r)) of
        Inr (matched, reported, selections) \<Rightarrow>
          Inr \<lparr>tt_id = dc_id c, tt_name = dc_name c,
               tt_passed = (matched = dc_expected_match c \<and>
                            (truthy (dc_expected_severity c) \<longrightarrow> dc_expected_severity c = Some (du_severity r))),
               tt_actual_match = Some matched, tt_matched_fields = reported,
               tt_matched_selections = selections, tt_error = None\<rparr>
      | Inl e \<Rightarrow>
          if is_ValueError e \<or> is_TypeError e
          then Inr \<lparr>tt_id = dc_id c, tt_name = dc_name c, tt_passed = False, tt_actual_match = None,
                    tt_matched_fields = [], tt_matched_selections = [],
                    tt_error = Some (redact_text (exn_message e) (Some 300))\<rparr>
          else Inl e)"

record test_summary =
  su_passed :: bool
  su_total :: nat
  su_passed_count :: nat
  su_results :: "test_result list"

definition run_tests :: "detect_env \<Rightarrow> detect_db \<Rightarrow> detection_rule \<Rightarrow> test_summary result" where
  "run_tests env s r =
     bind_result (all_results (run_test env r) (enabled_tests s (du_id r))) (\<lambda>results.
       Inr \<lparr>su_passed = (results \<noteq> [] \<and> list_all tt_passed results), su_total = length results,
            su_passed_count = length (filter tt_passed results), su_results = results\<rparr>)"


section \<open>Rule endpoints\<close>

text \<open>
  An endpoint that changes the database commits and then records the change; the record may itself
  fail, after the commit.
\<close>

definition record_change ::
    "detect_env \<Rightarrow> string \<Rightarrow> string \<Rightarrow> nat \<Rightarrow> string \<Rightarrow> (string \<times> string \<times> string) option \<Rightarrow> 'a \<Rightarrow> (detect_db, 'a) action" where
  "record_change env action rtype rid message notify out =
     bind_action (post_commit_event env action rtype rid message notify) (\<lambda>_. return out)"

definition create_rule_endpoint :: "detect_env \<Rightarrow> rule_payload \<Rightarrow> (detect_db, detection_rule) action" where
  "create_rule_endpoint env p =
     bind_action (limited_request env ''rule_create'' 20) (\<lambda>_ s.
       if truthy (rp_rule_uuid p) \<and> the (rp_rule_uuid p) \<in> du_rule_uuid ` set (dd_rules s)
       then (Inl (HTTPException 409 ''Rule UUID already exists''), s)
       else case create_detection_rule env p False None s of
              (Inl e, _) \<Rightarrow> (Inl e, s)
            | (Inr r, s1) \<Rightarrow>
                if \<not> links_unique s1 then (Inl (HTTPException 409 ''Rule UUID already exists''), s)
                else record_change env ''detection_rule_created'' ''detection_rule'' (du_id r)
                       (''Detection rule '' @ str_nat (du_id r) @ '' created.'') None r s1)"

record DetectionRuleUpdate =
  ru_title :: "string option option"
  ru_description :: "string option option"
  ru_severity :: "string option option"
  ru_confidence :: "nat option option"
  ru_source_module :: "string option option"
  ru_selections :: "pyvalue option"
  ru_condition :: "pyvalue option"
  ru_tags :: "string list option option"
  ru_technique_ids :: "string list option option"
  ru_change_summary :: "string option"

definition put_given :: "string \<Rightarrow> pyvalue option \<Rightarrow> (string \<times> pyvalue) list \<Rightarrow> (string \<times> pyvalue) list" where
  "put_given key v d = (case v of None \<Rightarrow> d | Some x \<Rightarrow> dict_put d key x)"

text \<open>A column that may not be null: an explicit \<open>null\<close> fails when the row is written.\<close>

definition not_null :: "'a option option \<Rightarrow> 'a \<Rightarrow> 'a result" where
  "not_null v old = (case v of None \<Rightarrow> Inr old | Some (Some x) \<Rightarrow> Inr x | Some None \<Rightarrow> Inl IntegrityError)"

definition given :: "'a option option \<Rightarrow> 'a option" where
  "given v = (case v of Some (Some x) \<Rightarrow> Some x | _ \<Rightarrow> None)"

definition updated_content :: "DetectionRuleUpdate \<Rightarrow> (string \<times> pyvalue) list \<Rightarrow> (string \<times> pyvalue) list" where
  "updated_content u content =
     put_given ''condition'' (ru_condition u)
       (put_given ''selections'' (ru_selections u)
         (put_given ''description'' (map_option opt_str (ru_description u))
           (put_given ''title'' (map_option opt_str (ru_title u)) content)))"

definition current_version_row :: "detect_db \<Rightarrow> detection_rule \<Rightarrow> detection_rule_version option" where
  "current_version_row s r =
     find (\<lambda>v. dv_rule_id v = du_id r \<and> dv_version_number v = du_current_version r) (dd_versions s)"

text \<open>The columns of the updated rule, all written with the commit.\<close>

definition updated_columns :: "DetectionRuleUpdate \<Rightarrow> detection_rule \<Rightarrow> detection_rule result" where
  "updated_columns u r =
     bind_result (not_null (ru_title u) (du_title r)) (\<lambda>title.
     bind_result (not_null (ru_description u) (du_description r)) (\<lambda>description.
     bind_result (not_null (ru_severity u) (du_severity r)) (\<lambda>severity.
     bind_result (not_null (ru_confidence u) (du_confidence r)) (\<lambda>confidence.
       Inr (r\<lparr>du_title := title, du_description := description, du_severity := severity,
              du_confidence := confidence,
              du_source_module := (case ru_source_module u of None \<Rightarrow> du_source_module r | Some m \<Rightarrow> m)\<rparr>)))))"

text \<open>The rule with its new content and the next version number.\<close>

definition revised_rule ::
    "detect_env \<Rightarrow> DetectionRuleUpdate \<Rightarrow> (string \<times> pyvalue) list \<Rightarrow> normalized_rule \<Rightarrow> detection_rule \<Rightarrow> detection_rule" where
  "revised_rule env u content n r =
     r\<lparr>du_current_version := du_current_version r + 1, du_rule_content := stored_dict content,
       du_normalized_condition := stored_rule n,
       du_lifecycle_status := (if du_lifecycle_status r = ''active'' then ''testing'' else du_lifecycle_status r),
       du_enabled := False,
       du_tags := (case given (ru_tags u) of None \<Rightarrow> du_tags r | Some t \<Rightarrow> tag_set t),
       du_updated_at := dn_now env\<rparr>"

definition unchanged_content :: "detect_env \<Rightarrow> detect_db \<Rightarrow> detection_rule \<Rightarrow> (string \<times> pyvalue) list \<Rightarrow> bool" where
  "unchanged_content env s r content =
     (case current_version_row s r of None \<Rightarrow> False | Some v \<Rightarrow> dv_content_sha256 v = rule_content_hash env content)"

text \<open>
  \<open>update_rule\<close> up to its commit: the rule as it will be written, and the database with the new links.
  The count of links in the score sees the old ones, or none when they have just been deleted.
\<close>

definition update_plan :: "detect_env \<Rightarrow> nat \<Rightarrow> DetectionRuleUpdate \<Rightarrow> detect_db \<Rightarrow> (detection_rule \<times> detect_db) result" where
  "update_plan env rid u s =
     bind_result (detection_rule_or_404 s rid) (\<lambda>r.
       if du_system_owned r \<and> \<not> ua_is_system_admin (dn_user env)
       then Inl (HTTPException 403 ''System rules require Administrator access; clone to edit'')
       else let content = updated_content u (du_rule_content r) in
         bind_result (validate (dn_fl env) content) (\<lambda>result.
           case vd_normalized result of
             None \<Rightarrow> Inl (HTTPException 422 (join '', '' (vd_errors result)))
           | Some n \<Rightarrow>
               if unchanged_content env s r content \<and> given (ru_technique_ids u) = None \<and> given (ru_tags u) = None
               then Inl (HTTPException 409 ''No meaningful rule change detected'')
               else
                 bind_result (case given (ru_technique_ids u) of
                                None \<Rightarrow> Inr s
                              | Some ids \<Rightarrow> map_techniques env rid ids ''manual'' s) (\<lambda>s1.
                 bind_result (quality_score env s (revised_rule env u content n r)
                                (if given (ru_technique_ids u) = None then count_links s rid else 0)) (\<lambda>q.
                 bind_result (updated_columns u (revised_rule env u content n r)) (\<lambda>r2.
                   if \<not> links_unique s1 then Inl IntegrityError
                   else Inr (r2\<lparr>du_quality_score := q\<rparr>, s1))))))"

definition update_detection_rule :: "detect_env \<Rightarrow> nat \<Rightarrow> DetectionRuleUpdate \<Rightarrow> (detect_db, detection_rule) action" where
  "update_detection_rule env rid u s =
     (case update_plan env rid u s of
        Inl e \<Rightarrow> (Inl e, s)
      | Inr (r, s1) \<Rightarrow>
          record_change env ''detection_rule_updated'' ''detection_rule'' rid
            (''Detection rule '' @ str_nat rid @ '' version '' @ str_nat (du_current_version r) @ '' created.'') None r
            (add_version env r (case ru_change_summary u of None \<Rightarrow> ''Rule updated'' | Some c \<Rightarrow> c) (put_rule r s1)))"

definition validate_rule :: "detect_env \<Rightarrow> nat \<Rightarrow> (detect_db, validation \<times> test_summary \<times> nat) action" where
  "validate_rule env rid =
     bind_action (limited_request env ''validate'' 30) (\<lambda>_ s.
       case bind_result (detection_rule_or_404 s rid) (\<lambda>r.
              bind_result (validate (dn_fl env) (du_rule_content r)) (\<lambda>result.
              bind_result (quality_score env s r (count_links s rid)) (\<lambda>q. Inr (r, result, q)))) of
         Inl e \<Rightarrow> (Inl e, s)
       | Inr (r, result, q) \<Rightarrow>
           (let r1 = r\<lparr>du_last_validated_at := Some (dn_now env), du_quality_score := q,
                       du_updated_at := dn_now env\<rparr>;
                s1 = put_rule r1 s
            in bind_action
                 (if vd_valid result
                  then post_commit_event env ''detection_rule_validated'' ''detection_rule'' rid
                         (''Detection rule '' @ str_nat rid @ '' validated.'') None
                  else post_commit_event env ''detection_validation_failed'' ''detection_rule'' rid
                         (''Validation failed for detection rule '' @ str_nat rid @ ''.'')
                         (Some (''Detection rule validation failed'',
                                ''Rule '' @ str_nat rid @ '' requires correction.'', ''warning'')))
                 (\<lambda>_ s2. (bind_result (run_tests env s2 r1) (\<lambda>t. Inr (result, t, q)), s2)) s1))"

definition activate :: "detect_env \<Rightarrow> nat \<Rightarrow> (detect_db, detection_rule) action" where
  "activate env rid s =
     (case bind_result (detection_rule_or_404 s rid) (\<lambda>r.
             bind_result (validate (dn_fl env) (du_rule_content r)) (\<lambda>validation.
             bind_result (run_tests env s r) (\<lambda>tests.
               if \<not> vd_valid validation \<or> \<not> su_passed tests
               then Inl (HTTPException 422
                 ''Activation requires successful validation and all enabled positive/negative tests to pass'')
               else bind_result (quality_score env s r (count_links s rid)) (\<lambda>q. Inr (r, q))))) of
        Inl e \<Rightarrow> (Inl e, s)
      | Inr (r, q) \<Rightarrow>
          (let r1 = r\<lparr>du_lifecycle_status := ''active'', du_enabled := True,
                      du_last_validated_at := Some (dn_now env), du_quality_score := q,
                      du_updated_at := dn_now env\<rparr>
           in record_change env ''detection_rule_activated'' ''detection_rule'' rid
                (''Detection rule '' @ str_nat rid @ '' activated.'') None r1 (put_rule r1 s)))"

text \<open>\<open>_lifecycle\<close>, for \<open>disable\<close> and \<open>archive\<close>.\<close>

definition set_lifecycle :: "detect_env \<Rightarrow> nat \<Rightarrow> string \<Rightarrow> (detect_db, detection_rule) action" where
  "set_lifecycle env rid status s =
     (case detection_rule_or_404 s rid of
        Inl e \<Rightarrow> (Inl e, s)
      | Inr r \<Rightarrow>
          (let r1 = r\<lparr>du_lifecycle_status := status, du_enabled := False, du_updated_at := dn_now env\<rparr>
           in record_change env (''detection_rule_'' @ status) ''detection_rule'' rid
                (''Detection rule '' @ str_nat rid @ '' set to '' @ status @ ''.'') None r1 (put_rule r1 s)))"

definition clone :: "detect_env \<Rightarrow> nat \<Rightarrow> (detect_db, detection_rule) action" where
  "clone env rid s =
     (case detection_rule_or_404 s rid of
        Inl e \<Rightarrow> (Inl e, s)
      | Inr r \<Rightarrow>
          (case (map_of (du_rule_content r) ''selections'', map_of (du_rule_content r) ''condition'') of
             (None, _) \<Rightarrow> (Inl (KeyError ''selections''), s)
           | (_, None) \<Rightarrow> (Inl (KeyError ''condition''), s)
           | (Some selections, Some condition) \<Rightarrow>
               (case create_detection_rule env
                       \<lparr>rp_title = take 240 (''Copy of '' @ du_title r), rp_description = du_description r,
                        rp_rule_uuid = None, rp_rule_format = ''native'', rp_severity = du_severity r,
                        rp_confidence = du_confidence r, rp_source_module = du_source_module r,
                        rp_logsource_category = None, rp_logsource_product = None, rp_logsource_service = None,
                        rp_selections = selections, rp_condition = condition,
                        rp_false_positive_guidance = None, rp_tags = du_tags r, rp_technique_ids = [],
                        rp_lifecycle_status = ''draft''\<rparr> False None s of
                  (Inl e, _) \<Rightarrow> (Inl e, s)
                | (Inr c, s1) \<Rightarrow>
                    record_change env ''detection_rule_cloned'' ''detection_rule'' (du_id c)
                      (''Detection rule '' @ str_nat rid @ '' cloned as '' @ str_nat (du_id c) @ ''.'') None c s1)))"

definition rollback :: "detect_env \<Rightarrow> nat \<Rightarrow> nat \<Rightarrow> string \<Rightarrow> (detect_db, detection_rule) action" where
  "rollback env rid number summary s =
     (case detection_rule_or_404 s rid of
        Inl e \<Rightarrow> (Inl e, s)
      | Inr r \<Rightarrow>
          (case find (\<lambda>v. dv_rule_id v = rid \<and> dv_version_number v = number) (dd_versions s) of
             None \<Rightarrow> (Inl (HTTPException 404 ''Version not found''), s)
           | Some old \<Rightarrow>
               (let r1 = r\<lparr>du_current_version := du_current_version r + 1,
                           du_rule_content := dv_rule_content old,
                           du_normalized_condition := dv_normalized_condition old,
                           du_lifecycle_status := ''testing'', du_enabled := False,
                           du_updated_at := dn_now env\<rparr>
                in record_change env ''detection_rule_rollback'' ''detection_rule'' rid
                     (''Rule '' @ str_nat rid @ '' rolled back as new version '' @
                      str_nat (du_current_version r1) @ ''.'') None r1
                     (add_version env r1 summary (put_rule r1 s)))))"


section \<open>Test endpoints\<close>

record TestCaseCreate =
  cc_name :: string
  cc_description :: "string option"
  cc_event_payload :: "(string \<times> pyvalue) list"
  cc_expected_match :: bool
  cc_expected_severity :: "string option"
  cc_enabled :: bool

definition create_test :: "detect_env \<Rightarrow> nat \<Rightarrow> TestCaseCreate \<Rightarrow> (detect_db, detection_test_case) action" where
  "create_test env rid p s =
     (case detection_rule_or_404 s rid of
        Inl e \<Rightarrow> (Inl e, s)
      | Inr r \<Rightarrow>
          (case synthetic_event (cc_event_payload p) of
             Inl e \<Rightarrow> (Inl (HTTPException 422 (exn_message e)), s)
           | Inr _ \<Rightarrow>
               (let row = \<lparr>dc_id = next_id dc_id (dd_tests s), dc_rule_id = rid, dc_name = cc_name p,
                           dc_description = cc_description p,
                           dc_event_payload = stored_dict (cc_event_payload p),
                           dc_expected_match = cc_expected_match p,
                           dc_expected_severity = cc_expected_severity p, dc_enabled = cc_enabled p,
                           dc_created_by_user_id = ua_id (dn_user env), dc_created_at = dn_now env,
                           dc_updated_at = dn_now env\<rparr>;
                    s1 = s\<lparr>dd_tests := insert_row dc_id set_dc_id row (dd_tests s)\<rparr>
                in case quality_score env s1 r (count_links s rid) of
                     Inl e \<Rightarrow> (Inl e, s)
                   | Inr q \<Rightarrow>
                       record_change env ''detection_test_created'' ''detection_test_case'' (dc_id row)
                         (''Test case '' @ str_nat (dc_id row) @ '' created.'') None row
                         (put_rule (r\<lparr>du_quality_score := q, du_updated_at := dn_now env\<rparr>) s1))))"

record TestCaseUpdate =
  cu_name :: "string option option"
  cu_description :: "string option option"
  cu_event_payload :: "(string \<times> pyvalue) list option option"
  cu_expected_match :: "bool option option"
  cu_expected_severity :: "string option option"
  cu_enabled :: "bool option option"

definition test_or_404 :: "detect_db \<Rightarrow> nat \<Rightarrow> nat \<Rightarrow> detection_test_case result" where
  "test_or_404 s rid tid =
     (case find (\<lambda>c. dc_id c = tid \<and> dc_rule_id c = rid) (dd_tests s) of
        None \<Rightarrow> Inl (HTTPException 404 ''Test case not found'')
      | Some c \<Rightarrow> Inr c)"

text \<open>A payload that is refused, or an explicit \<open>null\<close>, raises out of the endpoint.\<close>

definition updated_test :: "detect_env \<Rightarrow> TestCaseUpdate \<Rightarrow> detection_test_case \<Rightarrow> detection_test_case result" where
  "updated_test env u c =
     bind_result (case cu_event_payload u of
                    None \<Rightarrow> Inr (dc_event_payload c)
                  | Some None \<Rightarrow> Inl (TypeError ''object of type NoneType has no len()'')
                  | Some (Some p) \<Rightarrow> bind_result (synthetic_event p) (\<lambda>_. Inr (stored_dict p))) (\<lambda>payload.
     bind_result (not_null (cu_name u) (dc_name c)) (\<lambda>name.
     bind_result (not_null (cu_expected_match u) (dc_expected_match c)) (\<lambda>expected.
     bind_result (not_null (cu_enabled u) (dc_enabled c)) (\<lambda>enabled.
       Inr (c\<lparr>dc_name := name, dc_event_payload := payload, dc_expected_match := expected, dc_enabled := enabled,
              dc_description := (case cu_description u of None \<Rightarrow> dc_description c | Some d \<Rightarrow> d),
              dc_expected_severity := (case cu_expected_severity u of None \<Rightarrow> dc_expected_severity c | Some d \<Rightarrow> d),
              dc_updated_at := dn_now env\<rparr>)))))"

definition update_test :: "detect_env \<Rightarrow> nat \<Rightarrow> nat \<Rightarrow> TestCaseUpdate \<Rightarrow> (detect_db, detection_test_case) action" where
  "update_test env rid tid u s =
     (case bind_result (test_or_404 s rid tid) (updated_test env u) of
        Inl e \<Rightarrow> (Inl e, s)
      | Inr c \<Rightarrow>
          record_change env ''detection_test_updated'' ''detection_test_case'' tid
            (''Test case '' @ str_nat tid @ '' updated.'') None c
            (s\<lparr>dd_tests := upd_row dc_id tid (\<lambda>_. c) (dd_tests s)\<rparr>))"

definition delete_test :: "detect_env \<Rightarrow> nat \<Rightarrow> nat \<Rightarrow> (detect_db, unit) action" where
  "delete_test env rid tid s =
     (case test_or_404 s rid tid of
        Inl e \<Rightarrow> (Inl e, s)
      | Inr c \<Rightarrow>
          record_change env ''detection_test_deleted'' ''detection_test_case'' tid
            (''Test case '' @ str_nat tid @ '' deleted.'') None ()
            (s\<lparr>dd_tests := filter (\<lambda>c. dc_id c \<noteq> tid) (dd_tests s)\<rparr>))"

definition run_tests_endpoint :: "detect_env \<Rightarrow> nat \<Rightarrow> (detect_db, test_summary) action" where
  "run_tests_endpoint env rid =
     bind_action (limited_request env ''test_run'' 30) (\<lambda>_ s.
       case bind_result (detection_rule_or_404 s rid) (run_tests env s) of
         Inl e \<Rightarrow> (Inl e, s)
       | Inr t \<Rightarrow>
           record_change env ''detection_tests_executed'' ''detection_rule'' rid
             (str_nat (su_passed_count t) @ '' of '' @ str_nat (su_total t) @ '' tests passed for rule '' @
              str_nat rid @ ''.'') None t s)"

end
