(* ===== verification/Detect_Execution.thy ===== *)
theory Detect_Execution
  imports Detect_Rules
begin

text \<open>
  Historical executions and what follows a match: \<open>detection_engineering/execution_service.py\<close>
  (suppressions, risk scores, the scan) and the execution, match, suppression and pack endpoints of
  \<open>router.py\<close>. An execution that fails raises after a rollback that also takes back its own row,
  which was flushed and never committed, so a failed execution leaves the database as it was.
\<close>

section \<open>Suppressions\<close>

definition suppression_applies :: "detect_env \<Rightarrow> nat \<Rightarrow> event_fields \<Rightarrow> detection_suppression \<Rightarrow> bool" where
  "suppression_applies env rid event item \<longleftrightarrow>
     ds_enabled item \<and> (ds_rule_id item = None \<or> ds_rule_id item = Some rid) \<and>
     \<not> (case ds_valid_from item of None \<Rightarrow> False | Some start \<Rightarrow> dn_now env < start) \<and>
     \<not> (case ds_valid_until item of None \<Rightarrow> False | Some until \<Rightarrow> dn_now env > until) \<and>
     list_all (\<lambda>(k, v). casefold (py_str (py_or (dn_fl env) (dict_get event (canonical_field k)) (PStr []))) =
                        casefold (py_str v)) (ds_field_conditions item)"

definition suppressed :: "detect_env \<Rightarrow> detect_db \<Rightarrow> nat \<Rightarrow> event_fields \<Rightarrow> detection_suppression option" where
  "suppressed env s rid event = find (suppression_applies env rid event) (sort_key ds_id (dd_suppressions s))"


section \<open>Risk\<close>

definition severity_points :: "(string \<times> nat) list" where
  "severity_points = [(''informational'', 5), (''low'', 15), (''medium'', 30), (''high'', 45), (''critical'', 60)]"

definition source_severity_points :: "(string \<times> nat) list" where
  "source_severity_points =
     [(''info'', 0), (''informational'', 0), (''low'', 3), (''medium'', 7), (''high'', 12), (''critical'', 18)]"

definition points :: "(string \<times> nat) list \<Rightarrow> string \<Rightarrow> nat \<Rightarrow> nat" where
  "points table key other = (case map_of table key of None \<Rightarrow> other | Some n \<Rightarrow> n)"

text \<open>
  \<open>risk_score\<close> in tenths. The sum of the code is a multiple of one hundredth whose last digit is
  even (\<open>confidence * .12\<close> with an integer confidence, \<open>quality * .1\<close> with an integer score), so it
  is never half-way between two tenths and the error of the floats does not move it across one.
\<close>

definition risk_score :: "detect_env \<Rightarrow> detection_rule \<Rightarrow> event_fields \<Rightarrow> nat" where
  "risk_score env r event =
     (let severity = points severity_points (du_severity r) 20;
          source = points source_severity_points
                     (casefold (py_str (py_or (dn_fl env) (dict_get event ''event.severity'') (PStr [])))) 0;
          hundredths = 100 * severity + 12 * du_confidence r + 10 * du_quality_score r + 100 * source +
                       (if du_lifecycle_status r = ''active'' then 500 else 0)
      in (min 10000 hundredths + 5) div 10)"

lemma risk_score_bound: "risk_score env r event \<le> 1000"
  by (simp add: risk_score_def Let_def)


section \<open>Executions\<close>

record DetectionExecutionCreate =
  xc_rule_ids :: "nat list"
  xc_pack_id :: "nat option"
  xc_source_modules :: "string list"
  xc_start_at :: "time option"
  xc_end_at :: "time option"
  xc_maximum_records :: nat
  xc_include_previously_matched :: bool
  xc_dry_run :: bool

text \<open>The field bounds and the validator \<open>scope\<close>.\<close>

definition execution_create_ok :: "DetectionExecutionCreate \<Rightarrow> bool" where
  "execution_create_ok p \<longleftrightarrow>
     length (xc_rule_ids p) \<le> 25 \<and> (\<forall>i. xc_pack_id p = Some i \<longrightarrow> 1 \<le> i) \<and> xc_source_modules p = [''soc''] \<and>
     1 \<le> xc_maximum_records p \<and> xc_maximum_records p \<le> 5000 \<and>
     (xc_rule_ids p \<noteq> [] \<or> xc_pack_id p \<noteq> None) \<and>
     (\<forall>a b. xc_start_at p = Some a \<longrightarrow> xc_end_at p = Some b \<longrightarrow> a \<le> b)"

definition execution_rules :: "DetectionExecutionCreate \<Rightarrow> detect_db \<Rightarrow> detection_rule list" where
  "execution_rules p s =
     (let ids = xc_rule_ids p @
                (case xc_pack_id p of
                   None \<Rightarrow> [] | Some i \<Rightarrow> map de_rule_id (filter (\<lambda>e. de_pack_id e = i) (dd_entries s)))
      in sort_key du_id (filter (\<lambda>r. du_id r \<in> set ids) (dd_rules s)))"

definition execution_events :: "DetectionExecutionCreate \<Rightarrow> detect_db \<Rightarrow> soc_event list" where
  "execution_events p s =
     (if ''soc'' \<notin> set (xc_source_modules p) then []
      else take (xc_maximum_records p)
             (sort_key ev_event_time (sort_key ev_id
               (filter (\<lambda>e. (case xc_start_at p of None \<Rightarrow> True | Some t \<Rightarrow> t \<le> ev_event_time e) \<and>
                            (case xc_end_at p of None \<Rightarrow> True | Some t \<Rightarrow> ev_event_time e \<le> t))
                 (soc_events (dd_soc s))))))"

definition match_fingerprint :: "detect_env \<Rightarrow> detection_rule \<Rightarrow> soc_event \<Rightarrow> string" where
  "match_fingerprint env r e =
     dn_sha env (str_nat (du_id r) @ '':'' @ str_nat (du_current_version r) @ '':soc:soc_event:'' @ str_nat (ev_id e))"

text \<open>The rows added so far, the matches counted, the suppressed ones among the rows.\<close>

type_synonym scan_state = "detection_match list \<times> nat \<times> nat"

definition new_match :: "detect_env \<Rightarrow> nat \<Rightarrow> detection_rule \<Rightarrow> soc_event \<Rightarrow> event_fields \<Rightarrow> event_fields \<Rightarrow> bool \<Rightarrow> detection_match" where
  "new_match env xid r e event reported hit =
     \<lparr>dm_id = 0, dm_execution_id = xid, dm_rule_id = du_id r, dm_rule_version = du_current_version r,
      dm_source_module = ''soc'', dm_source_entity_type = ''soc_event'', dm_source_entity_id = ev_id e,
      dm_event_timestamp = ev_event_time e, dm_matched_fields = stored_dict reported,
      dm_evidence_summary =
        redact_text (''Rule '' @ du_title r @ '' matched stored SOC event '' @ str_nat (ev_id e) @ ''; fields: '' @
                     join '', '' (sort (map fst reported)) @ ''.'') (Some 1000),
      dm_severity = du_severity r, dm_confidence = du_confidence r, dm_risk_tenths = risk_score env r event,
      dm_status = (if hit then ''suppressed'' else ''new''), dm_reviewed_by_user_id = None,
      dm_reviewed_at = None, dm_analyst_note = None, dm_alert_id = None, dm_case_id = None,
      dm_fingerprint = match_fingerprint env r e, dm_created_at = dn_now env, dm_updated_at = dn_now env\<rparr>"

definition scan_event ::
    "detect_env \<Rightarrow> detect_db \<Rightarrow> nat \<Rightarrow> detection_rule \<Rightarrow> soc_event \<Rightarrow> scan_state \<Rightarrow> scan_state result" where
  "scan_event env s xid r e st =
     (case st of (rows, matches, supp) \<Rightarrow>
        (let event = normalize_soc_event (dn_fl env) e in
         if truthy (du_source_module r) \<and> the (du_source_module r) \<notin> {''soc'', ''soc_monitor''} then Inr st
         else case evaluate_rule (dn_fl env) (du_normalized_condition r) event of
                Inl x \<Rightarrow> Inl x
              | Inr (matched, reported, _) \<Rightarrow>
                  if \<not> matched then Inr st
                  else (case find (\<lambda>m. dm_fingerprint m = match_fingerprint env r e) (dd_matches s) of
                          Some existing \<Rightarrow>
                            if dm_status existing = ''false_positive'' then Inr st
                            else Inr (rows, matches + 1, supp)
                        | None \<Rightarrow>
                            (let hit = suppressed env s (du_id r) event \<noteq> None in
                             Inr (rows @ [new_match env xid r e event reported hit], matches + 1,
                                  if hit then supp + 1 else supp)))))"

fun scan_events ::
    "detect_env \<Rightarrow> detect_db \<Rightarrow> nat \<Rightarrow> detection_rule \<Rightarrow> soc_event list \<Rightarrow> scan_state \<Rightarrow> scan_state result" where
  "scan_events env s xid r [] st = Inr st"
| "scan_events env s xid r (e # es) st = bind_result (scan_event env s xid r e st) (scan_events env s xid r es)"

fun scan_rules ::
    "detect_env \<Rightarrow> detect_db \<Rightarrow> nat \<Rightarrow> detection_rule list \<Rightarrow> soc_event list \<Rightarrow> scan_state \<Rightarrow> scan_state result" where
  "scan_rules env s xid [] es st = Inr st"
| "scan_rules env s xid (r # rs) es st = bind_result (scan_events env s xid r es st) (scan_rules env s xid rs es)"

definition add_matches :: "detection_match list \<Rightarrow> detect_db \<Rightarrow> detect_db" where
  "add_matches rows s = s\<lparr>dd_matches := fold (\<lambda>m ms. insert_row dm_id set_dm_id m ms) rows (dd_matches s)\<rparr>"

definition touch_rules :: "detect_env \<Rightarrow> detection_rule list \<Rightarrow> detect_db \<Rightarrow> detect_db" where
  "touch_rules env rs s =
     s\<lparr>dd_rules := upd_where (\<lambda>r. du_id r \<in> set (map du_id rs))
        (\<lambda>r. r\<lparr>du_last_executed_at := Some (dn_now env), du_updated_at := dn_now env\<rparr>) (dd_rules s)\<rparr>"

definition execute :: "detect_env \<Rightarrow> DetectionExecutionCreate \<Rightarrow> (detect_db, detection_execution) action" where
  "execute env p s =
     (let rs = execution_rules p s; es = execution_events p s; xid = next_id dx_id (dd_executions s)
      in case scan_rules env s xid rs es ([], 0, 0) of
           Inl e \<Rightarrow> (Inl e, s)
         | Inr (rows, matches, supp) \<Rightarrow>
             (let s1 = add_matches rows (touch_rules env rs s);
                  x = \<lparr>dx_id = xid, dx_rule_id = (if length rs = 1 then Some (du_id (hd rs)) else None),
                       dx_pack_id = xc_pack_id p, dx_status = ''completed'', dx_mode = ''historical'',
                       dx_records_scanned = length es, dx_matches_found = matches,
                       dx_suppressed_matches = supp, dx_errors_count = 0,
                       dx_requested_by_user_id = ua_id (dn_user env), dx_started_at = dn_now env,
                       dx_completed_at = Some (dn_now env), dx_error_summary = None\<rparr>
              in if \<not> distinct (map dm_fingerprint (dd_matches s1)) then (Inl IntegrityError, s)
                 else (Inr x, s1\<lparr>dd_executions := insert_row dx_id set_dx_id x (dd_executions s1)\<rparr>)))"

definition execute_endpoint :: "detect_env \<Rightarrow> DetectionExecutionCreate \<Rightarrow> (detect_db, detection_execution) action" where
  "execute_endpoint env p =
     bind_action (limited_request env ''execution'' 10) (\<lambda>_.
     bind_action (execute env p) (\<lambda>x.
       record_change env ''detection_execution_completed'' ''detection_execution'' (dx_id x)
         (''Execution '' @ str_nat (dx_id x) @ '' scanned '' @ str_nat (dx_records_scanned x) @ '' stored records.'')
         (Some (''Detection execution completed'',
                ''Execution '' @ str_nat (dx_id x) @ '' completed with '' @ str_nat (dx_errors_count x) @ '' errors.'',
                if dx_errors_count x \<noteq> 0 then ''warning'' else ''info'')) x))"

definition cancel_detection_execution :: "detect_env \<Rightarrow> nat \<Rightarrow> (detect_db, detection_execution) action" where
  "cancel_detection_execution env xid s =
     (case find_row dx_id xid (dd_executions s) of
        None \<Rightarrow> (Inl (HTTPException 404 ''Execution not found''), s)
      | Some x \<Rightarrow>
          if dx_status x \<notin> {''queued'', ''running''}
          then (Inl (HTTPException 409 ''Only queued or running executions can be cancelled''), s)
          else (let x1 = x\<lparr>dx_status := ''cancelled'', dx_completed_at := Some (dn_now env)\<rparr>
                in (Inr x1, s\<lparr>dd_executions := upd_row dx_id xid (\<lambda>_. x1) (dd_executions s)\<rparr>)))"


section \<open>Matches\<close>

definition match_or_404 :: "detect_db \<Rightarrow> nat \<Rightarrow> detection_match result" where
  "match_or_404 s mid =
     (case find_row dm_id mid (dd_matches s) of
        None \<Rightarrow> Inl (HTTPException 404 ''Match not found'') | Some m \<Rightarrow> Inr m)"

definition put_match :: "detection_match \<Rightarrow> detect_db \<Rightarrow> detect_db" where
  "put_match m s = s\<lparr>dd_matches := upd_row dm_id (dm_id m) (\<lambda>_. m) (dd_matches s)\<rparr>"

definition review_match :: "detect_env \<Rightarrow> nat \<Rightarrow> string \<Rightarrow> string option \<Rightarrow> (detect_db, detection_match) action" where
  "review_match env mid status analyst_note s =
     (case match_or_404 s mid of
        Inl e \<Rightarrow> (Inl e, s)
      | Inr m \<Rightarrow>
          (let m1 = m\<lparr>dm_status := status,
                      dm_analyst_note := Some (redact_text (case analyst_note of None \<Rightarrow> [] | Some n \<Rightarrow> n) (Some 4000)),
                      dm_reviewed_by_user_id := Some (ua_id (dn_user env)),
                      dm_reviewed_at := Some (dn_now env), dm_updated_at := dn_now env\<rparr>
           in record_change env ''detection_match_reviewed'' ''detection_match'' mid
                (''Detection match '' @ str_nat mid @ '' set to '' @ status @ ''.'')
                (if status = ''confirmed''
                 then Some (''Detection match confirmed'', ''Match '' @ str_nat mid @ '' was confirmed.'', ''danger'')
                 else None) m1 (put_match m1 s)))"

definition confidence_word :: "nat \<Rightarrow> string" where
  "confidence_word n = (if n \<ge> 75 then ''high'' else ''medium'')"

definition create_alert :: "detect_env \<Rightarrow> nat \<Rightarrow> bool \<Rightarrow> string option \<Rightarrow> (detect_db, detection_match \<times> soc_alert) action" where
  "create_alert env mid confirmed analyst_note s =
     (if \<not> confirmed then (Inl (HTTPException 422 ''Explicit analyst confirmation is required''), s)
      else case match_or_404 s mid of
        Inl e \<Rightarrow> (Inl e, s)
      | Inr m \<Rightarrow>
          if dm_alert_id m \<noteq> None then (Inl (HTTPException 409 ''Match is already linked to an alert''), s)
          else (case (sort_key dr_id (detection_rules (dd_soc s)), get_rule s (dm_rule_id m)) of
                  ([], _) \<Rightarrow> (Inl (HTTPException 409 ''A local SOC detection rule is required before alert promotion''), s)
                | (_, None) \<Rightarrow> (Inl (AttributeError ''NoneType object has no attribute title''), s)
                | (soc_rule # _, Some r) \<Rightarrow>
                    (let soc = dd_soc s;
                         alert = \<lparr>al_id = next_id al_id (alerts soc), al_rule_id = dr_id soc_rule,
                                  al_title = take 240 (''Detection: '' @ du_title r),
                                  al_description = ''Explicit analyst promotion from an offline detection match.'',
                                  al_severity = dm_severity m, al_confidence = confidence_word (dm_confidence m),
                                  al_status = ''open'', al_first_seen = dm_event_timestamp m,
                                  al_last_seen = dm_event_timestamp m, al_event_count = 1,
                                  al_correlation_key = ''detection:'' @ str_nat mid, al_source_ip = None,
                                  al_username = None,
                                  al_evidence_summary = redact_text (dm_evidence_summary m) (Some 2000),
                                  al_fingerprint = dn_sha env (''detection-alert:'' @ str_nat mid),
                                  al_analyst_notes = Some (redact_text (case analyst_note of None \<Rightarrow> [] | Some n \<Rightarrow> n) (Some 4000)),
                                  al_created_at = dn_now env, al_updated_at = dn_now env\<rparr>;
                         m1 = m\<lparr>dm_alert_id := Some (al_id alert), dm_status := ''confirmed'', dm_updated_at := dn_now env\<rparr>
                     in if al_fingerprint alert \<in> al_fingerprint ` set (alerts soc) then (Inl IntegrityError, s)
                        else record_change env ''detection_alert_promoted'' ''detection_match'' mid
                               (''Detection match '' @ str_nat mid @ '' promoted to SOC alert '' @ str_nat (al_id alert) @ ''.'')
                               None (m1, alert)
                               (put_match m1 (s\<lparr>dd_soc := soc\<lparr>alerts := insert_row al_id set_al_id alert (alerts soc)\<rparr>\<rparr>)))))"


section \<open>Suppression endpoints\<close>

fun validate_suppression_conditions :: "(string \<times> pyvalue) list \<Rightarrow> (string \<times> pyvalue) list \<Rightarrow> (string \<times> pyvalue) list result" where
  "validate_suppression_conditions normalized [] = Inr normalized"
| "validate_suppression_conditions normalized ((field, v) # rest) =
     (if canonical_field field \<notin> set ALLOWED_FIELDS
      then Inl (HTTPException 422 (''Unsupported suppression field: '' @ field))
      else if v = PNone \<or> (case v of PStr t \<Rightarrow> strip t = [] | _ \<Rightarrow> False)
      then Inl (HTTPException 422 ''Suppression values must not be empty'')
      else validate_suppression_conditions (dict_put normalized (canonical_field field) v) rest)"

record SuppressionCreate =
  sc_name :: string
  sc_description :: string
  sc_rule_id :: "nat option"
  sc_field_conditions :: "(string \<times> pyvalue) list"
  sc_valid_from :: "time option"
  sc_valid_until :: "time option"
  sc_enabled :: bool

definition suppression_create_ok :: "SuppressionCreate \<Rightarrow> bool" where
  "suppression_create_ok p \<longleftrightarrow>
     sc_name p \<noteq> [] \<and> length (sc_name p) \<le> 160 \<and> sc_description p \<noteq> [] \<and> length (sc_description p) \<le> 4000 \<and>
     sc_field_conditions p \<noteq> [] \<and> length (sc_field_conditions p) \<le> 12 \<and> (\<forall>i. sc_rule_id p = Some i \<longrightarrow> 1 \<le> i) \<and>
     (\<forall>a b. sc_valid_from p = Some a \<longrightarrow> sc_valid_until p = Some b \<longrightarrow> a \<le> b)"

definition create_suppression :: "detect_env \<Rightarrow> SuppressionCreate \<Rightarrow> (detect_db, detection_suppression) action" where
  "create_suppression env p s =
     (case bind_result (case sc_rule_id p of
                          None \<Rightarrow> Inr () | Some i \<Rightarrow> bind_result (detection_rule_or_404 s i) (\<lambda>_. Inr ())) (\<lambda>_.
             validate_suppression_conditions [] (sc_field_conditions p)) of
        Inl e \<Rightarrow> (Inl e, s)
      | Inr conditions \<Rightarrow>
          (let row = \<lparr>ds_id = next_id ds_id (dd_suppressions s), ds_name = sc_name p,
                      ds_description = redact_text (sc_description p) (Some 4000), ds_rule_id = sc_rule_id p,
                      ds_field_conditions = stored_dict conditions, ds_valid_from = sc_valid_from p,
                      ds_valid_until = sc_valid_until p, ds_enabled = sc_enabled p,
                      ds_created_by_user_id = ua_id (dn_user env), ds_created_at = dn_now env,
                      ds_updated_at = dn_now env\<rparr>
           in record_change env ''detection_suppression_created'' ''detection_suppression'' (ds_id row)
                (''Detection suppression '' @ str_nat (ds_id row) @ '' created.'') None row
                (s\<lparr>dd_suppressions := insert_row ds_id set_ds_id row (dd_suppressions s)\<rparr>)))"

record SuppressionUpdate =
  sp_name :: "string option option"
  sp_description :: "string option option"
  sp_field_conditions :: "(string \<times> pyvalue) list option option"
  sp_valid_from :: "time option option"
  sp_valid_until :: "time option option"
  sp_enabled :: "bool option option"

definition suppression_or_404 :: "detect_db \<Rightarrow> nat \<Rightarrow> detection_suppression result" where
  "suppression_or_404 s i =
     (case find_row ds_id i (dd_suppressions s) of
        None \<Rightarrow> Inl (HTTPException 404 ''Suppression not found'') | Some x \<Rightarrow> Inr x)"

definition updated_suppression :: "detect_env \<Rightarrow> SuppressionUpdate \<Rightarrow> detection_suppression \<Rightarrow> detection_suppression result" where
  "updated_suppression env u x =
     bind_result (case sp_field_conditions u of
                    None \<Rightarrow> Inr (ds_field_conditions x)
                  | Some None \<Rightarrow> Inl (AttributeError ''NoneType object has no attribute items'')
                  | Some (Some c) \<Rightarrow> bind_result (validate_suppression_conditions [] c) (\<lambda>d. Inr (stored_dict d))) (\<lambda>conditions.
     bind_result (case sp_description u of
                    None \<Rightarrow> Inr (ds_description x)
                  | Some None \<Rightarrow> Inl IntegrityError
                  | Some (Some d) \<Rightarrow> Inr (redact_text d (Some 4000))) (\<lambda>description.
     bind_result (not_null (sp_name u) (ds_name x)) (\<lambda>name.
     bind_result (not_null (sp_enabled u) (ds_enabled x)) (\<lambda>enabled.
       Inr (x\<lparr>ds_name := name, ds_description := description, ds_field_conditions := conditions, ds_enabled := enabled,
              ds_valid_from := (case sp_valid_from u of None \<Rightarrow> ds_valid_from x | Some t \<Rightarrow> t),
              ds_valid_until := (case sp_valid_until u of None \<Rightarrow> ds_valid_until x | Some t \<Rightarrow> t),
              ds_updated_at := dn_now env\<rparr>)))))"

definition update_suppression :: "detect_env \<Rightarrow> nat \<Rightarrow> SuppressionUpdate \<Rightarrow> (detect_db, detection_suppression) action" where
  "update_suppression env i u s =
     (case bind_result (suppression_or_404 s i) (updated_suppression env u) of
        Inl e \<Rightarrow> (Inl e, s)
      | Inr x \<Rightarrow>
          record_change env ''detection_suppression_updated'' ''detection_suppression'' i
            (''Detection suppression '' @ str_nat i @ '' updated.'') None x
            (s\<lparr>dd_suppressions := upd_row ds_id i (\<lambda>_. x) (dd_suppressions s)\<rparr>))"

definition delete_suppression :: "detect_env \<Rightarrow> nat \<Rightarrow> (detect_db, unit) action" where
  "delete_suppression env i s =
     (case suppression_or_404 s i of
        Inl e \<Rightarrow> (Inl e, s)
      | Inr x \<Rightarrow>
          record_change env ''detection_suppression_deleted'' ''detection_suppression'' i
            (''Detection suppression '' @ str_nat i @ '' deleted.'') None ()
            (s\<lparr>dd_suppressions := filter (\<lambda>x. ds_id x \<noteq> i) (dd_suppressions s)\<rparr>))"


section \<open>Packs\<close>

definition pack_or_404 :: "detect_db \<Rightarrow> nat \<Rightarrow> detection_rule_pack result" where
  "pack_or_404 s i =
     (case find_row dp_id i (dd_packs s) of None \<Rightarrow> Inl (HTTPException 404 ''Pack not found'') | Some x \<Rightarrow> Inr x)"

record PackCreate =
  pc_name :: string
  pc_description :: "string option"
  pc_version :: string
  pc_enabled :: bool

definition create_pack :: "detect_env \<Rightarrow> PackCreate \<Rightarrow> (detect_db, detection_rule_pack) action" where
  "create_pack env p s =
     (let row = \<lparr>dp_id = next_id dp_id (dd_packs s), dp_name = pc_name p, dp_description = pc_description p,
                 dp_version = pc_version p, dp_enabled = pc_enabled p, dp_system_owned = False,
                 dp_created_by_user_id = ua_id (dn_user env), dp_created_at = dn_now env, dp_updated_at = dn_now env\<rparr>
      in if pc_name p \<in> dp_name ` set (dd_packs s) then (Inl (HTTPException 409 ''Pack name already exists''), s)
         else record_change env ''detection_pack_created'' ''detection_rule_pack'' (dp_id row)
                (''Detection pack '' @ str_nat (dp_id row) @ '' created.'') None row
                (s\<lparr>dd_packs := insert_row dp_id set_dp_id row (dd_packs s)\<rparr>))"

record PackUpdate =
  pu_name :: "string option option"
  pu_description :: "string option option"
  pu_version :: "string option option"
  pu_enabled :: "bool option option"

definition updated_pack :: "detect_env \<Rightarrow> PackUpdate \<Rightarrow> detection_rule_pack \<Rightarrow> detection_rule_pack result" where
  "updated_pack env u x =
     bind_result (not_null (pu_name u) (dp_name x)) (\<lambda>name.
     bind_result (not_null (pu_version u) (dp_version x)) (\<lambda>version.
     bind_result (not_null (pu_enabled u) (dp_enabled x)) (\<lambda>enabled.
       Inr (x\<lparr>dp_name := name, dp_version := version, dp_enabled := enabled,
              dp_description := (case pu_description u of None \<Rightarrow> dp_description x | Some d \<Rightarrow> d),
              dp_updated_at := dn_now env\<rparr>))))"

definition update_pack :: "detect_env \<Rightarrow> nat \<Rightarrow> PackUpdate \<Rightarrow> (detect_db, detection_rule_pack) action" where
  "update_pack env i u s =
     (case pack_or_404 s i of
        Inl e \<Rightarrow> (Inl e, s)
      | Inr x \<Rightarrow>
          if dp_system_owned x then (Inl (HTTPException 403 ''System packs are protected''), s)
          else (case updated_pack env u x of
                  Inl e \<Rightarrow> (Inl e, s)
                | Inr x1 \<Rightarrow>
                    if list_ex (\<lambda>y. dp_id y \<noteq> i \<and> dp_name y = dp_name x1) (dd_packs s) then (Inl IntegrityError, s)
                    else record_change env ''detection_pack_updated'' ''detection_rule_pack'' i
                           (''Detection pack '' @ str_nat i @ '' updated.'') None x1
                           (s\<lparr>dd_packs := upd_row dp_id i (\<lambda>_. x1) (dd_packs s)\<rparr>)))"

text \<open>A rule is added to a system pack too; only the removal is refused there.\<close>

definition add_pack_rule :: "detect_env \<Rightarrow> nat \<Rightarrow> nat \<Rightarrow> (detect_db, detection_rule_pack_entry) action" where
  "add_pack_rule env i rid s =
     (case bind_result (pack_or_404 s i) (\<lambda>_. detection_rule_or_404 s rid) of
        Inl e \<Rightarrow> (Inl e, s)
      | Inr _ \<Rightarrow>
          if list_ex (\<lambda>e. de_pack_id e = i \<and> de_rule_id e = rid) (dd_entries s)
          then (Inl (HTTPException 409 ''Rule already belongs to pack''), s)
          else (let row = \<lparr>de_id = next_id de_id (dd_entries s), de_pack_id = i, de_rule_id = rid,
                           de_added_by_user_id = ua_id (dn_user env), de_added_at = dn_now env\<rparr>
                in (Inr row, s\<lparr>dd_entries := insert_row de_id set_de_id row (dd_entries s)\<rparr>)))"

definition remove_pack_rule :: "detect_env \<Rightarrow> nat \<Rightarrow> nat \<Rightarrow> (detect_db, unit) action" where
  "remove_pack_rule env i rid s =
     (case pack_or_404 s i of
        Inl e \<Rightarrow> (Inl e, s)
      | Inr x \<Rightarrow>
          if dp_system_owned x then (Inl (HTTPException 403 ''System packs are protected''), s)
          else (case find (\<lambda>e. de_pack_id e = i \<and> de_rule_id e = rid) (dd_entries s) of
                  None \<Rightarrow> (Inl (HTTPException 404 ''Pack entry not found''), s)
                | Some e \<Rightarrow> (Inr (), s\<lparr>dd_entries := filter (\<lambda>y. de_id y \<noteq> de_id e) (dd_entries s)\<rparr>)))"

end
