(* ===== verification/Detect_Import.thy ===== *)
theory Detect_Import
  imports Detect_Rules
begin

text \<open>
  The import of rule files: \<open>detection_engineering/import_service.py\<close> and the import endpoints of
  \<open>router.py\<close>. The YAML library and the JSON reader are parameters; a loaded file is the value they
  give. An import is one transaction: an error in one rule takes back the rules before it. The
  last section shows that the digest a preview carries is never that of a stored version of the
  same content, because the two texts are written with different separators.
\<close>

section \<open>Loading\<close>

definition MAX_BYTES :: nat where "MAX_BYTES = 1024 * 1024"
definition MAX_RULES :: nat where "MAX_RULES = 50"

datatype yaml_token = AliasToken | AnchorToken | TagToken | PlainToken

text \<open>
  The tokens of a YAML text up to the first lexical error, and whether there is one; the documents of
  a text; the value of a JSON text.
\<close>

record rule_loaders =
  lo_scan :: "string \<Rightarrow> yaml_token list \<times> bool"
  lo_documents :: "string \<Rightarrow> pyvalue list option"
  lo_json :: "string \<Rightarrow> pyvalue option"

definition safe_name :: "string \<Rightarrow> string" where
  "safe_name filename =
     (let parts = filter (\<lambda>p. p \<noteq> [] \<and> p \<noteq> ''.'')
                    (split_on CHR ''/'' (map (\<lambda>c. if c = CHR 0x5C then CHR ''/'' else c) filename))
      in take 255 (if parts = [] then [] else last parts))"

definition file_suffix :: "string \<Rightarrow> string" where
  "file_suffix name = (if CHR ''.'' \<in> set name then last (split_on CHR ''.'' (casefold name)) else ''yaml'')"

definition invalid_file :: exn where
  "invalid_file = ImportError ''Rule file is not valid bounded YAML/JSON''"

fun token_error :: "yaml_token list \<Rightarrow> exn option" where
  "token_error [] = None"
| "token_error (t # ts) =
     (if t = AliasToken \<or> t = AnchorToken then Some (ImportError ''YAML aliases and anchors are not supported'')
      else if t = TagToken then Some (ImportError ''Custom YAML tags are not supported'')
      else token_error ts)"

definition load_rules :: "rule_loaders \<Rightarrow> string \<Rightarrow> string \<Rightarrow> (pyvalue \<times> string) result" where
  "load_rules ld content filename =
     (if length content > MAX_BYTES then Inl (ImportError ''Rule upload exceeds 1 MiB'')
      else if file_suffix (safe_name filename) = ''json''
      then (case lo_json ld content of None \<Rightarrow> Inl invalid_file | Some v \<Rightarrow> Inr (v, ''sigma_json''))
      else case lo_scan ld content of
        (tokens, failed) \<Rightarrow>
          (case token_error tokens of
             Some e \<Rightarrow> Inl e
           | None \<Rightarrow>
               if failed then Inl invalid_file
               else (case lo_documents ld content of
                       None \<Rightarrow> Inl invalid_file
                     | Some docs \<Rightarrow> Inr (if length docs = 1 then hd docs else PList docs, ''sigma_yaml''))))"


section \<open>Previews\<close>

record preview =
  pw_index :: nat
  pw_title :: string
  pw_rule_uuid :: "string option"
  pw_format :: string
  pw_severity :: string
  pw_content :: "(string \<times> pyvalue) list"
  pw_content_sha256 :: string
  pw_valid :: bool
  pw_errors :: "string list"
  pw_warnings :: "string list"
  pw_normalized :: "normalized_rule option"
  pw_complexity_score :: nat

definition supported_keys :: "string list" where
  "supported_keys =
     [''title'', ''id'', ''status'', ''description'', ''references'', ''author'', ''date'', ''modified'', ''tags'',
      ''logsource'', ''detection'', ''falsepositives'', ''level'', ''selections'', ''condition'']"

definition import_digest :: "detect_env \<Rightarrow> (string \<times> pyvalue) list \<Rightarrow> string" where
  "import_digest env rule = dn_sha env (dumps_value True '', '' '': '' (PDict rule))"

definition preview_of :: "detect_env \<Rightarrow> string \<Rightarrow> nat \<Rightarrow> pyvalue \<Rightarrow> preview result" where
  "preview_of env fmt index rule =
     (case rule of
        PDict d \<Rightarrow>
          bind_result (validate (dn_fl env) d) (\<lambda>result.
            (let unknown = sort (filter (\<lambda>k. k \<notin> set supported_keys) (remdups (map fst d)));
                 uuid = take 64 (py_str (py_or (dn_fl env) (dict_get d ''id'') (PStr [])))
             in Inr \<lparr>pw_index = index,
                     pw_title = take 240 (py_str (py_or (dn_fl env) (dict_get d ''title'')
                                                    (PStr (''Imported rule '' @ str_nat index)))),
                     pw_rule_uuid = (if uuid = [] then None else Some uuid), pw_format = fmt,
                     pw_severity = casefold (py_str (py_or (dn_fl env) (dict_get d ''level'') (PStr ''medium''))),
                     pw_content = d, pw_content_sha256 = import_digest env d, pw_valid = vd_valid result,
                     pw_errors = vd_errors result,
                     pw_warnings = vd_warnings result @
                       (if unknown = [] then []
                        else [''Unsupported top-level fields preserved as warnings: '' @ join '', '' unknown]),
                     pw_normalized = vd_normalized result, pw_complexity_score = vd_complexity_score result\<rparr>))
      | _ \<Rightarrow> Inr \<lparr>pw_index = index, pw_title = [], pw_rule_uuid = None, pw_format = fmt, pw_severity = [],
                 pw_content = [], pw_content_sha256 = [], pw_valid = False,
                 pw_errors = [''Rule must be an object''], pw_warnings = [], pw_normalized = None,
                 pw_complexity_score = 0\<rparr>)"

definition parse_import :: "detect_env \<Rightarrow> rule_loaders \<Rightarrow> string \<Rightarrow> string \<Rightarrow> preview list result" where
  "parse_import env ld content filename =
     bind_result (load_rules ld content filename) (\<lambda>(loaded, fmt).
     bind_result (case loaded of
                    PDict d \<Rightarrow> Inr [loaded]
                  | PList rules \<Rightarrow> Inr rules
                  | _ \<Rightarrow> Inl (ImportError ''Rule file must contain an object or list'')) (\<lambda>rules.
       if rules = [] \<or> length rules > MAX_RULES then Inl (ImportError ''Rule file must contain 1-50 rules'')
       else all_results (\<lambda>(i, r). preview_of env fmt i r) (zip [1..<length rules + 1] rules)))"

fun import_error :: "exn \<Rightarrow> exn" where
  "import_error (ImportError m) = HTTPException 422 m"
| "import_error e = e"

definition validate_import :: "detect_env \<Rightarrow> rule_loaders \<Rightarrow> string \<Rightarrow> string \<Rightarrow> (detect_db, preview list) action" where
  "validate_import env ld content filename =
     bind_action (limited_request env ''import_validate'' 10) (\<lambda>_ s.
       (case parse_import env ld content filename of Inl e \<Rightarrow> Inl (import_error e) | Inr ps \<Rightarrow> Inr ps, s))"


section \<open>Importing\<close>

definition text_column :: "pyvalue \<Rightarrow> string option result" where
  "text_column v =
     (case v of
        PNone \<Rightarrow> Inr None | PStr t \<Rightarrow> Inr (Some t) | PInt i \<Rightarrow> Inr (Some (str_int i))
      | PBool b \<Rightarrow> Inr (Some (if b then ''1'' else ''0'')) | PFloat t \<Rightarrow> Inr (Some t) | POther t \<Rightarrow> Inr (Some t)
      | _ \<Rightarrow> Inl (TypeError ''type is not supported by the database''))"

definition get_default :: "(string \<times> pyvalue) list \<Rightarrow> string \<Rightarrow> pyvalue \<Rightarrow> pyvalue" where
  "get_default d k v = (case map_of d k of None \<Rightarrow> v | Some x \<Rightarrow> x)"

definition technique_tags :: "detect_db \<Rightarrow> string list \<Rightarrow> string list" where
  "technique_tags s tags =
     filter (\<lambda>x. \<exists>t \<in> set (dd_techniques s). dt_external_id t = x)
       (map (\<lambda>tag. upper (case partition_at CHR ''.'' tag of (_, r) \<Rightarrow> (case r of None \<Rightarrow> [] | Some x \<Rightarrow> x)))
         (filter (\<lambda>tag. startswith (casefold tag) ''attack.t'') tags))"

definition imported_payload :: "detect_env \<Rightarrow> detect_db \<Rightarrow> preview \<Rightarrow> rule_payload result" where
  "imported_payload env s w =
     (let d = pw_content w; fl = dn_fl env in
      bind_result (py_iter (get_default d ''tags'' (PList []))) (\<lambda>tag_values.
      bind_result (as_dict (py_or fl (dict_get d ''logsource'') (PDict []))) (\<lambda>logsource.
      bind_result (as_dict (py_or fl (dict_get d ''detection'') (PDict []))) (\<lambda>detection.
      bind_result (py_iter (get_default d ''falsepositives'' (PList []))) (\<lambda>false_positives.
      bind_result (text_column (dict_get logsource ''category'')) (\<lambda>category.
      bind_result (text_column (dict_get logsource ''product'')) (\<lambda>product.
      bind_result (text_column (dict_get logsource ''service'')) (\<lambda>service.
        (let tags = map py_str tag_values in
         Inr \<lparr>rp_title = pw_title w,
              rp_description = take 8000 (py_str (py_or fl (dict_get d ''description'') (PStr []))),
              rp_rule_uuid = pw_rule_uuid w, rp_rule_format = pw_format w,
              rp_severity = (if pw_severity w \<in> set [''informational'', ''low'', ''medium'', ''high'', ''critical'']
                             then pw_severity w else ''medium''),
              rp_confidence = 50, rp_source_module = None, rp_logsource_category = category,
              rp_logsource_product = product, rp_logsource_service = service,
              rp_selections = py_or fl (PDict (filter (\<lambda>(k, v). k \<noteq> ''condition'') detection))
                                (dict_get d ''selections''),
              rp_condition = py_or fl (dict_get detection ''condition'') (dict_get d ''condition''),
              rp_false_positive_guidance = Some (take 8000 (join ''; '' (map py_str false_positives))),
              rp_tags = tags, rp_technique_ids = technique_tags s tags, rp_lifecycle_status = ''draft''\<rparr>)))))))))"

record import_outcome =
  io_created :: "nat list"
  io_versions :: "nat list"
  io_skipped :: "(string \<times> string) list"

text \<open>
  The loop over the previews. \<open>seen\<close> are the versions a query sees: those written when the last
  rule was flushed.
\<close>

fun import_previews ::
    "detect_env \<Rightarrow> string \<Rightarrow> detection_rule_version list \<Rightarrow> preview list \<Rightarrow> import_outcome \<Rightarrow> detect_db \<Rightarrow>
       (import_outcome \<times> detect_db) result" where
  "import_previews env duplicate_action seen [] out s = Inr (out, s)"
| "import_previews env duplicate_action seen (w # ws) out s =
     (case (pw_valid w, pw_normalized w) of
        (True, Some n) \<Rightarrow>
          (let existing = (case pw_rule_uuid w of
                             None \<Rightarrow> None | Some u \<Rightarrow> find (\<lambda>r. du_rule_uuid r = u) (dd_rules s));
               known = list_ex (\<lambda>v. dv_content_sha256 v = pw_content_sha256 w) seen
           in if (existing \<noteq> None \<or> known) \<and> duplicate_action = ''skip''
              then import_previews env duplicate_action seen ws
                     (out\<lparr>io_skipped := io_skipped out @ [(pw_title w, ''duplicate UUID or content'')]\<rparr>) s
              else case existing of
                Some r \<Rightarrow>
                  if \<not> serializable (PDict (pw_content w)) then Inl (TypeError ''Object is not JSON serializable'')
                  else
                    (let r1 = r\<lparr>du_current_version := du_current_version r + 1,
                                du_rule_content := stored_dict (pw_content w),
                                du_normalized_condition := stored_rule n, du_lifecycle_status := ''testing'',
                                du_enabled := False, du_updated_at := dn_now env\<rparr>
                     in import_previews env duplicate_action seen ws
                          (out\<lparr>io_versions := io_versions out @ [du_id r]\<rparr>)
                          (add_version env r1 ''Imported new version'' (put_rule r1 s)))
              | None \<Rightarrow>
                  (case imported_payload env s w of
                     Inl e \<Rightarrow> Inl e
                   | Inr p \<Rightarrow>
                       (case create_detection_rule env p False None s of
                          (Inl e, _) \<Rightarrow> Inl e
                        | (Inr r, s1) \<Rightarrow>
                            if \<not> links_unique s then Inl IntegrityError
                            else import_previews env duplicate_action (dd_versions s) ws
                                   (out\<lparr>io_created := io_created out @ [du_id r]\<rparr>) s1)))
      | _ \<Rightarrow>
          import_previews env duplicate_action seen ws
            (out\<lparr>io_skipped := io_skipped out @ [(pw_title w, ''validation failed'')]\<rparr>) s)"

definition import_rules :: "detect_env \<Rightarrow> rule_loaders \<Rightarrow> string \<Rightarrow> string \<Rightarrow> string \<Rightarrow> (detect_db, import_outcome) action" where
  "import_rules env ld content filename duplicate_action =
     bind_action (validate_import env ld content filename) (\<lambda>previews s.
       case import_previews env duplicate_action (dd_versions s) previews
              \<lparr>io_created = [], io_versions = [], io_skipped = []\<rparr> s of
         Inl e \<Rightarrow> (Inl e, s)
       | Inr (out, s1) \<Rightarrow>
           if \<not> links_unique s1 then (Inl IntegrityError, s)
           else record_change env ''detection_rules_imported'' ''detection_import'' 0
                  (''Detection import created '' @ str_nat (length (io_created out)) @ '' rules and '' @
                   str_nat (length (io_versions out)) @ '' versions.'') None out s1)"


section \<open>Digests\<close>

lemma unescape_ascii: "unescape (ascii_escape c @ r) = (c, r)"
proof (cases "(of_char c :: nat) \<ge> 127")
  case True
  have "hex_value (hex_digit (of_char c div 16)) = of_char c div 16"
    "hex_value (hex_digit (of_char c mod 16)) = of_char c mod 16"
    by (auto intro!: hex_value_digit simp: of_char_def less_mult_imp_div_less)
  moreover have "16 * (of_char c div 16) + of_char c mod 16 = (of_char c :: nat)" by simp
  ultimately show ?thesis using True by (simp add: ascii_escape_def Let_def)
next
  case False
  then show ?thesis by (simp add: ascii_escape_def Let_def unescape_escape)
qed

lemma ascii_escape_head: "ascii_escape c \<noteq> [] \<and> hd (ascii_escape c) \<noteq> CHR 0x22"
  using json_escape_hd [of c] by (simp add: ascii_escape_def Let_def)

lemma ascii_inj:
  "concat (map ascii_escape s) @ CHR 0x22 # r = concat (map ascii_escape s') @ CHR 0x22 # r' \<Longrightarrow> s = s' \<and> r = r'"
proof (induction s arbitrary: s')
  case Nil
  show ?case
  proof (cases s')
    case Nil
    with \<open>concat (map ascii_escape []) @ CHR 0x22 # r = _\<close> show ?thesis by simp
  next
    case (Cons a t)
    with \<open>concat (map ascii_escape []) @ CHR 0x22 # r = _\<close> ascii_escape_head [of a] show ?thesis
      by (cases "ascii_escape a") auto
  qed
next
  case (Cons c s)
  show ?case
  proof (cases s')
    case Nil
    with Cons.prems ascii_escape_head [of c] show ?thesis by (cases "ascii_escape c") auto
  next
    case (Cons c' t)
    let ?X = "concat (map ascii_escape s) @ CHR 0x22 # r" and ?Y = "concat (map ascii_escape t) @ CHR 0x22 # r'"
    have "unescape (ascii_escape c @ ?X) = unescape (ascii_escape c' @ ?Y)" using Cons.prems Cons by simp
    then have "c = c'" "?X = ?Y" unfolding unescape_ascii by simp_all
    with Cons.IH Cons show ?thesis by simp
  qed
qed

text \<open>A value of the class \<open>float\<close> has a \<open>repr\<close> that starts with a sign, a digit or a letter.\<close>

definition starts_plain :: "pyvalue \<Rightarrow> bool" where
  "starts_plain v \<longleftrightarrow> (case v of PFloat t \<Rightarrow> t \<noteq> [] \<and> hd t \<noteq> CHR '' '' | _ \<Rightarrow> True)"

lemma digit_char_not_space: "digit_char d \<noteq> CHR '' ''" if "d < 10"
proof -
  have "is_digit (digit_char d)" using digit_char_simps that by blast
  then show ?thesis using space_not(2) by metis
qed

lemma str_int_head: "str_int i \<noteq> [] \<and> hd (str_int i) \<noteq> CHR '' ''"
proof -
  obtain c cs where "str_nat (nat i) = c # cs" "is_digit c" using str_nat_hd by blast
  then show ?thesis using space_not(2) by (auto simp: str_int_def)
qed

lemma dumps_head: "starts_plain v \<Longrightarrow> dumps_value b isep ksep v \<noteq> [] \<and> hd (dumps_value b isep ksep v) \<noteq> CHR '' ''"
  using str_int_head by (cases v) (auto simp: starts_plain_def ascii_string_def float_json_def)

text \<open>The two texts differ after the first key.\<close>

lemma separators_differ:
  assumes "list_all (\<lambda>(k, v). starts_plain v) c" "d \<noteq> []"
  shows "dumps_value True '','' '':'' (PDict c) \<noteq> dumps_value True '', '' '': '' (PDict d)"
proof
  assume eq: "dumps_value True '','' '':'' (PDict c) = dumps_value True '', '' '': '' (PDict d)"
  obtain k v d' where d: "sort_key fst d = (k, v) # d'"
    using assms(2) by (metis list.exhaust length_0_conv length_sort surj_pair)
  obtain y where y: "dumps_value True '', '' '': '' (PDict d) = CHR ''{'' # ascii_string k @ '': '' @ y"
    using d by (cases d') auto
  have "c \<noteq> []"
  proof
    assume "c = []"
    with eq y show False by (simp add: ascii_string_def)
  qed
  then obtain k' v' c' where c: "sort_key fst c = (k', v') # c'"
    by (metis list.exhaust length_0_conv length_sort surj_pair)
  obtain x where x: "dumps_value True '','' '':'' (PDict c) = CHR ''{'' # ascii_string k' @ '':'' @ dumps_value True '','' '':'' v' @ x"
    using c by (cases c') auto
  have "(k', v') \<in> set c" using c by (metis list.set_intros(1) set_sort)
  then have "starts_plain v'" using assms(1) by (auto simp: list_all_iff)
  from dumps_head [OF this] obtain h t where h: "dumps_value True '','' '':'' v' = h # t" "h \<noteq> CHR '' ''"
    by (metis list.exhaust_sel)
  have "concat (map ascii_escape k') @ CHR 0x22 # '':'' @ (h # t) @ x =
      concat (map ascii_escape k) @ CHR 0x22 # '': '' @ y"
    using eq x y h(1) by (simp add: ascii_string_def)
  from ascii_inj [OF this] h(2) show False by simp
qed

lemma import_digest_never_stored:
  assumes "inj (dn_sha env)" "list_all (\<lambda>(k, v). starts_plain v) c" "d \<noteq> []"
  shows "rule_content_hash env c \<noteq> import_digest env d"
  using separators_differ [OF assms(2,3)] assms(1) by (simp add: rule_content_hash_def import_digest_def inj_eq)

end
