(* ===== verification/Detect_Invariant.thy ===== *)
theory Detect_Invariant
  imports Detect_Execution Detect_Import
begin

text \<open>
  The requests of detection engineering as one served system, and the invariant every request keeps:
  a rule is enabled exactly when it is active, what it evaluates is the stored normal form of a
  rule the validator accepted, its current version records exactly its content, versions are
  numbered uniquely, and matches have distinct fingerprints and bounded scores.
\<close>

section \<open>Requests\<close>

datatype detect_request =
    CreateRule rule_payload
  | UpdateRule nat DetectionRuleUpdate
  | ValidateRule nat
  | ActivateRule nat
  | DisableRule nat
  | ArchiveRule nat
  | CloneRule nat
  | RollbackRule nat nat string
  | CreateTest nat TestCaseCreate
  | UpdateTest nat nat TestCaseUpdate
  | DeleteTest nat nat
  | RunTests nat
  | ValidateImport rule_loaders string string
  | ImportRules rule_loaders string string string
  | CreatePack PackCreate
  | UpdatePack nat PackUpdate
  | AddPackRule nat nat
  | RemovePackRule nat nat
  | Execute DetectionExecutionCreate
  | CancelExecution nat
  | ReviewMatch nat string "string option"
  | CreateAlert nat bool "string option"
  | CreateSuppression SuppressionCreate
  | UpdateSuppression nat SuppressionUpdate
  | DeleteSuppression nat

record detect_call =
  dq_env :: detect_env
  dq_request :: detect_request

definition serve_detection :: "detect_call \<Rightarrow> detect_db \<Rightarrow> detect_db" where
  "serve_detection c s =
     (let env = dq_env c in
      case dq_request c of
        CreateRule p \<Rightarrow> snd (create_rule_endpoint env p s)
      | UpdateRule i u \<Rightarrow> snd (update_detection_rule env i u s)
      | ValidateRule i \<Rightarrow> snd (validate_rule env i s)
      | ActivateRule i \<Rightarrow> snd (activate env i s)
      | DisableRule i \<Rightarrow> snd (set_lifecycle env i ''disabled'' s)
      | ArchiveRule i \<Rightarrow> snd (set_lifecycle env i ''archived'' s)
      | CloneRule i \<Rightarrow> snd (clone env i s)
      | RollbackRule i n summary \<Rightarrow> snd (rollback env i n summary s)
      | CreateTest i p \<Rightarrow> snd (create_test env i p s)
      | UpdateTest i j u \<Rightarrow> snd (update_test env i j u s)
      | DeleteTest i j \<Rightarrow> snd (delete_test env i j s)
      | RunTests i \<Rightarrow> snd (run_tests_endpoint env i s)
      | ValidateImport ld content filename \<Rightarrow> snd (validate_import env ld content filename s)
      | ImportRules ld content filename duplicate_action \<Rightarrow> snd (import_rules env ld content filename duplicate_action s)
      | CreatePack p \<Rightarrow> snd (create_pack env p s)
      | UpdatePack i u \<Rightarrow> snd (update_pack env i u s)
      | AddPackRule i r \<Rightarrow> snd (add_pack_rule env i r s)
      | RemovePackRule i r \<Rightarrow> snd (remove_pack_rule env i r s)
      | Execute p \<Rightarrow> snd (execute_endpoint env p s)
      | CancelExecution i \<Rightarrow> snd (cancel_detection_execution env i s)
      | ReviewMatch i status remark \<Rightarrow> snd (review_match env i status remark s)
      | CreateAlert i confirmed remark \<Rightarrow> snd (create_alert env i confirmed remark s)
      | CreateSuppression p \<Rightarrow> snd (create_suppression env p s)
      | UpdateSuppression i u \<Rightarrow> snd (update_suppression env i u s)
      | DeleteSuppression i \<Rightarrow> snd (delete_suppression env i s))"


section \<open>The invariant\<close>

text \<open>The normal form of an accepted rule as it is read back.\<close>

definition accepted_form :: "normalized_rule \<Rightarrow> bool" where
  "accepted_form n \<longleftrightarrow> (\<exists>m. bounded_rule m \<and> n = stored_rule m)"

definition rule_row_ok :: "detection_rule \<Rightarrow> bool" where
  "rule_row_ok r \<longleftrightarrow> (du_enabled r \<longleftrightarrow> du_lifecycle_status r = ''active'') \<and> accepted_form (du_normalized_condition r)"

definition records :: "detection_rule_version \<Rightarrow> detection_rule \<Rightarrow> bool" where
  "records v r \<longleftrightarrow> dv_rule_id v = du_id r \<and> dv_version_number v = du_current_version r \<and>
     dv_rule_content v = du_rule_content r \<and> dv_normalized_condition v = du_normalized_condition r"

definition version_row_ok :: "detection_rule list \<Rightarrow> detection_rule_version \<Rightarrow> bool" where
  "version_row_ok rs v \<longleftrightarrow> accepted_form (dv_normalized_condition v) \<and>
     (\<exists>r \<in> set rs. du_id r = dv_rule_id v \<and> dv_version_number v \<le> du_current_version r)"

definition rule_tables_ok :: "detection_rule list \<Rightarrow> detection_rule_version list \<Rightarrow> bool" where
  "rule_tables_ok rs vs \<longleftrightarrow>
     distinct (map du_id rs) \<and> list_all rule_row_ok rs \<and>
     list_all (\<lambda>r. list_ex (\<lambda>v. records v r) vs) rs \<and>
     list_all (version_row_ok rs) vs \<and>
     distinct (map (\<lambda>v. (dv_rule_id v, dv_version_number v)) vs)"

definition matches_ok :: "detection_match list \<Rightarrow> bool" where
  "matches_ok ms \<longleftrightarrow> distinct (map dm_id ms) \<and> distinct (map dm_fingerprint ms) \<and> list_all (\<lambda>m. dm_risk_tenths m \<le> 1000) ms"

definition detect_ok :: "detect_db \<Rightarrow> bool" where
  "detect_ok s \<longleftrightarrow> rule_tables_ok (dd_rules s) (dd_versions s) \<and> matches_ok (dd_matches s)"

lemma detect_ok_fields:
  "detect_ok s \<Longrightarrow> dd_rules t = dd_rules s \<Longrightarrow> dd_versions t = dd_versions s \<Longrightarrow> dd_matches t = dd_matches s \<Longrightarrow>
     detect_ok t"
  by (simp add: detect_ok_def)

lemma detect_ok_same: "detect_ok s \<Longrightarrow> same_detection s t \<Longrightarrow> detect_ok t"
  by (rule detect_ok_fields) (simp_all add: same_detection_fields)

subsection \<open>Changing rows\<close>

lemma set_upd_row_const: "set (upd_row rid i (\<lambda>_. x) rows) \<subseteq> insert x {r \<in> set rows. rid r \<noteq> i}"
  by (auto simp: set_upd_row)

lemma in_upd_row_const:
  "distinct (map rid rows) \<Longrightarrow> r \<in> set rows \<Longrightarrow> rid r = i \<Longrightarrow> rid x = i \<Longrightarrow>
     set (upd_row rid i (\<lambda>_. x) rows) = insert x {r \<in> set rows. rid r \<noteq> i}"
  by (auto simp: set_upd_row image_iff)

lemma distinct_upd_row_const: "rid x = i \<Longrightarrow> distinct (map rid (upd_row rid i (\<lambda>_. x) rows)) = distinct (map rid rows)"
proof -
  assume "rid x = i"
  then have "map rid (upd_row rid i (\<lambda>_. x) rows) = map rid rows"
    by (induction rows) (auto simp: upd_row_def)
  then show ?thesis by simp
qed

text \<open>A change that keeps the content and the version of a rule.\<close>

lemma rules_ok_touch:
  assumes ok: "rule_tables_ok rs vs" and r: "r \<in> set rs"
    and same: "du_id x = du_id r" "du_rule_content x = du_rule_content r"
      "du_normalized_condition x = du_normalized_condition r" "du_current_version x = du_current_version r"
    and e: "du_enabled x \<longleftrightarrow> du_lifecycle_status x = ''active''"
  shows "rule_tables_ok (upd_row du_id (du_id x) (\<lambda>_. x) rs) vs"
proof -
  have d: "distinct (map du_id rs)" using ok by (simp add: rule_tables_ok_def)
  have S: "set (upd_row du_id (du_id x) (\<lambda>_. x) rs) = insert x {y \<in> set rs. du_id y \<noteq> du_id x}"
    using in_upd_row_const [OF d r] same by simp
  have rec: "list_ex (\<lambda>v. records v x) vs"
    using ok r same by (simp add: rule_tables_ok_def list_all_iff list_ex_iff records_def)
  have acc: "rule_row_ok x" using ok r same e by (simp add: rule_tables_ok_def list_all_iff rule_row_ok_def)
  have ver: "version_row_ok (upd_row du_id (du_id x) (\<lambda>_. x) rs) v" if v: "v \<in> set vs" for v
  proof -
    obtain y where y: "y \<in> set rs" "du_id y = dv_rule_id v" "dv_version_number v \<le> du_current_version y"
        "accepted_form (dv_normalized_condition v)"
      using ok v by (auto simp: rule_tables_ok_def list_all_iff version_row_ok_def)
    show ?thesis
    proof (cases "du_id y = du_id x")
      case True
      then have "y = r" using d r y(1) same(1) by (metis distinct_map inj_onD)
      with y same show ?thesis unfolding version_row_ok_def S by auto
    next
      case False
      with y show ?thesis unfolding version_row_ok_def S by auto
    qed
  qed
  show ?thesis
    using ok d rec acc ver unfolding rule_tables_ok_def by (auto simp: list_all_iff S distinct_upd_row_const)
qed

text \<open>A new version of a rule.\<close>

lemma rules_ok_new_version:
  assumes ok: "rule_tables_ok rs vs" and r: "r \<in> set rs"
    and x: "du_id x = du_id r" "du_current_version x = du_current_version r + 1"
      "rule_row_ok x"
    and v: "records v x"
  shows "rule_tables_ok (upd_row du_id (du_id x) (\<lambda>_. x) rs) (vs @ [v])"
proof -
  have d: "distinct (map du_id rs)" using ok by (simp add: rule_tables_ok_def)
  have S: "set (upd_row du_id (du_id x) (\<lambda>_. x) rs) = insert x {y \<in> set rs. du_id y \<noteq> du_id x}"
    using in_upd_row_const [OF d r] x by simp
  have ver: "version_row_ok (upd_row du_id (du_id x) (\<lambda>_. x) rs) w" if w: "w \<in> set vs" for w
  proof -
    obtain y where y: "y \<in> set rs" "du_id y = dv_rule_id w" "dv_version_number w \<le> du_current_version y"
        "accepted_form (dv_normalized_condition w)"
      using ok w by (auto simp: rule_tables_ok_def list_all_iff version_row_ok_def)
    show ?thesis
    proof (cases "du_id y = du_id x")
      case True
      then have "y = r" using d r y(1) x(1) by (metis distinct_map inj_onD)
      with y x show ?thesis unfolding version_row_ok_def S by auto
    next
      case False
      with y show ?thesis unfolding version_row_ok_def S by auto
    qed
  qed
  have vx: "version_row_ok (upd_row du_id (du_id x) (\<lambda>_. x) rs) v"
    using v x(3) unfolding version_row_ok_def S by (auto simp: records_def rule_row_ok_def)
  have fresh: "(dv_rule_id v, dv_version_number v) \<notin> (\<lambda>w. (dv_rule_id w, dv_version_number w)) ` set vs"
  proof
    assume "(dv_rule_id v, dv_version_number v) \<in> (\<lambda>w. (dv_rule_id w, dv_version_number w)) ` set vs"
    then obtain w where w: "w \<in> set vs" "dv_rule_id w = dv_rule_id v" "dv_version_number w = dv_version_number v" by auto
    obtain y where y: "y \<in> set rs" "du_id y = dv_rule_id w" "dv_version_number w \<le> du_current_version y"
      using ok w by (auto simp: rule_tables_ok_def list_all_iff version_row_ok_def)
    then have "y = r" using d r x(1) v w by (metis distinct_map inj_onD records_def)
    with y w v x show False by (simp add: records_def)
  qed
  have "list_all (\<lambda>r. list_ex (\<lambda>v. records v r) (vs @ [v])) (upd_row du_id (du_id x) (\<lambda>_. x) rs)"
    using ok v unfolding rule_tables_ok_def by (auto simp: list_all_iff list_ex_iff S)
  moreover have "list_all rule_row_ok (upd_row du_id (du_id x) (\<lambda>_. x) rs)"
    using ok x(3) unfolding rule_tables_ok_def list_all_iff S by auto
  moreover have "list_all (version_row_ok (upd_row du_id (du_id x) (\<lambda>_. x) rs)) (vs @ [v])"
    using ver vx by (simp add: list_all_iff)
  moreover have "distinct (map (\<lambda>v. (dv_rule_id v, dv_version_number v)) (vs @ [v]))"
    using ok fresh by (simp add: rule_tables_ok_def)
  ultimately show ?thesis using d unfolding rule_tables_ok_def by (simp add: distinct_upd_row_const)
qed

text \<open>A new rule with its first version.\<close>

lemma rule_tables_ok_insert:
  assumes ok: "rule_tables_ok rs vs" and x: "du_id x \<notin> du_id ` set rs" "rule_row_ok x" and v: "records v x"
  shows "rule_tables_ok (rs @ [x]) (vs @ [v])"
proof -
  have ver: "version_row_ok (rs @ [x]) w" if "w \<in> set vs" for w
    using ok that by (auto simp: rule_tables_ok_def list_all_iff version_row_ok_def)
  have vx: "version_row_ok (rs @ [x]) v"
    using v x(2) by (auto simp: version_row_ok_def records_def rule_row_ok_def)
  have "(dv_rule_id v, dv_version_number v) \<notin> (\<lambda>w. (dv_rule_id w, dv_version_number w)) ` set vs"
  proof
    assume "(dv_rule_id v, dv_version_number v) \<in> (\<lambda>w. (dv_rule_id w, dv_version_number w)) ` set vs"
    then obtain w where w: "w \<in> set vs" "dv_rule_id w = du_id x" using v by (auto simp: records_def)
    then have "version_row_ok rs w" using ok by (simp add: rule_tables_ok_def list_all_iff)
    with w(2) x(1) show False by (metis imageI version_row_ok_def)
  qed
  then have "distinct (map (\<lambda>v. (dv_rule_id v, dv_version_number v)) (vs @ [v]))" using ok by (simp add: rule_tables_ok_def)
  moreover have "list_all (version_row_ok (rs @ [x])) (vs @ [v])" using ver vx by (simp add: list_all_iff)
  moreover have "list_all (\<lambda>r. list_ex (\<lambda>v. records v r) (vs @ [v])) (rs @ [x])"
    using ok v by (auto simp: rule_tables_ok_def list_all_iff list_ex_iff)
  moreover have "distinct (map du_id (rs @ [x]))" "list_all rule_row_ok (rs @ [x])"
    using ok x by (auto simp: rule_tables_ok_def)
  ultimately show ?thesis unfolding rule_tables_ok_def by blast
qed


section \<open>Quiet changes\<close>

text \<open>
  What every request but an activation does: versions are only added, the invariant is kept, and no
  version of a rule becomes active.
\<close>

type_synonym rule_version = "nat \<times> nat \<times> (string \<times> pyvalue) list \<times> normalized_rule"

definition version_key :: "detection_rule \<Rightarrow> rule_version" where
  "version_key r = (du_id r, du_current_version r, du_rule_content r, du_normalized_condition r)"

definition active_in :: "detect_db \<Rightarrow> rule_version \<Rightarrow> bool" where
  "active_in s k \<longleftrightarrow> (\<exists>r \<in> set (dd_rules s). version_key r = k \<and> du_lifecycle_status r = ''active'')"

definition quiet :: "detect_db \<Rightarrow> detect_db \<Rightarrow> bool" where
  "quiet s t \<longleftrightarrow> prefix (dd_versions s) (dd_versions t) \<and> (detect_ok s \<longrightarrow> detect_ok t) \<and>
     (\<forall>k. active_in t k \<longrightarrow> active_in s k)"

lemma quiet_refl [simp, intro]: "quiet s s"
  by (simp add: quiet_def)

lemma quiet_trans: "quiet s t \<Longrightarrow> quiet t u \<Longrightarrow> quiet s u"
  by (auto simp: quiet_def intro: prefix_order.trans)

lemma quiet_fields:
  "dd_rules t = dd_rules s \<Longrightarrow> dd_versions t = dd_versions s \<Longrightarrow> dd_matches t = dd_matches s \<Longrightarrow> quiet s t"
  by (auto simp: quiet_def active_in_def intro: detect_ok_fields)

lemma quiet_same: "same_detection s t \<Longrightarrow> quiet s t"
  by (rule quiet_fields) (simp_all add: same_detection_fields)

lemma recorded_same: "record_change env a r i m n out s = (res, t) \<Longrightarrow> same_detection s t"
  by (auto simp: record_change_def dest!: bind_action_cases intro: post_commit_same)

lemma quiet_recorded: "quiet s s1 \<Longrightarrow> record_change env a r i m n out s1 = (res, t) \<Longrightarrow> quiet s t"
  by (blast intro: quiet_trans quiet_same dest: recorded_same)

lemma rule_or_404_InrD: "detection_rule_or_404 s rid = Inr r \<Longrightarrow> r \<in> set (dd_rules s) \<and> du_id r = rid"
  by (auto simp: detection_rule_or_404_def get_rule_def dest: find_row_SomeD split: option.splits)

lemma validate_normalized: "validate fl c = Inr v \<Longrightarrow> vd_normalized v = Some n \<Longrightarrow> accepted_form (stored_rule n)"
  by (auto simp: validate_def accepted_form_def split: sum.splits option.splits if_splits dest: normalize_rule_ok)

lemma put_rule_fields [simp]:
  "dd_versions (put_rule x s) = dd_versions s" "dd_matches (put_rule x s) = dd_matches s"
  "dd_rules (put_rule x s) = upd_row du_id (du_id x) (\<lambda>_. x) (dd_rules s)"
  "dd_tests (put_rule x s) = dd_tests s" "dd_links (put_rule x s) = dd_links s"
  by (simp_all add: put_rule_def)

lemma active_put:
  "(du_lifecycle_status x = ''active'' \<Longrightarrow> active_in s (version_key x)) \<Longrightarrow> active_in (put_rule x s) k \<Longrightarrow> active_in s k"
  using set_upd_row_const [of du_id "du_id x" x "dd_rules s"] by (fastforce simp: active_in_def)

lemma quiet_touch:
  assumes r: "r \<in> set (dd_rules s)"
    and same: "du_id x = du_id r" "du_rule_content x = du_rule_content r"
      "du_normalized_condition x = du_normalized_condition r" "du_current_version x = du_current_version r"
    and e: "detect_ok s \<Longrightarrow> du_enabled x \<longleftrightarrow> du_lifecycle_status x = ''active''"
    and a: "du_lifecycle_status x = ''active'' \<Longrightarrow> du_lifecycle_status r = ''active''"
  shows "quiet s (put_rule x s)"
proof -
  have "detect_ok s \<longrightarrow> detect_ok (put_rule x s)"
    using rules_ok_touch [OF _ r same, of "dd_versions s"] e by (simp add: detect_ok_def)
  moreover have "active_in s (version_key x)" if "du_lifecycle_status x = ''active''"
    using a [OF that] r same by (auto simp: active_in_def version_key_def)
  ultimately show ?thesis using active_put [of x s] by (simp add: quiet_def)
qed

lemma add_version_fields [simp]:
  "dd_rules (add_version env x m s) = dd_rules s" "dd_matches (add_version env x m s) = dd_matches s"
  "dd_tests (add_version env x m s) = dd_tests s" "dd_links (add_version env x m s) = dd_links s"
  by (simp_all add: add_version_def)

lemma add_version_row: "\<exists>v. dd_versions (add_version env x m s) = dd_versions s @ [v] \<and> records v x"
  by (simp add: add_version_def insert_row_def records_def set_dv_id_def)

lemma quiet_new_version:
  assumes r: "r \<in> set (dd_rules s)"
    and x: "du_id x = du_id r" "du_current_version x = du_current_version r + 1"
      "accepted_form (du_normalized_condition x)" "\<not> du_enabled x" "du_lifecycle_status x \<noteq> ''active''"
    and t: "dd_rules t = dd_rules s" "dd_versions t = dd_versions s" "dd_matches t = dd_matches s"
  shows "quiet s (add_version env x m (put_rule x t))"
proof -
  obtain v where v: "dd_versions (add_version env x m (put_rule x t)) = dd_versions s @ [v]" "records v x"
    using add_version_row [of env x m "put_rule x t"] t by auto
  have "rule_row_ok x" using x by (simp add: rule_row_ok_def)
  then have "detect_ok s \<longrightarrow> detect_ok (add_version env x m (put_rule x t))"
    using rules_ok_new_version [OF _ r x(1,2) _ v(2), of "dd_versions s"] v(1) t by (simp add: detect_ok_def)
  moreover have "active_in (add_version env x m (put_rule x t)) k \<Longrightarrow> active_in s k" for k
    using active_put [of x s k] x(5) t by (simp add: active_in_def)
  ultimately show ?thesis using v(1) by (auto simp: quiet_def)
qed

lemma quiet_insert:
  assumes x: "du_id x = next_id du_id (dd_rules s)" "rule_row_ok x" "du_lifecycle_status x \<noteq> ''active''"
    and t: "dd_rules t = dd_rules s @ [x]" "dd_versions t = dd_versions s @ [v]" "records v x"
      "dd_matches t = dd_matches s"
  shows "quiet s t"
proof -
  have "du_id x \<notin> du_id ` set (dd_rules s)" using x(1) next_id_fresh by metis
  then have "detect_ok s \<longrightarrow> detect_ok t"
    using rule_tables_ok_insert [OF _ _ x(2) t(3), of "dd_rules s" "dd_versions s"] t by (simp add: detect_ok_def)
  then show ?thesis using t x(3) by (auto simp: quiet_def active_in_def)
qed

lemma add_links_fields:
  "add_links env rid source xs s = Inr t \<Longrightarrow>
     dd_rules t = dd_rules s \<and> dd_versions t = dd_versions s \<and> dd_matches t = dd_matches s \<and> dd_tests t = dd_tests s"
  by (induction env rid source xs s rule: add_links.induct) (auto split: option.splits)

lemma map_techniques_fields:
  "map_techniques env rid ids source s = Inr t \<Longrightarrow>
     dd_rules t = dd_rules s \<and> dd_versions t = dd_versions s \<and> dd_matches t = dd_matches s \<and> dd_tests t = dd_tests s"
  by (auto simp: map_techniques_def dest!: add_links_fields)


section \<open>Every request but an activation is quiet\<close>

lemma new_rule_row_id [simp]: "du_id (new_rule_row env p so uuid n s) = next_id du_id (dd_rules s)"
  by (simp add: new_rule_row_def)

lemma create_rule_quiet:
  assumes "create_detection_rule env p system_owned forced s = (out, t)"
  shows "quiet s t"
proof (cases out)
  case (Inl e)
  with assms have "t = s" by (auto simp: create_detection_rule_def Let_def split: sum.splits option.splits if_splits)
  then show ?thesis by simp
next
  case (Inr r)
  define content where "content = payload_content p"
  from assms Inr obtain result n s2 uuid q where
    v: "validate (dn_fl env) content = Inr result" "vd_normalized result = Some n"
    and l: "rp_lifecycle_status p \<noteq> ''active''"
    and s2: "map_techniques env (next_id du_id (dd_rules s)) (rp_technique_ids p)
               (if system_owned then ''system_seed'' else ''manual'')
               (add_version env (new_rule_row env p system_owned uuid n s) ''Initial immutable version''
                 (s\<lparr>dd_rules := insert_row du_id set_du_id (new_rule_row env p system_owned uuid n s) (dd_rules s)\<rparr>)) = Inr s2"
    and t: "t = put_rule ((new_rule_row env p system_owned uuid n s)\<lparr>du_quality_score := q\<rparr>) s2"
    unfolding create_detection_rule_def Let_def content_def [symmetric] new_rule_row_id
    by (auto split: sum.splits option.splits if_split_asm)
  define row where "row = new_rule_row env p system_owned uuid n s"
  define s1 where "s1 = add_version env row ''Initial immutable version''
                    (s\<lparr>dd_rules := insert_row du_id set_du_id row (dd_rules s)\<rparr>)"
  have row: "du_id row = next_id du_id (dd_rules s)" "du_enabled row = False"
      "du_lifecycle_status row = rp_lifecycle_status p" "du_normalized_condition row = stored_rule n"
    by (simp_all add: row_def new_rule_row_def)
  note s2 = s2 [folded row_def, folded s1_def] and t = t [folded row_def]
  let ?x = "row\<lparr>du_quality_score := q\<rparr>"
  have i: "insert_row du_id set_du_id row (dd_rules s) = dd_rules s @ [row]"
    using row(1) by (simp add: insert_row_def set_du_id_def)
  obtain w where w: "dd_versions s1 = dd_versions s @ [w]" "records w row"
    using add_version_row [of env row "''Initial immutable version''"
        "s\<lparr>dd_rules := insert_row du_id set_du_id row (dd_rules s)\<rparr>"] unfolding s1_def by auto
  have r1: "dd_rules s1 = dd_rules s @ [row]" "dd_matches s1 = dd_matches s" by (simp_all add: s1_def i)
  have "upd_row du_id (du_id row) (\<lambda>_. ?x) (dd_rules s @ [row]) = dd_rules s @ [?x]"
    using next_id_fresh [of du_id "dd_rules s"] row(1) by (force simp: upd_row_def intro!: map_idI)
  then have "dd_rules t = dd_rules s @ [?x]" "dd_versions t = dd_versions s @ [w]" "dd_matches t = dd_matches s"
    using t map_techniques_fields [OF s2] w r1 by simp_all
  moreover have "rule_row_ok ?x" using row l validate_normalized [OF v] by (simp add: rule_row_ok_def)
  moreover have "records w ?x" using w(2) by (simp add: records_def)
  ultimately show ?thesis using row l by (intro quiet_insert [of ?x s t w]) simp_all
qed

lemma bind_limited_quiet:
  assumes "bind_action (limited_request env key limit) f s = (out, t)"
    and "\<And>s1 x. same_detection s s1 \<Longrightarrow> f x s1 = (out, t) \<Longrightarrow> quiet s1 t"
  shows "quiet s t"
  using bind_action_cases [OF assms(1)] assms(2) limited_same quiet_same quiet_trans by metis

lemma create_rule_endpoint_quiet: "create_rule_endpoint env p s = (out, t) \<Longrightarrow> quiet s t"
  unfolding create_rule_endpoint_def
  by (erule bind_limited_quiet)
    (auto split: if_splits prod.splits sum.splits intro: quiet_recorded dest: create_rule_quiet)

lemma not_null_bind: "bind_result (not_null v old) f = Inr y \<Longrightarrow> \<exists>x. f x = Inr y"
  by (auto simp: bind_result_Inr_iff)

lemma updated_columns_same:
  "updated_columns u r = Inr x \<Longrightarrow>
     du_id x = du_id r \<and> du_current_version x = du_current_version r \<and> du_enabled x = du_enabled r \<and>
     du_lifecycle_status x = du_lifecycle_status r \<and> du_normalized_condition x = du_normalized_condition r \<and>
     du_rule_content x = du_rule_content r"
  by (auto simp: updated_columns_def bind_result_Inr_iff)

lemma update_plan_InrD:
  assumes "update_plan env rid u s = Inr (x, s1)"
  shows "\<exists>r \<in> set (dd_rules s). du_id x = du_id r \<and> du_current_version x = du_current_version r + 1 \<and>
    accepted_form (du_normalized_condition x) \<and> \<not> du_enabled x \<and> du_lifecycle_status x \<noteq> ''active'' \<and>
    dd_rules s1 = dd_rules s \<and> dd_versions s1 = dd_versions s \<and> dd_matches s1 = dd_matches s"
proof -
  obtain r where r: "detection_rule_or_404 s rid = Inr r" using assms by (auto simp: update_plan_def bind_result_Inr_iff)
  define content where "content = updated_content u (du_rule_content r)"
  from assms r obtain result where v: "validate (dn_fl env) content = Inr result"
    by (auto simp: update_plan_def content_def Let_def bind_result_Inr_iff split: if_split_asm)
  from assms r v obtain n where n: "vd_normalized result = Some n"
    by (auto simp: update_plan_def content_def [symmetric] Let_def split: if_split_asm option.splits)
  from assms r v n obtain q r2 where
    s1: "(case given (ru_technique_ids u) of None \<Rightarrow> Inr s
          | Some ids \<Rightarrow> map_techniques env rid ids ''manual'' s) = Inr s1"
    and r2: "updated_columns u (revised_rule env u content n r) = Inr r2"
    and x: "x = r2\<lparr>du_quality_score := q\<rparr>"
    by (auto simp: update_plan_def content_def [symmetric] Let_def bind_result_Inr_iff split: if_split_asm)
  have "dd_rules s1 = dd_rules s \<and> dd_versions s1 = dd_versions s \<and> dd_matches s1 = dd_matches s"
    using s1 by (auto split: option.splits dest: map_techniques_fields)
  with rule_or_404_InrD [OF r] updated_columns_same [OF r2] validate_normalized [OF v n] x show ?thesis
    by (auto simp: revised_rule_def)
qed

lemma update_rule_quiet:
  assumes "update_detection_rule env rid u s = (out, t)"
  shows "quiet s t"
proof (cases "update_plan env rid u s")
  case (Inl e)
  with assms show ?thesis by (simp add: update_detection_rule_def)
next
  case (Inr p)
  obtain x s1 where p: "p = (x, s1)" by (cases p)
  from update_plan_InrD [OF Inr [unfolded p]] obtain r where
    r: "r \<in> set (dd_rules s)" "du_id x = du_id r" "du_current_version x = du_current_version r + 1"
      "accepted_form (du_normalized_condition x)" "\<not> du_enabled x" "du_lifecycle_status x \<noteq> ''active''"
      "dd_rules s1 = dd_rules s" "dd_versions s1 = dd_versions s" "dd_matches s1 = dd_matches s" by blast
  from assms Inr p show ?thesis
    using quiet_recorded [OF quiet_new_version [OF r]] by (simp add: update_detection_rule_def)
qed

lemma validate_rule_quiet:
  assumes "validate_rule env rid s = (out, t)"
  shows "quiet s t"
  using assms unfolding validate_rule_def
proof (rule bind_limited_quiet, goal_cases)
  case (1 s1 x)
  show ?case
  proof (cases "t = s1")
    case False
    with 1(2) obtain r result q where r: "detection_rule_or_404 s1 rid = Inr r"
      and b: "bind_action
                 (if vd_valid result
                  then post_commit_event env ''detection_rule_validated'' ''detection_rule'' rid
                         (''Detection rule '' @ str_nat rid @ '' validated.'') None
                  else post_commit_event env ''detection_validation_failed'' ''detection_rule'' rid
                         (''Validation failed for detection rule '' @ str_nat rid @ ''.'')
                         (Some (''Detection rule validation failed'',
                                ''Rule '' @ str_nat rid @ '' requires correction.'', ''warning'')))
                 (\<lambda>_ s2. (bind_result (run_tests env s2 (r\<lparr>du_last_validated_at := Some (dn_now env),
                    du_quality_score := q, du_updated_at := dn_now env\<rparr>)) (\<lambda>t. Inr (result, t, q)), s2))
                 (put_rule (r\<lparr>du_last_validated_at := Some (dn_now env), du_quality_score := q,
                       du_updated_at := dn_now env\<rparr>) s1) = (out, t)"
      by (auto simp: Let_def bind_result_Inr_iff split: sum.splits)
    let ?x = "r\<lparr>du_last_validated_at := Some (dn_now env), du_quality_score := q, du_updated_at := dn_now env\<rparr>"
    have "same_detection (put_rule ?x s1) t"
      using bind_action_cases [OF b] by (auto split: if_split_asm dest: post_commit_same)
    moreover have "quiet s1 (put_rule ?x s1)"
      using rule_or_404_InrD [OF r]
      by (intro quiet_touch [of r]) (auto simp: detect_ok_def rule_tables_ok_def list_all_iff rule_row_ok_def)
    ultimately show ?thesis using quiet_same quiet_trans by blast
  qed simp
qed

lemma set_lifecycle_quiet:
  "set_lifecycle env rid status s = (out, t) \<Longrightarrow> status \<noteq> ''active'' \<Longrightarrow> quiet s t"
  unfolding set_lifecycle_def
  by (auto simp: Let_def split: sum.splits dest!: rule_or_404_InrD intro!: quiet_touch elim!: quiet_recorded [rotated])

lemma clone_quiet: "clone env rid s = (out, t) \<Longrightarrow> quiet s t"
  unfolding clone_def
  by (auto split: sum.splits option.splits prod.splits intro: quiet_recorded dest: create_rule_quiet)

lemma rollback_quiet:
  assumes "rollback env rid number summary s = (out, t)"
  shows "quiet s t"
proof (cases "t = s")
  case False
  with assms obtain r old where r: "detection_rule_or_404 s rid = Inr r"
    and o: "find (\<lambda>v. dv_rule_id v = rid \<and> dv_version_number v = number) (dd_versions s) = Some old"
    by (auto simp: rollback_def split: sum.splits option.splits)
  define x where "x = r\<lparr>du_current_version := du_current_version r + 1, du_rule_content := dv_rule_content old,
      du_normalized_condition := dv_normalized_condition old, du_lifecycle_status := ''testing'',
      du_enabled := False, du_updated_at := dn_now env\<rparr>"
  have old: "old \<in> set (dd_versions s)" using find_SomeD [OF o] by simp
  show ?thesis
  proof (cases "accepted_form (dv_normalized_condition old)")
    case True
    then have "quiet s (add_version env x summary (put_rule x s))"
      using rule_or_404_InrD [OF r] by (intro quiet_new_version [of r]) (simp_all add: x_def)
    with assms r o show ?thesis by (auto simp: rollback_def Let_def x_def intro: quiet_recorded)
  next
    case False
    then have "\<not> detect_ok s" using old by (auto simp: detect_ok_def rule_tables_ok_def list_all_iff version_row_ok_def)
    moreover have "same_detection (add_version env x summary (put_rule x s)) t"
      using assms r o by (auto simp: rollback_def Let_def x_def intro: recorded_same)
    then have "dd_versions t = dd_versions (add_version env x summary (put_rule x s))"
      "dd_rules t = dd_rules (put_rule x s)" by (simp_all add: same_detection_fields)
    moreover have "active_in (put_rule x s) i \<Longrightarrow> active_in s i" for i
      by (rule active_put [of x]) (simp_all add: x_def)
    ultimately show ?thesis
      using add_version_row [of env x summary "put_rule x s"] by (auto simp: quiet_def active_in_def)
  qed
qed simp

end
