(* ===== verification/Detect_Served.thy ===== *)
theory Detect_Served
  imports Detect_Invariant
begin

text \<open>
  The remaining requests of detection engineering keep the invariant too, and the served system as
  an instance of the locale of served invariants.
\<close>

section \<open>Tests, imports and packs\<close>

lemma put_rule_quiet:
  assumes "detection_rule_or_404 s rid = Inr r"
    and t: "dd_rules t = dd_rules s" "dd_versions t = dd_versions s" "dd_matches t = dd_matches s"
  shows "quiet s (put_rule (r\<lparr>du_quality_score := q, du_updated_at := u\<rparr>) t)"
proof -
  have "quiet s t" using t by (rule quiet_fields)
  moreover have "quiet t (put_rule (r\<lparr>du_quality_score := q, du_updated_at := u\<rparr>) t)"
    using rule_or_404_InrD [OF assms(1)] t
    by (intro quiet_touch [of r]) (auto simp: detect_ok_def rule_tables_ok_def list_all_iff rule_row_ok_def)
  ultimately show ?thesis by (rule quiet_trans)
qed

lemma create_test_quiet: "create_test env rid p s = (out, t) \<Longrightarrow> quiet s t"
  unfolding create_test_def
  by (auto simp: Let_def split: sum.splits elim!: quiet_recorded [rotated] intro!: put_rule_quiet)

lemma update_test_quiet: "update_test env rid tid u s = (out, t) \<Longrightarrow> quiet s t"
  unfolding update_test_def
  by (auto split: sum.splits elim!: quiet_recorded [rotated] intro!: quiet_fields)

lemma delete_test_quiet: "delete_test env rid tid s = (out, t) \<Longrightarrow> quiet s t"
  unfolding delete_test_def
  by (auto split: sum.splits elim!: quiet_recorded [rotated] intro!: quiet_fields)

lemma run_tests_endpoint_quiet: "run_tests_endpoint env rid s = (out, t) \<Longrightarrow> quiet s t"
  unfolding run_tests_endpoint_def
  by (erule bind_limited_quiet) (auto split: sum.splits elim!: quiet_recorded [rotated])

text \<open>Every preview that is valid has a normal form the validator accepted.\<close>

definition preview_ok :: "preview \<Rightarrow> bool" where
  "preview_ok w \<longleftrightarrow> (\<forall>n. pw_normalized w = Some n \<longrightarrow> accepted_form (stored_rule n))"

lemma preview_of_ok: "preview_of env fmt i v = Inr w \<Longrightarrow> preview_ok w"
  by (auto simp: preview_of_def preview_ok_def Let_def bind_result_Inr_iff split: pyvalue.splits
      dest: validate_normalized)

lemma all_results_member: "all_results f xs = Inr ys \<Longrightarrow> y \<in> set ys \<Longrightarrow> \<exists>x \<in> set xs. f x = Inr y"
  by (induction xs arbitrary: ys) (auto simp: bind_result_Inr_iff)

lemma parse_import_ok: "parse_import env ld content filename = Inr ws \<Longrightarrow> list_all preview_ok ws"
  by (auto simp: parse_import_def bind_result_Inr_iff list_all_iff split: if_split_asm
      dest!: all_results_member preview_of_ok)

lemma import_previews_quiet:
  "import_previews env da seen ws out s = Inr (out', t) \<Longrightarrow> list_all preview_ok ws \<Longrightarrow> quiet s t"
proof (induction ws arbitrary: seen out s)
  case (Cons w ws)
  show ?case
  proof (cases "pw_valid w \<and> (\<exists>n. pw_normalized w = Some n)")
    case False
    with Cons show ?thesis by (auto split: option.splits bool.splits)
  next
    case True
    then obtain n where w: "pw_valid w" "pw_normalized w = Some n" by blast
    define existing where "existing = (case pw_rule_uuid w of
        None \<Rightarrow> None | Some u \<Rightarrow> find (\<lambda>r. du_rule_uuid r = u) (dd_rules s))"
    note step = Cons.prems(1) [unfolded import_previews.simps Let_def existing_def [symmetric]]
    have acc: "accepted_form (stored_rule n)" using Cons.prems(2) w by (simp add: preview_ok_def)
    show ?thesis
    proof (cases "(existing \<noteq> None \<or> list_ex (\<lambda>v. dv_content_sha256 v = pw_content_sha256 w) seen) \<and> da = ''skip''")
      case True
      with step w have "import_previews env da seen ws
          (out\<lparr>io_skipped := io_skipped out @ [(pw_title w, ''duplicate UUID or content'')]\<rparr>) s = Inr (out', t)"
        by simp
      from Cons.IH [OF this] Cons.prems(2) show ?thesis by simp
    next
      case skip: False
      show ?thesis
      proof (cases existing)
        case (Some r)
        define x where "x = r\<lparr>du_current_version := du_current_version r + 1,
            du_rule_content := stored_dict (pw_content w), du_normalized_condition := stored_rule n,
            du_lifecycle_status := ''testing'', du_enabled := False, du_updated_at := dn_now env\<rparr>"
        have r: "r \<in> set (dd_rules s)" using Some by (auto simp: existing_def dest: find_SomeD split: option.splits)
        have q: "quiet s (add_version env x ''Imported new version'' (put_rule x s))"
          using r acc by (intro quiet_new_version [of r]) (simp_all add: x_def)
        from step w skip Some have
          "import_previews env da seen ws (out\<lparr>io_versions := io_versions out @ [du_id r]\<rparr>)
             (add_version env x ''Imported new version'' (put_rule x s)) = Inr (out', t)"
          unfolding x_def by (simp split: if_split_asm)
        from Cons.IH [OF this] Cons.prems(2) show ?thesis using q quiet_trans by simp
      next
        case None
        from step w skip None obtain p r s1 where
          c: "create_detection_rule env p False None s = (Inr r, s1)"
          and i: "import_previews env da (dd_versions s) ws
                    (out\<lparr>io_created := io_created out @ [du_id r]\<rparr>) s1 = Inr (out', t)"
          by (simp split: if_split_asm sum.splits prod.splits)
        from Cons.IH [OF i] Cons.prems(2) show ?thesis using create_rule_quiet [OF c] quiet_trans by simp
      qed
    qed
  qed
qed simp

lemma validate_import_quiet: "validate_import env ld content filename s = (out, t) \<Longrightarrow> quiet s t"
  unfolding validate_import_def by (erule bind_limited_quiet) (auto split: sum.splits)

lemma validate_import_InrD:
  "validate_import env ld content filename s = (Inr ws, t) \<Longrightarrow> list_all preview_ok ws"
  unfolding validate_import_def
  by (auto dest!: bind_action_InrD parse_import_ok split: sum.splits)

lemma import_rules_quiet:
  assumes "import_rules env ld content filename da s = (out, t)"
  shows "quiet s t"
proof (cases "validate_import env ld content filename s")
  case (Pair r s1)
  have q: "quiet s s1" using Pair by (rule validate_import_quiet)
  show ?thesis
  proof (cases r)
    case (Inl e)
    with assms Pair q show ?thesis by (simp add: import_rules_def bind_action_def)
  next
    case (Inr ws)
    have ok: "list_all preview_ok ws" using validate_import_InrD Pair Inr by blast
    have "quiet s1 t"
      using assms Pair Inr import_previews_quiet [OF _ ok]
      by (auto simp: import_rules_def bind_action_def split: sum.splits if_split_asm elim!: quiet_recorded [rotated])
    with q show ?thesis by (rule quiet_trans)
  qed
qed

lemma create_pack_quiet: "create_pack env p s = (out, t) \<Longrightarrow> quiet s t"
  unfolding create_pack_def
  by (auto simp: Let_def split: if_split_asm elim!: quiet_recorded [rotated] intro!: quiet_fields)

lemma update_pack_quiet: "update_pack env i u s = (out, t) \<Longrightarrow> quiet s t"
  unfolding update_pack_def
  by (auto split: if_split_asm sum.splits elim!: quiet_recorded [rotated] intro!: quiet_fields)

lemma add_pack_rule_quiet: "add_pack_rule env i rid s = (out, t) \<Longrightarrow> quiet s t"
  unfolding add_pack_rule_def
  by (auto simp: Let_def split: if_split_asm sum.splits intro!: quiet_fields)

lemma remove_pack_rule_quiet: "remove_pack_rule env i rid s = (out, t) \<Longrightarrow> quiet s t"
  unfolding remove_pack_rule_def
  by (auto split: if_split_asm sum.splits option.splits intro!: quiet_fields)


section \<open>Executions, matches and suppressions\<close>

lemma matches_ok_put:
  assumes ok: "matches_ok ms" and m: "m \<in> set ms"
    and x: "dm_id x = dm_id m" "dm_fingerprint x = dm_fingerprint m" "dm_risk_tenths x = dm_risk_tenths m"
  shows "matches_ok (upd_row dm_id (dm_id x) (\<lambda>_. x) ms)"
proof -
  have d: "distinct (map dm_id ms)" using ok by (simp add: matches_ok_def)
  have S: "set (upd_row dm_id (dm_id x) (\<lambda>_. x) ms) = insert x {y \<in> set ms. dm_id y \<noteq> dm_id x}"
    using in_upd_row_const [OF d m] x by simp
  have "map dm_fingerprint (upd_row dm_id (dm_id x) (\<lambda>_. x) ms) = map dm_fingerprint ms"
    using d m x unfolding upd_row_def map_map by (intro map_cong) (auto simp: distinct_map dest: inj_onD)
  then show ?thesis
    using ok m x(3) unfolding matches_ok_def list_all_iff S by (auto simp: distinct_upd_row_const)
qed

lemma quiet_put_match:
  assumes "m \<in> set (dd_matches s)"
    and "dm_id x = dm_id m" "dm_fingerprint x = dm_fingerprint m" "dm_risk_tenths x = dm_risk_tenths m"
    and "dd_rules t = dd_rules s" "dd_versions t = dd_versions s" "dd_matches t = dd_matches s"
  shows "quiet s (put_match x t)"
  using matches_ok_put [OF _ assms(1-4)] assms(5-7)
  by (auto simp: quiet_def active_in_def detect_ok_def put_match_def)

lemma match_or_404_InrD: "match_or_404 s mid = Inr m \<Longrightarrow> m \<in> set (dd_matches s)"
  by (auto simp: match_or_404_def dest: find_row_SomeD split: option.splits)

lemma review_match_quiet: "review_match env mid status remark s = (out, t) \<Longrightarrow> quiet s t"
  unfolding review_match_def
  by (auto simp: Let_def split: sum.splits dest!: match_or_404_InrD
      elim!: quiet_recorded [rotated] intro!: quiet_put_match)

lemma create_alert_quiet: "create_alert env mid confirmed remark s = (out, t) \<Longrightarrow> quiet s t"
  unfolding create_alert_def
  by (auto simp: Let_def split: sum.splits if_split_asm list.splits option.splits dest!: match_or_404_InrD
      elim!: quiet_recorded [rotated] intro!: quiet_put_match)

lemma cancel_execution_quiet: "cancel_detection_execution env xid s = (out, t) \<Longrightarrow> quiet s t"
  unfolding cancel_detection_execution_def
  by (auto simp: Let_def split: option.splits if_split_asm intro!: quiet_fields)

text \<open>The rows of a scan have bounded scores.\<close>

lemma scan_event_bounded:
  "scan_event env s xid r e (rows, m, k) = Inr (rows', m', k') \<Longrightarrow>
     list_all (\<lambda>x. dm_risk_tenths x \<le> 1000) rows \<Longrightarrow> list_all (\<lambda>x. dm_risk_tenths x \<le> 1000) rows'"
  by (auto simp: scan_event_def Let_def new_match_def risk_score_bound
      split: if_split_asm sum.splits prod.splits option.splits)

lemma scan_events_bounded:
  "scan_events env s xid r es (rows, m, k) = Inr (rows', m', k') \<Longrightarrow>
     list_all (\<lambda>x. dm_risk_tenths x \<le> 1000) rows \<Longrightarrow> list_all (\<lambda>x. dm_risk_tenths x \<le> 1000) rows'"
proof (induction es arbitrary: rows m k)
  case (Cons e es)
  from Cons.prems(1) obtain rows1 m1 k1 where
    "scan_event env s xid r e (rows, m, k) = Inr (rows1, m1, k1)"
    "scan_events env s xid r es (rows1, m1, k1) = Inr (rows', m', k')"
    by (auto simp: bind_result_Inr_iff)
  with Cons show ?case using scan_event_bounded by blast
qed simp

lemma scan_rules_bounded:
  "scan_rules env s xid rs es (rows, m, k) = Inr (rows', m', k') \<Longrightarrow>
     list_all (\<lambda>x. dm_risk_tenths x \<le> 1000) rows \<Longrightarrow> list_all (\<lambda>x. dm_risk_tenths x \<le> 1000) rows'"
proof (induction rs arbitrary: rows m k)
  case (Cons r rs)
  from Cons.prems(1) obtain rows1 m1 k1 where
    "scan_events env s xid r es (rows, m, k) = Inr (rows1, m1, k1)"
    "scan_rules env s xid rs es (rows1, m1, k1) = Inr (rows', m', k')"
    by (auto simp: bind_result_Inr_iff)
  with Cons show ?case using scan_events_bounded by blast
qed simp

text \<open>What the added rows leave of the table.\<close>

lemma set_dm_id_fields [simp]:
  "dm_risk_tenths (set_dm_id i m) = dm_risk_tenths m" "dm_fingerprint (set_dm_id i m) = dm_fingerprint m"
  by (simp_all add: set_dm_id_def)

definition with_rows :: "detection_match list \<Rightarrow> detection_match list \<Rightarrow> detection_match list" where
  "with_rows rows ms = fold (\<lambda>m ms. insert_row dm_id set_dm_id m ms) rows ms"

lemma with_rows_simps [simp]:
  "with_rows [] ms = ms" "with_rows (m # rows) ms = with_rows rows (insert_row dm_id set_dm_id m ms)"
  by (simp_all add: with_rows_def)

lemma with_rows_distinct: "distinct (map dm_id ms) \<Longrightarrow> distinct (map dm_id (with_rows rows ms))"
  by (induction rows arbitrary: ms) (simp_all add: match_table.distinct_insert)

lemma with_rows_bounded:
  "list_all (\<lambda>x. dm_risk_tenths x \<le> b) ms \<Longrightarrow> list_all (\<lambda>x. dm_risk_tenths x \<le> b) rows \<Longrightarrow>
     list_all (\<lambda>x. dm_risk_tenths x \<le> b) (with_rows rows ms)"
  by (induction rows arbitrary: ms) (simp_all add: insert_row_def)

lemma with_rows_fingerprints: "map dm_fingerprint (with_rows rows ms) = map dm_fingerprint ms @ map dm_fingerprint rows"
  by (induction rows arbitrary: ms) (simp_all add: insert_row_def)

lemma add_matches_rows: "add_matches rows s = s\<lparr>dd_matches := with_rows rows (dd_matches s)\<rparr>"
  by (simp add: add_matches_def with_rows_def)

text \<open>The rules touched by an execution keep what the invariant speaks of.\<close>

lemma rules_ok_upd_where:
  assumes ok: "rule_tables_ok rs vs"
    and f: "\<And>r. du_id (f r) = du_id r \<and> du_rule_content (f r) = du_rule_content r \<and>
      du_normalized_condition (f r) = du_normalized_condition r \<and> du_current_version (f r) = du_current_version r \<and>
      du_enabled (f r) = du_enabled r \<and> du_lifecycle_status (f r) = du_lifecycle_status r"
  shows "rule_tables_ok (upd_where P f rs) vs"
proof -
  have "version_row_ok rs v \<Longrightarrow> version_row_ok (upd_where P f rs) v" for v
    unfolding version_row_ok_def set_upd_where bex_simps(7) using f by (auto intro!: bexI)
  moreover have "map du_id (upd_where P f rs) = map du_id rs" using f by (intro map_upd_where) simp
  moreover have "rule_row_ok (f r) = rule_row_ok r" "records v (f r) = records v r" for r v
    using f by (simp_all add: rule_row_ok_def records_def)
  ultimately show ?thesis using ok unfolding rule_tables_ok_def list_all_iff list_ex_iff set_upd_where by auto
qed

lemma active_touch_rules: "active_in (touch_rules env rs s) i \<longleftrightarrow> active_in s i"
  by (auto simp: active_in_def version_key_def touch_rules_def set_upd_where bex_simps(7) simp del: if_image_distrib split: if_split_asm)

lemma execute_quiet:
  assumes "execute env p s = (out, t)"
  shows "quiet s t"
proof (cases "scan_rules env s (next_id dx_id (dd_executions s)) (execution_rules p s) (execution_events p s) ([], 0, 0)")
  case (Inl e)
  with assms show ?thesis by (simp add: execute_def Let_def)
next
  case (Inr b)
  obtain rows m k where b: "b = (rows, m, k)" by (cases b)
  define u where "u = touch_rules env (execution_rules p s) s"
  have u: "dd_matches u = dd_matches s" "dd_versions u = dd_versions s"
    by (simp_all add: u_def touch_rules_def)
  have bounded: "list_all (\<lambda>x. dm_risk_tenths x \<le> 1000) rows"
    using scan_rules_bounded Inr b by fastforce
  from assms Inr b have t: "t = s \<or>
      distinct (map dm_fingerprint (dd_matches (add_matches rows u))) \<and> (\<exists>x. t = (add_matches rows u)\<lparr>dd_executions := x\<rparr>)"
    by (auto simp: execute_def Let_def u_def split: if_split_asm)
  have keeps: "rule_tables_ok (dd_rules s) (dd_versions s) \<Longrightarrow> rule_tables_ok (dd_rules u) (dd_versions s)"
    unfolding u_def touch_rules_def by (simp add: rules_ok_upd_where)
  have rows: "matches_ok (dd_matches s) \<Longrightarrow>
      distinct (map dm_fingerprint (with_rows rows (dd_matches s))) \<Longrightarrow> matches_ok (with_rows rows (dd_matches s))"
    using bounded by (simp add: matches_ok_def with_rows_distinct with_rows_bounded)
  have act: "active_in u i \<longleftrightarrow> active_in s i" for i by (simp add: u_def active_touch_rules)
  from t show ?thesis
  proof
    assume "distinct (map dm_fingerprint (dd_matches (add_matches rows u))) \<and>
      (\<exists>x. t = (add_matches rows u)\<lparr>dd_executions := x\<rparr>)"
    then obtain x where d: "distinct (map dm_fingerprint (with_rows rows (dd_matches s)))"
      and t: "dd_rules t = dd_rules u" "dd_versions t = dd_versions s" "dd_matches t = with_rows rows (dd_matches s)"
      using u by (auto simp: add_matches_rows)
    show ?thesis
      using keeps rows [OF _ d] act t by (simp add: quiet_def detect_ok_def active_in_def)
  qed simp
qed

lemma execute_endpoint_quiet:
  assumes "execute_endpoint env p s = (out, t)"
  shows "quiet s t"
  using assms unfolding execute_endpoint_def
proof (rule bind_limited_quiet, goal_cases)
  case (1 s1 x)
  obtain r u where e: "execute env p s1 = (r, u)" by (cases "execute env p s1")
  have "quiet s1 u" using e by (rule execute_quiet)
  with 1(2) e show ?case by (cases r) (auto simp: bind_action_def elim!: quiet_recorded [rotated])
qed

lemma create_suppression_quiet: "create_suppression env p s = (out, t) \<Longrightarrow> quiet s t"
  unfolding create_suppression_def
  by (auto simp: Let_def split: sum.splits elim!: quiet_recorded [rotated] intro!: quiet_fields)

lemma update_suppression_quiet: "update_suppression env i u s = (out, t) \<Longrightarrow> quiet s t"
  unfolding update_suppression_def
  by (auto split: sum.splits elim!: quiet_recorded [rotated] intro!: quiet_fields)

lemma delete_suppression_quiet: "delete_suppression env i s = (out, t) \<Longrightarrow> quiet s t"
  unfolding delete_suppression_def
  by (auto split: sum.splits elim!: quiet_recorded [rotated] intro!: quiet_fields)


section \<open>Activation\<close>

text \<open>What an activation has checked: the content validates, there are enabled tests and all of them pass.\<close>

definition activation_checked :: "detect_env \<Rightarrow> detect_db \<Rightarrow> detection_rule \<Rightarrow> bool" where
  "activation_checked env s r \<longleftrightarrow>
     (case validate (dn_fl env) (du_rule_content r) of Inl e \<Rightarrow> False | Inr v \<Rightarrow> vd_valid v) \<and>
     enabled_tests s (du_id r) \<noteq> [] \<and>
     list_all (\<lambda>c. case run_test env r c of Inl e \<Rightarrow> False | Inr t \<Rightarrow> tt_passed t) (enabled_tests s (du_id r))"

lemma all_results_list_all2: "all_results f xs = Inr ys \<Longrightarrow> list_all2 (\<lambda>x y. f x = Inr y) xs ys"
  by (induction xs arbitrary: ys) (auto simp: bind_result_Inr_iff)

lemma run_tests_passed:
  assumes "run_tests env s r = Inr ts" "su_passed ts"
  shows "enabled_tests s (du_id r) \<noteq> [] \<and>
     list_all (\<lambda>c. case run_test env r c of Inl e \<Rightarrow> False | Inr t \<Rightarrow> tt_passed t) (enabled_tests s (du_id r))"
proof -
  obtain ys where ys: "all_results (run_test env r) (enabled_tests s (du_id r)) = Inr ys"
      "ys \<noteq> []" "list_all tt_passed ys"
    using assms by (auto simp: run_tests_def bind_result_Inr_iff)
  from all_results_list_all2 [OF ys(1)] ys(2,3) show ?thesis
    by (auto simp: list_all2_conv_all_nth list_all_length)
qed

lemma activate_cases:
  assumes "activate env rid s = (out, t)"
  shows "t = s \<or> (\<exists>r \<in> set (dd_rules s). \<exists>q. du_id r = rid \<and> activation_checked env s r \<and>
    same_detection (put_rule (r\<lparr>du_lifecycle_status := ''active'', du_enabled := True,
      du_last_validated_at := Some (dn_now env), du_quality_score := q, du_updated_at := dn_now env\<rparr>) s) t)"
proof (cases "t = s")
  case False
  with assms obtain r v ts q where r: "detection_rule_or_404 s rid = Inr r" and v: "validate (dn_fl env) (du_rule_content r) = Inr v"
      "vd_valid v" and ts: "run_tests env s r = Inr ts" "su_passed ts"
    and t: "same_detection (put_rule (r\<lparr>du_lifecycle_status := ''active'', du_enabled := True,
      du_last_validated_at := Some (dn_now env), du_quality_score := q, du_updated_at := dn_now env\<rparr>) s) t"
    unfolding activate_def Let_def
    by (auto simp: bind_result_Inr_iff split: sum.splits if_split_asm dest!: recorded_same)
  have "activation_checked env s r" using v run_tests_passed [OF ts] by (simp add: activation_checked_def)
  with rule_or_404_InrD [OF r] t show ?thesis by blast
qed simp

lemma activate_keeps:
  assumes "activate env rid s = (out, t)"
  shows "prefix (dd_versions s) (dd_versions t)" "detect_ok s \<Longrightarrow> detect_ok t"
    "active_in t k \<Longrightarrow> active_in s k \<or> (\<exists>r \<in> set (dd_rules s). du_id r = rid \<and> version_key r = k \<and> activation_checked env s r)"
proof -
  note c = activate_cases [OF assms]
  show "prefix (dd_versions s) (dd_versions t)" using c by (auto simp: same_detection_fields)
  show "detect_ok t" if ok: "detect_ok s"
    using c
  proof (elim disjE bexE exE conjE)
    fix r q assume r: "r \<in> set (dd_rules s)"
      and t: "same_detection (put_rule (r\<lparr>du_lifecycle_status := ''active'', du_enabled := True,
        du_last_validated_at := Some (dn_now env), du_quality_score := q, du_updated_at := dn_now env\<rparr>) s) t"
    let ?x = "r\<lparr>du_lifecycle_status := ''active'', du_enabled := True,
        du_last_validated_at := Some (dn_now env), du_quality_score := q, du_updated_at := dn_now env\<rparr>"
    have "detect_ok (put_rule ?x s)"
      using rules_ok_touch [of "dd_rules s" "dd_versions s" r ?x] ok r by (simp add: detect_ok_def)
    then show ?thesis using t by (rule detect_ok_same)
  qed (use ok in simp)
  show "active_in s k \<or> (\<exists>r \<in> set (dd_rules s). du_id r = rid \<and> version_key r = k \<and> activation_checked env s r)"
    if a: "active_in t k"
    using c
  proof (elim disjE bexE exE conjE)
    fix r q assume r: "r \<in> set (dd_rules s)" "du_id r = rid" "activation_checked env s r"
      and t: "same_detection (put_rule (r\<lparr>du_lifecycle_status := ''active'', du_enabled := True,
        du_last_validated_at := Some (dn_now env), du_quality_score := q, du_updated_at := dn_now env\<rparr>) s) t"
    let ?x = "r\<lparr>du_lifecycle_status := ''active'', du_enabled := True,
        du_last_validated_at := Some (dn_now env), du_quality_score := q, du_updated_at := dn_now env\<rparr>"
    have "active_in (put_rule ?x s) k" using a same_detection_fields(2) [OF t] by (simp add: active_in_def)
    then obtain y where y: "y \<in> set (upd_row du_id rid (\<lambda>_. ?x) (dd_rules s))" "version_key y = k"
        "du_lifecycle_status y = ''active''" using r(2) by (auto simp: active_in_def)
    then have "y = ?x \<or> y \<in> set (dd_rules s)" using set_upd_row_const [of du_id rid ?x "dd_rules s"] by blast
    moreover have "version_key ?x = version_key r" by (simp add: version_key_def)
    ultimately show ?thesis using r y by (auto simp: active_in_def)
  qed (use a in simp)
qed


section \<open>The served system\<close>

lemma serve_quiet:
  assumes "\<forall>rid. dq_request c \<noteq> ActivateRule rid"
  shows "quiet s (serve_detection c s)"
proof -
  have eq: "\<And>a b. quiet s (snd p) \<longleftrightarrow> (\<forall>a b. p = (a, b) \<longrightarrow> quiet s b)" for p :: "'x result \<times> detect_db"
    by (metis prod.collapse snd_conv)
  show ?thesis
    using assms unfolding serve_detection_def Let_def
    by (cases "dq_request c")
      (simp_all add: eq create_rule_endpoint_quiet update_rule_quiet validate_rule_quiet set_lifecycle_quiet
        clone_quiet rollback_quiet create_test_quiet update_test_quiet delete_test_quiet run_tests_endpoint_quiet
        validate_import_quiet import_rules_quiet create_pack_quiet update_pack_quiet add_pack_rule_quiet
        remove_pack_rule_quiet execute_endpoint_quiet cancel_execution_quiet review_match_quiet
        create_alert_quiet create_suppression_quiet update_suppression_quiet delete_suppression_quiet)
qed

lemma serve_activation:
  "dq_request c = ActivateRule rid \<Longrightarrow> serve_detection c s = snd (activate (dq_env c) rid s)"
  by (simp add: serve_detection_def)

lemma serve_detect_ok: "detect_ok s \<Longrightarrow> detect_ok (serve_detection c s)"
proof (cases "\<exists>rid. dq_request c = ActivateRule rid")
  case True
  then show "detect_ok s \<Longrightarrow> detect_ok (serve_detection c s)"
    using activate_keeps(2) by (metis serve_activation prod.collapse)
next
  case False
  then show "detect_ok s \<Longrightarrow> detect_ok (serve_detection c s)"
    using serve_quiet [of c s] by (simp add: quiet_def)
qed

lemma serve_versions: "prefix (dd_versions s) (dd_versions (serve_detection c s))"
proof (cases "\<exists>rid. dq_request c = ActivateRule rid")
  case True
  then show ?thesis using activate_keeps(1) by (metis serve_activation prod.collapse)
next
  case False
  then show ?thesis using serve_quiet [of c s] by (simp add: quiet_def)
qed

interpretation detection_served: served_invariant detect_ok serve_detection "\<lambda>_. True"
  by unfold_locales (rule serve_detect_ok)

text \<open>A version that is active was active before, or the request is an activation that checked it.\<close>

definition activates :: "detect_call \<Rightarrow> detect_db \<Rightarrow> rule_version \<Rightarrow> bool" where
  "activates c s k \<longleftrightarrow> dq_request c = ActivateRule (fst k) \<and>
     list_ex (\<lambda>r. version_key r = k \<and> activation_checked (dq_env c) s r) (dd_rules s)"

lemma serve_active: "active_in (serve_detection c s) k \<Longrightarrow> active_in s k \<or> activates c s k"
  (is "?a \<Longrightarrow> ?thesis")
proof (cases "\<exists>rid. dq_request c = ActivateRule rid")
  case True
  then obtain rid where rid: "dq_request c = ActivateRule rid" by blast
  assume a: "active_in (serve_detection c s) k"
  obtain out t where t: "activate (dq_env c) rid s = (out, t)" by (cases "activate (dq_env c) rid s")
  then have "active_in t k" using a serve_activation [OF rid] by simp
  from activate_keeps(3) [OF t this] show ?thesis
    by (auto simp: activates_def rid list_ex_iff version_key_def)
next
  case False
  then show "?a \<Longrightarrow> ?thesis" using serve_quiet [of c s] unfolding quiet_def by blast
qed

end
