(* ===== verification/Detect_Scan.thy ===== *)
theory Detect_Scan
  imports Detect_Served
begin

text \<open>
  What a historical execution finds: its rows are those of the pairs of a rule and an event that
  match and have no match yet, in the order of the two loops.
\<close>

section \<open>Pairs\<close>

definition in_scope :: "detection_rule \<Rightarrow> bool" where
  "in_scope r \<longleftrightarrow> \<not> (truthy (du_source_module r) \<and> the (du_source_module r) \<notin> {''soc'', ''soc_monitor''})"

definition pair_verdict :: "detect_env \<Rightarrow> detection_rule \<Rightarrow> soc_event \<Rightarrow> (bool \<times> event_fields \<times> string list) result" where
  "pair_verdict env r e = evaluate_rule (dn_fl env) (du_normalized_condition r) (normalize_soc_event (dn_fl env) e)"

definition pair_matches :: "detect_env \<Rightarrow> detection_rule \<times> soc_event \<Rightarrow> bool" where
  "pair_matches env = (\<lambda>(r, e). in_scope r \<and>
     (case pair_verdict env r e of Inl _ \<Rightarrow> False | Inr (verdict, _) \<Rightarrow> verdict))"

definition known_match :: "detect_env \<Rightarrow> detect_db \<Rightarrow> detection_rule \<times> soc_event \<Rightarrow> detection_match option" where
  "known_match env s = (\<lambda>(r, e). find (\<lambda>m. dm_fingerprint m = match_fingerprint env r e) (dd_matches s))"

definition dismissed :: "detect_env \<Rightarrow> detect_db \<Rightarrow> detection_rule \<times> soc_event \<Rightarrow> bool" where
  "dismissed env s p \<longleftrightarrow> map_option dm_status (known_match env s p) = Some ''false_positive''"

definition fresh_pairs ::
    "detect_env \<Rightarrow> detect_db \<Rightarrow> (detection_rule \<times> soc_event) list \<Rightarrow> (detection_rule \<times> soc_event) list" where
  "fresh_pairs env s ps = filter (\<lambda>p. pair_matches env p \<and> known_match env s p = None) ps"

definition counted_pairs ::
    "detect_env \<Rightarrow> detect_db \<Rightarrow> (detection_rule \<times> soc_event) list \<Rightarrow> (detection_rule \<times> soc_event) list" where
  "counted_pairs env s ps = filter (\<lambda>p. pair_matches env p \<and> \<not> dismissed env s p) ps"

text \<open>What a match records of the pair it stands for.\<close>

definition match_pair :: "detection_match \<Rightarrow> nat \<times> nat \<times> nat \<times> string" where
  "match_pair m = (dm_rule_id m, dm_rule_version m, dm_source_entity_id m, dm_fingerprint m)"

definition pair_key :: "detect_env \<Rightarrow> detection_rule \<times> soc_event \<Rightarrow> nat \<times> nat \<times> nat \<times> string" where
  "pair_key env = (\<lambda>(r, e). (du_id r, du_current_version r, ev_id e, match_fingerprint env r e))"

lemma match_pair_new [simp]:
  "match_pair (new_match env xid r e event reported hit) = pair_key env (r, e)"
  by (simp add: match_pair_def pair_key_def new_match_def)

lemma match_pair_set_id [simp]: "match_pair (set_dm_id i m) = match_pair m"
  by (simp add: match_pair_def set_dm_id_def)

lemma with_rows_pairs: "map match_pair (with_rows rows ms) = map match_pair ms @ map match_pair rows"
  by (induction rows arbitrary: ms) (simp_all add: insert_row_def)

lemma pair_fingerprint: "map dm_fingerprint ms = map (\<lambda>m. snd (snd (snd (match_pair m)))) ms"
  by (simp add: match_pair_def)


section \<open>The loops\<close>

definition scans :: "detect_env \<Rightarrow> detect_db \<Rightarrow> (detection_rule \<times> soc_event) list \<Rightarrow> scan_state \<Rightarrow> scan_state \<Rightarrow> bool" where
  "scans env s ps st st' \<longleftrightarrow>
     map match_pair (fst st') = map match_pair (fst st) @ map (pair_key env) (fresh_pairs env s ps) \<and>
     fst (snd st') = fst (snd st) + length (counted_pairs env s ps)"

lemma scans_Nil: "scans env s [] st st"
  by (simp add: scans_def fresh_pairs_def counted_pairs_def)

lemma scans_append: "scans env s ps a b \<Longrightarrow> scans env s qs b c \<Longrightarrow> scans env s (ps @ qs) a c"
  by (simp add: scans_def fresh_pairs_def counted_pairs_def)

lemma scan_event_in_scope:
  assumes "in_scope r" "pair_verdict env r e = Inr (v, rep, names)"
  shows "scan_event env s xid r e (rows, m, k) =
     (if \<not> v then Inr (rows, m, k)
      else case known_match env s (r, e) of
             Some existing \<Rightarrow>
               if dm_status existing = ''false_positive'' then Inr (rows, m, k) else Inr (rows, m + 1, k)
           | None \<Rightarrow>
               (let hit = suppressed env s (du_id r) (normalize_soc_event (dn_fl env) e) \<noteq> None in
                Inr (rows @ [new_match env xid r e (normalize_soc_event (dn_fl env) e) rep hit], m + 1,
                     if hit then k + 1 else k)))"
proof -
  have sc: "(truthy (du_source_module r) \<and> the (du_source_module r) \<notin> {''soc'', ''soc_monitor''}) = False"
    using assms(1) by (simp add: in_scope_def)
  show ?thesis
    unfolding scan_event_def Let_def prod.case sc if_False assms(2) [unfolded pair_verdict_def] sum.case known_match_def ..
qed

lemma scan_event_out_of_scope: "\<not> in_scope r \<Longrightarrow> scan_event env s xid r e st = Inr st"
  unfolding scan_event_def Let_def in_scope_def by (cases st) simp

lemma scan_event_fails:
  "in_scope r \<Longrightarrow> pair_verdict env r e = Inl x \<Longrightarrow> scan_event env s xid r e st = Inl x"
  unfolding scan_event_def Let_def in_scope_def pair_verdict_def by (cases st) simp

lemma pair_verdict_cases:
  obtains x where "pair_verdict env r e = Inl x" | v rep names where "pair_verdict env r e = Inr (v, rep, names)"
  by (cases "pair_verdict env r e") auto

lemma scan_event_scans:
  assumes "scan_event env s xid r e st = Inr st'"
  shows "scans env s [(r, e)] st st'"
proof -
  obtain rows m k where st: "st = (rows, m, k)" by (cases st)
  show ?thesis
  proof (cases "in_scope r")
    case False
    then have "st' = st" using assms scan_event_out_of_scope by simp
    with False show ?thesis by (simp add: scans_def fresh_pairs_def counted_pairs_def pair_matches_def)
  next
    case True
    show ?thesis
    proof (cases rule: pair_verdict_cases [of env r e])
      case (1 x)
      with assms True show ?thesis by (simp add: scan_event_fails)
    next
      case (2 v rep names)
      note step = assms [unfolded st scan_event_in_scope [OF True 2]]
      have pm: "pair_matches env (r, e) \<longleftrightarrow> v" using True 2 by (simp add: pair_matches_def)
      show ?thesis
      proof (cases "known_match env s (r, e)")
        case None
        with step pm st show ?thesis
          by (cases v) (auto simp: scans_def fresh_pairs_def counted_pairs_def dismissed_def Let_def)
      next
        case (Some x)
        with step pm st show ?thesis
          by (cases v; cases "dm_status x = ''false_positive''")
            (auto simp: scans_def fresh_pairs_def counted_pairs_def dismissed_def)
      qed
    qed
  qed
qed

lemma scan_events_scans:
  "scan_events env s xid r es st = Inr st' \<Longrightarrow> scans env s (map (Pair r) es) st st'"
proof (induction es arbitrary: st)
  case (Cons e es)
  then obtain st1 where "scan_event env s xid r e st = Inr st1" "scan_events env s xid r es st1 = Inr st'"
    by (auto simp: bind_result_Inr_iff)
  from scans_append [OF scan_event_scans [OF this(1)] Cons.IH [OF this(2)]] show ?case by simp
qed (simp add: scans_Nil)

lemma scan_rules_scans:
  "scan_rules env s xid rs es st = Inr st' \<Longrightarrow> scans env s (List.product rs es) st st'"
proof (induction rs arbitrary: st)
  case (Cons r rs)
  then obtain st1 where "scan_events env s xid r es st = Inr st1" "scan_rules env s xid rs es st1 = Inr st'"
    by (auto simp: bind_result_Inr_iff)
  from scans_append [OF scan_events_scans [OF this(1)] Cons.IH [OF this(2)]] show ?case by simp
qed (simp add: scans_Nil)

text \<open>When every pair evaluates, the scan returns; when it raises, some evaluation did.\<close>

lemma scan_event_raises:
  assumes "scan_event env s xid r e st = Inl x"
  shows "in_scope r \<and> pair_verdict env r e = Inl x"
proof (cases rule: pair_verdict_cases [of env r e])
  case (1 y)
  with assms show ?thesis by (cases "in_scope r") (simp_all add: scan_event_fails scan_event_out_of_scope)
next
  case (2 v rep names)
  obtain rows m k where st: "st = (rows, m, k)" by (cases st)
  show ?thesis
  proof (cases "in_scope r")
    case True
    with assms [unfolded st scan_event_in_scope [OF True 2]] show ?thesis
      by (simp add: Let_def split: if_split_asm option.splits)
  qed (use assms scan_event_out_of_scope in simp)
qed

lemma scan_events_raises: "scan_events env s xid r es st = Inl x \<Longrightarrow> in_scope r \<and> (\<exists>e \<in> set es. pair_verdict env r e = Inl x)"
proof (induction es arbitrary: st)
  case (Cons e es)
  show ?case
  proof (cases "scan_event env s xid r e st")
    case (Inl a)
    with Cons.prems have "scan_event env s xid r e st = Inl x" by simp
    from scan_event_raises [OF this] show ?thesis by simp
  next
    case (Inr b)
    with Cons.prems have "scan_events env s xid r es b = Inl x" by simp
    from Cons.IH [OF this] show ?thesis by simp
  qed
qed simp

lemma scan_rules_raises:
  "scan_rules env s xid rs es st = Inl x \<Longrightarrow> \<exists>r \<in> set rs. in_scope r \<and> (\<exists>e \<in> set es. pair_verdict env r e = Inl x)"
proof (induction rs arbitrary: st)
  case (Cons r rs)
  show ?case
  proof (cases "scan_events env s xid r es st")
    case (Inl a)
    with Cons.prems have "scan_events env s xid r es st = Inl x" by simp
    from scan_events_raises [OF this] show ?thesis by auto
  next
    case (Inr b)
    with Cons.prems have "scan_rules env s xid rs es b = Inl x" by simp
    from Cons.IH [OF this] show ?thesis by simp
  qed
qed simp

text \<open>Every pair of a scan that returns has been evaluated.\<close>

lemma scan_events_evaluated:
  "scan_events env s xid r es st = Inr st' \<Longrightarrow> in_scope r \<Longrightarrow> e \<in> set es \<Longrightarrow> \<exists>v. pair_verdict env r e = Inr v"
proof (induction es arbitrary: st)
  case (Cons a es)
  then obtain st1 where st1: "scan_event env s xid r a st = Inr st1" "scan_events env s xid r es st1 = Inr st'"
    by (auto simp: bind_result_Inr_iff)
  show ?case
  proof (cases "e = a")
    case True
    show ?thesis
    proof (cases "pair_verdict env r e")
      case (Inl x)
      from scan_event_fails [OF Cons.prems(2) this] st1(1) True show ?thesis by simp
    qed blast
  next
    case False
    with Cons.IH [OF st1(2)] Cons.prems show ?thesis by simp
  qed
qed simp

lemma scan_rules_evaluated:
  "scan_rules env s xid rs es st = Inr st' \<Longrightarrow> r \<in> set rs \<Longrightarrow> in_scope r \<Longrightarrow> e \<in> set es \<Longrightarrow>
     \<exists>v. pair_verdict env r e = Inr v"
proof (induction rs arbitrary: st)
  case (Cons a rs)
  then obtain st1 where st1: "scan_events env s xid a es st = Inr st1" "scan_rules env s xid rs es st1 = Inr st'"
    by (auto simp: bind_result_Inr_iff)
  show ?case
  proof (cases "r = a")
    case True
    with scan_events_evaluated [OF st1(1)] Cons.prems show ?thesis by simp
  next
    case False
    with Cons.IH [OF st1(2)] Cons.prems show ?thesis by simp
  qed
qed simp


section \<open>Fingerprints\<close>

lemma digits_upto:
  assumes "list_all is_digit a" "list_all is_digit b" "a @ CHR '':'' # x = b @ CHR '':'' # y"
  shows "a = b \<and> x = y"
  using assms
proof (induction a arbitrary: b)
  case Nil
  then show ?case by (cases b) (auto simp: is_digit_def)
next
  case (Cons c a)
  then show ?case by (cases b) (auto simp: is_digit_def)
qed

lemma fingerprint_text_inj:
  assumes "str_nat i @ '':'' @ str_nat v @ '':soc:soc_event:'' @ str_nat e =
    str_nat i' @ '':'' @ str_nat v' @ '':soc:soc_event:'' @ str_nat e'"
  shows "i = i' \<and> v = v' \<and> e = e'"
proof -
  have d: "\<And>n. list_all is_digit (str_nat n)" using str_nat_digits by blast
  from digits_upto [OF d d, of i _ i'] assms
  have "str_nat i = str_nat i'" and
    r: "str_nat v @ CHR '':'' # ''soc:soc_event:'' @ str_nat e = str_nat v' @ CHR '':'' # ''soc:soc_event:'' @ str_nat e'"
    by simp_all
  moreover from digits_upto [OF d d r] have "str_nat v = str_nat v'" "str_nat e = str_nat e'" by simp_all
  ultimately show ?thesis using str_nat_inj by blast
qed

lemma match_fingerprint_inj:
  "inj (dn_sha env) \<Longrightarrow> match_fingerprint env r e = match_fingerprint env r' e' \<longleftrightarrow>
     du_id r = du_id r' \<and> du_current_version r = du_current_version r' \<and> ev_id e = ev_id e'"
  unfolding match_fingerprint_def inj_eq
  using fingerprint_text_inj [of "du_id r" "du_current_version r" "ev_id e" "du_id r'" "du_current_version r'" "ev_id e'"]
  by metis

lemma fresh_fingerprints:
  assumes "inj (dn_sha env)" "distinct (map du_id rs)" "distinct (map ev_id es)"
  shows "distinct (map (\<lambda>(r, e). match_fingerprint env r e) (fresh_pairs env s (List.product rs es)))"
    "(\<lambda>(r, e). match_fingerprint env r e) ` set (fresh_pairs env s (List.product rs es)) \<inter> dm_fingerprint ` set (dd_matches s) = {}"
proof -
  have "distinct rs" "distinct es" using assms(2,3) by (simp_all add: distinct_map)
  then have "distinct (List.product rs es)" by (rule distinct_product)
  moreover have "inj_on (\<lambda>(r, e). match_fingerprint env r e) (set (List.product rs es))"
    using assms(2,3) unfolding inj_on_def by (auto simp: match_fingerprint_inj [OF assms(1)] distinct_map inj_onD)
  ultimately show "distinct (map (\<lambda>(r, e). match_fingerprint env r e) (fresh_pairs env s (List.product rs es)))"
    unfolding fresh_pairs_def by (auto simp: distinct_map intro: inj_on_subset)
  show "(\<lambda>(r, e). match_fingerprint env r e) ` set (fresh_pairs env s (List.product rs es)) \<inter> dm_fingerprint ` set (dd_matches s) = {}"
    by (auto simp: fresh_pairs_def known_match_def find_None_iff)
qed


section \<open>Executions\<close>

definition execution_pairs :: "DetectionExecutionCreate \<Rightarrow> detect_db \<Rightarrow> (detection_rule \<times> soc_event) list" where
  "execution_pairs p s = List.product (execution_rules p s) (execution_events p s)"

lemma execute_InrD:
  assumes "execute env p s = (Inr x, t)"
  shows "map match_pair (dd_matches t) =
      map match_pair (dd_matches s) @ map (pair_key env) (fresh_pairs env s (execution_pairs p s))"
    "dx_matches_found x = length (counted_pairs env s (execution_pairs p s))"
    "dx_records_scanned x = length (execution_events p s)"
    "distinct (map dm_fingerprint (dd_matches t))"
    "dd_rules t = dd_rules (touch_rules env (execution_rules p s) s)" "dd_soc t = dd_soc s" "dd_entries t = dd_entries s"
proof -
  obtain rows m k where
    sc: "scan_rules env s (next_id dx_id (dd_executions s)) (execution_rules p s) (execution_events p s) ([], 0, 0)
           = Inr (rows, m, k)"
    using assms by (auto simp: execute_def Let_def split: sum.splits)
  note r = scan_rules_scans [OF sc, folded execution_pairs_def, unfolded scans_def]
  show "map match_pair (dd_matches t) =
      map match_pair (dd_matches s) @ map (pair_key env) (fresh_pairs env s (execution_pairs p s))"
    "dx_matches_found x = length (counted_pairs env s (execution_pairs p s))"
    "dx_records_scanned x = length (execution_events p s)"
    "distinct (map dm_fingerprint (dd_matches t))"
    "dd_rules t = dd_rules (touch_rules env (execution_rules p s) s)" "dd_soc t = dd_soc s" "dd_entries t = dd_entries s"
    using assms sc r
    by (auto simp: execute_def Let_def add_matches_rows with_rows_pairs touch_rules_def split: if_split_asm)
qed

lemma sorted_rules_distinct: "distinct (map du_id (dd_rules s)) \<Longrightarrow> distinct (map du_id (execution_rules p s))"
  unfolding execution_rules_def Let_def by (auto simp: distinct_map intro: inj_on_subset)

lemma execution_events_distinct:
  "distinct (map ev_id (soc_events (dd_soc s))) \<Longrightarrow> distinct (map ev_id (execution_events p s))"
  (is "_ \<Longrightarrow> ?thesis")
proof -
  assume d: "distinct (map ev_id (soc_events (dd_soc s)))"
  have *: "distinct (map ev_id (take n (sort_key f (sort_key g (filter P (soc_events (dd_soc s)))))))" for n f g P
    using d unfolding take_map [symmetric] by (intro distinct_take) (auto simp: distinct_map intro: inj_on_subset)
  show ?thesis unfolding execution_events_def by (simp only: * list.map distinct.simps split: if_split) simp
qed

lemma pair_fingerprints: "map dm_fingerprint ms = map (snd \<circ> snd \<circ> snd) (map match_pair ms)"
  by (simp add: match_pair_def)

lemma execute_returns:
  assumes "inj (dn_sha env)" "distinct (map du_id (dd_rules s))" "distinct (map ev_id (soc_events (dd_soc s)))"
    "distinct (map dm_fingerprint (dd_matches s))"
    and "execute env p s = (Inl x, t)"
  shows "t = s \<and> (\<exists>r \<in> set (execution_rules p s). in_scope r \<and>
    (\<exists>e \<in> set (execution_events p s). pair_verdict env r e = Inl x))"
proof -
  have t: "t = s" using assms(5) by (auto simp: execute_def Let_def split: sum.splits if_split_asm)
  show ?thesis
  proof (cases "scan_rules env s (next_id dx_id (dd_executions s)) (execution_rules p s) (execution_events p s) ([], 0, 0)")
    case (Inl y)
    with assms(5) scan_rules_raises [OF Inl] t show ?thesis by (auto simp: execute_def Let_def)
  next
    case (Inr b)
    obtain rows m k where b: "b = (rows, m, k)" by (cases b)
    note r = scan_rules_scans [OF Inr, folded execution_pairs_def, unfolded scans_def]
    let ?ps = "fresh_pairs env s (execution_pairs p s)"
    have "map match_pair (with_rows rows (dd_matches s)) = map match_pair (dd_matches s) @ map (pair_key env) ?ps"
      using r b by (simp add: with_rows_pairs)
    then have "map dm_fingerprint (with_rows rows (dd_matches s)) =
        map dm_fingerprint (dd_matches s) @ map (\<lambda>(r, e). match_fingerprint env r e) ?ps"
      unfolding pair_fingerprints by (simp add: pair_key_def case_prod_beta comp_def)
    moreover have "distinct \<dots>"
      using fresh_fingerprints [OF assms(1) sorted_rules_distinct [OF assms(2)] execution_events_distinct [OF assms(3)], of s p p]
        assms(4) unfolding distinct_append set_map execution_pairs_def by (simp add: Int_commute)
    ultimately have "distinct (map dm_fingerprint (with_rows rows (dd_matches s)))" by simp
    with Inr b assms(5) show ?thesis by (auto simp: execute_def Let_def add_matches_rows touch_rules_def)
  qed
qed

lemma execute_evaluated:
  assumes "execute env p s = (Inr x, t)" "r \<in> set (execution_rules p s)" "in_scope r" "e \<in> set (execution_events p s)"
  shows "\<exists>v. pair_verdict env r e = Inr v"
proof -
  obtain st where
    "scan_rules env s (next_id dx_id (dd_executions s)) (execution_rules p s) (execution_events p s) ([], 0, 0) = Inr st"
    using assms(1) by (auto simp: execute_def Let_def split: sum.splits)
  from scan_rules_evaluated [OF this assms(2-4)] show ?thesis .
qed


section \<open>Repeating an execution\<close>

text \<open>The rules an execution reads after another one are those it read before, but for two times.\<close>

lemma execution_rules_after:
  assumes "execute env p s = (Inr x, t)" "r' \<in> set (execution_rules p t)"
  shows "\<exists>r \<in> set (execution_rules p s). version_key r' = version_key r \<and> du_source_module r' = du_source_module r"
proof -
  have t: "dd_rules t = dd_rules (touch_rules env (execution_rules p s) s)" "dd_entries t = dd_entries s"
    using execute_InrD [OF assms(1)] by simp_all
  define ids where "ids = xc_rule_ids p @
    (case xc_pack_id p of None \<Rightarrow> [] | Some i \<Rightarrow> map de_rule_id (filter (\<lambda>e. de_pack_id e = i) (dd_entries s)))"
  have S: "r \<in> set (execution_rules p s) \<longleftrightarrow> r \<in> set (dd_rules s) \<and> du_id r \<in> set ids" for r
    unfolding execution_rules_def Let_def ids_def by auto
  have "r' \<in> set (dd_rules t)" "du_id r' \<in> set ids"
    using assms(2) unfolding execution_rules_def Let_def ids_def t(2) by auto
  then obtain r where r: "r \<in> set (dd_rules s)"
    "r' = (if du_id r \<in> set (map du_id (execution_rules p s))
           then r\<lparr>du_last_executed_at := Some (dn_now env), du_updated_at := dn_now env\<rparr> else r)"
    unfolding t(1) touch_rules_def by (auto simp: upd_where_def simp del: if_image_distrib)
  then have "version_key r' = version_key r" "du_source_module r' = du_source_module r" "du_id r' = du_id r"
    by (simp_all add: version_key_def)
  with r(1) \<open>du_id r' \<in> set ids\<close> S show ?thesis by metis
qed

text \<open>The texts of the environment that a verdict and a fingerprint depend on.\<close>

lemma pair_facts:
  assumes "version_key r' = version_key r" "du_source_module r' = du_source_module r"
    "dn_sha env' = dn_sha env" "dn_fl env' = dn_fl env"
  shows "in_scope r' = in_scope r" "pair_verdict env' r' e = pair_verdict env r e"
    "match_fingerprint env' r' e = match_fingerprint env r e"
  using assms by (simp_all add: version_key_def in_scope_def pair_verdict_def match_fingerprint_def)

lemma repeated_execution:
  assumes e: "execute env p s = (Inr x, t)" and env: "dn_sha env' = dn_sha env" "dn_fl env' = dn_fl env"
  shows "\<exists>x' t'. execute env' p t = (Inr x', t') \<and> dd_matches t' = dd_matches t"
proof -
  note D = execute_InrD [OF e]
  have ev: "execution_events p t = execution_events p s" using D(6) by (simp add: execution_events_def)
  have ok: "\<exists>v. pair_verdict env' r' a = Inr v" if "r' \<in> set (execution_rules p t)" "in_scope r'" "a \<in> set (execution_events p t)" for r' a
    using execution_rules_after [OF e that(1)] execute_evaluated [OF e] that(2,3) pair_facts [OF _ _ env] ev by metis
  have none: "fresh_pairs env' t (execution_pairs p t) = []"
  proof -
    have "known_match env' t (r', a) \<noteq> None"
      if r': "r' \<in> set (execution_rules p t)" and a: "a \<in> set (execution_events p t)" and m: "pair_matches env' (r', a)" for r' a
    proof -
      obtain r where r: "r \<in> set (execution_rules p s)" "version_key r' = version_key r" "du_source_module r' = du_source_module r"
        using execution_rules_after [OF e r'] by blast
      note f = pair_facts [OF r(2,3) env]
      have "pair_matches env (r, a)" using m f by (simp add: pair_matches_def)
      moreover have "(r, a) \<in> set (execution_pairs p s)" using r(1) a ev by (simp add: execution_pairs_def)
      ultimately have "known_match env s (r, a) \<noteq> None \<or> (r, a) \<in> set (fresh_pairs env s (execution_pairs p s))"
        by (auto simp: fresh_pairs_def)
      moreover have "snd (snd (snd (pair_key env (r, a)))) = match_fingerprint env r a" by (simp add: pair_key_def)
      ultimately have "match_fingerprint env r a \<in> set (map (snd \<circ> snd \<circ> snd) (map match_pair (dd_matches t)))"
        unfolding D(1) by (force simp: known_match_def find_None_iff match_pair_def)
      then show ?thesis using f(3) by (auto simp: known_match_def find_None_iff match_pair_def)
    qed
    then show ?thesis by (auto simp: fresh_pairs_def execution_pairs_def filter_empty_conv)
  qed
  obtain st where st: "scan_rules env' t (next_id dx_id (dd_executions t)) (execution_rules p t) (execution_events p t) ([], 0, 0) = Inr st"
  proof (cases "scan_rules env' t (next_id dx_id (dd_executions t)) (execution_rules p t) (execution_events p t) ([], 0, 0)")
    case (Inl y)
    from scan_rules_raises [OF this] ok show ?thesis by fastforce
  qed
  obtain rows m k where b: "st = (rows, m, k)" by (cases st)
  have "rows = []" using scan_rules_scans [OF st, folded execution_pairs_def] none b by (simp add: scans_def)
  with st b D(4) show ?thesis by (simp add: execute_def Let_def add_matches_rows touch_rules_def)
qed

end
