(* ===== verification/Detect_Safety.thy ===== *)
theory Detect_Safety
  imports Detect_Scan Access_Fixtures
begin

text \<open>
  The properties of detection engineering: only checked rules become active, the tables stay
  well-formed and history is only added to, executions find exactly the matching pairs and are
  repeatable, the parser accepts exactly the grammar, an accepted rule means the same wherever it is
  evaluated, and the limiter keeps its window. Each comes with a witness on a small installation.
\<close>

section \<open>A small installation\<close>

definition demo_fl :: float_texts where
  "demo_fl = \<lparr>fl_value = (\<lambda>_. NaN), fl_parse = (\<lambda>_. None)\<rparr>"

definition demo_detect_env :: detect_env where
  "demo_detect_env = \<lparr>dn_cx = demo_ctx 0, dn_fl = demo_fl, dn_uuid4 = ''uuid'', dn_monotonic = 0,
     dn_request = demo_request ''POST'' ''/rules'' ''t'', dn_user = demo_user 1 ''root'' Active True\<rparr>"

definition demo_content :: "(string \<times> pyvalue) list" where
  "demo_content =
     [(''title'', PStr ''Failed logins''), (''description'', PStr ''d''),
      (''selections'', PDict [(''sel'', PDict [(''event.outcome'', PStr ''failure'')])]),
      (''condition'', PStr ''sel'')]"

definition demo_form :: normalized_rule where
  "demo_form =
     \<lparr>nr_selections = [(''sel'', [\<lparr>tm_field = ''event.outcome'', tm_operator = ''iexact'', tm_value = PStr ''failure'',
                                   tm_all = False, tm_unsupported = False\<rparr>])],
      nr_condition = ''sel''\<rparr>"

definition demo_row :: detection_rule where
  "demo_row =
     \<lparr>du_id = 1, du_rule_uuid = ''uuid1'', du_title = ''Failed logins'', du_description = ''d'',
      du_rule_format = ''native'', du_lifecycle_status = ''testing'', du_severity = ''high'', du_confidence = 50,
      du_source_module = None, du_logsource_category = None, du_logsource_product = None,
      du_logsource_service = None, du_rule_content = demo_content, du_normalized_condition = demo_form,
      du_false_positive_guidance = None, du_tags = [], du_enabled = False, du_system_owned = False,
      du_current_version = 1, du_quality_score = 40, du_owner_user_id = Some 1, du_created_by_user_id = 1,
      du_created_at = 0, du_updated_at = 0, du_last_validated_at = None, du_last_executed_at = None\<rparr>"

definition demo_rule_version :: detection_rule_version where
  "demo_rule_version =
     \<lparr>dv_id = 1, dv_rule_id = 1, dv_version_number = 1, dv_change_summary = ''s'', dv_rule_content = demo_content,
      dv_normalized_condition = demo_form, dv_content_sha256 = ''h'', dv_created_by_user_id = 1, dv_created_at = 0\<rparr>"

definition demo_soc_event :: "nat \<Rightarrow> string \<Rightarrow> soc_event" where
  "demo_soc_event i outcome =
     \<lparr>ev_id = i, ev_source_id = 1, ev_import_id = None, ev_event_time = 0, ev_received_at = 0,
      ev_event_type = ''login'', ev_action = None, ev_outcome = Some outcome, ev_severity = ''low'',
      ev_source_ip = None, ev_destination_ip = None, ev_username = None, ev_http_method = None,
      ev_request_path = None, ev_status_code = None, ev_user_agent = None, ev_message = None,
      ev_normalized_json = [], ev_raw_event_hash = str_nat i, ev_raw_preview_redacted = None, ev_created_at = 0\<rparr>"

definition demo_test :: detection_test_case where
  "demo_test =
     \<lparr>dc_id = 1, dc_rule_id = 1, dc_name = ''t'', dc_description = None,
      dc_event_payload = [(''event.outcome'', PStr ''Failure'')], dc_expected_match = True,
      dc_expected_severity = None, dc_enabled = True, dc_created_by_user_id = 1, dc_created_at = 0, dc_updated_at = 0\<rparr>"

definition demo_state :: detect_db where
  "demo_state =
     \<lparr>dd_access = empty_db,
      dd_soc = empty_soc_db\<lparr>soc_events := [demo_soc_event 5 ''failure'', demo_soc_event 7 ''success'']\<rparr>,
      dd_rules = [demo_row], dd_versions = [demo_rule_version], dd_packs = [], dd_entries = [], dd_techniques = [],
      dd_links = [], dd_tests = [demo_test], dd_executions = [], dd_matches = [], dd_suppressions = [], dd_limits = []\<rparr>"

definition demo_scope :: DetectionExecutionCreate where
  "demo_scope = \<lparr>xc_rule_ids = [1], xc_pack_id = None, xc_source_modules = [''soc''], xc_start_at = None,
     xc_end_at = None, xc_maximum_records = 100, xc_include_previously_matched = False, xc_dry_run = False\<rparr>"

lemmas demo_detect_defs = demo_fl_def demo_detect_env_def demo_content_def demo_form_def demo_row_def demo_rule_version_def
  demo_soc_event_def demo_test_def demo_state_def demo_scope_def

lemma demo_parse: "parse_condition ''sel'' [''sel''] = Inr (Selection ''sel'')"
  by code_simp

lemma demo_normal: "normalize_rule demo_fl demo_content = Inr demo_form"
proof -
  have "normalize_selections 0 0 [(''sel'', PDict [(''event.outcome'', PStr ''failure'')])] = Inr (nr_selections demo_form)"
    by code_simp
  moreover have "strip (py_str (PStr ''sel'')) = ''sel''" by code_simp
  ultimately show ?thesis
    by (simp add: normalize_rule_def demo_content_def dict_get_def py_or_def as_dict_def demo_parse demo_form_def Let_def
        del: normalize_selections.simps)
qed

lemma demo_stored: "stored_rule demo_form = demo_form"
  by code_simp

lemma demo_match:
  "match_value demo_fl (PStr ''failure'') ''iexact'' (PStr ''failure'') = Inr True"
  "match_value demo_fl (PStr ''Failure'') ''iexact'' (PStr ''failure'') = Inr True"
  "match_value demo_fl (PStr ''success'') ''iexact'' (PStr ''failure'') = Inr False"
  by code_simp+

lemma demo_outcome:
  "match_value demo_fl (dict_get event ''event.outcome'') ''iexact'' (PStr ''failure'') = Inr b \<Longrightarrow>
     evaluate_rule demo_fl demo_form event =
       Inr (b, if b then [(''event.outcome'', dict_get event ''event.outcome'')] else [], if b then [''sel''] else [])"
  by (simp add: evaluate_rule_def demo_form_def term_outcome_def as_list_def demo_parse outcome_of_def)

lemma demo_verdicts:
  "pair_verdict demo_detect_env demo_row (demo_soc_event 5 ''failure'') = Inr (True, [(''event.outcome'', PStr ''failure'')], [''sel''])"
  "pair_verdict demo_detect_env demo_row (demo_soc_event 7 ''success'') = Inr (False, [], [])"
proof -
  have "dict_get (normalize_soc_event demo_fl (demo_soc_event i ''failure'')) ''event.outcome'' = PStr ''failure''"
    "dict_get (normalize_soc_event demo_fl (demo_soc_event i ''success'')) ''event.outcome'' = PStr ''success''" for i
    by (simp_all add: normalize_soc_event_def demo_soc_event_def dict_get_def limited_def Let_def)
  then show "pair_verdict demo_detect_env demo_row (demo_soc_event 5 ''failure'') = Inr (True, [(''event.outcome'', PStr ''failure'')], [''sel''])"
    "pair_verdict demo_detect_env demo_row (demo_soc_event 7 ''success'') = Inr (False, [], [])"
    by (simp_all add: pair_verdict_def demo_detect_env_def demo_row_def demo_outcome [of _ True] demo_outcome [of _ False] demo_match)
qed

lemma demo_detect_ok: "detect_ok demo_state"
proof -
  have "accepted_form demo_form" using normalize_rule_ok [OF demo_normal] demo_stored by (metis accepted_form_def)
  then show ?thesis
    by (simp add: detect_ok_def rule_tables_ok_def matches_ok_def rule_row_ok_def version_row_ok_def records_def
        demo_state_def demo_row_def demo_rule_version_def)
qed

lemma demo_versions: "dd_versions demo_state = [demo_rule_version]"
  by (simp add: demo_state_def)

lemma demo_inj: "inj (dn_sha demo_detect_env)"
  by (simp add: dn_sha_def demo_detect_env_def demo_ctx_def demo_crypto_def)

lemma demo_events: "distinct (map ev_id (soc_events (dd_soc demo_state)))"
  by (simp add: demo_state_def demo_soc_event_def)

lemma demo_serializable: "serializable (rule_dict demo_form)"
  by code_simp

lemma demo_checked: "activation_checked demo_detect_env demo_state demo_row"
proof -
  define event where "event = map (\<lambda>f. (f, if f = ''event.outcome'' then PStr ''Failure'' else PNone)) ALLOWED_FIELDS"
  have "fold (\<lambda>(k, v) event. if canonical_field k \<in> set ALLOWED_FIELDS then dict_put event (canonical_field k) v else event)
      [(''event.outcome'', PStr ''Failure'')] (map (\<lambda>f. (f, PNone)) ALLOWED_FIELDS) = event"
    unfolding event_def by code_simp
  moreover have "length (ascii_string ''event.outcome'') = 15" "length (ascii_string ''Failure'') = 9" by code_simp+
  ultimately have "synthetic_event [(''event.outcome'', PStr ''Failure'')] = Inr event"
    by (simp add: synthetic_event_def json_dumps_def nested_depth_ok.simps)
  moreover have "dict_get event ''event.outcome'' = PStr ''Failure''" unfolding event_def by code_simp
  ultimately have "run_test demo_detect_env demo_row demo_test =
      Inr \<lparr>tt_id = 1, tt_name = ''t'', tt_passed = True, tt_actual_match = Some True,
           tt_matched_fields = [(''event.outcome'', PStr ''Failure'')], tt_matched_selections = [''sel''], tt_error = None\<rparr>"
    by (simp add: run_test_def demo_detect_env_def demo_row_def demo_test_def demo_outcome demo_match truthy_def)
  moreover have "enabled_tests demo_state 1 = [demo_test]" by (simp add: enabled_tests_def demo_state_def demo_test_def)
  moreover have "\<exists>v. validate demo_fl demo_content = Inr v \<and> vd_valid v" 
    by (simp add: validate_def demo_normal demo_serializable)
  ultimately show ?thesis by (auto simp: activation_checked_def demo_detect_env_def demo_row_def)
qed

text \<open>Activating the rule of the installation makes its version active.\<close>

lemma demo_activates:
  "activates \<lparr>dq_env = demo_detect_env, dq_request = ActivateRule 1\<rparr> demo_state (version_key demo_row)"
  using demo_checked by (simp add: activates_def version_key_def demo_state_def demo_row_def)


section \<open>Rules and their versions\<close>

text \<open>C13. Only checked rules are active: whatever requests were served, a version of a rule that is
  active was active at the start, or an activation of that rule among the requests found, in the state
  it ran in, that this very version validates, that the rule has enabled tests and that all of them
  pass on this version. No edit, import, rollback or clone can put another content into an active rule.\<close>

theorem active_rules_were_checked:
  "{k. active_in (fold serve_detection cs s) k} \<subseteq>
     {k. active_in s k} \<union>
     {k. \<exists>before c after. cs = before @ c # after \<and> activates c (fold serve_detection before s) k}"
proof (induction cs rule: rev_induct)
  case (snoc c cs)
  show ?case
  proof (rule subsetI)
    fix k assume "k \<in> {k. active_in (fold serve_detection (cs @ [c]) s) k}"
    then have "active_in (fold serve_detection cs s) k \<or> activates c (fold serve_detection cs s) k"
      using serve_active by simp
    then consider "active_in s k"
      | before d after where "cs = before @ d # after" "activates d (fold serve_detection before s) k"
      | "activates c (fold serve_detection cs s) k"
      using snoc by blast
    then show "k \<in> {k. active_in s k} \<union>
      {k. \<exists>before d after. cs @ [c] = before @ d # after \<and> activates d (fold serve_detection before s) k}"
    proof cases
      case (2 before d after)
      then have "cs @ [c] = before @ d # (after @ [c])" by simp
      with 2(2) show ?thesis by blast
    qed auto
  qed
qed auto

text \<open>C15. The tables of detection engineering stay well-formed over any sequence of requests: a rule is
  enabled exactly when it is active, every rule evaluates the stored form of a rule the validator
  accepted, its current version records exactly its content, versions are numbered uniquely, and
  matches have distinct identifiers and fingerprints and scores of at most 100.0. Versions are only ever
  added, never changed or removed.\<close>

theorem detection_tables_well_formed:
  assumes "detect_ok s"
  shows "detect_ok (fold serve_detection cs s) \<and> prefix (dd_versions s) (dd_versions (fold serve_detection cs s))"
proof
  show "detect_ok (fold serve_detection cs s)"
    using detection_served.sequence_keeps [OF assms, of cs] by (simp add: list_all_iff)
  show "prefix (dd_versions s) (dd_versions (fold serve_detection cs s))"
    by (induction cs arbitrary: s) (auto intro: serve_versions prefix_order.trans)
qed

theorem detection_tables_well_formed_witness:
  "detect_ok (fold serve_detection [\<lparr>dq_env = demo_detect_env, dq_request = ActivateRule 1\<rparr>,
     \<lparr>dq_env = demo_detect_env, dq_request = Execute demo_scope\<rparr>, \<lparr>dq_env = demo_detect_env, dq_request = RollbackRule 1 1 ''back''\<rparr>] demo_state) \<and>
   prefix [demo_rule_version] (dd_versions (fold serve_detection [\<lparr>dq_env = demo_detect_env, dq_request = ActivateRule 1\<rparr>,
     \<lparr>dq_env = demo_detect_env, dq_request = Execute demo_scope\<rparr>, \<lparr>dq_env = demo_detect_env, dq_request = RollbackRule 1 1 ''back''\<rparr>] demo_state))"
  using detection_tables_well_formed [OF demo_detect_ok, unfolded demo_versions] by blast


section \<open>Executions\<close>

text \<open>C14. A historical execution finds exactly the matching pairs: it adds, in order, one match for each
  pair of a selected rule and a stored event on which the rule evaluates to true and that has no match
  yet, counts the matching pairs that were not dismissed as false positives, and reports every event it
  read. It can only fail with the overflow of a number no double holds, and then changes nothing.\<close>

theorem execution_exact:
  assumes "detect_ok s" "inj (dn_sha env)" "distinct (map ev_id (soc_events (dd_soc s)))"
  shows "case execute env p s of
      (Inl e, t) \<Rightarrow> t = s \<and> (\<exists>m. e = OverflowError m)
    | (Inr x, t) \<Rightarrow>
        map match_pair (dd_matches t) =
          map match_pair (dd_matches s) @ map (pair_key env) (fresh_pairs env s (execution_pairs p s)) \<and>
        dx_matches_found x = length (counted_pairs env s (execution_pairs p s)) \<and>
        dx_records_scanned x = length (execution_events p s)"
proof -
  have ids: "distinct (map du_id (dd_rules s))" "distinct (map dm_fingerprint (dd_matches s))"
    using assms(1) by (auto simp: detect_ok_def rule_tables_ok_def matches_ok_def)
  have acc: "accepted_form (du_normalized_condition r)" if "r \<in> set (execution_rules p s)" for r
    using assms(1) that
    by (auto simp: detect_ok_def rule_tables_ok_def rule_row_ok_def list_all_iff execution_rules_def Let_def)
  obtain out t where e: "execute env p s = (out, t)" by (cases "execute env p s")
  show ?thesis
  proof (cases out)
    case (Inl x)
    with e have "execute env p s = (Inl x, t)" by simp
    from execute_returns [OF assms(2) ids(1) assms(3) ids(2) this] obtain r a where
      r: "t = s" "r \<in> set (execution_rules p s)" "pair_verdict env r a = Inl x" by blast
    obtain m where "bounded_rule m" "du_normalized_condition r = stored_rule m"
      using acc [OF r(2)] by (auto simp: accepted_form_def)
    with r stored_rule_raises show ?thesis unfolding e Inl by (simp add: pair_verdict_def)
  next
    case (Inr x)
    with e have "execute env p s = (Inr x, t)" by simp
    from execute_InrD(1-3) [OF this] show ?thesis unfolding e Inr by simp
  qed
qed

lemma demo_pairs:
  "execution_pairs demo_scope demo_state = [(demo_row, demo_soc_event 5 ''failure''), (demo_row, demo_soc_event 7 ''success'')]"
  by (simp add: execution_pairs_def execution_rules_def execution_events_def demo_state_def demo_scope_def
      demo_soc_event_def demo_row_def)

lemma demo_execution: "\<exists>x t. execute demo_detect_env demo_scope demo_state = (Inr x, t)"
proof (cases "execute demo_detect_env demo_scope demo_state")
  case (Pair out t)
  show ?thesis
  proof (cases out)
    case (Inl e)
    have "distinct (map du_id (dd_rules demo_state))" "distinct (map dm_fingerprint (dd_matches demo_state))"
      by (simp_all add: demo_state_def)
    from execute_returns [OF demo_inj this(1) demo_events this(2), of demo_scope e t] Pair Inl
    have "\<exists>(r, a) \<in> set (execution_pairs demo_scope demo_state). pair_verdict demo_detect_env r a = Inl e"
      by (auto simp: execution_pairs_def)
    then show ?thesis by (simp add: demo_pairs demo_verdicts)
  qed (use Pair in simp)
qed

text \<open>Of the two events of the installation the failed login is found.\<close>

lemma demo_fresh:
  "fresh_pairs demo_detect_env demo_state (execution_pairs demo_scope demo_state) = [(demo_row, demo_soc_event 5 ''failure'')]"
proof -
  have "in_scope demo_row" by (simp add: in_scope_def demo_row_def truthy_def)
  then show ?thesis
    unfolding demo_pairs by (simp add: fresh_pairs_def pair_matches_def demo_verdicts known_match_def demo_state_def)
qed

theorem execution_exact_witness:
  "\<exists>x t. execute demo_detect_env demo_scope demo_state = (Inr x, t) \<and>
     map match_pair (dd_matches t) = [pair_key demo_detect_env (demo_row, demo_soc_event 5 ''failure'')] \<and> dx_records_scanned x = 2"
proof -
  obtain x t where e: "execute demo_detect_env demo_scope demo_state = (Inr x, t)" using demo_execution by blast
  have "map match_pair (dd_matches t) = [pair_key demo_detect_env (demo_row, demo_soc_event 5 ''failure'')] \<and> dx_records_scanned x = 2"
    using execution_exact [OF demo_detect_ok demo_inj demo_events, of demo_scope]
    unfolding e demo_fresh by (simp add: execution_events_def demo_scope_def demo_state_def)
  with e show ?thesis by (intro exI [of _ x] exI [of _ t]) simp
qed

text \<open>C37. Executions are repeatable: an execution that has completed can be run again with the same
  scope, by anyone and at any later time, and then completes without adding or changing a match.\<close>

theorem execution_repeatable:
  assumes "execute env p s = (Inr x, t)" "dn_sha env' = dn_sha env" "dn_fl env' = dn_fl env"
  shows "\<exists>x' t'. execute env' p t = (Inr x', t') \<and> dd_matches t' = dd_matches t"
  by (rule repeated_execution [OF assms])

theorem execution_repeatable_witness:
  "\<exists>x t x' t'. execute demo_detect_env demo_scope demo_state = (Inr x, t) \<and> execute demo_detect_env demo_scope t = (Inr x', t') \<and>
     dd_matches t' = dd_matches t \<and> length (dd_matches t') = 1"
proof -
  obtain x t where e: "execute demo_detect_env demo_scope demo_state = (Inr x, t)" using demo_execution by blast
  obtain x' t' where r: "execute demo_detect_env demo_scope t = (Inr x', t')" "dd_matches t' = dd_matches t"
    using execution_repeatable [OF e] by blast
  have "length (dd_matches t) = length (map match_pair (dd_matches t))" by simp
  also have "\<dots> = 1" using execute_InrD(1) [OF e] unfolding demo_fresh by (simp add: demo_state_def)
  finally show ?thesis using e r by fastforce
qed


section \<open>Conditions\<close>

text \<open>C16. The condition parser accepts exactly the grammar: a condition is parsed to a tree exactly when
  its tokens cover its text and the grammar of the language (disjunction over conjunction over
  negation, brackets, quantified patterns, selection names, within the depth limit) derives the tree
  from its tokens.\<close>

theorem parse_condition_exact:
  "parse_condition condition names = Inr tree \<longleftrightarrow>
     casefold (concat (condition_tokens condition)) = casefold (filter (\<lambda>c. \<not> py_isspace c) condition) \<and>
     disjunction_of names 0 tree (condition_tokens condition)"
  by (auto simp: parse_condition_def Let_def parse_tokens_iff)

text \<open>
  A selection name that a condition can mention: one that does not begin with a word of the language
  and a hyphen. The scanner reads such a name as one token. It ends a keyword before a hyphen, so
  \<open>or-x\<close>, which the normaliser accepts as a name, is read as \<open>or\<close> and \<open>x\<close>, and no condition can
  refer to that selection.
\<close>

definition readable_name :: "string \<Rightarrow> bool" where
  "readable_name t \<longleftrightarrow>
     selection_name t \<and> list_all (\<lambda>k. \<not> startswith (casefold t) (k @ ''-'')) connective_words"

lemma readable_single:
  assumes r: "readable_name t"
  shows "single_token t"
proof -
  from r obtain c cs where t: "t = c # cs" "letter c"
      "list_all (\<lambda>c. is_alnum c \<or> c = CHR ''_'' \<or> c = CHR ''-'') cs"
    by (cases t) (auto simp: readable_name_def selection_name_def)
  have c: "c \<noteq> CHR ''(''" "c \<noteq> CHR '')''" "\<not> is_digit c" "is_alnum c"
    using t(2) by (auto simp: letter_def is_alnum_def is_upper_def is_lower_def is_digit_def Let_def)
  have whole: "takeWhile ident_char t = t"
    using t c(4) by (auto simp: takeWhile_eq_all_conv ident_char_def list_all_iff)
  have ends: "length k = length t" if k: "k \<in> set connective_words" "casefold (take (length k) t) = k"
      "case drop (length k) t of [] \<Rightarrow> True | d # _ \<Rightarrow> \<not> is_word d" for k
  proof (cases "drop (length k) t")
    case Nil
    moreover have "length k \<le> length t" using k(2) by (metis length_casefold length_take min.cobounded2 min.commute)
    ultimately show ?thesis by simp
  next
    case (Cons d ds)
    then have "d \<in> set t" by (metis in_set_dropD list.set_intros(1))
    with t c(4) k(3) Cons have "d = CHR ''-''" by (auto simp: is_word_def list_all_iff)
    with Cons k(2) have "casefold t = k @ lower_char CHR ''-'' # casefold ds"
      by (metis append_take_drop_id casefold_def list.simps(9) map_append)
    moreover have "lower_char CHR ''-'' = CHR ''-''" by code_simp
    ultimately have "startswith (casefold t) (k @ ''-'')" by (simp add: startswith_def)
    with r k(1) show ?thesis by (auto simp: readable_name_def list_all_iff)
  qed
  have "keyword_length None t = 0 \<or> keyword_length None t = length t"
    using ends by (auto simp: keyword_length_def split: option.split dest!: find_SomeD)
  then have "match_length None t = length t" using t c whole by (auto simp: match_length_def)
  then have "tokens_from None t = [t]"
    using t by (subst tokens_from.simps) (simp add: tokens_from.simps [of _ "[]"])
  then show ?thesis by (simp add: single_token_def condition_tokens_def)
qed

lemma hyphen_name_unreadable:
  "selection_name ''or-x''" "condition_tokens ''or-x'' = [''or'', ''x'']"
  "parse_condition ''or-x'' [''or-x''] \<noteq> Inr tree"
  by code_simp+

text \<open>C38. Printing and parsing a condition is a round trip: the text of a tree of negations,
  conjunctions, disjunctions and known selection names, with the brackets its shape needs and within
  the depth limit, is parsed back to the tree, where every selection has a name of the normaliser's
  pattern that does not begin with a word of the language and a hyphen, and no selection in the
  tree is named \<open>not\<close>.\<close>

theorem condition_roundtrip:
  assumes "printable names 0 0 n" "list_all readable_name names"
  shows "parse_condition (condition_text n) names = Inr n"
  using assms(2) by (intro condition_text_parses [OF assms(1)]) (auto simp: list_all_iff readable_single)

theorem condition_roundtrip_witness:
  "parse_condition ''a and ( b-2 or not c )'' [''a'', ''b-2'', ''c''] =
     Inr (And (Selection ''a'') (Or (Selection ''b-2'') (Not (Selection ''c''))))"
proof -
  let ?n = "And (Selection ''a'') (Or (Selection ''b-2'') (Not (Selection ''c'')))"
  have "printable [''a'', ''b-2'', ''c''] 0 0 ?n" "list_all readable_name [''a'', ''b-2'', ''c'']"
    "condition_text ?n = ''a and ( b-2 or not c )''"
    by code_simp+
  with condition_roundtrip [of "[''a'', ''b-2'', ''c'']" ?n] show ?thesis by simp
qed


section \<open>Evaluation\<close>

text \<open>C39. A rule the normaliser accepts is bounded, and evaluating it, as stored, raises nothing but the
  overflow of a number no double holds: it has 1 to 32 selections, each of one or more terms and
  named by a letter followed by letters, digits, underscores and hyphens, at most 64 characters; at
  most 128 terms, each over a known field and operator or marked as unsupported; at most 20 wildcards
  in the supported terms; and a non-empty condition of at most 500 characters that parses.\<close>

theorem accepted_rule_bounded:
  assumes "normalize_rule fl content = Inr n"
  shows "nr_selections n \<noteq> [] \<and> length (nr_selections n) \<le> 32 \<and>
      list_all (\<lambda>(name, ts). selection_name name \<and> ts \<noteq> []) (nr_selections n) \<and>
      length (rule_terms n) \<le> 128 \<and>
      list_all term_ok (rule_terms n) \<and> sum_list (map term_wildcards (rule_terms n)) \<le> 20 \<and>
      nr_condition n \<noteq> [] \<and> length (nr_condition n) \<le> 500 \<and>
      (\<exists>tree. parse_condition (nr_condition n) (map fst (nr_selections n)) = Inr tree) \<and>
      (\<forall>event e. evaluate_rule fl (stored_rule n) event = Inl e \<longrightarrow> (\<exists>m. e = OverflowError m))"
  using normalize_rule_ok [OF assms] stored_rule_raises [of n]
  by (simp add: bounded_rule_def FIELD_LIMIT_def WILDCARD_LIMIT_def)

theorem accepted_rule_bounded_witness:
  "length (nr_selections demo_form) \<le> 32 \<and> length (rule_terms demo_form) \<le> 128 \<and>
   map fst (nr_selections demo_form) = [''sel''] \<and> selection_name ''sel''"
  using accepted_rule_bounded [OF demo_normal] by (simp add: demo_form_def)

text \<open>C17. An accepted rule means what its condition says. Take a rule the normaliser accepted, whose
  selection names are distinct (they are the keys of a dictionary) and whose numbers fit a double,
  and an event whose numbers fit one: the evaluation returns the truth of the condition's tree over
  the selections that hold on the event, with the fields of the terms that hold and the names of
  those selections. If moreover no value of the rule is a dictionary, the rule read back from the
  database, which stores dictionaries with their keys sorted, gives the same verdict, fields and names.\<close>

theorem rule_verdict_meaning:
  assumes "normalize_rule fl content = Inr n" "distinct (map fst (nr_selections n))"
    and "rule_fits n" "event_fits event"
  shows "\<exists>tree matched.
    parse_condition (nr_condition n) (map fst (nr_selections n)) = Inr tree \<and>
    evaluate_rule fl n event = Inr (satisfies (holding fl event n) tree, matched, holding_names fl event n) \<and>
    map_of matched = (if satisfies (holding fl event n) tree then reported_fields fl event Map.empty (rule_terms n) else Map.empty) \<and>
    (plain_rule n \<longrightarrow> (\<exists>stored.
       evaluate_rule fl (stored_rule n) event = Inr (satisfies (holding fl event n) tree, stored, holding_names fl event n) \<and>
       map_of stored = map_of matched))"
proof -
  have ok: "bounded_rule n" using assms(1) by (rule normalize_rule_ok)
  obtain verdict matched names where e: "evaluate_rule fl n event = Inr (verdict, matched, names)"
    using evaluate_rule_returns [OF ok fits_evaluable [OF assms(3,4)]] by (metis prod_cases3)
  from evaluate_rule_meaning [OF e assms(2)] obtain tree where
    t: "parse_condition (nr_condition n) (map fst (nr_selections n)) = Inr tree"
      "verdict = satisfies (holding fl event n) tree"
      "map_of matched = (if verdict then reported_fields fl event Map.empty (rule_terms n) else Map.empty)"
      "names = holding_names fl event n" .
  have "\<exists>stored. evaluate_rule fl (stored_rule n) event = Inr (verdict, stored, names) \<and>
      map_of stored = map_of matched" if "plain_rule n"
    using evaluate_stored_rule [OF e assms(2) that] by blast
  with e t show ?thesis by (intro exI [of _ tree] exI [of _ matched]) simp
qed

theorem rule_verdict_meaning_witness:
  "\<exists>matched stored.
     evaluate_rule demo_fl demo_form [(''event.outcome'', PStr ''failure'')] = Inr (True, matched, [''sel'']) \<and>
     evaluate_rule demo_fl (stored_rule demo_form) [(''event.outcome'', PStr ''failure'')] = Inr (True, stored, [''sel''])"
proof -
  have p: "plain_rule demo_form" "distinct (map fst (nr_selections demo_form))" "rule_fits demo_form"
    "event_fits [(''event.outcome'', PStr ''failure'')]"
    by (simp_all add: plain_rule_def rule_terms_def demo_form_def rule_fits_def term_fits_def fits_double_def
        event_fits_def as_list_def)
  from rule_verdict_meaning [OF demo_normal p(2-4)] p(1) show ?thesis
    by (auto simp: demo_outcome [of _ True] dict_get_def demo_match)
qed


section \<open>The limiter\<close>

text \<open>C40. The limiter of the endpoints keeps its window: whatever requests of whatever users and kinds
  arrive, and however many are refused, no user has more requests of one kind let through in any
  sixty seconds than the limit of that kind.\<close>

theorem rate_window_bounded:
  assumes "sorted (map lc_instant cs)"
    and "list_all (\<lambda>c. lc_user c = uid \<and> lc_key c = key \<longrightarrow> lc_limit c = limit) cs"
  shows "length (window t (granted uid key cs [])) \<le> limit"
proof (cases cs)
  case (Cons c cs')
  have "bucket_inv limit [] (bucket_of [] (uid, key)) (lc_instant c)"
    by (simp add: bucket_inv_def bucket_of_def window_def)
  from granted_window [OF this, of cs t] assms Cons show ?thesis by simp
qed (simp add: window_def)

theorem rate_window_bounded_witness:
  "length (window (seconds 60) (granted 1 ''execution''
     (map (\<lambda>i. \<lparr>lc_user = 1, lc_key = ''execution'', lc_limit = 2, lc_instant = seconds (int i)\<rparr>) [0..<4]) [])) \<le> 2"
  by (rule rate_window_bounded) (simp_all add: upt_rec seconds_def)

end
