(* ===== verification/Spec2Isabelle.thy ===== *)
theory Spec2Isabelle
  imports Admin_Safety Audit_Router Production_Config Soar_Safety Soc_Ingest Detect_Safety
begin

text \<open>
  Verification of ThreatScope XDR, a security platform written in Python (FastAPI, SQLAlchemy,
  pydantic). Source paths are relative to \<open>src/backend/app/\<close>.

  \<^bold>\<open>The program.\<close> A web application serves a set of modules over one database. The module
  \<open>access_control\<close> owns accounts, sessions, roles, second factors and the audit log, and its
  dependencies guard every request to the other modules. The module \<open>production\<close> loads and
  validates the configuration and the secrets the others read. The SOC monitor ingests logs as
  normalised events and correlates them into alerts. Detection engineering keeps versioned rules in a
  small condition language, tests and activates them, and scans the stored events with them. The SOAR module validates playbooks, graphs of
  steps whose branches are conditions over data, and executes them: a run stops for approvals,
  analyst input and delays, dispatches actions of a fixed catalog, among them actions on accounts
  and sessions of \<open>access_control\<close>, and can be retried or rolled back. An endpoint works in one
  database transaction.

  \<^bold>\<open>How the code is modelled.\<close>

  \<^item> An ORM class is a \<open>record\<close>, a table the list of its rows in the order of insertion, the
    database a record of tables (\<open>db\<close> in \<open>Access_Store\<close>, \<open>soc_db\<close> in \<open>Soc_Store\<close>,
    \<open>soar_db\<close> in \<open>Soar_Store\<close>, \<open>detect_db\<close> in \<open>Detect_Store\<close>). The primitives of
    \<open>Prelude\<close> (\<open>find_row\<close>, \<open>upd_row\<close>, \<open>insert_row\<close>, \<open>upd_where\<close>, \<open>count_where\<close>, \<open>latest\<close>) stand for the
    queries; a new row gets the largest key plus one.
  \<^item> An operation is a function of the state. It returns an \<open>exn + 'a\<close> and the new state, so that
    every \<open>raise\<close> is a value; the state after an exception holds what was committed before it.
  \<^item> The clock, SHA-256, Argon2, Fernet, the random generator, the HMAC of a one-time code, files
    and environment variables are arguments (records \<open>crypto\<close>, \<open>ctx\<close>, \<open>host\<close>, \<open>soc_env\<close>,
    \<open>soar_env\<close>, \<open>detect_env\<close>, \<open>float_texts\<close>, \<open>rule_loaders\<close>). A property that
    relies on one of them states what it relies on.
  \<^item> Text is a list of ASCII characters; Python's integers are \<open>int\<close> or \<open>nat\<close>; times are pairs of
    seconds and microseconds since 1970; decoded JSON is \<open>pyvalue\<close>, where a float keeps its text
    and its value is a parameter.

  \<^bold>\<open>Theories.\<close>

  \<^item> \<open>Prelude\<close>: strings, errors, tables (locale \<open>table_rows\<close>). \<open>Py_Values\<close>: JSON values and canonical
    JSON text with its injectivity. \<open>Py_Compare\<close>: comparison and truth of Python values.
    \<open>Iso_Time\<close>: \<open>isoformat\<close>. \<open>Net_Address\<close>: \<open>ipaddress\<close> and \<open>urlsplit\<close>. \<open>Sql_Query\<close>: \<open>LIKE\<close>, ordering,
    paging.
  \<^item> \<open>Access_Store\<close>: \<open>access_control/models.py\<close>, \<open>config.py\<close>. \<open>Access_Fixtures\<close>: a small installation for
    the witnesses. \<open>Passwords\<close>: \<open>password_service.py\<close>. \<open>Sessions\<close>: \<open>session_service.py\<close>,
    \<open>csrf_service.py\<close>. \<open>Rate_Limit\<close>: \<open>rate_limit_service.py\<close>. \<open>Roles\<close>: \<open>role_service.py\<close>. \<open>Users\<close>:
    \<open>user_service.py\<close>. \<open>Accounts\<close>: \<open>account_service.py\<close>. \<open>Mfa\<close>: \<open>mfa_service.py\<close>. \<open>Redaction\<close>:
    \<open>redaction.py\<close>. \<open>Audit_Log\<close>: \<open>audit_service.py\<close>. \<open>Authorization\<close>: \<open>authorization.py\<close> and the
    protected routers of \<open>main.py\<close>.
    \<open>Authentication\<close>: \<open>authentication.py\<close>. \<open>Request_Gate\<close>: \<open>dependencies.py\<close>. \<open>Auth_Router\<close>,
    \<open>Admin_Router\<close>, \<open>Audit_Router\<close>: the three routers of \<open>router.py\<close>. \<open>Admin_Safety\<close>: what all
    administration endpoints keep.
  \<^item> \<open>Production_Secrets\<close>: \<open>modules/production/secrets.py\<close>. \<open>Production_Config\<close>: \<open>config.py\<close>,
    \<open>headers.py\<close> and \<open>version.py\<close>.
  \<^item> \<open>Soar_Conditions\<close>: \<open>modules/soar/conditions.py\<close> and the condition check of \<open>validation.py\<close>.
    \<open>Soar_Catalog\<close>: \<open>catalog.py\<close>. \<open>Soar_Graph\<close>: the reachability and cycle search of \<open>validation.py\<close>.
    \<open>Soar_Validation\<close>: the rest of it. \<open>Soar_Validity\<close>: what a valid playbook is. \<open>Soar_Store\<close>:
    \<open>models.py\<close>. \<open>Soar_Execution\<close>: steps, dispatcher and \<open>run_execution\<close> of \<open>service.py\<close>.
    \<open>Soar_Operations\<close>: creation, approval, input, cancellation, retry, due delays and rollback.
    \<open>Soar_Limit\<close>: the dispatch limit. \<open>Soar_Events\<close>: runs as sequences of events. \<open>Soar_Quorum\<close>: the
    voting protocol and its refinement. \<open>Soar_Safety\<close>: the properties.
  \<^item> \<open>Soc_Store\<close>: \<open>modules/soc_monitor/models.py\<close>. \<open>Soc_Redaction\<close>: \<open>redaction.py\<close>. \<open>Soc_Correlation\<close>:
    \<open>correlation.py\<close>. \<open>Soc_Monitor\<close>: \<open>schemas.py\<close>, \<open>router.py\<close>, \<open>blocklist.py\<close>, \<open>enrichment.py\<close>,
    \<open>detection_rules.py\<close>. \<open>Soc_Ingest\<close>: \<open>normalization.py\<close> and the import of \<open>service.py\<close>.
  \<^item> Detection engineering, \<open>modules/detection_engineering\<close>. Of \<open>evaluator.py\<close>: \<open>Detect_Condition\<close> the
    tokens, the parser, the grammar and the printer of conditions, \<open>Detect_Match\<close> the comparison of
    a field with a value, \<open>Detect_Evaluator\<close> events, the normal form, evaluation and validation of rules,
    \<open>Detect_Meaning\<close> what an accepted rule means. \<open>Detect_Store\<close>: \<open>models.py\<close>, the limiter of \<open>router.py\<close>
    and \<open>post_commit_event\<close> of \<open>threat_intelligence/service.py\<close>. \<open>Detect_Rules\<close>: \<open>service.py\<close>, the tests of
    \<open>execution_service.py\<close>, the rule and test endpoints. \<open>Detect_Execution\<close>: suppressions, scores and
    executions of \<open>execution_service.py\<close>, the execution, match, suppression and pack endpoints.
    \<open>Detect_Import\<close>: \<open>import_service.py\<close> and its endpoints. \<open>Detect_Invariant\<close>, \<open>Detect_Served\<close>: what all
    requests keep. \<open>Detect_Scan\<close>: what an execution finds. \<open>Detect_Safety\<close>: the properties.

  \<^bold>\<open>What the theorems show.\<close>

  \<^item> Sessions: a lookup returns only live sessions of usable accounts, a revoked one never again,
    and no session outlives its absolute expiry, which never moves. Throttling and lockout close after the
    configured number of failures (locale \<open>attempt_limiter\<close>).
  \<^item> Accounts: registration never makes an administrator, review and administration keep an active
    administrator over any sequence of requests (locales \<open>admin_guard\<close>, \<open>account_invariant\<close>), and
    role changes give exactly the requested permissions.
  \<^item> Second factors: one-time codes are never replayed, exactly the recovery codes last shown are
    accepted, each once, challenges
    are bounded (locales \<open>one_time_factor\<close>, \<open>limited_factor\<close>).
  \<^item> Audit log: appending extends the hash chain, and verified logs with equal last hashes are equal
    (locale \<open>hash_chain\<close>, for any injective hash).
  \<^item> Gate: an endpoint runs only for a live session with the permissions of the request and, for a
    changing method, the CSRF token (locale \<open>request_guard\<close>); every request to a
    protected router of \<open>main.py\<close> needs a permission.
  \<^item> Production profile: only hardened configurations load (an asterisk inside an origin is not
    refused, though the documentation says so), secrets are the content of safe files.
  \<^item> SOAR conditions: a condition that passes the static check is evaluated to a verdict, within
    the counted comparisons, and agrees with a reference semantics without bounds.
  \<^item> SOAR playbooks: a valid definition is an acyclic graph of checked steps, so the limit of 50
    dispatches cuts nothing off. Every request is a sequence of events of a small step relation;
    by rule induction over it the approvals refine a voting protocol (locale \<open>served_refinement\<close>), an
    approval is granted by the required number of distinct users, accounts and sessions change
    only on a granted approval, and an active administrator remains.
  \<^item> SOC monitor: the sliding windows equal the windows recomputed from all events, a repeated
    detection run opens nothing new, the tables stay well-formed over any sequence of valid
    requests (locale \<open>served_invariant\<close>), the books of an import balance.
  \<^item> Detection engineering: the condition parser accepts exactly its grammar, printing is undone by
    parsing for names that do not begin with a word of the language and a hyphen, an accepted rule is
    bounded and means what its condition says on numbers that fit a double, and it keeps its meaning
    when stored if no value of it is a dictionary. Over any sequence of requests (locale \<open>served_invariant\<close>) the tables stay well-formed, versions are
    only added and only versions whose tests passed become active. An execution finds exactly the
    matching pairs and adds nothing when repeated, and the limiter keeps its window.

  \<^bold>\<open>Bounds and fuel.\<close> Recursions are structural or decrease a size, with two counters: \<open>run_loop\<close> has
  the 50 iterations of the source (\<open>Soar_Limit\<close> shows that more change nothing), and
  the depth of the cycle search is at most the number of steps (\<open>has_cycle_iff\<close> shows it exact). The
  parser of detection conditions terminates by the length of the rest of its tokens; its limit of 8 is the
  \<open>MAX_DEPTH\<close> of the source. The draws of a random password are a finite list of candidates, and running out of them is
  a value of its own; a theorem says when a draw succeeds.

  \<^bold>\<open>Not modelled.\<close> HTTP parsing and payload validation by pydantic (where its rules matter
  they are predicates such as \<open>rule_create_ok\<close>), text outside ASCII, concurrent transactions, database
  failures and integer overflow of columns. Of the program: web assembly, the scanner's network
  and browser work, document and e-mail parsing with third-party packages, trained models, backups
  on the file system, scripts around the services, and the front end. The modules for analytics,
  API security, integrations, threat intelligence, unified correlation, vulnerability management,
  governance and platform operations and the log parsers are left to later extensions. Of the SOAR
  module the local actions on tables of other modules and the reading of their records are
  arguments of the model (\<open>sn_local_action\<close>, \<open>sn_read_context\<close>); editing playbooks, trigger rules, seeds
  and reports are not modelled. Of detection engineering the escalation to incident cases, the seeded
  catalog, reports and read-only views are not modelled.
\<close>

end
